(* ===== verification/Prelude.thy ===== *)
theory Prelude
  imports Main "HOL-Library.Product_Lexorder"
begin

text \<open>
  Shared vocabulary of the development.

  \<^item> Raising code: a computation that may raise is a value of \<open>error + 'a\<close>; \<open>bindE\<close> sequences
    two of them, \<open>require\<close> and \<open>require_some\<close> are the guards \<open>if not c: raise e\<close> and
    \<open>if x is None: raise e\<close>. Their inversion rules are simp rules, so that simplifying
    \<open>op s = Inr r\<close> with the definition of \<open>op\<close> yields the conjunction of the guards passed.
  \<^item> Tables: a table is the list of its rows. \<open>first_by\<close> is the ORM's \<open>.order_by(k).first()\<close>
    (an unordered \<open>.first()\<close> orders by primary key), \<open>update_where\<close> its filtered update.
  \<^item> Python text as lists of code points, with \<open>str.strip\<close> written out.
\<close>

named_theorems table_simps \<open>how table writes act on the tables\<close>
named_theorems access_simps \<open>characterisations of the access predicates\<close>

subsection \<open>Raising computations\<close>

definition bindE :: "'e + 'a \<Rightarrow> ('a \<Rightarrow> 'e + 'b) \<Rightarrow> 'e + 'b" where
  "bindE m f = (case m of Inl e \<Rightarrow> Inl e | Inr a \<Rightarrow> f a)"

definition require :: "bool \<Rightarrow> 'e \<Rightarrow> 'e + 'b \<Rightarrow> 'e + 'b" where
  "require c e k = (if c then k else Inl e)"

definition require_some :: "'a option \<Rightarrow> 'e \<Rightarrow> ('a \<Rightarrow> 'e + 'b) \<Rightarrow> 'e + 'b" where
  "require_some x e f = (case x of None \<Rightarrow> Inl e | Some a \<Rightarrow> f a)"

lemma bindE_simps [simp]: "bindE (Inr a) f = f a" "bindE (Inl e) f = Inl e"
  by (simp_all add: bindE_def)

lemma require_simps [simp]: "require True e k = k" "require False e k = Inl e"
  by (simp_all add: require_def)

lemma require_some_simps [simp]:
  "require_some (Some a) e f = f a" "require_some None e f = Inl e"
  by (simp_all add: require_some_def)

lemma bindE_eq_Inr [simp]: "bindE m f = Inr b \<longleftrightarrow> (\<exists>a. m = Inr a \<and> f a = Inr b)"
  by (cases m) auto

lemma require_eq_Inr [simp]: "require c e k = Inr b \<longleftrightarrow> c \<and> k = Inr b"
  by (cases c) auto

lemma require_some_eq_Inr [simp]:
  "require_some x e f = Inr b \<longleftrightarrow> (\<exists>a. x = Some a \<and> f a = Inr b)"
  by (cases x) auto

lemma require_cong [cong]: "c = c' \<Longrightarrow> require c e k = require c' e k"
  by simp

lemma bindE_cong [cong]: "m = m' \<Longrightarrow> bindE m f = bindE m' f"
  by simp

lemma require_some_cong [cong]: "x = x' \<Longrightarrow> require_some x e f = require_some x' e f"
  by simp

text \<open>
  An argument of a Python function as the callee sees it: a value its field accepts, or one whose
  conversion raises \<open>TypeError\<close>, \<open>ValueError\<close> or \<open>ValidationError\<close>.
\<close>

datatype 'a arg = Val 'a | Malformed

lemma case_arg_eq_Inr [simp]:
  "(case a of Val x \<Rightarrow> f x | Malformed \<Rightarrow> Inl e) = Inr r \<longleftrightarrow> (\<exists>x. a = Val x \<and> f x = Inr r)"
  by (cases a) simp_all

lemma case_arg_require_eq_Inr [simp]:
  "(case a of Val x \<Rightarrow> f x | Malformed \<Rightarrow> require c e' (Inl e)) = Inr r \<longleftrightarrow> (\<exists>x. a = Val x \<and> f x = Inr r)"
  by (cases a) simp_all

text \<open>A keyword argument whose default is the module's \<open>_UNSET\<close> sentinel.\<close>

datatype 'a setting = Unset | Set 'a

fun set_or :: "'a setting \<Rightarrow> 'a \<Rightarrow> 'a" where
  "set_or Unset old = old"
| "set_or (Set v) old = v"

subsection \<open>Tables\<close>

type_synonym uuid = nat
type_synonym time = int

fun first_by :: "('r \<Rightarrow> 'k::linorder) \<Rightarrow> ('r \<Rightarrow> bool) \<Rightarrow> 'r list \<Rightarrow> 'r option" where
  "first_by k P [] = None"
| "first_by k P (x # xs) =
     (case first_by k P xs of
        None \<Rightarrow> if P x then Some x else None
      | Some y \<Rightarrow> if P x \<and> k x \<le> k y then Some x else Some y)"

lemma first_by_None [simp]: "first_by k P xs = None \<longleftrightarrow> (\<forall>x\<in>set xs. \<not> P x)"
  by (induction xs) (auto split: option.splits)

lemma first_by_Some_in: "first_by k P xs = Some x \<Longrightarrow> x \<in> set xs \<and> P x"
  by (induction xs arbitrary: x) (auto split: option.splits if_splits)

lemma first_by_Some_least:
  "first_by k P xs = Some x \<Longrightarrow> y \<in> set xs \<Longrightarrow> P y \<Longrightarrow> k x \<le> k y"
  by (induction xs arbitrary: x) (force split: option.splits if_splits)+

lemma first_by_ex: "x \<in> set xs \<Longrightarrow> P x \<Longrightarrow> \<exists>y. first_by k P xs = Some y"
  by (metis first_by_None not_None_eq)

lemma first_by_obtain:
  assumes "x \<in> set xs" "P x"
  obtains y where "first_by k P xs = Some y" "y \<in> set xs" "P y"
  using first_by_ex [of x xs P k, OF assms] first_by_Some_in [of k P xs] that by auto

lemma first_by_unique:
  assumes "x \<in> set xs" "P x" "\<And>y. y \<in> set xs \<Longrightarrow> P y \<Longrightarrow> y = x"
  shows "first_by k P xs = Some x"
  using assms first_by_ex [of x xs P k] first_by_Some_in by metis

definition update_where :: "('r \<Rightarrow> bool) \<Rightarrow> ('r \<Rightarrow> 'r) \<Rightarrow> 'r list \<Rightarrow> 'r list" where
  "update_where P f rows = map (\<lambda>r. if P r then f r else r) rows"

lemma set_update_where [table_simps]:
  "set (update_where P f rows) = (\<lambda>r. if P r then f r else r) ` set rows"
  by (simp add: update_where_def)

lemma map_update_where: "(\<And>r. P r \<Longrightarrow> g (f r) = g r) \<Longrightarrow> map g (update_where P f rows) = map g rows"
  by (simp add: update_where_def)

lemma update_where_noop [simp]: "(\<And>r. r \<in> set rows \<Longrightarrow> \<not> P r) \<Longrightarrow> update_where P f rows = rows"
  by (simp add: update_where_def map_idI)

lemma in_update_where:
  "r' \<in> set (update_where P f rows) \<longleftrightarrow>
     (\<exists>r\<in>set rows. r' = (if P r then f r else r))"
  by (auto simp: update_where_def)

lemma distinct_map_eq: "distinct (map k xs) \<Longrightarrow> x \<in> set xs \<Longrightarrow> y \<in> set xs \<Longrightarrow> k x = k y \<Longrightarrow> x = y"
  by (auto simp: distinct_map inj_on_def)

lemma distinct_map_filter_eq:
  "distinct (map k (filter P xs)) \<Longrightarrow> x \<in> set xs \<Longrightarrow> y \<in> set xs \<Longrightarrow> P x \<Longrightarrow> P y \<Longrightarrow> k x = k y \<Longrightarrow> x = y"
  by (rule distinct_map_eq [of k "filter P xs"]) auto

lemma distinct_map_filterI:
  "distinct xs \<Longrightarrow> (\<And>x y. x \<in> set xs \<Longrightarrow> y \<in> set xs \<Longrightarrow> P x \<Longrightarrow> P y \<Longrightarrow> k x = k y \<Longrightarrow> x = y) \<Longrightarrow>
   distinct (map k (filter P xs))"
  by (auto simp: distinct_map inj_on_def)

lemma distinct_of_map: "distinct (map k xs) \<Longrightarrow> distinct xs"
  by (simp add: distinct_map)

subsection \<open>Python text\<close>

type_synonym ptext = "nat list"

text \<open>The code points \<open>str.isspace\<close> accepts, which \<open>str.strip\<close> removes from both ends.\<close>

definition py_isspace :: "nat \<Rightarrow> bool" where
  "py_isspace c \<longleftrightarrow> (9 \<le> c \<and> c \<le> 13) \<or> (28 \<le> c \<and> c \<le> 32) \<or> c = 133 \<or> c = 160 \<or> c = 5760
     \<or> (8192 \<le> c \<and> c \<le> 8202) \<or> c = 8232 \<or> c = 8233 \<or> c = 8239 \<or> c = 8287 \<or> c = 12288"

definition strip :: "ptext \<Rightarrow> ptext" where
  "strip t = rev (dropWhile py_isspace (rev (dropWhile py_isspace t)))"

text \<open>\<open>value or ""\<close> for an optional text.\<close>

definition text_or_empty :: "ptext option \<Rightarrow> ptext" where
  "text_or_empty t = (case t of None \<Rightarrow> [] | Some s \<Rightarrow> s)"

text \<open>\<open>str.encode("utf-8", errors="strict")\<close> fails exactly on surrogate code points.\<close>

definition utf8_encodable :: "ptext \<Rightarrow> bool" where
  "utf8_encodable t \<longleftrightarrow> (\<forall>c\<in>set t. \<not> (55296 \<le> c \<and> c \<le> 57343))"

lemma dropWhile_idem [simp]: "dropWhile P (dropWhile P xs) = dropWhile P xs"
  by (induction xs) auto

lemma dropWhile_rev_dropWhile:
  "dropWhile P (rev (dropWhile P (rev (dropWhile P xs)))) = rev (dropWhile P (rev (dropWhile P xs)))"
proof (cases "dropWhile P xs")
  case Nil
  then show ?thesis by (simp only: rev.simps dropWhile.simps)
next
  case (Cons y ys)
  then have y: "\<not> P y" by (metis hd_dropWhile list.sel(1) list.distinct(1))
  obtain zs where "dropWhile P (rev (y # ys)) = zs @ [y]"
    using y by (fastforce simp: dropWhile_append)
  then have "rev (dropWhile P (rev (y # ys))) = y # rev zs"
    by simp
  with Cons y show ?thesis by simp
qed

lemma strip_idem [simp]: "strip (strip t) = strip t"
  by (simp add: strip_def dropWhile_rev_dropWhile)

lemma length_strip: "length (strip t) \<le> length t"
  by (simp add: strip_def) (metis length_dropWhile_le length_rev order.trans)

lemma set_strip: "set (strip t) \<subseteq> set t"
  by (auto simp: strip_def dest!: set_dropWhileD)

text \<open>A string constant of the code as a text.\<close>

definition ascii :: "string \<Rightarrow> ptext" where
  "ascii s = map of_char s"

lemma ascii_eq [simp]: "ascii s = ascii t \<longleftrightarrow> s = t"
  by (simp add: ascii_def inj_map_eq_map [OF inj_of_char])

lemma ascii_encodable [simp]: "utf8_encodable (ascii s)"
proof -
  have lt: "of_char c < (256 :: nat)" for c :: char
    using of_char_mod_256 [of c, where 'a = nat] mod_less_divisor [of 256 "of_char c :: nat"] by simp
  have "\<not> 55296 \<le> (of_char c :: nat)" for c :: char
    using lt [of c] by linarith
  then show ?thesis by (simp add: utf8_encodable_def ascii_def)
qed

end
