(* ===== verification/Schema.thy ===== *)
theory Schema
  imports Prelude
begin

text \<open>
  The relational state: one record per model class of \<open>apps/*/models.py\<close>, one field of \<open>db\<close> per
  table, and for each table the predicate \<open>*_ok\<close> that collects the constraints of the model's
  \<open>Meta\<close> (primary key, unique, conditional unique and check constraints). A write that would
  leave a table violating them is an \<open>IntegrityError\<close>, as in PostgreSQL.
\<close>

subsection \<open>Exceptions\<close>

text \<open>
  The exception classes the services raise. The string is the first offending field of a
  \<open>ValidationError\<close>'s message dictionary; human readable messages are not modelled.
\<close>

datatype error =
    TenantAccessNotFound
  | PermissionDenied
  | ValidationError string
  | LastActiveProfileOwnerError
  | WorkspaceMembershipConflict
  | WorkspacePeriodConflict
  | InvalidWorkspaceMembershipReference string
  | TaskWorkflowConflict
  | TaskAssignmentConflict
  | DeliverableReviewConflict
  | InvalidTaskAssignmentReference
  | InvitationConflict
  | InvitationRateLimitExceeded
  | InvitationDeliveryUnavailable
  | IntegrityError
  | DoesNotExist
  | UnicodeEncodeError
  | AmbiguousAccountIdentity
  | AmbiguousInvitationIdentity
  | EmailDeliveryUnavailable
  | AccountSecurityConflict
  | AccountSecurityDeliveryUnavailable
  | NotUpdated

text \<open>Django's \<open>ValidationError\<close> and its subclasses in this repository.\<close>

fun is_validation_error :: "error \<Rightarrow> bool" where
  "is_validation_error (ValidationError _) = True"
| "is_validation_error LastActiveProfileOwnerError = True"
| "is_validation_error WorkspaceMembershipConflict = True"
| "is_validation_error WorkspacePeriodConflict = True"
| "is_validation_error (InvalidWorkspaceMembershipReference _) = True"
| "is_validation_error TaskWorkflowConflict = True"
| "is_validation_error TaskAssignmentConflict = True"
| "is_validation_error DeliverableReviewConflict = True"
| "is_validation_error InvalidTaskAssignmentReference = True"
| "is_validation_error _ = False"

fun is_task_workflow_conflict :: "error \<Rightarrow> bool" where
  "is_task_workflow_conflict TaskWorkflowConflict = True"
| "is_task_workflow_conflict TaskAssignmentConflict = True"
| "is_task_workflow_conflict DeliverableReviewConflict = True"
| "is_task_workflow_conflict _ = False"

subsection \<open>Choices\<close>

datatype profile_status = PS_ACTIVE | PS_ARCHIVED
datatype profile_role = PR_OWNER | PR_ADMIN | PR_MEMBER
datatype ws_status = WS_ACTIVE | WS_ARCHIVED
datatype ws_role = WR_OWNER | WR_ADMIN | WR_MEMBER | WR_VIEWER
datatype task_status = TS_PENDING | TS_ASSIGNED | TS_WORKING | TS_REVIEW | TS_COMPLETED | TS_CANCELLED
datatype priority = PRI_LOW | PRI_MEDIUM | PRI_HIGH | PRI_URGENT
datatype deliverable_status = DS_PENDING | DS_SUBMITTED | DS_APPROVED | DS_REJECTED
datatype review_status = RS_PENDING | RS_APPROVED | RS_REQUEST_CHANGE
datatype event_type =
  TASK_ASSIGNED | REVIEW_SUBMITTED | REVIEW_APPROVED | REVIEW_CHANGES_REQUESTED | TASK_COMMENTED
datatype inv_role = IR_ADMIN | IR_MEMBER
datatype inv_status = IS_PENDING | IS_ACCEPTED | IS_DECLINED | IS_REVOKED | IS_EXPIRED
datatype delivery_status = DL_QUEUED | DL_SENT | DL_FAILED

text \<open>\<open>datetime.date\<close>; the period of a Workspace is the first day of a month.\<close>

datatype date = Date (date_year: int) (date_month: nat) (date_day: nat)

text \<open>
  The JSON values audit metadata holds: ASCII constants of the code, text of users, and the
  canonical string form \<open>str(uuid)\<close> of an identifier, which is injective.
\<close>

datatype json =
    JNull
  | JBool bool
  | JInt int
  | JStr string
  | JText ptext
  | JUuid uuid
  | JList "json list"
  | JObj "(string \<times> json) list"

definition juuid_opt :: "uuid option \<Rightarrow> json" where
  "juuid_opt u = (case u of None \<Rightarrow> JNull | Some i \<Rightarrow> JUuid i)"

text \<open>\<open>dict.get(key)\<close> of a metadata dictionary, \<open>None\<close> for a missing key.\<close>

definition meta_get :: "(string \<times> json) list \<Rightarrow> string \<Rightarrow> json" where
  "meta_get m k = (case map_of m k of None \<Rightarrow> JNull | Some v \<Rightarrow> v)"

subsection \<open>Rows\<close>

record user =
  u_id :: uuid
  u_email :: ptext
  u_password :: ptext
  u_is_active :: bool
  u_email_verified_at :: "time option"
  u_verified_email :: "ptext option"
  u_updated_at :: time

record profile =
  p_id :: uuid
  p_name :: ptext
  p_status :: profile_status
  p_created_at :: time
  p_updated_at :: time

record profile_membership =
  pm_id :: uuid
  pm_profile :: uuid
  pm_user :: uuid
  pm_role :: profile_role
  pm_is_active :: bool
  pm_joined_at :: time
  pm_created_at :: time
  pm_updated_at :: time

record workspace =
  w_id :: uuid
  w_name :: ptext
  w_description :: "ptext option"
  w_profile :: "uuid option"
  w_owner :: uuid
  w_period :: "date option"
  w_status :: ws_status
  w_created_at :: time
  w_updated_at :: time

record workspace_member =
  wm_id :: uuid
  wm_workspace :: uuid
  wm_user :: uuid
  wm_role :: ws_role
  wm_is_active :: bool
  wm_joined_at :: time
  wm_updated_at :: time

record audit_log =
  al_id :: uuid
  al_user :: "uuid option"
  al_action :: string
  al_entity_name :: string
  al_entity_id :: "uuid option"
  al_metadata :: "(string \<times> json) list"
  al_created_at :: time

record task =
  t_id :: uuid
  t_workspace :: uuid
  t_parent :: "uuid option"
  t_title :: ptext
  t_description :: "ptext option"
  t_status :: task_status
  t_priority :: priority
  t_deadline :: "time option"
  t_created_by :: uuid
  t_created_at :: time
  t_updated_at :: time

record task_assignment =
  ta_id :: uuid
  ta_task :: uuid
  ta_user :: uuid
  ta_is_active :: bool
  ta_assigned_at :: time
  ta_updated_at :: time

record task_comment =
  tc_id :: uuid
  tc_task :: uuid
  tc_user :: uuid
  tc_content :: ptext
  tc_edited_at :: "time option"
  tc_deleted_at :: "time option"
  tc_created_at :: time
  tc_updated_at :: time

record deliverable =
  d_id :: uuid
  d_task :: uuid
  d_file_url :: ptext
  d_uploaded_by :: uuid
  d_revision :: "int option"
  d_status :: deliverable_status
  d_created_at :: time
  d_updated_at :: time

record review =
  r_id :: uuid
  r_deliverable :: uuid
  r_reviewer :: uuid
  r_status :: review_status
  r_comment :: "ptext option"
  r_created_at :: time
  r_updated_at :: time

record notification =
  n_id :: uuid
  n_user :: uuid
  n_title :: string
  n_message :: string
  n_is_read :: bool
  n_event_type :: "event_type option"
  n_profile :: "uuid option"
  n_workspace :: "uuid option"
  n_task :: "uuid option"
  n_event :: "uuid option"
  n_created_at :: time
  n_updated_at :: time

record invitation =
  pi_id :: uuid
  pi_profile :: uuid
  pi_email :: ptext
  pi_recipient_user :: "uuid option"
  pi_requested_role :: inv_role
  pi_invited_by :: uuid
  pi_token_digest :: string
  pi_status :: inv_status
  pi_expires_at :: time
  pi_delivery_status :: delivery_status
  pi_delivery_attempted_at :: "time option"
  pi_delivered_at :: "time option"
  pi_accepted_at :: "time option"
  pi_accepted_by :: "uuid option"
  pi_declined_at :: "time option"
  pi_declined_by :: "uuid option"
  pi_revoked_at :: "time option"
  pi_revoked_by :: "uuid option"
  pi_expired_at :: "time option"
  pi_replaces :: "uuid option"
  pi_created_at :: time
  pi_updated_at :: time

record db =
  users :: "user list"
  profiles :: "profile list"
  memberships :: "profile_membership list"
  workspaces :: "workspace list"
  members :: "workspace_member list"
  invitations :: "invitation list"
  tasks :: "task list"
  assignments :: "task_assignment list"
  comments :: "task_comment list"
  deliverables :: "deliverable list"
  reviews :: "review list"
  notifications :: "notification list"
  audit_logs :: "audit_log list"

text \<open>
  What a call draws from outside the database: the clock reading of \<open>timezone.now()\<close> in
  microseconds (also the value of \<open>auto_now\<close> and \<open>auto_now_add\<close> fields written by the call), the
  values \<open>uuid.uuid4()\<close> returns, in the order the call draws them, and the token of
  \<open>secrets.token_urlsafe\<close>. Nothing is assumed of them: an identifier that is already taken makes
  the insertion an \<open>IntegrityError\<close>. The other fields are the library functions whose tables or
  algorithms are not part of the program: \<open>str.casefold\<close>, the database's \<open>iexact\<close> comparison, the
  hexadecimal SHA-256 digest of a text's UTF-8 bytes, Django's e-mail validator; and the
  configured default mailer, \<open>settings.MAILERS["default"]["BACKEND"]\<close>.
\<close>

record env =
  e_now :: time
  e_uuid :: "nat \<Rightarrow> uuid"
  e_token :: ptext
  e_casefold :: "ptext \<Rightarrow> ptext"
  e_iexact :: "ptext \<Rightarrow> ptext \<Rightarrow> bool"
  e_sha256 :: "ptext \<Rightarrow> string"
  e_valid_email :: "ptext \<Rightarrow> bool"
  e_mail_backend :: "string option"

end
