(* ===== verification/Tables.thy ===== *)
theory Tables
  imports Schema
begin

text \<open>
  The tables' constraints and their writes, and the interface \<open>table\<close> that every table of the
  database provides: reading back what was written, the primary key, the constraints after a
  write. Clients use the interface's lookup laws; each table interprets it.
\<close>

subsection \<open>Constraints of the models' Meta classes\<close>

definition profiles_ok :: "profile list \<Rightarrow> bool" where
  "profiles_ok ps \<longleftrightarrow> distinct (map p_id ps)"

definition memberships_ok :: "profile_membership list \<Rightarrow> bool" where
  "memberships_ok ms \<longleftrightarrow> distinct (map pm_id ms)
     \<and> distinct (map (\<lambda>m. (pm_profile m, pm_user m)) (filter pm_is_active ms))"

definition workspaces_ok :: "workspace list \<Rightarrow> bool" where
  "workspaces_ok ws \<longleftrightarrow> distinct (map w_id ws)
     \<and> (\<forall>w\<in>set ws. case w_period w of None \<Rightarrow> True | Some d \<Rightarrow> date_day d = 1)
     \<and> distinct (map (\<lambda>w. (w_profile w, w_period w))
          (filter (\<lambda>w. w_profile w \<noteq> None \<and> w_period w \<noteq> None) ws))"

definition members_ok :: "workspace_member list \<Rightarrow> bool" where
  "members_ok ms \<longleftrightarrow> distinct (map wm_id ms) \<and> distinct (map (\<lambda>m. (wm_workspace m, wm_user m)) ms)"

definition tasks_ok :: "task list \<Rightarrow> bool" where
  "tasks_ok ts \<longleftrightarrow> distinct (map t_id ts) \<and> (\<forall>t\<in>set ts. t_parent t \<noteq> Some (t_id t))"

definition assignments_ok :: "task_assignment list \<Rightarrow> bool" where
  "assignments_ok as \<longleftrightarrow> distinct (map ta_id as) \<and> distinct (map (\<lambda>a. (ta_task a, ta_user a)) as)
     \<and> distinct (map ta_task (filter ta_is_active as))"

definition comments_ok :: "task_comment list \<Rightarrow> bool" where
  "comments_ok cs \<longleftrightarrow> distinct (map tc_id cs)
     \<and> (\<forall>c\<in>set cs. case tc_edited_at c of None \<Rightarrow> True | Some e \<Rightarrow> tc_created_at c \<le> e)
     \<and> (\<forall>c\<in>set cs. case tc_deleted_at c of None \<Rightarrow> True | Some e \<Rightarrow> tc_created_at c \<le> e)"

definition deliverables_ok :: "deliverable list \<Rightarrow> bool" where
  "deliverables_ok ds \<longleftrightarrow> distinct (map d_id ds)
     \<and> (\<forall>d\<in>set ds. case d_revision d of None \<Rightarrow> True | Some r \<Rightarrow> 1 \<le> r)
     \<and> distinct (map (\<lambda>d. (d_task d, d_revision d)) (filter (\<lambda>d. d_revision d \<noteq> None) ds))"

definition reviews_ok :: "review list \<Rightarrow> bool" where
  "reviews_ok rs \<longleftrightarrow> distinct (map r_id rs) \<and> distinct (map r_deliverable rs)"

definition notification_context_complete :: "notification \<Rightarrow> bool" where
  "notification_context_complete n \<longleftrightarrow>
     (n_event_type n = None \<and> n_profile n = None \<and> n_workspace n = None \<and> n_task n = None
        \<and> n_event n = None)
     \<or> (n_event_type n \<noteq> None \<and> n_profile n \<noteq> None \<and> n_workspace n \<noteq> None \<and> n_task n \<noteq> None
        \<and> n_event n \<noteq> None)"

definition notifications_ok :: "notification list \<Rightarrow> bool" where
  "notifications_ok ns \<longleftrightarrow> distinct (map n_id ns) \<and> (\<forall>n\<in>set ns. notification_context_complete n)
     \<and> distinct (map (\<lambda>n. (n_user n, n_event n)) (filter (\<lambda>n. n_event n \<noteq> None) ns))"

definition audit_logs_ok :: "audit_log list \<Rightarrow> bool" where
  "audit_logs_ok ls \<longleftrightarrow> distinct (map al_id ls)"

text \<open>The check constraints \<open>pinv_*\<close> of one invitation; role, status and delivery are enumerations.\<close>

definition invitation_terminal_state_valid :: "invitation \<Rightarrow> bool" where
  "invitation_terminal_state_valid i \<longleftrightarrow>
     (pi_accepted_at i \<noteq> None) = (pi_status i = IS_ACCEPTED) \<and>
     (pi_accepted_by i \<noteq> None) = (pi_status i = IS_ACCEPTED) \<and>
     (pi_declined_at i \<noteq> None) = (pi_status i = IS_DECLINED) \<and>
     (pi_declined_by i \<noteq> None) = (pi_status i = IS_DECLINED) \<and>
     (pi_revoked_at i \<noteq> None) = (pi_status i = IS_REVOKED) \<and>
     (pi_revoked_by i \<noteq> None) = (pi_status i = IS_REVOKED) \<and>
     (pi_expired_at i \<noteq> None) = (pi_status i = IS_EXPIRED)"

definition invitation_delivery_state_valid :: "invitation \<Rightarrow> bool" where
  "invitation_delivery_state_valid i \<longleftrightarrow> (case pi_delivery_status i of
     DL_QUEUED \<Rightarrow> pi_delivered_at i = None
   | DL_FAILED \<Rightarrow> pi_delivery_attempted_at i \<noteq> None \<and> pi_delivered_at i = None
   | DL_SENT \<Rightarrow> pi_delivery_attempted_at i \<noteq> None \<and> pi_delivered_at i \<noteq> None)"

definition invitation_row_ok :: "invitation \<Rightarrow> bool" where
  "invitation_row_ok i \<longleftrightarrow> invitation_terminal_state_valid i
     \<and> (pi_status i \<notin> {IS_ACCEPTED, IS_DECLINED} \<or> pi_delivery_status i = DL_SENT)
     \<and> pi_created_at i < pi_expires_at i \<and> invitation_delivery_state_valid i"

definition invitations_ok :: "invitation list \<Rightarrow> bool" where
  "invitations_ok is \<longleftrightarrow> distinct (map pi_id is) \<and> distinct (map pi_token_digest is)
     \<and> distinct (map pi_replaces (filter (\<lambda>i. pi_replaces i \<noteq> None) is))
     \<and> (\<forall>i\<in>set is. invitation_row_ok i)
     \<and> distinct (map (\<lambda>i. (pi_profile i, pi_email i)) (filter (\<lambda>i. pi_status i = IS_PENDING) is))
     \<and> distinct (map (\<lambda>i. (pi_profile i, pi_recipient_user i))
         (filter (\<lambda>i. pi_status i = IS_PENDING \<and> pi_recipient_user i \<noteq> None) is))"

lemmas ok_defs = profiles_ok_def memberships_ok_def workspaces_ok_def members_ok_def tasks_ok_def
  assignments_ok_def comments_ok_def deliverables_ok_def reviews_ok_def notifications_ok_def
  audit_logs_ok_def invitations_ok_def

subsection \<open>Writes\<close>

definition write_profiles :: "profile list \<Rightarrow> db \<Rightarrow> error + db" where
  "write_profiles rs s = (if profiles_ok rs then Inr (s\<lparr>profiles := rs\<rparr>) else Inl IntegrityError)"

definition write_memberships :: "profile_membership list \<Rightarrow> db \<Rightarrow> error + db" where
  "write_memberships rs s =
     (if memberships_ok rs then Inr (s\<lparr>memberships := rs\<rparr>) else Inl IntegrityError)"

definition write_workspaces :: "workspace list \<Rightarrow> db \<Rightarrow> error + db" where
  "write_workspaces rs s =
     (if workspaces_ok rs then Inr (s\<lparr>workspaces := rs\<rparr>) else Inl IntegrityError)"

definition write_members :: "workspace_member list \<Rightarrow> db \<Rightarrow> error + db" where
  "write_members rs s = (if members_ok rs then Inr (s\<lparr>members := rs\<rparr>) else Inl IntegrityError)"

definition write_tasks :: "task list \<Rightarrow> db \<Rightarrow> error + db" where
  "write_tasks rs s = (if tasks_ok rs then Inr (s\<lparr>tasks := rs\<rparr>) else Inl IntegrityError)"

definition write_assignments :: "task_assignment list \<Rightarrow> db \<Rightarrow> error + db" where
  "write_assignments rs s =
     (if assignments_ok rs then Inr (s\<lparr>assignments := rs\<rparr>) else Inl IntegrityError)"

definition write_comments :: "task_comment list \<Rightarrow> db \<Rightarrow> error + db" where
  "write_comments rs s = (if comments_ok rs then Inr (s\<lparr>comments := rs\<rparr>) else Inl IntegrityError)"

definition write_deliverables :: "deliverable list \<Rightarrow> db \<Rightarrow> error + db" where
  "write_deliverables rs s =
     (if deliverables_ok rs then Inr (s\<lparr>deliverables := rs\<rparr>) else Inl IntegrityError)"

definition write_reviews :: "review list \<Rightarrow> db \<Rightarrow> error + db" where
  "write_reviews rs s = (if reviews_ok rs then Inr (s\<lparr>reviews := rs\<rparr>) else Inl IntegrityError)"

definition write_notifications :: "notification list \<Rightarrow> db \<Rightarrow> error + db" where
  "write_notifications rs s =
     (if notifications_ok rs then Inr (s\<lparr>notifications := rs\<rparr>) else Inl IntegrityError)"

definition write_audit_logs :: "audit_log list \<Rightarrow> db \<Rightarrow> error + db" where
  "write_audit_logs rs s =
     (if audit_logs_ok rs then Inr (s\<lparr>audit_logs := rs\<rparr>) else Inl IntegrityError)"

definition write_invitations :: "invitation list \<Rightarrow> db \<Rightarrow> error + db" where
  "write_invitations rs s =
     (if invitations_ok rs then Inr (s\<lparr>invitations := rs\<rparr>) else Inl IntegrityError)"

lemma write_eq_Inr [simp]:
  "write_profiles ps s = Inr s' \<longleftrightarrow> profiles_ok ps \<and> s' = s\<lparr>profiles := ps\<rparr>"
  "write_memberships pms s = Inr s' \<longleftrightarrow> memberships_ok pms \<and> s' = s\<lparr>memberships := pms\<rparr>"
  "write_workspaces ws s = Inr s' \<longleftrightarrow> workspaces_ok ws \<and> s' = s\<lparr>workspaces := ws\<rparr>"
  "write_members wms s = Inr s' \<longleftrightarrow> members_ok wms \<and> s' = s\<lparr>members := wms\<rparr>"
  "write_tasks ts s = Inr s' \<longleftrightarrow> tasks_ok ts \<and> s' = s\<lparr>tasks := ts\<rparr>"
  "write_assignments tas s = Inr s' \<longleftrightarrow> assignments_ok tas \<and> s' = s\<lparr>assignments := tas\<rparr>"
  "write_comments cs s = Inr s' \<longleftrightarrow> comments_ok cs \<and> s' = s\<lparr>comments := cs\<rparr>"
  "write_deliverables ds s = Inr s' \<longleftrightarrow> deliverables_ok ds \<and> s' = s\<lparr>deliverables := ds\<rparr>"
  "write_reviews rs s = Inr s' \<longleftrightarrow> reviews_ok rs \<and> s' = s\<lparr>reviews := rs\<rparr>"
  "write_notifications ns s = Inr s' \<longleftrightarrow> notifications_ok ns \<and> s' = s\<lparr>notifications := ns\<rparr>"
  "write_audit_logs ls s = Inr s' \<longleftrightarrow> audit_logs_ok ls \<and> s' = s\<lparr>audit_logs := ls\<rparr>"
  "write_invitations is s = Inr s' \<longleftrightarrow> invitations_ok is \<and> s' = s\<lparr>invitations := is\<rparr>"
  by (auto simp: write_profiles_def write_memberships_def write_workspaces_def write_members_def
      write_tasks_def write_assignments_def write_comments_def write_deliverables_def
      write_reviews_def write_notifications_def write_audit_logs_def write_invitations_def)

subsection \<open>The interface of a table\<close>

text \<open>\<open>Model.objects.filter(pk=i).first()\<close>.\<close>

definition lookup_pk :: "('r \<Rightarrow> uuid) \<Rightarrow> uuid \<Rightarrow> 'r list \<Rightarrow> 'r option" where
  "lookup_pk pk i rows = first_by pk (\<lambda>r. pk r = i) rows"

lemma lookup_pk_Some: "lookup_pk pk i rows = Some r \<Longrightarrow> r \<in> set rows \<and> pk r = i"
  unfolding lookup_pk_def by (drule first_by_Some_in) simp

lemma lookup_pk_None [simp]: "lookup_pk pk i rows = None \<longleftrightarrow> i \<notin> pk ` set rows"
  by (auto simp: lookup_pk_def)

lemma lookup_pk_eq:
  assumes d: "distinct (map pk rows)"
  shows "lookup_pk pk i rows = Some r \<longleftrightarrow> r \<in> set rows \<and> pk r = i"
proof
  assume "lookup_pk pk i rows = Some r"
  then show "r \<in> set rows \<and> pk r = i" by (rule lookup_pk_Some)
next
  assume r: "r \<in> set rows \<and> pk r = i"
  have "first_by pk (\<lambda>r. pk r = i) rows = Some r"
    using r by (intro first_by_unique) (auto intro: distinct_map_eq [OF d])
  then show "lookup_pk pk i rows = Some r" by (simp add: lookup_pk_def)
qed

locale table =
  fixes rows :: "'s \<Rightarrow> 'r list"
    and put :: "'r list \<Rightarrow> 's \<Rightarrow> 's"
    and pk :: "'r \<Rightarrow> uuid"
    and ok :: "'r list \<Rightarrow> bool"
    and commit :: "'r list \<Rightarrow> 's \<Rightarrow> error + 's"
  assumes rows_put: "rows (put rs s) = rs"
    and commit_eq: "commit rs s = (if ok rs then Inr (put rs s) else Inl IntegrityError)"
    and ok_pk: "ok rs \<Longrightarrow> distinct (map pk rs)"
begin

lemma commit_rows: "commit rs s = Inr s' \<Longrightarrow> rows s' = rs \<and> ok (rows s')"
  by (auto simp: commit_eq rows_put split: if_splits)

lemma lookup_insert:
  assumes "commit (rows s @ [r]) s = Inr s'"
  shows "lookup_pk pk i (rows s') = (if i = pk r then Some r else lookup_pk pk i (rows s))"
proof -
  have s': "rows s' = rows s @ [r]" using commit_rows [OF assms] by (rule conjunct1)
  have "distinct (map pk (rows s'))" using commit_rows [OF assms] ok_pk by blast
  with s' have d: "distinct (map pk (rows s @ [r]))" by simp
  show ?thesis
  proof (cases "i = pk r")
    case True
    with d s' show ?thesis by (simp add: lookup_pk_eq)
  next
    case False
    then have "lookup_pk pk i (rows s @ [r]) = lookup_pk pk i (rows s)"
    proof (cases "lookup_pk pk i (rows s)")
      case None
      then have "i \<notin> pk ` set (rows s @ [r])" using False by simp
      with None show ?thesis by (metis lookup_pk_None)
    next
      case (Some x)
      then have "x \<in> set (rows s @ [r]) \<and> pk x = i" using lookup_pk_Some by fastforce
      with Some d show ?thesis by (metis lookup_pk_eq)
    qed
    with False s' show ?thesis by simp
  qed
qed

lemma lookup_update:
  assumes "commit (update_where (\<lambda>r. pk r = i) f (rows s)) s = Inr s'"
    and f: "\<And>r. pk (f r) = pk r"
    and d: "distinct (map pk (rows s))"
  shows "lookup_pk pk j (rows s') =
    (if j = i then map_option f (lookup_pk pk j (rows s)) else lookup_pk pk j (rows s))"
proof -
  have s': "rows s' = update_where (\<lambda>r. pk r = i) f (rows s)"
    using commit_rows [OF assms(1)] by (rule conjunct1)
  have d': "distinct (map pk (rows s'))"
    using commit_rows [OF assms(1)] ok_pk by blast
  show ?thesis
  proof (cases "lookup_pk pk j (rows s)")
    case None
    then have "j \<notin> pk ` set (rows s)" by simp
    then have "j \<notin> pk ` set (rows s')"
      by (auto simp: s' in_update_where f split: if_splits)
    then have "lookup_pk pk j (rows s') = None" by (metis lookup_pk_None)
    with None show ?thesis by (cases "j = i") (simp_all only: option.map if_True if_False simp_thms)
  next
    case (Some r)
    then have r: "r \<in> set (rows s)" "pk r = j" using d by (auto simp: lookup_pk_eq)
    then have "(if j = i then f r else r) \<in> set (rows s')"
      by (force simp: s' in_update_where)
    then have "lookup_pk pk j (rows s') = Some (if j = i then f r else r)"
      using r f by (simp add: lookup_pk_eq [OF d'])
    with Some show ?thesis by (cases "j = i") simp_all
  qed
qed

end

interpretation profile_table: table profiles "\<lambda>rs s. s\<lparr>profiles := rs\<rparr>" p_id profiles_ok write_profiles
  by unfold_locales (simp_all add: write_profiles_def profiles_ok_def)

interpretation membership_table: table memberships "\<lambda>rs s. s\<lparr>memberships := rs\<rparr>" pm_id
  memberships_ok write_memberships
  by unfold_locales (simp_all add: write_memberships_def memberships_ok_def)

interpretation workspace_table: table workspaces "\<lambda>rs s. s\<lparr>workspaces := rs\<rparr>" w_id workspaces_ok
  write_workspaces
  by unfold_locales (simp_all add: write_workspaces_def workspaces_ok_def)

interpretation member_table: table members "\<lambda>rs s. s\<lparr>members := rs\<rparr>" wm_id members_ok write_members
  by unfold_locales (simp_all add: write_members_def members_ok_def)

interpretation task_table: table tasks "\<lambda>rs s. s\<lparr>tasks := rs\<rparr>" t_id tasks_ok write_tasks
  by unfold_locales (simp_all add: write_tasks_def tasks_ok_def)

interpretation assignment_table: table assignments "\<lambda>rs s. s\<lparr>assignments := rs\<rparr>" ta_id
  assignments_ok write_assignments
  by unfold_locales (simp_all add: write_assignments_def assignments_ok_def)

interpretation comment_table: table comments "\<lambda>rs s. s\<lparr>comments := rs\<rparr>" tc_id comments_ok
  write_comments
  by unfold_locales (simp_all add: write_comments_def comments_ok_def)

interpretation deliverable_table: table deliverables "\<lambda>rs s. s\<lparr>deliverables := rs\<rparr>" d_id
  deliverables_ok write_deliverables
  by unfold_locales (simp_all add: write_deliverables_def deliverables_ok_def)

interpretation review_table: table reviews "\<lambda>rs s. s\<lparr>reviews := rs\<rparr>" r_id reviews_ok write_reviews
  by unfold_locales (simp_all add: write_reviews_def reviews_ok_def)

interpretation notification_table: table notifications "\<lambda>rs s. s\<lparr>notifications := rs\<rparr>" n_id
  notifications_ok write_notifications
  by unfold_locales (simp_all add: write_notifications_def notifications_ok_def)

interpretation audit_table: table audit_logs "\<lambda>rs s. s\<lparr>audit_logs := rs\<rparr>" al_id audit_logs_ok
  write_audit_logs
  by unfold_locales (simp_all add: write_audit_logs_def audit_logs_ok_def)

interpretation invitation_table: table invitations "\<lambda>rs s. s\<lparr>invitations := rs\<rparr>" pi_id invitations_ok
  write_invitations
  by unfold_locales (simp_all add: write_invitations_def invitations_ok_def)

subsection \<open>Transactions\<close>

text \<open>
  \<open>transaction.atomic\<close>: the block's effects are committed when it returns and rolled back when it
  raises. The body of a service is a function from the state to \<open>error + ('a \<times> db)\<close>.
\<close>

definition atomic :: "(db \<Rightarrow> error + ('a \<times> db)) \<Rightarrow> db \<Rightarrow> db \<times> (error + 'a)" where
  "atomic body s = (case body s of Inl e \<Rightarrow> (s, Inl e) | Inr (a, s') \<Rightarrow> (s', Inr a))"

lemma atomic_Inl [simp]: "body s = Inl e \<Longrightarrow> atomic body s = (s, Inl e)"
  by (simp add: atomic_def)

lemma atomic_Inr [simp]: "body s = Inr (a, s') \<Longrightarrow> atomic body s = (s', Inr a)"
  by (simp add: atomic_def)

lemma atomic_cases:
  obtains e where "body s = Inl e" "atomic body s = (s, Inl e)"
  | a s' where "body s = Inr (a, s')" "atomic body s = (s', Inr a)"
  by (cases "body s") (auto simp: atomic_def)

text \<open>\<open>user__is_active=True\<close> in a filter over a row that references the user.\<close>

definition user_active :: "db \<Rightarrow> uuid \<Rightarrow> bool" where
  "user_active s i \<longleftrightarrow> (\<exists>u\<in>set (users s). u_id u = i \<and> u_is_active u)"

text \<open>The database's own guarantee: every table satisfies the constraints of its model.\<close>

definition db_ok :: "db \<Rightarrow> bool" where
  "db_ok s \<longleftrightarrow> profiles_ok (profiles s) \<and> memberships_ok (memberships s) \<and> workspaces_ok (workspaces s)
     \<and> members_ok (members s) \<and> tasks_ok (tasks s) \<and> assignments_ok (assignments s)
     \<and> comments_ok (comments s) \<and> deliverables_ok (deliverables s) \<and> reviews_ok (reviews s)
     \<and> notifications_ok (notifications s) \<and> audit_logs_ok (audit_logs s)
     \<and> invitations_ok (invitations s)"

lemma db_okD:
  assumes "db_ok s"
  shows "profiles_ok (profiles s)" "memberships_ok (memberships s)" "workspaces_ok (workspaces s)"
    "members_ok (members s)" "tasks_ok (tasks s)" "assignments_ok (assignments s)"
    "comments_ok (comments s)" "deliverables_ok (deliverables s)" "reviews_ok (reviews s)"
    "notifications_ok (notifications s)" "audit_logs_ok (audit_logs s)"
    "invitations_ok (invitations s)"
  using assms by (simp_all add: db_ok_def)

lemma active_membership_unique:
  assumes "memberships_ok ms" "m \<in> set ms" "m' \<in> set ms" "pm_is_active m" "pm_is_active m'"
    "pm_profile m = pm_profile m'" "pm_user m = pm_user m'"
  shows "m = m'"
  using assms distinct_map_filter_eq [of "\<lambda>m. (pm_profile m, pm_user m)" pm_is_active ms m m']
  by (simp add: memberships_ok_def)

lemma membership_pk_unique:
  "memberships_ok ms \<Longrightarrow> m \<in> set ms \<Longrightarrow> m' \<in> set ms \<Longrightarrow> pm_id m = pm_id m' \<Longrightarrow> m = m'"
  by (rule distinct_map_eq [of pm_id]) (simp_all add: memberships_ok_def)

lemma workspace_pk_unique:
  "workspaces_ok ws \<Longrightarrow> w \<in> set ws \<Longrightarrow> w' \<in> set ws \<Longrightarrow> w_id w = w_id w' \<Longrightarrow> w = w'"
  by (rule distinct_map_eq [of w_id]) (simp_all add: workspaces_ok_def)

lemma profile_pk_unique:
  "profiles_ok ps \<Longrightarrow> p \<in> set ps \<Longrightarrow> p' \<in> set ps \<Longrightarrow> p_id p = p_id p' \<Longrightarrow> p = p'"
  by (rule distinct_map_eq [of p_id]) (simp_all add: profiles_ok_def)

lemma member_unique:
  assumes "members_ok ms" "m \<in> set ms" "m' \<in> set ms" "wm_workspace m = wm_workspace m'"
    "wm_user m = wm_user m'"
  shows "m = m'"
  using assms distinct_map_eq [of "\<lambda>m. (wm_workspace m, wm_user m)" ms m m']
  by (simp add: members_ok_def)

end
