(* ===== verification/Workspace_Access.thy ===== *)
theory Workspace_Access
  imports Tables
begin

text \<open>
  \<open>apps/workspace/access.py\<close>: the tenant access contexts, their resolvers and the capability
  predicates. A context is a snapshot a caller may hold while the database moves on (or may have
  forged); every predicate is therefore a function of the context \<^emph>\<open>and\<close> of the current database.
  The module-private sentinel \<open>_CONTEXT_VERIFICATION\<close> is a flag here: only the two builders
  set it.
\<close>

subsection \<open>Contexts\<close>

record profile_access_context =
  pc_user :: uuid
  pc_profile :: uuid
  pc_membership :: uuid
  pc_role :: profile_role
  pc_verified :: bool

record workspace_access_context =
  wc_profile_context :: profile_access_context
  wc_workspace :: uuid
  wc_role :: "ws_role option"
  wc_verified :: bool

definition wc_profile_role :: "workspace_access_context \<Rightarrow> profile_role" where
  "wc_profile_role c = pc_role (wc_profile_context c)"

definition build_profile_access_context :: "profile_membership \<Rightarrow> profile_access_context" where
  "build_profile_access_context m =
     \<lparr>pc_user = pm_user m, pc_profile = pm_profile m, pc_membership = pm_id m, pc_role = pm_role m,
      pc_verified = True\<rparr>"

definition build_workspace_access_context ::
  "profile_access_context \<Rightarrow> uuid \<Rightarrow> ws_role option \<Rightarrow> workspace_access_context" where
  "build_workspace_access_context pc w r =
     \<lparr>wc_profile_context = pc, wc_workspace = w, wc_role = r, wc_verified = True\<rparr>"

definition is_verified_profile_context :: "profile_access_context \<Rightarrow> bool" where
  "is_verified_profile_context c = pc_verified c"

definition is_verified_workspace_context :: "workspace_access_context \<Rightarrow> bool" where
  "is_verified_workspace_context c \<longleftrightarrow>
     wc_verified c \<and> is_verified_profile_context (wc_profile_context c)"

definition is_manager :: "profile_role \<Rightarrow> bool" where
  "is_manager r \<longleftrightarrow> r \<in> {PR_OWNER, PR_ADMIN}"

definition is_assignable_role :: "ws_role \<Rightarrow> bool" where
  "is_assignable_role r \<longleftrightarrow> r \<in> {WR_ADMIN, WR_MEMBER, WR_VIEWER}"

text \<open>
  The rows a filter \<open>profile__memberships__id=..., profile__memberships__user_id=...\<close> joins:
  all conditions of one \<open>filter\<close> call are on the same membership row.
\<close>

definition membership_join :: "profile_access_context \<Rightarrow> profile_role \<Rightarrow> db \<Rightarrow> bool" where
  "membership_join c r s \<longleftrightarrow> (\<exists>m\<in>set (memberships s).
     pm_profile m = pc_profile c \<and> pm_id m = pc_membership c \<and> pm_user m = pc_user c
     \<and> user_active s (pm_user m) \<and> pm_is_active m \<and> pm_role m = r)"

definition is_current_workspace_context :: "workspace_access_context \<Rightarrow> db \<Rightarrow> bool" where
  "is_current_workspace_context c s =
     (if \<not> is_verified_workspace_context c then False
      else let pc = wc_profile_context c in
        if is_manager (pc_role pc) then
          (if wc_role c \<noteq> None then False
           else (\<exists>w\<in>set (workspaces s). w_id w = wc_workspace c
             \<and> w_profile w = Some (pc_profile pc) \<and> membership_join pc (pc_role pc) s))
        else case wc_role c of
            None \<Rightarrow> False
          | Some r \<Rightarrow>
             if \<not> is_assignable_role r then False
             else (\<exists>wm\<in>set (members s). wm_workspace wm = wc_workspace c \<and> wm_user wm = pc_user pc
               \<and> wm_is_active wm \<and> wm_role wm = r
               \<and> (\<exists>w\<in>set (workspaces s). w_id w = wm_workspace wm
                    \<and> w_profile w = Some (pc_profile pc) \<and> membership_join pc PR_MEMBER s)))"

subsection \<open>Resolvers\<close>

text \<open>\<open>user\<close> is the primary key of the acting user, \<open>None\<close> for an anonymous one.\<close>

definition profiles_visible_to :: "uuid option \<Rightarrow> db \<Rightarrow> profile list" where
  "profiles_visible_to user s = (case user of None \<Rightarrow> [] | Some u \<Rightarrow>
     filter (\<lambda>p. \<exists>m\<in>set (memberships s). pm_profile m = p_id p \<and> pm_user m = u
       \<and> user_active s u \<and> pm_is_active m) (profiles s))"

definition resolve_profile_access_context ::
  "uuid option \<Rightarrow> uuid arg \<Rightarrow> db \<Rightarrow> error + profile_access_context" where
  "resolve_profile_access_context user profile_id s =
     require_some user TenantAccessNotFound (\<lambda>u.
       case profile_id of
         Malformed \<Rightarrow> Inl TenantAccessNotFound
       | Val p \<Rightarrow>
           require_some (first_by pm_id (\<lambda>m. pm_profile m = p \<and> pm_user m = u \<and> user_active s u
               \<and> pm_is_active m) (memberships s)) TenantAccessNotFound
             (\<lambda>m. Inr (build_profile_access_context m)))"

definition refresh_profile_access_context ::
  "profile_access_context \<Rightarrow> db \<Rightarrow> error + profile_access_context" where
  "refresh_profile_access_context c s =
     require (is_verified_profile_context c) TenantAccessNotFound
       (require_some (first_by pm_id (\<lambda>m. pm_id m = pc_membership c \<and> pm_profile m = pc_profile c
            \<and> pm_user m = pc_user c \<and> user_active s (pm_user m) \<and> pm_is_active m) (memberships s))
          TenantAccessNotFound
          (\<lambda>m. Inr (build_profile_access_context m)))"

definition member_row_visible :: "profile_access_context \<Rightarrow> uuid \<Rightarrow> db \<Rightarrow> bool" where
  "member_row_visible c w s \<longleftrightarrow> (\<exists>wm\<in>set (members s).
     wm_workspace wm = w \<and> wm_user wm = pc_user c \<and> wm_is_active wm \<and> is_assignable_role (wm_role wm))"

definition workspaces_visible_to_valid_context ::
  "profile_access_context \<Rightarrow> db \<Rightarrow> workspace list" where
  "workspaces_visible_to_valid_context c s =
     (let queryset = filter (\<lambda>w. w_profile w = Some (pc_profile c) \<and> membership_join c (pc_role c) s)
        (workspaces s) in
      if is_manager (pc_role c) then queryset
      else filter (\<lambda>w. member_row_visible c (w_id w) s) queryset)"

definition workspaces_visible_to :: "profile_access_context \<Rightarrow> db \<Rightarrow> error + workspace list" where
  "workspaces_visible_to c s =
     bindE (refresh_profile_access_context c s)
       (\<lambda>current. Inr (workspaces_visible_to_valid_context current s))"

text \<open>The first role row of a \<open>MEMBER\<close>, unordered hence in primary key order.\<close>

definition member_role_row :: "profile_access_context \<Rightarrow> uuid \<Rightarrow> db \<Rightarrow> workspace_member option" where
  "member_role_row c w s = first_by wm_id (\<lambda>wm. wm_workspace wm = w \<and> wm_user wm = pc_user c
     \<and> wm_is_active wm
     \<and> (\<exists>x\<in>set (workspaces s). w_id x = w \<and> w_profile x = Some (pc_profile c))
     \<and> membership_join c PR_MEMBER s \<and> is_assignable_role (wm_role wm)) (members s)"

definition resolve_workspace_access_context ::
  "profile_access_context \<Rightarrow> uuid arg \<Rightarrow> db \<Rightarrow> error + workspace_access_context" where
  "resolve_workspace_access_context profile_context workspace_id s =
     bindE (refresh_profile_access_context profile_context s) (\<lambda>current.
       case workspace_id of
         Malformed \<Rightarrow> Inl TenantAccessNotFound
       | Val i \<Rightarrow>
           require_some (first_by w_id (\<lambda>w. w_id w = i) (workspaces_visible_to_valid_context current s))
             TenantAccessNotFound (\<lambda>w.
             if pc_role current = PR_MEMBER then
               require_some (member_role_row current (w_id w) s) TenantAccessNotFound
                 (\<lambda>wm. Inr (build_workspace_access_context current (w_id w) (Some (wm_role wm))))
             else Inr (build_workspace_access_context current (w_id w) None)))"

subsection \<open>Capability predicates\<close>

definition profile_active :: "uuid \<Rightarrow> db \<Rightarrow> bool" where
  "profile_active i s \<longleftrightarrow> (\<exists>p\<in>set (profiles s). p_id p = i \<and> p_status p = PS_ACTIVE)"

definition can_read_workspace :: "workspace_access_context \<Rightarrow> db \<Rightarrow> bool" where
  "can_read_workspace c s =
     (if \<not> is_current_workspace_context c s then False
      else if is_manager (wc_profile_role c) then True
      else (case wc_role c of None \<Rightarrow> False | Some r \<Rightarrow> is_assignable_role r))"

definition can_create_workspace :: "profile_access_context \<Rightarrow> db \<Rightarrow> bool" where
  "can_create_workspace c s = (case refresh_profile_access_context c s of
     Inl _ \<Rightarrow> False
   | Inr current \<Rightarrow> is_manager (pc_role current) \<and> profile_active (pc_profile current) s)"

definition can_manage_profile_lifecycle :: "profile_access_context \<Rightarrow> db \<Rightarrow> bool" where
  "can_manage_profile_lifecycle c s = (case refresh_profile_access_context c s of
     Inl _ \<Rightarrow> False | Inr current \<Rightarrow> pc_role current = PR_OWNER)"

definition can_manage_profile_invitations :: "profile_access_context \<Rightarrow> db \<Rightarrow> bool" where
  "can_manage_profile_invitations c s = (case refresh_profile_access_context c s of
     Inl _ \<Rightarrow> False | Inr current \<Rightarrow> is_manager (pc_role current))"

definition profile_invitations_visible_to_managers ::
  "profile_access_context \<Rightarrow> db \<Rightarrow> error + invitation list" where
  "profile_invitations_visible_to_managers c s =
     bindE (refresh_profile_access_context c s) (\<lambda>current.
       require (can_manage_profile_invitations current s) TenantAccessNotFound
         (let queryset = filter (\<lambda>i. pi_profile i = pc_profile current
            \<and> membership_join current (pc_role current) s) (invitations s) in
          Inr (if pc_role current = PR_ADMIN
               then filter (\<lambda>i. pi_requested_role i = IR_MEMBER) queryset else queryset)))"

definition has_active_workspace_state :: "workspace_access_context \<Rightarrow> db \<Rightarrow> bool" where
  "has_active_workspace_state c s =
     (if \<not> is_current_workspace_context c s then False
      else (\<exists>w\<in>set (workspaces s). w_id w = wc_workspace c
        \<and> w_profile w = Some (pc_profile (wc_profile_context c))
        \<and> profile_active (pc_profile (wc_profile_context c)) s \<and> w_status w = WS_ACTIVE))"

definition can_edit_workspace :: "workspace_access_context \<Rightarrow> db \<Rightarrow> bool" where
  "can_edit_workspace c s =
     (if \<not> has_active_workspace_state c s then False
      else if is_manager (wc_profile_role c) then True
      else wc_role c = Some WR_ADMIN)"

definition can_manage_workspace_tasks :: "workspace_access_context \<Rightarrow> db \<Rightarrow> bool" where
  "can_manage_workspace_tasks c s =
     (if \<not> has_active_workspace_state c s then False
      else if is_manager (wc_profile_role c) then True
      else wc_role c = Some WR_ADMIN)"

definition can_execute_workspace_tasks :: "workspace_access_context \<Rightarrow> db \<Rightarrow> bool" where
  "can_execute_workspace_tasks c s \<longleftrightarrow> has_active_workspace_state c s
     \<and> wc_profile_role c = PR_MEMBER \<and> wc_role c = Some WR_MEMBER"

definition can_review_workspace_deliverables :: "workspace_access_context \<Rightarrow> db \<Rightarrow> bool" where
  "can_review_workspace_deliverables c s = can_manage_workspace_tasks c s"

definition can_manage_workspace_members :: "workspace_access_context \<Rightarrow> db \<Rightarrow> bool" where
  "can_manage_workspace_members c s =
     (if \<not> is_current_workspace_context c s then False
      else if is_manager (wc_profile_role c) then True
      else wc_role c = Some WR_ADMIN)"

definition can_mutate_workspace_members :: "workspace_access_context \<Rightarrow> db \<Rightarrow> bool" where
  "can_mutate_workspace_members c s \<longleftrightarrow>
     can_manage_workspace_members c s \<and> has_active_workspace_state c s"

definition can_manage_workspace_lifecycle :: "workspace_access_context \<Rightarrow> db \<Rightarrow> bool" where
  "can_manage_workspace_lifecycle c s =
     (if \<not> is_current_workspace_context c s then False
      else is_manager (wc_profile_role c) \<and> profile_active (pc_profile (wc_profile_context c)) s)"

definition active_profile_memberships :: "uuid \<Rightarrow> uuid \<Rightarrow> db \<Rightarrow> profile_membership list" where
  "active_profile_memberships p u s =
     filter (\<lambda>m. pm_profile m = p \<and> pm_user m = u \<and> user_active s u \<and> pm_is_active m) (memberships s)"

text \<open>
  The roster rows with their annotations: the membership row of the member's active Profile
  membership and whether an assignable (\<open>MEMBER\<close>) one exists.
\<close>

definition workspace_members_visible_to_managers ::
  "workspace_access_context \<Rightarrow> db \<Rightarrow> error + (workspace_member \<times> uuid \<times> bool) list" where
  "workspace_members_visible_to_managers c s =
     require (can_manage_workspace_members c s) TenantAccessNotFound
       (let pc = wc_profile_context c;
            actor_workspace_scope = (pc_role pc = PR_MEMBER \<longrightarrow>
              (\<exists>wm\<in>set (members s). wm_workspace wm = wc_workspace c \<and> wm_user wm = pc_user pc
                 \<and> wm_is_active wm \<and> wm_role wm = WR_ADMIN));
            in_tenant = (\<exists>w\<in>set (workspaces s). w_id w = wc_workspace c
              \<and> w_profile w = Some (pc_profile pc)) in
        Inr (List.map_filter (\<lambda>wm.
          if membership_join pc (pc_role pc) s \<and> actor_workspace_scope \<and> in_tenant
             \<and> wm_workspace wm = wc_workspace c \<and> wm_is_active wm \<and> is_assignable_role (wm_role wm)
          then let ms = active_profile_memberships (pc_profile pc) (wm_user wm) s in
            map_option (\<lambda>m. (wm, pm_id m, \<exists>x\<in>set ms. pm_role x = PR_MEMBER))
              (first_by pm_id (\<lambda>_. True) ms)
          else None) (members s)))"

subsection \<open>What authority means\<close>

text \<open>
  The specification the module implements. A user holds a Profile role through an active
  membership of an active account; a manager role reaches every Workspace of the Profile, a
  \<open>MEMBER\<close> reaches the Workspaces that list them with an assignable role.
\<close>

definition holds_profile_role :: "db \<Rightarrow> uuid \<Rightarrow> uuid \<Rightarrow> profile_role \<Rightarrow> bool" where
  "holds_profile_role s u p r \<longleftrightarrow> user_active s u \<and>
     (\<exists>m\<in>set (memberships s). pm_profile m = p \<and> pm_user m = u \<and> pm_is_active m \<and> pm_role m = r)"

definition holds_ws_role :: "db \<Rightarrow> uuid \<Rightarrow> uuid \<Rightarrow> ws_role \<Rightarrow> bool" where
  "holds_ws_role s u w r \<longleftrightarrow>
     (\<exists>m\<in>set (members s). wm_workspace m = w \<and> wm_user m = u \<and> wm_is_active m \<and> wm_role m = r)"

definition in_tenant :: "db \<Rightarrow> uuid \<Rightarrow> uuid \<Rightarrow> bool" where
  "in_tenant s w p \<longleftrightarrow> (\<exists>x\<in>set (workspaces s). w_id x = w \<and> w_profile x = Some p)"

definition ws_active :: "db \<Rightarrow> uuid \<Rightarrow> bool" where
  "ws_active s w \<longleftrightarrow> (\<exists>x\<in>set (workspaces s). w_id x = w \<and> w_status x = WS_ACTIVE)"

text \<open>\<open>has_authority s u p w a\<close>: user \<open>u\<close> reaches Workspace \<open>w\<close> of Profile \<open>p\<close> with authority \<open>a\<close>.\<close>

datatype authority = Manager profile_role | Assigned ws_role

fun has_authority :: "db \<Rightarrow> uuid \<Rightarrow> uuid \<Rightarrow> uuid \<Rightarrow> authority \<Rightarrow> bool" where
  "has_authority s u p w (Manager r) \<longleftrightarrow> is_manager r \<and> holds_profile_role s u p r \<and> in_tenant s w p"
| "has_authority s u p w (Assigned r) \<longleftrightarrow> is_assignable_role r \<and> holds_profile_role s u p PR_MEMBER
     \<and> in_tenant s w p \<and> holds_ws_role s u w r"

text \<open>The authority a context claims.\<close>

definition context_authority :: "workspace_access_context \<Rightarrow> authority option" where
  "context_authority c = (case (is_manager (wc_profile_role c), wc_role c) of
     (True, None) \<Rightarrow> Some (Manager (wc_profile_role c))
   | (False, Some r) \<Rightarrow> Some (Assigned r)
   | _ \<Rightarrow> None)"

definition wc_user :: "workspace_access_context \<Rightarrow> uuid" where
  "wc_user c = pc_user (wc_profile_context c)"

definition wc_profile :: "workspace_access_context \<Rightarrow> uuid" where
  "wc_profile c = pc_profile (wc_profile_context c)"

lemma is_manager_simps [simp]:
  "is_manager PR_OWNER" "is_manager PR_ADMIN" "\<not> is_manager PR_MEMBER"
  by (simp_all add: is_manager_def)

lemma not_manager [simp]: "\<not> is_manager r \<longleftrightarrow> r = PR_MEMBER"
  by (cases r) simp_all

lemma assignable_simps [simp]:
  "\<not> is_assignable_role WR_OWNER" "is_assignable_role WR_ADMIN" "is_assignable_role WR_MEMBER"
  "is_assignable_role WR_VIEWER"
  by (simp_all add: is_assignable_role_def)

lemma membership_join_holds: "membership_join c r s \<Longrightarrow> holds_profile_role s (pc_user c) (pc_profile c) r"
  by (auto simp: membership_join_def holds_profile_role_def)

lemma is_current_D:
  assumes "is_current_workspace_context c s"
  shows "is_verified_workspace_context c"
    and "\<exists>a. context_authority c = Some a \<and> has_authority s (wc_user c) (wc_profile c) (wc_workspace c) a"
    and "membership_join (wc_profile_context c) (wc_profile_role c) s"
    and "in_tenant s (wc_workspace c) (wc_profile c)"
  using assms membership_join_holds
  by (fastforce simp: is_current_workspace_context_def context_authority_def Let_def wc_user_def
      wc_profile_def wc_profile_role_def in_tenant_def holds_ws_role_def
      split: if_splits option.splits)+

lemma is_current_I:
  assumes v: "is_verified_workspace_context c"
    and m: "membership_join (wc_profile_context c) (wc_profile_role c) s"
    and a: "context_authority c = Some a" "has_authority s (wc_user c) (wc_profile c) (wc_workspace c) a"
  shows "is_current_workspace_context c s"
proof (cases a)
  case (Manager r)
  with a have "is_manager (wc_profile_role c)" "wc_role c = None"
    by (auto simp: context_authority_def split: bool.splits option.splits)
  with assms Manager show ?thesis
    by (auto simp: is_current_workspace_context_def Let_def wc_user_def wc_profile_def
        wc_profile_role_def in_tenant_def)
next
  case (Assigned r)
  with a have r: "wc_profile_role c = PR_MEMBER" "wc_role c = Some r"
    by (auto simp: context_authority_def split: bool.splits option.splits)
  with a Assigned obtain wm where "wm \<in> set (members s)" "wm_workspace wm = wc_workspace c"
    "wm_user wm = wc_user c" "wm_is_active wm" "wm_role wm = r" "is_assignable_role r"
    by (auto simp: holds_ws_role_def)
  with v m a Assigned r show ?thesis
    by (fastforce simp: is_current_workspace_context_def Let_def wc_user_def wc_profile_def
        wc_profile_role_def in_tenant_def)
qed

lemma is_current_iff:
  "is_current_workspace_context c s \<longleftrightarrow> is_verified_workspace_context c
     \<and> membership_join (wc_profile_context c) (wc_profile_role c) s
     \<and> (\<exists>a. context_authority c = Some a \<and> has_authority s (wc_user c) (wc_profile c) (wc_workspace c) a)"
  using is_current_D is_current_I by blast

lemma profile_role_unique:
  "memberships_ok (memberships s) \<Longrightarrow> holds_profile_role s u p r \<Longrightarrow> holds_profile_role s u p r' \<Longrightarrow> r = r'"
  by (auto simp: holds_profile_role_def dest: active_membership_unique)

lemma ws_role_unique:
  "members_ok (members s) \<Longrightarrow> holds_ws_role s u w r \<Longrightarrow> holds_ws_role s u w r' \<Longrightarrow> r = r'"
  by (auto simp: holds_ws_role_def dest: member_unique)

lemma has_authority_unique:
  assumes "db_ok s" "has_authority s u p w a" "has_authority s u p w b"
  shows "a = b"
  using assms db_okD [OF assms(1)]
  by (cases a; cases b) (auto dest: profile_role_unique ws_role_unique)

lemma in_tenant_unique:
  "db_ok s \<Longrightarrow> in_tenant s w p \<Longrightarrow> in_tenant s w p' \<Longrightarrow> p = p'"
  unfolding in_tenant_def using db_okD(3) workspace_pk_unique by (metis option.inject)

lemma has_authority_in_tenant: "has_authority s u p w a \<Longrightarrow> in_tenant s w p"
  by (cases a) simp_all

lemma has_authority_role:
  "has_authority s u p w a \<Longrightarrow> \<exists>r. holds_profile_role s u p r"
  by (cases a) auto

subsection \<open>The resolvers against the specification\<close>

lemma resolve_profile_D:
  assumes "resolve_profile_access_context user pid s = Inr c"
  shows "user = Some (pc_user c)" "pid = Val (pc_profile c)" "is_verified_profile_context c"
    "membership_join c (pc_role c) s" "holds_profile_role s (pc_user c) (pc_profile c) (pc_role c)"
proof -
  show "user = Some (pc_user c)" "pid = Val (pc_profile c)" "is_verified_profile_context c"
    and j: "membership_join c (pc_role c) s"
    using assms
    by (auto simp: resolve_profile_access_context_def build_profile_access_context_def
        is_verified_profile_context_def membership_join_def dest!: first_by_Some_in)
  show "holds_profile_role s (pc_user c) (pc_profile c) (pc_role c)"
    using j by (rule membership_join_holds)
qed

lemma resolve_profile_I:
  assumes "memberships_ok (memberships s)" "m \<in> set (memberships s)" "pm_is_active m"
    "user_active s (pm_user m)"
  shows "resolve_profile_access_context (Some (pm_user m)) (Val (pm_profile m)) s
    = Inr (build_profile_access_context m)"
proof -
  have "first_by pm_id (\<lambda>x. pm_profile x = pm_profile m \<and> pm_user x = pm_user m
      \<and> user_active s (pm_user m) \<and> pm_is_active x) (memberships s) = Some m"
    using assms by (intro first_by_unique) (auto intro: active_membership_unique)
  then show ?thesis by (simp add: resolve_profile_access_context_def)
qed

lemma refresh_D:
  assumes "refresh_profile_access_context c s = Inr c'"
  shows "is_verified_profile_context c" "is_verified_profile_context c'"
    "pc_user c' = pc_user c" "pc_profile c' = pc_profile c" "pc_membership c' = pc_membership c"
    "membership_join c' (pc_role c') s"
  using assms
  by (auto simp: refresh_profile_access_context_def build_profile_access_context_def
      is_verified_profile_context_def membership_join_def dest!: first_by_Some_in)

lemma refresh_current:
  assumes "memberships_ok (memberships s)" "is_verified_profile_context c"
    "membership_join c (pc_role c) s"
  shows "refresh_profile_access_context c s = Inr c"
proof -
  obtain m where m: "m \<in> set (memberships s)" "pm_profile m = pc_profile c" "pm_id m = pc_membership c"
    "pm_user m = pc_user c" "user_active s (pm_user m)" "pm_is_active m" "pm_role m = pc_role c"
    using assms(3) by (auto simp: membership_join_def)
  then have "first_by pm_id (\<lambda>x. pm_id x = pc_membership c \<and> pm_profile x = pc_profile c
      \<and> pm_user x = pc_user c \<and> user_active s (pm_user x) \<and> pm_is_active x) (memberships s) = Some m"
    using assms(1) by (intro first_by_unique) (auto intro: membership_pk_unique)
  moreover have "build_profile_access_context m = c"
    using m assms(2) by (cases c) (simp add: build_profile_access_context_def is_verified_profile_context_def)
  ultimately show ?thesis using assms(2) by (simp add: refresh_profile_access_context_def)
qed

lemma visible_workspace_iff:
  "w \<in> set (workspaces_visible_to_valid_context c s) \<longleftrightarrow> w \<in> set (workspaces s)
     \<and> w_profile w = Some (pc_profile c) \<and> membership_join c (pc_role c) s
     \<and> (is_manager (pc_role c) \<or> member_row_visible c (w_id w) s)"
  by (auto simp: workspaces_visible_to_valid_context_def Let_def simp del: not_manager)

lemma member_role_row_ex:
  assumes x: "x \<in> set (workspaces_visible_to_valid_context c s)" and r: "pc_role c = PR_MEMBER"
  obtains wm where "member_role_row c (w_id x) s = Some wm"
proof -
  from x r have v: "x \<in> set (workspaces s)" "w_profile x = Some (pc_profile c)"
    "membership_join c PR_MEMBER s" "member_row_visible c (w_id x) s"
    by (simp_all add: visible_workspace_iff)
  then obtain wm where "wm \<in> set (members s)" "wm_workspace wm = w_id x" "wm_user wm = pc_user c"
    "wm_is_active wm" "is_assignable_role (wm_role wm)"
    by (auto simp: member_row_visible_def)
  with v have "\<exists>y. member_role_row c (w_id x) s = Some y"
    unfolding member_role_row_def by (intro first_by_ex [of wm]) auto
  with that show ?thesis by blast
qed

lemma context_authority_Manager:
  "context_authority c = Some (Manager r) \<longleftrightarrow> is_manager r \<and> wc_profile_role c = r \<and> wc_role c = None"
  by (auto simp: context_authority_def split: bool.splits option.splits)

lemma context_authority_Assigned:
  "context_authority c = Some (Assigned r) \<longleftrightarrow> wc_profile_role c = PR_MEMBER \<and> wc_role c = Some r"
  by (auto simp: context_authority_def split: bool.splits option.splits)

lemma wc_build [simp]:
  "wc_profile_context (build_workspace_access_context pc w r) = pc"
  "wc_workspace (build_workspace_access_context pc w r) = w"
  "wc_role (build_workspace_access_context pc w r) = r"
  "is_verified_workspace_context (build_workspace_access_context pc w r)
     \<longleftrightarrow> is_verified_profile_context pc"
  by (simp_all add: build_workspace_access_context_def is_verified_workspace_context_def)

lemma resolve_workspace_D:
  assumes "resolve_workspace_access_context pc wid s = Inr c"
  shows "is_current_workspace_context c s" "wid = Val (wc_workspace c)" "wc_user c = pc_user pc"
    "wc_profile c = pc_profile pc" "is_verified_profile_context pc"
    "pc_membership (wc_profile_context c) = pc_membership pc"
proof -
  from assms obtain cur w where cur: "refresh_profile_access_context pc s = Inr cur"
    and wid: "wid = Val (w_id w)"
    and w: "w \<in> set (workspaces s)" "w_profile w = Some (pc_profile cur)"
      "membership_join cur (pc_role cur) s"
    and c: "(if pc_role cur = PR_MEMBER
      then \<exists>wm. member_role_row cur (w_id w) s = Some wm
           \<and> c = build_workspace_access_context cur (w_id w) (Some (wm_role wm))
      else c = build_workspace_access_context cur (w_id w) None)"
    by (auto simp: resolve_workspace_access_context_def visible_workspace_iff
        dest!: first_by_Some_in split: if_splits)
  note r = refresh_D [OF cur]
  have t: "in_tenant s (w_id w) (pc_profile cur)" using w by (auto simp: in_tenant_def)
  have h: "holds_profile_role s (pc_user cur) (pc_profile cur) (pc_role cur)"
    using membership_join_holds [OF w(3)] .
  show "is_current_workspace_context c s"
  proof (cases "pc_role cur = PR_MEMBER")
    case True
    with c obtain wm where wm: "member_role_row cur (w_id w) s = Some wm"
      "c = build_workspace_access_context cur (w_id w) (Some (wm_role wm))" by auto
    then have "has_authority s (wc_user c) (wc_profile c) (wc_workspace c) (Assigned (wm_role wm))"
      using h t True by (auto simp: member_role_row_def wc_user_def wc_profile_def holds_ws_role_def
          dest!: first_by_Some_in)
    then show ?thesis using wm True r w
      by (auto simp: is_current_iff context_authority_def wc_profile_role_def)
  next
    case False
    then have "is_manager (pc_role cur)" by (cases "pc_role cur") simp_all
    with c h t r w False show ?thesis
      by (simp add: is_current_iff context_authority_def wc_profile_role_def wc_user_def wc_profile_def)
  qed
  show "wid = Val (wc_workspace c)" "wc_user c = pc_user pc" "wc_profile c = pc_profile pc"
    "is_verified_profile_context pc" "pc_membership (wc_profile_context c) = pc_membership pc"
    using wid r c by (auto simp: wc_user_def wc_profile_def split: if_splits)
qed

text \<open>Completeness: whoever has an authority resolves to a context claiming exactly it.\<close>

lemma resolve_workspace_I:
  assumes ok: "db_ok s" and a: "has_authority s u p w a"
  shows "\<exists>pc c. resolve_profile_access_context (Some u) (Val p) s = Inr pc
    \<and> resolve_workspace_access_context pc (Val w) s = Inr c
    \<and> context_authority c = Some a \<and> wc_profile_context c = pc"
proof -
  obtain r where h: "holds_profile_role s u p r" and ra: "r = (case a of Manager q \<Rightarrow> q | Assigned _ \<Rightarrow> PR_MEMBER)"
    using a by (cases a) auto
  then obtain m where m: "m \<in> set (memberships s)" "pm_profile m = p" "pm_user m = u"
    "pm_is_active m" "pm_role m = r" "user_active s u"
    by (auto simp: holds_profile_role_def)
  define pc where "pc = build_profile_access_context m"
  have pc: "resolve_profile_access_context (Some u) (Val p) s = Inr pc"
    using resolve_profile_I [OF db_okD(2) [OF ok] m(1,4)] m by (simp add: pc_def)
  have f: "pc_role pc = r" "pc_profile pc = p" "pc_user pc = u"
    using m by (simp_all add: pc_def build_profile_access_context_def)
  note D = resolve_profile_D [OF pc]
  have cur: "refresh_profile_access_context pc s = Inr pc"
    using refresh_current [OF db_okD(2) [OF ok] D(3,4)] .
  obtain x where x: "x \<in> set (workspaces s)" "w_id x = w" "w_profile x = Some p"
    using has_authority_in_tenant [OF a] by (auto simp: in_tenant_def)
  have vis: "x \<in> set (workspaces_visible_to_valid_context pc s)"
    using x f D(4) a ra
    by (cases a) (auto simp: visible_workspace_iff member_row_visible_def holds_ws_role_def)
  have first: "first_by w_id (\<lambda>y. w_id y = w) (workspaces_visible_to_valid_context pc s) = Some x"
    using vis x workspace_pk_unique [OF db_okD(3) [OF ok]]
    by (intro first_by_unique) (auto simp: visible_workspace_iff)
  show ?thesis
  proof (cases a)
    case (Manager q)
    with a ra have "is_manager r" by simp
    then have "r \<noteq> PR_MEMBER" by auto
    with Manager a ra f first cur x pc show ?thesis
      by (auto simp: resolve_workspace_access_context_def context_authority_def wc_profile_role_def)
  next
    case (Assigned q)
    with a obtain wm where wm: "wm \<in> set (members s)" "wm_workspace wm = w" "wm_user wm = u"
      "wm_is_active wm" "wm_role wm = q" "is_assignable_role q"
      by (auto simp: holds_ws_role_def)
    have "member_role_row pc w s = Some wm"
      unfolding member_role_row_def
      using wm x f D(4) Assigned ra member_unique [OF db_okD(4) [OF ok]]
      by (intro first_by_unique) auto
    with Assigned ra f first cur x pc wm show ?thesis
      by (auto simp: resolve_workspace_access_context_def context_authority_def wc_profile_role_def)
  qed
qed

subsection \<open>Capabilities of a current context\<close>

lemma active_state_iff:
  assumes "db_ok s"
  shows "has_active_workspace_state c s \<longleftrightarrow> is_current_workspace_context c s
    \<and> profile_active (wc_profile c) s \<and> ws_active s (wc_workspace c)"
proof
  assume "has_active_workspace_state c s"
  then show "is_current_workspace_context c s \<and> profile_active (wc_profile c) s \<and> ws_active s (wc_workspace c)"
    by (auto simp: has_active_workspace_state_def ws_active_def wc_profile_def split: if_splits)
next
  assume r: "is_current_workspace_context c s \<and> profile_active (wc_profile c) s \<and> ws_active s (wc_workspace c)"
  then obtain w where w: "w \<in> set (workspaces s)" "w_id w = wc_workspace c" "w_profile w = Some (wc_profile c)"
    using is_current_D(4) by (fastforce simp: in_tenant_def)
  then have "w_status w = WS_ACTIVE"
    using r workspace_pk_unique [OF db_okD(3) [OF assms]] unfolding ws_active_def by metis
  with r w show "has_active_workspace_state c s"
    by (auto simp: has_active_workspace_state_def wc_profile_def)
qed

lemma active_state_D: "has_active_workspace_state c s \<Longrightarrow> is_current_workspace_context c s"
  by (simp add: has_active_workspace_state_def split: if_splits)

lemma active_state_active:
  "has_active_workspace_state c s \<Longrightarrow> profile_active (wc_profile c) s \<and> ws_active s (wc_workspace c)"
  by (auto simp: has_active_workspace_state_def ws_active_def wc_profile_def split: if_splits)

lemmas capability_defs = can_read_workspace_def can_edit_workspace_def can_manage_workspace_tasks_def
  can_execute_workspace_tasks_def can_review_workspace_deliverables_def
  can_manage_workspace_members_def can_mutate_workspace_members_def can_manage_workspace_lifecycle_def

lemma capability_current:
  "can_read_workspace c s \<Longrightarrow> is_current_workspace_context c s"
  "can_edit_workspace c s \<Longrightarrow> is_current_workspace_context c s"
  "can_manage_workspace_tasks c s \<Longrightarrow> is_current_workspace_context c s"
  "can_execute_workspace_tasks c s \<Longrightarrow> is_current_workspace_context c s"
  "can_review_workspace_deliverables c s \<Longrightarrow> is_current_workspace_context c s"
  "can_manage_workspace_members c s \<Longrightarrow> is_current_workspace_context c s"
  "can_mutate_workspace_members c s \<Longrightarrow> is_current_workspace_context c s"
  "can_manage_workspace_lifecycle c s \<Longrightarrow> is_current_workspace_context c s"
  by (auto simp: capability_defs dest: active_state_D split: if_splits)

lemma context_authority_cases:
  assumes "context_authority c = Some a"
  obtains r where "a = Manager r" "is_manager r" "wc_profile_role c = r" "wc_role c = None"
  | r where "a = Assigned r" "wc_profile_role c = PR_MEMBER" "wc_role c = Some r"
  using assms by (cases a) (auto simp: context_authority_Manager context_authority_Assigned)

end
