(* ===== verification/Fixtures.thy ===== *)
theory Fixtures
  imports Tables
begin

text \<open>
  A small database on which the properties' witnesses evaluate the model: a Profile with an Owner
  (user 1), an Admin (2), two Editors (3 and 7), a Workspace Admin (4) and a Viewer (6), a second
  Profile of an unrelated Owner (5), and Tasks in each workflow state.
\<close>

definition mk_user :: "uuid \<Rightarrow> bool \<Rightarrow> user" where
  "mk_user i act = \<lparr>u_id = i, u_email = [97, i], u_password = [], u_is_active = act,
     u_email_verified_at = None, u_verified_email = None, u_updated_at = 0\<rparr>"

definition mk_membership :: "uuid \<Rightarrow> uuid \<Rightarrow> uuid \<Rightarrow> profile_role \<Rightarrow> bool \<Rightarrow> profile_membership" where
  "mk_membership i p u r act = \<lparr>pm_id = i, pm_profile = p, pm_user = u, pm_role = r,
     pm_is_active = act, pm_joined_at = 0, pm_created_at = 0, pm_updated_at = 0\<rparr>"

definition mk_workspace :: "uuid \<Rightarrow> uuid \<Rightarrow> uuid \<Rightarrow> nat \<Rightarrow> ws_status \<Rightarrow> workspace" where
  "mk_workspace i p owner month st = \<lparr>w_id = i, w_name = [87], w_description = None,
     w_profile = Some p, w_owner = owner, w_period = Some (Date 2026 month 1), w_status = st,
     w_created_at = 0, w_updated_at = 0\<rparr>"

definition mk_member :: "uuid \<Rightarrow> uuid \<Rightarrow> uuid \<Rightarrow> ws_role \<Rightarrow> bool \<Rightarrow> workspace_member" where
  "mk_member i w u r act = \<lparr>wm_id = i, wm_workspace = w, wm_user = u, wm_role = r,
     wm_is_active = act, wm_joined_at = 0, wm_updated_at = 0\<rparr>"

definition mk_task :: "uuid \<Rightarrow> uuid \<Rightarrow> uuid option \<Rightarrow> task_status \<Rightarrow> task" where
  "mk_task i w par st = \<lparr>t_id = i, t_workspace = w, t_parent = par, t_title = [84],
     t_description = None, t_status = st, t_priority = PRI_MEDIUM, t_deadline = None,
     t_created_by = 1, t_created_at = 0, t_updated_at = 0\<rparr>"

definition mk_assignment :: "uuid \<Rightarrow> uuid \<Rightarrow> uuid \<Rightarrow> bool \<Rightarrow> task_assignment" where
  "mk_assignment i t u act = \<lparr>ta_id = i, ta_task = t, ta_user = u, ta_is_active = act,
     ta_assigned_at = 0, ta_updated_at = 0\<rparr>"

definition mk_deliverable :: "uuid \<Rightarrow> uuid \<Rightarrow> uuid \<Rightarrow> int \<Rightarrow> deliverable_status \<Rightarrow> time \<Rightarrow> deliverable" where
  "mk_deliverable i t u revision st created = \<lparr>d_id = i, d_task = t, d_file_url = [117], d_uploaded_by = u,
     d_revision = Some revision, d_status = st, d_created_at = created, d_updated_at = created\<rparr>"

definition mk_comment :: "uuid \<Rightarrow> uuid \<Rightarrow> uuid \<Rightarrow> ptext \<Rightarrow> task_comment" where
  "mk_comment i t u txt = \<lparr>tc_id = i, tc_task = t, tc_user = u, tc_content = txt, tc_edited_at = None,
     tc_deleted_at = None, tc_created_at = 10, tc_updated_at = 10\<rparr>"

definition ex_db :: db where
  "ex_db = \<lparr>
     users = map (\<lambda>i. mk_user i True) [1, 2, 3, 4, 5, 6, 7],
     profiles = map (\<lambda>i. \<lparr>p_id = i, p_name = [80], p_status = PS_ACTIVE, p_created_at = 0,
       p_updated_at = 0\<rparr>) [10, 11],
     memberships = [mk_membership 101 10 1 PR_OWNER True, mk_membership 102 10 2 PR_ADMIN True,
       mk_membership 103 10 3 PR_MEMBER True, mk_membership 104 10 4 PR_MEMBER True,
       mk_membership 105 11 5 PR_OWNER True, mk_membership 106 10 6 PR_MEMBER True,
       mk_membership 107 10 7 PR_MEMBER True],
     workspaces = [mk_workspace 20 10 1 10 WS_ACTIVE, mk_workspace 21 11 5 10 WS_ACTIVE],
     members = [mk_member 203 20 3 WR_MEMBER True, mk_member 204 20 4 WR_ADMIN True,
       mk_member 206 20 6 WR_VIEWER True, mk_member 207 20 7 WR_MEMBER True],
     invitations = [],
     tasks = [mk_task 30 20 None TS_PENDING, mk_task 31 20 None TS_ASSIGNED,
       mk_task 32 20 (Some 31) TS_WORKING, mk_task 33 20 (Some 32) TS_REVIEW],
     assignments = [mk_assignment 41 31 3 True, mk_assignment 42 32 3 True,
       mk_assignment 43 33 3 True],
     comments = [mk_comment 61 31 3 [104, 105]],
     deliverables = [mk_deliverable 51 33 3 1 DS_SUBMITTED 5],
     reviews = [],
     notifications = [],
     audit_logs = []\<rparr>"

definition ex_env :: env where
  "ex_env = \<lparr>e_now = 1000, e_uuid = (\<lambda>k. 900 + k), e_token = [116], e_casefold = (\<lambda>t. t),
     e_iexact = (=), e_sha256 = (\<lambda>t. replicate 63 (CHR ''0'') @ [if t = [116] then CHR ''1'' else CHR ''2'']),
     e_valid_email = (\<lambda>t. t \<noteq> []), e_mail_backend = Some ''smtp''\<rparr>"

lemma ex_db_ok: "db_ok ex_db"
  by code_simp

end
