(* ===== verification/Access_Theorems.thy ===== *)
theory Access_Theorems
  imports Workspace_Access Fixtures
begin

text \<open>The properties of the tenant access layer, with their witnesses.\<close>

definition ex_context :: "uuid \<Rightarrow> uuid \<Rightarrow> profile_role \<Rightarrow> ws_role option \<Rightarrow> workspace_access_context" where
  "ex_context u m r wr = \<lparr>wc_profile_context =
     \<lparr>pc_user = u, pc_profile = 10, pc_membership = m, pc_role = r, pc_verified = True\<rparr>,
     wc_workspace = 20, wc_role = wr, wc_verified = True\<rparr>"

text \<open>
  C1. Tenant resolution is sound and complete. Over a database satisfying its constraints, the
  resolvers hand user \<open>u\<close> a context for Workspace \<open>w\<close> of Profile \<open>p\<close> that claims the authority
  \<open>a\<close> exactly when \<open>u\<close> has it: an active account with an active membership of that very Profile,
  the Workspace belonging to it, and for an ordinary member an active assignment with that role.
\<close>

theorem resolution_iff_authority:
  assumes "db_ok s"
  shows "(\<exists>pc c. resolve_profile_access_context (Some u) (Val p) s = Inr pc
      \<and> resolve_workspace_access_context pc (Val w) s = Inr c \<and> context_authority c = Some a)
    \<longleftrightarrow> has_authority s u p w a"
proof
  assume "\<exists>pc c. resolve_profile_access_context (Some u) (Val p) s = Inr pc
      \<and> resolve_workspace_access_context pc (Val w) s = Inr c \<and> context_authority c = Some a"
  then show "has_authority s u p w a"
    by (metis resolve_profile_D(1,2) resolve_workspace_D(1-4) is_current_D(2) arg.inject option.inject)
next
  assume "has_authority s u p w a"
  from resolve_workspace_I [OF assms this]
  show "\<exists>pc c. resolve_profile_access_context (Some u) (Val p) s = Inr pc
      \<and> resolve_workspace_access_context pc (Val w) s = Inr c \<and> context_authority c = Some a"
    by blast
qed

lemma resolution_iff_authority_witness:
  "(\<exists>pc c. resolve_profile_access_context (Some 3) (Val 10) ex_db = Inr pc
      \<and> resolve_workspace_access_context pc (Val 20) ex_db = Inr c
      \<and> context_authority c = Some (Assigned WR_MEMBER))
   \<and> \<not> (\<exists>pc c. resolve_profile_access_context (Some 5) (Val 10) ex_db = Inr pc
      \<and> resolve_workspace_access_context pc (Val 20) ex_db = Inr c
      \<and> context_authority c = Some (Assigned WR_MEMBER))"
proof -
  have "has_authority ex_db 3 10 20 (Assigned WR_MEMBER)"
    and "\<not> has_authority ex_db 5 10 20 (Assigned WR_MEMBER)"
    by code_simp+
  then show ?thesis by (simp only: resolution_iff_authority [OF ex_db_ok] simp_thms)
qed

text \<open>
  C2. The capability predicates fail closed. Whatever context a caller presents, forged or stale,
  and whatever has happened to the database since it was issued, a predicate that answers yes
  implies that the context came from a resolver and that its user has, in the database of the
  moment of the check, the authority the context claims.
\<close>

theorem capabilities_fail_closed:
  assumes "can \<in> {can_read_workspace, can_edit_workspace, can_manage_workspace_tasks,
      can_execute_workspace_tasks, can_review_workspace_deliverables, can_manage_workspace_members,
      can_mutate_workspace_members, can_manage_workspace_lifecycle}"
    and "can c s"
  shows "is_verified_workspace_context c \<and> (\<exists>a. context_authority c = Some a
    \<and> has_authority s (wc_user c) (wc_profile c) (wc_workspace c) a)"
proof -
  have "is_current_workspace_context c s" using assms capability_current by blast
  then show ?thesis using is_current_D(1,2) by blast
qed

lemma capabilities_fail_closed_witness:
  "has_authority ex_db 4 10 20 (Assigned WR_ADMIN)"
proof -
  have "can_edit_workspace (ex_context 4 104 PR_MEMBER (Some WR_ADMIN)) ex_db" by code_simp
  from capabilities_fail_closed [of can_edit_workspace, OF _ this]
  show ?thesis
    by (simp add: ex_context_def wc_user_def wc_profile_def wc_profile_role_def context_authority_def)
qed

text \<open>
  C3. The capability table. For a current context the eight predicates are determined by the
  authority it claims and by whether the Profile and the Workspace are active: managers and the
  Workspace Admin edit, manage Tasks and members; only an Editor executes Tasks; a Viewer only
  reads; lifecycle is for Profile managers; an archived scope leaves reading (and, for managers of
  an active Profile, the lifecycle) only.
\<close>

theorem capability_table:
  assumes "db_ok s" "is_current_workspace_context c s" "context_authority c = Some a"
  shows "let active = profile_active (wc_profile c) s \<and> ws_active s (wc_workspace c);
      manages = (case a of Manager _ \<Rightarrow> True | Assigned r \<Rightarrow> r = WR_ADMIN) in
    can_read_workspace c s
    \<and> can_edit_workspace c s = (active \<and> manages)
    \<and> can_manage_workspace_tasks c s = (active \<and> manages)
    \<and> can_review_workspace_deliverables c s = (active \<and> manages)
    \<and> can_execute_workspace_tasks c s = (active \<and> a = Assigned WR_MEMBER)
    \<and> can_manage_workspace_members c s = manages
    \<and> can_mutate_workspace_members c s = (active \<and> manages)
    \<and> can_manage_workspace_lifecycle c s =
        (profile_active (wc_profile c) s \<and> (\<exists>r. a = Manager r))"
proof -
  have "has_authority s (wc_user c) (wc_profile c) (wc_workspace c) a"
    using is_current_D(2) [OF assms(2)] assms(3) by auto
  then show ?thesis
    using assms(3)
    by (elim context_authority_cases)
      (auto simp: capability_defs active_state_iff [OF assms(1)] assms(2) Let_def
        wc_profile_def simp del: not_manager)
qed

lemma capability_table_witness:
  "can_execute_workspace_tasks (ex_context 3 103 PR_MEMBER (Some WR_MEMBER)) ex_db
   \<and> \<not> can_edit_workspace (ex_context 3 103 PR_MEMBER (Some WR_MEMBER)) ex_db"
proof -
  have a: "is_current_workspace_context (ex_context 3 103 PR_MEMBER (Some WR_MEMBER)) ex_db"
    "context_authority (ex_context 3 103 PR_MEMBER (Some WR_MEMBER)) = Some (Assigned WR_MEMBER)"
    "profile_active (wc_profile (ex_context 3 103 PR_MEMBER (Some WR_MEMBER))) ex_db"
    "ws_active ex_db (wc_workspace (ex_context 3 103 PR_MEMBER (Some WR_MEMBER)))"
    by code_simp+
  show ?thesis using capability_table [OF ex_db_ok a(1,2)] a(3,4) by (simp add: Let_def)
qed

text \<open>
  The Workspace list is exactly what can be opened: a row is in \<open>workspaces_visible_to\<close> of a
  verified context that is still current iff resolving its identifier succeeds, and for a context
  that is no longer backed by an active membership of an active account both raise
  \<open>TenantAccessNotFound\<close>.
\<close>

theorem visible_iff_resolvable:
  "(case workspaces_visible_to pc s of
       Inl e \<Rightarrow> e = TenantAccessNotFound
         \<and> (\<forall>w. resolve_workspace_access_context pc w s = Inl TenantAccessNotFound)
     | Inr ws \<Rightarrow> \<forall>i. i \<in> w_id ` set ws
         \<longleftrightarrow> (\<exists>c. resolve_workspace_access_context pc (Val i) s = Inr c))"
proof (cases "refresh_profile_access_context pc s")
  case (Inl e)
  then have "e = TenantAccessNotFound"
    by (auto simp: refresh_profile_access_context_def require_def require_some_def
        split: if_splits option.splits)
  with Inl show ?thesis
    by (simp add: workspaces_visible_to_def resolve_workspace_access_context_def)
next
  case (Inr cur)
  have "(i \<in> w_id ` set (workspaces_visible_to_valid_context cur s))
      = (\<exists>c. resolve_workspace_access_context pc (Val i) s = Inr c)" for i
  proof
    assume "i \<in> w_id ` set (workspaces_visible_to_valid_context cur s)"
    then obtain w where w: "w \<in> set (workspaces_visible_to_valid_context cur s)" "w_id w = i" by auto
    obtain x where x: "first_by w_id (\<lambda>w. w_id w = i) (workspaces_visible_to_valid_context cur s) = Some x"
      and x': "x \<in> set (workspaces_visible_to_valid_context cur s)" "w_id x = i"
      by (rule first_by_obtain [of w _ "\<lambda>w. w_id w = i" w_id, OF w])
    show "\<exists>c. resolve_workspace_access_context pc (Val i) s = Inr c"
    proof (cases "pc_role cur = PR_MEMBER")
      case True
      then obtain wm where "member_role_row cur (w_id x) s = Some wm"
        using member_role_row_ex x'(1) by blast
      with True Inr x x'(2) show ?thesis by (simp add: resolve_workspace_access_context_def)
    next
      case False
      with Inr x show ?thesis by (simp add: resolve_workspace_access_context_def)
    qed
  next
    assume "\<exists>c. resolve_workspace_access_context pc (Val i) s = Inr c"
    then show "i \<in> w_id ` set (workspaces_visible_to_valid_context cur s)"
      using Inr by (fastforce simp: resolve_workspace_access_context_def dest: first_by_Some_in)
  qed
  with Inr show ?thesis by (simp add: workspaces_visible_to_def)
qed

end
