(* ===== verification/Workspace_Models.thy ===== *)
theory Workspace_Models
  imports Workspace_Access
begin

text \<open>
  \<open>full_clean\<close>, \<open>clean\<close> and \<open>save\<close> of the models of \<open>apps/workspace/models.py\<close>. Django's
  \<open>full_clean\<close> checks the declared fields (not blank, maximal length, an existing foreign key),
  calls the model's \<open>clean\<close>, then checks the unique and check constraints of the row; the
  exception names the first offending field in that order. The argument \<open>rows\<close> is the table as
  the pending write leaves it. Every table satisfies its constraints before the write (the
  database enforces them), so the row's constraint checks are those of \<open>rows\<close>.
\<close>

definition char_field_ok :: "nat \<Rightarrow> ptext \<Rightarrow> bool" where
  "char_field_ok n t \<longleftrightarrow> t \<noteq> [] \<and> length t \<le> n"

definition user_exists :: "uuid \<Rightarrow> db \<Rightarrow> bool" where
  "user_exists i s \<longleftrightarrow> i \<in> u_id ` set (users s)"

definition profile_exists :: "uuid \<Rightarrow> db \<Rightarrow> bool" where
  "profile_exists i s \<longleftrightarrow> i \<in> p_id ` set (profiles s)"

definition unique_checks :: "bool \<Rightarrow> error + unit" where
  "unique_checks ok = require ok (ValidationError ''__all__'') (Inr ())"

subsection \<open>Profile and ProfileMembership\<close>

definition profile_full_clean :: "profile list \<Rightarrow> profile \<Rightarrow> error + unit" where
  "profile_full_clean rows p =
     require (char_field_ok 255 (p_name p)) (ValidationError ''name'')
       (unique_checks (profiles_ok rows))"

definition membership_clean :: "profile_membership \<Rightarrow> db \<Rightarrow> error + unit" where
  "membership_clean m s =
     (if pm_is_active m \<and> pm_role m = PR_OWNER \<and> \<not> user_active s (pm_user m)
      then Inl (ValidationError ''user'') else Inr ())"

definition membership_full_clean ::
  "profile_membership list \<Rightarrow> profile_membership \<Rightarrow> db \<Rightarrow> error + unit" where
  "membership_full_clean rows m s =
     require (profile_exists (pm_profile m) s) (ValidationError ''profile'')
       (require (user_exists (pm_user m) s) (ValidationError ''user'')
         (bindE (membership_clean m s) (\<lambda>_. unique_checks (memberships_ok rows))))"

subsection \<open>Workspace\<close>

definition active_manager :: "db \<Rightarrow> uuid \<Rightarrow> uuid \<Rightarrow> bool" where
  "active_manager s p u \<longleftrightarrow> (\<exists>m\<in>set (memberships s). pm_profile m = p \<and> pm_user m = u
     \<and> user_active s u \<and> pm_is_active m \<and> is_manager (pm_role m))"

definition active_member :: "db \<Rightarrow> uuid \<Rightarrow> uuid \<Rightarrow> bool" where
  "active_member s p u \<longleftrightarrow> (\<exists>m\<in>set (memberships s). pm_profile m = p \<and> pm_user m = u
     \<and> user_active s u \<and> pm_is_active m)"

definition workspace_clean :: "workspace \<Rightarrow> db \<Rightarrow> error + unit" where
  "workspace_clean w s =
    (let persisted = lookup_pk w_id (w_id w) (workspaces s);
         persisted_profile = (case persisted of None \<Rightarrow> None | Some r \<Rightarrow> w_profile r);
         persisted_period = (case persisted of None \<Rightarrow> None | Some r \<Rightarrow> w_period r) in
     if (case w_period w of None \<Rightarrow> False | Some d \<Rightarrow> date_day d \<noteq> 1)
     then Inl (ValidationError ''period'')
     else if persisted = None \<and> w_period w = None then Inl (ValidationError ''period'')
     else if persisted_period \<noteq> None \<and> w_period w \<noteq> persisted_period
     then Inl (ValidationError ''period'')
     else case w_profile w of
         None \<Rightarrow> if persisted \<noteq> None \<and> persisted_profile = None then Inr ()
                 else Inl (ValidationError ''profile'')
       | Some p \<Rightarrow>
           if persisted_profile \<noteq> None \<and> persisted_profile \<noteq> Some p
           then Inl (ValidationError ''profile'')
           else if \<not> active_manager s p (w_owner w) then Inl (ValidationError ''owner'')
           else if persisted \<noteq> None \<and> persisted_profile = None
             \<and> (\<exists>wm\<in>set (members s). wm_workspace wm = w_id w \<and> \<not> active_member s p (wm_user wm))
           then Inl (ValidationError ''profile'')
           else Inr ())"

text \<open>\<open>profile\<close> is declared \<open>null=True\<close> without \<open>blank=True\<close>: the field check refuses \<open>None\<close>.\<close>

definition workspace_full_clean :: "workspace list \<Rightarrow> workspace \<Rightarrow> db \<Rightarrow> error + unit" where
  "workspace_full_clean rows w s =
     require (char_field_ok 255 (w_name w)) (ValidationError ''name'')
      (require (case w_profile w of None \<Rightarrow> False | Some p \<Rightarrow> profile_exists p s)
         (ValidationError ''profile'')
       (require (user_exists (w_owner w) s) (ValidationError ''owner'')
         (bindE (workspace_clean w s) (\<lambda>_. unique_checks (workspaces_ok rows)))))"

definition workspace_save :: "workspace list \<Rightarrow> workspace \<Rightarrow> db \<Rightarrow> error + db" where
  "workspace_save rows w s = (case w_profile w of
     None \<Rightarrow> bindE (workspace_full_clean rows w s) (\<lambda>_. write_workspaces rows s)
   | Some p \<Rightarrow> require (profile_exists p s) DoesNotExist
       (bindE (workspace_full_clean rows w s) (\<lambda>_. write_workspaces rows s)))"

subsection \<open>WorkspaceMember\<close>

definition workspace_profile :: "uuid \<Rightarrow> db \<Rightarrow> uuid option" where
  "workspace_profile i s = (case lookup_pk w_id i (workspaces s) of
     None \<Rightarrow> None | Some w \<Rightarrow> w_profile w)"

definition member_clean :: "workspace_member \<Rightarrow> db \<Rightarrow> error + unit" where
  "member_clean m s = (case workspace_profile (wm_workspace m) s of
     None \<Rightarrow> if \<exists>x\<in>set (members s). wm_id x = wm_id m \<and> wm_workspace x = wm_workspace m
                \<and> wm_user x = wm_user m then Inr ()
            else Inl (ValidationError ''workspace'')
   | Some p \<Rightarrow> if wm_is_active m \<and> \<not> active_member s p (wm_user m)
              then Inl (ValidationError ''user'') else Inr ())"

definition member_full_clean ::
  "workspace_member list \<Rightarrow> workspace_member \<Rightarrow> db \<Rightarrow> error + unit" where
  "member_full_clean rows m s =
     require (wm_workspace m \<in> w_id ` set (workspaces s)) (ValidationError ''workspace'')
       (require (user_exists (wm_user m) s) (ValidationError ''user'')
         (bindE (member_clean m s) (\<lambda>_. unique_checks (members_ok rows))))"

definition member_save :: "workspace_member list \<Rightarrow> workspace_member \<Rightarrow> db \<Rightarrow> error + db" where
  "member_save rows m s = (case workspace_profile (wm_workspace m) s of
     None \<Rightarrow> bindE (member_full_clean rows m s) (\<lambda>_. write_members rows s)
   | Some p \<Rightarrow> require (profile_exists p s) DoesNotExist
       (bindE (member_full_clean rows m s) (\<lambda>_. write_members rows s)))"

lemma unique_checks_eq_Inr [simp]: "unique_checks ok = Inr u \<longleftrightarrow> ok"
  by (simp add: unique_checks_def)

lemma active_manager_iff: "active_manager s p u \<longleftrightarrow> (\<exists>r. is_manager r \<and> holds_profile_role s u p r)"
  by (auto simp: active_manager_def holds_profile_role_def)

lemma active_member_iff: "active_member s p u \<longleftrightarrow> (\<exists>r. holds_profile_role s u p r)"
  by (auto simp: active_member_def holds_profile_role_def)

lemma workspace_save_D:
  assumes "workspace_save rows w s = Inr s'"
  shows "s' = s\<lparr>workspaces := rows\<rparr>" "workspaces_ok rows" "char_field_ok 255 (w_name w)"
    "\<exists>p. w_profile w = Some p \<and> active_manager s p (w_owner w)"
  using assms
  by (auto simp: workspace_save_def workspace_full_clean_def workspace_clean_def Let_def
      split: option.splits if_splits)

lemma workspace_save_iff_D:
  "workspace_save rows w s = Inr s' \<Longrightarrow> s' = s\<lparr>workspaces := rows\<rparr> \<and> workspaces_ok rows
     \<and> char_field_ok 255 (w_name w) \<and> (\<exists>p. w_profile w = Some p \<and> active_manager s p (w_owner w))"
  using workspace_save_D by blast

lemma member_save_D:
  assumes "member_save rows m s = Inr s'"
  shows "s' = s\<lparr>members := rows\<rparr> \<and> members_ok rows
    \<and> (\<forall>p. workspace_profile (wm_workspace m) s = Some p \<longrightarrow> wm_is_active m
        \<longrightarrow> active_member s p (wm_user m))"
  using assms
  by (auto simp: member_save_def member_full_clean_def member_clean_def
      split: option.splits if_splits)

end
