(* ===== verification/Workspace_Services.thy ===== *)
theory Workspace_Services
  imports Workspace_Models
begin

text \<open>
  \<open>apps/workspace/services.py\<close>: the mutations of Profiles, Profile memberships, Workspaces and
  Workspace members. Each definition is the body of the \<open>@transaction.atomic\<close> function: it
  returns the result and the new state, or the exception that rolls the transaction back.
\<close>

subsection \<open>Audit records\<close>

definition write_audit :: "env \<Rightarrow> nat \<Rightarrow> uuid option \<Rightarrow> string \<Rightarrow> string \<Rightarrow> uuid option
    \<Rightarrow> (string \<times> json) list \<Rightarrow> db \<Rightarrow> error + db" where
  "write_audit env k actor action entity entity_id meta s =
     write_audit_logs (audit_logs s @ [\<lparr>al_id = e_uuid env k, al_user = actor, al_action = action,
       al_entity_name = entity, al_entity_id = entity_id, al_metadata = meta,
       al_created_at = e_now env\<rparr>]) s"

text \<open>\<open>str(x)\<close> of an optional identifier.\<close>

definition str_uuid :: "uuid option \<Rightarrow> json" where
  "str_uuid u = (case u of None \<Rightarrow> JStr ''None'' | Some i \<Rightarrow> JUuid i)"

datatype membership_ref = Profile_Membership profile_membership | Workspace_Membership workspace_member

definition write_membership_audit :: "env \<Rightarrow> nat \<Rightarrow> uuid \<Rightarrow> membership_ref \<Rightarrow> string \<Rightarrow> json \<Rightarrow> json
    \<Rightarrow> db \<Rightarrow> error + db" where
  "write_membership_audit env k actor membership action prior after s = (case membership of
     Profile_Membership m \<Rightarrow> write_audit env k (Some actor) action ''ProfileMembership'' (Some (pm_id m))
       [(''profile_id'', JUuid (pm_profile m)), (''target_user_id'', JUuid (pm_user m)),
        (''before'', prior), (''after'', after)] s
   | Workspace_Membership m \<Rightarrow>
       write_audit env k (Some actor) action ''WorkspaceMember'' (Some (wm_id m))
       [(''profile_id'', str_uuid (workspace_profile (wm_workspace m) s)),
        (''target_user_id'', JUuid (wm_user m)), (''before'', prior), (''after'', after),
        (''workspace_id'', JUuid (wm_workspace m))] s)"

definition write_workspace_audit ::
  "env \<Rightarrow> nat \<Rightarrow> uuid \<Rightarrow> workspace \<Rightarrow> string \<Rightarrow> json \<Rightarrow> json \<Rightarrow> db \<Rightarrow> error + db" where
  "write_workspace_audit env k actor w action prior after s =
     write_audit env k (Some actor) action ''Workspace'' (Some (w_id w))
       [(''profile_id'', str_uuid (w_profile w)), (''before'', prior), (''after'', after)] s"

definition write_profile_audit ::
  "env \<Rightarrow> nat \<Rightarrow> uuid \<Rightarrow> profile \<Rightarrow> string \<Rightarrow> json \<Rightarrow> json \<Rightarrow> db \<Rightarrow> error + db" where
  "write_profile_audit env k actor p action prior after s =
     write_audit env k (Some actor) action ''Profile'' (Some (p_id p))
       [(''profile_id'', JUuid (p_id p)), (''before'', prior), (''after'', after)] s"

fun profile_role_str :: "profile_role \<Rightarrow> string" where
  "profile_role_str PR_OWNER = ''OWNER''"
| "profile_role_str PR_ADMIN = ''ADMIN''"
| "profile_role_str PR_MEMBER = ''MEMBER''"

fun ws_role_str :: "ws_role \<Rightarrow> string" where
  "ws_role_str WR_OWNER = ''OWNER''"
| "ws_role_str WR_ADMIN = ''ADMIN''"
| "ws_role_str WR_MEMBER = ''MEMBER''"
| "ws_role_str WR_VIEWER = ''VIEWER''"

fun profile_status_str :: "profile_status \<Rightarrow> string" where
  "profile_status_str PS_ACTIVE = ''ACTIVE''"
| "profile_status_str PS_ARCHIVED = ''ARCHIVED''"

fun ws_status_str :: "ws_status \<Rightarrow> string" where
  "ws_status_str WS_ACTIVE = ''ACTIVE''"
| "ws_status_str WS_ARCHIVED = ''ARCHIVED''"

definition role_state :: "string \<Rightarrow> bool \<Rightarrow> json" where
  "role_state r act = JObj [(''role'', JStr r), (''is_active'', JBool act)]"

definition jtext_opt :: "ptext option \<Rightarrow> json" where
  "jtext_opt t = (case t of None \<Rightarrow> JNull | Some x \<Rightarrow> JText x)"

text \<open>\<open>date.isoformat()\<close>: four digits of the year, two of the month and of the day.\<close>

fun digits :: "nat \<Rightarrow> nat \<Rightarrow> ptext" where
  "digits 0 n = []"
| "digits (Suc k) n = digits k (n div 10) @ [48 + n mod 10]"

definition isoformat :: "date \<Rightarrow> ptext" where
  "isoformat d = digits 4 (nat (date_year d)) @ [45] @ digits 2 (date_month d) @ [45]
     @ digits 2 (date_day d)"

definition jdate_opt :: "date option \<Rightarrow> json" where
  "jdate_opt d = (case d of None \<Rightarrow> JNull | Some x \<Rightarrow> JText (isoformat x))"

subsection \<open>The common tenant boundary\<close>

text \<open>
  The Profile and the Workspace are resolved by unlocked reads, then locked and revalidated. Under
  \<open>READ COMMITTED\<close> each group of statements sees its own committed state: the Profile resolution
  reads \<open>s0\<close>, the Workspace resolution \<open>s1\<close>, the locked reads \<open>s2\<close>.
\<close>

definition lock_actor_workspace_role ::
  "profile_membership \<Rightarrow> uuid \<Rightarrow> db \<Rightarrow> error + ws_role option" where
  "lock_actor_workspace_role m w s =
     (if pm_role m = PR_MEMBER
      then require_some (first_by wm_id (\<lambda>wm. wm_workspace wm = w \<and> wm_user wm = pm_user m
             \<and> wm_is_active wm \<and> is_assignable_role (wm_role wm)) (members s)) TenantAccessNotFound
             (\<lambda>wm. Inr (Some (wm_role wm)))
      else Inr None)"

definition lock_workspace_mutation_context_at ::
  "db \<Rightarrow> db \<Rightarrow> db \<Rightarrow> uuid \<Rightarrow> uuid arg \<Rightarrow> uuid arg
    \<Rightarrow> error + (workspace_access_context \<times> workspace \<times> profile_membership)" where
  "lock_workspace_mutation_context_at s0 s1 s2 actor profile_id workspace_id =
     bindE (resolve_profile_access_context (Some actor) profile_id s0) (\<lambda>pc.
     bindE (resolve_workspace_access_context pc workspace_id s1) (\<lambda>wc.
     require_some (lookup_pk p_id (pc_profile pc) (profiles s2)) DoesNotExist (\<lambda>profile.
     require (p_status profile = PS_ACTIVE) PermissionDenied
     (require_some (first_by w_id (\<lambda>w. w_id w = wc_workspace wc \<and> w_profile w = Some (pc_profile pc))
        (workspaces s2)) TenantAccessNotFound (\<lambda>workspace.
     require_some (first_by pm_id (\<lambda>m. pm_id m = pc_membership pc \<and> pm_profile m = pc_profile pc
        \<and> pm_user m = pc_user pc \<and> user_active s2 (pm_user m) \<and> pm_is_active m) (memberships s2))
        TenantAccessNotFound (\<lambda>actor_membership.
     bindE (lock_actor_workspace_role actor_membership (w_id workspace) s2) (\<lambda>locked_workspace_role.
     require (pm_role actor_membership = wc_profile_role wc \<and> locked_workspace_role = wc_role wc)
       TenantAccessNotFound
       (Inr (wc, workspace, actor_membership)))))))))"

text \<open>The undisturbed execution, in which the three groups of reads see one state.\<close>

definition lock_workspace_mutation_context ::
  "uuid \<Rightarrow> uuid arg \<Rightarrow> uuid arg \<Rightarrow> db
    \<Rightarrow> error + (workspace_access_context \<times> workspace \<times> profile_membership)" where
  "lock_workspace_mutation_context actor profile_id workspace_id s =
     lock_workspace_mutation_context_at s s s actor profile_id workspace_id"

lemma lock_role_D:
  "lock_actor_workspace_role m w s = Inr (Some r) \<Longrightarrow> is_assignable_role r \<and> holds_ws_role s (pm_user m) w r"
  by (auto simp: lock_actor_workspace_role_def holds_ws_role_def dest!: first_by_Some_in split: if_splits)

lemma lock_at_D:
  assumes "lock_workspace_mutation_context_at s0 s1 s2 actor pid wid = Inr (wc, w, m)"
  shows "actor = wc_user wc" "pid = Val (wc_profile wc)" "wid = Val (wc_workspace wc)"
    "w \<in> set (workspaces s2)" "w_id w = wc_workspace wc" "w_profile w = Some (wc_profile wc)"
    "profile_active (wc_profile wc) s2"
    "m \<in> set (memberships s2)" "pm_profile m = wc_profile wc" "pm_user m = wc_user wc"
    "pm_is_active m" "user_active s2 (wc_user wc)" "pm_role m = wc_profile_role wc"
    "is_current_workspace_context wc s2"
proof -
  from assms obtain pc pr where
    pc: "resolve_profile_access_context (Some actor) pid s0 = Inr pc"
    and wc: "resolve_workspace_access_context pc wid s1 = Inr wc"
    and pr: "lookup_pk p_id (pc_profile pc) (profiles s2) = Some pr" "p_status pr = PS_ACTIVE"
    and w: "w \<in> set (workspaces s2)" "w_id w = wc_workspace wc" "w_profile w = Some (pc_profile pc)"
    and m: "m \<in> set (memberships s2)" "pm_id m = pc_membership pc" "pm_profile m = pc_profile pc"
      "pm_user m = pc_user pc" "user_active s2 (pm_user m)" "pm_is_active m"
    and lr: "lock_actor_workspace_role m (w_id w) s2 = Inr (wc_role wc)"
    and eq: "pm_role m = wc_profile_role wc"
    by (auto simp: lock_workspace_mutation_context_at_def dest!: first_by_Some_in)
  note P = resolve_profile_D [OF pc] and W = resolve_workspace_D [OF wc]
  have f: "pc_user pc = wc_user wc" "pc_profile pc = wc_profile wc"
    "pc_membership (wc_profile_context wc) = pc_membership pc" using W(3,4,6) by simp_all
  show "actor = wc_user wc" "pid = Val (wc_profile wc)" "wid = Val (wc_workspace wc)"
    using P(1,2) W(2) f(1,2) by simp_all
  show ws: "w \<in> set (workspaces s2)" "w_id w = wc_workspace wc" "w_profile w = Some (wc_profile wc)"
    using w f by simp_all
  show "profile_active (wc_profile wc) s2"
    using lookup_pk_Some [OF pr(1)] pr(2) f by (auto simp: profile_active_def)
  show ms: "m \<in> set (memberships s2)" "pm_profile m = wc_profile wc" "pm_user m = wc_user wc"
    "pm_is_active m" "user_active s2 (wc_user wc)" "pm_role m = wc_profile_role wc"
    using m f eq by simp_all
  have j: "membership_join (wc_profile_context wc) (wc_profile_role wc) s2"
    unfolding membership_join_def
    using ms m(2) f by (intro bexI [of _ m]) (auto simp: wc_profile_def wc_user_def)
  have t: "in_tenant s2 (wc_workspace wc) (wc_profile wc)" using ws by (auto simp: in_tenant_def)
  have h: "holds_profile_role s2 (wc_user wc) (wc_profile wc) (wc_profile_role wc)"
    using membership_join_holds [OF j] by (simp add: wc_user_def wc_profile_def)
  obtain a where a: "context_authority wc = Some a" using is_current_D(2) [OF W(1)] by blast
  have "has_authority s2 (wc_user wc) (wc_profile wc) (wc_workspace wc) a"
    using a
  proof (cases rule: context_authority_cases)
    case (1 r)
    with h t show ?thesis by simp
  next
    case (2 r)
    with lr lock_role_D [of m "w_id w" s2 r] h t ws ms show ?thesis by simp
  qed
  with is_current_D(1) [OF W(1)] j a show "is_current_workspace_context wc s2"
    by (intro is_current_I)
qed

lemmas lock_D = lock_at_D [of s s s for s, folded lock_workspace_mutation_context_def]

lemma lock_I:
  assumes ok: "db_ok s" and a: "has_authority s u p i a" and act: "profile_active p s"
  obtains wc w m where "lock_workspace_mutation_context u (Val p) (Val i) s = Inr (wc, w, m)"
    "context_authority wc = Some a"
proof -
  obtain pc wc where pc: "resolve_profile_access_context (Some u) (Val p) s = Inr pc"
    and wc: "resolve_workspace_access_context pc (Val i) s = Inr wc" "context_authority wc = Some a"
    "wc_profile_context wc = pc"
    using resolve_workspace_I [OF ok a] by blast
  note P = resolve_profile_D [OF pc] and W = resolve_workspace_D [OF wc(1)]
  note ids = db_okD(1-4) [OF ok]
  have f: "pc_user pc = u" "pc_profile pc = p" "wc_workspace wc = i" using P W by simp_all
  obtain pr where pr: "pr \<in> set (profiles s)" "p_id pr = p" "p_status pr = PS_ACTIVE"
    using act by (auto simp: profile_active_def)
  then have e1: "lookup_pk p_id p (profiles s) = Some pr"
    using ids(1) by (simp add: lookup_pk_eq profiles_ok_def)
  obtain w where w: "w \<in> set (workspaces s)" "w_id w = i" "w_profile w = Some p"
    using has_authority_in_tenant [OF a] by (auto simp: in_tenant_def)
  have e2: "first_by w_id (\<lambda>w. w_id w = i \<and> w_profile w = Some p) (workspaces s) = Some w"
    using w workspace_pk_unique [OF ids(3)] by (intro first_by_unique) auto
  obtain m where m: "m \<in> set (memberships s)" "pm_id m = pc_membership pc" "pm_profile m = p"
    "pm_user m = u" "user_active s (pm_user m)" "pm_is_active m" "pm_role m = pc_role pc"
    using P(4) f by (auto simp: membership_join_def)
  have e3: "first_by pm_id (\<lambda>m. pm_id m = pc_membership pc \<and> pm_profile m = p \<and> pm_user m = u
     \<and> user_active s (pm_user m) \<and> pm_is_active m) (memberships s) = Some m"
    using m membership_pk_unique [OF ids(2)] by (intro first_by_unique) auto
  have r: "pc_role pc = wc_profile_role wc" using wc(3) by (simp add: wc_profile_role_def)
  have "\<exists>wc w m. lock_workspace_mutation_context u (Val p) (Val i) s = Inr (wc, w, m)
      \<and> context_authority wc = Some a"
    using wc(2)
  proof (cases rule: context_authority_cases)
    case (1 q)
    then have "pm_role m \<noteq> PR_MEMBER" using m r by auto
    with 1 pc wc f pr e1 e2 e3 m r show ?thesis
      by (simp add: lock_workspace_mutation_context_def lock_workspace_mutation_context_at_def lock_actor_workspace_role_def)
  next
    case (2 q)
    with a obtain wm where wm: "wm \<in> set (members s)" "wm_workspace wm = i" "wm_user wm = u"
      "wm_is_active wm" "wm_role wm = q" "is_assignable_role q"
      by (auto simp: holds_ws_role_def)
    have "first_by wm_id (\<lambda>wm. wm_workspace wm = i \<and> wm_user wm = u \<and> wm_is_active wm
        \<and> is_assignable_role (wm_role wm)) (members s) = Some wm"
      using wm member_unique [OF ids(4)] by (intro first_by_unique) auto
    with 2 pc wc f pr e1 e2 e3 m r w wm show ?thesis
      by (simp add: lock_workspace_mutation_context_def lock_workspace_mutation_context_at_def lock_actor_workspace_role_def)
  qed
  with that show ?thesis by blast
qed

subsection \<open>Profiles\<close>

text \<open>\<open>owner\<close> is the saved primary key, if any; \<open>owner_is_active\<close> the attribute of the object passed.\<close>

definition new_profile :: "env \<Rightarrow> ptext option \<Rightarrow> profile" where
  "new_profile env name = \<lparr>p_id = e_uuid env 0, p_name = strip (text_or_empty name),
     p_status = PS_ACTIVE, p_created_at = e_now env, p_updated_at = e_now env\<rparr>"

definition new_owner_membership :: "env \<Rightarrow> profile \<Rightarrow> uuid \<Rightarrow> profile_membership" where
  "new_owner_membership env p u = \<lparr>pm_id = e_uuid env 1, pm_profile = p_id p, pm_user = u,
     pm_role = PR_OWNER, pm_is_active = True, pm_joined_at = e_now env, pm_created_at = e_now env,
     pm_updated_at = e_now env\<rparr>"

definition create_profile_with_owner ::
  "env \<Rightarrow> ptext option \<Rightarrow> uuid option \<Rightarrow> bool \<Rightarrow> db \<Rightarrow> error + (profile \<times> db)" where
  "create_profile_with_owner env name owner owner_is_active s =
     require_some owner (ValidationError ''__all__'') (\<lambda>u.
     require owner_is_active (ValidationError ''__all__'')
     (let p = new_profile env name in
      bindE (profile_full_clean (profiles s @ [p]) p) (\<lambda>_.
      bindE (write_profiles (profiles s @ [p]) s) (\<lambda>s1.
      let m = new_owner_membership env p u in
      bindE (membership_full_clean (memberships s1 @ [m]) m s1) (\<lambda>_.
      bindE (write_memberships (memberships s1 @ [m]) s1) (\<lambda>s2.
      bindE (write_membership_audit env 2 u (Profile_Membership m) ''profile.membership.created'' JNull
        (role_state (profile_role_str (pm_role m)) (pm_is_active m)) s2) (\<lambda>s3.
      Inr (p, s3))))))))"

definition set_profile_status ::
  "env \<Rightarrow> uuid \<Rightarrow> uuid arg \<Rightarrow> profile_status arg \<Rightarrow> db \<Rightarrow> error + (profile \<times> db)" where
  "set_profile_status env actor profile_id next_status s =
     bindE (resolve_profile_access_context (Some actor) profile_id s) (\<lambda>pc.
     require_some (lookup_pk p_id (pc_profile pc) (profiles s)) TenantAccessNotFound (\<lambda>p.
     require_some (first_by pm_id (\<lambda>m. pm_id m = pc_membership pc \<and> pm_profile m = pc_profile pc
        \<and> pm_user m = pc_user pc \<and> user_active s (pm_user m) \<and> pm_is_active m \<and> pm_role m = PR_OWNER)
        (memberships s)) PermissionDenied (\<lambda>_.
     bindE (resolve_profile_access_context (Some actor) (Val (p_id p)) s) (\<lambda>locked.
     require (can_manage_profile_lifecycle locked s) PermissionDenied
     (case next_status of
        Malformed \<Rightarrow> Inl (ValidationError ''status'')
      | Val st \<Rightarrow>
        if p_status p = st then Inr (p, s)
        else
          let p' = p\<lparr>p_status := st, p_updated_at := e_now env\<rparr>;
              rows = update_where (\<lambda>r. p_id r = p_id p)
                (\<lambda>r. r\<lparr>p_status := st, p_updated_at := e_now env\<rparr>) (profiles s) in
          bindE (profile_full_clean rows p') (\<lambda>_.
          bindE (write_profiles rows s) (\<lambda>s1.
          bindE (write_profile_audit env 0 actor p'
            (if st = PS_ARCHIVED then ''profile.archived'' else ''profile.restored'')
            (JObj [(''status'', JStr (profile_status_str (p_status p)))])
            (JObj [(''status'', JStr (profile_status_str (p_status p')))]) s1) (\<lambda>s2.
          Inr (p', s2)))))))))"

definition archive_profile :: "env \<Rightarrow> uuid \<Rightarrow> uuid arg \<Rightarrow> db \<Rightarrow> error + (profile \<times> db)" where
  "archive_profile env actor profile_id s = set_profile_status env actor profile_id (Val PS_ARCHIVED) s"

definition restore_profile :: "env \<Rightarrow> uuid \<Rightarrow> uuid arg \<Rightarrow> db \<Rightarrow> error + (profile \<times> db)" where
  "restore_profile env actor profile_id s = set_profile_status env actor profile_id (Val PS_ACTIVE) s"

text \<open>\<open>role\<close> and \<open>is_active\<close> are optional; a value outside the choices, or not a bool, is \<open>Malformed\<close>.\<close>

definition update_profile_membership :: "env \<Rightarrow> uuid \<Rightarrow> uuid arg \<Rightarrow> uuid arg \<Rightarrow> profile_role arg option
    \<Rightarrow> bool arg option \<Rightarrow> db \<Rightarrow> error + (profile_membership \<times> db)" where
  "update_profile_membership env actor profile_id membership_id role is_active s =
     bindE (resolve_profile_access_context (Some actor) profile_id s) (\<lambda>pc.
     require_some (lookup_pk p_id (pc_profile pc) (profiles s)) DoesNotExist (\<lambda>p.
     require (p_status p = PS_ACTIVE) PermissionDenied
     (require_some (first_by pm_id (\<lambda>m. pm_id m = pc_membership pc \<and> pm_profile m = pc_profile pc
        \<and> pm_user m = pc_user pc \<and> user_active s (pm_user m) \<and> pm_is_active m)
        (memberships s)) TenantAccessNotFound (\<lambda>actor_membership.
     require (is_manager (pm_role actor_membership)) PermissionDenied
     (case membership_id of
        Malformed \<Rightarrow> Inl TenantAccessNotFound
      | Val mid \<Rightarrow>
     require_some (first_by pm_id (\<lambda>m. pm_id m = mid \<and> pm_profile m = pc_profile pc) (memberships s))
       TenantAccessNotFound (\<lambda>m.
     case (case role of None \<Rightarrow> Val (pm_role m) | Some r \<Rightarrow> r) of
       Malformed \<Rightarrow> Inl (ValidationError ''role'')
     | Val next_role \<Rightarrow>
     case (case is_active of None \<Rightarrow> Val (pm_is_active m) | Some b \<Rightarrow> b) of
       Malformed \<Rightarrow> Inl (ValidationError ''is_active'')
     | Val next_is_active \<Rightarrow>
     require (\<not> (\<not> pm_is_active m \<and> next_is_active)) (ValidationError ''is_active'')
     (require (\<not> (next_role = PR_OWNER \<and> next_is_active \<and> \<not> user_active s (pm_user m)))
        (ValidationError ''user'')
     (require (\<not> (pm_role actor_membership = PR_ADMIN
          \<and> (pm_role m \<noteq> PR_MEMBER \<or> next_role \<noteq> PR_MEMBER))) PermissionDenied
     (let removes_active_owner = pm_role m = PR_OWNER \<and> pm_is_active m \<and> user_active s (pm_user m)
            \<and> (next_role \<noteq> PR_OWNER \<or> \<not> next_is_active) in
      require (\<not> (removes_active_owner \<and> \<not> (\<exists>x\<in>set (memberships s). pm_profile x = pc_profile pc
          \<and> pm_role x = PR_OWNER \<and> pm_is_active x \<and> user_active s (pm_user x) \<and> pm_id x \<noteq> pm_id m)))
        LastActiveProfileOwnerError
     (let removes_workspace_manager_status = pm_is_active m \<and> is_manager (pm_role m)
            \<and> (\<not> next_is_active \<or> \<not> is_manager next_role) in
      require (\<not> (removes_workspace_manager_status \<and> (\<exists>w\<in>set (workspaces s).
          w_profile w = Some (pc_profile pc) \<and> w_owner w = pm_user m))) (ValidationError ''role'')
     (if pm_role m = next_role \<and> pm_is_active m = next_is_active then Inr (m, s)
      else
        let f = (\<lambda>r. r\<lparr>pm_role := next_role, pm_is_active := next_is_active,
              pm_updated_at := e_now env\<rparr>);
            rows = update_where (\<lambda>r. pm_id r = pm_id m) f (memberships s) in
        bindE (membership_full_clean rows (f m) s) (\<lambda>_.
        bindE (write_memberships rows s) (\<lambda>s1.
        bindE (write_membership_audit env 0 actor (Profile_Membership (f m))
          ''profile.membership.updated''
          (role_state (profile_role_str (pm_role m)) (pm_is_active m))
          (role_state (profile_role_str next_role) next_is_active) s1) (\<lambda>s2.
        Inr (f m, s2)))))))))))))))"

subsection \<open>Workspaces\<close>

definition period_taken :: "uuid \<Rightarrow> date \<Rightarrow> db \<Rightarrow> bool" where
  "period_taken p d s \<longleftrightarrow> (\<exists>w\<in>set (workspaces s). w_profile w = Some p \<and> w_period w = Some d)"

text \<open>The nested savepoint of \<open>create_workspace\<close>: the database's refusal becomes the domain conflict.\<close>

definition on_integrity_error :: "bool \<Rightarrow> error \<Rightarrow> error + 'a \<Rightarrow> error + 'a" where
  "on_integrity_error c e m = (case m of
     Inl IntegrityError \<Rightarrow> Inl (if c then e else IntegrityError) | _ \<Rightarrow> m)"

definition workspace_state :: "workspace \<Rightarrow> json" where
  "workspace_state w = JObj [(''name'', JText (w_name w)), (''description'', jtext_opt (w_description w))]"

definition new_workspace ::
  "env \<Rightarrow> uuid \<Rightarrow> uuid \<Rightarrow> ptext option \<Rightarrow> date \<Rightarrow> ptext option \<Rightarrow> workspace" where
  "new_workspace env p owner name period description =
     \<lparr>w_id = e_uuid env 0, w_name = strip (text_or_empty name), w_description = description,
      w_profile = Some p, w_owner = owner, w_period = Some period, w_status = WS_ACTIVE,
      w_created_at = e_now env, w_updated_at = e_now env\<rparr>"

definition create_workspace :: "env \<Rightarrow> uuid \<Rightarrow> uuid arg \<Rightarrow> ptext option \<Rightarrow> date option \<Rightarrow> ptext option
    \<Rightarrow> db \<Rightarrow> error + (workspace \<times> db)" where
  "create_workspace env actor profile_id name period description s =
     bindE (resolve_profile_access_context (Some actor) profile_id s) (\<lambda>pc.
     require_some (lookup_pk p_id (pc_profile pc) (profiles s)) TenantAccessNotFound (\<lambda>p.
     require (p_status p = PS_ACTIVE) PermissionDenied
     (require_some (first_by pm_id (\<lambda>m. pm_id m = pc_membership pc \<and> pm_profile m = pc_profile pc
        \<and> pm_user m = pc_user pc \<and> user_active s (pm_user m) \<and> pm_is_active m)
        (memberships s)) TenantAccessNotFound (\<lambda>actor_membership.
     require (pm_role actor_membership = pc_role pc) TenantAccessNotFound
     (require (is_manager (pm_role actor_membership)) PermissionDenied
     (require_some period (ValidationError ''period'') (\<lambda>d.
     require (\<not> period_taken (p_id p) d s) WorkspacePeriodConflict
     (let w = new_workspace env (p_id p) actor name d description in
      bindE (on_integrity_error (period_taken (p_id p) d s) WorkspacePeriodConflict
          (workspace_save (workspaces s @ [w]) w s)) (\<lambda>s1.
      bindE (write_workspace_audit env 1 actor w ''workspace.created'' JNull
        (JObj [(''name'', JText (w_name w)), (''description'', jtext_opt (w_description w)),
          (''period'', jdate_opt (w_period w)), (''status'', JStr (ws_status_str (w_status w)))]) s1)
        (\<lambda>s2. Inr (w, s2)))))))))))"

definition update_workspace :: "env \<Rightarrow> uuid \<Rightarrow> uuid arg \<Rightarrow> uuid arg \<Rightarrow> ptext option setting
    \<Rightarrow> ptext option setting \<Rightarrow> db \<Rightarrow> error + (workspace \<times> db)" where
  "update_workspace env actor profile_id workspace_id name description s =
     bindE (lock_workspace_mutation_context actor profile_id workspace_id s) (\<lambda>(wc, w, _).
     require (can_edit_workspace wc s) PermissionDenied
     (let name' = (case name of Unset \<Rightarrow> w_name w | Set n \<Rightarrow> strip (text_or_empty n));
          description' = set_or description (w_description w);
          f = (\<lambda>r. r\<lparr>w_name := name', w_description := description', w_updated_at := e_now env\<rparr>) in
      if name' = w_name w \<and> description' = w_description w then Inr (w, s)
      else
        bindE (workspace_save (update_where (\<lambda>r. w_id r = w_id w) f (workspaces s)) (f w) s) (\<lambda>s1.
        bindE (write_workspace_audit env 0 actor (f w) ''workspace.updated'' (workspace_state w)
          (workspace_state (f w)) s1) (\<lambda>s2.
        Inr (f w, s2)))))"

definition set_workspace_status :: "env \<Rightarrow> uuid \<Rightarrow> uuid arg \<Rightarrow> uuid arg \<Rightarrow> ws_status arg
    \<Rightarrow> db \<Rightarrow> error + (workspace \<times> db)" where
  "set_workspace_status env actor profile_id workspace_id next_status s =
     bindE (lock_workspace_mutation_context actor profile_id workspace_id s) (\<lambda>(wc, w, _).
     require (can_manage_workspace_lifecycle wc s) PermissionDenied
     (case next_status of
        Malformed \<Rightarrow> Inl (ValidationError ''status'')
      | Val st \<Rightarrow>
        if w_status w = st then Inr (w, s)
        else
          let f = (\<lambda>r. r\<lparr>w_status := st, w_updated_at := e_now env\<rparr>) in
          bindE (workspace_save (update_where (\<lambda>r. w_id r = w_id w) f (workspaces s)) (f w) s) (\<lambda>s1.
          bindE (write_workspace_audit env 0 actor (f w)
            (if st = WS_ARCHIVED then ''workspace.archived'' else ''workspace.restored'')
            (JObj [(''status'', JStr (ws_status_str (w_status w)))])
            (JObj [(''status'', JStr (ws_status_str (w_status (f w))))]) s1) (\<lambda>s2.
          Inr (f w, s2)))))"

definition archive_workspace ::
  "env \<Rightarrow> uuid \<Rightarrow> uuid arg \<Rightarrow> uuid arg \<Rightarrow> db \<Rightarrow> error + (workspace \<times> db)" where
  "archive_workspace env actor profile_id workspace_id s =
     set_workspace_status env actor profile_id workspace_id (Val WS_ARCHIVED) s"

definition restore_workspace ::
  "env \<Rightarrow> uuid \<Rightarrow> uuid arg \<Rightarrow> uuid arg \<Rightarrow> db \<Rightarrow> error + (workspace \<times> db)" where
  "restore_workspace env actor profile_id workspace_id s =
     set_workspace_status env actor profile_id workspace_id (Val WS_ACTIVE) s"

subsection \<open>Workspace members\<close>

definition roles_below :: "profile_role \<Rightarrow> ws_role list" where
  "roles_below actor_role =
     (if is_manager actor_role then [WR_ADMIN, WR_MEMBER, WR_VIEWER] else [WR_MEMBER, WR_VIEWER])"

definition new_member :: "env \<Rightarrow> uuid \<Rightarrow> uuid \<Rightarrow> ws_role \<Rightarrow> workspace_member" where
  "new_member env w u r = \<lparr>wm_id = e_uuid env 0, wm_workspace = w, wm_user = u, wm_role = r,
     wm_is_active = True, wm_joined_at = e_now env, wm_updated_at = e_now env\<rparr>"

text \<open>
  The rest of \<open>add_workspace_member\<close> once the target user \<open>u\<close> is known: an inactive row of the user
  is reactivated, otherwise a row is created. The result carries the \<open>was_reactivated\<close> attribute.
\<close>

definition assign_workspace_member :: "env \<Rightarrow> uuid \<Rightarrow> workspace \<Rightarrow> ws_role \<Rightarrow> uuid \<Rightarrow> db
    \<Rightarrow> error + ((workspace_member \<times> bool) \<times> db)" where
  "assign_workspace_member env actor w r u s = (
     case first_by wm_id (\<lambda>x. wm_workspace x = w_id w \<and> wm_user x = u) (members s) of
       Some old \<Rightarrow>
         require (\<not> wm_is_active old) WorkspaceMembershipConflict
         (let f = (\<lambda>x. x\<lparr>wm_role := r, wm_is_active := True, wm_updated_at := e_now env\<rparr>) in
          bindE (member_save (update_where (\<lambda>x. wm_id x = wm_id old) f (members s)) (f old) s) (\<lambda>s1.
          bindE (write_membership_audit env 0 actor (Workspace_Membership (f old))
            ''workspace.membership.reactivated'' (role_state (ws_role_str (wm_role old)) False)
            (role_state (ws_role_str r) True) s1) (\<lambda>s2.
          Inr ((f old, True), s2))))
     | None \<Rightarrow>
         let m = new_member env (w_id w) u r in
         bindE (on_integrity_error
             (\<exists>x\<in>set (members s). wm_workspace x = w_id w \<and> wm_user x = u)
             WorkspaceMembershipConflict (member_save (members s @ [m]) m s)) (\<lambda>s1.
         bindE (write_membership_audit env 1 actor (Workspace_Membership m)
           ''workspace.membership.created'' JNull (role_state (ws_role_str r) True) s1) (\<lambda>s2.
         Inr ((m, False), s2))))"

definition add_workspace_member :: "env \<Rightarrow> uuid \<Rightarrow> uuid arg \<Rightarrow> uuid arg \<Rightarrow> uuid arg \<Rightarrow> ws_role arg
    \<Rightarrow> db \<Rightarrow> error + ((workspace_member \<times> bool) \<times> db)" where
  "add_workspace_member env actor profile_id workspace_id target_profile_membership_id role s =
     bindE (lock_workspace_mutation_context actor profile_id workspace_id s) (\<lambda>(wc, w, am).
     require (can_mutate_workspace_members wc s) PermissionDenied
     (case role of Malformed \<Rightarrow> Inl (ValidationError ''role'') | Val r \<Rightarrow>
     require (r \<in> set (roles_below (pm_role am))) PermissionDenied
     (case target_profile_membership_id of
        Malformed \<Rightarrow> Inl (InvalidWorkspaceMembershipReference ''target_profile_membership_id'')
      | Val tid \<Rightarrow>
     require_some (first_by pm_id (\<lambda>m. pm_id m = tid \<and> Some (pm_profile m) = w_profile w
         \<and> user_active s (pm_user m) \<and> pm_is_active m) (memberships s))
       (InvalidWorkspaceMembershipReference ''target_profile_membership_id'') (\<lambda>tm.
     assign_workspace_member env actor w r (pm_user tm) s))))"

definition active_membership_of :: "uuid option \<Rightarrow> uuid \<Rightarrow> db \<Rightarrow> profile_membership option" where
  "active_membership_of p u s = first_by pm_id (\<lambda>m. Some (pm_profile m) = p \<and> pm_user m = u
     \<and> user_active s (pm_user m) \<and> pm_is_active m) (memberships s)"

definition update_workspace_member :: "env \<Rightarrow> uuid \<Rightarrow> uuid arg \<Rightarrow> uuid arg \<Rightarrow> uuid arg \<Rightarrow> ws_role arg
    \<Rightarrow> db \<Rightarrow> error + (workspace_member \<times> db)" where
  "update_workspace_member env actor profile_id workspace_id membership_id role s =
     bindE (lock_workspace_mutation_context actor profile_id workspace_id s) (\<lambda>(wc, w, am).
     require (can_mutate_workspace_members wc s) PermissionDenied
     (case role of Malformed \<Rightarrow> Inl (ValidationError ''role'') | Val r \<Rightarrow>
     case membership_id of Malformed \<Rightarrow> Inl TenantAccessNotFound | Val mid \<Rightarrow>
     require_some (first_by wm_id (\<lambda>x. wm_id x = mid \<and> wm_workspace x = w_id w \<and> wm_is_active x)
         (members s)) TenantAccessNotFound (\<lambda>target.
     require_some (active_membership_of (w_profile w) (wm_user target) s)
       (InvalidWorkspaceMembershipReference ''membership_id'') (\<lambda>tpm.
     require_some (first_by wm_id (\<lambda>x. wm_id x = mid \<and> wm_workspace x = w_id w
         \<and> wm_user x = pm_user tpm \<and> wm_is_active x) (members s)) TenantAccessNotFound (\<lambda>m.
     require (wm_role m \<in> set (roles_below (pm_role am)) \<and> r \<in> set (roles_below (pm_role am)))
       PermissionDenied
     (if wm_role m = r then Inr (m, s)
      else
        let f = (\<lambda>x. x\<lparr>wm_role := r, wm_updated_at := e_now env\<rparr>) in
        bindE (member_save (update_where (\<lambda>x. wm_id x = wm_id m) f (members s)) (f m) s) (\<lambda>s1.
        bindE (write_membership_audit env 0 actor (Workspace_Membership (f m))
          ''workspace.membership.updated'' (role_state (ws_role_str (wm_role m)) True)
          (role_state (ws_role_str r) True) s1) (\<lambda>s2.
        Inr (f m, s2)))))))))"

definition revoke_workspace_member :: "env \<Rightarrow> uuid \<Rightarrow> uuid arg \<Rightarrow> uuid arg \<Rightarrow> uuid arg
    \<Rightarrow> db \<Rightarrow> error + (workspace_member \<times> db)" where
  "revoke_workspace_member env actor profile_id workspace_id membership_id s =
     bindE (lock_workspace_mutation_context actor profile_id workspace_id s) (\<lambda>(wc, w, am).
     require (can_mutate_workspace_members wc s) PermissionDenied
     (case membership_id of Malformed \<Rightarrow> Inl TenantAccessNotFound | Val mid \<Rightarrow>
     require_some (first_by wm_id (\<lambda>x. wm_id x = mid \<and> wm_workspace x = w_id w \<and> wm_is_active x)
         (members s)) TenantAccessNotFound (\<lambda>m.
     require_some (active_membership_of (w_profile w) (wm_user m) s)
       (InvalidWorkspaceMembershipReference ''membership_id'') (\<lambda>_.
     require (wm_role m \<in> set (roles_below (pm_role am))) PermissionDenied
     (let f = (\<lambda>x. x\<lparr>wm_is_active := False, wm_updated_at := e_now env\<rparr>) in
      bindE (member_save (update_where (\<lambda>x. wm_id x = wm_id m) f (members s)) (f m) s) (\<lambda>s1.
      bindE (write_membership_audit env 0 actor (Workspace_Membership (f m))
        ''workspace.membership.revoked'' (role_state (ws_role_str (wm_role m)) True)
        (role_state (ws_role_str (wm_role m)) False) s1) (\<lambda>s2.
      Inr (f m, s2))))))))"

subsection \<open>What a successful call did\<close>

text \<open>The state after an audit record of the actor about the entity was appended.\<close>

definition logged :: "uuid \<Rightarrow> uuid \<Rightarrow> string \<Rightarrow> db \<Rightarrow> db \<Rightarrow> bool" where
  "logged actor entity action s s' \<longleftrightarrow> (\<exists>a. s' = s\<lparr>audit_logs := audit_logs s @ [a]\<rparr>
     \<and> al_user a = Some actor \<and> al_entity_id a = Some entity \<and> al_action a = action
     \<and> audit_logs_ok (audit_logs s @ [a]))"

lemma write_audit_logged:
  "write_audit env k (Some actor) action entity (Some i) meta s = Inr s' \<Longrightarrow> logged actor i action s s'"
  by (auto simp: write_audit_def logged_def)

lemma membership_audit_logged:
  "write_membership_audit env k actor (Profile_Membership pm) action b f s = Inr s'
     \<Longrightarrow> logged actor (pm_id pm) action s s'"
  "write_membership_audit env k actor (Workspace_Membership wm) action b f s = Inr s'
     \<Longrightarrow> logged actor (wm_id wm) action s s'"
  by (auto simp: write_membership_audit_def dest: write_audit_logged)

lemma workspace_audit_logged:
  "write_workspace_audit env k actor w action b f s = Inr s' \<Longrightarrow> logged actor (w_id w) action s s'"
  by (auto simp: write_workspace_audit_def dest: write_audit_logged)

lemma profile_audit_logged:
  "write_profile_audit env k actor p action b f s = Inr s' \<Longrightarrow> logged actor (p_id p) action s s'"
  by (auto simp: write_profile_audit_def dest: write_audit_logged)

lemmas audit_logged = membership_audit_logged workspace_audit_logged profile_audit_logged

lemma logged_tables:
  assumes "logged actor i action s s'"
  shows "users s' = users s" "profiles s' = profiles s" "memberships s' = memberships s"
    "workspaces s' = workspaces s" "members s' = members s" "invitations s' = invitations s"
    "tasks s' = tasks s" "assignments s' = assignments s" "comments s' = comments s"
    "deliverables s' = deliverables s" "reviews s' = reviews s" "notifications s' = notifications s"
    "audit_logs_ok (audit_logs s')"
    "\<exists>a. audit_logs s' = audit_logs s @ [a] \<and> al_user a = Some actor \<and> al_entity_id a = Some i
       \<and> al_action a = action"
  using assms by (auto simp: logged_def)

lemma on_integrity_error_Inr [simp]: "on_integrity_error c e m = Inr r \<longleftrightarrow> m = Inr r"
  by (auto simp: on_integrity_error_def split: sum.splits error.splits)

lemma new_row_simps [simp]:
  "p_id (new_profile env name) = e_uuid env 0"
  "p_name (new_profile env name) = strip (text_or_empty name)"
  "p_status (new_profile env name) = PS_ACTIVE"
  "pm_id (new_owner_membership env p u) = e_uuid env 1"
  "pm_profile (new_owner_membership env p u) = p_id p"
  "pm_user (new_owner_membership env p u) = u"
  "pm_role (new_owner_membership env p u) = PR_OWNER"
  "pm_is_active (new_owner_membership env p u)"
  "w_id (new_workspace env pid owner name d descr) = e_uuid env 0"
  "w_name (new_workspace env pid owner name d descr) = strip (text_or_empty name)"
  "w_description (new_workspace env pid owner name d descr) = descr"
  "w_profile (new_workspace env pid owner name d descr) = Some pid"
  "w_owner (new_workspace env pid owner name d descr) = owner"
  "w_period (new_workspace env pid owner name d descr) = Some d"
  "w_status (new_workspace env pid owner name d descr) = WS_ACTIVE"
  "wm_id (new_member env w x r) = e_uuid env 0"
  "wm_workspace (new_member env w x r) = w"
  "wm_user (new_member env w x r) = x"
  "wm_role (new_member env w x r) = r"
  "wm_is_active (new_member env w x r)"
  by (simp_all add: new_profile_def new_owner_membership_def new_workspace_def new_member_def)

lemma create_profile_D:
  assumes "create_profile_with_owner env name owner act s = Inr (p, s')"
  shows "\<exists>u. owner = Some u \<and> act \<and> user_active s u \<and> p = new_profile env name
    \<and> char_field_ok 255 (p_name p) \<and> profiles_ok (profiles s @ [p])
    \<and> memberships_ok (memberships s @ [new_owner_membership env p u])
    \<and> logged u (e_uuid env 1) ''profile.membership.created''
        (s\<lparr>profiles := profiles s @ [p], memberships := memberships s @ [new_owner_membership env p u]\<rparr>) s'"
  using assms
  by (auto simp: create_profile_with_owner_def Let_def profile_full_clean_def
      membership_full_clean_def membership_clean_def user_active_def
      dest!: audit_logged split: if_splits)

lemma set_profile_status_D:
  assumes "set_profile_status env actor pid next s = Inr (p', s')"
  shows "\<exists>p st. next = Val st \<and> p \<in> set (profiles s) \<and> pid = Val (p_id p)
    \<and> holds_profile_role s actor (p_id p) PR_OWNER
    \<and> (if p_status p = st then p' = p \<and> s' = s
       else p' = p\<lparr>p_status := st, p_updated_at := e_now env\<rparr>
         \<and> (let rows = update_where (\<lambda>r. p_id r = p_id p)
               (\<lambda>r. r\<lparr>p_status := st, p_updated_at := e_now env\<rparr>) (profiles s) in
            profiles_ok rows
            \<and> logged actor (p_id p)
                (if st = PS_ARCHIVED then ''profile.archived'' else ''profile.restored'')
                (s\<lparr>profiles := rows\<rparr>) s'))"
proof -
  from assms obtain pc p m st where pc: "resolve_profile_access_context (Some actor) pid s = Inr pc"
    and p: "lookup_pk p_id (pc_profile pc) (profiles s) = Some p"
    and m: "m \<in> set (memberships s)" "pm_profile m = pc_profile pc" "pm_user m = pc_user pc"
      "user_active s (pm_user m)" "pm_is_active m" "pm_role m = PR_OWNER"
    and st: "next = Val st"
    and r: "if p_status p = st then p' = p \<and> s' = s
       else p' = p\<lparr>p_status := st, p_updated_at := e_now env\<rparr>
         \<and> (let rows = update_where (\<lambda>r. p_id r = p_id p)
               (\<lambda>r. r\<lparr>p_status := st, p_updated_at := e_now env\<rparr>) (profiles s) in
            profiles_ok rows
            \<and> logged actor (p_id p)
                (if st = PS_ARCHIVED then ''profile.archived'' else ''profile.restored'')
                (s\<lparr>profiles := rows\<rparr>) s')"
    by (auto simp: set_profile_status_def Let_def dest!: first_by_Some_in audit_logged split: if_splits)
  then show ?thesis
    using resolve_profile_D(1,2) [OF pc] lookup_pk_Some [OF p]
    by (intro exI [of _ p] exI [of _ st]) (auto simp: holds_profile_role_def)
qed

definition other_active_owner :: "profile_membership \<Rightarrow> db \<Rightarrow> bool" where
  "other_active_owner m s \<longleftrightarrow> (\<exists>x\<in>set (memberships s). pm_profile x = pm_profile m
     \<and> pm_role x = PR_OWNER \<and> pm_is_active x \<and> user_active s (pm_user x) \<and> pm_id x \<noteq> pm_id m)"

definition owns_workspace :: "uuid \<Rightarrow> uuid \<Rightarrow> db \<Rightarrow> bool" where
  "owns_workspace p u s \<longleftrightarrow> (\<exists>w\<in>set (workspaces s). w_profile w = Some p \<and> w_owner w = u)"

lemma update_profile_membership_D:
  assumes "update_profile_membership env actor pid mid role act s = Inr (m', s')"
  shows "\<exists>m am r b. pid = Val (pm_profile m) \<and> mid = Val (pm_id m) \<and> m \<in> set (memberships s)
    \<and> profile_active (pm_profile m) s
    \<and> is_manager am \<and> holds_profile_role s actor (pm_profile m) am
    \<and> (am = PR_ADMIN \<longrightarrow> pm_role m = PR_MEMBER \<and> r = PR_MEMBER)
    \<and> (role = None \<and> r = pm_role m \<or> role = Some (Val r))
    \<and> (act = None \<and> b = pm_is_active m \<or> act = Some (Val b))
    \<and> (b \<longrightarrow> pm_is_active m)
    \<and> (r = PR_OWNER \<and> b \<longrightarrow> user_active s (pm_user m))
    \<and> (pm_role m = PR_OWNER \<and> pm_is_active m \<and> user_active s (pm_user m) \<and> (r \<noteq> PR_OWNER \<or> \<not> b)
         \<longrightarrow> other_active_owner m s)
    \<and> (pm_is_active m \<and> is_manager (pm_role m) \<and> (\<not> b \<or> \<not> is_manager r)
         \<longrightarrow> \<not> owns_workspace (pm_profile m) (pm_user m) s)
    \<and> (if pm_role m = r \<and> pm_is_active m = b then m' = m \<and> s' = s
       else m' = m\<lparr>pm_role := r, pm_is_active := b, pm_updated_at := e_now env\<rparr>
         \<and> (let rows = update_where (\<lambda>x. pm_id x = pm_id m)
              (\<lambda>x. x\<lparr>pm_role := r, pm_is_active := b, pm_updated_at := e_now env\<rparr>) (memberships s) in
            memberships_ok rows
            \<and> logged actor (pm_id m) ''profile.membership.updated'' (s\<lparr>memberships := rows\<rparr>) s'))"
proof -
  from assms obtain pc p am i m r b where
    pc: "resolve_profile_access_context (Some actor) pid s = Inr pc"
    and p: "lookup_pk p_id (pc_profile pc) (profiles s) = Some p" "p_status p = PS_ACTIVE"
    and am: "am \<in> set (memberships s)" "pm_profile am = pc_profile pc" "pm_user am = pc_user pc"
      "user_active s (pm_user am)" "pm_is_active am" "is_manager (pm_role am)"
    and mid: "mid = Val i"
    and m: "m \<in> set (memberships s)" "pm_id m = i" "pm_profile m = pc_profile pc"
    and r: "(case role of None \<Rightarrow> Val (pm_role m) | Some r \<Rightarrow> r) = Val r"
    and b: "(case act of None \<Rightarrow> Val (pm_is_active m) | Some r \<Rightarrow> r) = Val b"
    and g: "b \<longrightarrow> pm_is_active m" "r = PR_OWNER \<and> b \<longrightarrow> user_active s (pm_user m)"
      "pm_role am = PR_ADMIN \<longrightarrow> pm_role m = PR_MEMBER \<and> r = PR_MEMBER"
      "pm_role m = PR_OWNER \<and> pm_is_active m \<and> user_active s (pm_user m) \<and> (r \<noteq> PR_OWNER \<or> \<not> b)
         \<longrightarrow> (\<exists>x\<in>set (memberships s). pm_profile x = pc_profile pc
          \<and> pm_role x = PR_OWNER \<and> pm_is_active x \<and> user_active s (pm_user x) \<and> pm_id x \<noteq> pm_id m)"
      "pm_is_active m \<and> is_manager (pm_role m) \<and> (\<not> b \<or> \<not> is_manager r)
         \<longrightarrow> \<not> (\<exists>w\<in>set (workspaces s). w_profile w = Some (pc_profile pc) \<and> w_owner w = pm_user m)"
    and res: "(if pm_role m = r \<and> pm_is_active m = b then Inr (m, s)
      else
        let f = (\<lambda>r'. r'\<lparr>pm_role := r, pm_is_active := b,
              pm_updated_at := e_now env\<rparr>);
            rows = update_where (\<lambda>r. pm_id r = pm_id m) f (memberships s) in
        bindE (membership_full_clean rows (f m) s) (\<lambda>_.
        bindE (write_memberships rows s) (\<lambda>s1.
        bindE (write_membership_audit env 0 actor (Profile_Membership (f m))
          ''profile.membership.updated''
          (role_state (profile_role_str (pm_role m)) (pm_is_active m))
          (role_state (profile_role_str r) b) s1) (\<lambda>s2.
        Inr (f m, s2))))) = Inr (m', s')"
    unfolding update_profile_membership_def Let_def bindE_eq_Inr require_eq_Inr require_some_eq_Inr
      case_arg_eq_Inr
    by (blast dest!: first_by_Some_in)
  note P = resolve_profile_D(1,2) [OF pc]
  show ?thesis
  proof (intro exI conjI)
    show "pid = Val (pm_profile m)" "mid = Val (pm_id m)" "m \<in> set (memberships s)"
      using P m mid by simp_all
    show "profile_active (pm_profile m) s"
      using lookup_pk_Some [OF p(1)] p(2) m by (auto simp: profile_active_def)
    show "is_manager (pm_role am)" by (fact am)
    show "holds_profile_role s actor (pm_profile m) (pm_role am)"
      using am P m by (auto simp: holds_profile_role_def)
    show "role = None \<and> r = pm_role m \<or> role = Some (Val r)" using r by (cases role) auto
    show "act = None \<and> b = pm_is_active m \<or> act = Some (Val b)" using b by (cases act) auto
    show "if pm_role m = r \<and> pm_is_active m = b then m' = m \<and> s' = s
       else m' = m\<lparr>pm_role := r, pm_is_active := b, pm_updated_at := e_now env\<rparr>
         \<and> (let rows = update_where (\<lambda>x. pm_id x = pm_id m)
              (\<lambda>x. x\<lparr>pm_role := r, pm_is_active := b, pm_updated_at := e_now env\<rparr>) (memberships s) in
            memberships_ok rows
            \<and> logged actor (pm_id m) ''profile.membership.updated'' (s\<lparr>memberships := rows\<rparr>) s')"
      using res by (auto simp: Let_def dest!: audit_logged split: if_splits)
  qed (use g m in \<open>simp_all add: other_active_owner_def owns_workspace_def\<close>)
qed

definition membership_saved ::
  "env \<Rightarrow> uuid \<Rightarrow> profile_membership \<Rightarrow> profile_role \<Rightarrow> bool \<Rightarrow> profile_membership \<Rightarrow> db \<Rightarrow> db \<Rightarrow> bool" where
  "membership_saved env actor m r b m' s s' \<longleftrightarrow>
     (if pm_role m = r \<and> pm_is_active m = b then m' = m \<and> s' = s
      else m' = m\<lparr>pm_role := r, pm_is_active := b, pm_updated_at := e_now env\<rparr>
         \<and> (let rows = update_where (\<lambda>x. pm_id x = pm_id m)
              (\<lambda>x. x\<lparr>pm_role := r, pm_is_active := b, pm_updated_at := e_now env\<rparr>) (memberships s) in
            memberships_ok rows
            \<and> logged actor (pm_id m) ''profile.membership.updated'' (s\<lparr>memberships := rows\<rparr>) s'))"

lemma update_profile_membership_E:
  assumes "update_profile_membership env actor pid mid role act s = Inr (m', s')"
  obtains m am r b where "pid = Val (pm_profile m)" "mid = Val (pm_id m)" "m \<in> set (memberships s)"
    "profile_active (pm_profile m) s" "is_manager am" "holds_profile_role s actor (pm_profile m) am"
    "am = PR_ADMIN \<longrightarrow> pm_role m = PR_MEMBER \<and> r = PR_MEMBER"
    "role = None \<and> r = pm_role m \<or> role = Some (Val r)"
    "act = None \<and> b = pm_is_active m \<or> act = Some (Val b)" "b \<longrightarrow> pm_is_active m"
    "r = PR_OWNER \<and> b \<longrightarrow> user_active s (pm_user m)"
    "pm_role m = PR_OWNER \<and> pm_is_active m \<and> user_active s (pm_user m) \<and> (r \<noteq> PR_OWNER \<or> \<not> b)
       \<longrightarrow> other_active_owner m s"
    "pm_is_active m \<and> is_manager (pm_role m) \<and> (\<not> b \<or> \<not> is_manager r)
       \<longrightarrow> \<not> owns_workspace (pm_profile m) (pm_user m) s"
    "membership_saved env actor m r b m' s s'"
  using update_profile_membership_D [OF assms, folded membership_saved_def]
  by (elim exE conjE) (rule that, assumption+)

lemma create_workspace_D:
  assumes "create_workspace env actor pid name period descr s = Inr (w, s')"
  shows "\<exists>p r d. pid = Val p \<and> profile_active p s \<and> is_manager r \<and> holds_profile_role s actor p r
    \<and> period = Some d \<and> \<not> period_taken p d s \<and> date_day d = 1
    \<and> w = new_workspace env p actor name d descr \<and> char_field_ok 255 (w_name w)
    \<and> workspaces_ok (workspaces s @ [w])
    \<and> logged actor (w_id w) ''workspace.created'' (s\<lparr>workspaces := workspaces s @ [w]\<rparr>) s'"
proof -
  from assms obtain pc p am d s1 where
    pc: "resolve_profile_access_context (Some actor) pid s = Inr pc"
    and p: "lookup_pk p_id (pc_profile pc) (profiles s) = Some p" "p_status p = PS_ACTIVE"
    and am: "am \<in> set (memberships s)" "pm_profile am = pc_profile pc" "pm_user am = pc_user pc"
      "user_active s (pm_user am)" "pm_is_active am" "is_manager (pm_role am)"
    and d: "period = Some d" "\<not> period_taken (p_id p) d s"
    and w: "w = new_workspace env (p_id p) actor name d descr"
    and s1: "workspace_save (workspaces s @ [w]) w s = Inr s1"
    and lg: "logged actor (w_id w) ''workspace.created'' s1 s'"
    by (auto simp: create_workspace_def Let_def dest!: first_by_Some_in audit_logged)
  have "date_day d = 1"
    using workspace_save_D(2) [OF s1] w by (simp add: workspaces_ok_def)
  then show ?thesis
    using resolve_profile_D(1,2) [OF pc] lookup_pk_Some [OF p(1)] p(2) am d w lg workspace_save_D [OF s1]
    by (intro exI [of _ "p_id p"] exI [of _ "pm_role am"] exI [of _ d])
      (auto simp: profile_active_def holds_profile_role_def)
qed

text \<open>
  The guards every mutation behind \<open>lock_workspace_mutation_context\<close> has passed: the actor holds
  an authority over the Workspace \<open>w\<close> of an active Profile, and \<open>m\<close> is their membership row.
\<close>

definition locked :: "uuid \<Rightarrow> uuid arg \<Rightarrow> uuid arg \<Rightarrow> db \<Rightarrow> authority \<Rightarrow> workspace \<Rightarrow> uuid \<Rightarrow> bool" where
  "locked actor pid wid s a w p \<longleftrightarrow> pid = Val p \<and> wid = Val (w_id w) \<and> w \<in> set (workspaces s)
     \<and> w_profile w = Some p \<and> profile_active p s \<and> has_authority s actor p (w_id w) a"

definition manages :: "authority \<Rightarrow> bool" where
  "manages a = (case a of Manager _ \<Rightarrow> True | Assigned r \<Rightarrow> r = WR_ADMIN)"

text \<open>The role of the actor's membership row is the one the authority rests on.\<close>

fun authority_profile_role :: "authority \<Rightarrow> profile_role" where
  "authority_profile_role (Manager r) = r"
| "authority_profile_role (Assigned _) = PR_MEMBER"

lemma lock_locked:
  assumes "lock_workspace_mutation_context actor pid wid s = Inr (wc, w, m)"
  obtains a where "locked actor pid wid s a w (wc_profile wc)" "context_authority wc = Some a"
    "pm_role m = authority_profile_role a" "wc_workspace wc = w_id w" "wc_user wc = actor"
    "m \<in> set (memberships s)" "is_current_workspace_context wc s"
proof -
  note L = lock_D [OF assms]
  obtain a where a: "context_authority wc = Some a"
    "has_authority s (wc_user wc) (wc_profile wc) (wc_workspace wc) a"
    using is_current_D(2) [OF L(14)] by blast
  have "pm_role m = authority_profile_role a"
    using a(1) L(13) by (cases rule: context_authority_cases) auto
  moreover have "locked actor pid wid s a w (wc_profile wc)"
    using a(2) L(1-7) unfolding locked_def by metis
  ultimately show ?thesis using a(1) L(1,5,8,14) by (intro that) simp_all
qed

lemma edit_manages:
  "context_authority wc = Some a \<Longrightarrow> can_edit_workspace wc s \<Longrightarrow> manages a \<and> ws_active s (wc_workspace wc)"
  "context_authority wc = Some a \<Longrightarrow> can_manage_workspace_tasks wc s \<Longrightarrow> manages a \<and> ws_active s (wc_workspace wc)"
  "context_authority wc = Some a \<Longrightarrow> can_mutate_workspace_members wc s \<Longrightarrow> manages a \<and> ws_active s (wc_workspace wc)"
  "context_authority wc = Some a \<Longrightarrow> can_execute_workspace_tasks wc s \<Longrightarrow> a = Assigned WR_MEMBER \<and> ws_active s (wc_workspace wc)"
  "context_authority wc = Some a \<Longrightarrow> can_manage_workspace_lifecycle wc s \<Longrightarrow> \<exists>r. a = Manager r"
  by (erule context_authority_cases;
      auto simp: capability_defs manages_def dest: active_state_active split: if_splits)+

lemma update_workspace_D:
  assumes "update_workspace env actor pid wid name descr s = Inr (w', s')"
  obtains a w p n d where "locked actor pid wid s a w p" "manages a" "ws_active s (w_id w)"
    "n = (case name of Unset \<Rightarrow> w_name w | Set x \<Rightarrow> strip (text_or_empty x))"
    "d = set_or descr (w_description w)"
    "if n = w_name w \<and> d = w_description w then w' = w \<and> s' = s
     else w' = w\<lparr>w_name := n, w_description := d, w_updated_at := e_now env\<rparr>
       \<and> char_field_ok 255 n \<and> active_manager s p (w_owner w)
       \<and> (let rows = update_where (\<lambda>x. w_id x = w_id w)
            (\<lambda>x. x\<lparr>w_name := n, w_description := d, w_updated_at := e_now env\<rparr>) (workspaces s) in
          workspaces_ok rows
          \<and> logged actor (w_id w) ''workspace.updated'' (s\<lparr>workspaces := rows\<rparr>) s')"
proof -
  from assms obtain wc w m where
    l: "lock_workspace_mutation_context actor pid wid s = Inr (wc, w, m)"
    and c: "can_edit_workspace wc s"
    and r: "(let name' = (case name of Unset \<Rightarrow> w_name w | Set n \<Rightarrow> strip (text_or_empty n));
          description' = set_or descr (w_description w);
          f = (\<lambda>r. r\<lparr>w_name := name', w_description := description', w_updated_at := e_now env\<rparr>) in
      if name' = w_name w \<and> description' = w_description w then Inr (w, s)
      else
        bindE (workspace_save (update_where (\<lambda>r. w_id r = w_id w) f (workspaces s)) (f w) s) (\<lambda>s1.
        bindE (write_workspace_audit env 0 actor (f w) ''workspace.updated'' (workspace_state w)
          (workspace_state (f w)) s1) (\<lambda>s2.
        Inr (f w, s2)))) = Inr (w', s')"
    by (auto simp: update_workspace_def)
  obtain a where a: "locked actor pid wid s a w (wc_profile wc)" "context_authority wc = Some a"
    "wc_workspace wc = w_id w"
    using lock_locked [OF l] by metis
  have e: "manages a" "ws_active s (w_id w)" using edit_manages(1) [OF a(2) c] a(3) by simp_all
  define n where "n = (case name of Unset \<Rightarrow> w_name w | Set x \<Rightarrow> strip (text_or_empty x))"
  define d where "d = set_or descr (w_description w)"
  have "if n = w_name w \<and> d = w_description w then w' = w \<and> s' = s
       else w' = w\<lparr>w_name := n, w_description := d, w_updated_at := e_now env\<rparr>
         \<and> char_field_ok 255 n \<and> active_manager s (wc_profile wc) (w_owner w)
         \<and> (let rows = update_where (\<lambda>x. w_id x = w_id w)
              (\<lambda>x. x\<lparr>w_name := n, w_description := d, w_updated_at := e_now env\<rparr>) (workspaces s) in
            workspaces_ok rows
            \<and> logged actor (w_id w) ''workspace.updated'' (s\<lparr>workspaces := rows\<rparr>) s')"
    using r a(1) unfolding n_def [symmetric] d_def [symmetric] Let_def locked_def
    by (auto dest!: audit_logged workspace_save_iff_D split: if_splits)
  with a(1) e n_def d_def show ?thesis by (rule that)
qed

lemma set_workspace_status_D:
  assumes "set_workspace_status env actor pid wid next s = Inr (w', s')"
  obtains r w p st where "locked actor pid wid s (Manager r) w p" "next = Val st"
    "if w_status w = st then w' = w \<and> s' = s
     else w' = w\<lparr>w_status := st, w_updated_at := e_now env\<rparr>
       \<and> active_manager s p (w_owner w)
       \<and> (let rows = update_where (\<lambda>x. w_id x = w_id w)
            (\<lambda>x. x\<lparr>w_status := st, w_updated_at := e_now env\<rparr>) (workspaces s) in
          workspaces_ok rows
          \<and> logged actor (w_id w)
              (if st = WS_ARCHIVED then ''workspace.archived'' else ''workspace.restored'')
              (s\<lparr>workspaces := rows\<rparr>) s')"
proof -
  from assms obtain wc w m st where
    l: "lock_workspace_mutation_context actor pid wid s = Inr (wc, w, m)"
    and c: "can_manage_workspace_lifecycle wc s" and st: "next = Val st"
    and r: "(if w_status w = st then Inr (w, s)
        else
          let f = (\<lambda>r. r\<lparr>w_status := st, w_updated_at := e_now env\<rparr>) in
          bindE (workspace_save (update_where (\<lambda>r. w_id r = w_id w) f (workspaces s)) (f w) s) (\<lambda>s1.
          bindE (write_workspace_audit env 0 actor (f w)
            (if st = WS_ARCHIVED then ''workspace.archived'' else ''workspace.restored'')
            (JObj [(''status'', JStr (ws_status_str (w_status w)))])
            (JObj [(''status'', JStr (ws_status_str (w_status (f w))))]) s1) (\<lambda>s2.
          Inr (f w, s2)))) = Inr (w', s')"
    by (auto simp: set_workspace_status_def)
  obtain a where a: "locked actor pid wid s a w (wc_profile wc)" "context_authority wc = Some a"
    using lock_locked [OF l] by metis
  obtain q where q: "a = Manager q" using edit_manages(5) [OF a(2) c] by blast
  have "if w_status w = st then w' = w \<and> s' = s
     else w' = w\<lparr>w_status := st, w_updated_at := e_now env\<rparr>
       \<and> active_manager s (wc_profile wc) (w_owner w)
       \<and> (let rows = update_where (\<lambda>x. w_id x = w_id w)
            (\<lambda>x. x\<lparr>w_status := st, w_updated_at := e_now env\<rparr>) (workspaces s) in
          workspaces_ok rows
          \<and> logged actor (w_id w)
              (if st = WS_ARCHIVED then ''workspace.archived'' else ''workspace.restored'')
              (s\<lparr>workspaces := rows\<rparr>) s')"
    using r a(1) unfolding Let_def locked_def
    by (auto dest!: audit_logged workspace_save_iff_D split: if_splits)
  with a(1)[unfolded q] st show ?thesis by (rule that)
qed

definition within_ceiling :: "authority \<Rightarrow> ws_role \<Rightarrow> bool" where
  "within_ceiling a r \<longleftrightarrow> r \<in> set (roles_below (authority_profile_role a))"

lemma within_ceiling_simps [simp]:
  "within_ceiling (Manager q) r \<longleftrightarrow> (if is_manager q then r \<noteq> WR_OWNER else r \<in> {WR_MEMBER, WR_VIEWER})"
  "within_ceiling (Assigned q') r \<longleftrightarrow> r \<in> {WR_MEMBER, WR_VIEWER}"
  by (cases r; auto simp: within_ceiling_def roles_below_def)+

lemma locked_workspace_profile:
  assumes "db_ok s" "locked actor pid wid s a w p"
  shows "workspace_profile (w_id w) s = Some p"
proof -
  have "lookup_pk w_id (w_id w) (workspaces s) = Some w"
    using db_okD(3) [OF assms(1)] assms(2) by (simp add: lookup_pk_eq workspaces_ok_def locked_def)
  with assms(2) show ?thesis by (simp add: workspace_profile_def locked_def)
qed

text \<open>Replacing one member row, saved and audited.\<close>

definition member_updated ::
  "uuid \<Rightarrow> string \<Rightarrow> workspace_member \<Rightarrow> (workspace_member \<Rightarrow> workspace_member) \<Rightarrow> db \<Rightarrow> db \<Rightarrow> bool" where
  "member_updated actor action m f s s' \<longleftrightarrow>
     (let rows = update_where (\<lambda>x. wm_id x = wm_id m) f (members s) in
      members_ok rows \<and> logged actor (wm_id m) action (s\<lparr>members := rows\<rparr>) s')"

definition member_assigned ::
  "env \<Rightarrow> uuid \<Rightarrow> uuid \<Rightarrow> ws_role \<Rightarrow> uuid \<Rightarrow> workspace_member \<Rightarrow> bool \<Rightarrow> db \<Rightarrow> db \<Rightarrow> bool" where
  "member_assigned env actor w r u x reactivated s s' \<longleftrightarrow>
    (if reactivated then \<exists>old. old \<in> set (members s) \<and> wm_workspace old = w \<and> wm_user old = u
        \<and> \<not> wm_is_active old
        \<and> x = old\<lparr>wm_role := r, wm_is_active := True, wm_updated_at := e_now env\<rparr>
        \<and> member_updated actor ''workspace.membership.reactivated'' old
            (\<lambda>x. x\<lparr>wm_role := r, wm_is_active := True, wm_updated_at := e_now env\<rparr>) s s'
     else (\<forall>y\<in>set (members s). \<not> (wm_workspace y = w \<and> wm_user y = u))
        \<and> x = new_member env w u r \<and> members_ok (members s @ [x])
        \<and> logged actor (wm_id x) ''workspace.membership.created'' (s\<lparr>members := members s @ [x]\<rparr>) s')"

lemma assign_workspace_member_D:
  assumes "assign_workspace_member env actor w r u s = Inr ((x, re), s')"
  shows "member_assigned env actor (w_id w) r u x re s s'"
proof (cases "first_by wm_id (\<lambda>x. wm_workspace x = w_id w \<and> wm_user x = u) (members s)")
  case None
  with assms show ?thesis
    by (auto simp: assign_workspace_member_def member_assigned_def Let_def
        dest!: audit_logged member_save_D)
next
  case (Some old)
  with first_by_Some_in [OF Some] assms show ?thesis
    by (auto simp: assign_workspace_member_def member_assigned_def member_updated_def Let_def
        dest!: audit_logged member_save_D)
qed

lemma add_workspace_member_D:
  assumes "add_workspace_member env actor pid wid tid role s = Inr ((x, re), s')"
  obtains a w p r tm where "locked actor pid wid s a w p" "manages a" "ws_active s (w_id w)"
    "role = Val r" "within_ceiling a r" "tid = Val (pm_id tm)" "tm \<in> set (memberships s)"
    "pm_profile tm = p" "pm_is_active tm" "user_active s (pm_user tm)"
    "member_assigned env actor (w_id w) r (pm_user tm) x re s s'"
proof -
  from assms obtain wc w am r tm where
    l: "lock_workspace_mutation_context actor pid wid s = Inr (wc, w, am)"
    and c: "can_mutate_workspace_members wc s" and r: "role = Val r"
    and ce: "r \<in> set (roles_below (pm_role am))" and tid: "tid = Val (pm_id tm)"
    and tm: "tm \<in> set (memberships s)" "Some (pm_profile tm) = w_profile w"
      "user_active s (pm_user tm)" "pm_is_active tm"
    and res: "assign_workspace_member env actor w r (pm_user tm) s = Inr ((x, re), s')"
    by (auto simp: add_workspace_member_def dest!: first_by_Some_in)
  obtain a where a: "locked actor pid wid s a w (wc_profile wc)" "context_authority wc = Some a"
    "wc_workspace wc = w_id w" "pm_role am = authority_profile_role a"
    using lock_locked [OF l] by metis
  have e: "manages a" "ws_active s (w_id w)" using edit_manages(3) [OF a(2) c] a(3) by simp_all
  have ce': "within_ceiling a r" using ce a(4) by (simp add: within_ceiling_def)
  have "pm_profile tm = wc_profile wc" using tm(2) a(1) by (simp add: locked_def)
  from that [OF a(1) e r ce' tid tm(1) this tm(4,3) assign_workspace_member_D [OF res]]
  show ?thesis .
qed

lemma update_workspace_member_D:
  assumes "update_workspace_member env actor pid wid mid role s = Inr (x, s')"
  obtains a w p r m where "locked actor pid wid s a w p" "manages a" "ws_active s (w_id w)"
    "role = Val r" "mid = Val (wm_id m)" "m \<in> set (members s)" "wm_workspace m = w_id w"
    "wm_is_active m" "active_member s p (wm_user m)"
    "within_ceiling a (wm_role m)" "within_ceiling a r"
    "if wm_role m = r then x = m \<and> s' = s
     else x = m\<lparr>wm_role := r, wm_updated_at := e_now env\<rparr>
       \<and> member_updated actor ''workspace.membership.updated'' m
           (\<lambda>x. x\<lparr>wm_role := r, wm_updated_at := e_now env\<rparr>) s s'"
proof -
  from assms obtain wc w am r m tpm where
    l: "lock_workspace_mutation_context actor pid wid s = Inr (wc, w, am)"
    and c: "can_mutate_workspace_members wc s" and r: "role = Val r"
    and tpm: "tpm \<in> set (memberships s)" "Some (pm_profile tpm) = w_profile w"
      "user_active s (pm_user tpm)" "pm_is_active tpm"
    and m: "m \<in> set (members s)" "mid = Val (wm_id m)" "wm_workspace m = w_id w" "wm_is_active m"
      "wm_user m = pm_user tpm"
    and ce: "wm_role m \<in> set (roles_below (pm_role am))" "r \<in> set (roles_below (pm_role am))"
    and res: "(if wm_role m = r then Inr (m, s)
      else
        let f = (\<lambda>x. x\<lparr>wm_role := r, wm_updated_at := e_now env\<rparr>) in
        bindE (member_save (update_where (\<lambda>x. wm_id x = wm_id m) f (members s)) (f m) s) (\<lambda>s1.
        bindE (write_membership_audit env 0 actor (Workspace_Membership (f m))
          ''workspace.membership.updated'' (role_state (ws_role_str (wm_role m)) True)
          (role_state (ws_role_str r) True) s1) (\<lambda>s2.
        Inr (f m, s2)))) = Inr (x, s')"
    by (auto simp: update_workspace_member_def active_membership_of_def dest!: first_by_Some_in)
  obtain a where a: "locked actor pid wid s a w (wc_profile wc)" "context_authority wc = Some a"
    "wc_workspace wc = w_id w" "pm_role am = authority_profile_role a"
    using lock_locked [OF l] by metis
  have e: "manages a" "ws_active s (w_id w)" using edit_manages(3) [OF a(2) c] a(3) by simp_all
  have ce': "within_ceiling a (wm_role m)" "within_ceiling a r" using ce a(4) by (simp_all add: within_ceiling_def)
  have am: "active_member s (wc_profile wc) (wm_user m)"
    using tpm m(5) a(1) by (auto simp: active_member_def locked_def)
  have "if wm_role m = r then x = m \<and> s' = s
     else x = m\<lparr>wm_role := r, wm_updated_at := e_now env\<rparr>
       \<and> member_updated actor ''workspace.membership.updated'' m
           (\<lambda>x. x\<lparr>wm_role := r, wm_updated_at := e_now env\<rparr>) s s'"
    using res by (auto simp: Let_def member_updated_def dest!: audit_logged member_save_D split: if_splits)
  from that [OF a(1) e r m(2,1,3,4) am ce' this] show ?thesis .
qed

lemma revoke_workspace_member_D:
  assumes "revoke_workspace_member env actor pid wid mid s = Inr (x, s')"
  obtains a w p m where "locked actor pid wid s a w p" "manages a" "ws_active s (w_id w)"
    "mid = Val (wm_id m)" "m \<in> set (members s)" "wm_workspace m = w_id w"
    "wm_is_active m" "active_member s p (wm_user m)" "within_ceiling a (wm_role m)"
    "x = m\<lparr>wm_is_active := False, wm_updated_at := e_now env\<rparr>"
    "member_updated actor ''workspace.membership.revoked'' m
       (\<lambda>x. x\<lparr>wm_is_active := False, wm_updated_at := e_now env\<rparr>) s s'"
proof -
  from assms obtain wc w am m tpm where
    l: "lock_workspace_mutation_context actor pid wid s = Inr (wc, w, am)"
    and c: "can_mutate_workspace_members wc s"
    and tpm: "tpm \<in> set (memberships s)" "Some (pm_profile tpm) = w_profile w"
      "user_active s (pm_user tpm)" "pm_is_active tpm"
    and m: "mid = Val (wm_id m)" "m \<in> set (members s)" "wm_workspace m = w_id w" "wm_is_active m"
      "wm_user m = pm_user tpm"
    and ce: "wm_role m \<in> set (roles_below (pm_role am))"
    and x: "x = m\<lparr>wm_is_active := False, wm_updated_at := e_now env\<rparr>"
    and u: "member_updated actor ''workspace.membership.revoked'' m
       (\<lambda>x. x\<lparr>wm_is_active := False, wm_updated_at := e_now env\<rparr>) s s'"
    by (auto simp: revoke_workspace_member_def active_membership_of_def Let_def member_updated_def
        dest!: first_by_Some_in audit_logged member_save_D)
  obtain a where a: "locked actor pid wid s a w (wc_profile wc)" "context_authority wc = Some a"
    "wc_workspace wc = w_id w" "pm_role am = authority_profile_role a"
    using lock_locked [OF l] by metis
  have e: "manages a" "ws_active s (w_id w)" using edit_manages(3) [OF a(2) c] a(3) by simp_all
  have ce': "within_ceiling a (wm_role m)" using ce a(4) by (simp_all add: within_ceiling_def)
  have am: "active_member s (wc_profile wc) (wm_user m)"
    using tpm m(5) a(1) by (auto simp: active_member_def locked_def)
  from that [OF a(1) e m(1-4) am ce' x u] show ?thesis .
qed

subsection \<open>The contract of tenant mutations\<close>

lemma resolve_profile_error:
  "resolve_profile_access_context u p s = Inl e \<Longrightarrow> e = TenantAccessNotFound"
  by (auto simp: resolve_profile_access_context_def require_some_def split: option.splits arg.splits)

lemma resolve_workspace_error:
  "resolve_workspace_access_context pc w s = Inl e \<Longrightarrow> e = TenantAccessNotFound"
  by (auto simp: resolve_workspace_access_context_def refresh_profile_access_context_def bindE_def
      require_def require_some_def split: option.splits arg.splits sum.splits if_splits)

lemma lock_denied:
  assumes "\<And>p' w' r. p = Val p' \<Longrightarrow> w = Val w' \<Longrightarrow> \<not> has_authority s a p' w' r"
  shows "lock_workspace_mutation_context a p w s = Inl TenantAccessNotFound"
proof (cases "resolve_profile_access_context (Some a) p s")
  case (Inl e)
  with resolve_profile_error [OF Inl] show ?thesis
    by (simp add: lock_workspace_mutation_context_def lock_workspace_mutation_context_at_def)
next
  case (Inr pc)
  note P = resolve_profile_D(1,2) [OF Inr]
  show ?thesis
  proof (cases "resolve_workspace_access_context pc w s")
    case (Inl e)
    with resolve_workspace_error [OF Inl] Inr show ?thesis
      by (simp add: lock_workspace_mutation_context_def lock_workspace_mutation_context_at_def)
  next
    case (Inr wc)
    note W = resolve_workspace_D [OF Inr]
    obtain r where "has_authority s (wc_user wc) (wc_profile wc) (wc_workspace wc) r"
      using is_current_D(2) [OF W(1)] by blast
    with assms P W(2-4) show ?thesis by auto
  qed
qed

lemma lock_archived:
  assumes ok: "db_ok s" and a: "has_authority s u p w a" and ex: "profile_exists p s"
    and arch: "\<not> profile_active p s"
  shows "lock_workspace_mutation_context u (Val p) (Val w) s = Inl PermissionDenied"
proof -
  obtain pc c where pc: "resolve_profile_access_context (Some u) (Val p) s = Inr pc"
    and c: "resolve_workspace_access_context pc (Val w) s = Inr c"
    using resolve_workspace_I [OF ok a] by blast
  obtain pr where pr: "pr \<in> set (profiles s)" "p_id pr = p"
    using ex by (auto simp: profile_exists_def)
  then have "lookup_pk p_id (pc_profile pc) (profiles s) = Some pr"
    using resolve_profile_D(2) [OF pc] db_okD(1) [OF ok] by (simp add: lookup_pk_eq profiles_ok_def)
  moreover have "p_status pr \<noteq> PS_ACTIVE" using pr arch by (auto simp: profile_active_def)
  ultimately show ?thesis using pc c
    by (simp add: lock_workspace_mutation_context_def lock_workspace_mutation_context_at_def)
qed

text \<open>
  A service that runs behind the common tenant boundary: a failure of
  \<open>lock_workspace_mutation_context\<close> is the service's failure.
\<close>

locale tenant_service =
  fixes run :: "uuid \<Rightarrow> uuid arg \<Rightarrow> uuid arg \<Rightarrow> db \<Rightarrow> error + ('r \<times> db)"
  assumes boundary: "lock_workspace_mutation_context a p w s = Inl e \<Longrightarrow> run a p w s = Inl e"
begin

lemma run_locked:
  assumes "run a p w s = Inr x"
  obtains wc ws m where "lock_workspace_mutation_context a p w s = Inr (wc, ws, m)"
  using assms boundary [of a p w s] by (cases "lock_workspace_mutation_context a p w s") auto

lemma run_authority:
  assumes "run a p w s = Inr x"
  shows "\<exists>p' w' r. p = Val p' \<and> w = Val w' \<and> profile_active p' s \<and> has_authority s a p' w' r"
  using run_locked [OF assms] lock_locked by (metis locked_def)

lemma outsider_denied:
  "(\<And>r. \<not> has_authority s a p w r) \<Longrightarrow> run a (Val p) (Val w) s = Inl TenantAccessNotFound"
  by (intro boundary lock_denied) auto

lemma malformed_denied:
  "p = Malformed \<or> w = Malformed \<Longrightarrow> run a p w s = Inl TenantAccessNotFound"
  by (intro boundary lock_denied) auto

lemma archived_denied:
  assumes "db_ok s" "has_authority s a p w r" "profile_exists p s" "\<not> profile_active p s"
  shows "run a (Val p) (Val w) s = Inl PermissionDenied"
  using lock_archived [OF assms] by (rule boundary)

end

text \<open>A service whose every effective call appends one audit record of its actor.\<close>

locale audited_service = tenant_service run
  for run :: "uuid \<Rightarrow> uuid arg \<Rightarrow> uuid arg \<Rightarrow> db \<Rightarrow> error + ('r \<times> db)" +
  assumes audited: "run a p w s = Inr (r, s') \<Longrightarrow>
    s' = s \<or> (\<exists>l. audit_logs s' = audit_logs s @ [l] \<and> al_user l = Some a)"
begin

lemma audit_grows:
  "run a p w s = Inr (r, s') \<Longrightarrow> \<exists>new. audit_logs s' = audit_logs s @ new \<and> length new \<le> 1"
  using audited by fastforce

lemma silent_is_noop:
  "run a p w s = Inr (r, s') \<Longrightarrow> audit_logs s' = audit_logs s \<Longrightarrow> s' = s"
  using audited by fastforce

end

lemma logged_audited:
  "logged actor i action s1 s' \<Longrightarrow> audit_logs s1 = audit_logs s \<Longrightarrow>
     \<exists>l. audit_logs s' = audit_logs s @ [l] \<and> al_user l = Some actor"
  by (auto simp: logged_def)

lemma member_updated_audited:
  "member_updated actor action m f s s' \<Longrightarrow> \<exists>l. audit_logs s' = audit_logs s @ [l] \<and> al_user l = Some actor"
  by (auto simp: member_updated_def Let_def intro!: logged_audited)

lemma member_assigned_audited:
  "member_assigned env actor w r u x re s s' \<Longrightarrow>
     \<exists>l. audit_logs s' = audit_logs s @ [l] \<and> al_user l = Some actor"
proof (cases re)
  case True
  then show "member_assigned env actor w r u x re s s' \<Longrightarrow>
     \<exists>l. audit_logs s' = audit_logs s @ [l] \<and> al_user l = Some actor"
    using member_updated_audited by (fastforce simp: member_assigned_def)
next
  case False
  then show "member_assigned env actor w r u x re s s' \<Longrightarrow>
     \<exists>l. audit_logs s' = audit_logs s @ [l] \<and> al_user l = Some actor"
    by (auto simp: member_assigned_def intro!: logged_audited)
qed

interpretation update_workspace_service: audited_service
  "\<lambda>a p w. update_workspace env a p w name descr" for env name descr
proof unfold_locales
  show "update_workspace env a p w name descr s = Inl e"
    if "lock_workspace_mutation_context a p w s = Inl e" for a p w s e
    using that by (simp add: update_workspace_def)
  show "s' = s \<or> (\<exists>l. audit_logs s' = audit_logs s @ [l] \<and> al_user l = Some a)"
    if "update_workspace env a p w name descr s = Inr (r, s')" for a p w s r s'
    using that by (elim update_workspace_D) (auto simp: Let_def dest: logged_audited split: if_splits)
qed

interpretation set_workspace_status_service: audited_service
  "\<lambda>a p w. set_workspace_status env a p w st" for env st
proof unfold_locales
  show "set_workspace_status env a p w st s = Inl e"
    if "lock_workspace_mutation_context a p w s = Inl e" for a p w s e
    using that by (simp add: set_workspace_status_def)
  show "s' = s \<or> (\<exists>l. audit_logs s' = audit_logs s @ [l] \<and> al_user l = Some a)"
    if "set_workspace_status env a p w st s = Inr (r, s')" for a p w s r s'
    using that by (elim set_workspace_status_D) (auto simp: Let_def dest: logged_audited split: if_splits)
qed

interpretation add_workspace_member_service: audited_service
  "\<lambda>a p w. add_workspace_member env a p w target role" for env target role
proof unfold_locales
  show "add_workspace_member env a p w target role s = Inl e"
    if "lock_workspace_mutation_context a p w s = Inl e" for a p w s e
    using that by (simp add: add_workspace_member_def)
  show "s' = s \<or> (\<exists>l. audit_logs s' = audit_logs s @ [l] \<and> al_user l = Some a)"
    if "add_workspace_member env a p w target role s = Inr (r, s')" for a p w s r s'
    using that
    by (cases r) (use member_assigned_audited add_workspace_member_D in metis)
qed

interpretation update_workspace_member_service: audited_service
  "\<lambda>a p w. update_workspace_member env a p w target role" for env target role
proof unfold_locales
  show "update_workspace_member env a p w target role s = Inl e"
    if "lock_workspace_mutation_context a p w s = Inl e" for a p w s e
    using that by (simp add: update_workspace_member_def)
  show "s' = s \<or> (\<exists>l. audit_logs s' = audit_logs s @ [l] \<and> al_user l = Some a)"
    if "update_workspace_member env a p w target role s = Inr (r, s')" for a p w s r s'
    using that by (elim update_workspace_member_D) (auto dest: member_updated_audited split: if_splits)
qed

interpretation revoke_workspace_member_service: audited_service
  "\<lambda>a p w. revoke_workspace_member env a p w target" for env target
proof unfold_locales
  show "revoke_workspace_member env a p w target s = Inl e"
    if "lock_workspace_mutation_context a p w s = Inl e" for a p w s e
    using that by (simp add: revoke_workspace_member_def)
  show "s' = s \<or> (\<exists>l. audit_logs s' = audit_logs s @ [l] \<and> al_user l = Some a)"
    if "revoke_workspace_member env a p w target s = Inr (r, s')" for a p w s r s'
    using that by (elim revoke_workspace_member_D) (auto dest: member_updated_audited)
qed

end
