(* ===== verification/Task_Models.thy ===== *)
theory Task_Models
  imports Workspace_Models
begin

text \<open>
  \<open>full_clean\<close> and \<open>clean\<close> of the models of \<open>apps/tasks/models.py\<close> and \<open>apps/reviews/models.py\<close>,
  in the conventions of \<open>Workspace_Models\<close>. \<open>Task.clean\<close> walks the stored parent chain and, when a
  stored Task is moved, the stored subtree below it.
\<close>

subsection \<open>The hierarchy checks of \<open>Task.clean\<close>\<close>

definition max_hierarchy_depth :: nat where
  "max_hierarchy_depth = 3"

text \<open>
  The \<open>while\<close> loop over \<open>parent_id\<close>. It returns the depth, or raises on a cycle, a parent outside
  the Workspace or too deep a chain; the depth bound makes it terminate on every database, cyclic
  ones included.
\<close>

function parent_walk :: "task list \<Rightarrow> uuid \<Rightarrow> uuid list \<Rightarrow> nat \<Rightarrow> uuid option \<Rightarrow> error + nat" where
  "parent_walk rows w seen depth None = Inr depth"
| "parent_walk rows w seen depth (Some p) =
     (if p \<in> set seen then Inl (ValidationError ''parent'')
      else case lookup_pk t_id p rows of
          None \<Rightarrow> Inl (ValidationError ''parent'')
        | Some parent \<Rightarrow>
            if t_workspace parent \<noteq> w then Inl (ValidationError ''parent'')
            else if depth + 1 > max_hierarchy_depth then Inl (ValidationError ''parent'')
            else parent_walk rows w (p # seen) (depth + 1) (t_parent parent))"
  by pat_completeness auto

termination parent_walk
  by (relation "measure (\<lambda>(rows, w, seen, depth, pid). max_hierarchy_depth + 1 - depth)") auto

text \<open>The \<open>for distance in range(1, 5)\<close> loop over the generations below a moved Task.\<close>

fun subtree_check :: "task list \<Rightarrow> uuid \<Rightarrow> nat \<Rightarrow> uuid list \<Rightarrow> uuid list \<Rightarrow> nat list \<Rightarrow> error + unit" where
  "subtree_check rows w depth frontier seen [] = Inr ()"
| "subtree_check rows w depth frontier seen (distance # ds) =
     (let descendants = filter (\<lambda>t. t_parent t \<in> Some ` set frontier) rows in
      if descendants = [] then Inr ()
      else if depth + distance > max_hierarchy_depth then Inl (ValidationError ''parent'')
      else if \<exists>t\<in>set descendants. t_workspace t \<noteq> w \<or> t_id t \<in> set seen
      then Inl (ValidationError ''parent'')
      else subtree_check rows w depth (map t_id descendants) (map t_id descendants @ seen) ds)"

text \<open>
  \<open>adding\<close> is \<open>self._state.adding\<close>. Deadlines are aware datetimes here; the callers' other values
  are \<open>Malformed\<close>.
\<close>

definition task_clean :: "bool \<Rightarrow> task \<Rightarrow> db \<Rightarrow> error + unit" where
  "task_clean adding t s =
     bindE (parent_walk (tasks s) (t_workspace t) [t_id t] 0 (t_parent t)) (\<lambda>depth.
       if adding then Inr ()
       else case lookup_pk t_id (t_id t) (tasks s) of
           None \<Rightarrow> Inr ()
         | Some previous \<Rightarrow>
             if t_parent previous \<noteq> t_parent t \<or> t_workspace previous \<noteq> t_workspace t
             then subtree_check (tasks s) (t_workspace t) depth [t_id t] [t_id t]
                    [1..<max_hierarchy_depth + 2]
             else Inr ())"

definition workspace_exists :: "uuid \<Rightarrow> db \<Rightarrow> bool" where
  "workspace_exists i s \<longleftrightarrow> i \<in> w_id ` set (workspaces s)"

definition task_exists :: "uuid \<Rightarrow> db \<Rightarrow> bool" where
  "task_exists i s \<longleftrightarrow> i \<in> t_id ` set (tasks s)"

definition task_full_clean :: "bool \<Rightarrow> task list \<Rightarrow> task \<Rightarrow> db \<Rightarrow> error + unit" where
  "task_full_clean adding rows t s =
     require (workspace_exists (t_workspace t) s) (ValidationError ''workspace'')
      (require (case t_parent t of None \<Rightarrow> True | Some p \<Rightarrow> task_exists p s) (ValidationError ''parent'')
       (require (char_field_ok 255 (t_title t)) (ValidationError ''title'')
        (require (user_exists (t_created_by t) s) (ValidationError ''created_by'')
         (bindE (task_clean adding t s) (\<lambda>_. unique_checks (tasks_ok rows))))))"

subsection \<open>The other rows\<close>

definition assignment_full_clean ::
  "task_assignment list \<Rightarrow> task_assignment \<Rightarrow> db \<Rightarrow> error + unit" where
  "assignment_full_clean rows a s =
     require (task_exists (ta_task a) s) (ValidationError ''task'')
      (require (user_exists (ta_user a) s) (ValidationError ''user'')
        (unique_checks (assignments_ok rows)))"

definition content_max_length :: nat where
  "content_max_length = 4000"

text \<open>\<open>check_content\<close> is \<open>False\<close> for \<open>full_clean(exclude=("content",))\<close>.\<close>

definition comment_full_clean ::
  "bool \<Rightarrow> task_comment list \<Rightarrow> task_comment \<Rightarrow> db \<Rightarrow> error + unit" where
  "comment_full_clean check_content rows c s =
     require (task_exists (tc_task c) s) (ValidationError ''task'')
      (require (user_exists (tc_user c) s) (ValidationError ''user'')
       (require (check_content \<longrightarrow> char_field_ok content_max_length (tc_content c))
          (ValidationError ''content'')
         (unique_checks (comments_ok rows))))"

text \<open>\<open>PositiveIntegerField\<close> validates the range of PostgreSQL's \<open>integer\<close>.\<close>

definition max_integer :: int where
  "max_integer = 2147483647"

definition deliverable_full_clean ::
  "deliverable list \<Rightarrow> deliverable \<Rightarrow> db \<Rightarrow> error + unit" where
  "deliverable_full_clean rows d s =
     require (task_exists (d_task d) s) (ValidationError ''task'')
      (require (char_field_ok 500 (d_file_url d)) (ValidationError ''file_url'')
       (require (user_exists (d_uploaded_by d) s) (ValidationError ''uploaded_by'')
        (require (case d_revision d of None \<Rightarrow> True | Some r \<Rightarrow> 0 \<le> r \<and> r \<le> max_integer)
           (ValidationError ''revision'')
          (unique_checks (deliverables_ok rows)))))"

definition review_full_clean :: "review list \<Rightarrow> review \<Rightarrow> db \<Rightarrow> error + unit" where
  "review_full_clean rows r s =
     require (r_deliverable r \<in> d_id ` set (deliverables s)) (ValidationError ''deliverable'')
      (require (user_exists (r_reviewer r) s) (ValidationError ''reviewer'')
        (unique_checks (reviews_ok rows)))"

end
