(* ===== verification/Task_Hierarchy.thy ===== *)
theory Task_Hierarchy
  imports Task_Models
begin

text \<open>
  The abstract contract of \<open>Task.clean\<close>: \<open>chain ts t n\<close> says that \<open>t\<close> is \<open>n\<close> parent edges below a
  root, every edge inside one Workspace. A chain is finite, so a table whose Tasks all have one
  contains no cycle. The lemmas show that the walk computes it, that the two checks of a move
  together keep every Task within the depth cap, and that the walk accepts every stored Task of a
  well formed table.
\<close>

inductive chain :: "task list \<Rightarrow> task \<Rightarrow> nat \<Rightarrow> bool" for ts where
  root: "t \<in> set ts \<Longrightarrow> t_parent t = None \<Longrightarrow> chain ts t 0"
| step: "t \<in> set ts \<Longrightarrow> t_parent t = Some (t_id p) \<Longrightarrow> t_workspace p = t_workspace t \<Longrightarrow>
    chain ts p n \<Longrightarrow> chain ts t (Suc n)"

definition hierarchy_ok :: "task list \<Rightarrow> bool" where
  "hierarchy_ok ts \<longleftrightarrow> (\<forall>t\<in>set ts. \<exists>n\<le>max_hierarchy_depth. chain ts t n)"

inductive_cases chain_zeroE: "chain ts t 0"
inductive_cases chain_SucE: "chain ts t (Suc n)"

lemma chain_in: "chain ts t n \<Longrightarrow> t \<in> set ts"
  by (induction rule: chain.induct)

lemma chain_root_iff: "chain ts t n \<Longrightarrow> t_parent t = None \<longleftrightarrow> n = 0"
  by (induction rule: chain.induct) auto

lemma chain_mono: "chain ts t n \<Longrightarrow> set ts \<subseteq> set ts' \<Longrightarrow> chain ts' t n"
  by (induction rule: chain.induct) (auto intro: chain.intros)

text \<open>Only identifiers, parents and Workspaces matter.\<close>

lemma chain_map:
  assumes "chain ts t n"
    and f: "\<And>x. x \<in> set ts \<Longrightarrow>
      t_id (f x) = t_id x \<and> t_parent (f x) = t_parent x \<and> t_workspace (f x) = t_workspace x"
  shows "chain (map f ts) (f t) n"
  using assms(1)
proof (induction rule: chain.induct)
  case (root t)
  then show ?case using f [of t] by (intro chain.root) simp_all
next
  case (step t p n)
  then show ?case using f [of t] f [of p] chain_in [OF step.hyps(4)]
    by (intro chain.step [of _ _ "f p"]) simp_all
qed

lemma hierarchy_ok_map:
  assumes "hierarchy_ok ts"
    and "\<And>x. x \<in> set ts \<Longrightarrow>
      t_id (f x) = t_id x \<and> t_parent (f x) = t_parent x \<and> t_workspace (f x) = t_workspace x"
  shows "hierarchy_ok (map f ts)"
  using assms(1) chain_map [OF _ assms(2)] unfolding hierarchy_ok_def by fastforce

subsection \<open>What the walk establishes\<close>

lemma parent_walk_bound:
  "parent_walk rows w seen d pid = Inr n \<Longrightarrow> d \<le> max_hierarchy_depth \<Longrightarrow> d \<le> n \<and> n \<le> max_hierarchy_depth"
  by (induction rows w seen d pid rule: parent_walk.induct) (auto split: if_splits option.splits)

lemma parent_walk_chain:
  assumes "parent_walk rows w seen d pid = Inr n"
    and "\<And>r. r \<in> set rows \<Longrightarrow> t_id r \<notin> set seen \<Longrightarrow> r \<in> set ts"
    and "t \<in> set ts" "t_parent t = pid" "t_workspace t = w"
  shows "d \<le> n \<and> chain ts t (n - d)"
  using assms
proof (induction rows w seen d pid arbitrary: t rule: parent_walk.induct)
  case (1 rows w seen depth)
  then show ?case by (auto intro: chain.root)
next
  case (2 rows w seen depth p)
  from "2.prems"(1) obtain parent where p: "p \<notin> set seen" "lookup_pk t_id p rows = Some parent"
    "t_workspace parent = w" "depth + 1 \<le> max_hierarchy_depth"
    "parent_walk rows w (p # seen) (depth + 1) (t_parent parent) = Inr n"
    by (auto split: if_splits option.splits)
  from lookup_pk_Some [OF p(2)] have pr: "parent \<in> set rows" "t_id parent = p" by simp_all
  have "depth + 1 \<le> n \<and> chain ts parent (n - (depth + 1))"
    using p pr "2.prems"(2) by (intro "2.IH" [of parent]) auto
  then have le: "depth + 1 \<le> n" and c: "chain ts parent (n - (depth + 1))" by simp_all
  have "chain ts t (Suc (n - (depth + 1)))"
    using "2.prems" p pr c by (intro chain.step [of _ _ parent]) simp_all
  with le show ?case by (simp add: Suc_diff_Suc)
qed

subsection \<open>What the subtree check establishes\<close>

inductive below :: "task list \<Rightarrow> uuid \<Rightarrow> nat \<Rightarrow> task \<Rightarrow> bool" for ts m where
  here: "t \<in> set ts \<Longrightarrow> t_id t = m \<Longrightarrow> below ts m 0 t"
| down: "below ts m k p \<Longrightarrow> t \<in> set ts \<Longrightarrow> t_parent t = Some (t_id p) \<Longrightarrow> below ts m (Suc k) t"

inductive_cases below_SucE: "below ts m (Suc k) t"

lemma below_in: "below ts m k t \<Longrightarrow> t \<in> set ts"
  by (induction rule: below.induct)

text \<open>Generation by generation: a non-empty generation within the range respects the cap.\<close>

lemma subtree_check_generation:
  assumes "subtree_check ts w depth frontier seen [j..<e] = Inr ()"
    and "\<And>t. below ts m k t \<Longrightarrow> t_id t \<in> set frontier" "j = Suc k"
    and "below ts m i t" "j \<le> i" "i < e"
  shows "depth + i \<le> max_hierarchy_depth"
  using assms
proof (induction "e - j" arbitrary: j k frontier seen)
  case 0
  then show ?case by simp
next
  case (Suc n)
  let ?D = "filter (\<lambda>t. t_parent t \<in> Some ` set frontier) ts"
  have range: "[j..<e] = j # [Suc j..<e]" using Suc.prems by (simp add: upt_conv_Cons)
  have gen: "x \<in> set ?D" if "below ts m j x" for x
    using that Suc.prems(2,3) by (auto elim!: below_SucE)
  have ne: "\<exists>x. below ts m j x"
    using Suc.prems(4,5)
  proof (induction rule: below.induct)
    case (here t)
    with Suc.prems(3) show ?case by simp
  next
    case (down k p t)
    then show ?case by (metis below.down le_SucE)
  qed
  then have D: "?D \<noteq> []" using gen by fastforce
  with Suc.prems(1) range have c: "depth + j \<le> max_hierarchy_depth"
    "subtree_check ts w depth (map t_id ?D) (map t_id ?D @ seen) [Suc j..<e] = Inr ()"
    by (auto simp: Let_def split: if_splits)
  show ?case
  proof (cases "i = j")
    case True
    with c show ?thesis by simp
  next
    case False
    show ?thesis
    proof (rule Suc.hyps(1) [of "Suc j" "map t_id ?D" "map t_id ?D @ seen" j])
      show "n = e - Suc j" using Suc.hyps(2) by simp
      show "subtree_check ts w depth (map t_id ?D) (map t_id ?D @ seen) [Suc j..<e] = Inr ()"
        by (rule c(2))
      show "t_id x \<in> set (map t_id ?D)" if "below ts m j x" for x
        using gen [OF that] by simp
    qed (use Suc.prems False in simp_all)
  qed
qed

lemma below_prefix:
  "below ts m k t \<Longrightarrow> j \<le> k \<Longrightarrow> \<exists>x. below ts m j x"
  by (induction rule: below.induct) (auto intro: below.intros simp: le_Suc_eq)

lemma subtree_check_depth:
  assumes c: "subtree_check ts w depth [m] [m] [1..<max_hierarchy_depth + 2] = Inr ()"
    and b: "below ts m k t" and d: "depth \<le> max_hierarchy_depth"
  shows "depth + k \<le> max_hierarchy_depth"
proof (cases "k = 0")
  case False
  define i where "i = min k (max_hierarchy_depth + 1)"
  obtain x where x: "below ts m i x"
    using below_prefix [OF b, of i] by (auto simp: i_def)
  have "depth + i \<le> max_hierarchy_depth"
  proof (rule subtree_check_generation [OF c, of m 0 i x])
    show "t_id x \<in> set [m]" if "below ts m 0 x" for x
      using that by (auto elim: below.cases)
  qed (use x False in \<open>auto simp: i_def\<close>)
  then show ?thesis by (auto simp: i_def min_def split: if_splits)
qed (use d in simp)

text \<open>The chain of a row relative to a moved one of a row relative to a moved one.\<close>

lemma move_chain:
  assumes m: "m \<in> set ts" and f: "\<And>x. t_id x \<noteq> t_id m \<Longrightarrow> f x = x"
    and id: "\<And>x. x \<in> set ts \<Longrightarrow> t_id (f x) = t_id x \<and> t_workspace (f x) = t_workspace x"
    and moved: "\<And>x. x \<in> set ts \<Longrightarrow> t_id x = t_id m \<Longrightarrow> chain (map f ts) (f x) d"
    and x: "chain ts x n"
  shows "chain (map f ts) (f x) n \<or> (\<exists>k. below ts (t_id m) k x \<and> chain (map f ts) (f x) (d + k))"
  using x
proof (induction rule: chain.induct)
  case (root t)
  show ?case
  proof (cases "t_id t = t_id m")
    case True
    with root moved show ?thesis by (auto intro!: exI [of _ 0] below.here)
  next
    case False
    then have "f t = t" by (rule f)
    with root have "chain (map f ts) (f t) 0" by (intro chain.root) (force simp: image_iff)+
    then show ?thesis ..
  qed
next
  case (step t p n)
  show ?case
  proof (cases "t_id t = t_id m")
    case True
    with step moved show ?thesis by (auto intro!: exI [of _ 0] below.here)
  next
    case False
    have next_chain: "chain (map f ts) (f t) (Suc i)" if "chain (map f ts) (f p) i" for i
      using that step.hyps f [OF False] id [OF chain_in [OF step.hyps(4)]]
      by (intro chain.step [of _ _ "f p"]) (force simp: image_iff)+
    from step.IH show ?thesis
    proof
      assume "chain (map f ts) (f p) n"
      then show ?thesis using next_chain by blast
    next
      assume "\<exists>k. below ts (t_id m) k p \<and> chain (map f ts) (f p) (d + k)"
      then obtain k where k: "below ts (t_id m) k p" "chain (map f ts) (f p) (d + k)" by blast
      then have "below ts (t_id m) (Suc k) t" "chain (map f ts) (f t) (d + Suc k)"
        using step.hyps next_chain by (auto intro: below.down)
      then show ?thesis by blast
    qed
  qed
qed

subsection \<open>Saving a Task keeps the hierarchy\<close>

lemma hierarchy_insert:
  assumes ok: "hierarchy_ok ts"
    and walk: "parent_walk ts (t_workspace t) [t_id t] 0 (t_parent t) = Inr n"
  shows "hierarchy_ok (ts @ [t])"
proof -
  have "chain (ts @ [t]) t n"
    using parent_walk_chain [OF walk, of "ts @ [t]" t] by simp
  moreover have "n \<le> max_hierarchy_depth" using parent_walk_bound [OF walk] by simp
  ultimately show ?thesis
    using ok chain_mono [of ts _ _ "ts @ [t]"] by (fastforce simp: hierarchy_ok_def)
qed

lemma hierarchy_update:
  assumes ok: "hierarchy_ok ts" and d: "distinct (map t_id ts)" and m: "m \<in> set ts"
    and f: "t_id (f m) = t_id m" "t_workspace (f m) = t_workspace m"
    and clean: "task_clean False (f m) s = Inr ()" and ts: "tasks s = ts"
  shows "hierarchy_ok (update_where (\<lambda>x. t_id x = t_id m) f ts)"
proof -
  let ?g = "\<lambda>x. if t_id x = t_id m then f x else x"
  have g: "update_where (\<lambda>x. t_id x = t_id m) f ts = map ?g ts"
    by (simp add: update_where_def)
  have only_m: "x = m" if "x \<in> set ts" "t_id x = t_id m" for x
    using distinct_map_eq [OF d that(1) m that(2)] .
  have prev: "lookup_pk t_id (t_id (f m)) (tasks s) = Some m"
    using d m f ts by (simp add: lookup_pk_eq)
  from clean obtain n where walk: "parent_walk ts (t_workspace m) [t_id m] 0 (t_parent (f m)) = Inr n"
    using f ts by (auto simp: task_clean_def)
  show ?thesis
  proof (cases "t_parent (f m) = t_parent m")
    case True
    have "hierarchy_ok (map ?g ts)"
      by (rule hierarchy_ok_map [OF ok]) (use only_m f True in auto)
    then show ?thesis by (simp add: g)
  next
    case False
    then have sub: "subtree_check ts (t_workspace m) n [t_id m] [t_id m] [1..<max_hierarchy_depth + 2] = Inr ()"
      using clean walk prev f ts by (auto simp: task_clean_def split: if_splits)
    have n: "n \<le> max_hierarchy_depth" using parent_walk_bound [OF walk] by simp
    have "chain (map ?g ts) (f m) n"
      using parent_walk_chain [OF walk, of "map ?g ts" "f m"] f m by force
    then have moved: "chain (map ?g ts) (?g x) n" if "x \<in> set ts" "t_id x = t_id m" for x
      using only_m [OF that] by simp
    have "\<exists>i\<le>max_hierarchy_depth. chain (map ?g ts) (?g x) i" if x: "x \<in> set ts" for x
    proof -
      obtain j where j: "j \<le> max_hierarchy_depth" "chain ts x j" using ok x by (auto simp: hierarchy_ok_def)
      have "chain (map ?g ts) (?g x) j \<or> (\<exists>k. below ts (t_id m) k x \<and> chain (map ?g ts) (?g x) (n + k))"
        using m f moved j(2) only_m by (intro move_chain) auto
      then show ?thesis
      proof
        assume "\<exists>k. below ts (t_id m) k x \<and> chain (map ?g ts) (?g x) (n + k)"
        then obtain k where k: "below ts (t_id m) k x" "chain (map ?g ts) (?g x) (n + k)" by blast
        have "n + k \<le> max_hierarchy_depth" by (rule subtree_check_depth [OF sub k(1) n])
        with k show ?thesis by blast
      qed (use j in blast)
    qed
    then show ?thesis unfolding hierarchy_ok_def g set_map by blast
  qed
qed

subsection \<open>The walk accepts every stored Task of a well formed table\<close>

lemma chain_fun:
  assumes "distinct (map t_id ts)" "chain ts t n" "chain ts t k"
  shows "n = k"
  using assms(2,3)
proof (induction arbitrary: k rule: chain.induct)
  case (root t)
  then show ?case using chain_root_iff by blast
next
  case (step t p n)
  from step.prems obtain q i where q: "k = Suc i" "t_parent t = Some (t_id q)" "chain ts q i"
  proof (cases rule: chain.cases)
    case root
    with step.hyps(2) show ?thesis by simp
  next
    case (step q i)
    with that show ?thesis by blast
  qed
  then have "q = p"
    using step.hyps distinct_map_eq [OF assms(1)] chain_in by (metis option.inject)
  with step.IH q show ?case by simp
qed

lemma parent_walk_complete:
  assumes d: "distinct (map t_id ts)" and c: "chain ts t n"
    and "depth + n \<le> max_hierarchy_depth"
    and "\<And>x k. x \<in> set ts \<Longrightarrow> t_id x \<in> set seen \<Longrightarrow> chain ts x k \<Longrightarrow> n \<le> k"
  shows "parent_walk ts (t_workspace t) seen depth (t_parent t) = Inr (depth + n)"
  using c assms(3,4)
proof (induction arbitrary: seen depth rule: chain.induct)
  case (root t)
  then show ?case by simp
next
  case (step t p n)
  have p: "p \<in> set ts" using chain_in [OF step.hyps(4)] .
  have "t_id p \<notin> set seen"
    using step.prems(2) [OF p _ step.hyps(4)] by auto
  moreover have "lookup_pk t_id (t_id p) ts = Some p" using d p by (simp add: lookup_pk_eq)
  moreover have "parent_walk ts (t_workspace p) (t_id p # seen) (depth + 1) (t_parent p) = Inr (depth + 1 + n)"
  proof (rule step.IH)
    show "depth + 1 + n \<le> max_hierarchy_depth" using step.prems(1) by simp
    show "n \<le> k" if "x \<in> set ts" "t_id x \<in> set (t_id p # seen)" "chain ts x k" for x k
    proof (cases "t_id x = t_id p")
      case True
      then have "x = p" using distinct_map_eq [OF d that(1) p] by simp
      with that(3) step.hyps(4) chain_fun [OF d] show ?thesis by auto
    next
      case False
      with that step.prems(2) [of x k] show ?thesis by simp
    qed
  qed
  ultimately show ?case using step by simp
qed

lemma stored_task_clean:
  assumes d: "distinct (map t_id (tasks s))" and ok: "hierarchy_ok (tasks s)" and t: "t \<in> set (tasks s)"
    and f: "t_id t' = t_id t" "t_workspace t' = t_workspace t" "t_parent t' = t_parent t"
  shows "task_clean False t' s = Inr ()"
proof -
  obtain n where n: "n \<le> max_hierarchy_depth" "chain (tasks s) t n"
    using ok t by (auto simp: hierarchy_ok_def)
  have "parent_walk (tasks s) (t_workspace t) [t_id t] 0 (t_parent t) = Inr (0 + n)"
  proof (rule parent_walk_complete [OF d n(2)])
    show "n \<le> k" if "x \<in> set (tasks s)" "t_id x \<in> set [t_id t]" "chain (tasks s) x k" for x k
      using that chain_fun [OF d n(2)] distinct_map_eq [OF d that(1) t] by fastforce
  qed (use n in simp)
  moreover have "lookup_pk t_id (t_id t) (tasks s) = Some t" using d t by (simp add: lookup_pk_eq)
  ultimately show ?thesis using f by (simp add: task_clean_def)
qed

end
