(* ===== verification/Notifications.thy ===== *)
theory Notifications
  imports Workspace_Services Task_Hierarchy
begin

text \<open>
  \<open>apps/notifications/\<close>: the readers of a Workspace (\<open>access.py\<close>), the constant texts
  (\<open>content.py\<close>), the emission of Task notifications inside a business transaction and the read
  mark (\<open>services.py\<close>).
\<close>

subsection \<open>Readers\<close>

definition workspace_reader :: "uuid \<Rightarrow> uuid \<Rightarrow> db \<Rightarrow> bool" where
  "workspace_reader w u s \<longleftrightarrow> (\<exists>wm\<in>set (members s). wm_workspace wm = w \<and> wm_user wm = u
     \<and> wm_is_active wm \<and> is_assignable_role (wm_role wm))"

definition readable_memberships :: "uuid \<Rightarrow> uuid \<Rightarrow> db \<Rightarrow> profile_membership list" where
  "readable_memberships p w s = filter (\<lambda>m. pm_profile m = p \<and> user_active s (pm_user m)
     \<and> pm_is_active m
     \<and> (is_manager (pm_role m) \<or> pm_role m = PR_MEMBER \<and> workspace_reader w (pm_user m) s))
     (memberships s)"

definition notifications_visible_to :: "uuid option \<Rightarrow> db \<Rightarrow> notification list" where
  "notifications_visible_to user s = (case user of None \<Rightarrow> [] | Some u \<Rightarrow>
     filter (\<lambda>n. n_user n = u \<and> n_event_type n \<noteq> None \<and> n_event n \<noteq> None
       \<and> (\<exists>t\<in>set (tasks s). n_task n = Some (t_id t) \<and> n_workspace n = Some (t_workspace t))
       \<and> (\<exists>w\<in>set (workspaces s). n_workspace n = Some (w_id w) \<and> w_profile w = n_profile n)
       \<and> n_profile n \<noteq> None
       \<and> (\<exists>m\<in>set (memberships s). Some (pm_profile m) = n_profile n \<and> pm_user m = u
            \<and> user_active s u \<and> pm_is_active m
            \<and> (is_manager (pm_role m)
               \<or> pm_role m = PR_MEMBER
                 \<and> (\<exists>wm\<in>set (members s). Some (wm_workspace wm) = n_workspace n \<and> wm_user wm = u
                      \<and> wm_is_active wm \<and> is_assignable_role (wm_role wm)))))
       (notifications s))"

subsection \<open>Texts and actions\<close>

fun event_content :: "event_type \<Rightarrow> string \<times> string" where
  "event_content TASK_ASSIGNED = (''Task assigned'', ''A task has been assigned to you.'')"
| "event_content REVIEW_SUBMITTED =
     (''Review requested'', ''A task deliverable is ready for internal review.'')"
| "event_content REVIEW_APPROVED = (''Review approved'', ''A task deliverable has been approved.'')"
| "event_content REVIEW_CHANGES_REQUESTED = (''Changes requested'', ''A task deliverable needs changes.'')"
| "event_content TASK_COMMENTED =
     (''Task comment'', ''A new comment was added to a task you participate in.'')"

fun event_actions :: "event_type \<Rightarrow> string list" where
  "event_actions TASK_ASSIGNED = [''task.assigned'', ''task.reassigned'']"
| "event_actions REVIEW_SUBMITTED = [''task.deliverable.submitted'']"
| "event_actions REVIEW_APPROVED = [''task.deliverable.approved'']"
| "event_actions REVIEW_CHANGES_REQUESTED = [''task.deliverable.changes_requested'']"
| "event_actions TASK_COMMENTED = [''task.comment.created'']"

subsection \<open>Recipients\<close>

text \<open>\<open>revision=metadata.get("revision")\<close> in a filter: \<open>None\<close> selects the rows without revision.\<close>

definition revision_matches :: "json \<Rightarrow> int option \<Rightarrow> bool" where
  "revision_matches j r = (case j of JNull \<Rightarrow> r = None | JInt n \<Rightarrow> r = Some n | _ \<Rightarrow> False)"

text \<open>
  The branches of the \<open>if event_type ==\<close> cascade: the narrowed recipients, \<open>None\<close> where the code
  returns without a notification. \<open>recipients\<close> are the readers, \<open>d\<close> the deliverable passed.
\<close>

definition event_recipients :: "audit_log \<Rightarrow> uuid \<Rightarrow> task \<Rightarrow> event_type \<Rightarrow> deliverable option
    \<Rightarrow> profile_membership list \<Rightarrow> db \<Rightarrow> error + profile_membership list option" where
  "event_recipients event actor t et d recipients s = (case et of
     TASK_ASSIGNED \<Rightarrow>
       require (al_entity_name event = ''TaskAssignment'') (ValidationError ''__all__'')
       (case first_by ta_id (\<lambda>a. Some (ta_id a) = al_entity_id event \<and> ta_task a = t_id t
             \<and> ta_is_active a) (assignments s) of
          None \<Rightarrow> Inr None
        | Some a \<Rightarrow> Inr (Some (filter (\<lambda>m. pm_user m = ta_user a \<and> pm_role m = PR_MEMBER
             \<and> meta_get (al_metadata event) ''target_profile_membership_id'' = JUuid (pm_id m)
             \<and> holds_ws_role s (pm_user m) (t_workspace t) WR_MEMBER) recipients)))
   | REVIEW_SUBMITTED \<Rightarrow>
       require (al_entity_name event = ''Deliverable''
         \<and> (case d of None \<Rightarrow> False | Some x \<Rightarrow> al_entity_id event = Some (d_id x))
         \<and> (\<exists>x\<in>set (deliverables s). Some (d_id x) = al_entity_id event \<and> d_task x = t_id t
              \<and> d_uploaded_by x = actor
              \<and> revision_matches (meta_get (al_metadata event) ''revision'') (d_revision x)))
         (ValidationError ''__all__'')
       (Inr (Some (filter (\<lambda>m. is_manager (pm_role m)
          \<or> pm_role m = PR_MEMBER \<and> holds_ws_role s (pm_user m) (t_workspace t) WR_ADMIN) recipients)))
   | TASK_COMMENTED \<Rightarrow>
       require (al_entity_name event = ''TaskComment'') (ValidationError ''__all__'')
       (require (\<exists>c\<in>set (comments s). Some (tc_id c) = al_entity_id event \<and> tc_task c = t_id t
            \<and> tc_user c = actor) (ValidationError ''__all__'')
        (if \<exists>c\<in>set (comments s). Some (tc_id c) = al_entity_id event \<and> tc_deleted_at c \<noteq> None
         then Inr None
         else Inr (Some (filter (\<lambda>m. pm_user m = t_created_by t
           \<or> (\<exists>a\<in>set (assignments s). ta_task a = t_id t \<and> ta_is_active a \<and> ta_user a = pm_user m))
           recipients))))
   | _ \<Rightarrow>
       (case d of None \<Rightarrow> Inl (ValidationError ''__all__'') | Some x \<Rightarrow>
        require (al_entity_name event = ''Review''
          \<and> meta_get (al_metadata event) ''deliverable_id'' = JUuid (d_id x)) (ValidationError ''__all__'')
        (require_some (first_by r_id (\<lambda>r. Some (r_id r) = al_entity_id event \<and> r_reviewer r = actor
             \<and> r_status r = (if et = REVIEW_APPROVED then RS_APPROVED else RS_REQUEST_CHANGE)
             \<and> r_deliverable r = d_id x
             \<and> (\<exists>y\<in>set (deliverables s). d_id y = d_id x \<and> d_task y = t_id t
                  \<and> revision_matches (meta_get (al_metadata event) ''revision'') (d_revision y)))
             (reviews s)) (ValidationError ''__all__'') (\<lambda>r.
         require_some (lookup_pk d_id (r_deliverable r) (deliverables s)) (ValidationError ''__all__'')
           (\<lambda>y. Inr (Some (filter (\<lambda>m. pm_user m = d_uploaded_by y) recipients)))))))"

subsection \<open>Emission\<close>

definition new_notification ::
  "env \<Rightarrow> nat \<Rightarrow> uuid \<Rightarrow> uuid \<Rightarrow> uuid \<Rightarrow> uuid \<Rightarrow> uuid \<Rightarrow> event_type \<Rightarrow> notification" where
  "new_notification env k event u p w t et =
     \<lparr>n_id = e_uuid env k, n_user = u, n_title = fst (event_content et),
      n_message = snd (event_content et), n_is_read = False, n_event_type = Some et,
      n_profile = Some p, n_workspace = Some w, n_task = Some t, n_event = Some event,
      n_created_at = e_now env, n_updated_at = e_now env\<rparr>"

text \<open>
  \<open>get_or_create(event_id=..., user_id=...)\<close> for each recipient in turn; \<open>k\<close> numbers the
  identifiers the call draws. The result lists the rows found or created.
\<close>

fun notify_all :: "env \<Rightarrow> nat \<Rightarrow> uuid \<Rightarrow> uuid \<Rightarrow> uuid \<Rightarrow> uuid \<Rightarrow> event_type \<Rightarrow> uuid list \<Rightarrow> db
    \<Rightarrow> error + (notification list \<times> db)" where
  "notify_all env k event p w t et [] s = Inr ([], s)"
| "notify_all env k event p w t et (u # us) s =
     (case first_by n_id (\<lambda>n. n_event n = Some event \<and> n_user n = u) (notifications s) of
        Some n \<Rightarrow> bindE (notify_all env k event p w t et us s) (\<lambda>(ns, s'). Inr (n # ns, s'))
      | None \<Rightarrow>
          let n = new_notification env k event u p w t et in
          bindE (write_notifications (notifications s @ [n]) s) (\<lambda>s1.
          bindE (notify_all env (Suc k) event p w t et us s1) (\<lambda>(ns, s'). Inr (n # ns, s'))))"

definition emit_task_notifications :: "env \<Rightarrow> nat \<Rightarrow> uuid \<Rightarrow> uuid \<Rightarrow> uuid \<Rightarrow> event_type
    \<Rightarrow> deliverable option \<Rightarrow> db \<Rightarrow> error + (notification list \<times> db)" where
  "emit_task_notifications env k event_id actor task_id et d s =
     (case (lookup_pk al_id event_id (audit_logs s), lookup_pk t_id task_id (tasks s)) of
        (Some event, Some t) \<Rightarrow>
          require_some (workspace_profile (t_workspace t) s) (ValidationError ''__all__'') (\<lambda>pid.
          require_some (lookup_pk p_id pid (profiles s)) (ValidationError ''__all__'') (\<lambda>profile.
          require_some (first_by w_id (\<lambda>w. w_id w = t_workspace t \<and> w_profile w = Some pid)
              (workspaces s)) (ValidationError ''__all__'') (\<lambda>workspace.
          require (al_action event \<in> set (event_actions et) \<and> al_user event = Some actor
              \<and> meta_get (al_metadata event) ''profile_id'' = JUuid pid
              \<and> meta_get (al_metadata event) ''workspace_id'' = JUuid (t_workspace t)
              \<and> meta_get (al_metadata event) ''task_id'' = JUuid (t_id t)) (ValidationError ''__all__'')
          (let recipients = readable_memberships pid (t_workspace t) s in
           if p_status profile \<noteq> PS_ACTIVE \<or> w_status workspace \<noteq> WS_ACTIVE
             \<or> \<not> (\<exists>m\<in>set recipients. pm_user m = actor) then Inr ([], s)
           else bindE (event_recipients event actor t et d recipients s) (\<lambda>r.
             case r of None \<Rightarrow> Inr ([], s)
             | Some rs \<Rightarrow> notify_all env k event_id pid (t_workspace t) (t_id t) et
                 (remdups (filter (\<lambda>u. u \<noteq> actor) (map pm_user rs))) s)))))
      | _ \<Rightarrow> Inl (ValidationError ''__all__''))"

subsection \<open>Marking as read\<close>

definition mark_notification_read ::
  "env \<Rightarrow> uuid \<Rightarrow> uuid arg \<Rightarrow> db \<Rightarrow> error + (notification \<times> db)" where
  "mark_notification_read env actor notification_id s = (case notification_id of
     Malformed \<Rightarrow> Inl TenantAccessNotFound
   | Val i \<Rightarrow>
     require_some (first_by n_id (\<lambda>n. n_id n = i) (notifications_visible_to (Some actor) s))
       TenantAccessNotFound (\<lambda>target.
     require_some (n_profile target) TenantAccessNotFound (\<lambda>p.
     require_some (n_workspace target) TenantAccessNotFound (\<lambda>w.
     require (profile_exists p s) TenantAccessNotFound
     (require (\<exists>x\<in>set (workspaces s). w_id x = w \<and> w_profile x = Some p) TenantAccessNotFound
     (bindE (resolve_profile_access_context (Some actor) (Val p) s) (\<lambda>pc.
      bindE (resolve_workspace_access_context pc (Val w) s) (\<lambda>_.
      require_some (first_by n_id (\<lambda>n. n_id n = i) (notifications_visible_to (Some actor) s))
        TenantAccessNotFound (\<lambda>n.
      if n_is_read n then Inr (n, s)
      else
        let f = (\<lambda>x. x\<lparr>n_is_read := True, n_updated_at := e_now env\<rparr>) in
        bindE (write_notifications (update_where (\<lambda>x. n_id x = n_id n) f (notifications s)) s) (\<lambda>s1.
        Inr (f n, s1)))))))))))"

subsection \<open>What an emission does\<close>

lemma readable_memberships_iff:
  "m \<in> set (readable_memberships p w s) \<longleftrightarrow> m \<in> set (memberships s) \<and> pm_profile m = p
     \<and> user_active s (pm_user m) \<and> pm_is_active m
     \<and> (is_manager (pm_role m) \<or> pm_role m = PR_MEMBER \<and> workspace_reader w (pm_user m) s)"
  by (auto simp: readable_memberships_def)

text \<open>A reader is exactly a user with some authority over the Workspace.\<close>

lemma reader_has_authority:
  assumes "m \<in> set (readable_memberships p w s)" "in_tenant s w p"
  shows "\<exists>a. has_authority s (pm_user m) p w a"
proof -
  have h: "holds_profile_role s (pm_user m) p (pm_role m)"
    using assms(1) by (auto simp: readable_memberships_iff holds_profile_role_def)
  show ?thesis
  proof (cases "is_manager (pm_role m)")
    case True
    with h assms(2) show ?thesis by (intro exI [of _ "Manager (pm_role m)"]) simp
  next
    case False
    with assms(1) obtain wm where "wm \<in> set (members s)" "wm_workspace wm = w"
      "wm_user wm = pm_user m" "wm_is_active wm" "is_assignable_role (wm_role wm)"
      by (auto simp: readable_memberships_iff workspace_reader_def)
    with False h assms(2) show ?thesis
      by (intro exI [of _ "Assigned (wm_role wm)"]) (auto simp: holds_ws_role_def)
  qed
qed

lemma authority_reader:
  assumes "has_authority s u p w a"
  shows "\<exists>m\<in>set (readable_memberships p w s). pm_user m = u"
proof -
  obtain r where r: "holds_profile_role s u p r"
    "is_manager r \<or> r = PR_MEMBER \<and> workspace_reader w u s"
    using assms by (cases a) (auto simp: holds_ws_role_def workspace_reader_def simp del: not_manager)
  then obtain m where "m \<in> set (memberships s)" "pm_profile m = p" "pm_user m = u"
    "pm_is_active m" "pm_role m = r" "user_active s u"
    by (auto simp: holds_profile_role_def)
  with r(2) show ?thesis by (intro bexI [of _ m]) (auto simp: readable_memberships_iff)
qed

text \<open>
  The rows an emission of event \<open>e\<close> of type \<open>et\<close> about Task \<open>t\<close> adds: unread, complete, for users
  of \<open>us\<close>.
\<close>

definition notified ::
  "uuid \<Rightarrow> event_type \<Rightarrow> uuid \<Rightarrow> uuid set \<Rightarrow> db \<Rightarrow> db \<Rightarrow> bool" where
  "notified e et t us s s' \<longleftrightarrow> (\<exists>new. s' = s\<lparr>notifications := notifications s @ new\<rparr>
     \<and> (new \<noteq> [] \<longrightarrow> notifications_ok (notifications s'))
     \<and> (\<forall>n\<in>set new. n_user n \<in> us \<and> n_event n = Some e \<and> n_task n = Some t
          \<and> n_event_type n = Some et \<and> \<not> n_is_read n))"

lemma notified_refl [simp]: "notified e et t us s s"
  by (auto simp: notified_def intro!: exI [of _ "[]"])

lemma notified_tables:
  assumes "notified e et t us s s'"
  shows "users s' = users s" "profiles s' = profiles s" "memberships s' = memberships s"
    "workspaces s' = workspaces s" "members s' = members s" "invitations s' = invitations s"
    "tasks s' = tasks s" "assignments s' = assignments s" "comments s' = comments s"
    "deliverables s' = deliverables s" "reviews s' = reviews s" "audit_logs s' = audit_logs s"
    "notifications_ok (notifications s) \<Longrightarrow> notifications_ok (notifications s')"
  using assms by (auto simp: notified_def)

lemma notify_all_notified:
  "notify_all env k e p w t et us s = Inr (ns, s') \<Longrightarrow> notified e et t (set us) s s'"
proof (induction us arbitrary: k s ns s')
  case Nil
  then show ?case by simp
next
  case (Cons u us)
  show ?case
  proof (cases "first_by n_id (\<lambda>n. n_event n = Some e \<and> n_user n = u) (notifications s)")
    case None
    let ?n = "new_notification env k e u p w t et"
    from Cons.prems None obtain ns' where
      ok: "notifications_ok (notifications s @ [?n])" and
      r: "notify_all env (Suc k) e p w t et us (s\<lparr>notifications := notifications s @ [?n]\<rparr>) = Inr (ns', s')"
      by (auto simp: Let_def)
    from Cons.IH [OF r] obtain new where
      "s' = s\<lparr>notifications := (notifications s @ [?n]) @ new\<rparr>"
      "new \<noteq> [] \<longrightarrow> notifications_ok (notifications s')"
      "\<forall>n\<in>set new. n_user n \<in> set us \<and> n_event n = Some e \<and> n_task n = Some t
          \<and> n_event_type n = Some et \<and> \<not> n_is_read n"
      unfolding notified_def by auto
    with ok show ?thesis unfolding notified_def
      by (intro exI [of _ "?n # new"]) (auto simp: new_notification_def)
  next
    case (Some n)
    with Cons.prems obtain ns' where "notify_all env k e p w t et us s = Inr (ns', s')" by auto
    from Cons.IH [OF this] show ?thesis unfolding notified_def by fastforce
  qed
qed

text \<open>The users other than the actor who can read Workspace \<open>w\<close>.\<close>

definition event_users :: "uuid \<Rightarrow> uuid \<Rightarrow> db \<Rightarrow> uuid set" where
  "event_users actor w s =
     {u. u \<noteq> actor \<and> (\<exists>p a. workspace_profile w s = Some p \<and> has_authority s u p w a)}"

text \<open>Authority depends on four tables.\<close>

definition same_tenancy :: "db \<Rightarrow> db \<Rightarrow> bool" where
  "same_tenancy s s' \<longleftrightarrow> users s' = users s \<and> memberships s' = memberships s
     \<and> workspaces s' = workspaces s \<and> members s' = members s"

lemma has_authority_frame: "same_tenancy s s' \<Longrightarrow> has_authority s' u p w a = has_authority s u p w a"
  by (cases a) (simp_all add: same_tenancy_def holds_profile_role_def user_active_def in_tenant_def
      holds_ws_role_def)

lemma workspace_profile_frame: "same_tenancy s s' \<Longrightarrow> workspace_profile w s' = workspace_profile w s"
  by (simp add: same_tenancy_def workspace_profile_def)

lemma event_users_frame: "same_tenancy s s' \<Longrightarrow> event_users actor w s' = event_users actor w s"
  by (simp add: event_users_def has_authority_frame workspace_profile_frame)

lemma event_recipients_sub:
  "event_recipients event actor t et d rs s = Inr (Some rs') \<Longrightarrow> set rs' \<subseteq> set rs"
  by (auto simp: event_recipients_def split: event_type.splits option.splits if_splits)

lemma notified_mono: "notified e et t us s s' \<Longrightarrow> us \<subseteq> us' \<Longrightarrow> notified e et t us' s s'"
  unfolding notified_def by blast

lemma emit_D:
  assumes "emit_task_notifications env k e actor tid et d s = Inr (ns, s')"
  obtains t where "t \<in> set (tasks s)" "t_id t = tid"
    "notified e et tid (event_users actor (t_workspace t) s) s s'"
proof -
  from assms obtain event t where ev: "lookup_pk al_id e (audit_logs s) = Some event"
    and t: "lookup_pk t_id tid (tasks s) = Some t"
    by (auto simp: emit_task_notifications_def split: option.splits)
  from assms obtain p w where p: "workspace_profile (t_workspace t) s = Some p"
    and w: "first_by w_id (\<lambda>w. w_id w = t_workspace t \<and> w_profile w = Some p) (workspaces s) = Some w"
    and r: "(ns, s') = ([], s) \<or> (\<exists>rs. event_recipients event actor t et d
        (readable_memberships p (t_workspace t) s) s = Inr (Some rs)
      \<and> notify_all env k e p (t_workspace t) (t_id t) et
          (remdups (filter (\<lambda>u. u \<noteq> actor) (map pm_user rs))) s = Inr (ns, s'))"
    by (auto simp: emit_task_notifications_def ev t Let_def split: if_splits option.splits)
  have ten: "in_tenant s (t_workspace t) p"
    using first_by_Some_in [OF w] by (auto simp: in_tenant_def)
  have "notified e et tid (event_users actor (t_workspace t) s) s s'"
    using r
  proof
    assume "\<exists>rs. event_recipients event actor t et d
        (readable_memberships p (t_workspace t) s) s = Inr (Some rs)
      \<and> notify_all env k e p (t_workspace t) (t_id t) et
          (remdups (filter (\<lambda>u. u \<noteq> actor) (map pm_user rs))) s = Inr (ns, s')"
    then obtain rs where rs: "set rs \<subseteq> set (readable_memberships p (t_workspace t) s)"
      and n: "notify_all env k e p (t_workspace t) (t_id t) et
          (remdups (filter (\<lambda>u. u \<noteq> actor) (map pm_user rs))) s = Inr (ns, s')"
      using event_recipients_sub by blast
    have "set (remdups (filter (\<lambda>u. u \<noteq> actor) (map pm_user rs)))
        \<subseteq> event_users actor (t_workspace t) s"
      using rs reader_has_authority [OF _ ten] p by (auto simp: event_users_def)
    with notify_all_notified [OF n] lookup_pk_Some [OF t] show ?thesis
      using notified_mono by auto
  qed simp
  with lookup_pk_Some [OF t] show ?thesis by (intro that) auto
qed

lemma mark_notification_read_D:
  assumes "mark_notification_read env actor nid s = Inr (n', s')"
  obtains n where "n \<in> set (notifications s)" "nid = Val (n_id n)" "n_user n = actor"
    "if n_is_read n then n' = n \<and> s' = s
     else n' = n\<lparr>n_is_read := True, n_updated_at := e_now env\<rparr>
       \<and> (let rows = update_where (\<lambda>x. n_id x = n_id n)
             (\<lambda>x. x\<lparr>n_is_read := True, n_updated_at := e_now env\<rparr>) (notifications s) in
          notifications_ok rows \<and> s' = s\<lparr>notifications := rows\<rparr>)"
proof -
  from assms obtain i n where i: "nid = Val i"
    and n: "first_by n_id (\<lambda>n. n_id n = i) (notifications_visible_to (Some actor) s) = Some n"
    and r: "if n_is_read n then n' = n \<and> s' = s
     else n' = n\<lparr>n_is_read := True, n_updated_at := e_now env\<rparr>
       \<and> (let rows = update_where (\<lambda>x. n_id x = n_id n)
             (\<lambda>x. x\<lparr>n_is_read := True, n_updated_at := e_now env\<rparr>) (notifications s) in
          notifications_ok rows \<and> s' = s\<lparr>notifications := rows\<rparr>)"
    by (auto simp: mark_notification_read_def Let_def split: if_splits)
  from first_by_Some_in [OF n] i r show ?thesis
    by (intro that) (auto simp: notifications_visible_to_def)
qed

end
