(* ===== verification/Task_Services.thy ===== *)
theory Task_Services
  imports Notifications
begin

text \<open>
  \<open>apps/tasks/services.py\<close>: creation, edition and assignment of Tasks, their execution by the
  assigned Editor, and the internal review of Deliverables.
\<close>

subsection \<open>Locks, guards, audit\<close>

definition lock_task :: "workspace \<Rightarrow> uuid arg \<Rightarrow> db \<Rightarrow> error + task" where
  "lock_task w task_id s = (case task_id of
     Malformed \<Rightarrow> Inl TenantAccessNotFound
   | Val i \<Rightarrow> require_some (first_by t_id (\<lambda>t. t_id t = i \<and> t_workspace t = w_id w) (tasks s))
       TenantAccessNotFound Inr)"

definition lock_deliverable :: "task \<Rightarrow> uuid arg \<Rightarrow> db \<Rightarrow> error + deliverable" where
  "lock_deliverable t deliverable_id s = (case deliverable_id of
     Malformed \<Rightarrow> Inl TenantAccessNotFound
   | Val i \<Rightarrow> require_some (first_by d_id (\<lambda>d. d_id d = i \<and> d_task d = t_id t) (deliverables s))
       TenantAccessNotFound Inr)"

definition lock_current_editor_assignment :: "task \<Rightarrow> uuid \<Rightarrow> db \<Rightarrow> error + task_assignment" where
  "lock_current_editor_assignment t actor s =
     require_some (first_by ta_id (\<lambda>a. ta_task a = t_id t \<and> ta_user a = actor \<and> ta_is_active a)
       (assignments s)) PermissionDenied Inr"

definition write_task_audit :: "env \<Rightarrow> nat \<Rightarrow> uuid \<Rightarrow> string \<Rightarrow> string \<Rightarrow> uuid \<Rightarrow> workspace
    \<Rightarrow> (string \<times> json) list \<Rightarrow> db \<Rightarrow> error + db" where
  "write_task_audit env k actor action entity entity_id w meta s =
     write_audit env k (Some actor) action entity (Some entity_id)
       ([(''profile_id'', str_uuid (w_profile w)), (''workspace_id'', JUuid (w_id w))] @ meta) s"

fun task_status_str :: "task_status \<Rightarrow> string" where
  "task_status_str TS_PENDING = ''PENDING''"
| "task_status_str TS_ASSIGNED = ''ASSIGNED''"
| "task_status_str TS_WORKING = ''WORKING''"
| "task_status_str TS_REVIEW = ''REVIEW''"
| "task_status_str TS_COMPLETED = ''COMPLETED''"
| "task_status_str TS_CANCELLED = ''CANCELLED''"

fun priority_str :: "priority \<Rightarrow> string" where
  "priority_str PRI_LOW = ''LOW''"
| "priority_str PRI_MEDIUM = ''MEDIUM''"
| "priority_str PRI_HIGH = ''HIGH''"
| "priority_str PRI_URGENT = ''URGENT''"

fun deliverable_status_str :: "deliverable_status \<Rightarrow> string" where
  "deliverable_status_str DS_PENDING = ''PENDING''"
| "deliverable_status_str DS_SUBMITTED = ''SUBMITTED''"
| "deliverable_status_str DS_APPROVED = ''APPROVED''"
| "deliverable_status_str DS_REJECTED = ''REJECTED''"

fun review_status_str :: "review_status \<Rightarrow> string" where
  "review_status_str RS_PENDING = ''PENDING''"
| "review_status_str RS_APPROVED = ''APPROVED''"
| "review_status_str RS_REQUEST_CHANGE = ''REQUEST_CHANGE''"

definition set_status :: "env \<Rightarrow> task_status \<Rightarrow> task \<Rightarrow> task" where
  "set_status env st t = t\<lparr>t_status := st, t_updated_at := e_now env\<rparr>"

definition save_task_status :: "env \<Rightarrow> task \<Rightarrow> task_status \<Rightarrow> db \<Rightarrow> error + db" where
  "save_task_status env t next_status s =
     (let rows = update_where (\<lambda>x. t_id x = t_id t) (set_status env next_status) (tasks s) in
      bindE (task_full_clean False rows (set_status env next_status t) s) (\<lambda>_. write_tasks rows s))"

subsection \<open>Creating and editing\<close>

definition new_task :: "env \<Rightarrow> workspace \<Rightarrow> task option \<Rightarrow> ptext option \<Rightarrow> ptext option \<Rightarrow> priority
    \<Rightarrow> time option \<Rightarrow> uuid \<Rightarrow> task" where
  "new_task env w parent title description prio deadline actor =
     \<lparr>t_id = e_uuid env 0, t_workspace = w_id w, t_parent = map_option t_id parent,
      t_title = strip (text_or_empty title), t_description = description, t_status = TS_PENDING,
      t_priority = prio, t_deadline = deadline, t_created_by = actor, t_created_at = e_now env,
      t_updated_at = e_now env\<rparr>"

text \<open>\<open>None if parent_id is None else _lock_task(...)\<close>.\<close>

definition lock_parent :: "workspace \<Rightarrow> uuid arg option \<Rightarrow> db \<Rightarrow> error + task option" where
  "lock_parent w parent_id s = (case parent_id of
     None \<Rightarrow> Inr None
   | Some i \<Rightarrow> bindE (lock_task w i s) (\<lambda>p. Inr (Some p)))"

definition create_task :: "env \<Rightarrow> uuid \<Rightarrow> uuid arg \<Rightarrow> uuid arg \<Rightarrow> ptext option \<Rightarrow> ptext option
    \<Rightarrow> priority arg \<Rightarrow> time option arg \<Rightarrow> uuid arg option \<Rightarrow> db \<Rightarrow> error + (task \<times> db)" where
  "create_task env actor profile_id workspace_id title description prio deadline parent_id s =
     bindE (lock_workspace_mutation_context actor profile_id workspace_id s) (\<lambda>(wc, w, _).
     require (can_manage_workspace_tasks wc s) PermissionDenied
     (bindE (lock_parent w parent_id s) (\<lambda>parent.
     require (char_field_ok 255 (strip (text_or_empty title))) (ValidationError ''title'')
     (case prio of Malformed \<Rightarrow> Inl (ValidationError ''priority'') | Val pr \<Rightarrow>
      case deadline of Malformed \<Rightarrow> Inl (ValidationError ''deadline'') | Val dl \<Rightarrow>
      let t = new_task env w parent title description pr dl actor in
      bindE (task_full_clean True (tasks s @ [t]) t s) (\<lambda>_.
      bindE (write_tasks (tasks s @ [t]) s) (\<lambda>s1.
      bindE (write_task_audit env 1 actor ''task.created'' ''Task'' (t_id t) w
        [(''status'', JStr (task_status_str (t_status t))),
         (''priority'', JStr (priority_str (t_priority t))),
         (''parent_id'', juuid_opt (t_parent t))] s1) (\<lambda>s2.
      Inr (t, s2))))))))"

text \<open>
  The edited row. A keyword left at \<open>_UNSET\<close> keeps its field; \<open>save(update_fields=...)\<close> writes the
  changed fields and \<open>updated_at\<close>, and the row is locked since it was read, so writing the unchanged
  ones as well is the same row.
\<close>

definition edit_task :: "env \<Rightarrow> uuid option \<Rightarrow> ptext \<Rightarrow> ptext option \<Rightarrow> priority \<Rightarrow> time option
    \<Rightarrow> task \<Rightarrow> task" where
  "edit_task env parent title description prio deadline t =
     t\<lparr>t_parent := parent, t_title := title, t_description := description, t_priority := prio,
       t_deadline := deadline, t_updated_at := e_now env\<rparr>"

definition changed_fields :: "task \<Rightarrow> task \<Rightarrow> string list" where
  "changed_fields t t' =
     (if t_parent t \<noteq> t_parent t' then [''parent''] else [])
     @ (if t_title t \<noteq> t_title t' then [''title''] else [])
     @ (if t_description t \<noteq> t_description t' then [''description''] else [])
     @ (if t_priority t \<noteq> t_priority t' then [''priority''] else [])
     @ (if t_deadline t \<noteq> t_deadline t' then [''deadline''] else [])"

text \<open>The end of \<open>update_task\<close>: nothing changed is returned as it is, a change is validated, saved, audited.\<close>

definition save_edited_task ::
  "env \<Rightarrow> uuid \<Rightarrow> workspace \<Rightarrow> task \<Rightarrow> (task \<Rightarrow> task) \<Rightarrow> db \<Rightarrow> error + (task \<times> db)" where
  "save_edited_task env actor w t edit s =
     (let t' = edit t;
          fields = changed_fields t t';
          rows = update_where (\<lambda>x. t_id x = t_id t) edit (tasks s) in
      if fields = [] then Inr (t, s)
      else
        bindE (task_full_clean False rows t' s) (\<lambda>_.
        bindE (write_tasks rows s) (\<lambda>s1.
        bindE (write_task_audit env 0 actor ''task.updated'' ''Task'' (t_id t) w
          ([(''changed_fields'', JList (map JStr fields))]
           @ (if ''parent'' \<in> set fields
              then [(''parent_id_before'', juuid_opt (t_parent t)),
                    (''parent_id_after'', juuid_opt (t_parent t'))] else [])) s1) (\<lambda>s2.
        Inr (t', s2)))))"

definition update_task :: "env \<Rightarrow> uuid \<Rightarrow> uuid arg \<Rightarrow> uuid arg \<Rightarrow> uuid arg \<Rightarrow> ptext option setting
    \<Rightarrow> ptext option setting \<Rightarrow> priority arg setting \<Rightarrow> time option arg setting
    \<Rightarrow> uuid arg option setting \<Rightarrow> db \<Rightarrow> error + (task \<times> db)" where
  "update_task env actor profile_id workspace_id task_id title description prio deadline parent_id s =
     bindE (lock_workspace_mutation_context actor profile_id workspace_id s) (\<lambda>(wc, w, _).
     require (can_manage_workspace_tasks wc s) PermissionDenied
     (bindE (lock_task w task_id s) (\<lambda>t.
     bindE (case parent_id of
        Unset \<Rightarrow> Inr (t_parent t)
      | Set i \<Rightarrow> bindE (lock_parent w i s) (\<lambda>p. Inr (map_option t_id p))) (\<lambda>parent.
     let title' = (case title of Unset \<Rightarrow> t_title t | Set x \<Rightarrow> strip (text_or_empty x)) in
     (case set_or prio (Val (t_priority t)) of
        Malformed \<Rightarrow> require (char_field_ok 255 title') (ValidationError ''title'')
          (Inl (ValidationError ''priority''))
      | Val pr \<Rightarrow>
      case set_or deadline (Val (t_deadline t)) of
        Malformed \<Rightarrow> require (char_field_ok 255 title') (ValidationError ''title'')
          (Inl (ValidationError ''deadline''))
      | Val dl \<Rightarrow>
      save_edited_task env actor w t
        (edit_task env parent title' (set_or description (t_description t)) pr dl) s)))))"

subsection \<open>Assigning\<close>

definition new_assignment :: "env \<Rightarrow> uuid \<Rightarrow> uuid \<Rightarrow> task_assignment" where
  "new_assignment env t u = \<lparr>ta_id = e_uuid env 0, ta_task = t, ta_user = u, ta_is_active = True,
     ta_assigned_at = e_now env, ta_updated_at = e_now env\<rparr>"

definition deactivate_assignment :: "env \<Rightarrow> task_assignment \<Rightarrow> task_assignment" where
  "deactivate_assignment env a = a\<lparr>ta_is_active := False, ta_updated_at := e_now env\<rparr>"

definition reactivate_assignment :: "env \<Rightarrow> task_assignment \<Rightarrow> task_assignment" where
  "reactivate_assignment env a =
     a\<lparr>ta_is_active := True, ta_assigned_at := e_now env, ta_updated_at := e_now env\<rparr>"

text \<open>
  The row of the new assignee: reactivated if the user was assigned before, created otherwise. The
  number returned is the count of identifiers drawn.
\<close>

definition activate_assignment ::
  "env \<Rightarrow> uuid \<Rightarrow> uuid \<Rightarrow> db \<Rightarrow> error + (task_assignment \<times> nat \<times> db)" where
  "activate_assignment env t u s =
     (case first_by ta_id (\<lambda>a. ta_task a = t \<and> ta_user a = u) (assignments s) of
        None \<Rightarrow>
          let a = new_assignment env t u; rows = assignments s @ [a] in
          bindE (assignment_full_clean rows a s) (\<lambda>_.
          bindE (on_integrity_error True TaskAssignmentConflict (write_assignments rows s)) (\<lambda>s1.
          Inr (a, 1, s1)))
      | Some old \<Rightarrow>
          let a = reactivate_assignment env old;
              rows = update_where (\<lambda>x. ta_id x = ta_id old) (reactivate_assignment env) (assignments s) in
          bindE (assignment_full_clean rows a s) (\<lambda>_.
          bindE (on_integrity_error True TaskAssignmentConflict (write_assignments rows s)) (\<lambda>s1.
          Inr (a, 0, s1))))"

definition deactivate_current :: "env \<Rightarrow> task_assignment option \<Rightarrow> db \<Rightarrow> error + db" where
  "deactivate_current env active s = (case active of
     None \<Rightarrow> Inr s
   | Some a \<Rightarrow> write_assignments
       (update_where (\<lambda>x. ta_id x = ta_id a) (deactivate_assignment env) (assignments s)) s)"

definition eligible_editor :: "workspace \<Rightarrow> uuid arg \<Rightarrow> db \<Rightarrow> error + profile_membership" where
  "eligible_editor w target s = (case target of
     Malformed \<Rightarrow> Inl InvalidTaskAssignmentReference
   | Val i \<Rightarrow>
     require_some (first_by pm_id (\<lambda>m. pm_id m = i \<and> Some (pm_profile m) = w_profile w
        \<and> user_active s (pm_user m) \<and> pm_is_active m \<and> pm_role m = PR_MEMBER) (memberships s))
       InvalidTaskAssignmentReference (\<lambda>m.
     require_some (first_by wm_id (\<lambda>x. wm_workspace x = w_id w \<and> wm_user x = pm_user m
        \<and> wm_is_active x \<and> wm_role x = WR_MEMBER) (members s)) InvalidTaskAssignmentReference (\<lambda>_.
     Inr m)))"

definition assign_task :: "env \<Rightarrow> uuid \<Rightarrow> uuid arg \<Rightarrow> uuid arg \<Rightarrow> uuid arg \<Rightarrow> uuid arg \<Rightarrow> db
    \<Rightarrow> error + (task_assignment \<times> db)" where
  "assign_task env actor profile_id workspace_id task_id target s =
     bindE (lock_workspace_mutation_context actor profile_id workspace_id s) (\<lambda>(wc, w, _).
     require (can_manage_workspace_tasks wc s) PermissionDenied
     (bindE (lock_task w task_id s) (\<lambda>t.
     require (t_status t \<in> {TS_PENDING, TS_ASSIGNED, TS_WORKING}) TaskAssignmentConflict
     (bindE (eligible_editor w target s) (\<lambda>m.
     let active = first_by ta_id (\<lambda>a. ta_task a = t_id t \<and> ta_is_active a) (assignments s) in
     require (case active of None \<Rightarrow> True | Some a \<Rightarrow> ta_user a \<noteq> pm_user m) TaskAssignmentConflict
     (bindE (deactivate_current env active s) (\<lambda>s1.
      bindE (activate_assignment env (t_id t) (pm_user m) s1) (\<lambda>(a, k, s2).
      bindE (save_task_status env t TS_ASSIGNED s2) (\<lambda>s3.
      bindE (write_task_audit env k actor
        (if active = None then ''task.assigned'' else ''task.reassigned'') ''TaskAssignment'' (ta_id a) w
        [(''task_id'', JUuid (t_id t)), (''target_profile_membership_id'', JUuid (pm_id m)),
         (''previous_assignment_id'', juuid_opt (map_option ta_id active)),
         (''task_status_before'', JStr (task_status_str (t_status t))),
         (''task_status_after'', JStr (task_status_str TS_ASSIGNED))] s3) (\<lambda>s4.
      bindE (emit_task_notifications env (k + 1) (e_uuid env k) actor (t_id t) TASK_ASSIGNED None s4)
        (\<lambda>(_, s5). Inr (a, s5))))))))))))"

subsection \<open>Executing\<close>

definition start_task :: "env \<Rightarrow> uuid \<Rightarrow> uuid arg \<Rightarrow> uuid arg \<Rightarrow> uuid arg \<Rightarrow> db
    \<Rightarrow> error + (task \<times> db)" where
  "start_task env actor profile_id workspace_id task_id s =
     bindE (lock_workspace_mutation_context actor profile_id workspace_id s) (\<lambda>(wc, w, _).
     require (can_execute_workspace_tasks wc s) PermissionDenied
     (bindE (lock_task w task_id s) (\<lambda>t.
     bindE (lock_current_editor_assignment t actor s) (\<lambda>a.
     require (t_status t = TS_ASSIGNED) TaskWorkflowConflict
     (bindE (save_task_status env t TS_WORKING s) (\<lambda>s1.
      bindE (write_task_audit env 0 actor ''task.started'' ''Task'' (t_id t) w
        [(''assignment_id'', JUuid (ta_id a)),
         (''status_before'', JStr (task_status_str (t_status t))),
         (''status_after'', JStr (task_status_str TS_WORKING))] s1) (\<lambda>s2.
      Inr (set_status env TS_WORKING t, s2))))))))"

definition latest_revision :: "uuid \<Rightarrow> db \<Rightarrow> int" where
  "latest_revision t s = (case first_by (\<lambda>d. - the (d_revision d))
       (\<lambda>d. d_task d = t \<and> d_revision d \<noteq> None) (deliverables s) of
     None \<Rightarrow> 0 | Some d \<Rightarrow> the (d_revision d))"

definition new_deliverable :: "env \<Rightarrow> uuid \<Rightarrow> ptext option \<Rightarrow> uuid \<Rightarrow> int \<Rightarrow> deliverable" where
  "new_deliverable env t file_url actor revision =
     \<lparr>d_id = e_uuid env 0, d_task = t, d_file_url = strip (text_or_empty file_url),
      d_uploaded_by = actor, d_revision = Some revision, d_status = DS_SUBMITTED,
      d_created_at = e_now env, d_updated_at = e_now env\<rparr>"

definition submit_deliverable :: "env \<Rightarrow> uuid \<Rightarrow> uuid arg \<Rightarrow> uuid arg \<Rightarrow> uuid arg \<Rightarrow> ptext option
    \<Rightarrow> db \<Rightarrow> error + (deliverable \<times> db)" where
  "submit_deliverable env actor profile_id workspace_id task_id file_url s =
     bindE (lock_workspace_mutation_context actor profile_id workspace_id s) (\<lambda>(wc, w, _).
     require (can_execute_workspace_tasks wc s) PermissionDenied
     (bindE (lock_task w task_id s) (\<lambda>t.
     bindE (lock_current_editor_assignment t actor s) (\<lambda>a.
     require (t_status t = TS_WORKING) TaskWorkflowConflict
     (require (\<not> (\<exists>d\<in>set (deliverables s). d_task d = t_id t \<and> d_status d \<in> {DS_PENDING, DS_SUBMITTED}))
        TaskWorkflowConflict
     (let d = new_deliverable env (t_id t) file_url actor (latest_revision (t_id t) s + 1);
          rows = deliverables s @ [d] in
      bindE (deliverable_full_clean rows d s) (\<lambda>_.
      bindE (on_integrity_error True TaskWorkflowConflict (write_deliverables rows s)) (\<lambda>s1.
      bindE (save_task_status env t TS_REVIEW s1) (\<lambda>s2.
      bindE (write_task_audit env 1 actor ''task.deliverable.submitted'' ''Deliverable'' (d_id d) w
        [(''task_id'', JUuid (t_id t)), (''assignment_id'', JUuid (ta_id a)),
         (''revision'', JInt (the (d_revision d))),
         (''deliverable_status'', JStr (deliverable_status_str (d_status d))),
         (''task_status_before'', JStr (task_status_str (t_status t))),
         (''task_status_after'', JStr (task_status_str TS_REVIEW))] s2) (\<lambda>s3.
      bindE (emit_task_notifications env 2 (e_uuid env 1) actor (t_id t) REVIEW_SUBMITTED (Some d) s3)
        (\<lambda>(_, s4). Inr (d, s4))))))))))))"

subsection \<open>Reviewing\<close>

definition latest_deliverable :: "uuid \<Rightarrow> db \<Rightarrow> deliverable option" where
  "latest_deliverable t s =
     first_by (\<lambda>d. (- d_created_at d, - int (d_id d))) (\<lambda>d. d_task d = t) (deliverables s)"

definition new_review :: "env \<Rightarrow> uuid \<Rightarrow> uuid \<Rightarrow> review_status \<Rightarrow> ptext option \<Rightarrow> review" where
  "new_review env d actor st comment =
     \<lparr>r_id = e_uuid env 0, r_deliverable = d, r_reviewer = actor, r_status = st, r_comment = comment,
      r_created_at = e_now env, r_updated_at = e_now env\<rparr>"

definition decide_deliverable :: "env \<Rightarrow> deliverable_status \<Rightarrow> deliverable \<Rightarrow> deliverable" where
  "decide_deliverable env st d = d\<lparr>d_status := st, d_updated_at := e_now env\<rparr>"

definition review_outcome ::
  "review_status \<Rightarrow> deliverable_status \<times> task_status \<times> string \<times> event_type" where
  "review_outcome st =
     (if st = RS_APPROVED
      then (DS_APPROVED, TS_COMPLETED, ''task.deliverable.approved'', REVIEW_APPROVED)
      else (DS_REJECTED, TS_WORKING, ''task.deliverable.changes_requested'', REVIEW_CHANGES_REQUESTED))"

definition review_deliverable :: "env \<Rightarrow> uuid \<Rightarrow> uuid arg \<Rightarrow> uuid arg \<Rightarrow> uuid arg \<Rightarrow> uuid arg
    \<Rightarrow> review_status \<Rightarrow> ptext option \<Rightarrow> db \<Rightarrow> error + (review \<times> db)" where
  "review_deliverable env actor profile_id workspace_id task_id deliverable_id review_status comment s =
     bindE (lock_workspace_mutation_context actor profile_id workspace_id s) (\<lambda>(wc, w, _).
     require (can_review_workspace_deliverables wc s) PermissionDenied
     (bindE (lock_task w task_id s) (\<lambda>t.
     bindE (lock_deliverable t deliverable_id s) (\<lambda>d.
     require (t_status t = TS_REVIEW) DeliverableReviewConflict
     (require (case latest_deliverable (t_id t) s of None \<Rightarrow> False | Some l \<Rightarrow> d_id l = d_id d)
        DeliverableReviewConflict
     (require (d_status d = DS_SUBMITTED) DeliverableReviewConflict
     (require (d_uploaded_by d \<noteq> actor) PermissionDenied
     (require (\<not> (\<exists>r\<in>set (reviews s). r_deliverable r = d_id d)) DeliverableReviewConflict
     (let r = new_review env (d_id d) actor review_status comment;
          rrows = reviews s @ [r];
          (dst, tst, action, et) = review_outcome review_status;
          d' = decide_deliverable env dst d;
          drows = update_where (\<lambda>x. d_id x = d_id d) (decide_deliverable env dst) (deliverables s) in
      bindE (review_full_clean rrows r s) (\<lambda>_.
      bindE (on_integrity_error True DeliverableReviewConflict (write_reviews rrows s)) (\<lambda>s1.
      bindE (deliverable_full_clean drows d' s1) (\<lambda>_.
      bindE (write_deliverables drows s1) (\<lambda>s2.
      bindE (save_task_status env t tst s2) (\<lambda>s3.
      bindE (write_task_audit env 1 actor action ''Review'' (r_id r) w
        [(''task_id'', JUuid (t_id t)), (''deliverable_id'', JUuid (d_id d)),
         (''revision'', case d_revision d of None \<Rightarrow> JNull | Some n \<Rightarrow> JInt n),
         (''review_scope'', JStr ''INTERNAL''),
         (''review_status'', JStr (review_status_str review_status)),
         (''deliverable_status_before'', JStr (deliverable_status_str (d_status d))),
         (''deliverable_status_after'', JStr (deliverable_status_str dst)),
         (''task_status_before'', JStr (task_status_str (t_status t))),
         (''task_status_after'', JStr (task_status_str tst))] s3) (\<lambda>s4.
      bindE (emit_task_notifications env 2 (e_uuid env 1) actor (t_id t) et (Some d') s4) (\<lambda>(_, s5).
      Inr (r, s5)))))))))))))))))"

text \<open>\<open>str(comment).strip() or None\<close> of an optional comment.\<close>

definition approve_deliverable :: "env \<Rightarrow> uuid \<Rightarrow> uuid arg \<Rightarrow> uuid arg \<Rightarrow> uuid arg \<Rightarrow> uuid arg
    \<Rightarrow> ptext option \<Rightarrow> db \<Rightarrow> error + (review \<times> db)" where
  "approve_deliverable env actor profile_id workspace_id task_id deliverable_id comment s =
     review_deliverable env actor profile_id workspace_id task_id deliverable_id RS_APPROVED
       (case comment of None \<Rightarrow> None | Some c \<Rightarrow> if strip c = [] then None else Some (strip c)) s"

definition request_deliverable_changes :: "env \<Rightarrow> uuid \<Rightarrow> uuid arg \<Rightarrow> uuid arg \<Rightarrow> uuid arg
    \<Rightarrow> uuid arg \<Rightarrow> ptext option \<Rightarrow> db \<Rightarrow> error + (review \<times> db)" where
  "request_deliverable_changes env actor profile_id workspace_id task_id deliverable_id comment s =
     require (strip (text_or_empty comment) \<noteq> []) (ValidationError ''comment'')
       (review_deliverable env actor profile_id workspace_id task_id deliverable_id RS_REQUEST_CHANGE
          (Some (strip (text_or_empty comment))) s)"

end
