(* ===== verification/Comments.thy ===== *)
theory Comments
  imports Task_Services
begin

text \<open>
  \<open>apps/tasks/comment_services.py\<close>: the discussion of a Task, independent of its workflow, and
  the permission hints of \<open>comment_serializers.py\<close>.
\<close>

definition can_comment_on_task :: "workspace_access_context \<Rightarrow> db \<Rightarrow> bool" where
  "can_comment_on_task c s \<longleftrightarrow> can_manage_workspace_tasks c s \<or> can_execute_workspace_tasks c s"

text \<open>\<open>apps/tasks/access.py\<close>: the Tasks of a currently readable Workspace.\<close>

definition tasks_visible_to :: "workspace_access_context \<Rightarrow> db \<Rightarrow> error + task list" where
  "tasks_visible_to c s =
     require (can_read_workspace c s) TenantAccessNotFound
       (bindE (workspaces_visible_to (wc_profile_context c) s) (\<lambda>ws.
          Inr (filter (\<lambda>t. t_workspace t \<in> w_id ` set (filter (\<lambda>w. w_id w = wc_workspace c) ws))
            (tasks s))))"

definition resolve_task_in_scope :: "workspace_access_context \<Rightarrow> uuid arg \<Rightarrow> db \<Rightarrow> error + task" where
  "resolve_task_in_scope c task_id s =
     bindE (tasks_visible_to c s) (\<lambda>ts. case task_id of
       Malformed \<Rightarrow> Inl TenantAccessNotFound
     | Val i \<Rightarrow> require_some (first_by t_id (\<lambda>t. t_id t = i) ts) TenantAccessNotFound Inr)"

text \<open>The comments of a visible Task with the author's current membership, if any.\<close>

definition comments_visible_to ::
  "workspace_access_context \<Rightarrow> uuid \<Rightarrow> db \<Rightarrow> error + (task_comment \<times> uuid option) list" where
  "comments_visible_to c task_id s =
     bindE (tasks_visible_to c s) (\<lambda>ts.
       Inr (map (\<lambda>x. (x, map_option pm_id (first_by (\<lambda>m. (pm_joined_at m, pm_id m))
              (\<lambda>m. pm_profile m = wc_profile c \<and> pm_user m = tc_user x \<and> user_active s (pm_user m)
                 \<and> pm_is_active m) (memberships s))))
         (filter (\<lambda>x. tc_task x = task_id \<and> task_id \<in> t_id ` set ts) (comments s))))"

definition comment_content :: "ptext arg \<Rightarrow> error + ptext" where
  "comment_content v = (case v of
     Malformed \<Rightarrow> Inl (ValidationError ''content'')
   | Val t \<Rightarrow>
       require (strip t \<noteq> []) (ValidationError ''content'')
        (require (utf8_encodable t) (ValidationError ''content'')
         (require (0 \<notin> set t) (ValidationError ''content'')
          (require (length (strip t) \<le> content_max_length) (ValidationError ''content'')
            (Inr (strip t))))))"

definition lock_comment :: "task \<Rightarrow> uuid arg \<Rightarrow> db \<Rightarrow> error + task_comment" where
  "lock_comment t comment_id s = (case comment_id of
     Malformed \<Rightarrow> Inl TenantAccessNotFound
   | Val i \<Rightarrow> require_some (first_by tc_id (\<lambda>c. tc_id c = i \<and> tc_task c = t_id t) (comments s))
       TenantAccessNotFound Inr)"

definition mutation_scope :: "uuid \<Rightarrow> uuid arg \<Rightarrow> uuid arg \<Rightarrow> uuid arg \<Rightarrow> db
    \<Rightarrow> error + (workspace_access_context \<times> workspace \<times> task)" where
  "mutation_scope actor profile_id workspace_id task_id s =
     bindE (lock_workspace_mutation_context actor profile_id workspace_id s) (\<lambda>(wc, w, _).
     bindE (lock_task w task_id s) (\<lambda>t.
     require (can_comment_on_task wc s) PermissionDenied
       (Inr (wc, w, t))))"

definition write_comment_audit ::
  "env \<Rightarrow> nat \<Rightarrow> uuid \<Rightarrow> workspace \<Rightarrow> task_comment \<Rightarrow> string \<Rightarrow> db \<Rightarrow> error + db" where
  "write_comment_audit env k actor w c action s =
     write_audit env k (Some actor) action ''TaskComment'' (Some (tc_id c))
       [(''profile_id'', str_uuid (w_profile w)), (''workspace_id'', JUuid (w_id w)),
        (''task_id'', JUuid (tc_task c)), (''comment_id'', JUuid (tc_id c))] s"

definition new_comment :: "env \<Rightarrow> uuid \<Rightarrow> uuid \<Rightarrow> ptext \<Rightarrow> task_comment" where
  "new_comment env t u content = \<lparr>tc_id = e_uuid env 0, tc_task = t, tc_user = u,
     tc_content = content, tc_edited_at = None, tc_deleted_at = None, tc_created_at = e_now env,
     tc_updated_at = e_now env\<rparr>"

definition create_comment :: "env \<Rightarrow> uuid \<Rightarrow> uuid arg \<Rightarrow> uuid arg \<Rightarrow> uuid arg \<Rightarrow> ptext arg \<Rightarrow> db
    \<Rightarrow> error + (task_comment \<times> db)" where
  "create_comment env actor profile_id workspace_id task_id content s =
     bindE (mutation_scope actor profile_id workspace_id task_id s) (\<lambda>(wc, w, t).
     bindE (comment_content content) (\<lambda>txt.
     let c = new_comment env (t_id t) actor txt; rows = comments s @ [c] in
     bindE (comment_full_clean True rows c s) (\<lambda>_.
     bindE (write_comments rows s) (\<lambda>s1.
     bindE (write_comment_audit env 1 actor w c ''task.comment.created'' s1) (\<lambda>s2.
     bindE (emit_task_notifications env 2 (e_uuid env 1) actor (t_id t) TASK_COMMENTED None s2) (\<lambda>(_, s3).
     Inr (c, s3)))))))"

definition edit_comment :: "env \<Rightarrow> ptext \<Rightarrow> task_comment \<Rightarrow> task_comment" where
  "edit_comment env txt c =
     c\<lparr>tc_content := txt, tc_edited_at := Some (e_now env), tc_updated_at := e_now env\<rparr>"

definition update_comment :: "env \<Rightarrow> uuid \<Rightarrow> uuid arg \<Rightarrow> uuid arg \<Rightarrow> uuid arg \<Rightarrow> uuid arg
    \<Rightarrow> ptext arg \<Rightarrow> db \<Rightarrow> error + (task_comment \<times> db)" where
  "update_comment env actor profile_id workspace_id task_id comment_id content s =
     bindE (mutation_scope actor profile_id workspace_id task_id s) (\<lambda>(wc, w, t).
     bindE (lock_comment t comment_id s) (\<lambda>c.
     require (tc_user c = actor) PermissionDenied
     (require (tc_deleted_at c = None) TaskWorkflowConflict
     (bindE (comment_content content) (\<lambda>txt.
     if tc_content c = txt then Inr (c, s)
     else
       let c' = edit_comment env txt c;
           rows = update_where (\<lambda>x. tc_id x = tc_id c) (edit_comment env txt) (comments s) in
       bindE (comment_full_clean True rows c' s) (\<lambda>_.
       bindE (write_comments rows s) (\<lambda>s1.
       bindE (write_comment_audit env 0 actor w c' ''task.comment.updated'' s1) (\<lambda>s2.
       Inr (c', s2)))))))))"

definition tombstone :: "env \<Rightarrow> task_comment \<Rightarrow> task_comment" where
  "tombstone env c = c\<lparr>tc_deleted_at := Some (e_now env), tc_updated_at := e_now env\<rparr>"

definition delete_comment :: "env \<Rightarrow> uuid \<Rightarrow> uuid arg \<Rightarrow> uuid arg \<Rightarrow> uuid arg \<Rightarrow> uuid arg
    \<Rightarrow> db \<Rightarrow> error + (task_comment \<times> db)" where
  "delete_comment env actor profile_id workspace_id task_id comment_id s =
     bindE (mutation_scope actor profile_id workspace_id task_id s) (\<lambda>(wc, w, t).
     bindE (lock_comment t comment_id s) (\<lambda>c.
     require (tc_user c = actor \<or> can_manage_workspace_tasks wc s) PermissionDenied
     (if tc_deleted_at c \<noteq> None then Inr (c, s)
      else
        let c' = tombstone env c;
            rows = update_where (\<lambda>x. tc_id x = tc_id c) (tombstone env) (comments s) in
        bindE (comment_full_clean False rows c' s) (\<lambda>_.
        bindE (write_comments rows s) (\<lambda>s1.
        bindE (write_comment_audit env 0 actor w c' ''task.comment.deleted'' s1) (\<lambda>s2.
        Inr (c', s2)))))))"

end
