(* ===== verification/Task_Effects.thy ===== *)
theory Task_Effects
  imports Comments
begin

text \<open>
  What a successful Task or comment call has checked and done: one elimination lemma per service,
  on which the invariants rest, and the contract of tenant mutations for each of them.
\<close>

definition task_locked ::
  "uuid \<Rightarrow> uuid arg \<Rightarrow> uuid arg \<Rightarrow> uuid arg \<Rightarrow> db \<Rightarrow> authority \<Rightarrow> workspace \<Rightarrow> uuid \<Rightarrow> task \<Rightarrow> bool" where
  "task_locked actor pid wid tid s a w p t \<longleftrightarrow> locked actor pid wid s a w p
     \<and> ws_active s (w_id w) \<and> t \<in> set (tasks s) \<and> tid = Val (t_id t) \<and> t_workspace t = w_id w"

lemma lock_task_D:
  "lock_task w tid s = Inr t \<Longrightarrow> t \<in> set (tasks s) \<and> tid = Val (t_id t) \<and> t_workspace t = w_id w"
  by (auto simp: lock_task_def dest!: first_by_Some_in)

lemma lock_parent_D:
  "lock_parent w pid s = Inr p \<Longrightarrow> (case p of None \<Rightarrow> pid = None
     | Some t \<Rightarrow> t \<in> set (tasks s) \<and> pid = Some (Val (t_id t)) \<and> t_workspace t = w_id w)"
  by (auto simp: lock_parent_def dest!: lock_task_D split: option.splits)

lemma lock_deliverable_D:
  "lock_deliverable t did s = Inr d \<Longrightarrow> d \<in> set (deliverables s) \<and> did = Val (d_id d) \<and> d_task d = t_id t"
  by (auto simp: lock_deliverable_def dest!: first_by_Some_in)

lemma lock_assignment_D:
  "lock_current_editor_assignment t actor s = Inr a \<Longrightarrow>
     a \<in> set (assignments s) \<and> ta_task a = t_id t \<and> ta_user a = actor \<and> ta_is_active a"
  by (auto simp: lock_current_editor_assignment_def dest!: first_by_Some_in)

lemma task_audit_logged:
  "write_task_audit env k actor action entity i w meta s = Inr s' \<Longrightarrow> logged actor i action s s'"
  by (auto simp: write_task_audit_def dest: write_audit_logged)

lemma set_status_simps [simp]:
  "t_id (set_status env st t) = t_id t" "t_workspace (set_status env st t) = t_workspace t"
  "t_parent (set_status env st t) = t_parent t" "t_status (set_status env st t) = st"
  "t_title (set_status env st t) = t_title t" "t_created_by (set_status env st t) = t_created_by t"
  by (simp_all add: set_status_def)

definition status_rows :: "env \<Rightarrow> task \<Rightarrow> task_status \<Rightarrow> task list \<Rightarrow> task list" where
  "status_rows env t st ts = update_where (\<lambda>x. t_id x = t_id t) (set_status env st) ts"

lemma save_task_status_D:
  "save_task_status env t st s = Inr s' \<Longrightarrow> tasks_ok (status_rows env t st (tasks s))
     \<and> s' = s\<lparr>tasks := status_rows env t st (tasks s)\<rparr>"
  by (auto simp: save_task_status_def status_rows_def Let_def)

lemma task_lockI:
  assumes "lock_workspace_mutation_context actor pid wid s = Inr (wc, w, m)"
    and "lock_task w tid s = Inr t" "context_authority wc = Some a" "ws_active s (wc_workspace wc)"
  shows "task_locked actor pid wid tid s a w (wc_profile wc) t"
proof -
  obtain b where b: "locked actor pid wid s b w (wc_profile wc)" "context_authority wc = Some b"
    "wc_workspace wc = w_id w"
    using lock_locked [OF assms(1)] by metis
  with assms lock_task_D [OF assms(2)] show ?thesis by (simp add: task_locked_def)
qed

lemma create_task_D:
  assumes "create_task env actor pid wid title descr prio dl parent s = Inr (t, s')"
  obtains a w p par pr d where "locked actor pid wid s a w p" "manages a" "ws_active s (w_id w)"
    "lock_parent w parent s = Inr par"
    "prio = Val pr" "dl = Val d" "t = new_task env w par title descr pr d actor"
    "task_full_clean True (tasks s @ [t]) t s = Inr ()"
    "logged actor (t_id t) ''task.created'' (s\<lparr>tasks := tasks s @ [t]\<rparr>) s'"
proof -
  from assms obtain wc w m par pr d where
    l: "lock_workspace_mutation_context actor pid wid s = Inr (wc, w, m)"
    and c: "can_manage_workspace_tasks wc s" and par: "lock_parent w parent s = Inr par"
    and v: "prio = Val pr" "dl = Val d" "t = new_task env w par title descr pr d actor"
    "task_full_clean True (tasks s @ [t]) t s = Inr ()"
    "logged actor (t_id t) ''task.created'' (s\<lparr>tasks := tasks s @ [t]\<rparr>) s'"
    by (auto simp: create_task_def Let_def dest!: task_audit_logged)
  obtain a where a: "locked actor pid wid s a w (wc_profile wc)" "context_authority wc = Some a"
    "wc_workspace wc = w_id w"
    using lock_locked [OF l] by metis
  have e: "manages a" "ws_active s (w_id w)" using edit_manages(2) [OF a(2) c] a(3) by simp_all
  from that [OF a(1) e par v] show ?thesis .
qed

definition task_edited :: "uuid \<Rightarrow> task \<Rightarrow> (task \<Rightarrow> task) \<Rightarrow> task \<Rightarrow> db \<Rightarrow> db \<Rightarrow> bool" where
  "task_edited actor t edit t' s s' \<longleftrightarrow>
     (if changed_fields t (edit t) = [] then t' = t \<and> s' = s
      else t' = edit t \<and> (let rows = update_where (\<lambda>x. t_id x = t_id t) edit (tasks s) in
        task_full_clean False rows t' s = Inr ()
        \<and> logged actor (t_id t) ''task.updated'' (s\<lparr>tasks := rows\<rparr>) s'))"

lemma save_edited_task_D:
  "save_edited_task env actor w t edit s = Inr (t', s') \<Longrightarrow> task_edited actor t edit t' s s'"
  by (auto simp: save_edited_task_def task_edited_def Let_def dest!: task_audit_logged split: if_splits)

lemma update_task_D:
  assumes "update_task env actor pid wid tid title descr prio dl parent s = Inr (t', s')"
  obtains a w p t par ti de pr d where "task_locked actor pid wid tid s a w p t" "manages a"
    "(parent = Unset \<and> par = t_parent t) \<or> (\<exists>i q. parent = Set i \<and> lock_parent w i s = Inr q \<and> par = map_option t_id q)"
    "task_edited actor t (edit_task env par ti de pr d) t' s s'"
proof -
  from assms obtain wc w m t par ti de pr d where
    l: "lock_workspace_mutation_context actor pid wid s = Inr (wc, w, m)"
    and c: "can_manage_workspace_tasks wc s" and t: "lock_task w tid s = Inr t"
    and q: "(case parent of
        Unset \<Rightarrow> Inr (t_parent t)
      | Set i \<Rightarrow> bindE (lock_parent w i s) (\<lambda>p. Inr (map_option t_id p))) = Inr par"
    and r: "save_edited_task env actor w t (edit_task env par ti de pr d) s = Inr (t', s')"
    by (auto simp: update_task_def Let_def)
  obtain a where a: "locked actor pid wid s a w (wc_profile wc)" "context_authority wc = Some a"
    "wc_workspace wc = w_id w"
    using lock_locked [OF l] by metis
  have e: "manages a" "ws_active s (wc_workspace wc)" using edit_manages(2) [OF a(2) c] by simp_all
  have q': "(parent = Unset \<and> par = t_parent t) \<or> (\<exists>i q. parent = Set i \<and> lock_parent w i s = Inr q \<and> par = map_option t_id q)"
    using q by (cases parent) auto
  from that [OF task_lockI [OF l t a(2) e(2)] e(1) q' save_edited_task_D [OF r]] show ?thesis .
qed

subsection \<open>Assignment\<close>

lemma eligible_editor_D:
  "eligible_editor w target s = Inr m \<Longrightarrow> target = Val (pm_id m) \<and> m \<in> set (memberships s)
     \<and> w_profile w = Some (pm_profile m) \<and> pm_is_active m \<and> pm_role m = PR_MEMBER
     \<and> user_active s (pm_user m) \<and> holds_ws_role s (pm_user m) (w_id w) WR_MEMBER"
  by (auto simp: eligible_editor_def holds_ws_role_def dest!: first_by_Some_in)

text \<open>The assignment table after the hand-over of Task \<open>t\<close> to user \<open>u\<close>.\<close>

definition released_rows :: "env \<Rightarrow> task_assignment option \<Rightarrow> task_assignment list \<Rightarrow> task_assignment list" where
  "released_rows env active as = (case active of None \<Rightarrow> as
     | Some a \<Rightarrow> update_where (\<lambda>x. ta_id x = ta_id a) (deactivate_assignment env) as)"

definition taken_rows :: "env \<Rightarrow> uuid \<Rightarrow> uuid \<Rightarrow> task_assignment list \<Rightarrow> task_assignment list" where
  "taken_rows env t u as = (case first_by ta_id (\<lambda>a. ta_task a = t \<and> ta_user a = u) as of
     None \<Rightarrow> as @ [new_assignment env t u]
   | Some old \<Rightarrow> update_where (\<lambda>x. ta_id x = ta_id old) (reactivate_assignment env) as)"

lemma deactivate_current_D:
  "deactivate_current env active s = Inr s' \<Longrightarrow>
     s' = s\<lparr>assignments := released_rows env active (assignments s)\<rparr>
     \<and> (active \<noteq> None \<longrightarrow> assignments_ok (assignments s'))"
  by (auto simp: deactivate_current_def released_rows_def split: option.splits)

lemma activate_assignment_D:
  assumes "activate_assignment env t u s = Inr (a, k, s')"
  shows "s' = s\<lparr>assignments := taken_rows env t u (assignments s)\<rparr>"
    "assignments_ok (taken_rows env t u (assignments s))" "a \<in> set (taken_rows env t u (assignments s))"
    "ta_task a = t" "ta_user a = u" "ta_is_active a"
proof -
  have "s' = s\<lparr>assignments := taken_rows env t u (assignments s)\<rparr>
    \<and> assignments_ok (taken_rows env t u (assignments s)) \<and> a \<in> set (taken_rows env t u (assignments s))
    \<and> ta_task a = t \<and> ta_user a = u \<and> ta_is_active a"
proof (cases "first_by ta_id (\<lambda>a. ta_task a = t \<and> ta_user a = u) (assignments s)")
  case None
  with assms show ?thesis
    by (auto simp: activate_assignment_def taken_rows_def Let_def new_assignment_def simp del: first_by_None)
next
  case (Some old)
  with assms first_by_Some_in [OF Some] show ?thesis
    by (auto simp: activate_assignment_def taken_rows_def Let_def reactivate_assignment_def in_update_where)
qed
  then show "s' = s\<lparr>assignments := taken_rows env t u (assignments s)\<rparr>"
    "assignments_ok (taken_rows env t u (assignments s))" "a \<in> set (taken_rows env t u (assignments s))"
    "ta_task a = t" "ta_user a = u" "ta_is_active a" by blast+
qed

text \<open>An emission about Task \<open>t\<close> after its status was saved reaches the readers of its Workspace.\<close>

lemma status_rows_in:
  assumes "x \<in> set (status_rows env t st ts)" "t_id x = t_id t" "t \<in> set ts"
    "distinct (map t_id (status_rows env t st ts))"
  shows "x = set_status env st t"
proof -
  have "set_status env st t \<in> set (status_rows env t st ts)"
    using assms(3) by (force simp: status_rows_def in_update_where)
  from distinct_map_eq [OF assms(4,1) this] assms(2) show ?thesis by simp
qed

lemma emit_status_D:
  assumes em: "emit_task_notifications env k e actor (t_id t) et d s4 = Inr (ns, s')"
    and t4: "tasks s4 = status_rows env t st (tasks s)" and t: "t \<in> set (tasks s)"
    and ok: "tasks_ok (tasks s4)" and f: "same_tenancy s s4"
  shows "notified e et (t_id t) (event_users actor (t_workspace t) s) s4 s'"
proof -
  from em obtain x where x: "x \<in> set (tasks s4)" "t_id x = t_id t"
    and n: "notified e et (t_id t) (event_users actor (t_workspace x) s4) s4 s'"
    by (rule emit_D)
  have "x = set_status env st t"
    using status_rows_in x t ok unfolding t4 tasks_ok_def by blast
  with n event_users_frame [OF f] show ?thesis by simp
qed

lemma assign_task_D:
  assumes "assign_task env actor pid wid tid target s = Inr (a, s')"
  obtains au w p t m active s3 s4 k where "task_locked actor pid wid tid s au w p t" "manages au"
    "t_status t \<in> {TS_PENDING, TS_ASSIGNED, TS_WORKING}" "eligible_editor w target s = Inr m"
    "active = first_by ta_id (\<lambda>a. ta_task a = t_id t \<and> ta_is_active a) (assignments s)"
    "case active of None \<Rightarrow> True | Some x \<Rightarrow> ta_user x \<noteq> pm_user m"
    "s3 = s\<lparr>assignments := taken_rows env (t_id t) (pm_user m) (released_rows env active (assignments s)),
       tasks := status_rows env t TS_ASSIGNED (tasks s)\<rparr>"
    "assignments_ok (assignments s3)" "tasks_ok (tasks s3)"
    "a \<in> set (assignments s3)" "ta_task a = t_id t" "ta_user a = pm_user m" "ta_is_active a"
    "logged actor (ta_id a) (if active = None then ''task.assigned'' else ''task.reassigned'') s3 s4"
    "notified (e_uuid env k) TASK_ASSIGNED (t_id t) (event_users actor (w_id w) s) s4 s'"
proof -
  from assms obtain wc w mm t m s1 k s2 s3 s4 ns where
    l: "lock_workspace_mutation_context actor pid wid s = Inr (wc, w, mm)"
    and c: "can_manage_workspace_tasks wc s" and t: "lock_task w tid s = Inr t"
    and st: "t_status t \<in> {TS_PENDING, TS_ASSIGNED, TS_WORKING}"
    and m: "eligible_editor w target s = Inr m"
    and act: "case first_by ta_id (\<lambda>a. ta_task a = t_id t \<and> ta_is_active a) (assignments s) of
        None \<Rightarrow> True | Some x \<Rightarrow> ta_user x \<noteq> pm_user m"
    and s1: "deactivate_current env (first_by ta_id (\<lambda>a. ta_task a = t_id t \<and> ta_is_active a) (assignments s)) s = Inr s1"
    and s2: "activate_assignment env (t_id t) (pm_user m) s1 = Inr (a, k, s2)"
    and s3: "save_task_status env t TS_ASSIGNED s2 = Inr s3"
    and s4: "logged actor (ta_id a) (if first_by ta_id (\<lambda>a. ta_task a = t_id t \<and> ta_is_active a) (assignments s) = None
        then ''task.assigned'' else ''task.reassigned'') s3 s4"
    and em: "emit_task_notifications env (k + 1) (e_uuid env k) actor (t_id t) TASK_ASSIGNED None s4 = Inr (ns, s')"
    unfolding assign_task_def Let_def bindE_eq_Inr require_eq_Inr
    by (auto simp del: first_by_None dest!: task_audit_logged)
  obtain au where a: "locked actor pid wid s au w (wc_profile wc)" "context_authority wc = Some au"
    "wc_workspace wc = w_id w"
    using lock_locked [OF l] by metis
  have e: "manages au" "ws_active s (wc_workspace wc)" using edit_manages(2) [OF a(2) c] by simp_all
  have tl: "task_locked actor pid wid tid s au w (wc_profile wc) t" by (rule task_lockI [OF l t a(2) e(2)])
  note D1 = conjunct1 [OF deactivate_current_D [OF s1]] and D2 = activate_assignment_D [OF s2]
    and D3 = save_task_status_D [OF s3]
  let ?active = "first_by ta_id (\<lambda>a. ta_task a = t_id t \<and> ta_is_active a) (assignments s)"
  have s3': "s3 = s\<lparr>assignments := taken_rows env (t_id t) (pm_user m)
      (released_rows env ?active (assignments s)),
       tasks := status_rows env t TS_ASSIGNED (tasks s)\<rparr>"
    "assignments_ok (assignments s3)" "tasks_ok (tasks s3)" "a \<in> set (assignments s3)"
    "ta_task a = t_id t" "ta_user a = pm_user m" "ta_is_active a"
    using D2 D3 by (simp_all add: D1)
  have "t \<in> set (tasks s)" "t_workspace t = w_id w" using lock_task_D [OF t] by simp_all
  then have n: "notified (e_uuid env k) TASK_ASSIGNED (t_id t) (event_users actor (w_id w) s) s4 s'"
    using emit_status_D [OF em, of TS_ASSIGNED s] s3' logged_tables [OF s4]
    by (simp add: same_tenancy_def)
  from that [OF tl e(1) st m refl act s3' s4 n] show ?thesis .
qed

subsection \<open>Execution\<close>

lemma executor_locked:
  assumes "lock_workspace_mutation_context actor pid wid s = Inr (wc, w, m)"
    and "can_execute_workspace_tasks wc s" and "lock_task w tid s = Inr t"
  shows "task_locked actor pid wid tid s (Assigned WR_MEMBER) w (wc_profile wc) t"
proof -
  obtain a where a: "context_authority wc = Some a"
    using lock_locked [OF assms(1)] by metis
  with edit_manages(4) [OF a assms(2)] show ?thesis
    using task_lockI [OF assms(1,3) a] by auto
qed

lemma start_task_D:
  assumes "start_task env actor pid wid tid s = Inr (t', s')"
  obtains w p t a where "task_locked actor pid wid tid s (Assigned WR_MEMBER) w p t"
    "a \<in> set (assignments s)" "ta_task a = t_id t" "ta_user a = actor" "ta_is_active a"
    "t_status t = TS_ASSIGNED" "t' = set_status env TS_WORKING t"
    "tasks_ok (status_rows env t TS_WORKING (tasks s))"
    "logged actor (t_id t) ''task.started'' (s\<lparr>tasks := status_rows env t TS_WORKING (tasks s)\<rparr>) s'"
proof -
  from assms obtain wc w m t a s1 where
    l: "lock_workspace_mutation_context actor pid wid s = Inr (wc, w, m)"
    and c: "can_execute_workspace_tasks wc s" and t: "lock_task w tid s = Inr t"
    and a: "lock_current_editor_assignment t actor s = Inr a"
    and st: "t_status t = TS_ASSIGNED" and s1: "save_task_status env t TS_WORKING s = Inr s1"
    and lg: "logged actor (t_id t) ''task.started'' s1 s'" and t': "t' = set_status env TS_WORKING t"
    by (auto simp: start_task_def dest!: task_audit_logged)
  note A = lock_assignment_D [OF a] and S = save_task_status_D [OF s1]
  show ?thesis
    using that [OF executor_locked [OF l c t]] A st t' S lg by blast
qed

lemma submit_deliverable_D:
  assumes "submit_deliverable env actor pid wid tid url s = Inr (d, s')"
  obtains w p t a s2 s3 where "task_locked actor pid wid tid s (Assigned WR_MEMBER) w p t"
    "a \<in> set (assignments s)" "ta_task a = t_id t" "ta_user a = actor" "ta_is_active a"
    "t_status t = TS_WORKING"
    "\<And>x. x \<in> set (deliverables s) \<Longrightarrow> d_task x = t_id t \<Longrightarrow> d_status x \<in> {DS_APPROVED, DS_REJECTED}"
    "d = new_deliverable env (t_id t) url actor (latest_revision (t_id t) s + 1)"
    "deliverables_ok (deliverables s @ [d])"
    "tasks_ok (status_rows env t TS_REVIEW (tasks s))"
    "s2 = s\<lparr>deliverables := deliverables s @ [d], tasks := status_rows env t TS_REVIEW (tasks s)\<rparr>"
    "logged actor (d_id d) ''task.deliverable.submitted'' s2 s3"
    "notified (e_uuid env 1) REVIEW_SUBMITTED (t_id t) (event_users actor (w_id w) s) s3 s'"
proof -
  from assms obtain wc w m t a s1 s2 s3 ns where
    l: "lock_workspace_mutation_context actor pid wid s = Inr (wc, w, m)"
    and c: "can_execute_workspace_tasks wc s" and t: "lock_task w tid s = Inr t"
    and a: "lock_current_editor_assignment t actor s = Inr a"
    and st: "t_status t = TS_WORKING"
    and u: "\<not> (\<exists>d\<in>set (deliverables s). d_task d = t_id t \<and> d_status d \<in> {DS_PENDING, DS_SUBMITTED})"
    and d: "d = new_deliverable env (t_id t) url actor (latest_revision (t_id t) s + 1)"
    and s1: "deliverables_ok (deliverables s @ [d])" "s1 = s\<lparr>deliverables := deliverables s @ [d]\<rparr>"
    and s2: "save_task_status env t TS_REVIEW s1 = Inr s2"
    and lg: "logged actor (d_id d) ''task.deliverable.submitted'' s2 s3"
    and em: "emit_task_notifications env 2 (e_uuid env 1) actor (t_id t) REVIEW_SUBMITTED (Some d) s3 = Inr (ns, s')"
    unfolding submit_deliverable_def Let_def bindE_eq_Inr require_eq_Inr
    by (auto dest!: task_audit_logged)
  note A = lock_assignment_D [OF a] and S = save_task_status_D [OF s2] and T = lock_task_D [OF t]
  have s2': "s2 = s\<lparr>deliverables := deliverables s @ [d], tasks := status_rows env t TS_REVIEW (tasks s)\<rparr>"
    "tasks_ok (status_rows env t TS_REVIEW (tasks s))"
    using S s1(2) by simp_all
  have n: "notified (e_uuid env 1) REVIEW_SUBMITTED (t_id t) (event_users actor (w_id w) s) s3 s'"
    using emit_status_D [OF em, of TS_REVIEW s] T s2' logged_tables [OF lg]
    by (simp add: same_tenancy_def)
  have u': "d_status x \<in> {DS_APPROVED, DS_REJECTED}"
    if "x \<in> set (deliverables s)" "d_task x = t_id t" for x
    using u that by (cases "d_status x") auto
  show ?thesis
    using that [OF executor_locked [OF l c t] _ _ _ _ st u' d s1(1) s2'(2,1) lg n] A by blast
qed

subsection \<open>Review\<close>

lemma review_deliverable_D:
  assumes "review_deliverable env actor pid wid tid did rst txt s = Inr (r, s')"
  obtains au w p t d dst tst action et s3 s4 where "task_locked actor pid wid tid s au w p t" "manages au"
    "did = Val (d_id d)" "d \<in> set (deliverables s)" "d_task d = t_id t" "t_status t = TS_REVIEW"
    "case latest_deliverable (t_id t) s of None \<Rightarrow> False | Some l \<Rightarrow> d_id l = d_id d"
    "d_status d = DS_SUBMITTED" "d_uploaded_by d \<noteq> actor"
    "\<forall>x\<in>set (reviews s). r_deliverable x \<noteq> d_id d"
    "r = new_review env (d_id d) actor rst txt" "(dst, tst, action, et) = review_outcome rst"
    "reviews_ok (reviews s @ [r])"
    "deliverables_ok (update_where (\<lambda>x. d_id x = d_id d) (decide_deliverable env dst) (deliverables s))"
    "tasks_ok (status_rows env t tst (tasks s))"
    "s3 = s\<lparr>reviews := reviews s @ [r],
       deliverables := update_where (\<lambda>x. d_id x = d_id d) (decide_deliverable env dst) (deliverables s),
       tasks := status_rows env t tst (tasks s)\<rparr>"
    "logged actor (r_id r) action s3 s4"
    "notified (e_uuid env 1) et (t_id t) (event_users actor (w_id w) s) s4 s'"
proof -
  obtain dst tst action et where o: "review_outcome rst = (dst, tst, action, et)"
    by (metis prod_cases4)
  from assms o obtain wc w m t d s1 s2 s3 s4 ns where
    l: "lock_workspace_mutation_context actor pid wid s = Inr (wc, w, m)"
    and c: "can_review_workspace_deliverables wc s" and t: "lock_task w tid s = Inr t"
    and d: "lock_deliverable t did s = Inr d" and st: "t_status t = TS_REVIEW"
    and la: "case latest_deliverable (t_id t) s of None \<Rightarrow> False | Some l \<Rightarrow> d_id l = d_id d"
    and ds: "d_status d = DS_SUBMITTED" "d_uploaded_by d \<noteq> actor"
      "\<not> (\<exists>x\<in>set (reviews s). r_deliverable x = d_id d)"
    and r: "r = new_review env (d_id d) actor rst txt"
    and s1: "reviews_ok (reviews s @ [r])" "s1 = s\<lparr>reviews := reviews s @ [r]\<rparr>"
    and s2: "deliverables_ok (update_where (\<lambda>x. d_id x = d_id d) (decide_deliverable env dst) (deliverables s))"
      "s2 = s1\<lparr>deliverables := update_where (\<lambda>x. d_id x = d_id d) (decide_deliverable env dst) (deliverables s)\<rparr>"
    and s3: "save_task_status env t tst s2 = Inr s3"
    and lg: "logged actor (r_id r) action s3 s4"
    and em: "emit_task_notifications env 2 (e_uuid env 1) actor (t_id t) et
      (Some (decide_deliverable env dst d)) s4 = Inr (ns, s')"
    unfolding review_deliverable_def Let_def bindE_eq_Inr require_eq_Inr
    by (auto dest!: task_audit_logged)
  obtain au where a: "locked actor pid wid s au w (wc_profile wc)" "context_authority wc = Some au"
    using lock_locked [OF l] by metis
  have e: "manages au" "ws_active s (wc_workspace wc)"
    using edit_manages(2) [OF a(2)] c by (simp_all add: can_review_workspace_deliverables_def)
  note T = lock_task_D [OF t] and D = lock_deliverable_D [OF d] and S = save_task_status_D [OF s3]
  have s3': "s3 = s\<lparr>reviews := reviews s @ [r],
       deliverables := update_where (\<lambda>x. d_id x = d_id d) (decide_deliverable env dst) (deliverables s),
       tasks := status_rows env t tst (tasks s)\<rparr>" "tasks_ok (status_rows env t tst (tasks s))"
    using S s1(2) s2(2) by simp_all
  have n: "notified (e_uuid env 1) et (t_id t) (event_users actor (w_id w) s) s4 s'"
    using emit_status_D [OF em, of tst s] T s3' logged_tables [OF lg]
    by (simp add: same_tenancy_def)
  show ?thesis
    using that [OF task_lockI [OF l t a(2) e(2)] e(1) _ _ _ st la ds(1,2) _ r o [symmetric] s1(1) s2(1)
      s3'(2,1) lg n] D ds(3) by blast
qed

lemma approve_is_review:
  "approve_deliverable env actor pid wid tid did txt s = Inr x \<Longrightarrow>
     \<exists>c. review_deliverable env actor pid wid tid did RS_APPROVED c s = Inr x"
  by (auto simp: approve_deliverable_def)

lemma request_changes_is_review:
  "request_deliverable_changes env actor pid wid tid did txt s = Inr x \<Longrightarrow>
     \<exists>c. c \<noteq> [] \<and> review_deliverable env actor pid wid tid did RS_REQUEST_CHANGE (Some c) s = Inr x"
  by (auto simp: request_deliverable_changes_def)

subsection \<open>Comments\<close>

definition comments_allowed :: "authority \<Rightarrow> bool" where
  "comments_allowed a \<longleftrightarrow> manages a \<or> a = Assigned WR_MEMBER"

lemma mutation_scope_D:
  assumes "mutation_scope actor pid wid tid s = Inr (wc, w, t)"
  obtains a p where "task_locked actor pid wid tid s a w p t" "comments_allowed a"
    "can_manage_workspace_tasks wc s \<Longrightarrow> manages a" "t \<in> set (tasks s)" "t_workspace t = w_id w"
proof -
  from assms obtain m where l: "lock_workspace_mutation_context actor pid wid s = Inr (wc, w, m)"
    and t: "lock_task w tid s = Inr t" and c: "can_comment_on_task wc s"
    by (auto simp: mutation_scope_def)
  obtain a where a: "context_authority wc = Some a" using lock_locked [OF l] by metis
  have e: "comments_allowed a" "ws_active s (wc_workspace wc)"
    using c edit_manages(2,4) [OF a] by (auto simp: can_comment_on_task_def comments_allowed_def)
  show ?thesis
    using that [OF task_lockI [OF l t a e(2)] e(1)] edit_manages(2) [OF a] lock_task_D [OF t] by blast
qed

lemma lock_comment_D:
  "lock_comment t cid s = Inr c \<Longrightarrow> c \<in> set (comments s) \<and> cid = Val (tc_id c) \<and> tc_task c = t_id t"
  by (auto simp: lock_comment_def dest!: first_by_Some_in)

lemma comment_audit_logged:
  "write_comment_audit env k actor w c action s = Inr s' \<Longrightarrow> logged actor (tc_id c) action s s'"
  by (auto simp: write_comment_audit_def dest: write_audit_logged)

lemma comment_content_D:
  "comment_content v = Inr body \<Longrightarrow> \<exists>t. v = Val t \<and> body = strip t \<and> body \<noteq> []
     \<and> length body \<le> content_max_length \<and> utf8_encodable body \<and> 0 \<notin> set body"
  using set_strip by (fastforce simp: comment_content_def utf8_encodable_def)

lemma edit_comment_simps [simp]:
  "tc_id (edit_comment env body c) = tc_id c" "tc_id (tombstone env c) = tc_id c"
  "tc_user (edit_comment env body c) = tc_user c" "tc_user (tombstone env c) = tc_user c"
  "tc_task (edit_comment env body c) = tc_task c" "tc_task (tombstone env c) = tc_task c"
  "tc_content (edit_comment env body c) = body" "tc_content (tombstone env c) = tc_content c"
  "tc_deleted_at (edit_comment env body c) = tc_deleted_at c"
  "tc_deleted_at (tombstone env c) = Some (e_now env)"
  by (simp_all add: edit_comment_def tombstone_def)

lemma create_comment_D:
  assumes "create_comment env actor pid wid tid content s = Inr (c, s')"
  obtains a w p t body s1 s2 where "task_locked actor pid wid tid s a w p t" "comments_allowed a"
    "comment_content content = Inr body" "c = new_comment env (t_id t) actor body"
    "comments_ok (comments s @ [c])" "s1 = s\<lparr>comments := comments s @ [c]\<rparr>"
    "logged actor (tc_id c) ''task.comment.created'' s1 s2"
    "\<exists>t'\<in>set (tasks s). t_id t' = t_id t
       \<and> notified (e_uuid env 1) TASK_COMMENTED (t_id t) (event_users actor (t_workspace t') s) s2 s'"
proof -
  from assms obtain wc w t body s1 s2 ns where
    m: "mutation_scope actor pid wid tid s = Inr (wc, w, t)"
    and body: "comment_content content = Inr body" "c = new_comment env (t_id t) actor body"
    and s1: "comments_ok (comments s @ [c])" "s1 = s\<lparr>comments := comments s @ [c]\<rparr>"
    and lg: "logged actor (tc_id c) ''task.comment.created'' s1 s2"
    and em: "emit_task_notifications env 2 (e_uuid env 1) actor (t_id t) TASK_COMMENTED None s2 = Inr (ns, s')"
    unfolding create_comment_def Let_def bindE_eq_Inr by (auto dest!: comment_audit_logged)
  obtain a p where a: "task_locked actor pid wid tid s a w p t" "comments_allowed a"
    using mutation_scope_D [OF m] by metis
  obtain x where x: "x \<in> set (tasks s2)" "t_id x = t_id t"
    "notified (e_uuid env 1) TASK_COMMENTED (t_id t) (event_users actor (t_workspace x) s2) s2 s'"
    using emit_D [OF em] by metis
  have f: "same_tenancy s s2" "tasks s2 = tasks s"
    using logged_tables [OF lg] s1(2) by (simp_all add: same_tenancy_def)
  have "\<exists>t'\<in>set (tasks s). t_id t' = t_id t
       \<and> notified (e_uuid env 1) TASK_COMMENTED (t_id t) (event_users actor (t_workspace t') s) s2 s'"
    using x f event_users_frame by metis
  from that [OF a body s1 lg this] show ?thesis .
qed

definition comment_replaced ::
  "uuid \<Rightarrow> string \<Rightarrow> task_comment \<Rightarrow> (task_comment \<Rightarrow> task_comment) \<Rightarrow> db \<Rightarrow> db \<Rightarrow> bool" where
  "comment_replaced actor action c f s s' \<longleftrightarrow>
     (let rows = update_where (\<lambda>x. tc_id x = tc_id c) f (comments s) in
      comments_ok rows \<and> logged actor (tc_id c) action (s\<lparr>comments := rows\<rparr>) s')"

lemma update_comment_D:
  assumes "update_comment env actor pid wid tid cid content s = Inr (c', s')"
  obtains a w p t c body where "task_locked actor pid wid tid s a w p t" "comments_allowed a"
    "c \<in> set (comments s)" "cid = Val (tc_id c)" "tc_task c = t_id t" "tc_user c = actor"
    "tc_deleted_at c = None" "comment_content content = Inr body"
    "if tc_content c = body then c' = c \<and> s' = s
     else c' = edit_comment env body c
       \<and> comment_replaced actor ''task.comment.updated'' c (edit_comment env body) s s'"
proof -
  from assms obtain wc w t c body where
    m: "mutation_scope actor pid wid tid s = Inr (wc, w, t)" and c: "lock_comment t cid s = Inr c"
    and g: "tc_user c = actor" "tc_deleted_at c = None" "comment_content content = Inr body"
    and r: "if tc_content c = body then c' = c \<and> s' = s
     else c' = edit_comment env body c
       \<and> comment_replaced actor ''task.comment.updated'' c (edit_comment env body) s s'"
    by (auto simp: update_comment_def Let_def comment_replaced_def dest!: comment_audit_logged
        split: if_splits)
  obtain a p where a: "task_locked actor pid wid tid s a w p t" "comments_allowed a"
    using mutation_scope_D [OF m] by metis
  from that [OF a _ _ _ g r] lock_comment_D [OF c] show ?thesis by blast
qed

lemma delete_comment_D:
  assumes "delete_comment env actor pid wid tid cid s = Inr (c', s')"
  obtains a w p t c where "task_locked actor pid wid tid s a w p t" "comments_allowed a"
    "c \<in> set (comments s)" "cid = Val (tc_id c)" "tc_task c = t_id t" "tc_user c = actor \<or> manages a"
    "if tc_deleted_at c \<noteq> None then c' = c \<and> s' = s
     else c' = tombstone env c
       \<and> comment_replaced actor ''task.comment.deleted'' c (tombstone env) s s'"
proof -
  from assms obtain wc w t c where
    m: "mutation_scope actor pid wid tid s = Inr (wc, w, t)" and c: "lock_comment t cid s = Inr c"
    and g: "tc_user c = actor \<or> can_manage_workspace_tasks wc s"
    and r: "if tc_deleted_at c \<noteq> None then c' = c \<and> s' = s
     else c' = tombstone env c
       \<and> comment_replaced actor ''task.comment.deleted'' c (tombstone env) s s'"
    by (auto simp: delete_comment_def Let_def comment_replaced_def dest!: comment_audit_logged
        split: if_splits)
  obtain a p where a: "task_locked actor pid wid tid s a w p t" "comments_allowed a"
    "can_manage_workspace_tasks wc s \<Longrightarrow> manages a"
    using mutation_scope_D [OF m] by metis
  have g': "tc_user c = actor \<or> manages a" using g a(3) by blast
  from that [OF a(1,2) _ _ _ g' r] lock_comment_D [OF c] show ?thesis by blast
qed

subsection \<open>The contract of tenant mutations\<close>

lemma logged_notified_audited:
  "logged actor i action s1 s2 \<Longrightarrow> notified e et t us s2 s' \<Longrightarrow> audit_logs s1 = audit_logs s \<Longrightarrow>
     \<exists>l. audit_logs s' = audit_logs s @ [l] \<and> al_user l = Some actor"
  using logged_audited notified_tables(12) by metis

lemma comment_replaced_audited:
  "comment_replaced actor action c f s s' \<Longrightarrow>
     \<exists>l. audit_logs s' = audit_logs s @ [l] \<and> al_user l = Some actor"
  by (auto simp: comment_replaced_def Let_def intro!: logged_audited)

lemma task_edited_audited:
  "task_edited actor t edit t' s s' \<Longrightarrow>
     s' = s \<or> (\<exists>l. audit_logs s' = audit_logs s @ [l] \<and> al_user l = Some actor)"
  by (auto simp: task_edited_def Let_def dest: logged_audited split: if_splits)

interpretation create_task_service: audited_service
  "\<lambda>a p w. create_task env a p w title descr prio dl parent" for env title descr prio dl parent
proof unfold_locales
  show "create_task env a p w title descr prio dl parent s = Inl e"
    if "lock_workspace_mutation_context a p w s = Inl e" for a p w s e
    using that by (simp add: create_task_def)
  show "s' = s \<or> (\<exists>l. audit_logs s' = audit_logs s @ [l] \<and> al_user l = Some a)"
    if "create_task env a p w title descr prio dl parent s = Inr (r, s')" for a p w s r s'
    using that by (elim create_task_D) (auto dest!: logged_audited)
qed

interpretation update_task_service: audited_service
  "\<lambda>a p w. update_task env a p w t title descr prio dl parent" for env t title descr prio dl parent
proof unfold_locales
  show "update_task env a p w t title descr prio dl parent s = Inl e"
    if "lock_workspace_mutation_context a p w s = Inl e" for a p w s e
    using that by (simp add: update_task_def)
  show "s' = s \<or> (\<exists>l. audit_logs s' = audit_logs s @ [l] \<and> al_user l = Some a)"
    if "update_task env a p w t title descr prio dl parent s = Inr (r, s')" for a p w s r s'
    using that by (elim update_task_D) (rule task_edited_audited)
qed

interpretation assign_task_service: audited_service
  "\<lambda>a p w. assign_task env a p w t target" for env t target
proof unfold_locales
  show "assign_task env a p w t target s = Inl e"
    if "lock_workspace_mutation_context a p w s = Inl e" for a p w s e
    using that by (simp add: assign_task_def)
  show "s' = s \<or> (\<exists>l. audit_logs s' = audit_logs s @ [l] \<and> al_user l = Some a)"
    if "assign_task env a p w t target s = Inr (r, s')" for a p w s r s'
    using that by (elim assign_task_D) (auto dest!: logged_notified_audited)
qed

interpretation start_task_service: audited_service
  "\<lambda>a p w. start_task env a p w t" for env t
proof unfold_locales
  show "start_task env a p w t s = Inl e"
    if "lock_workspace_mutation_context a p w s = Inl e" for a p w s e
    using that by (simp add: start_task_def)
  show "s' = s \<or> (\<exists>l. audit_logs s' = audit_logs s @ [l] \<and> al_user l = Some a)"
    if "start_task env a p w t s = Inr (r, s')" for a p w s r s'
    using that by (elim start_task_D) (auto dest!: logged_audited)
qed

interpretation submit_deliverable_service: audited_service
  "\<lambda>a p w. submit_deliverable env a p w t url" for env t url
proof unfold_locales
  show "submit_deliverable env a p w t url s = Inl e"
    if "lock_workspace_mutation_context a p w s = Inl e" for a p w s e
    using that by (simp add: submit_deliverable_def)
  show "s' = s \<or> (\<exists>l. audit_logs s' = audit_logs s @ [l] \<and> al_user l = Some a)"
    if "submit_deliverable env a p w t url s = Inr (r, s')" for a p w s r s'
    using that by (elim submit_deliverable_D) (auto dest!: logged_notified_audited)
qed

interpretation review_deliverable_service: audited_service
  "\<lambda>a p w. review_deliverable env a p w t d st c" for env t d st c
proof unfold_locales
  show "review_deliverable env a p w t d st c s = Inl e"
    if "lock_workspace_mutation_context a p w s = Inl e" for a p w s e
    using that by (simp add: review_deliverable_def)
  show "s' = s \<or> (\<exists>l. audit_logs s' = audit_logs s @ [l] \<and> al_user l = Some a)"
    if "review_deliverable env a p w t d st c s = Inr (r, s')" for a p w s r s'
    using that by (elim review_deliverable_D) (auto dest!: logged_notified_audited)
qed

interpretation create_comment_service: audited_service
  "\<lambda>a p w. create_comment env a p w t c" for env t c
proof unfold_locales
  show "create_comment env a p w t c s = Inl e"
    if "lock_workspace_mutation_context a p w s = Inl e" for a p w s e
    using that by (simp add: create_comment_def mutation_scope_def)
  show "s' = s \<or> (\<exists>l. audit_logs s' = audit_logs s @ [l] \<and> al_user l = Some a)"
    if "create_comment env a p w t c s = Inr (r, s')" for a p w s r s'
    using that by (elim create_comment_D) (auto dest!: logged_notified_audited)
qed

interpretation update_comment_service: audited_service
  "\<lambda>a p w. update_comment env a p w t cid c" for env t cid c
proof unfold_locales
  show "update_comment env a p w t cid c s = Inl e"
    if "lock_workspace_mutation_context a p w s = Inl e" for a p w s e
    using that by (simp add: update_comment_def mutation_scope_def)
  show "s' = s \<or> (\<exists>l. audit_logs s' = audit_logs s @ [l] \<and> al_user l = Some a)"
    if "update_comment env a p w t cid c s = Inr (r, s')" for a p w s r s'
    using that by (elim update_comment_D) (auto dest: comment_replaced_audited split: if_splits)
qed

interpretation delete_comment_service: audited_service
  "\<lambda>a p w. delete_comment env a p w t cid" for env t cid
proof unfold_locales
  show "delete_comment env a p w t cid s = Inl e"
    if "lock_workspace_mutation_context a p w s = Inl e" for a p w s e
    using that by (simp add: delete_comment_def mutation_scope_def)
  show "s' = s \<or> (\<exists>l. audit_logs s' = audit_logs s @ [l] \<and> al_user l = Some a)"
    if "delete_comment env a p w t cid s = Inr (r, s')" for a p w s r s'
    using that by (elim delete_comment_D) (auto dest: comment_replaced_audited split: if_splits)
qed

end
