(* ===== verification/Invitations.thy ===== *)
theory Invitations
  imports Workspace_Services
begin

text \<open>
  \<open>apps/workspace/invitation_services.py\<close>, \<open>invitation_identity.py\<close>, \<open>invitation_delivery.py\<close>, the
  account lookup of \<open>apps/accounts/identity.py\<close> and the mailer of \<open>apps/common/email_delivery.py\<close>:
  the e-mail bound, single use invitations through which users join a Profile. Three services
  commit an expiry and raise afterwards; their result is an \<open>error + 'a\<close> beside the committed state.
  Identifiers are drawn at a running index because some steps write a record only conditionally.
\<close>

subsection \<open>Limits and identities\<close>

definition invitation_ttl :: time where
  "invitation_ttl = 7 * 24 * 3600 * 1000000"

definition invitation_rate_window :: time where
  "invitation_rate_window = 24 * 3600 * 1000000"

definition max_invitations_per_recipient :: nat where
  "max_invitations_per_recipient = 5"

definition max_invitations_per_inviter :: nat where
  "max_invitations_per_inviter = 30"

definition reraise :: "(error \<Rightarrow> bool) \<Rightarrow> error \<Rightarrow> error + 'a \<Rightarrow> error + 'a" where
  "reraise P e m = (case m of Inl x \<Rightarrow> Inl (if P x then e else x) | Inr a \<Rightarrow> Inr a)"

lemma reraise_eq_Inr [simp]: "reraise P e m = Inr a \<longleftrightarrow> m = Inr a"
  by (simp add: reraise_def split: sum.split)

definition normalize_account_email :: "env \<Rightarrow> ptext option \<Rightarrow> ptext" where
  "normalize_account_email env value = e_casefold env (strip (text_or_empty value))"

definition normalize_invitation_email :: "env \<Rightarrow> ptext option \<Rightarrow> ptext" where
  "normalize_invitation_email env value = normalize_account_email env value"

definition resolve_unique_user_for_email :: "env \<Rightarrow> ptext \<Rightarrow> db \<Rightarrow> error + user option" where
  "resolve_unique_user_for_email env email s =
     (case take 2 (sort_key u_id (filter (\<lambda>u. e_iexact env (u_email u) email) (users s))) of
        [] \<Rightarrow> Inr None
      | [u] \<Rightarrow> if normalize_account_email env (Some (u_email u)) \<noteq> email then Inr None else Inr (Some u)
      | _ \<Rightarrow> Inl AmbiguousAccountIdentity)"

definition resolve_unique_user_for_invitation_email :: "env \<Rightarrow> ptext \<Rightarrow> db \<Rightarrow> error + user option" where
  "resolve_unique_user_for_invitation_email env email s =
     reraise (\<lambda>e. e = AmbiguousAccountIdentity) AmbiguousInvitationIdentity
       (resolve_unique_user_for_email env email s)"

definition resolve_recipient_account :: "env \<Rightarrow> ptext \<Rightarrow> db \<Rightarrow> error + user option" where
  "resolve_recipient_account env email s =
     reraise (\<lambda>e. e = AmbiguousInvitationIdentity) InvitationConflict
       (resolve_unique_user_for_invitation_email env email s)"

subsection \<open>The mailer\<close>

definition unsafe_default_email_backends :: "string list" where
  "unsafe_default_email_backends =
     [''django.core.mail.backends.console.EmailBackend'',
      ''django.core.mail.backends.dummy.EmailBackend'',
      ''django.core.mail.backends.filebased.EmailBackend'']"

definition ensure_default_email_delivery_available :: "env \<Rightarrow> error + unit" where
  "ensure_default_email_delivery_available env = (case e_mail_backend env of
     None \<Rightarrow> Inl EmailDeliveryUnavailable
   | Some b \<Rightarrow> if b = [] \<or> b \<in> set unsafe_default_email_backends then Inl EmailDeliveryUnavailable
              else Inr ())"

definition ensure_invitation_delivery_available :: "env \<Rightarrow> error + unit" where
  "ensure_invitation_delivery_available env =
     reraise (\<lambda>e. e = EmailDeliveryUnavailable) InvitationDeliveryUnavailable
       (ensure_default_email_delivery_available env)"

text \<open>\<open>smtp\<close> is what the mail library does: \<open>None\<close> when it raises, else the number of messages sent.\<close>

definition send_default_email :: "env \<Rightarrow> int option \<Rightarrow> error + unit" where
  "send_default_email env smtp =
     bindE (ensure_default_email_delivery_available env) (\<lambda>_.
     require_some smtp EmailDeliveryUnavailable (\<lambda>sent_count.
     require (sent_count = 1) EmailDeliveryUnavailable (Inr ())))"

subsection \<open>The model\<close>

definition effective_status :: "time \<Rightarrow> invitation \<Rightarrow> inv_status" where
  "effective_status now i =
     (if pi_status i = IS_PENDING \<and> pi_expires_at i \<le> now then IS_EXPIRED else pi_status i)"

definition invitation_clean :: "env \<Rightarrow> invitation \<Rightarrow> db \<Rightarrow> error + unit" where
  "invitation_clean env i s =
     require (pi_email i = e_casefold env (strip (pi_email i)))
       (ValidationError ''recipient_email_normalized'')
     (require (map_option pm_profile (lookup_pk pm_id (pi_invited_by i) (memberships s))
         = Some (pi_profile i)) (ValidationError ''invited_by_membership'')
     (require (\<not> pi_expires_at i \<le> pi_created_at i) (ValidationError ''expires_at'')
     (require (\<not> (length (pi_token_digest i) \<noteq> 64
         \<or> (\<exists>ch\<in>set (pi_token_digest i). ch \<notin> set ''0123456789abcdef'')))
       (ValidationError ''token_digest'')
     (Inr ()))))"

definition invitation_full_clean :: "env \<Rightarrow> invitation list \<Rightarrow> invitation \<Rightarrow> db \<Rightarrow> error + unit" where
  "invitation_full_clean env rows i s =
     require (profile_exists (pi_profile i) s) (ValidationError ''profile'')
     (require (char_field_ok 254 (pi_email i) \<and> e_valid_email env (pi_email i))
       (ValidationError ''recipient_email_normalized'')
     (require (case pi_recipient_user i of None \<Rightarrow> True | Some u \<Rightarrow> user_exists u s)
       (ValidationError ''recipient_user'')
     (require (pi_invited_by i \<in> pm_id ` set (memberships s)) (ValidationError ''invited_by_membership'')
     (require (pi_token_digest i \<noteq> [] \<and> length (pi_token_digest i) \<le> 64)
       (ValidationError ''token_digest'')
     (require (case pi_replaces i of None \<Rightarrow> True | Some r \<Rightarrow> r \<in> pi_id ` set (invitations s))
       (ValidationError ''replaces'')
     (bindE (invitation_clean env i s) (\<lambda>_. unique_checks (invitations_ok rows))))))))"

subsection \<open>Audit records\<close>

fun inv_role_str :: "inv_role \<Rightarrow> string" where
  "inv_role_str IR_ADMIN = ''ADMIN''"
| "inv_role_str IR_MEMBER = ''MEMBER''"

fun inv_status_str :: "inv_status \<Rightarrow> string" where
  "inv_status_str IS_PENDING = ''PENDING''"
| "inv_status_str IS_ACCEPTED = ''ACCEPTED''"
| "inv_status_str IS_DECLINED = ''DECLINED''"
| "inv_status_str IS_REVOKED = ''REVOKED''"
| "inv_status_str IS_EXPIRED = ''EXPIRED''"

definition inv_status_state :: "invitation \<Rightarrow> json" where
  "inv_status_state i = JObj [(''status'', JStr (inv_status_str (pi_status i)))]"

definition write_invitation_audit ::
  "env \<Rightarrow> nat \<Rightarrow> uuid \<Rightarrow> invitation \<Rightarrow> string \<Rightarrow> json \<Rightarrow> json \<Rightarrow> db \<Rightarrow> error + db" where
  "write_invitation_audit env k actor i action prior after s =
     write_audit env k (Some actor) action ''ProfileInvitation'' (Some (pi_id i))
       [(''profile_id'', JUuid (pi_profile i)),
        (''requested_role'', JStr (inv_role_str (pi_requested_role i))),
        (''before'', prior), (''after'', after)] s"

definition write_profile_membership_audit ::
  "env \<Rightarrow> nat \<Rightarrow> uuid \<Rightarrow> profile_membership \<Rightarrow> string \<Rightarrow> json \<Rightarrow> json \<Rightarrow> db \<Rightarrow> error + db" where
  "write_profile_membership_audit env k actor m action prior after s =
     write_audit env k (Some actor) action ''ProfileMembership'' (Some (pm_id m))
       [(''profile_id'', JUuid (pm_profile m)), (''target_user_id'', JUuid (pm_user m)),
        (''before'', prior), (''after'', after)] s"

definition write_workspace_rejoin_revoke_audit ::
  "env \<Rightarrow> nat \<Rightarrow> uuid \<Rightarrow> workspace_member \<Rightarrow> db \<Rightarrow> error + db" where
  "write_workspace_rejoin_revoke_audit env k actor m s =
     write_audit env k (Some actor) ''workspace.membership.revoked_on_profile_rejoin'' ''WorkspaceMember''
       (Some (wm_id m))
       [(''profile_id'', str_uuid (workspace_profile (wm_workspace m) s)),
        (''workspace_id'', JUuid (wm_workspace m)), (''target_user_id'', JUuid (wm_user m)),
        (''before'', role_state (ws_role_str (wm_role m)) True),
        (''after'', role_state (ws_role_str (wm_role m)) False)] s"

subsection \<open>Managers\<close>

definition can_issue_role :: "profile_role \<Rightarrow> inv_role \<Rightarrow> bool" where
  "can_issue_role role requested =
     (if role = PR_OWNER then requested \<in> {IR_ADMIN, IR_MEMBER}
      else role = PR_ADMIN \<and> requested = IR_MEMBER)"

definition locked_manager_row :: "profile_access_context \<Rightarrow> db \<Rightarrow> profile_membership option" where
  "locked_manager_row pc s = first_by pm_id (\<lambda>m. pm_id m = pc_membership pc
     \<and> pm_profile m = pc_profile pc \<and> pm_user m = pc_user pc \<and> user_active s (pm_user m)
     \<and> pm_is_active m \<and> pm_role m \<in> {PR_OWNER, PR_ADMIN}) (memberships s)"

text \<open>\<open>s0\<close> is the database when the context is resolved, \<open>s\<close> when the locks have been taken.\<close>

definition lock_manager_context_at :: "db \<Rightarrow> uuid \<Rightarrow> uuid arg \<Rightarrow> inv_role option \<Rightarrow> db
    \<Rightarrow> error + (profile \<times> profile_membership)" where
  "lock_manager_context_at s0 actor profile_id requested_role s =
     bindE (resolve_profile_access_context (Some actor) profile_id s0) (\<lambda>pc.
     require_some (lookup_pk p_id (pc_profile pc) (profiles s)) TenantAccessNotFound (\<lambda>p.
     require (p_status p = PS_ACTIVE) PermissionDenied
     (case locked_manager_row pc s of
        None \<Rightarrow> require (pc_role pc \<noteq> PR_MEMBER) PermissionDenied (Inl TenantAccessNotFound)
      | Some m \<Rightarrow>
          require (case requested_role of None \<Rightarrow> True | Some r \<Rightarrow> can_issue_role (pm_role m) r)
            PermissionDenied (Inr (p, m)))))"

definition lock_manager_context ::
  "uuid \<Rightarrow> uuid arg \<Rightarrow> inv_role option \<Rightarrow> db \<Rightarrow> error + (profile \<times> profile_membership)" where
  "lock_manager_context actor profile_id requested_role s =
     lock_manager_context_at s actor profile_id requested_role s"

definition issued_since :: "uuid \<Rightarrow> time \<Rightarrow> db \<Rightarrow> nat" where
  "issued_since actor start s = length (filter (\<lambda>i.
     (\<exists>m\<in>set (memberships s). pm_id m = pi_invited_by i \<and> pm_user m = actor)
     \<and> start \<le> pi_created_at i) (invitations s))"

definition received_since :: "ptext \<Rightarrow> time \<Rightarrow> db \<Rightarrow> nat" where
  "received_since email start s =
     length (filter (\<lambda>i. pi_email i = email \<and> start \<le> pi_created_at i) (invitations s))"

text \<open>The advisory lock hashes the UTF-8 bytes of the address, which fails on surrogates.\<close>

definition enforce_issuance_limits :: "env \<Rightarrow> uuid \<Rightarrow> ptext \<Rightarrow> db \<Rightarrow> error + unit" where
  "enforce_issuance_limits env actor email s =
     require (user_exists actor s) DoesNotExist
     (require (utf8_encodable email) UnicodeEncodeError
     (let window_start = e_now env - invitation_rate_window in
      require (\<not> (max_invitations_per_inviter \<le> issued_since actor window_start s
          \<or> max_invitations_per_recipient \<le> received_since email window_start s))
        InvitationRateLimitExceeded (Inr ())))"

subsection \<open>Rows\<close>

definition save_invitation :: "(invitation \<Rightarrow> invitation) \<Rightarrow> invitation \<Rightarrow> db \<Rightarrow> error + db" where
  "save_invitation f i s = write_invitations (update_where (\<lambda>x. pi_id x = pi_id i) f (invitations s)) s"

definition expire_row :: "env \<Rightarrow> invitation \<Rightarrow> invitation" where
  "expire_row env i = i\<lparr>pi_status := IS_EXPIRED, pi_expired_at := Some (e_now env),
     pi_updated_at := e_now env\<rparr>"

definition revoke_row :: "env \<Rightarrow> uuid \<Rightarrow> invitation \<Rightarrow> invitation" where
  "revoke_row env actor i = i\<lparr>pi_status := IS_REVOKED, pi_revoked_at := Some (e_now env),
     pi_revoked_by := Some actor, pi_updated_at := e_now env\<rparr>"

definition accept_row :: "env \<Rightarrow> uuid \<Rightarrow> invitation \<Rightarrow> invitation" where
  "accept_row env actor i = i\<lparr>pi_status := IS_ACCEPTED, pi_accepted_at := Some (e_now env),
     pi_accepted_by := Some actor,
     pi_recipient_user := (if pi_recipient_user i = None then Some actor else pi_recipient_user i),
     pi_updated_at := e_now env\<rparr>"

definition decline_row :: "env \<Rightarrow> uuid \<Rightarrow> invitation \<Rightarrow> invitation" where
  "decline_row env actor i = i\<lparr>pi_status := IS_DECLINED, pi_declined_at := Some (e_now env),
     pi_declined_by := Some actor,
     pi_recipient_user := (if pi_recipient_user i = None then Some actor else pi_recipient_user i),
     pi_updated_at := e_now env\<rparr>"

definition materialize_expiration ::
  "env \<Rightarrow> nat \<Rightarrow> uuid \<Rightarrow> invitation \<Rightarrow> db \<Rightarrow> error + (bool \<times> invitation \<times> db \<times> nat)" where
  "materialize_expiration env k actor i s =
     (if pi_status i = IS_PENDING \<and> pi_expires_at i \<le> e_now env then
        bindE (save_invitation (expire_row env) i s) (\<lambda>s1.
        bindE (write_invitation_audit env k actor (expire_row env i) ''profile.invitation.expired''
          (inv_status_state i) (inv_status_state (expire_row env i)) s1) (\<lambda>s2.
        Inr (True, expire_row env i, s2, k + 1)))
      else Inr (False, i, s, k))"

subsection \<open>Issuing\<close>

definition new_invitation :: "env \<Rightarrow> nat \<Rightarrow> profile \<Rightarrow> profile_membership \<Rightarrow> ptext \<Rightarrow> inv_role
    \<Rightarrow> user option \<Rightarrow> uuid option \<Rightarrow> invitation" where
  "new_invitation env k p inviter email role recipient replaces =
     \<lparr>pi_id = e_uuid env k, pi_profile = p_id p, pi_email = email,
      pi_recipient_user = map_option u_id recipient, pi_requested_role = role,
      pi_invited_by = pm_id inviter, pi_token_digest = e_sha256 env (e_token env),
      pi_status = IS_PENDING, pi_expires_at = e_now env + invitation_ttl,
      pi_delivery_status = DL_QUEUED, pi_delivery_attempted_at = None, pi_delivered_at = None,
      pi_accepted_at = None, pi_accepted_by = None, pi_declined_at = None, pi_declined_by = None,
      pi_revoked_at = None, pi_revoked_by = None, pi_expired_at = None, pi_replaces = replaces,
      pi_created_at = e_now env, pi_updated_at = e_now env\<rparr>"

text \<open>The delivery it schedules runs after the commit: \<open>deliver\<close> below.\<close>

definition issue_invitation_locked :: "env \<Rightarrow> nat \<Rightarrow> profile \<Rightarrow> profile_membership \<Rightarrow> ptext \<Rightarrow> inv_role
    \<Rightarrow> user option \<Rightarrow> uuid option \<Rightarrow> db \<Rightarrow> error + (invitation \<times> db \<times> nat)" where
  "issue_invitation_locked env k p inviter email role recipient replaces s =
    (let i = new_invitation env k p inviter email role recipient replaces;
         rows = invitations s @ [i] in
     bindE (reraise is_validation_error InvitationConflict (invitation_full_clean env rows i s)) (\<lambda>_.
     bindE (reraise (\<lambda>e. e = IntegrityError) InvitationConflict (write_invitations rows s)) (\<lambda>s1.
     bindE (write_invitation_audit env (k + 1) (pm_user inviter) i ''profile.invitation.created'' JNull
       (JObj [(''status'', JStr (inv_status_str (pi_status i))), (''delivery_status'', JStr ''QUEUED'')]) s1)
       (\<lambda>s2. Inr (i, s2, k + 2)))))"

text \<open>A pending invitation in the way must have expired.\<close>

definition expire_or_conflict ::
  "env \<Rightarrow> nat \<Rightarrow> uuid \<Rightarrow> (invitation \<Rightarrow> bool) \<Rightarrow> db \<Rightarrow> error + (db \<times> nat)" where
  "expire_or_conflict env k actor P s = (case first_by pi_id P (invitations s) of
     None \<Rightarrow> Inr (s, k)
   | Some i \<Rightarrow> bindE (materialize_expiration env k actor i s) (\<lambda>(expired, _, s', k').
       require expired InvitationConflict (Inr (s', k'))))"

definition already_member :: "profile \<Rightarrow> user option \<Rightarrow> db \<Rightarrow> bool" where
  "already_member p recipient s = (case recipient of
     None \<Rightarrow> False
   | Some u \<Rightarrow> \<exists>m\<in>set (memberships s). pm_profile m = p_id p \<and> pm_user m = u_id u \<and> pm_is_active m)"

definition create_profile_invitation ::
  "env \<Rightarrow> uuid \<Rightarrow> uuid arg \<Rightarrow> ptext option \<Rightarrow> inv_role arg \<Rightarrow> db \<Rightarrow> error + (invitation \<times> db)" where
  "create_profile_invitation env actor profile_id recipient_email requested_role s =
    (let email = normalize_invitation_email env recipient_email in
     require (email \<noteq> []) (ValidationError ''recipient_email'')
     (case requested_role of
        Malformed \<Rightarrow> Inl (ValidationError ''requested_role'')
      | Val role \<Rightarrow>
     bindE (lock_manager_context actor profile_id (Some role) s) (\<lambda>(p, inviter).
     bindE (ensure_invitation_delivery_available env) (\<lambda>_.
     bindE (enforce_issuance_limits env actor email s) (\<lambda>_.
     bindE (expire_or_conflict env 0 actor (\<lambda>i. pi_profile i = p_id p \<and> pi_email i = email
         \<and> pi_status i = IS_PENDING) s) (\<lambda>(s1, k1).
     bindE (resolve_recipient_account env email s1) (\<lambda>recipient.
     require (\<not> already_member p recipient s1) InvitationConflict
     (bindE (case recipient of None \<Rightarrow> Inr (s1, k1) | Some u \<Rightarrow>
         expire_or_conflict env k1 actor (\<lambda>i. pi_profile i = p_id p
           \<and> pi_recipient_user i = Some (u_id u) \<and> pi_status i = IS_PENDING) s1) (\<lambda>(s2, k2).
     bindE (issue_invitation_locked env k2 p inviter email role recipient None s2) (\<lambda>(i, s3, _).
     Inr (i, s3)))))))))))"

subsection \<open>Revoking and resending\<close>

definition get_locked_manager_invitation :: "uuid \<Rightarrow> uuid arg \<Rightarrow> uuid arg \<Rightarrow> db
    \<Rightarrow> error + (profile \<times> profile_membership \<times> invitation)" where
  "get_locked_manager_invitation actor profile_id invitation_id s =
     bindE (lock_manager_context actor profile_id None s) (\<lambda>(p, manager).
     case invitation_id of
       Malformed \<Rightarrow> Inl (ValidationError ''__all__'')
     | Val iid \<Rightarrow>
     require_some (first_by pi_id (\<lambda>i. pi_id i = iid \<and> pi_profile i = p_id p) (invitations s))
       TenantAccessNotFound (\<lambda>i.
     require (can_issue_role (pm_role manager) (pi_requested_role i)) TenantAccessNotFound
     (Inr (p, manager, i))))"

definition mark_revoked :: "env \<Rightarrow> nat \<Rightarrow> uuid \<Rightarrow> invitation \<Rightarrow> string \<Rightarrow> db \<Rightarrow> error + db" where
  "mark_revoked env k actor i action s =
     bindE (save_invitation (revoke_row env actor) i s) (\<lambda>s1.
     write_invitation_audit env k actor (revoke_row env actor i) action
       (inv_status_state i) (inv_status_state (revoke_row env actor i)) s1)"

definition revoke_profile_invitation ::
  "env \<Rightarrow> uuid \<Rightarrow> uuid arg \<Rightarrow> uuid arg \<Rightarrow> db \<Rightarrow> error + ((error + invitation) \<times> db)" where
  "revoke_profile_invitation env actor profile_id invitation_id s =
     bindE (get_locked_manager_invitation actor profile_id invitation_id s) (\<lambda>(_, _, i).
     bindE (materialize_expiration env 0 actor i s) (\<lambda>(expired, _, s1, k).
     if expired then Inr (Inl InvitationConflict, s1)
     else require (pi_status i = IS_PENDING) InvitationConflict
       (bindE (mark_revoked env k actor i ''profile.invitation.revoked'' s1) (\<lambda>s2.
        Inr (Inr (revoke_row env actor i), s2)))))"

definition resend_profile_invitation ::
  "env \<Rightarrow> uuid \<Rightarrow> uuid arg \<Rightarrow> uuid arg \<Rightarrow> db \<Rightarrow> error + (invitation \<times> db)" where
  "resend_profile_invitation env actor profile_id invitation_id s =
     bindE (get_locked_manager_invitation actor profile_id invitation_id s) (\<lambda>(p, manager, i0).
     bindE (ensure_invitation_delivery_available env) (\<lambda>_.
     bindE (materialize_expiration env 0 actor i0 s) (\<lambda>(_, i, s1, k1).
     require (pi_status i \<in> {IS_PENDING, IS_EXPIRED}) InvitationConflict
     (require (\<not> (\<exists>x\<in>set (invitations s1). pi_replaces x = Some (pi_id i))) InvitationConflict
     (bindE (enforce_issuance_limits env actor (pi_email i) s1) (\<lambda>_.
     bindE (if pi_status i = IS_PENDING
         then bindE (mark_revoked env k1 actor i ''profile.invitation.rotated'' s1) (\<lambda>s2. Inr (s2, k1 + 1))
         else Inr (s1, k1)) (\<lambda>(s2, k2).
     bindE (resolve_recipient_account env (pi_email i) s2) (\<lambda>recipient.
     require (\<not> already_member p recipient s2) InvitationConflict
     (bindE (issue_invitation_locked env k2 p manager (pi_email i) (pi_requested_role i) recipient
         (Some (pi_id i)) s2) (\<lambda>(r, s3, k3).
     bindE (write_invitation_audit env k3 actor r ''profile.invitation.resent''
         (JObj [(''replaces_invitation_id'', JUuid (pi_id i))]) (inv_status_state r) s3) (\<lambda>s4.
     Inr (r, s4))))))))))))"

subsection \<open>Using a token\<close>

definition lookup_token_candidate :: "env \<Rightarrow> ptext arg \<Rightarrow> db \<Rightarrow> error + (invitation \<times> string)" where
  "lookup_token_candidate env raw_token s = (case raw_token of
     Malformed \<Rightarrow> Inl InvitationConflict
   | Val t \<Rightarrow>
     require (t \<noteq> []) InvitationConflict
     (require (utf8_encodable t) UnicodeEncodeError
     (let digest = e_sha256 env t in
      require_some (first_by pi_id (\<lambda>i. pi_token_digest i = digest) (invitations s)) InvitationConflict
        (\<lambda>i. Inr (i, digest)))))"

definition validate_recipient_locked :: "env \<Rightarrow> uuid \<Rightarrow> invitation \<Rightarrow> db \<Rightarrow> error + user" where
  "validate_recipient_locked env actor i s =
     require_some (first_by u_id (\<lambda>u. u_id u = actor \<and> u_is_active u) (users s)) InvitationConflict
       (\<lambda>locked.
     let email = normalize_invitation_email env (Some (u_email locked)) in
     require (email = pi_email i) InvitationConflict
     (bindE (resolve_recipient_account env email s) (\<lambda>recipient.
     require (case recipient of None \<Rightarrow> False | Some u \<Rightarrow> u_id u = actor) InvitationConflict
     (require (case pi_recipient_user i of None \<Rightarrow> True | Some u \<Rightarrow> u = actor) InvitationConflict
     (Inr locked)))))"

definition validate_original_inviter_locked :: "invitation \<Rightarrow> db \<Rightarrow> error + unit" where
  "validate_original_inviter_locked i s =
     require_some (first_by pm_id (\<lambda>m. pm_id m = pi_invited_by i \<and> pm_profile m = pi_profile i
         \<and> user_active s (pm_user m) \<and> pm_is_active m) (memberships s)) InvitationConflict (\<lambda>inviter.
     require (can_issue_role (pm_role inviter) (pi_requested_role i)) InvitationConflict (Inr ()))"

definition lock_usable_token :: "env \<Rightarrow> uuid \<Rightarrow> invitation \<Rightarrow> string \<Rightarrow> db
    \<Rightarrow> error + (profile \<times> invitation \<times> bool \<times> db \<times> nat)" where
  "lock_usable_token env actor candidate digest s =
     require_some (lookup_pk p_id (pi_profile candidate) (profiles s)) InvitationConflict (\<lambda>p.
     require_some (first_by pi_id (\<lambda>i. pi_id i = pi_id candidate \<and> pi_profile i = p_id p
         \<and> pi_token_digest i = digest) (invitations s)) InvitationConflict (\<lambda>i.
     require (\<not> (p_status p \<noteq> PS_ACTIVE \<or> pi_status i \<noteq> IS_PENDING \<or> pi_delivery_status i \<noteq> DL_SENT))
       InvitationConflict
     (bindE (validate_recipient_locked env actor i s) (\<lambda>_.
     bindE (materialize_expiration env 0 actor i s) (\<lambda>(expired, i', s', k).
     Inr (p, i', \<not> expired, s', k))))))"

text \<open>The Workspace roles a returning member still holds.\<close>

definition stale_members :: "uuid \<Rightarrow> uuid \<Rightarrow> db \<Rightarrow> workspace_member list" where
  "stale_members p u s = sort_key wm_id (filter (\<lambda>m. workspace_profile (wm_workspace m) s = Some p
     \<and> wm_user m = u \<and> wm_is_active m) (members s))"

fun revoke_members :: "env \<Rightarrow> nat \<Rightarrow> uuid \<Rightarrow> workspace_member list \<Rightarrow> db \<Rightarrow> error + (db \<times> nat)" where
  "revoke_members env k actor [] s = Inr (s, k)"
| "revoke_members env k actor (m # ms) s =
     bindE (write_members (update_where (\<lambda>x. wm_id x = wm_id m)
       (\<lambda>x. x\<lparr>wm_is_active := False, wm_updated_at := e_now env\<rparr>) (members s)) s) (\<lambda>s1.
     bindE (write_workspace_rejoin_revoke_audit env k actor m s1) (\<lambda>s2.
     revoke_members env (k + 1) actor ms s2))"

definition revoke_stale_workspace_access ::
  "env \<Rightarrow> nat \<Rightarrow> uuid \<Rightarrow> profile \<Rightarrow> uuid \<Rightarrow> db \<Rightarrow> error + (db \<times> nat)" where
  "revoke_stale_workspace_access env k actor p u s =
     revoke_members env k actor (stale_members (p_id p) u s) s"

fun member_role_of :: "inv_role \<Rightarrow> profile_role" where
  "member_role_of IR_ADMIN = PR_ADMIN"
| "member_role_of IR_MEMBER = PR_MEMBER"

definition joined_membership :: "env \<Rightarrow> nat \<Rightarrow> profile \<Rightarrow> uuid \<Rightarrow> inv_role \<Rightarrow> profile_membership" where
  "joined_membership env k p u role = \<lparr>pm_id = e_uuid env k, pm_profile = p_id p, pm_user = u,
     pm_role = member_role_of role, pm_is_active = True, pm_joined_at = e_now env,
     pm_created_at = e_now env, pm_updated_at = e_now env\<rparr>"

definition rejoin_row :: "env \<Rightarrow> profile_membership \<Rightarrow> profile_membership" where
  "rejoin_row env m = m\<lparr>pm_is_active := True, pm_updated_at := e_now env\<rparr>"

text \<open>The membership of the accepting user: an inactive one with that role, else a new one.\<close>

definition join_profile :: "env \<Rightarrow> nat \<Rightarrow> uuid \<Rightarrow> profile \<Rightarrow> invitation \<Rightarrow> db
    \<Rightarrow> error + (profile_membership \<times> string \<times> json \<times> db \<times> nat)" where
  "join_profile env k actor p i s =
    (let rows = sort_key (\<lambda>m. (pm_created_at m, pm_id m))
           (filter (\<lambda>m. pm_profile m = p_id p \<and> pm_user m = actor) (memberships s)) in
     require (\<not> (\<exists>m\<in>set rows. pm_is_active m)) InvitationConflict
     (case filter (\<lambda>m. \<not> pm_is_active m) rows of
        m # ms \<Rightarrow>
          require (ms = []) InvitationConflict
          (require (\<not> (pm_role m = PR_OWNER \<or> pm_role m \<noteq> member_role_of (pi_requested_role i)))
             InvitationConflict
          (let rows' = update_where (\<lambda>x. pm_id x = pm_id m) (rejoin_row env) (memberships s) in
           bindE (membership_full_clean rows' (rejoin_row env m) s) (\<lambda>_.
           bindE (write_memberships rows' s) (\<lambda>s1.
           Inr (rejoin_row env m, ''profile.membership.reactivated_by_invitation'',
             role_state (profile_role_str (pm_role m)) False, s1, k)))))
      | [] \<Rightarrow>
          let m = joined_membership env k p actor (pi_requested_role i) in
          bindE (membership_full_clean (memberships s @ [m]) m s) (\<lambda>_.
          bindE (write_memberships (memberships s @ [m]) s) (\<lambda>s1.
          Inr (m, ''profile.membership.created_by_invitation'', JNull, s1, k + 1)))))"

definition accept_profile_invitation ::
  "env \<Rightarrow> uuid \<Rightarrow> ptext arg \<Rightarrow> db \<Rightarrow> error + ((error + profile_membership) \<times> db)" where
  "accept_profile_invitation env actor token s =
     bindE (lookup_token_candidate env token s) (\<lambda>(candidate, digest).
     bindE (lock_usable_token env actor candidate digest s) (\<lambda>(p, i, usable, s1, k1).
     if \<not> usable then Inr (Inl InvitationConflict, s1)
     else
       bindE (validate_original_inviter_locked i s1) (\<lambda>_.
       bindE (join_profile env k1 actor p i s1) (\<lambda>(m, action, prior, s2, k2).
       bindE (revoke_stale_workspace_access env k2 actor p actor s2) (\<lambda>(s3, k3).
       bindE (write_profile_membership_audit env k3 actor m action prior
         (role_state (profile_role_str (pm_role m)) (pm_is_active m)) s3) (\<lambda>s4.
       bindE (save_invitation (accept_row env actor) i s4) (\<lambda>s5.
       bindE (write_invitation_audit env (k3 + 1) actor (accept_row env actor i)
         ''profile.invitation.accepted'' (inv_status_state i)
         (inv_status_state (accept_row env actor i)) s5) (\<lambda>s6.
       Inr (Inr m, s6)))))))))"

definition decline_profile_invitation ::
  "env \<Rightarrow> uuid \<Rightarrow> ptext arg \<Rightarrow> db \<Rightarrow> error + ((error + invitation) \<times> db)" where
  "decline_profile_invitation env actor token s =
     bindE (lookup_token_candidate env token s) (\<lambda>(candidate, digest).
     bindE (lock_usable_token env actor candidate digest s) (\<lambda>(_, i, usable, s1, k1).
     if \<not> usable then Inr (Inl InvitationConflict, s1)
     else
       bindE (save_invitation (decline_row env actor) i s1) (\<lambda>s2.
       bindE (write_invitation_audit env k1 actor (decline_row env actor i)
         ''profile.invitation.declined'' (inv_status_state i)
         (inv_status_state (decline_row env actor i)) s2) (\<lambda>s3.
       Inr (Inr (decline_row env actor i), s3)))))"

subsection \<open>Delivery\<close>

text \<open>
  \<open>schedule_invitation_delivery\<close>: the callback runs after the commit, outside any transaction, so
  each of its two updates is a transaction of its own; an update that matches no row changes
  nothing and raises. \<open>finish_delivery\<close> sends the message and records the outcome.
\<close>

definition update_invitations ::
  "(invitation \<Rightarrow> bool) \<Rightarrow> (invitation \<Rightarrow> invitation) \<Rightarrow> db \<Rightarrow> error + (nat \<times> db)" where
  "update_invitations P f s = bindE (write_invitations (update_where P f (invitations s)) s)
     (\<lambda>s'. Inr (length (filter P (invitations s)), s'))"

definition claim_delivery :: "env \<Rightarrow> uuid \<Rightarrow> string \<Rightarrow> db \<Rightarrow> error + (unit \<times> db)" where
  "claim_delivery env iid digest s =
     bindE (update_invitations (\<lambda>i. pi_id i = iid \<and> pi_status i = IS_PENDING
         \<and> pi_token_digest i = digest \<and> e_now env < pi_expires_at i)
       (\<lambda>i. i\<lparr>pi_delivery_status := DL_QUEUED, pi_delivery_attempted_at := Some (e_now env),
          pi_updated_at := e_now env\<rparr>) s) (\<lambda>(claimed, s').
     require (claimed = 1) InvitationDeliveryUnavailable (Inr ((), s')))"

definition finish_delivery :: "env \<Rightarrow> time \<Rightarrow> int option \<Rightarrow> uuid \<Rightarrow> string \<Rightarrow> db
    \<Rightarrow> error + ((error + unit) \<times> db)" where
  "finish_delivery env attempted_at smtp iid digest s =
    (let current = (\<lambda>i. pi_id i = iid \<and> pi_status i = IS_PENDING \<and> pi_token_digest i = digest) in
     case send_default_email env smtp of
       Inl _ \<Rightarrow>
         bindE (update_invitations current (\<lambda>i. i\<lparr>pi_delivery_status := DL_FAILED,
             pi_delivery_attempted_at := Some attempted_at, pi_delivered_at := None,
             pi_updated_at := e_now env\<rparr>) s) (\<lambda>(_, s').
         Inr (Inl InvitationDeliveryUnavailable, s'))
     | Inr _ \<Rightarrow>
         bindE (update_invitations current (\<lambda>i. i\<lparr>pi_delivery_status := DL_SENT,
             pi_delivery_attempted_at := Some attempted_at, pi_delivered_at := Some (e_now env),
             pi_updated_at := e_now env\<rparr>) s) (\<lambda>(updated, s').
         require (updated = 1) InvitationDeliveryUnavailable (Inr (Inr (), s'))))"

text \<open>The whole callback when nothing else runs in between.\<close>

definition deliver :: "env \<Rightarrow> env \<Rightarrow> int option \<Rightarrow> uuid \<Rightarrow> string \<Rightarrow> db
    \<Rightarrow> error + ((error + unit) \<times> db)" where
  "deliver env env' smtp iid digest s =
     bindE (claim_delivery env iid digest s) (\<lambda>(_, s1).
     finish_delivery env' (e_now env) smtp iid digest s1)"

end
