(* ===== verification/Invitation_Effects.thy ===== *)
theory Invitation_Effects
  imports Invitations
begin

text \<open>
  What the invitation services may do to the database: a preorder \<open>invitation_effect\<close> that every
  write of theirs respects, hence every service, and the elimination lemmas of the services. A
  settled invitation never changes again, memberships only grow and never become ownerships,
  Workspace roles are only withdrawn, and audit records are only appended.
\<close>

subsection \<open>The preorder\<close>

definition core_tables where
  "core_tables s = (users s, profiles s, workspaces s, tasks s, assignments s, comments s,
     deliverables s, reviews s, notifications s)"

definition same_invitation :: "invitation \<Rightarrow> invitation \<Rightarrow> bool" where
  "same_invitation i j \<longleftrightarrow> pi_id j = pi_id i \<and> pi_profile j = pi_profile i \<and> pi_email j = pi_email i
     \<and> pi_requested_role j = pi_requested_role i \<and> pi_invited_by j = pi_invited_by i
     \<and> pi_token_digest j = pi_token_digest i \<and> pi_created_at j = pi_created_at i
     \<and> pi_expires_at j = pi_expires_at i \<and> pi_replaces j = pi_replaces i"

definition invitation_evolved :: "invitation \<Rightarrow> invitation \<Rightarrow> bool" where
  "invitation_evolved i j \<longleftrightarrow> same_invitation i j \<and> (pi_status i \<noteq> IS_PENDING \<longrightarrow> j = i)"

definition invitations_evolve :: "invitation list \<Rightarrow> invitation list \<Rightarrow> bool" where
  "invitations_evolve is js \<longleftrightarrow> (\<forall>i\<in>set is. \<exists>j\<in>set js. invitation_evolved i j)"

definition membership_kept :: "profile_membership \<Rightarrow> profile_membership \<Rightarrow> bool" where
  "membership_kept m m' \<longleftrightarrow> pm_id m' = pm_id m \<and> pm_profile m' = pm_profile m \<and> pm_user m' = pm_user m
     \<and> pm_role m' = pm_role m \<and> (pm_is_active m \<longrightarrow> pm_is_active m')"

definition memberships_grow :: "profile_membership list \<Rightarrow> profile_membership list \<Rightarrow> bool" where
  "memberships_grow ms ms' \<longleftrightarrow> (\<forall>m\<in>set ms. \<exists>m'\<in>set ms'. membership_kept m m')
     \<and> (\<forall>m'\<in>set ms'. pm_role m' = PR_OWNER \<longrightarrow> m' \<in> set ms)"

definition member_withdrawn :: "workspace_member \<Rightarrow> workspace_member \<Rightarrow> bool" where
  "member_withdrawn m m' \<longleftrightarrow> wm_id m = wm_id m' \<and> wm_workspace m = wm_workspace m'
     \<and> wm_user m = wm_user m' \<and> wm_role m = wm_role m' \<and> (wm_is_active m' \<longrightarrow> wm_is_active m)"

definition members_shrink :: "workspace_member list \<Rightarrow> workspace_member list \<Rightarrow> bool" where
  "members_shrink ms ms' \<longleftrightarrow> (\<forall>m'\<in>set ms'. \<exists>m\<in>set ms. member_withdrawn m m')"

definition audits_by :: "uuid option \<Rightarrow> db \<Rightarrow> db \<Rightarrow> bool" where
  "audits_by actor s s' \<longleftrightarrow>
     (\<exists>ls. audit_logs s' = audit_logs s @ ls \<and> (\<forall>l\<in>set ls. al_user l = actor \<and> actor \<noteq> None))"

definition invitation_effect :: "uuid option \<Rightarrow> db \<Rightarrow> db \<Rightarrow> bool" where
  "invitation_effect actor s s' \<longleftrightarrow> (db_ok s \<longrightarrow> db_ok s' \<and> core_tables s' = core_tables s
     \<and> invitations_evolve (invitations s) (invitations s')
     \<and> memberships_grow (memberships s) (memberships s') \<and> members_shrink (members s) (members s')
     \<and> audits_by actor s s')"

lemma invitation_evolved_refl [simp]: "invitation_evolved i i"
  by (simp add: invitation_evolved_def same_invitation_def)

lemma invitation_evolved_trans:
  "invitation_evolved i j \<Longrightarrow> invitation_evolved j k \<Longrightarrow> invitation_evolved i k"
  by (auto simp: invitation_evolved_def same_invitation_def)

lemma invitations_evolve_refl [simp]: "invitations_evolve is is"
  by (auto simp: invitations_evolve_def intro: invitation_evolved_refl)

lemma invitations_evolve_trans:
  "invitations_evolve is js \<Longrightarrow> invitations_evolve js ks \<Longrightarrow> invitations_evolve is ks"
  unfolding invitations_evolve_def by (meson invitation_evolved_trans)

lemma invitations_evolve_append [simp]: "invitations_evolve is (is @ js)"
  by (auto simp: invitations_evolve_def intro: invitation_evolved_refl)

lemma invitations_evolve_update:
  assumes "\<And>i. i \<in> set is \<Longrightarrow> P i \<Longrightarrow> pi_status i = IS_PENDING \<and> same_invitation i (f i)"
  shows "invitations_evolve is (update_where P f is)"
proof -
  have "invitation_evolved i (if P i then f i else i)" if "i \<in> set is" for i
  proof (cases "P i")
    case True
    with assms [OF that True] show ?thesis by (simp add: invitation_evolved_def)
  qed simp
  moreover have "(if P i then f i else i) \<in> set (update_where P f is)" if "i \<in> set is" for i
    using that by (auto simp: in_update_where)
  ultimately show ?thesis unfolding invitations_evolve_def by blast
qed

lemma memberships_grow_refl [simp]: "memberships_grow ms ms"
  by (auto simp: memberships_grow_def membership_kept_def)

lemma membership_kept_trans: "membership_kept a b \<Longrightarrow> membership_kept b c \<Longrightarrow> membership_kept a c"
  by (simp add: membership_kept_def)

lemma memberships_grow_trans:
  assumes "memberships_grow ms ms'" "memberships_grow ms' ms''"
  shows "memberships_grow ms ms''"
proof -
  have "\<exists>c\<in>set ms''. membership_kept a c" if "a \<in> set ms" for a
  proof -
    obtain b where b: "b \<in> set ms'" "membership_kept a b"
      using assms(1) \<open>a \<in> set ms\<close> unfolding memberships_grow_def by blast
    then obtain c where "c \<in> set ms''" "membership_kept b c"
      using assms(2) unfolding memberships_grow_def by blast
    with b show ?thesis using membership_kept_trans by blast
  qed
  moreover have "c \<in> set ms" if "c \<in> set ms''" "pm_role c = PR_OWNER" for c
    using assms that unfolding memberships_grow_def by blast
  ultimately show ?thesis unfolding memberships_grow_def by blast
qed

lemma members_shrink_refl [simp]: "members_shrink ms ms"
  by (auto simp: members_shrink_def member_withdrawn_def)

lemma member_withdrawn_trans: "member_withdrawn a b \<Longrightarrow> member_withdrawn b c \<Longrightarrow> member_withdrawn a c"
  by (simp add: member_withdrawn_def)

lemma members_shrink_trans: "members_shrink ms ms' \<Longrightarrow> members_shrink ms' ms'' \<Longrightarrow> members_shrink ms ms''"
  unfolding members_shrink_def by (meson member_withdrawn_trans)

lemma audits_by_refl [simp]: "audits_by actor s s"
  by (simp add: audits_by_def)

lemma audits_by_trans: "audits_by actor s s1 \<Longrightarrow> audits_by actor s1 s2 \<Longrightarrow> audits_by actor s s2"
  unfolding audits_by_def by (elim exE conjE) (rule exI, auto)

lemma effect_refl [simp]: "invitation_effect actor s s"
  by (simp add: invitation_effect_def)

lemma effect_trans [trans]:
  assumes "invitation_effect actor s s1" "invitation_effect actor s1 s2"
  shows "invitation_effect actor s s2"
  using assms unfolding invitation_effect_def
  by (auto intro: invitations_evolve_trans memberships_grow_trans members_shrink_trans audits_by_trans)

subsection \<open>The writes respect it\<close>

lemma effect_logged: "logged actor i action s s' \<Longrightarrow> invitation_effect (Some actor) s s'"
  by (auto simp: logged_def invitation_effect_def db_ok_def core_tables_def audits_by_def)

lemma effect_invitations:
  "invitations_ok is \<Longrightarrow> (invitations_ok (invitations s) \<Longrightarrow> invitations_evolve (invitations s) is) \<Longrightarrow>
     invitation_effect actor s (s\<lparr>invitations := is\<rparr>)"
  by (simp add: invitation_effect_def db_ok_def core_tables_def audits_by_def)

lemma effect_memberships:
  "memberships_ok ms \<Longrightarrow> (memberships_ok (memberships s) \<Longrightarrow> memberships_grow (memberships s) ms) \<Longrightarrow>
     invitation_effect actor s (s\<lparr>memberships := ms\<rparr>)"
  by (simp add: invitation_effect_def db_ok_def core_tables_def audits_by_def)

lemma effect_members:
  "members_ok ms \<Longrightarrow> (members_ok (members s) \<Longrightarrow> members_shrink (members s) ms) \<Longrightarrow>
     invitation_effect actor s (s\<lparr>members := ms\<rparr>)"
  by (simp add: invitation_effect_def db_ok_def core_tables_def audits_by_def)

lemma invitation_pk_unique:
  "invitations_ok is \<Longrightarrow> i \<in> set is \<Longrightarrow> j \<in> set is \<Longrightarrow> pi_id i = pi_id j \<Longrightarrow> i = j"
  by (rule distinct_map_eq [of pi_id]) (simp_all add: invitations_ok_def)

lemma invitation_digest_unique:
  "invitations_ok is \<Longrightarrow> i \<in> set is \<Longrightarrow> j \<in> set is \<Longrightarrow> pi_token_digest i = pi_token_digest j \<Longrightarrow> i = j"
  by (rule distinct_map_eq [of pi_token_digest]) (simp_all add: invitations_ok_def)

lemma row_same [simp]:
  "same_invitation i (expire_row env i)" "same_invitation i (revoke_row env a i)"
  "same_invitation i (accept_row env a i)" "same_invitation i (decline_row env a i)"
  "pi_id (expire_row env i) = pi_id i" "pi_id (revoke_row env a i) = pi_id i"
  "pi_id (accept_row env a i) = pi_id i" "pi_id (decline_row env a i) = pi_id i"
  "pi_status (expire_row env i) = IS_EXPIRED" "pi_status (revoke_row env a i) = IS_REVOKED"
  "pi_status (accept_row env a i) = IS_ACCEPTED" "pi_status (decline_row env a i) = IS_DECLINED"
  by (simp_all add: same_invitation_def expire_row_def revoke_row_def accept_row_def decline_row_def)

definition invitation_saved :: "(invitation \<Rightarrow> invitation) \<Rightarrow> invitation \<Rightarrow> db \<Rightarrow> db \<Rightarrow> bool" where
  "invitation_saved f i s s' \<longleftrightarrow>
     invitations_ok (update_where (\<lambda>x. pi_id x = pi_id i) f (invitations s))
     \<and> s' = s\<lparr>invitations := update_where (\<lambda>x. pi_id x = pi_id i) f (invitations s)\<rparr>"

lemma save_invitation_iff [simp]: "save_invitation f i s = Inr s' \<longleftrightarrow> invitation_saved f i s s'"
  by (simp add: save_invitation_def invitation_saved_def)

lemma effect_saved:
  assumes "invitation_saved f i s s'" "i \<in> set (invitations s)" "pi_status i = IS_PENDING"
    and "same_invitation i (f i)"
  shows "invitation_effect actor s s'"
proof -
  let ?rows = "update_where (\<lambda>x. pi_id x = pi_id i) f (invitations s)"
  have "invitations_evolve (invitations s) ?rows" if "invitations_ok (invitations s)"
    using invitation_pk_unique [OF that _ assms(2)] assms(3,4) by (intro invitations_evolve_update) blast
  with assms(1) show ?thesis unfolding invitation_saved_def by (auto intro: effect_invitations)
qed

lemma invitation_audit_logged:
  "write_invitation_audit env k actor i action prior after s = Inr s' \<Longrightarrow> logged actor (pi_id i) action s s'"
  by (auto simp: write_invitation_audit_def dest: write_audit_logged)

lemma invitation_audit_effect:
  "write_invitation_audit env k actor i action prior after s = Inr s' \<Longrightarrow> invitation_effect (Some actor) s s'"
  by (rule effect_logged [OF invitation_audit_logged])

lemma other_audits_logged:
  "write_profile_membership_audit env k actor m action prior after s = Inr s' \<Longrightarrow>
     logged actor (pm_id m) action s s'"
  "write_workspace_rejoin_revoke_audit env k actor wm s = Inr s' \<Longrightarrow>
     logged actor (wm_id wm) ''workspace.membership.revoked_on_profile_rejoin'' s s'"
  by (auto simp: write_profile_membership_audit_def write_workspace_rejoin_revoke_audit_def
      dest: write_audit_logged)

subsection \<open>Expiry and issuing\<close>

lemma materialize_D:
  assumes "materialize_expiration env k actor i s = Inr (expired, i', s', k')"
  shows "if pi_status i = IS_PENDING \<and> pi_expires_at i \<le> e_now env
     then expired \<and> i' = expire_row env i \<and> k' = k + 1
       \<and> (\<exists>s1. invitation_saved (expire_row env) i s s1
            \<and> logged actor (pi_id i) ''profile.invitation.expired'' s1 s')
     else \<not> expired \<and> i' = i \<and> s' = s \<and> k' = k"
  using assms by (auto simp: materialize_expiration_def dest!: invitation_audit_logged split: if_splits)

lemma materialize_effect:
  assumes "materialize_expiration env k actor i s = Inr (expired, i', s', k')" "i \<in> set (invitations s)"
  shows "invitation_effect (Some actor) s s'"
proof (cases "pi_status i = IS_PENDING \<and> pi_expires_at i \<le> e_now env")
  case True
  with materialize_D [OF assms(1)] obtain s1 where
    "invitation_saved (expire_row env) i s s1" "logged actor (pi_id i) ''profile.invitation.expired'' s1 s'"
    by auto
  with True assms(2) show ?thesis
    by (blast intro: effect_trans [OF effect_saved effect_logged] row_same)
next
  case False
  with materialize_D [OF assms(1)] have "s' = s" by auto
  then show ?thesis by simp
qed

lemma expire_or_conflict_effect:
  assumes "expire_or_conflict env k actor P s = Inr (s', k')"
  shows "invitation_effect (Some actor) s s'"
  using assms
  by (auto simp: expire_or_conflict_def dest!: first_by_Some_in intro: materialize_effect
      split: option.splits)

definition issued :: "env \<Rightarrow> nat \<Rightarrow> profile \<Rightarrow> profile_membership \<Rightarrow> ptext \<Rightarrow> inv_role \<Rightarrow> user option
    \<Rightarrow> uuid option \<Rightarrow> invitation \<Rightarrow> db \<Rightarrow> db \<Rightarrow> bool" where
  "issued env k p inviter email role recipient replaces i s s' \<longleftrightarrow>
     i = new_invitation env k p inviter email role recipient replaces
     \<and> invitations_ok (invitations s @ [i])
     \<and> invitation_full_clean env (invitations s @ [i]) i s = Inr ()
     \<and> logged (pm_user inviter) (pi_id i) ''profile.invitation.created''
         (s\<lparr>invitations := invitations s @ [i]\<rparr>) s'"

lemma issue_D:
  "issue_invitation_locked env k p inviter email role recipient replaces s = Inr (i, s', k') \<Longrightarrow>
     issued env k p inviter email role recipient replaces i s s'"
  by (auto simp: issue_invitation_locked_def Let_def issued_def dest!: invitation_audit_logged)

lemma issued_effect:
  "issued env k p inviter email role recipient replaces i s s' \<Longrightarrow> pm_user inviter = actor \<Longrightarrow>
     invitation_effect (Some actor) s s'"
  unfolding issued_def
  by (blast intro: effect_trans [OF effect_invitations effect_logged] invitations_evolve_append)

subsection \<open>Managers\<close>

lemma lock_manager_D:
  assumes "lock_manager_context actor pid role s = Inr (p, m)"
  shows "p \<in> set (profiles s)" "pid = Val (p_id p)" "p_status p = PS_ACTIVE"
    "m \<in> set (memberships s)" "pm_profile m = p_id p" "pm_user m = actor" "user_active s actor"
    "pm_is_active m" "is_manager (pm_role m)" "role = Some r \<Longrightarrow> can_issue_role (pm_role m) r"
proof -
  from assms obtain pc q where
    pc: "resolve_profile_access_context (Some actor) pid s = Inr pc"
    and q: "lookup_pk p_id (pc_profile pc) (profiles s) = Some q" "p_status q = PS_ACTIVE"
    and c: "(case locked_manager_row pc s of
        None \<Rightarrow> require (pc_role pc \<noteq> PR_MEMBER) PermissionDenied (Inl TenantAccessNotFound)
      | Some m \<Rightarrow>
          require (case role of None \<Rightarrow> True | Some r \<Rightarrow> can_issue_role (pm_role m) r)
            PermissionDenied (Inr (q, m))) = Inr (p, m)"
    unfolding lock_manager_context_def lock_manager_context_at_def bindE_eq_Inr require_some_eq_Inr
      require_eq_Inr by blast
  from c have m: "locked_manager_row pc s = Some m"
    and r: "case role of None \<Rightarrow> True | Some r \<Rightarrow> can_issue_role (pm_role m) r" and "q = p"
    by (cases "locked_manager_row pc s"; simp)+
  with q have p: "lookup_pk p_id (pc_profile pc) (profiles s) = Some p" "p_status p = PS_ACTIVE"
    by simp_all
  have u: "pc_user pc = actor" "pid = Val (pc_profile pc)" using resolve_profile_D [OF pc] by simp_all
  show "p \<in> set (profiles s)" "pid = Val (p_id p)" "p_status p = PS_ACTIVE"
    "m \<in> set (memberships s)" "pm_profile m = p_id p" "pm_user m = actor" "user_active s actor"
    "pm_is_active m" "is_manager (pm_role m)"
    using lookup_pk_Some [OF p(1)] first_by_Some_in [OF m [unfolded locked_manager_row_def]] p(2) u by (auto simp: is_manager_def)
  show "role = Some r \<Longrightarrow> can_issue_role (pm_role m) r" using r by simp
qed

lemma get_locked_D:
  assumes "get_locked_manager_invitation actor pid iid s = Inr (p, m, i)"
  shows "lock_manager_context actor pid None s = Inr (p, m)" "i \<in> set (invitations s)"
    "iid = Val (pi_id i)" "pi_profile i = p_id p" "can_issue_role (pm_role m) (pi_requested_role i)"
  using assms by (auto simp: get_locked_manager_invitation_def dest!: first_by_Some_in)

lemma create_invitation_D:
  assumes "create_profile_invitation env actor pid email role s = Inr (i, s')"
  obtains p m r s1 k1 s2 k2 u where
    "lock_manager_context actor pid (Some r) s = Inr (p, m)" "role = Val r"
    "normalize_invitation_email env email \<noteq> []"
    "ensure_invitation_delivery_available env = Inr ()"
    "enforce_issuance_limits env actor (normalize_invitation_email env email) s = Inr ()"
    "invitation_effect (Some actor) s s1" "invitation_effect (Some actor) s1 s2"
    "resolve_recipient_account env (normalize_invitation_email env email) s1 = Inr u"
    "\<not> already_member p u s1"
    "issued env k2 p m (normalize_invitation_email env email) r u None i s2 s'"
proof -
  let ?e = "normalize_invitation_email env email"
  from assms obtain p m r s1 k1 s2 k2 u k3 where
    g: "lock_manager_context actor pid (Some r) s = Inr (p, m)" "role = Val r" "?e \<noteq> []"
      "ensure_invitation_delivery_available env = Inr ()" "enforce_issuance_limits env actor ?e s = Inr ()"
    and s1: "expire_or_conflict env 0 actor (\<lambda>i. pi_profile i = p_id p \<and> pi_email i = ?e
        \<and> pi_status i = IS_PENDING) s = Inr (s1, k1)"
    and u: "resolve_recipient_account env ?e s1 = Inr u" "\<not> already_member p u s1"
    and s2: "(case u of None \<Rightarrow> Inr (s1, k1) | Some u \<Rightarrow>
         expire_or_conflict env k1 actor (\<lambda>i. pi_profile i = p_id p
           \<and> pi_recipient_user i = Some (u_id u) \<and> pi_status i = IS_PENDING) s1) = Inr (s2, k2)"
    and i: "issue_invitation_locked env k2 p m ?e r u None s2 = Inr (i, s', k3)"
    unfolding create_profile_invitation_def Let_def
    by (auto simp del: split_paired_Ex option.case_distrib split: prod.splits)
  have "invitation_effect (Some actor) s1 s2"
    using s2 by (cases u) (auto intro: expire_or_conflict_effect)
  from that [OF g(1,2,3,4,5) expire_or_conflict_effect [OF s1] this u issue_D [OF i]] show ?thesis .
qed

subsection \<open>Revoking and resending\<close>

lemma mark_revoked_D:
  "mark_revoked env k actor i action s = Inr s' \<Longrightarrow>
     \<exists>s1. invitation_saved (revoke_row env actor) i s s1 \<and> logged actor (pi_id i) action s1 s'"
  by (auto simp: mark_revoked_def dest!: invitation_audit_logged)

lemma mark_revoked_effect:
  assumes "mark_revoked env k actor i action s = Inr s'" "i \<in> set (invitations s)" "pi_status i = IS_PENDING"
  shows "invitation_effect (Some actor) s s'"
  using mark_revoked_D [OF assms(1)] assms(2,3)
  by (blast intro: effect_trans [OF effect_saved effect_logged] row_same)

lemma revoke_invitation_D:
  assumes "revoke_profile_invitation env actor pid iid s = Inr (r, s')"
  obtains p m i where "lock_manager_context actor pid None s = Inr (p, m)" "i \<in> set (invitations s)"
    "iid = Val (pi_id i)" "pi_profile i = p_id p" "can_issue_role (pm_role m) (pi_requested_role i)"
    "pi_status i = IS_PENDING" "invitation_effect (Some actor) s s'"
    "if pi_expires_at i \<le> e_now env
     then r = Inl InvitationConflict \<and> (\<exists>s1. invitation_saved (expire_row env) i s s1
       \<and> logged actor (pi_id i) ''profile.invitation.expired'' s1 s')
     else r = Inr (revoke_row env actor i) \<and> (\<exists>s1. invitation_saved (revoke_row env actor) i s s1
       \<and> logged actor (pi_id i) ''profile.invitation.revoked'' s1 s')"
proof -
  from assms obtain p m i ex i' s1 k where
    g: "get_locked_manager_invitation actor pid iid s = Inr (p, m, i)"
    and ex: "materialize_expiration env 0 actor i s = Inr (ex, i', s1, k)"
    and r: "if ex then r = Inl InvitationConflict \<and> s' = s1
      else pi_status i = IS_PENDING \<and> r = Inr (revoke_row env actor i)
        \<and> mark_revoked env k actor i ''profile.invitation.revoked'' s1 = Inr s'"
    by (auto simp: revoke_profile_invitation_def split: if_splits)
  note G = get_locked_D [OF g]
  show ?thesis
  proof (cases "pi_status i = IS_PENDING \<and> pi_expires_at i \<le> e_now env")
    case True
    with materialize_D [OF ex] r have "ex" "r = Inl InvitationConflict" "s' = s1" by auto
    with that [OF G] True materialize_D [OF ex] materialize_effect [OF ex G(2)] show ?thesis by auto
  next
    case False
    with materialize_D [OF ex] r have e: "\<not> ex" "s1 = s" "r = Inr (revoke_row env actor i)"
      "pi_status i = IS_PENDING" "mark_revoked env k actor i ''profile.invitation.revoked'' s = Inr s'"
      by auto
    with that [OF G] False mark_revoked_D [OF e(5)] mark_revoked_effect [OF e(5) G(2) e(4)]
    show ?thesis by auto
  qed
qed

lemma resend_D:
  assumes "resend_profile_invitation env actor pid iid s = Inr (r, s')"
  obtains p m i j s1 s2 s3 u k where "lock_manager_context actor pid None s = Inr (p, m)"
    "i \<in> set (invitations s)" "iid = Val (pi_id i)" "pi_profile i = p_id p"
    "can_issue_role (pm_role m) (pi_requested_role i)"
    "effective_status (e_now env) i \<in> {IS_PENDING, IS_EXPIRED}"
    "\<forall>x\<in>set (invitations s1). pi_replaces x \<noteq> Some (pi_id i)"
    "enforce_issuance_limits env actor (pi_email i) s1 = Inr ()"
    "invitation_effect (Some actor) s s1" "invitation_effect (Some actor) s1 s2"
    "resolve_recipient_account env (pi_email i) s2 = Inr u" "\<not> already_member p u s2"
    "issued env k p m (pi_email i) (pi_requested_role i) u (Some (pi_id i)) r s2 s3"
    "logged actor (pi_id r) ''profile.invitation.resent'' s3 s'"
proof -
  from assms obtain p m i ex j s1 k1 s2 k2 u s3 k3 where
    g: "get_locked_manager_invitation actor pid iid s = Inr (p, m, i)"
    and ex: "materialize_expiration env 0 actor i s = Inr (ex, j, s1, k1)"
    and st: "pi_status j \<in> {IS_PENDING, IS_EXPIRED}"
    and rep: "\<not> (\<exists>x\<in>set (invitations s1). pi_replaces x = Some (pi_id j))"
    and lim: "enforce_issuance_limits env actor (pi_email j) s1 = Inr ()"
    and s2: "(if pi_status j = IS_PENDING
         then bindE (mark_revoked env k1 actor j ''profile.invitation.rotated'' s1) (\<lambda>s2. Inr (s2, k1 + 1))
         else Inr (s1, k1)) = Inr (s2, k2)"
    and u: "resolve_recipient_account env (pi_email j) s2 = Inr u" "\<not> already_member p u s2"
    and i3: "issue_invitation_locked env k2 p m (pi_email j) (pi_requested_role j) u (Some (pi_id j)) s2
      = Inr (r, s3, k3)"
    and lg: "logged actor (pi_id r) ''profile.invitation.resent'' s3 s'"
    by (auto simp: resend_profile_invitation_def dest!: invitation_audit_logged)
  note G = get_locked_D [OF g]
  have j: "pi_id j = pi_id i" "pi_email j = pi_email i" "pi_requested_role j = pi_requested_role i"
    "pi_status j = effective_status (e_now env) i"
    "pi_status j = IS_PENDING \<Longrightarrow> j = i \<and> s1 = s"
    using materialize_D [OF ex] st by (auto simp: effective_status_def expire_row_def split: if_splits)
  have e2: "invitation_effect (Some actor) s1 s2"
  proof (cases "pi_status j = IS_PENDING")
    case True
    then have "mark_revoked env k1 actor j ''profile.invitation.rotated'' s1 = Inr s2" using s2 by auto
    with True j(5) G(2) show ?thesis by (auto intro: mark_revoked_effect)
  next
    case False
    with s2 show ?thesis by simp
  qed
  have rep': "\<forall>x\<in>set (invitations s1). pi_replaces x \<noteq> Some (pi_id i)" using rep j(1) by auto
  from that [OF G st [unfolded j(4)] rep' _ materialize_effect [OF ex G(2)] e2 _ u(2) _ lg] lim u(1)
    issue_D [OF i3] j(1-3) show ?thesis by simp
qed

lemma resend_effect:
  assumes "resend_profile_invitation env actor pid iid s = Inr (r, s')"
  shows "invitation_effect (Some actor) s s'"
  using assms
proof (rule resend_D)
  fix p m i s1 s2 s3 u k
  assume "lock_manager_context actor pid None s = Inr (p, m)"
    and e: "invitation_effect (Some actor) s s1" "invitation_effect (Some actor) s1 s2"
    and i: "issued env k p m (pi_email i) (pi_requested_role i) u (Some (pi_id i)) r s2 s3"
    and lg: "logged actor (pi_id r) ''profile.invitation.resent'' s3 s'"
  then have "invitation_effect (Some actor) s2 s3" using lock_manager_D(6) issued_effect by blast
  with e effect_logged [OF lg] show ?thesis by (blast intro: effect_trans)
qed

subsection \<open>Using a token\<close>

text \<open>The invitation a token designates, with everything checked of it but its age.\<close>

definition token_bound :: "env \<Rightarrow> uuid \<Rightarrow> ptext \<Rightarrow> db \<Rightarrow> profile \<Rightarrow> invitation \<Rightarrow> bool" where
  "token_bound env actor t s p i \<longleftrightarrow> i \<in> set (invitations s) \<and> pi_token_digest i = e_sha256 env t
     \<and> p \<in> set (profiles s) \<and> p_id p = pi_profile i \<and> p_status p = PS_ACTIVE
     \<and> pi_status i = IS_PENDING \<and> pi_delivery_status i = DL_SENT
     \<and> (\<exists>u\<in>set (users s). u_id u = actor \<and> u_is_active u
          \<and> normalize_invitation_email env (Some (u_email u)) = pi_email i)
     \<and> (\<exists>u. resolve_recipient_account env (pi_email i) s = Inr (Some u) \<and> u_id u = actor)
     \<and> pi_recipient_user i \<in> {None, Some actor}"

lemma validate_recipient_D:
  assumes "validate_recipient_locked env actor i s = Inr u"
  shows "u \<in> set (users s) \<and> u_id u = actor \<and> u_is_active u
     \<and> normalize_invitation_email env (Some (u_email u)) = pi_email i"
    "\<exists>u. resolve_recipient_account env (pi_email i) s = Inr (Some u) \<and> u_id u = actor"
    "pi_recipient_user i \<in> {None, Some actor}"
  using assms
  by (auto simp: validate_recipient_locked_def Let_def dest!: first_by_Some_in split: option.splits)

lemma lock_usable_D:
  assumes "lookup_token_candidate env token s = Inr (candidate, digest)"
    and "lock_usable_token env actor candidate digest s = Inr (p, i', usable, s', k)"
  obtains t i where "token = Val t" "t \<noteq> []" "token_bound env actor t s p i"
    "materialize_expiration env 0 actor i s = Inr (\<not> usable, i', s', k)"
proof -
  from assms(1) obtain t where t: "token = Val t" "t \<noteq> []" "digest = e_sha256 env t"
    by (auto simp: lookup_token_candidate_def Let_def)
  from assms(2) obtain i u ex where p: "lookup_pk p_id (pi_profile candidate) (profiles s) = Some p"
    and i: "first_by pi_id (\<lambda>i. pi_id i = pi_id candidate \<and> pi_profile i = p_id p
        \<and> pi_token_digest i = digest) (invitations s) = Some i"
    and st: "p_status p = PS_ACTIVE" "pi_status i = IS_PENDING" "pi_delivery_status i = DL_SENT"
    and u: "validate_recipient_locked env actor i s = Inr u"
    and ex: "materialize_expiration env 0 actor i s = Inr (ex, i', s', k)" "usable = (\<not> ex)"
    by (auto simp: lock_usable_token_def)
  from ex have m: "materialize_expiration env 0 actor i s = Inr (\<not> usable, i', s', k)" by simp
  have "token_bound env actor t s p i"
    using lookup_pk_Some [OF p] first_by_Some_in [OF i] st t(3) validate_recipient_D [OF u]
    unfolding token_bound_def by auto
  from that [OF t(1,2) this m] show ?thesis .
qed

lemma validate_inviter_D:
  "validate_original_inviter_locked i s = Inr u \<Longrightarrow> \<exists>m\<in>set (memberships s). pm_id m = pi_invited_by i
     \<and> pm_profile m = pi_profile i \<and> user_active s (pm_user m) \<and> pm_is_active m
     \<and> can_issue_role (pm_role m) (pi_requested_role i)"
  by (auto simp: validate_original_inviter_locked_def dest!: first_by_Some_in)

lemma member_role_not_owner [simp]: "member_role_of r \<noteq> PR_OWNER"
  by (cases r) simp_all

lemma rejoin_simps [simp]:
  "pm_id (rejoin_row env m) = pm_id m" "pm_profile (rejoin_row env m) = pm_profile m"
  "pm_user (rejoin_row env m) = pm_user m" "pm_role (rejoin_row env m) = pm_role m"
  "pm_is_active (rejoin_row env m)"
  "pm_profile (joined_membership env k p u r) = p_id p" "pm_user (joined_membership env k p u r) = u"
  "pm_role (joined_membership env k p u r) = member_role_of r"
  "pm_is_active (joined_membership env k p u r)"
  by (simp_all add: rejoin_row_def joined_membership_def)

lemma grow_append: "pm_role m \<noteq> PR_OWNER \<Longrightarrow> memberships_grow ms (ms @ [m])"
  by (auto simp: memberships_grow_def membership_kept_def)

lemma grow_rejoin:
  assumes "memberships_ok ms" "m \<in> set ms" "pm_role m \<noteq> PR_OWNER"
  shows "memberships_grow ms (update_where (\<lambda>x. pm_id x = pm_id m) (rejoin_row env) ms)"
proof -
  let ?f = "\<lambda>x. if pm_id x = pm_id m then rejoin_row env x else x"
  have "?f x \<in> set (update_where (\<lambda>x. pm_id x = pm_id m) (rejoin_row env) ms)" "membership_kept x (?f x)"
    if "x \<in> set ms" for x
    using that by (auto simp: in_update_where membership_kept_def)
  moreover have "y \<in> set ms" if "y \<in> set (update_where (\<lambda>x. pm_id x = pm_id m) (rejoin_row env) ms)"
    "pm_role y = PR_OWNER" for y
  proof -
    obtain r where r: "r \<in> set ms" "y = ?f r"
      using \<open>y \<in> set (update_where (\<lambda>x. pm_id x = pm_id m) (rejoin_row env) ms)\<close>
      unfolding in_update_where by blast
    show ?thesis
    proof (cases "pm_id r = pm_id m")
      case True
      then have "r = m" using membership_pk_unique [OF assms(1) r(1) assms(2)] by simp
      with r(2) assms(3) \<open>pm_role y = PR_OWNER\<close> show ?thesis by simp
    qed (use r in simp)
  qed
  ultimately show ?thesis unfolding memberships_grow_def by blast
qed

lemma join_profile_D:
  assumes "join_profile env k actor p i s = Inr (m, act, prior, s', k')"
  obtains ms where "s' = s\<lparr>memberships := ms\<rparr>" "memberships_ok ms" "m \<in> set ms"
    "pm_profile m = p_id p" "pm_user m = actor" "pm_role m = member_role_of (pi_requested_role i)"
    "pm_is_active m"
    "memberships_ok (memberships s) \<Longrightarrow> memberships_grow (memberships s) ms"
    "\<forall>x\<in>set (memberships s). pm_profile x = p_id p \<longrightarrow> pm_user x = actor \<longrightarrow> \<not> pm_is_active x"
proof -
  let ?rows = "sort_key (\<lambda>m. (pm_created_at m, pm_id m))
       (filter (\<lambda>m. pm_profile m = p_id p \<and> pm_user m = actor) (memberships s))"
  have no: "\<forall>x\<in>set (memberships s). pm_profile x = p_id p \<longrightarrow> pm_user x = actor \<longrightarrow> \<not> pm_is_active x"
    using assms by (auto simp: join_profile_def Let_def)
  show ?thesis
  proof (cases "filter (\<lambda>m. \<not> pm_is_active m) ?rows")
    case Nil
    with assms have "m = joined_membership env k p actor (pi_requested_role i)"
      "memberships_ok (memberships s @ [m])" "s' = s\<lparr>memberships := memberships s @ [m]\<rparr>"
      by (auto simp: join_profile_def Let_def)
    with that [of "memberships s @ [m]"] no grow_append show ?thesis by simp
  next
    case (Cons x xs)
    let ?ms = "update_where (\<lambda>y. pm_id y = pm_id x) (rejoin_row env) (memberships s)"
    have "x \<in> set (filter (\<lambda>m. \<not> pm_is_active m) ?rows)" using Cons by simp
    then have x: "x \<in> set (memberships s)" "pm_profile x = p_id p" "pm_user x = actor" by auto
    from Cons assms have m: "m = rejoin_row env x" "pm_role x \<noteq> PR_OWNER"
      "pm_role x = member_role_of (pi_requested_role i)" "memberships_ok ?ms" "s' = s\<lparr>memberships := ?ms\<rparr>"
      by (auto simp: join_profile_def Let_def)
    have "m \<in> set ?ms" using x(1) m(1) by (force simp: in_update_where)
    with that [of ?ms] m x no grow_rejoin [OF _ x(1) m(2)] show ?thesis by simp
  qed
qed

subsection \<open>Withdrawing Workspace roles\<close>

definition withdraw :: "env \<Rightarrow> uuid set \<Rightarrow> workspace_member \<Rightarrow> workspace_member" where
  "withdraw env is m = (if wm_id m \<in> is then m\<lparr>wm_is_active := False, wm_updated_at := e_now env\<rparr> else m)"

lemma withdraw_update:
  "map (withdraw env is) (update_where (\<lambda>x. wm_id x = i)
      (\<lambda>x. x\<lparr>wm_is_active := False, wm_updated_at := e_now env\<rparr>) ms) = map (withdraw env (insert i is)) ms"
  by (simp add: update_where_def withdraw_def)

lemma withdrawn_shrink: "members_shrink ms (map (withdraw env is) ms)"
  by (auto simp: members_shrink_def member_withdrawn_def withdraw_def)

lemma revoke_members_D:
  assumes "revoke_members env k actor ms s = Inr (s', k')"
  shows "members s' = map (withdraw env (wm_id ` set ms)) (members s)"
    "memberships s' = memberships s" "invitations s' = invitations s"
    "workspaces s' = workspaces s" "invitation_effect (Some actor) s s'"
proof -
  have "members s' = map (withdraw env (wm_id ` set ms)) (members s) \<and> memberships s' = memberships s
    \<and> invitations s' = invitations s \<and> workspaces s' = workspaces s \<and> invitation_effect (Some actor) s s'"
    using assms
  proof (induction ms arbitrary: k s)
    case Nil
    then show ?case by (simp add: withdraw_def)
  next
    case (Cons m ms)
    let ?rows = "update_where (\<lambda>x. wm_id x = wm_id m)
       (\<lambda>x. x\<lparr>wm_is_active := False, wm_updated_at := e_now env\<rparr>) (members s)"
    from Cons.prems obtain s2 where ok: "members_ok ?rows"
      and lg: "logged actor (wm_id m) ''workspace.membership.revoked_on_profile_rejoin''
        (s\<lparr>members := ?rows\<rparr>) s2"
      and r: "revoke_members env (k + 1) actor ms s2 = Inr (s', k')"
      by (auto dest!: other_audits_logged)
    have e: "invitation_effect (Some actor) s (s\<lparr>members := ?rows\<rparr>)"
    proof (rule effect_members [OF ok])
      have "?rows = map (withdraw env {wm_id m}) (members s)"
        by (simp add: update_where_def withdraw_def)
      then show "members_shrink (members s) ?rows" using withdrawn_shrink by metis
    qed
    show ?case
      using Cons.IH [OF r] logged_tables [OF lg] effect_trans [OF effect_trans [OF e effect_logged [OF lg]]]
      by (simp add: withdraw_update)
  qed
  then show "members s' = map (withdraw env (wm_id ` set ms)) (members s)"
    "memberships s' = memberships s" "invitations s' = invitations s"
    "workspaces s' = workspaces s" "invitation_effect (Some actor) s s'" by simp_all
qed

lemma stale_revoked:
  assumes "revoke_stale_workspace_access env k actor p u s = Inr (s', k')"
    and "x \<in> set (members s')" "wm_user x = u" "workspace_profile (wm_workspace x) s = Some (p_id p)"
  shows "\<not> wm_is_active x"
  using assms revoke_members_D(1) [of env k actor "stale_members (p_id p) u s" s s' k']
  by (auto simp: revoke_stale_workspace_access_def stale_members_def withdraw_def image_iff split: if_splits)

subsection \<open>Accepting and declining\<close>

lemma effect_audit_length:
  "invitation_effect a s s' \<Longrightarrow> db_ok s \<Longrightarrow> length (audit_logs s) \<le> length (audit_logs s')"
  by (auto simp: invitation_effect_def audits_by_def)

lemma logged_length: "logged a i act s s' \<Longrightarrow> length (audit_logs s') = Suc (length (audit_logs s))"
  by (auto simp: logged_def)

lemma saved_length: "invitation_saved f i s s' \<Longrightarrow> audit_logs s' = audit_logs s"
  by (simp add: invitation_saved_def)

text \<open>The committed expiry of a token used too late.\<close>

definition expired_on_use :: "env \<Rightarrow> uuid \<Rightarrow> invitation \<Rightarrow> db \<Rightarrow> db \<Rightarrow> bool" where
  "expired_on_use env actor i s s' \<longleftrightarrow> pi_expires_at i \<le> e_now env
     \<and> (\<exists>s1. invitation_saved (expire_row env) i s s1
          \<and> logged actor (pi_id i) ''profile.invitation.expired'' s1 s')"

lemma expired_length: "expired_on_use env a i s s' \<Longrightarrow> length (audit_logs s') = Suc (length (audit_logs s))"
  by (auto simp: expired_on_use_def dest!: saved_length logged_length)

lemma usable_cases:
  assumes "token_bound env actor t s p i"
    and "materialize_expiration env 0 actor i s = Inr (\<not> usable, i', s', k)"
  shows "if usable then e_now env < pi_expires_at i \<and> i' = i \<and> s' = s
    else expired_on_use env actor i s s' \<and> invitation_effect (Some actor) s s'"
  using materialize_D [OF assms(2)] materialize_effect [OF assms(2)] assms(1)
  by (auto simp: token_bound_def expired_on_use_def split: if_splits)

definition accepted :: "env \<Rightarrow> uuid \<Rightarrow> profile \<Rightarrow> invitation \<Rightarrow> profile_membership \<Rightarrow> db \<Rightarrow> db \<Rightarrow> bool" where
  "accepted env actor p i m s s' \<longleftrightarrow> e_now env < pi_expires_at i
     \<and> (\<exists>x\<in>set (memberships s). pm_id x = pi_invited_by i \<and> pm_profile x = pi_profile i
          \<and> user_active s (pm_user x) \<and> pm_is_active x
          \<and> can_issue_role (pm_role x) (pi_requested_role i))
     \<and> (\<forall>x\<in>set (memberships s). pm_profile x = p_id p \<longrightarrow> pm_user x = actor \<longrightarrow> \<not> pm_is_active x)
     \<and> m \<in> set (memberships s') \<and> pm_profile m = p_id p \<and> pm_user m = actor \<and> pm_is_active m
     \<and> pm_role m = member_role_of (pi_requested_role i)
     \<and> (\<forall>x\<in>set (members s'). wm_user x = actor \<longrightarrow>
          workspace_profile (wm_workspace x) s = Some (p_id p) \<longrightarrow> \<not> wm_is_active x)
     \<and> invitations s' = update_where (\<lambda>x. pi_id x = pi_id i) (accept_row env actor) (invitations s)"

lemma accept_D:
  assumes "accept_profile_invitation env actor token s = Inr (r, s')"
  obtains t p i where "token = Val t" "t \<noteq> []" "token_bound env actor t s p i"
    "invitation_effect (Some actor) s s'"
    "case r of Inl e \<Rightarrow> e = InvitationConflict \<and> expired_on_use env actor i s s'
     | Inr m \<Rightarrow> accepted env actor p i m s s'"
    "db_ok s \<Longrightarrow> length (audit_logs s) < length (audit_logs s')"
proof -
  from assms obtain c d p j usable s1 k1 where
    c: "lookup_token_candidate env token s = Inr (c, d)"
    and l: "lock_usable_token env actor c d s = Inr (p, j, usable, s1, k1)"
    by (auto simp: accept_profile_invitation_def)
  obtain t i where t: "token = Val t" "t \<noteq> []" "token_bound env actor t s p i"
    and ex: "materialize_expiration env 0 actor i s = Inr (\<not> usable, j, s1, k1)"
    using lock_usable_D [OF c l] by metis
  show ?thesis
  proof (cases usable)
    case False
    with assms c l have "r = Inl InvitationConflict" "s' = s1" by (simp_all add: accept_profile_invitation_def)
    with usable_cases [OF t(3) ex] False that [OF t] expired_length show ?thesis by fastforce
  next
    case True
    then have j: "e_now env < pi_expires_at i" "j = i" "s1 = s" using usable_cases [OF t(3) ex] by simp_all
    from assms c l True j obtain m act prior s2 k2 s3 k3 s4 s5 where
      r: "r = Inr m"
      and inv: "validate_original_inviter_locked i s = Inr ()"
      and jn: "join_profile env k1 actor p i s = Inr (m, act, prior, s2, k2)"
      and rv: "revoke_stale_workspace_access env k2 actor p actor s2 = Inr (s3, k3)"
      and l4: "logged actor (pm_id m) act s3 s4"
      and sv: "invitation_saved (accept_row env actor) i s4 s5"
      and l6: "logged actor (pi_id i) ''profile.invitation.accepted'' s5 s'"
      by (auto simp: accept_profile_invitation_def dest!: other_audits_logged invitation_audit_logged)
    obtain ms where s2: "s2 = s\<lparr>memberships := ms\<rparr>" "memberships_ok ms" "m \<in> set ms"
      and m: "pm_profile m = p_id p" "pm_user m = actor" "pm_role m = member_role_of (pi_requested_role i)"
        "pm_is_active m"
      and g: "memberships_ok (memberships s) \<Longrightarrow> memberships_grow (memberships s) ms"
      and no: "\<forall>x\<in>set (memberships s). pm_profile x = p_id p \<longrightarrow> pm_user x = actor \<longrightarrow> \<not> pm_is_active x"
      using join_profile_D [OF jn] by metis
    note R = revoke_members_D [OF rv [unfolded revoke_stale_workspace_access_def]]
    note T4 = logged_tables [OF l4] and T6 = logged_tables [OF l6]
    have i: "i \<in> set (invitations s)" "pi_status i = IS_PENDING" using t(3) by (simp_all add: token_bound_def)
    have inv4: "invitations s4 = invitations s" using T4 R(3) s2(1) by simp
    have "invitation_effect (Some actor) s s2" using effect_memberships [OF s2(2) g] s2(1) by simp
    also have "invitation_effect (Some actor) s2 s3" by (rule R(5))
    also have "invitation_effect (Some actor) s3 s4" by (rule effect_logged [OF l4])
    finally have e4: "invitation_effect (Some actor) s s4" .
    also have "invitation_effect (Some actor) s4 s5" using effect_saved [OF sv] i inv4 by simp
    also have "invitation_effect (Some actor) s5 s'" by (rule effect_logged [OF l6])
    finally have e: "invitation_effect (Some actor) s s'" .
    have "workspace_profile w s2 = workspace_profile w s" for w
      using s2(1) by (simp add: workspace_profile_def)
    then have "\<forall>x\<in>set (members s'). wm_user x = actor \<longrightarrow>
        workspace_profile (wm_workspace x) s = Some (p_id p) \<longrightarrow> \<not> wm_is_active x"
      using stale_revoked [OF rv] T4 T6 sv by (simp add: invitation_saved_def)
    then have "accepted env actor p i m s s'"
      using validate_inviter_D [OF inv] j(1) no m s2 R(2) T4 T6 sv inv4
      by (simp add: accepted_def invitation_saved_def)
    moreover have "length (audit_logs s) < length (audit_logs s')" if "db_ok s"
      using effect_audit_length [OF e4 that] saved_length [OF sv] logged_length [OF l6] by simp
    ultimately show ?thesis using that [OF t e] r by simp
  qed
qed

lemma decline_D:
  assumes "decline_profile_invitation env actor token s = Inr (r, s')"
  obtains t p i where "token = Val t" "t \<noteq> []" "token_bound env actor t s p i"
    "invitation_effect (Some actor) s s'" "memberships s' = memberships s"
    "case r of Inl e \<Rightarrow> e = InvitationConflict \<and> expired_on_use env actor i s s'
     | Inr j \<Rightarrow> j = decline_row env actor i \<and> e_now env < pi_expires_at i
        \<and> invitations s' = update_where (\<lambda>x. pi_id x = pi_id i) (decline_row env actor) (invitations s)"
    "length (audit_logs s) < length (audit_logs s')"
proof -
  from assms obtain c d p j usable s1 k1 where
    c: "lookup_token_candidate env token s = Inr (c, d)"
    and l: "lock_usable_token env actor c d s = Inr (p, j, usable, s1, k1)"
    by (auto simp: decline_profile_invitation_def)
  obtain t i where t: "token = Val t" "t \<noteq> []" "token_bound env actor t s p i"
    and ex: "materialize_expiration env 0 actor i s = Inr (\<not> usable, j, s1, k1)"
    using lock_usable_D [OF c l] by metis
  show ?thesis
  proof (cases usable)
    case False
    with assms c l have "r = Inl InvitationConflict" "s' = s1" by (simp_all add: decline_profile_invitation_def)
    moreover from this usable_cases [OF t(3) ex] False have "memberships s' = memberships s"
      by (auto simp: expired_on_use_def invitation_saved_def dest!: logged_tables(3))
    ultimately show ?thesis using usable_cases [OF t(3) ex] False that [OF t] expired_length by fastforce
  next
    case True
    then have j: "e_now env < pi_expires_at i" "j = i" "s1 = s" using usable_cases [OF t(3) ex] by simp_all
    from assms c l True j obtain s2 where r: "r = Inr (decline_row env actor i)"
      and sv: "invitation_saved (decline_row env actor) i s s2"
      and lg: "logged actor (pi_id i) ''profile.invitation.declined'' s2 s'"
      by (auto simp: decline_profile_invitation_def dest!: invitation_audit_logged)
    have "invitation_effect (Some actor) s s2"
      using effect_saved [OF sv] t(3) by (simp add: token_bound_def)
    then have "invitation_effect (Some actor) s s'" using effect_logged [OF lg] effect_trans by blast
    with that [OF t this] r j sv logged_tables [OF lg] logged_length [OF lg] show ?thesis
      by (simp add: invitation_saved_def)
  qed
qed

subsection \<open>Delivery\<close>

lemma update_invitations_effect:
  assumes "update_invitations P f s = Inr (n, s')"
    and "\<And>i. P i \<Longrightarrow> pi_status i = IS_PENDING" "\<And>i. same_invitation i (f i)"
  shows "invitation_effect actor s s'"
  using assms
  by (auto simp: update_invitations_def intro!: effect_invitations invitations_evolve_update)

lemma claim_effect: "claim_delivery env iid digest s = Inr (u, s') \<Longrightarrow> invitation_effect None s s'"
  by (auto simp: claim_delivery_def same_invitation_def elim!: update_invitations_effect)

lemma finish_effect:
  "finish_delivery env attempted smtp iid digest s = Inr (r, s') \<Longrightarrow> invitation_effect None s s'"
  by (auto simp: finish_delivery_def Let_def same_invitation_def elim!: update_invitations_effect
      split: sum.splits)

lemma create_invitation_effect:
  assumes "create_profile_invitation env actor pid email role s = Inr (i, s')"
  shows "invitation_effect (Some actor) s s'"
  using assms
proof (rule create_invitation_D)
  fix p m r s1 s2 k u
  assume l: "lock_manager_context actor pid (Some r) s = Inr (p, m)"
    and e: "invitation_effect (Some actor) s s1" "invitation_effect (Some actor) s1 s2"
    and i: "issued env k p m (normalize_invitation_email env email) r u None i s2 s'"
  show ?thesis
    using e issued_effect [OF i lock_manager_D(6) [OF l]] by (blast intro: effect_trans)
qed

lemma invitation_services_effect:
  "create_profile_invitation env a pid email role s = Inr (i, s') \<Longrightarrow> invitation_effect (Some a) s s'"
  "revoke_profile_invitation env a pid iid s = Inr (r, s') \<Longrightarrow> invitation_effect (Some a) s s'"
  "resend_profile_invitation env a pid iid s = Inr (i, s') \<Longrightarrow> invitation_effect (Some a) s s'"
  "accept_profile_invitation env a token s = Inr (x, s') \<Longrightarrow> invitation_effect (Some a) s s'"
  "decline_profile_invitation env a token s = Inr (r, s') \<Longrightarrow> invitation_effect (Some a) s s'"
  "claim_delivery env j d s = Inr (u, s') \<Longrightarrow> invitation_effect None s s'"
  "finish_delivery env t smtp j d s = Inr (v, s') \<Longrightarrow> invitation_effect None s s'"
  by (erule create_invitation_effect resend_effect claim_effect finish_effect
      | erule revoke_invitation_D accept_D decline_D, assumption)+

subsection \<open>What the effect preserves\<close>

lemma effect_db_ok: "invitation_effect a s s' \<Longrightarrow> db_ok s \<Longrightarrow> db_ok s'"
  by (simp add: invitation_effect_def)

lemma effect_core: "invitation_effect a s s' \<Longrightarrow> db_ok s \<Longrightarrow> core_tables s' = core_tables s"
  by (simp add: invitation_effect_def)

lemma effect_roles:
  assumes "invitation_effect a s s'" "db_ok s"
  shows "holds_profile_role s u p r \<Longrightarrow> holds_profile_role s' u p r"
    "active_manager s p u \<Longrightarrow> active_manager s' p u"
    "holds_profile_role s' u p PR_OWNER \<Longrightarrow> holds_profile_role s u p PR_OWNER"
proof -
  have u: "users s' = users s" and g: "memberships_grow (memberships s) (memberships s')"
    using assms by (simp_all add: invitation_effect_def core_tables_def)
  have keep: "holds_profile_role s' u p r" if h: "holds_profile_role s u p r" for u p r
  proof -
    obtain m where m: "m \<in> set (memberships s)" "pm_profile m = p" "pm_user m = u" "pm_role m = r"
      "pm_is_active m" and ua: "user_active s u"
      using h by (auto simp: holds_profile_role_def)
    obtain m' where "m' \<in> set (memberships s')" "membership_kept m m'"
      using g m(1) unfolding memberships_grow_def by blast
    with m ua u show ?thesis by (auto simp: holds_profile_role_def membership_kept_def user_active_def)
  qed
  then show "holds_profile_role s u p r \<Longrightarrow> holds_profile_role s' u p r" .
  show "active_manager s p u \<Longrightarrow> active_manager s' p u" using keep by (auto simp: active_manager_iff)
  show "holds_profile_role s' u p PR_OWNER \<Longrightarrow> holds_profile_role s u p PR_OWNER"
    using g u unfolding memberships_grow_def by (auto simp: holds_profile_role_def user_active_def)
qed

end
