(* ===== verification/System.thy ===== *)
theory System
  imports Task_Effects Invitation_Effects
begin

text \<open>
  The services as the transitions of one system: a command names a service and its arguments,
  \<open>exec\<close> runs its transaction. Any interleaving of committed transactions that the row locks allow
  is a sequence of these steps; a transaction that raises leaves the state as it was.
\<close>

datatype command =
    CreateProfile "ptext option" "uuid option" bool
  | SetProfileStatus uuid "uuid arg" "profile_status arg"
  | UpdateProfileMembership uuid "uuid arg" "uuid arg" "profile_role arg option" "bool arg option"
  | CreateWorkspace uuid "uuid arg" "ptext option" "date option" "ptext option"
  | UpdateWorkspace uuid "uuid arg" "uuid arg" "ptext option setting" "ptext option setting"
  | SetWorkspaceStatus uuid "uuid arg" "uuid arg" "ws_status arg"
  | AddMember uuid "uuid arg" "uuid arg" "uuid arg" "ws_role arg"
  | UpdateMember uuid "uuid arg" "uuid arg" "uuid arg" "ws_role arg"
  | RevokeMember uuid "uuid arg" "uuid arg" "uuid arg"
  | CreateTask uuid "uuid arg" "uuid arg" "ptext option" "ptext option" "priority arg"
      "time option arg" "uuid arg option"
  | UpdateTask uuid "uuid arg" "uuid arg" "uuid arg" "ptext option setting" "ptext option setting"
      "priority arg setting" "time option arg setting" "uuid arg option setting"
  | AssignTask uuid "uuid arg" "uuid arg" "uuid arg" "uuid arg"
  | StartTask uuid "uuid arg" "uuid arg" "uuid arg"
  | SubmitDeliverable uuid "uuid arg" "uuid arg" "uuid arg" "ptext option"
  | ApproveDeliverable uuid "uuid arg" "uuid arg" "uuid arg" "uuid arg" "ptext option"
  | RequestChanges uuid "uuid arg" "uuid arg" "uuid arg" "uuid arg" "ptext option"
  | CreateComment uuid "uuid arg" "uuid arg" "uuid arg" "ptext arg"
  | UpdateComment uuid "uuid arg" "uuid arg" "uuid arg" "uuid arg" "ptext arg"
  | DeleteComment uuid "uuid arg" "uuid arg" "uuid arg" "uuid arg"
  | MarkNotificationRead uuid "uuid arg"
  | CreateInvitation uuid "uuid arg" "ptext option" "inv_role arg"
  | RevokeInvitation uuid "uuid arg" "uuid arg"
  | ResendInvitation uuid "uuid arg" "uuid arg"
  | AcceptInvitation uuid "ptext arg"
  | DeclineInvitation uuid "ptext arg"
  | ClaimDelivery uuid string
  | FinishDelivery time "int option" uuid string

definition effect :: "error + ('a \<times> db) \<Rightarrow> error + db" where
  "effect r = bindE r (\<lambda>(_, s). Inr s)"

lemma effect_eq_Inr [simp]: "effect r = Inr s' \<longleftrightarrow> (\<exists>x. r = Inr (x, s'))"
  by (auto simp: effect_def)

fun exec :: "env \<Rightarrow> command \<Rightarrow> db \<Rightarrow> error + db" where
  "exec env (CreateProfile name owner act) s = effect (create_profile_with_owner env name owner act s)"
| "exec env (SetProfileStatus a p st) s = effect (set_profile_status env a p st s)"
| "exec env (UpdateProfileMembership a p m r b) s = effect (update_profile_membership env a p m r b s)"
| "exec env (CreateWorkspace a p name d descr) s = effect (create_workspace env a p name d descr s)"
| "exec env (UpdateWorkspace a p w name descr) s = effect (update_workspace env a p w name descr s)"
| "exec env (SetWorkspaceStatus a p w st) s = effect (set_workspace_status env a p w st s)"
| "exec env (AddMember a p w m r) s = effect (add_workspace_member env a p w m r s)"
| "exec env (UpdateMember a p w m r) s = effect (update_workspace_member env a p w m r s)"
| "exec env (RevokeMember a p w m) s = effect (revoke_workspace_member env a p w m s)"
| "exec env (CreateTask a p w ti de pr dl par) s = effect (create_task env a p w ti de pr dl par s)"
| "exec env (UpdateTask a p w t ti de pr dl par) s = effect (update_task env a p w t ti de pr dl par s)"
| "exec env (AssignTask a p w t m) s = effect (assign_task env a p w t m s)"
| "exec env (StartTask a p w t) s = effect (start_task env a p w t s)"
| "exec env (SubmitDeliverable a p w t url) s = effect (submit_deliverable env a p w t url s)"
| "exec env (ApproveDeliverable a p w t d c) s = effect (approve_deliverable env a p w t d c s)"
| "exec env (RequestChanges a p w t d c) s = effect (request_deliverable_changes env a p w t d c s)"
| "exec env (CreateComment a p w t c) s = effect (create_comment env a p w t c s)"
| "exec env (UpdateComment a p w t i c) s = effect (update_comment env a p w t i c s)"
| "exec env (DeleteComment a p w t i) s = effect (delete_comment env a p w t i s)"
| "exec env (MarkNotificationRead a n) s = effect (mark_notification_read env a n s)"
| "exec env (CreateInvitation a p email r) s = effect (create_profile_invitation env a p email r s)"
| "exec env (RevokeInvitation a p i) s = effect (revoke_profile_invitation env a p i s)"
| "exec env (ResendInvitation a p i) s = effect (resend_profile_invitation env a p i s)"
| "exec env (AcceptInvitation a token) s = effect (accept_profile_invitation env a token s)"
| "exec env (DeclineInvitation a token) s = effect (decline_profile_invitation env a token s)"
| "exec env (ClaimDelivery i d) s = effect (claim_delivery env i d s)"
| "exec env (FinishDelivery t smtp i d) s = effect (finish_delivery env t smtp i d s)"

text \<open>A freshly migrated database: accounts exist, the domain tables are empty.\<close>

definition initial :: "db \<Rightarrow> bool" where
  "initial s \<longleftrightarrow> profiles s = [] \<and> memberships s = [] \<and> workspaces s = [] \<and> members s = []
     \<and> invitations s = [] \<and> tasks s = [] \<and> assignments s = [] \<and> comments s = []
     \<and> deliverables s = [] \<and> reviews s = [] \<and> notifications s = [] \<and> audit_logs s = []"

inductive step :: "db \<Rightarrow> db \<Rightarrow> bool" where
  commit: "exec env c s = Inr s' \<Longrightarrow> step s s'"
| rollback: "exec env c s = Inl e \<Longrightarrow> step s s"

inductive reachable :: "db \<Rightarrow> bool" where
  initially: "initial s \<Longrightarrow> reachable s"
| stepwise: "reachable s \<Longrightarrow> step s s' \<Longrightarrow> reachable s'"

inductive_simps step_iff: "step s s'"

subsection \<open>Invariants as an interface\<close>

locale invariant =
  fixes inv :: "db \<Rightarrow> bool"
  assumes inv_initial: "initial s \<Longrightarrow> inv s"
    and inv_exec: "inv s \<Longrightarrow> exec env c s = Inr s' \<Longrightarrow> inv s'"
begin

lemma inv_step: "inv s \<Longrightarrow> step s s' \<Longrightarrow> inv s'"
  by (auto simp: step_iff intro: inv_exec)

lemma always: "reachable s \<Longrightarrow> inv s"
  by (induction rule: reachable.induct) (auto intro: inv_initial inv_step)

end

text \<open>An invariant whose preservation rests on another one.\<close>

locale dependent_invariant = base: invariant base for base :: "db \<Rightarrow> bool" +
  fixes dep :: "db \<Rightarrow> bool"
  assumes dep_initial: "initial s \<Longrightarrow> dep s"
    and dep_exec: "base s \<Longrightarrow> dep s \<Longrightarrow> exec env c s = Inr s' \<Longrightarrow> dep s'"

sublocale dependent_invariant \<subseteq> both: invariant "\<lambda>s. base s \<and> dep s"
  by unfold_locales (use base.inv_initial base.inv_exec dep_initial dep_exec in blast)+

subsection \<open>The constraints hold\<close>

lemma db_ok_logged: "logged a i act s s' \<Longrightarrow> db_ok s \<Longrightarrow> db_ok s'"
  using logged_tables [of a i act s s'] by (simp add: db_ok_def)

lemma db_ok_notified: "notified e et t us s s' \<Longrightarrow> db_ok s \<Longrightarrow> db_ok s'"
  using notified_tables [of e et t us s s'] by (simp add: db_ok_def)

lemma db_ok_updates:
  assumes "db_ok s"
  shows "profiles_ok ps \<Longrightarrow> db_ok (s\<lparr>profiles := ps\<rparr>)"
    "memberships_ok pms \<Longrightarrow> db_ok (s\<lparr>memberships := pms\<rparr>)"
    "workspaces_ok ws \<Longrightarrow> db_ok (s\<lparr>workspaces := ws\<rparr>)"
    "members_ok wms \<Longrightarrow> db_ok (s\<lparr>members := wms\<rparr>)"
    "tasks_ok ts \<Longrightarrow> db_ok (s\<lparr>tasks := ts\<rparr>)"
    "assignments_ok as \<Longrightarrow> db_ok (s\<lparr>assignments := as\<rparr>)"
    "comments_ok cs \<Longrightarrow> db_ok (s\<lparr>comments := cs\<rparr>)"
    "deliverables_ok ds \<Longrightarrow> db_ok (s\<lparr>deliverables := ds\<rparr>)"
    "reviews_ok rs \<Longrightarrow> db_ok (s\<lparr>reviews := rs\<rparr>)"
    "notifications_ok ns \<Longrightarrow> db_ok (s\<lparr>notifications := ns\<rparr>)"
  using assms by (simp_all add: db_ok_def)

lemma db_ok_member_updated: "member_updated a act m f s s' \<Longrightarrow> db_ok s \<Longrightarrow> db_ok s'"
  by (auto simp: member_updated_def Let_def elim!: db_ok_logged intro!: db_ok_updates)

lemma db_ok_member_assigned: "member_assigned env a w r u x re s s' \<Longrightarrow> db_ok s \<Longrightarrow> db_ok s'"
  by (auto simp: member_assigned_def split: if_splits elim!: db_ok_logged db_ok_member_updated intro!: db_ok_updates)

lemma db_ok_comment_replaced: "comment_replaced a act c f s s' \<Longrightarrow> db_ok s \<Longrightarrow> db_ok s'"
  by (auto simp: comment_replaced_def Let_def elim!: db_ok_logged intro!: db_ok_updates)

lemma task_full_clean_tasks_ok: "task_full_clean adding rows t s = Inr u \<Longrightarrow> tasks_ok rows"
  by (auto simp: task_full_clean_def)

lemma db_ok_task_edited: "task_edited a t edit t' s s' \<Longrightarrow> db_ok s \<Longrightarrow> db_ok s'"
  by (auto simp: task_edited_def Let_def split: if_splits
      elim!: db_ok_logged intro!: db_ok_updates intro: task_full_clean_tasks_ok)

lemma db_ok_profile_services:
  assumes ok: "db_ok s"
  shows "create_profile_with_owner env name owner act s = Inr (p, s') \<Longrightarrow> db_ok s'"
    "set_profile_status env a pid st s = Inr (p, s') \<Longrightarrow> db_ok s'"
    "update_profile_membership env a pid mid r b s = Inr (m, s') \<Longrightarrow> db_ok s'"
    "create_workspace env a pid name d descr s = Inr (w, s') \<Longrightarrow> db_ok s'"
proof -
  show "db_ok s'" if "create_profile_with_owner env name owner act s = Inr (p, s')"
    using create_profile_D [OF that] by (auto elim!: db_ok_logged intro!: db_ok_updates ok)
  show "db_ok s'" if "set_profile_status env a pid st s = Inr (p, s')"
    using set_profile_status_D [OF that]
    by (auto simp: Let_def ok split: if_splits elim!: db_ok_logged intro: db_ok_updates)
  show "db_ok s'" if "update_profile_membership env a pid mid r b s = Inr (m, s')"
    using update_profile_membership_D [OF that]
  proof (elim exE conjE)
    fix x r b
    assume "if pm_role x = r \<and> pm_is_active x = b then m = x \<and> s' = s
       else m = x\<lparr>pm_role := r, pm_is_active := b, pm_updated_at := e_now env\<rparr>
         \<and> (let rows = update_where (\<lambda>y. pm_id y = pm_id x)
              (\<lambda>y. y\<lparr>pm_role := r, pm_is_active := b, pm_updated_at := e_now env\<rparr>) (memberships s) in
            memberships_ok rows
            \<and> logged a (pm_id x) ''profile.membership.updated'' (s\<lparr>memberships := rows\<rparr>) s')"
    then show ?thesis
      by (auto simp: Let_def ok split: if_splits elim!: db_ok_logged intro: db_ok_updates)
  qed
  show "db_ok s'" if "create_workspace env a pid name d descr s = Inr (w, s')"
    using create_workspace_D [OF that] by (auto elim!: db_ok_logged intro: db_ok_updates ok)
qed

lemma db_ok_workspace_services:
  assumes ok: "db_ok s"
  shows "update_workspace env a pid wid name descr s = Inr (w, s') \<Longrightarrow> db_ok s'"
    "set_workspace_status env a pid wid st s = Inr (w, s') \<Longrightarrow> db_ok s'"
    "add_workspace_member env a pid wid mid r s = Inr (m, s') \<Longrightarrow> db_ok s'"
    "update_workspace_member env a pid wid mid r s = Inr (x, s') \<Longrightarrow> db_ok s'"
    "revoke_workspace_member env a pid wid mid s = Inr (x, s') \<Longrightarrow> db_ok s'"
proof -
  show "db_ok s'" if "update_workspace env a pid wid name descr s = Inr (w, s')"
    using that by (rule update_workspace_D)
      (auto simp: Let_def ok split: if_splits elim!: db_ok_logged intro: db_ok_updates)
  show "db_ok s'" if "set_workspace_status env a pid wid st s = Inr (w, s')"
    using that by (rule set_workspace_status_D)
      (auto simp: Let_def ok split: if_splits elim!: db_ok_logged intro: db_ok_updates)
  show "db_ok s'" if "add_workspace_member env a pid wid mid r s = Inr (m, s')"
  proof (cases m)
    case (Pair x re)
    with that show ?thesis by (auto elim!: add_workspace_member_D db_ok_member_assigned intro: ok)
  qed
  show "db_ok s'" if "update_workspace_member env a pid wid mid r s = Inr (x, s')"
    using that by (rule update_workspace_member_D) (auto simp: ok split: if_splits elim!: db_ok_member_updated)
  show "db_ok s'" if "revoke_workspace_member env a pid wid mid s = Inr (x, s')"
    using that by (rule revoke_workspace_member_D) (auto simp: ok elim!: db_ok_member_updated)
qed

lemma db_ok_task_services:
  assumes ok: "db_ok s"
  shows "create_task env a pid wid ti de pr dl par s = Inr (t, s') \<Longrightarrow> db_ok s'"
    "update_task env a pid wid tid ti' de' pr' dl' par' s = Inr (t, s') \<Longrightarrow> db_ok s'"
    "assign_task env a pid wid tid m s = Inr (x, s') \<Longrightarrow> db_ok s'"
    "start_task env a pid wid tid s = Inr (t, s') \<Longrightarrow> db_ok s'"
    "submit_deliverable env a pid wid tid url s = Inr (d, s') \<Longrightarrow> db_ok s'"
    "review_deliverable env a pid wid tid did rst c s = Inr (r, s') \<Longrightarrow> db_ok s'"
proof -
  show "db_ok s'" if "create_task env a pid wid ti de pr dl par s = Inr (t, s')"
    using that by (rule create_task_D)
      (auto elim!: db_ok_logged intro!: db_ok_updates ok dest: task_full_clean_tasks_ok)
  show "db_ok s'" if "update_task env a pid wid tid ti' de' pr' dl' par' s = Inr (t, s')"
    using that by (rule update_task_D) (auto intro: db_ok_task_edited ok)
  show "db_ok s'" if "assign_task env a pid wid tid m s = Inr (x, s')"
    using that by (rule assign_task_D)
      (auto elim!: db_ok_notified db_ok_logged intro!: db_ok_updates ok)
  show "db_ok s'" if "start_task env a pid wid tid s = Inr (t, s')"
    using that by (rule start_task_D) (auto elim!: db_ok_logged intro!: db_ok_updates ok)
  show "db_ok s'" if "submit_deliverable env a pid wid tid url s = Inr (d, s')"
    using that by (rule submit_deliverable_D)
      (auto elim!: db_ok_notified db_ok_logged intro!: db_ok_updates ok)
  show "db_ok s'" if "review_deliverable env a pid wid tid did rst c s = Inr (r, s')"
    using that by (rule review_deliverable_D)
      (auto elim!: db_ok_notified db_ok_logged intro!: db_ok_updates ok)
qed

lemma db_ok_comment_services:
  assumes ok: "db_ok s"
  shows "create_comment env a pid wid tid txt s = Inr (c, s') \<Longrightarrow> db_ok s'"
    "update_comment env a pid wid tid cid txt s = Inr (c, s') \<Longrightarrow> db_ok s'"
    "delete_comment env a pid wid tid cid s = Inr (c, s') \<Longrightarrow> db_ok s'"
    "mark_notification_read env a nid s = Inr (n, s') \<Longrightarrow> db_ok s'"
proof -
  show "db_ok s'" if "create_comment env a pid wid tid txt s = Inr (c, s')"
    using that by (rule create_comment_D)
      (auto elim!: db_ok_notified db_ok_logged intro!: db_ok_updates ok)
  show "db_ok s'" if "update_comment env a pid wid tid cid txt s = Inr (c, s')"
    using that by (rule update_comment_D) (auto simp: ok split: if_splits elim!: db_ok_comment_replaced)
  show "db_ok s'" if "delete_comment env a pid wid tid cid s = Inr (c, s')"
    using that by (rule delete_comment_D) (auto simp: ok split: if_splits elim!: db_ok_comment_replaced)
  show "db_ok s'" if "mark_notification_read env a nid s = Inr (n, s')"
    using that by (rule mark_notification_read_D) (auto simp: Let_def ok split: if_splits intro!: db_ok_updates)
qed

lemmas db_ok_services = db_ok_profile_services db_ok_workspace_services db_ok_task_services
  db_ok_comment_services

lemma db_ok_exec: "db_ok s \<Longrightarrow> exec env c s = Inr s' \<Longrightarrow> db_ok s'"
  by (cases c) (auto dest!: approve_is_review request_changes_is_review
      dest: db_ok_services invitation_services_effect [THEN effect_db_ok])

interpretation constraints: invariant db_ok
proof
  show "db_ok s" if "initial s" for s
    using that by (simp add: initial_def db_ok_def ok_defs)
qed (rule db_ok_exec)

end
