(* ===== verification/Ownership.thy ===== *)
theory Ownership
  imports System
begin

text \<open>
  Who answers for a tenant, over the membership rows: \<open>owned\<close> and \<open>managed\<close> take the set of
  accounts that count, all of them or the active ones, because an account may be deactivated
  without a word to this subsystem. Every command keeps what is owned and managed for any set that
  holds the active accounts, so two invariants come out of one lemma (\<open>exec_keeps_tenancy\<close>).
\<close>

definition owned :: "(uuid \<Rightarrow> bool) \<Rightarrow> profile_membership list \<Rightarrow> uuid \<Rightarrow> bool" where
  "owned A ms i \<longleftrightarrow> (\<exists>m\<in>set ms. pm_profile m = i \<and> pm_role m = PR_OWNER \<and> pm_is_active m \<and> A (pm_user m))"

definition managed :: "(uuid \<Rightarrow> bool) \<Rightarrow> profile_membership list \<Rightarrow> uuid \<Rightarrow> uuid \<Rightarrow> bool" where
  "managed A ms i u \<longleftrightarrow> A u
     \<and> (\<exists>m\<in>set ms. pm_profile m = i \<and> pm_user m = u \<and> is_manager (pm_role m) \<and> pm_is_active m)"

text \<open>
  What one transition keeps: owned Profiles stay owned, new ones are owned, and the owner of a
  stored Workspace manages its Profile unless that was already false of a Workspace of the same
  owner before.
\<close>

definition tenancy_kept :: "(uuid \<Rightarrow> bool) \<Rightarrow> db \<Rightarrow> db \<Rightarrow> bool" where
  "tenancy_kept A s s' \<longleftrightarrow> users s' = users s
     \<and> (\<forall>i. owned A (memberships s) i \<longrightarrow> owned A (memberships s') i)
     \<and> (\<forall>p\<in>set (profiles s'). p_id p \<in> p_id ` set (profiles s) \<or> owned A (memberships s') (p_id p))
     \<and> (\<forall>w\<in>set (workspaces s'). \<forall>p. w_profile w = Some p \<longrightarrow> managed A (memberships s') p (w_owner w)
         \<or> (\<exists>x\<in>set (workspaces s). w_profile x = Some p \<and> w_owner x = w_owner w
              \<and> \<not> managed A (memberships s) p (w_owner w)))"

subsection \<open>Services that leave the tenancy tables alone\<close>

definition tenancy_tables where
  "tenancy_tables s = (users s, profiles s, memberships s, workspaces s)"

lemma tenancy_logged: "logged a i act s s' \<Longrightarrow> tenancy_tables s' = tenancy_tables s"
  using logged_tables [of a i act s s'] by (simp add: tenancy_tables_def)

lemma tenancy_notified: "notified e et t us s s' \<Longrightarrow> tenancy_tables s' = tenancy_tables s"
  using notified_tables [of e et t us s s'] by (simp add: tenancy_tables_def)

lemma tenancy_updates [simp]:
  "tenancy_tables (s\<lparr>members := wms\<rparr>) = tenancy_tables s"
  "tenancy_tables (s\<lparr>tasks := ts\<rparr>) = tenancy_tables s"
  "tenancy_tables (s\<lparr>assignments := as\<rparr>) = tenancy_tables s"
  "tenancy_tables (s\<lparr>comments := cs\<rparr>) = tenancy_tables s"
  "tenancy_tables (s\<lparr>deliverables := ds\<rparr>) = tenancy_tables s"
  "tenancy_tables (s\<lparr>reviews := rs\<rparr>) = tenancy_tables s"
  "tenancy_tables (s\<lparr>notifications := ns\<rparr>) = tenancy_tables s"
  by (simp_all add: tenancy_tables_def)

lemma tenancy_member_updated: "member_updated a act m f s s' \<Longrightarrow> tenancy_tables s' = tenancy_tables s"
  by (auto simp: member_updated_def Let_def dest: tenancy_logged)

lemma tenancy_comment_replaced: "comment_replaced a act c f s s' \<Longrightarrow> tenancy_tables s' = tenancy_tables s"
  by (auto simp: comment_replaced_def Let_def dest: tenancy_logged)

lemma tenancy_task_edited: "task_edited a t edit t' s s' \<Longrightarrow> tenancy_tables s' = tenancy_tables s"
  by (auto simp: task_edited_def Let_def dest: tenancy_logged split: if_splits)

lemma tenancy_member_assigned:
  "member_assigned env a w r u x re s s' \<Longrightarrow> tenancy_tables s' = tenancy_tables s"
  by (auto simp: member_assigned_def dest: tenancy_logged tenancy_member_updated split: if_splits)

lemma tenancy_member_services:
  "add_workspace_member env a pid wid mid r s = Inr (m, s') \<Longrightarrow> tenancy_tables s' = tenancy_tables s"
  "update_workspace_member env a pid wid mid r s = Inr (x, s') \<Longrightarrow> tenancy_tables s' = tenancy_tables s"
  "revoke_workspace_member env a pid wid mid s = Inr (x, s') \<Longrightarrow> tenancy_tables s' = tenancy_tables s"
proof -
  show "tenancy_tables s' = tenancy_tables s" if "add_workspace_member env a pid wid mid r s = Inr (m, s')"
  proof (cases m)
    case (Pair x re)
    with that show ?thesis by (auto elim!: add_workspace_member_D dest: tenancy_member_assigned)
  qed
  show "tenancy_tables s' = tenancy_tables s" if "update_workspace_member env a pid wid mid r s = Inr (x, s')"
    using that by (rule update_workspace_member_D) (auto split: if_splits dest: tenancy_member_updated)
  show "tenancy_tables s' = tenancy_tables s" if "revoke_workspace_member env a pid wid mid s = Inr (x, s')"
    using that by (rule revoke_workspace_member_D) (rule tenancy_member_updated)
qed

lemma tenancy_task_services:
  "create_task env a pid wid ti de pr dl par s = Inr (t, s') \<Longrightarrow> tenancy_tables s' = tenancy_tables s"
  "update_task env a pid wid tid ti' de' pr' dl' par' s = Inr (t, s') \<Longrightarrow> tenancy_tables s' = tenancy_tables s"
  "assign_task env a pid wid tid m s = Inr (x, s') \<Longrightarrow> tenancy_tables s' = tenancy_tables s"
  "start_task env a pid wid tid s = Inr (t, s') \<Longrightarrow> tenancy_tables s' = tenancy_tables s"
  "submit_deliverable env a pid wid tid url s = Inr (d, s') \<Longrightarrow> tenancy_tables s' = tenancy_tables s"
  "review_deliverable env a pid wid tid did rst c s = Inr (r, s') \<Longrightarrow> tenancy_tables s' = tenancy_tables s"
proof -
  show "tenancy_tables s' = tenancy_tables s" if "create_task env a pid wid ti de pr dl par s = Inr (t, s')"
    using that by (rule create_task_D) (auto dest: tenancy_logged)
  show "tenancy_tables s' = tenancy_tables s" if "update_task env a pid wid tid ti' de' pr' dl' par' s = Inr (t, s')"
    using that by (rule update_task_D) (rule tenancy_task_edited)
  show "tenancy_tables s' = tenancy_tables s" if "assign_task env a pid wid tid m s = Inr (x, s')"
    using that by (rule assign_task_D) (auto dest!: tenancy_logged tenancy_notified)
  show "tenancy_tables s' = tenancy_tables s" if "start_task env a pid wid tid s = Inr (t, s')"
    using that by (rule start_task_D) (auto dest: tenancy_logged)
  show "tenancy_tables s' = tenancy_tables s" if "submit_deliverable env a pid wid tid url s = Inr (d, s')"
    using that by (rule submit_deliverable_D) (auto dest!: tenancy_logged tenancy_notified)
  show "tenancy_tables s' = tenancy_tables s" if "review_deliverable env a pid wid tid did rst c s = Inr (r, s')"
    using that by (rule review_deliverable_D) (auto dest!: tenancy_logged tenancy_notified)
qed

lemma tenancy_comment_services:
  "create_comment env a pid wid tid txt s = Inr (c, s') \<Longrightarrow> tenancy_tables s' = tenancy_tables s"
  "update_comment env a pid wid tid cid txt s = Inr (c, s') \<Longrightarrow> tenancy_tables s' = tenancy_tables s"
  "delete_comment env a pid wid tid cid s = Inr (c, s') \<Longrightarrow> tenancy_tables s' = tenancy_tables s"
  "mark_notification_read env a nid s = Inr (n, s') \<Longrightarrow> tenancy_tables s' = tenancy_tables s"
proof -
  show "tenancy_tables s' = tenancy_tables s" if "create_comment env a pid wid tid txt s = Inr (c, s')"
    using that by (rule create_comment_D) (auto dest!: tenancy_logged tenancy_notified)
  show "tenancy_tables s' = tenancy_tables s" if "update_comment env a pid wid tid cid txt s = Inr (c, s')"
    using that by (rule update_comment_D) (auto split: if_splits dest: tenancy_comment_replaced)
  show "tenancy_tables s' = tenancy_tables s" if "delete_comment env a pid wid tid cid s = Inr (c, s')"
    using that by (rule delete_comment_D) (auto split: if_splits dest: tenancy_comment_replaced)
  show "tenancy_tables s' = tenancy_tables s" if "mark_notification_read env a nid s = Inr (n, s')"
    using that by (rule mark_notification_read_D) (auto simp: Let_def split: if_splits)
qed

lemmas tenancy_unchanged = tenancy_member_services tenancy_task_services tenancy_comment_services

subsection \<open>Rows that only grow\<close>

lemma kept_owned: "\<forall>m\<in>set ms. \<exists>m'\<in>set ms'. membership_kept m m' \<Longrightarrow> owned A ms i \<Longrightarrow> owned A ms' i"
  unfolding owned_def membership_kept_def by metis

lemma kept_managed: "\<forall>m\<in>set ms. \<exists>m'\<in>set ms'. membership_kept m m' \<Longrightarrow> managed A ms i u \<Longrightarrow> managed A ms' i u"
  unfolding managed_def membership_kept_def by metis

lemma kept_rows:
  assumes "users s' = users s" "\<forall>m\<in>set (memberships s). \<exists>m'\<in>set (memberships s'). membership_kept m m'"
    and "\<forall>p\<in>set (profiles s'). p_id p \<in> p_id ` set (profiles s) \<or> owned A (memberships s') (p_id p)"
    and "\<forall>w\<in>set (workspaces s'). managed A (memberships s') (the (w_profile w)) (w_owner w)
       \<or> (\<exists>x\<in>set (workspaces s). w_profile x = w_profile w \<and> w_owner x = w_owner w)"
  shows "tenancy_kept A s s'"
proof -
  have "managed A (memberships s') p (w_owner w)
      \<or> (\<exists>x\<in>set (workspaces s). w_profile x = Some p \<and> w_owner x = w_owner w
           \<and> \<not> managed A (memberships s) p (w_owner w))"
    if "w \<in> set (workspaces s')" "w_profile w = Some p" for w p
    using assms(4) that kept_managed [OF assms(2), of A p "w_owner w"] by fastforce
  with assms(1,3) kept_owned [OF assms(2)] show ?thesis unfolding tenancy_kept_def by blast
qed

lemma membership_kept_refl [simp]: "membership_kept m m"
  by (simp add: membership_kept_def)

lemma kept_same_rows: "set ms \<subseteq> set ms' \<Longrightarrow> \<forall>m\<in>set ms. \<exists>m'\<in>set ms'. membership_kept m m'"
  by (auto intro: membership_kept_refl)

lemma kept_tables: "tenancy_tables s' = tenancy_tables s \<Longrightarrow> tenancy_kept A s s'"
  by (rule kept_rows) (auto simp: tenancy_tables_def intro: membership_kept_refl)

lemma kept_invitations: "invitation_effect a s s' \<Longrightarrow> db_ok s \<Longrightarrow> tenancy_kept A s s'"
  by (rule kept_rows) (auto simp: invitation_effect_def core_tables_def memberships_grow_def)

lemma kept_set_profile_status:
  "set_profile_status env a pid st s = Inr (p', s') \<Longrightarrow> tenancy_kept A s s'"
  by (drule set_profile_status_D, rule kept_rows)
    (force simp: Let_def logged_def in_update_where split: if_splits intro!: kept_same_rows)+

lemma kept_workspace_updates:
  "update_workspace env a pid wid name' descr' s = Inr (w, s') \<Longrightarrow> tenancy_kept A s s'"
  "set_workspace_status env a pid wid st s = Inr (w, s') \<Longrightarrow> tenancy_kept A s s'"
proof -
  show "tenancy_kept A s s'" if "update_workspace env a pid wid name' descr' s = Inr (w, s')"
    using that by (rule update_workspace_D)
      (rule kept_rows; force simp: Let_def logged_def in_update_where split: if_splits intro!: kept_same_rows)
  show "tenancy_kept A s s'" if "set_workspace_status env a pid wid st s = Inr (w, s')"
    using that by (rule set_workspace_status_D)
      (rule kept_rows; force simp: Let_def logged_def in_update_where split: if_splits intro!: kept_same_rows)
qed

text \<open>The creators are active accounts, so they count.\<close>

lemma kept_create_profile:
  assumes "create_profile_with_owner env name owner act s = Inr (p, s')" "\<And>u. user_active s u \<Longrightarrow> A u"
  shows "tenancy_kept A s s'"
proof -
  obtain u where u: "user_active s u"
    and s': "users s' = users s" "workspaces s' = workspaces s" "profiles s' = profiles s @ [p]"
      "memberships s' = memberships s @ [new_owner_membership env p u]"
    using create_profile_D [OF assms(1)] by (auto simp: logged_def)
  have "owned A (memberships s') (p_id p)"
    using s' assms(2) [OF u] by (simp add: owned_def new_owner_membership_def)
  then show ?thesis
    using s' by (intro kept_rows kept_same_rows) auto
qed

lemma kept_create_workspace:
  assumes "create_workspace env a pid name d descr s = Inr (w, s')" "\<And>u. user_active s u \<Longrightarrow> A u"
  shows "tenancy_kept A s s'"
proof -
  obtain p r e where p: "is_manager r" "holds_profile_role s a p r"
    and w: "w = new_workspace env p a name e descr"
    and s': "users s' = users s" "memberships s' = memberships s" "workspaces s' = workspaces s @ [w]"
      "profiles s' = profiles s"
    using create_workspace_D [OF assms(1)] by (auto simp: logged_def)
  have "managed A (memberships s') p a"
    using p assms(2) by (auto simp: s' managed_def holds_profile_role_def)
  then show ?thesis
    using s' w by (intro kept_rows kept_same_rows) (auto simp: new_workspace_def)
qed

subsection \<open>Membership changes\<close>

text \<open>
  The one service that takes roles away. When it takes the role of an Owner whose account is
  active it has seen another such Owner; when that account is not active, the acting Owner is one.
\<close>

lemma kept_update_membership:
  assumes c: "update_profile_membership env a pid mid role act s = Inr (m', s')"
    and ok: "db_ok s" and A: "\<And>u. user_active s u \<Longrightarrow> A u"
  shows "tenancy_kept A s s'"
  using c
proof (rule update_profile_membership_E)
  fix m am r b
  assume m: "m \<in> set (memberships s)"
    and am: "is_manager am" "holds_profile_role s a (pm_profile m) am" "am = PR_ADMIN \<longrightarrow> pm_role m = PR_MEMBER \<and> r = PR_MEMBER"
    and last: "pm_role m = PR_OWNER \<and> pm_is_active m \<and> user_active s (pm_user m) \<and> (r \<noteq> PR_OWNER \<or> \<not> b)
       \<longrightarrow> other_active_owner m s"
    and keep: "pm_is_active m \<and> is_manager (pm_role m) \<and> (\<not> b \<or> \<not> is_manager r)
       \<longrightarrow> \<not> owns_workspace (pm_profile m) (pm_user m) s"
    and sv: "membership_saved env a m r b m' s s'"
  show ?thesis
  proof (cases "pm_role m = r \<and> pm_is_active m = b")
    case True
    with sv show ?thesis by (simp add: membership_saved_def kept_tables)
  next
    case False
    let ?f = "\<lambda>x. x\<lparr>pm_role := r, pm_is_active := b, pm_updated_at := e_now env\<rparr>"
    from sv False have t: "users s' = users s" "profiles s' = profiles s" "workspaces s' = workspaces s"
      "memberships s' = update_where (\<lambda>x. pm_id x = pm_id m) ?f (memberships s)"
      by (auto simp: membership_saved_def Let_def logged_def)
    have new: "?f m \<in> set (memberships s')" using m by (auto simp: t(4) in_update_where)
    have rest: "x \<in> set (memberships s')" if "x \<in> set (memberships s)" "x \<noteq> m" for x
      using membership_pk_unique [OF db_okD(2) [OF ok] that(1) m] that by (force simp: t(4) in_update_where)
    have "owned A (memberships s') i" if o: "owned A (memberships s) i" for i
    proof (cases "\<exists>x\<in>set (memberships s). x \<noteq> m \<and> pm_profile x = i \<and> pm_role x = PR_OWNER \<and> pm_is_active x \<and> A (pm_user x)")
      case True
      with rest show ?thesis by (auto simp: owned_def)
    next
      case none: False
      with o have i: "pm_profile m = i" "pm_role m = PR_OWNER" "pm_is_active m" "A (pm_user m)"
        by (auto simp: owned_def)
      have "am = PR_OWNER" using am(1,3) i(2) by (cases am) auto
      then obtain y where y: "y \<in> set (memberships s)" "pm_profile y = i" "pm_user y = a" "pm_role y = PR_OWNER"
        "pm_is_active y" "user_active s a"
        using am(2) i(1) by (auto simp: holds_profile_role_def)
      then have "y = m" using none A by blast
      with y have "user_active s (pm_user m)" by simp
      moreover have "\<not> other_active_owner m s" using none A i by (auto simp: other_active_owner_def)
      ultimately have "r = PR_OWNER \<and> b" using last i by blast
      with i have "pm_profile (?f m) = i" "pm_role (?f m) = PR_OWNER" "pm_is_active (?f m)" "A (pm_user (?f m))"
        by simp_all
      with new show ?thesis unfolding owned_def by blast
    qed
    moreover have "managed A (memberships s') p (w_owner w)"
      if w: "w \<in> set (workspaces s)" "w_profile w = Some p" and g: "managed A (memberships s) p (w_owner w)" for w p
    proof -
      obtain x where x: "x \<in> set (memberships s)" "pm_profile x = p" "pm_user x = w_owner w"
        "is_manager (pm_role x)" "pm_is_active x" "A (w_owner w)"
        using g by (auto simp: managed_def)
      show ?thesis
      proof (cases "x = m")
        case True
        with x w have "owns_workspace (pm_profile m) (pm_user m) s" by (auto simp: owns_workspace_def)
        with keep x True have "b" "is_manager r" by blast+
        with x True have "pm_profile (?f m) = p" "pm_user (?f m) = w_owner w" "is_manager (pm_role (?f m))"
          "pm_is_active (?f m)" by simp_all
        with new x(6) show ?thesis unfolding managed_def by blast
      next
        case False
        with rest x show ?thesis by (auto simp: managed_def)
      qed
    qed
    ultimately show ?thesis using t by (auto simp: tenancy_kept_def)
  qed
qed

subsection \<open>Every command\<close>

lemma exec_keeps_tenancy:
  assumes "exec env c s = Inr s'" "db_ok s" "\<And>u. user_active s u \<Longrightarrow> A u"
  shows "tenancy_kept A s s'"
  using assms(1)
  by (cases c) (auto dest!: approve_is_review request_changes_is_review
      dest: kept_create_profile [OF _ assms(3)] kept_create_workspace [OF _ assms(3)]
        kept_update_membership [OF _ assms(2,3)] kept_set_profile_status kept_workspace_updates tenancy_unchanged [THEN kept_tables]
        invitation_services_effect [THEN kept_invitations [OF _ assms(2)]])

text \<open>Over all accounts, active or not, it is an invariant: rows are never orphaned.\<close>

definition ownership_rows :: "db \<Rightarrow> bool" where
  "ownership_rows s \<longleftrightarrow> (\<forall>p\<in>set (profiles s). owned (\<lambda>_. True) (memberships s) (p_id p))
     \<and> (\<forall>w\<in>set (workspaces s). \<forall>p. w_profile w = Some p \<longrightarrow> managed (\<lambda>_. True) (memberships s) p (w_owner w))"

lemma kept_ownership_rows:
  assumes "tenancy_kept (\<lambda>_. True) s s'" "ownership_rows s"
  shows "ownership_rows s'"
proof -
  have k: "owned (\<lambda>_. True) (memberships s) i \<Longrightarrow> owned (\<lambda>_. True) (memberships s') i"
    "p \<in> set (profiles s') \<Longrightarrow> p_id p \<in> p_id ` set (profiles s) \<or> owned (\<lambda>_. True) (memberships s') (p_id p)"
    "w \<in> set (workspaces s') \<Longrightarrow> w_profile w = Some i \<Longrightarrow> managed (\<lambda>_. True) (memberships s') i (w_owner w)
       \<or> (\<exists>x\<in>set (workspaces s). w_profile x = Some i \<and> w_owner x = w_owner w
            \<and> \<not> managed (\<lambda>_. True) (memberships s) i (w_owner w))" for i p w
    using assms(1) unfolding tenancy_kept_def by blast+
  have "owned (\<lambda>_. True) (memberships s') (p_id p)" if "p \<in> set (profiles s')" for p
    using k(2) [OF that] k(1) assms(2) by (auto simp: ownership_rows_def)
  moreover have "managed (\<lambda>_. True) (memberships s') i (w_owner w)"
    if "w \<in> set (workspaces s')" "w_profile w = Some i" for w i
    using k(3) [OF that] assms(2) by (fastforce simp: ownership_rows_def)
  ultimately show ?thesis by (simp add: ownership_rows_def)
qed

lemma ownership_rows_frame:
  "profiles s' = profiles s \<Longrightarrow> memberships s' = memberships s \<Longrightarrow> workspaces s' = workspaces s \<Longrightarrow>
     ownership_rows s' = ownership_rows s"
  by (simp add: ownership_rows_def)

interpretation ownership: dependent_invariant db_ok ownership_rows
proof unfold_locales
  show "ownership_rows s" if "initial s" for s using that by (simp add: initial_def ownership_rows_def)
  show "ownership_rows s'" if "db_ok s" "ownership_rows s" "exec env c s = Inr s'" for env c s s'
    using kept_ownership_rows [OF exec_keeps_tenancy [OF that(3,1)] that(2)] by simp
qed

end
