(* ===== verification/Workflow.thy ===== *)
theory Workflow
  imports Ownership
begin

text \<open>
  The Task workflow as a contract: \<open>consistent\<close> relates the status of a Task to its assignments and
  Deliverables, \<open>decided\<close> the status of a Deliverable to its Review, and \<open>legal\<close> lists the status
  changes. The services keep the first two as invariants and perform only legal changes; the
  hierarchy of \<open>Task_Hierarchy\<close> is an invariant as well.
\<close>

subsection \<open>The contract\<close>

inductive legal :: "task_status \<Rightarrow> task_status \<Rightarrow> bool" where
  assign: "st \<in> {TS_PENDING, TS_ASSIGNED, TS_WORKING} \<Longrightarrow> legal st TS_ASSIGNED"
| start: "legal TS_ASSIGNED TS_WORKING"
| submit: "legal TS_WORKING TS_REVIEW"
| approve: "legal TS_REVIEW TS_COMPLETED"
| reject: "legal TS_REVIEW TS_WORKING"

inductive_cases legal_completedE: "legal TS_COMPLETED st"
inductive_simps legal_iff: "legal st st'"

definition has_assignee :: "task_assignment list \<Rightarrow> uuid \<Rightarrow> bool" where
  "has_assignee as i \<longleftrightarrow> (\<exists>a\<in>set as. ta_task a = i \<and> ta_is_active a)"

definition unresolved :: "deliverable \<Rightarrow> bool" where
  "unresolved d \<longleftrightarrow> d_status d \<in> {DS_PENDING, DS_SUBMITTED}"

definition awaiting_review :: "deliverable list \<Rightarrow> uuid \<Rightarrow> bool" where
  "awaiting_review ds i \<longleftrightarrow> (\<exists>d\<in>set ds. d_task d = i \<and> unresolved d)"

definition has_approved :: "deliverable list \<Rightarrow> uuid \<Rightarrow> bool" where
  "has_approved ds i \<longleftrightarrow> (\<exists>d\<in>set ds. d_task d = i \<and> d_status d = DS_APPROVED)"

text \<open>Status, an active assignee, an unresolved Deliverable, an approved Deliverable.\<close>

fun consistent :: "task_status \<Rightarrow> bool \<Rightarrow> bool \<Rightarrow> bool \<Rightarrow> bool" where
  "consistent TS_PENDING a u ok \<longleftrightarrow> \<not> a \<and> \<not> u \<and> \<not> ok"
| "consistent TS_ASSIGNED a u ok \<longleftrightarrow> a \<and> \<not> u \<and> \<not> ok"
| "consistent TS_WORKING a u ok \<longleftrightarrow> a \<and> \<not> u \<and> \<not> ok"
| "consistent TS_REVIEW a u ok \<longleftrightarrow> a \<and> u \<and> \<not> ok"
| "consistent TS_COMPLETED a u ok \<longleftrightarrow> a \<and> \<not> u \<and> ok"
| "consistent TS_CANCELLED a u ok \<longleftrightarrow> False"

definition task_consistent :: "task_assignment list \<Rightarrow> deliverable list \<Rightarrow> task \<Rightarrow> bool" where
  "task_consistent as ds t \<longleftrightarrow>
     consistent (t_status t) (has_assignee as (t_id t)) (awaiting_review ds (t_id t))
       (has_approved ds (t_id t))"

text \<open>A submitted Deliverable has no Review; a decided one has the matching Review of another user.\<close>

definition decided :: "review list \<Rightarrow> deliverable \<Rightarrow> bool" where
  "decided rs d \<longleftrightarrow> (case d_status d of
     DS_PENDING \<Rightarrow> False
   | DS_SUBMITTED \<Rightarrow> \<forall>r\<in>set rs. r_deliverable r \<noteq> d_id d
   | DS_APPROVED \<Rightarrow> \<exists>r\<in>set rs. r_deliverable r = d_id d \<and> r_status r = RS_APPROVED
       \<and> r_reviewer r \<noteq> d_uploaded_by d
   | DS_REJECTED \<Rightarrow> \<exists>r\<in>set rs. r_deliverable r = d_id d \<and> r_status r = RS_REQUEST_CHANGE
       \<and> r_reviewer r \<noteq> d_uploaded_by d)"

definition one_unresolved :: "deliverable list \<Rightarrow> bool" where
  "one_unresolved ds \<longleftrightarrow> (\<forall>d\<in>set ds. \<forall>e\<in>set ds. d_task d = d_task e \<longrightarrow> unresolved d \<longrightarrow> unresolved e
     \<longrightarrow> d = e)"

definition references_ok :: "task list \<Rightarrow> task_assignment list \<Rightarrow> deliverable list \<Rightarrow> review list \<Rightarrow> bool" where
  "references_ok ts as ds rs \<longleftrightarrow> ta_task ` set as \<subseteq> t_id ` set ts \<and> d_task ` set ds \<subseteq> t_id ` set ts
     \<and> r_deliverable ` set rs \<subseteq> d_id ` set ds"

definition workflow_lists :: "task list \<Rightarrow> task_assignment list \<Rightarrow> deliverable list \<Rightarrow> review list \<Rightarrow> bool" where
  "workflow_lists ts as ds rs \<longleftrightarrow> (\<forall>t\<in>set ts. task_consistent as ds t) \<and> (\<forall>d\<in>set ds. decided rs d)
     \<and> one_unresolved ds \<and> references_ok ts as ds rs"

definition workflow_inv :: "db \<Rightarrow> bool" where
  "workflow_inv s \<longleftrightarrow> workflow_lists (tasks s) (assignments s) (deliverables s) (reviews s)"

lemma workflow_listsD:
  assumes "workflow_lists ts as ds rs"
  shows "t \<in> set ts \<Longrightarrow> task_consistent as ds t" "d \<in> set ds \<Longrightarrow> decided rs d"
    "one_unresolved ds" "references_ok ts as ds rs"
  using assms by (simp_all add: workflow_lists_def)

subsection \<open>Locality: an operation on one Task\<close>

definition others :: "('r \<Rightarrow> uuid) \<Rightarrow> uuid \<Rightarrow> 'r list \<Rightarrow> 'r set" where
  "others k i xs = {x \<in> set xs. k x \<noteq> i}"

lemma others_append [simp]: "k x = i \<Longrightarrow> others k i (xs @ [x]) = others k i xs"
  by (auto simp: others_def)

lemma others_update:
  assumes "\<And>x. x \<in> set xs \<Longrightarrow> P x \<Longrightarrow> k x = i \<and> k (f x) = i"
  shows "others k i (update_where P f xs) = others k i xs"
proof -
  have "k (f x) = i" "k x = i" if "x \<in> set xs" "P x" for x using assms that by blast+
  then show ?thesis unfolding others_def in_update_where
    by (intro Collect_cong) (metis (no_types, lifting))
qed

lemma others_views:
  assumes "j \<noteq> i"
  shows "others ta_task i as = others ta_task i as' \<Longrightarrow> has_assignee as j = has_assignee as' j"
    "others d_task i ds = others d_task i ds' \<Longrightarrow> awaiting_review ds j = awaiting_review ds' j"
    "others d_task i ds = others d_task i ds' \<Longrightarrow> has_approved ds j = has_approved ds' j"
  using assms unfolding others_def has_assignee_def awaiting_review_def has_approved_def
  by (metis (mono_tags, lifting) mem_Collect_eq)+

lemma consistent_after:
  assumes old: "\<And>x. x \<in> set ts \<Longrightarrow> task_consistent as ds x"
    and d: "distinct (map t_id ts)" and t: "t \<in> set ts"
    and as: "others ta_task (t_id t) as' = others ta_task (t_id t) as"
    and ds: "others d_task (t_id t) ds' = others d_task (t_id t) ds"
    and new: "consistent st (has_assignee as' (t_id t)) (awaiting_review ds' (t_id t)) (has_approved ds' (t_id t))"
    and x: "x \<in> set (status_rows env t st ts)"
  shows "task_consistent as' ds' x"
proof -
  obtain y where y: "y \<in> set ts" "x = (if t_id y = t_id t then set_status env st y else y)"
    using x by (auto simp: status_rows_def in_update_where)
  show ?thesis
  proof (cases "t_id y = t_id t")
    case True
    with new y show ?thesis by (simp add: task_consistent_def)
  next
    case False
    with old [OF y(1)] y others_views(1) [OF False as] others_views(2,3) [OF False ds] show ?thesis
      by (simp add: task_consistent_def)
  qed
qed

lemma status_rows_map_id [simp]: "map t_id (status_rows env t st ts) = map t_id ts"
  by (simp add: status_rows_def map_update_where)

lemma status_rows_ids [simp]: "t_id ` set (status_rows env t st ts) = t_id ` set ts"
  using status_rows_map_id [of env t st ts] by (metis set_map)

subsection \<open>Assigning\<close>

lemma assignment_pk_unique:
  "assignments_ok as \<Longrightarrow> a \<in> set as \<Longrightarrow> b \<in> set as \<Longrightarrow> ta_id a = ta_id b \<Longrightarrow> a = b"
  by (rule distinct_map_eq [of ta_id]) (simp_all add: assignments_ok_def)

lemma assignment_row_simps [simp]:
  "ta_id (deactivate_assignment env a) = ta_id a" "ta_task (deactivate_assignment env a) = ta_task a"
  "\<not> ta_is_active (deactivate_assignment env a)"
  "ta_id (reactivate_assignment env a) = ta_id a" "ta_task (reactivate_assignment env a) = ta_task a"
  "ta_is_active (reactivate_assignment env a)"
  "ta_task (new_assignment env t u) = t" "ta_is_active (new_assignment env t u)"
  by (simp_all add: deactivate_assignment_def reactivate_assignment_def new_assignment_def)

lemma released_others:
  assumes "distinct (map ta_id as)" "active = first_by ta_id (\<lambda>a. ta_task a = t \<and> ta_is_active a) as"
  shows "others ta_task t (released_rows env active as) = others ta_task t as"
    "distinct (map ta_id (released_rows env active as))"
proof -
  show "distinct (map ta_id (released_rows env active as))"
    using assms(1) by (simp add: released_rows_def map_update_where split: option.split)
  show "others ta_task t (released_rows env active as) = others ta_task t as"
  proof (cases active)
    case None
    then show ?thesis by (simp add: released_rows_def)
  next
    case (Some a)
    then have a: "a \<in> set as" "ta_task a = t" using first_by_Some_in [OF assms(2) [symmetric, unfolded Some]] by simp_all
    have "ta_task x = t" if "x \<in> set as" "ta_id x = ta_id a" for x
      using distinct_map_eq [OF assms(1) that(1) a(1) that(2)] a(2) by simp
    then show ?thesis by (simp add: Some released_rows_def others_update)
  qed
qed

lemma taken_others:
  assumes d: "distinct (map ta_id as)"
  shows "others ta_task t (taken_rows env t u as) = others ta_task t as"
proof (cases "first_by ta_id (\<lambda>a. ta_task a = t \<and> ta_user a = u) as")
  case None
  then show ?thesis by (simp add: taken_rows_def del: first_by_None)
next
  case (Some old)
  note old = first_by_Some_in [OF Some]
  have "ta_task x = t" if "x \<in> set as" "ta_id x = ta_id old" for x
    using distinct_map_eq [OF d that(1) _ that(2)] old by blast
  then show ?thesis by (simp add: Some taken_rows_def others_update)
qed

lemma workflow_assign:
  assumes ok: "db_ok s" and wf: "workflow_inv s" and c: "assign_task env a pid wid tid target s = Inr (x, s')"
  shows "workflow_inv s'"
  using c
proof (rule assign_task_D)
  fix au w p t m active s3 s4 k
  assume tl: "task_locked a pid wid tid s au w p t"
    and st: "t_status t \<in> {TS_PENDING, TS_ASSIGNED, TS_WORKING}"
    and act: "active = first_by ta_id (\<lambda>a. ta_task a = t_id t \<and> ta_is_active a) (assignments s)"
    and s3: "s3 = s\<lparr>assignments := taken_rows env (t_id t) (pm_user m) (released_rows env active (assignments s)),
       tasks := status_rows env t TS_ASSIGNED (tasks s)\<rparr>"
    and x: "x \<in> set (assignments s3)" "ta_task x = t_id t" "ta_is_active x"
    and lg: "logged a (ta_id x) (if active = None then ''task.assigned'' else ''task.reassigned'') s3 s4"
    and n: "notified (e_uuid env k) TASK_ASSIGNED (t_id t) (event_users a (w_id w) s) s4 s'"
  let ?as = "taken_rows env (t_id t) (pm_user m) (released_rows env active (assignments s))"
  have t: "t \<in> set (tasks s)" using tl by (simp add: task_locked_def)
  note wfD = workflow_listsD [OF wf [unfolded workflow_inv_def]]
  have das: "distinct (map ta_id (assignments s))" and dts: "distinct (map t_id (tasks s))"
    using db_okD(5,6) [OF ok] by (simp_all add: assignments_ok_def tasks_ok_def)
  have oth: "others ta_task (t_id t) ?as = others ta_task (t_id t) (assignments s)"
    using released_others [OF das act] taken_others by metis
  have new: "consistent TS_ASSIGNED (has_assignee ?as (t_id t)) (awaiting_review (deliverables s) (t_id t))
      (has_approved (deliverables s) (t_id t))"
    using wfD(1) [OF t] st x s3 by (auto simp: task_consistent_def has_assignee_def)
  have "references_ok (status_rows env t TS_ASSIGNED (tasks s)) ?as (deliverables s) (reviews s)"
  proof -
    have "ta_task y \<in> t_id ` set (tasks s)" if y: "y \<in> set ?as" for y
    proof (cases "ta_task y = t_id t")
      case True
      with t show ?thesis by auto
    next
      case False
      with y oth have "y \<in> set (assignments s)" by (auto simp: others_def)
      with wfD(4) show ?thesis by (auto simp: references_ok_def)
    qed
    with wfD(4) show ?thesis by (auto simp: references_ok_def)
  qed
  moreover have "task_consistent ?as (deliverables s) y" if "y \<in> set (status_rows env t TS_ASSIGNED (tasks s))" for y
    using consistent_after [OF wfD(1) dts t oth refl new that] .
  ultimately have "workflow_lists (status_rows env t TS_ASSIGNED (tasks s)) ?as (deliverables s) (reviews s)"
    using wfD(2,3) by (simp add: workflow_lists_def)
  then show ?thesis
    using s3 logged_tables [OF lg] notified_tables [OF n] by (simp add: workflow_inv_def)
qed

subsection \<open>Starting, submitting, reviewing\<close>

lemma references_status [simp]:
  "references_ok (status_rows env t st ts) as ds rs = references_ok ts as ds rs"
  by (simp add: references_ok_def)

lemma workflow_start:
  assumes ok: "db_ok s" and wf: "workflow_inv s" and c: "start_task env a pid wid tid s = Inr (t', s')"
  shows "workflow_inv s'"
  using c
proof (rule start_task_D)
  fix w p t x
  assume tl: "task_locked a pid wid tid s (Assigned WR_MEMBER) w p t" and st: "t_status t = TS_ASSIGNED"
    and lg: "logged a (t_id t) ''task.started'' (s\<lparr>tasks := status_rows env t TS_WORKING (tasks s)\<rparr>) s'"
  have t: "t \<in> set (tasks s)" using tl by (simp add: task_locked_def)
  have dts: "distinct (map t_id (tasks s))" using db_okD(5) [OF ok] by (simp add: tasks_ok_def)
  note wfD = workflow_listsD [OF wf [unfolded workflow_inv_def]]
  have "consistent TS_WORKING (has_assignee (assignments s) (t_id t)) (awaiting_review (deliverables s) (t_id t))
      (has_approved (deliverables s) (t_id t))"
    using wfD(1) [OF t] st by (simp add: task_consistent_def)
  from consistent_after [OF wfD(1) dts t refl refl this]
  have "workflow_lists (status_rows env t TS_WORKING (tasks s)) (assignments s) (deliverables s) (reviews s)"
    using wfD(2-4) by (simp add: workflow_lists_def)
  then show ?thesis using logged_tables [OF lg] by (simp add: workflow_inv_def)
qed

lemma deliverable_simps [simp]:
  "d_id (new_deliverable env t url u n) = e_uuid env 0" "d_task (new_deliverable env t url u n) = t"
  "d_status (new_deliverable env t url u n) = DS_SUBMITTED"
  "d_uploaded_by (new_deliverable env t url u n) = u"
  "d_revision (new_deliverable env t url u n) = Some n"
  "d_id (decide_deliverable env st d) = d_id d" "d_task (decide_deliverable env st d) = d_task d"
  "d_status (decide_deliverable env st d) = st"
  "d_uploaded_by (decide_deliverable env st d) = d_uploaded_by d"
  "d_revision (decide_deliverable env st d) = d_revision d"
  "r_id (new_review env i u rst c) = e_uuid env 0" "r_deliverable (new_review env i u rst c) = i"
  "r_reviewer (new_review env i u rst c) = u" "r_status (new_review env i u rst c) = rst"
  by (simp_all add: new_deliverable_def decide_deliverable_def new_review_def)

lemma workflow_submit:
  assumes ok: "db_ok s" and wf: "workflow_inv s"
    and c: "submit_deliverable env a pid wid tid url s = Inr (d, s')"
  shows "workflow_inv s'"
  using c
proof (rule submit_deliverable_D)
  fix w p t x s2 s3
  assume tl: "task_locked a pid wid tid s (Assigned WR_MEMBER) w p t" and st: "t_status t = TS_WORKING"
    and res: "\<And>x. x \<in> set (deliverables s) \<Longrightarrow> d_task x = t_id t \<Longrightarrow> d_status x \<in> {DS_APPROVED, DS_REJECTED}"
    and d: "d = new_deliverable env (t_id t) url a (latest_revision (t_id t) s + 1)"
    and dok: "deliverables_ok (deliverables s @ [d])"
    and s2: "s2 = s\<lparr>deliverables := deliverables s @ [d], tasks := status_rows env t TS_REVIEW (tasks s)\<rparr>"
    and lg: "logged a (d_id d) ''task.deliverable.submitted'' s2 s3"
    and n: "notified (e_uuid env 1) REVIEW_SUBMITTED (t_id t) (event_users a (w_id w) s) s3 s'"
  let ?ds = "deliverables s @ [d]"
  have t: "t \<in> set (tasks s)" using tl by (simp add: task_locked_def)
  have dts: "distinct (map t_id (tasks s))" using db_okD(5) [OF ok] by (simp add: tasks_ok_def)
  note wfD = workflow_listsD [OF wf [unfolded workflow_inv_def]]
  have oth: "others d_task (t_id t) ?ds = others d_task (t_id t) (deliverables s)" using d by simp
  have fresh: "d_id d \<notin> d_id ` set (deliverables s)" using dok by (simp add: deliverables_ok_def)
  have new: "consistent TS_REVIEW (has_assignee (assignments s) (t_id t)) (awaiting_review ?ds (t_id t))
      (has_approved ?ds (t_id t))"
    using wfD(1) [OF t] st d
    by (auto simp: task_consistent_def awaiting_review_def has_approved_def unresolved_def)
  have "r_deliverable x \<noteq> d_id d" if "x \<in> set (reviews s)" for x
  proof -
    have "r_deliverable ` set (reviews s) \<subseteq> d_id ` set (deliverables s)"
      using wfD(4) by (simp add: references_ok_def)
    with that have "r_deliverable x \<in> d_id ` set (deliverables s)" by (simp add: image_subset_iff)
    with fresh show ?thesis by metis
  qed
  then have "decided (reviews s) d" using d by (simp add: decided_def)
  moreover have "one_unresolved ?ds"
  proof -
    have "\<not> unresolved x" if "x \<in> set (deliverables s)" "d_task x = d_task d" for x
      using res [OF that(1)] that(2) d by (auto simp: unresolved_def)
    with wfD(3) show ?thesis by (auto simp: one_unresolved_def)
  qed
  moreover have "references_ok (tasks s) (assignments s) ?ds (reviews s)"
    using wfD(4) t d by (auto simp: references_ok_def)
  moreover have "task_consistent (assignments s) ?ds y" if "y \<in> set (status_rows env t TS_REVIEW (tasks s))" for y
    using consistent_after [OF wfD(1) dts t refl oth new that] .
  ultimately have "workflow_lists (status_rows env t TS_REVIEW (tasks s)) (assignments s) ?ds (reviews s)"
    using wfD(2) by (simp add: workflow_lists_def)
  then show ?thesis
    using s2 logged_tables [OF lg] notified_tables [OF n] by (simp add: workflow_inv_def)
qed

lemma workflow_review:
  assumes ok: "db_ok s" and wf: "workflow_inv s"
    and c: "review_deliverable env a pid wid tid did rst txt s = Inr (r, s')" and rst: "rst \<noteq> RS_PENDING"
  shows "workflow_inv s'"
  using c
proof (rule review_deliverable_D)
  fix au w p t d dst tst action et s3 s4
  assume tl: "task_locked a pid wid tid s au w p t" and st: "t_status t = TS_REVIEW"
    and d: "d \<in> set (deliverables s)" "d_task d = t_id t" "d_status d = DS_SUBMITTED" "d_uploaded_by d \<noteq> a"
    and nr: "\<forall>x\<in>set (reviews s). r_deliverable x \<noteq> d_id d"
    and r: "r = new_review env (d_id d) a rst txt" and o: "(dst, tst, action, et) = review_outcome rst"
    and s3: "s3 = s\<lparr>reviews := reviews s @ [r],
       deliverables := update_where (\<lambda>x. d_id x = d_id d) (decide_deliverable env dst) (deliverables s),
       tasks := status_rows env t tst (tasks s)\<rparr>"
    and lg: "logged a (r_id r) action s3 s4"
    and n: "notified (e_uuid env 1) et (t_id t) (event_users a (w_id w) s) s4 s'"
  let ?ds = "update_where (\<lambda>x. d_id x = d_id d) (decide_deliverable env dst) (deliverables s)"
  let ?rs = "reviews s @ [r]"
  have t: "t \<in> set (tasks s)" using tl by (simp add: task_locked_def)
  have dts: "distinct (map t_id (tasks s))" using db_okD(5) [OF ok] by (simp add: tasks_ok_def)
  have only: "x = d" if "x \<in> set (deliverables s)" "d_id x = d_id d" for x
    using distinct_map_eq [OF _ that(1) d(1) that(2)] db_okD(8) [OF ok] by (simp add: deliverables_ok_def)
  note wfD = workflow_listsD [OF wf [unfolded workflow_inv_def]]
  have o': "rst = RS_APPROVED \<and> dst = DS_APPROVED \<and> tst = TS_COMPLETED
      \<or> rst = RS_REQUEST_CHANGE \<and> dst = DS_REJECTED \<and> tst = TS_WORKING"
    using o rst by (cases rst) (auto simp: review_outcome_def)
  have row: "x \<in> set ?ds \<longleftrightarrow> (x \<in> set (deliverables s) \<and> d_id x \<noteq> d_id d) \<or> x = decide_deliverable env dst d" for x
  proof
    assume "x \<in> set ?ds"
    then obtain y where y: "y \<in> set (deliverables s)"
      "x = (if d_id y = d_id d then decide_deliverable env dst y else y)"
      unfolding in_update_where by blast
    show "(x \<in> set (deliverables s) \<and> d_id x \<noteq> d_id d) \<or> x = decide_deliverable env dst d"
      using y only [OF y(1)] by (cases "d_id y = d_id d") simp_all
  qed (use d(1) in \<open>force simp: in_update_where\<close>)
  have others_resolved: "\<not> unresolved x" if "x \<in> set (deliverables s)" "d_task x = t_id t" "d_id x \<noteq> d_id d" for x
  proof
    assume "unresolved x"
    moreover have "unresolved d" using d(3) by (simp add: unresolved_def)
    ultimately have "x = d"
      using wfD(3) [unfolded one_unresolved_def, rule_format, OF that(1) d(1)] that(2) d(2) by simp
    with that(3) show False by simp
  qed
  have oth: "others d_task (t_id t) ?ds = others d_task (t_id t) (deliverables s)"
    using only d(2) by (intro others_update) auto
  have u: "\<not> awaiting_review ?ds (t_id t)"
    using o' others_resolved unfolding awaiting_review_def Bex_def row
    by (auto simp: unresolved_def)
  have ap: "has_approved ?ds (t_id t) \<longleftrightarrow> dst = DS_APPROVED"
    using wfD(1) [OF t] st d(2) unfolding task_consistent_def has_approved_def Bex_def row
    by auto
  have new: "consistent tst (has_assignee (assignments s) (t_id t)) (awaiting_review ?ds (t_id t))
      (has_approved ?ds (t_id t))"
    using o' u ap wfD(1) [OF t] st by (auto simp: task_consistent_def)
  have "decided ?rs x" if "x \<in> set ?ds" for x
  proof (cases "x = decide_deliverable env dst d")
    case True
    with o' r d(4) show ?thesis by (auto simp: decided_def)
  next
    case False
    with that row have x: "x \<in> set (deliverables s)" "d_id x \<noteq> d_id d" by auto
    with wfD(2) [OF x(1)] r show ?thesis by (auto simp: decided_def split: deliverable_status.splits)
  qed
  moreover have "one_unresolved ?ds"
  proof -
    have "\<not> unresolved (decide_deliverable env dst d)" using o' by (auto simp: unresolved_def)
    then have "x \<in> set (deliverables s)" if "x \<in> set ?ds" "unresolved x" for x
      using that row by auto
    with wfD(3) show ?thesis unfolding one_unresolved_def by blast
  qed
  moreover have "references_ok (tasks s) (assignments s) ?ds ?rs"
  proof -
    have "d_id ` set ?ds = d_id ` set (deliverables s)"
      using map_update_where [of "\<lambda>x. d_id x = d_id d" d_id "decide_deliverable env dst" "deliverables s"]
      by (metis deliverable_simps(6) set_map)
    moreover have "d_task ` set ?ds \<subseteq> t_id ` set (tasks s)"
      using wfD(4) t d(1,2) unfolding references_ok_def by (auto simp: row image_subset_iff)
    ultimately show ?thesis using wfD(4) d(1) r by (auto simp: references_ok_def)
  qed
  moreover have "task_consistent (assignments s) ?ds y" if "y \<in> set (status_rows env t tst (tasks s))" for y
    using consistent_after [OF wfD(1) dts t refl oth new that] .
  ultimately have "workflow_lists (status_rows env t tst (tasks s)) (assignments s) ?ds ?rs"
    by (simp add: workflow_lists_def)
  then show ?thesis
    using s3 logged_tables [OF lg] notified_tables [OF n] by (simp add: workflow_inv_def)
qed

subsection \<open>Creating and editing\<close>

lemma new_task_simps [simp]:
  "t_id (new_task env w par ti de pr dl u) = e_uuid env 0"
  "t_workspace (new_task env w par ti de pr dl u) = w_id w"
  "t_parent (new_task env w par ti de pr dl u) = map_option t_id par"
  "t_status (new_task env w par ti de pr dl u) = TS_PENDING"
  "t_id (edit_task env q ti' de pr dl t) = t_id t"
  "t_workspace (edit_task env q ti' de pr dl t) = t_workspace t"
  "t_parent (edit_task env q ti' de pr dl t) = q"
  "t_status (edit_task env q ti' de pr dl t) = t_status t"
  by (simp_all add: new_task_def edit_task_def)

lemma task_full_clean_D:
  "task_full_clean adding rows t s = Inr u \<Longrightarrow> tasks_ok rows \<and> task_clean adding t s = Inr ()
     \<and> workspace_exists (t_workspace t) s \<and> char_field_ok 255 (t_title t)
     \<and> user_exists (t_created_by t) s"
  by (auto simp: task_full_clean_def)

lemma workflow_create_task:
  assumes wf: "workflow_inv s" and c: "create_task env a pid wid ti de pr dl par s = Inr (t, s')"
  shows "workflow_inv s'"
  using c
proof (rule create_task_D)
  fix au w p q pr' d
  assume t: "t = new_task env w q ti de pr' d a"
    and cl: "task_full_clean True (tasks s @ [t]) t s = Inr ()"
    and lg: "logged a (t_id t) ''task.created'' (s\<lparr>tasks := tasks s @ [t]\<rparr>) s'"
  note wfD = workflow_listsD [OF wf [unfolded workflow_inv_def]]
  have fresh: "t_id t \<notin> t_id ` set (tasks s)"
    using task_full_clean_D [OF cl] by (simp add: tasks_ok_def)
  have ra: "ta_task ` set (assignments s) \<subseteq> t_id ` set (tasks s)"
    and rd: "d_task ` set (deliverables s) \<subseteq> t_id ` set (tasks s)"
    using wfD(4) by (simp_all add: references_ok_def)
  have "ta_task x \<noteq> t_id t" if "x \<in> set (assignments s)" for x
    using subsetD [OF ra imageI [OF that]] fresh by metis
  moreover have "d_task x \<noteq> t_id t" if "x \<in> set (deliverables s)" for x
    using subsetD [OF rd imageI [OF that]] fresh by metis
  ultimately have "\<not> has_assignee (assignments s) (t_id t)" "\<not> awaiting_review (deliverables s) (t_id t)"
    "\<not> has_approved (deliverables s) (t_id t)"
    unfolding has_assignee_def awaiting_review_def has_approved_def by blast+
  then have "task_consistent (assignments s) (deliverables s) t"
    using t by (simp add: task_consistent_def)
  moreover have "references_ok (tasks s @ [t]) (assignments s) (deliverables s) (reviews s)"
    using wfD(4) by (auto simp: references_ok_def)
  ultimately have "workflow_lists (tasks s @ [t]) (assignments s) (deliverables s) (reviews s)"
    using wfD(1-3) by (simp add: workflow_lists_def)
  then show ?thesis using logged_tables [OF lg] by (simp add: workflow_inv_def)
qed

lemma workflow_edited:
  assumes wf: "workflow_inv s" and c: "task_edited a t (edit_task env q ti de pr dl) t' s s'"
  shows "workflow_inv s'"
proof (cases "s' = s")
  case False
  let ?rows = "update_where (\<lambda>x. t_id x = t_id t) (edit_task env q ti de pr dl) (tasks s)"
  have s': "tasks s' = ?rows" "assignments s' = assignments s" "deliverables s' = deliverables s"
    "reviews s' = reviews s"
    using c False by (auto simp: task_edited_def Let_def logged_def split: if_splits)
  note wfD = workflow_listsD [OF wf [unfolded workflow_inv_def]]
  have "task_consistent (assignments s) (deliverables s) x" if x: "x \<in> set ?rows" for x
  proof -
    obtain y where y: "y \<in> set (tasks s)" "x = (if t_id y = t_id t then edit_task env q ti de pr dl y else y)"
      using x unfolding in_update_where by blast
    then have "t_id x = t_id y" "t_status x = t_status y" by simp_all
    with y(1) wfD(1) show ?thesis by (simp add: task_consistent_def)
  qed
  moreover have "t_id ` set ?rows = t_id ` set (tasks s)"
    using map_update_where [of "\<lambda>x. t_id x = t_id t" t_id "edit_task env q ti de pr dl" "tasks s"]
    by (metis new_task_simps(5) set_map)
  ultimately show ?thesis using wfD(2-4) by (simp add: workflow_inv_def workflow_lists_def references_ok_def s')
qed (use wf in simp)

subsection \<open>The other services leave the workflow tables alone\<close>

definition task_tables where
  "task_tables s = (tasks s, assignments s, deliverables s, reviews s)"

lemma task_tables_logged: "logged a i act s s' \<Longrightarrow> task_tables s' = task_tables s"
  using logged_tables [of a i act s s'] by (simp add: task_tables_def)

lemma task_tables_notified: "notified e et t us s s' \<Longrightarrow> task_tables s' = task_tables s"
  using notified_tables [of e et t us s s'] by (simp add: task_tables_def)

lemma task_tables_updates [simp]:
  "task_tables (s\<lparr>profiles := ps\<rparr>) = task_tables s"
  "task_tables (s\<lparr>memberships := pms\<rparr>) = task_tables s"
  "task_tables (s\<lparr>workspaces := ws\<rparr>) = task_tables s"
  "task_tables (s\<lparr>members := wms\<rparr>) = task_tables s"
  "task_tables (s\<lparr>comments := cs\<rparr>) = task_tables s"
  "task_tables (s\<lparr>notifications := ns\<rparr>) = task_tables s"
  by (simp_all add: task_tables_def)

lemma task_tables_member_updated: "member_updated a act m f s s' \<Longrightarrow> task_tables s' = task_tables s"
  by (auto simp: member_updated_def Let_def dest: task_tables_logged)

lemma task_tables_comment_replaced: "comment_replaced a act c f s s' \<Longrightarrow> task_tables s' = task_tables s"
  by (auto simp: comment_replaced_def Let_def dest: task_tables_logged)

lemma task_tables_member_assigned:
  "member_assigned env a w r u x re s s' \<Longrightarrow> task_tables s' = task_tables s"
  by (auto simp: member_assigned_def dest: task_tables_logged task_tables_member_updated split: if_splits)

lemma task_tables_membership_saved:
  "membership_saved env a m r b m' s s' \<Longrightarrow> task_tables s' = task_tables s"
  by (auto simp: membership_saved_def Let_def dest: task_tables_logged split: if_splits)

lemma task_tables_profiles:
  "create_profile_with_owner env name owner act s = Inr (p, s') \<Longrightarrow> task_tables s' = task_tables s"
  "set_profile_status env a pid st s = Inr (p, s') \<Longrightarrow> task_tables s' = task_tables s"
  "update_profile_membership env a pid mid r b s = Inr (m, s') \<Longrightarrow> task_tables s' = task_tables s"
proof -
  show "task_tables s' = task_tables s" if "create_profile_with_owner env name owner act s = Inr (p, s')"
    using create_profile_D [OF that] by (auto dest: task_tables_logged)
  show "task_tables s' = task_tables s" if "set_profile_status env a pid st s = Inr (p, s')"
    using set_profile_status_D [OF that]
    by (auto simp: Let_def dest: task_tables_logged split: if_splits)
  show "task_tables s' = task_tables s" if "update_profile_membership env a pid mid r b s = Inr (m, s')"
    using that by (rule update_profile_membership_E) (rule task_tables_membership_saved)
qed

lemma task_tables_workspaces:
  "create_workspace env a pid name d descr s = Inr (w, s') \<Longrightarrow> task_tables s' = task_tables s"
  "update_workspace env a pid wid name' descr' s = Inr (w, s') \<Longrightarrow> task_tables s' = task_tables s"
  "set_workspace_status env a pid wid wst s = Inr (w, s') \<Longrightarrow> task_tables s' = task_tables s"
proof -
  show "task_tables s' = task_tables s" if "create_workspace env a pid name d descr s = Inr (w, s')"
    using create_workspace_D [OF that] by (auto dest: task_tables_logged)
  show "task_tables s' = task_tables s" if "update_workspace env a pid wid name' descr' s = Inr (w, s')"
    using that by (rule update_workspace_D) (auto simp: Let_def dest: task_tables_logged split: if_splits)
  show "task_tables s' = task_tables s" if "set_workspace_status env a pid wid wst s = Inr (w, s')"
    using that by (rule set_workspace_status_D) (auto simp: Let_def dest: task_tables_logged split: if_splits)
qed

lemma task_tables_members:
  "add_workspace_member env a pid wid mid r s = Inr (m, s') \<Longrightarrow> task_tables s' = task_tables s"
  "update_workspace_member env a pid wid mid r s = Inr (x, s') \<Longrightarrow> task_tables s' = task_tables s"
  "revoke_workspace_member env a pid wid mid s = Inr (x, s') \<Longrightarrow> task_tables s' = task_tables s"
proof -
  show "task_tables s' = task_tables s" if "add_workspace_member env a pid wid mid r s = Inr (m, s')"
  proof (cases m)
    case (Pair x re)
    with that show ?thesis by (auto elim!: add_workspace_member_D dest: task_tables_member_assigned)
  qed
  show "task_tables s' = task_tables s" if "update_workspace_member env a pid wid mid r s = Inr (x, s')"
    using that by (rule update_workspace_member_D) (auto dest: task_tables_member_updated split: if_splits)
  show "task_tables s' = task_tables s" if "revoke_workspace_member env a pid wid mid s = Inr (x, s')"
    using that by (rule revoke_workspace_member_D) (auto dest: task_tables_member_updated split: if_splits)
qed

lemma task_tables_comments:
  "create_comment env a pid wid tid txt s = Inr (c, s') \<Longrightarrow> task_tables s' = task_tables s"
  "update_comment env a pid wid tid cid txt s = Inr (c, s') \<Longrightarrow> task_tables s' = task_tables s"
  "delete_comment env a pid wid tid cid s = Inr (c, s') \<Longrightarrow> task_tables s' = task_tables s"
  "mark_notification_read env a nid s = Inr (n, s') \<Longrightarrow> task_tables s' = task_tables s"
proof -
  show "task_tables s' = task_tables s" if "create_comment env a pid wid tid txt s = Inr (c, s')"
    using that by (rule create_comment_D) (auto dest!: task_tables_logged task_tables_notified)
  show "task_tables s' = task_tables s" if "update_comment env a pid wid tid cid txt s = Inr (c, s')"
    using that by (rule update_comment_D) (auto dest: task_tables_comment_replaced split: if_splits)
  show "task_tables s' = task_tables s" if "delete_comment env a pid wid tid cid s = Inr (c, s')"
    using that by (rule delete_comment_D) (auto dest: task_tables_comment_replaced split: if_splits)
  show "task_tables s' = task_tables s" if "mark_notification_read env a nid s = Inr (n, s')"
    using that by (rule mark_notification_read_D) (auto simp: Let_def task_tables_def split: if_splits)
qed

lemmas task_tables_unchanged = task_tables_profiles task_tables_workspaces task_tables_members task_tables_comments

lemma task_tables_invitations: "invitation_effect a s s' \<Longrightarrow> db_ok s \<Longrightarrow> task_tables s' = task_tables s"
  using effect_core [of a s s'] by (simp add: core_tables_def task_tables_def)

lemma workflow_frame: "task_tables s' = task_tables s \<Longrightarrow> workflow_inv s' = workflow_inv s"
  by (simp add: workflow_inv_def task_tables_def)

lemma workflow_update_task:
  assumes wf: "workflow_inv s" and c: "update_task env a pid wid tid ti de pr dl par s = Inr (t', s')"
  shows "workflow_inv s'"
  using c by (rule update_task_D) (rule workflow_edited [OF wf])

lemma workflow_exec: "db_ok s \<Longrightarrow> workflow_inv s \<Longrightarrow> exec env c s = Inr s' \<Longrightarrow> workflow_inv s'"
  by (cases c) (auto dest!: approve_is_review request_changes_is_review
      dest: workflow_assign workflow_start workflow_submit workflow_review workflow_create_task
        workflow_update_task task_tables_unchanged [THEN workflow_frame]
        invitation_services_effect [THEN task_tables_invitations, THEN workflow_frame])

interpretation workflow: dependent_invariant db_ok workflow_inv
proof unfold_locales
  show "workflow_inv s" if "initial s" for s
    using that by (simp add: initial_def workflow_inv_def workflow_lists_def one_unresolved_def references_ok_def)
qed (rule workflow_exec)

end
