(* ===== verification/Task_Evolution.thy ===== *)
theory Task_Evolution
  imports Workflow
begin

text \<open>
  How the Task table may change: rows are never deleted and never move to another Workspace or
  creator, a status changes only along \<open>legal\<close>, a new row starts \<open>PENDING\<close>; and the parent
  hierarchy stays acyclic, inside one Workspace and bounded in depth.
\<close>

definition evolved :: "task \<Rightarrow> task \<Rightarrow> bool" where
  "evolved t t' \<longleftrightarrow> t_id t' = t_id t \<and> t_workspace t' = t_workspace t
     \<and> t_created_by t' = t_created_by t
     \<and> (t_status t' = t_status t \<or> legal (t_status t) (t_status t'))"

definition tasks_evolve :: "task list \<Rightarrow> task list \<Rightarrow> bool" where
  "tasks_evolve ts ts' \<longleftrightarrow> (\<forall>t\<in>set ts. \<exists>t'\<in>set ts'. evolved t t')
     \<and> (\<forall>t'\<in>set ts'. t_id t' \<notin> t_id ` set ts \<longrightarrow> t_status t' = TS_PENDING)"

lemma evolved_refl [simp]: "evolved t t"
  by (simp add: evolved_def)

lemma evolve_refl [simp]: "tasks_evolve ts ts"
  by (auto simp: tasks_evolve_def intro: evolved_refl)

lemma evolve_append: "t_status t = TS_PENDING \<Longrightarrow> tasks_evolve ts (ts @ [t])"
  by (auto simp: tasks_evolve_def intro: evolved_refl)

lemma evolve_update:
  assumes "\<And>x. x \<in> set ts \<Longrightarrow> P x \<Longrightarrow> evolved x (f x)"
  shows "tasks_evolve ts (update_where P f ts)"
proof -
  have "\<exists>x'\<in>set (update_where P f ts). evolved x x'" if "x \<in> set ts" for x
    using assms [OF that] that unfolding in_update_where Bex_def by (metis evolved_refl)
  moreover have "t_id y \<in> t_id ` set ts" if "y \<in> set (update_where P f ts)" for y
    using that assms by (force simp: in_update_where evolved_def split: if_splits)
  ultimately show ?thesis unfolding tasks_evolve_def by blast
qed

lemma evolve_status:
  assumes "distinct (map t_id ts)" "t \<in> set ts" "legal (t_status t) st"
  shows "tasks_evolve ts (status_rows env t st ts)"
  unfolding status_rows_def
proof (rule evolve_update)
  fix x assume "x \<in> set ts" "t_id x = t_id t"
  with distinct_map_eq [OF assms(1) this(1) assms(2)] assms(3) show "evolved x (set_status env st x)"
    by (simp add: evolved_def)
qed

lemma evolve_edit:
  "tasks_evolve ts (update_where (\<lambda>x. t_id x = t_id t) (edit_task env q ti de pr dl) ts)"
  by (rule evolve_update) (simp add: evolved_def edit_task_def)

lemma evolve_task_services:
  assumes ok: "db_ok s"
  shows "create_task env a pid wid ti de pr dl par s = Inr (t, s') \<Longrightarrow> tasks_evolve (tasks s) (tasks s')"
    "update_task env a pid wid tid ti' de' pr' dl' par' s = Inr (t, s') \<Longrightarrow> tasks_evolve (tasks s) (tasks s')"
    "assign_task env a pid wid tid m s = Inr (x, s') \<Longrightarrow> tasks_evolve (tasks s) (tasks s')"
    "start_task env a pid wid tid s = Inr (t, s') \<Longrightarrow> tasks_evolve (tasks s) (tasks s')"
    "submit_deliverable env a pid wid tid url s = Inr (d, s') \<Longrightarrow> tasks_evolve (tasks s) (tasks s')"
    "review_deliverable env a pid wid tid did rst c s = Inr (r, s') \<Longrightarrow> rst \<noteq> RS_PENDING \<Longrightarrow>
       tasks_evolve (tasks s) (tasks s')"
proof -
  have d: "distinct (map t_id (tasks s))" using db_okD(5) [OF ok] by (simp add: tasks_ok_def)
  note st = evolve_status [OF d]
  show "tasks_evolve (tasks s) (tasks s')" if "create_task env a pid wid ti de pr dl par s = Inr (t, s')"
    using that by (rule create_task_D) (auto simp: evolve_append dest!: logged_tables(7))
  show "tasks_evolve (tasks s) (tasks s')" if "update_task env a pid wid tid ti' de' pr' dl' par' s = Inr (t, s')"
    using that by (rule update_task_D)
      (auto simp: task_edited_def Let_def evolve_edit dest!: logged_tables(7) split: if_splits)
  show "tasks_evolve (tasks s) (tasks s')" if "assign_task env a pid wid tid m s = Inr (x, s')"
    using that by (rule assign_task_D)
      (auto simp: task_locked_def intro!: st legal.assign dest!: logged_tables(7) notified_tables(7))
  show "tasks_evolve (tasks s) (tasks s')" if "start_task env a pid wid tid s = Inr (t, s')"
    using that by (rule start_task_D)
      (auto simp: task_locked_def intro!: st legal.start dest!: logged_tables(7))
  show "tasks_evolve (tasks s) (tasks s')" if "submit_deliverable env a pid wid tid url s = Inr (d, s')"
    using that by (rule submit_deliverable_D)
      (auto simp: task_locked_def intro!: st legal.submit dest!: logged_tables(7) notified_tables(7))
  show "tasks_evolve (tasks s) (tasks s')"
    if "review_deliverable env a pid wid tid did rst c s = Inr (r, s')" "rst \<noteq> RS_PENDING"
    using that(1)
  proof (rule review_deliverable_D)
    fix au w p t y dst tst action et s3 s4
    assume t: "task_locked a pid wid tid s au w p t" "t_status t = TS_REVIEW"
      and o: "(dst, tst, action, et) = review_outcome rst"
      and s3: "s3 = s\<lparr>reviews := reviews s @ [r],
         deliverables := update_where (\<lambda>x. d_id x = d_id y) (decide_deliverable env dst) (deliverables s),
         tasks := status_rows env t tst (tasks s)\<rparr>"
      and lg: "logged a (r_id r) action s3 s4"
      and n: "notified (e_uuid env 1) et (t_id t) (event_users a (w_id w) s) s4 s'"
    have "legal (t_status t) tst"
      using o that(2) t(2) by (cases rst) (auto simp: review_outcome_def legal_iff)
    with st [of t tst] t s3 logged_tables(7) [OF lg] notified_tables(7) [OF n] show ?thesis
      by (simp add: task_locked_def)
  qed
qed

lemma evolve_unchanged: "task_tables s' = task_tables s \<Longrightarrow> tasks_evolve (tasks s) (tasks s')"
  by (simp add: task_tables_def)

lemma evolve_exec: "db_ok s \<Longrightarrow> exec env c s = Inr s' \<Longrightarrow> tasks_evolve (tasks s) (tasks s')"
  by (cases c) (auto dest!: approve_is_review request_changes_is_review
      dest: evolve_task_services task_tables_unchanged [THEN evolve_unchanged]
        invitation_services_effect [THEN task_tables_invitations, THEN evolve_unchanged])

subsection \<open>The hierarchy\<close>

lemma hierarchy_status: "hierarchy_ok ts \<Longrightarrow> hierarchy_ok (status_rows env t st ts)"
  unfolding status_rows_def update_where_def by (rule hierarchy_ok_map) auto

lemma hierarchy_create:
  assumes h: "hierarchy_ok (tasks s)" and c: "create_task env a pid wid ti de pr dl par s = Inr (t, s')"
  shows "hierarchy_ok (tasks s')"
  using c
proof (rule create_task_D)
  assume cl: "task_full_clean True (tasks s @ [t]) t s = Inr ()"
    and lg: "logged a (t_id t) ''task.created'' (s\<lparr>tasks := tasks s @ [t]\<rparr>) s'"
  from task_full_clean_D [OF cl] obtain n where
    "parent_walk (tasks s) (t_workspace t) [t_id t] 0 (t_parent t) = Inr n"
    by (auto simp: task_clean_def)
  from hierarchy_insert [OF h this] logged_tables(7) [OF lg] show ?thesis by simp
qed

lemma hierarchy_edit:
  assumes ok: "db_ok s" and h: "hierarchy_ok (tasks s)"
    and c: "update_task env a pid wid tid ti de pr dl par s = Inr (t', s')"
  shows "hierarchy_ok (tasks s')"
  using c
proof (rule update_task_D)
  fix au w p t q ti de pr dl
  assume tl: "task_locked a pid wid tid s au w p t"
    and e: "task_edited a t (edit_task env q ti de pr dl) t' s s'"
  show ?thesis
  proof (cases "s' = s")
    case False
    with e have t': "t' = edit_task env q ti de pr dl t"
      and cl: "task_full_clean False (update_where (\<lambda>x. t_id x = t_id t) (edit_task env q ti de pr dl) (tasks s))
        t' s = Inr ()"
      and lg: "logged a (t_id t) ''task.updated''
        (s\<lparr>tasks := update_where (\<lambda>x. t_id x = t_id t) (edit_task env q ti de pr dl) (tasks s)\<rparr>) s'"
      by (auto simp: task_edited_def Let_def split: if_splits)
    have "hierarchy_ok (update_where (\<lambda>x. t_id x = t_id t) (edit_task env q ti de pr dl) (tasks s))"
      using tl task_full_clean_D [OF cl] t' db_okD(5) [OF ok]
      by (intro hierarchy_update [OF h, where s = s]) (auto simp: task_locked_def tasks_ok_def)
    with logged_tables(7) [OF lg] show ?thesis by simp
  qed (use h in simp)
qed

lemma hierarchy_task_services:
  assumes h: "hierarchy_ok (tasks s)"
  shows "assign_task env a pid wid tid m s = Inr (x, s') \<Longrightarrow> hierarchy_ok (tasks s')"
    "start_task env a pid wid tid s = Inr (t, s') \<Longrightarrow> hierarchy_ok (tasks s')"
    "submit_deliverable env a pid wid tid url s = Inr (d, s') \<Longrightarrow> hierarchy_ok (tasks s')"
    "review_deliverable env a pid wid tid did rst c s = Inr (r, s') \<Longrightarrow> hierarchy_ok (tasks s')"
proof -
  show "hierarchy_ok (tasks s')" if "assign_task env a pid wid tid m s = Inr (x, s')"
    using that by (rule assign_task_D)
      (auto intro!: hierarchy_status h dest!: logged_tables(7) notified_tables(7))
  show "hierarchy_ok (tasks s')" if "start_task env a pid wid tid s = Inr (t, s')"
    using that by (rule start_task_D) (auto intro!: hierarchy_status h dest!: logged_tables(7))
  show "hierarchy_ok (tasks s')" if "submit_deliverable env a pid wid tid url s = Inr (d, s')"
    using that by (rule submit_deliverable_D)
      (auto intro!: hierarchy_status h dest!: logged_tables(7) notified_tables(7))
  show "hierarchy_ok (tasks s')" if "review_deliverable env a pid wid tid did rst c s = Inr (r, s')"
    using that by (rule review_deliverable_D)
      (auto intro!: hierarchy_status h dest!: logged_tables(7) notified_tables(7))
qed

lemma hierarchy_frame: "task_tables s' = task_tables s \<Longrightarrow> hierarchy_ok (tasks s) \<Longrightarrow> hierarchy_ok (tasks s')"
  by (simp add: task_tables_def)

lemma hierarchy_exec:
  "db_ok s \<Longrightarrow> hierarchy_ok (tasks s) \<Longrightarrow> exec env c s = Inr s' \<Longrightarrow> hierarchy_ok (tasks s')"
  by (cases c) (auto dest!: approve_is_review request_changes_is_review
      dest: hierarchy_create hierarchy_edit hierarchy_task_services
        task_tables_unchanged [THEN hierarchy_frame]
        invitation_services_effect [THEN task_tables_invitations, THEN hierarchy_frame])

interpretation hierarchy: dependent_invariant db_ok "\<lambda>s. hierarchy_ok (tasks s)"
  by unfold_locales (use hierarchy_exec in \<open>auto simp: initial_def hierarchy_ok_def\<close>)

end
