(* ===== verification/Scenario.thy ===== *)
theory Scenario
  imports Task_Evolution Fixtures
begin

text \<open>
  Runs of the system: executing a list of commands in order, and one run from an empty database
  through the life of a Task (Profile, Workspace, invitation, delivery, acceptance, membership,
  Task, assignment, start, submission, approval), whose states witness the properties of
  reachable databases.
\<close>

text \<open>
  The definitions of the operations: simplification with them evaluates a call on a concrete
  database, guard by guard (the congruence rules of the sequencing combinators keep the code of
  branches not taken unevaluated).
\<close>

lemmas evals = Let_def juuid_opt_def meta_get_def reraise_def lock_workspace_mutation_context_at_def
  update_where_def py_isspace_def strip_def text_or_empty_def utf8_encodable_def profiles_ok_def
  memberships_ok_def workspaces_ok_def members_ok_def tasks_ok_def assignments_ok_def
  comments_ok_def deliverables_ok_def reviews_ok_def notification_context_complete_def
  notifications_ok_def audit_logs_ok_def invitation_terminal_state_valid_def
  invitation_delivery_state_valid_def invitation_row_ok_def invitations_ok_def
  write_profiles_def write_memberships_def write_workspaces_def write_members_def
  write_tasks_def write_assignments_def write_comments_def write_deliverables_def
  write_reviews_def write_notifications_def write_audit_logs_def write_invitations_def
  lookup_pk_def user_active_def wc_profile_role_def build_profile_access_context_def
  build_workspace_access_context_def is_verified_profile_context_def
  is_verified_workspace_context_def is_manager_def is_assignable_role_def membership_join_def
  is_current_workspace_context_def profiles_visible_to_def resolve_profile_access_context_def
  refresh_profile_access_context_def member_row_visible_def
  workspaces_visible_to_valid_context_def workspaces_visible_to_def member_role_row_def
  resolve_workspace_access_context_def profile_active_def can_read_workspace_def
  can_create_workspace_def can_manage_profile_lifecycle_def can_manage_profile_invitations_def
  profile_invitations_visible_to_managers_def has_active_workspace_state_def
  can_edit_workspace_def can_manage_workspace_tasks_def can_execute_workspace_tasks_def
  can_review_workspace_deliverables_def can_manage_workspace_members_def
  can_mutate_workspace_members_def can_manage_workspace_lifecycle_def
  active_profile_memberships_def workspace_members_visible_to_managers_def char_field_ok_def
  user_exists_def profile_exists_def unique_checks_def profile_full_clean_def
  membership_clean_def membership_full_clean_def active_manager_def active_member_def
  workspace_clean_def workspace_full_clean_def workspace_save_def workspace_profile_def
  member_clean_def member_full_clean_def member_save_def write_audit_def str_uuid_def
  write_membership_audit_def write_workspace_audit_def write_profile_audit_def role_state_def
  jtext_opt_def isoformat_def jdate_opt_def lock_actor_workspace_role_def
  lock_workspace_mutation_context_def new_profile_def
  new_owner_membership_def create_profile_with_owner_def set_profile_status_def
  archive_profile_def restore_profile_def update_profile_membership_def period_taken_def
  on_integrity_error_def workspace_state_def new_workspace_def create_workspace_def
  update_workspace_def set_workspace_status_def archive_workspace_def restore_workspace_def
  roles_below_def new_member_def assign_workspace_member_def add_workspace_member_def
  active_membership_of_def update_workspace_member_def revoke_workspace_member_def
  max_hierarchy_depth_def task_clean_def workspace_exists_def task_exists_def
  task_full_clean_def assignment_full_clean_def content_max_length_def comment_full_clean_def
  max_integer_def deliverable_full_clean_def review_full_clean_def lock_task_def
  lock_deliverable_def lock_current_editor_assignment_def write_task_audit_def set_status_def
  save_task_status_def new_task_def lock_parent_def create_task_def edit_task_def
  changed_fields_def save_edited_task_def update_task_def new_assignment_def
  deactivate_assignment_def reactivate_assignment_def activate_assignment_def
  deactivate_current_def eligible_editor_def assign_task_def start_task_def latest_revision_def
  new_deliverable_def submit_deliverable_def latest_deliverable_def new_review_def
  decide_deliverable_def review_outcome_def review_deliverable_def approve_deliverable_def
  request_deliverable_changes_def can_comment_on_task_def tasks_visible_to_def
  resolve_task_in_scope_def comments_visible_to_def comment_content_def lock_comment_def
  mutation_scope_def write_comment_audit_def new_comment_def create_comment_def edit_comment_def
  update_comment_def tombstone_def delete_comment_def workspace_reader_def
  readable_memberships_def notifications_visible_to_def revision_matches_def
  event_recipients_def new_notification_def emit_task_notifications_def
  mark_notification_read_def invitation_ttl_def invitation_rate_window_def
  max_invitations_per_recipient_def max_invitations_per_inviter_def
  normalize_account_email_def normalize_invitation_email_def resolve_unique_user_for_email_def
  resolve_unique_user_for_invitation_email_def resolve_recipient_account_def
  unsafe_default_email_backends_def ensure_default_email_delivery_available_def
  ensure_invitation_delivery_available_def send_default_email_def effective_status_def
  invitation_clean_def invitation_full_clean_def inv_status_state_def write_invitation_audit_def
  write_profile_membership_audit_def write_workspace_rejoin_revoke_audit_def can_issue_role_def
  locked_manager_row_def lock_manager_context_at_def lock_manager_context_def issued_since_def
  received_since_def enforce_issuance_limits_def save_invitation_def expire_row_def
  revoke_row_def accept_row_def decline_row_def materialize_expiration_def new_invitation_def
  issue_invitation_locked_def expire_or_conflict_def already_member_def
  create_profile_invitation_def get_locked_manager_invitation_def mark_revoked_def
  revoke_profile_invitation_def resend_profile_invitation_def lookup_token_candidate_def
  validate_recipient_locked_def validate_original_inviter_locked_def lock_usable_token_def
  stale_members_def revoke_stale_workspace_access_def joined_membership_def rejoin_row_def
  join_profile_def accept_profile_invitation_def decline_profile_invitation_def
  update_invitations_def claim_delivery_def finish_delivery_def deliver_def effect_def
  mk_user_def mk_membership_def mk_workspace_def mk_member_def mk_task_def mk_assignment_def
  mk_deliverable_def mk_comment_def ex_env_def

primrec run :: "(env \<times> command) list \<Rightarrow> db \<Rightarrow> error + db" where
  "run [] s = Inr s"
| "run (x # xs) s = bindE (exec (fst x) (snd x) s) (run xs)"

lemma run_append: "run (xs @ ys) s = bindE (run xs s) (run ys)"
  by (induction xs arbitrary: s) (auto simp: bindE_def split: sum.splits)

lemma run_reachable: "reachable s \<Longrightarrow> run xs s = Inr s' \<Longrightarrow> reachable s'"
proof (induction xs arbitrary: s)
  case (Cons x xs)
  then obtain s1 where s1: "exec (fst x) (snd x) s = Inr s1" "run xs s1 = Inr s'" by auto
  with Cons show ?case by (blast intro: reachable.stepwise step.commit)
qed simp

lemma run_steps: "run xs s = Inr s' \<Longrightarrow> step\<^sup>*\<^sup>* s s'"
proof (induction xs arbitrary: s)
  case (Cons x xs)
  then obtain s1 where "exec (fst x) (snd x) s = Inr s1" "run xs s1 = Inr s'" by auto
  with Cons.IH show ?case by (blast intro: step.commit converse_rtranclp_into_rtranclp)
qed simp

definition ex_start :: db where
  "ex_start = \<lparr>users = map (\<lambda>i. mk_user i True) [1, 2, 3], profiles = [], memberships = [],
     workspaces = [], members = [], invitations = [], tasks = [], assignments = [], comments = [],
     deliverables = [], reviews = [], notifications = [], audit_logs = []\<rparr>"

definition env_at :: "nat \<Rightarrow> env" where
  "env_at n = ex_env\<lparr>e_now := int n, e_uuid := (\<lambda>k. 1000 * n + k)\<rparr>"

definition ex_digest :: string where
  "ex_digest = e_sha256 ex_env [116]"

definition story :: "(env \<times> command) list" where
  "story =
    [(env_at 1, CreateProfile (Some [80]) (Some 1) True),
     (env_at 2, CreateWorkspace 1 (Val 1000) (Some [87]) (Some (Date 2026 10 1)) None),
     (env_at 3, CreateInvitation 1 (Val 1000) (Some [97, 3]) (Val IR_MEMBER)),
     (env_at 4, ClaimDelivery 3000 ex_digest),
     (env_at 5, FinishDelivery 4 (Some 1) 3000 ex_digest),
     (env_at 6, AcceptInvitation 3 (Val [116])),
     (env_at 7, AddMember 1 (Val 1000) (Val 2000) (Val 6000) (Val WR_MEMBER)),
     (env_at 8, CreateTask 1 (Val 1000) (Val 2000) (Some [84]) None (Val PRI_HIGH) (Val None) None),
     (env_at 9, AssignTask 1 (Val 1000) (Val 2000) (Val 8000) (Val 6000)),
     (env_at 10, StartTask 3 (Val 1000) (Val 2000) (Val 8000)),
     (env_at 11, SubmitDeliverable 3 (Val 1000) (Val 2000) (Val 8000) (Some [104, 116, 116, 112, 58, 47, 47, 120, 46, 121])),
     (env_at 12, ApproveDeliverable 1 (Val 1000) (Val 2000) (Val 8000) (Val 11000) None)]"

lemma ex_start_reachable: "reachable ex_start"
  by (rule reachable.initially) (simp add: ex_start_def initial_def)

text \<open>The run commits, and ends with the Task completed and the invitation accepted.\<close>

definition story_end :: "db \<Rightarrow> bool" where
  "story_end s \<longleftrightarrow> map t_status (tasks s) = [TS_COMPLETED] \<and> map t_id (tasks s) = [8000]
     \<and> map d_status (deliverables s) = [DS_APPROVED]
     \<and> map (\<lambda>m. (pm_user m, pm_role m)) (memberships s) = [(1, PR_OWNER), (3, PR_MEMBER)]
     \<and> map p_id (profiles s) = [1000] \<and> map w_id (workspaces s) = [2000]
     \<and> map w_profile (workspaces s) = [Some 1000] \<and> map w_owner (workspaces s) = [1]
     \<and> map pi_status (invitations s) = [IS_ACCEPTED]"

lemma story_runs: "case run story ex_start of Inl e \<Rightarrow> False | Inr s \<Rightarrow> story_end s"
  by (simp add: evals story_def env_at_def ex_digest_def ex_start_def story_end_def)

lemma story_reachable: obtains s where "run story ex_start = Inr s" "reachable s" "story_end s"
  using story_runs run_reachable [OF ex_start_reachable] by (cases "run story ex_start") auto

end
