(* ===== verification/Frames.thy ===== *)
theory Frames
  imports Scenario
begin

text \<open>
  Which services leave the accounts, the Workspace members, the invitations, the comments and the notifications
  alone: the frame conditions that lift a statement about one group of services to every command.
\<close>

definition side_tables where
  "side_tables s = (users s, members s, invitations s)"

lemma side_logged: "logged a i act s s' \<Longrightarrow> side_tables s' = side_tables s"
  using logged_tables [of a i act s s'] by (simp add: side_tables_def)

lemma side_notified: "notified e et t us s s' \<Longrightarrow> side_tables s' = side_tables s"
  using notified_tables [of e et t us s s'] by (simp add: side_tables_def)

lemma side_updates [simp]:
  "side_tables (s\<lparr>profiles := ps\<rparr>) = side_tables s"
  "side_tables (s\<lparr>memberships := pms\<rparr>) = side_tables s"
  "side_tables (s\<lparr>workspaces := ws\<rparr>) = side_tables s"
  "side_tables (s\<lparr>tasks := ts\<rparr>) = side_tables s"
  "side_tables (s\<lparr>assignments := as\<rparr>) = side_tables s"
  "side_tables (s\<lparr>comments := cs\<rparr>) = side_tables s"
  "side_tables (s\<lparr>deliverables := ds\<rparr>) = side_tables s"
  "side_tables (s\<lparr>reviews := rs\<rparr>) = side_tables s"
  "side_tables (s\<lparr>notifications := ns\<rparr>) = side_tables s"
  by (simp_all add: side_tables_def)

lemma side_comment_replaced: "comment_replaced a act c f s s' \<Longrightarrow> side_tables s' = side_tables s"
  by (auto simp: comment_replaced_def Let_def dest: side_logged)

lemma side_task_edited: "task_edited a t edit t' s s' \<Longrightarrow> side_tables s' = side_tables s"
  by (auto simp: task_edited_def Let_def dest: side_logged split: if_splits)

lemma side_membership_saved: "membership_saved env a m r b m' s s' \<Longrightarrow> side_tables s' = side_tables s"
  by (auto simp: membership_saved_def Let_def dest: side_logged split: if_splits)

lemma side_profile_services:
  "create_profile_with_owner env name owner act s = Inr (p, s') \<Longrightarrow> side_tables s' = side_tables s"
  "set_profile_status env a pid st s = Inr (p, s') \<Longrightarrow> side_tables s' = side_tables s"
  "update_profile_membership env a pid mid r b s = Inr (m, s') \<Longrightarrow> side_tables s' = side_tables s"
  "create_workspace env a pid name' d descr s = Inr (w, s') \<Longrightarrow> side_tables s' = side_tables s"
  "update_workspace env a pid wid name'' descr' s = Inr (w, s') \<Longrightarrow> side_tables s' = side_tables s"
  "set_workspace_status env a pid wid ws s = Inr (w, s') \<Longrightarrow> side_tables s' = side_tables s"
proof -
  show "side_tables s' = side_tables s" if "create_profile_with_owner env name owner act s = Inr (p, s')"
    using create_profile_D [OF that] by (auto dest: side_logged)
  show "side_tables s' = side_tables s" if "set_profile_status env a pid st s = Inr (p, s')"
    using set_profile_status_D [OF that] by (auto simp: Let_def dest: side_logged split: if_splits)
  show "side_tables s' = side_tables s" if "update_profile_membership env a pid mid r b s = Inr (m, s')"
    using that by (rule update_profile_membership_E) (rule side_membership_saved)
  show "side_tables s' = side_tables s" if "create_workspace env a pid name' d descr s = Inr (w, s')"
    using create_workspace_D [OF that] by (auto dest: side_logged)
  show "side_tables s' = side_tables s" if "update_workspace env a pid wid name'' descr' s = Inr (w, s')"
    using that by (rule update_workspace_D) (auto simp: Let_def dest: side_logged split: if_splits)
  show "side_tables s' = side_tables s" if "set_workspace_status env a pid wid ws s = Inr (w, s')"
    using that by (rule set_workspace_status_D) (auto simp: Let_def dest: side_logged split: if_splits)
qed

lemma side_task_services:
  "create_task env a pid wid ti de pr dl par s = Inr (t, s') \<Longrightarrow> side_tables s' = side_tables s"
  "update_task env a pid wid tid ti' de' pr' dl' par' s = Inr (t, s') \<Longrightarrow> side_tables s' = side_tables s"
  "assign_task env a pid wid tid m s = Inr (x, s') \<Longrightarrow> side_tables s' = side_tables s"
  "start_task env a pid wid tid s = Inr (t, s') \<Longrightarrow> side_tables s' = side_tables s"
  "submit_deliverable env a pid wid tid url s = Inr (d, s') \<Longrightarrow> side_tables s' = side_tables s"
  "review_deliverable env a pid wid tid did rst c s = Inr (r, s') \<Longrightarrow> side_tables s' = side_tables s"
proof -
  show "side_tables s' = side_tables s" if "create_task env a pid wid ti de pr dl par s = Inr (t, s')"
    using that by (rule create_task_D) (auto dest: side_logged)
  show "side_tables s' = side_tables s" if "update_task env a pid wid tid ti' de' pr' dl' par' s = Inr (t, s')"
    using that by (rule update_task_D) (rule side_task_edited)
  show "side_tables s' = side_tables s" if "assign_task env a pid wid tid m s = Inr (x, s')"
    using that by (rule assign_task_D) (auto dest!: side_logged side_notified)
  show "side_tables s' = side_tables s" if "start_task env a pid wid tid s = Inr (t, s')"
    using that by (rule start_task_D) (auto dest: side_logged)
  show "side_tables s' = side_tables s" if "submit_deliverable env a pid wid tid url s = Inr (d, s')"
    using that by (rule submit_deliverable_D) (auto dest!: side_logged side_notified)
  show "side_tables s' = side_tables s" if "review_deliverable env a pid wid tid did rst c s = Inr (r, s')"
    using that by (rule review_deliverable_D) (auto dest!: side_logged side_notified)
qed

lemma side_comment_services:
  "create_comment env a pid wid tid txt s = Inr (c, s') \<Longrightarrow> side_tables s' = side_tables s"
  "update_comment env a pid wid tid cid txt s = Inr (c, s') \<Longrightarrow> side_tables s' = side_tables s"
  "delete_comment env a pid wid tid cid s = Inr (c, s') \<Longrightarrow> side_tables s' = side_tables s"
  "mark_notification_read env a nid s = Inr (n, s') \<Longrightarrow> side_tables s' = side_tables s"
proof -
  show "side_tables s' = side_tables s" if "create_comment env a pid wid tid txt s = Inr (c, s')"
    using that by (rule create_comment_D) (auto dest!: side_logged side_notified)
  show "side_tables s' = side_tables s" if "update_comment env a pid wid tid cid txt s = Inr (c, s')"
    using that by (rule update_comment_D) (auto split: if_splits dest: side_comment_replaced)
  show "side_tables s' = side_tables s" if "delete_comment env a pid wid tid cid s = Inr (c, s')"
    using that by (rule delete_comment_D) (auto split: if_splits dest: side_comment_replaced)
  show "side_tables s' = side_tables s" if "mark_notification_read env a nid s = Inr (n, s')"
    using that by (rule mark_notification_read_D) (auto simp: Let_def split: if_splits)
qed

lemmas side_unchanged = side_profile_services side_task_services side_comment_services

subsection \<open>Invitations of every command\<close>

lemma member_updated_side: "member_updated a act y f s s' \<Longrightarrow> users s' = users s \<and> invitations s' = invitations s"
  by (auto simp: member_updated_def Let_def dest: logged_tables(1,6))

lemma member_assigned_side:
  "member_assigned env a w r u x re s s' \<Longrightarrow> users s' = users s \<and> invitations s' = invitations s"
  by (auto simp: member_assigned_def dest: member_updated_side logged_tables(1,6) split: if_splits)

lemma side_member_services:
  "add_workspace_member env a pid wid mid r s = Inr (m, s') \<Longrightarrow> users s' = users s \<and> invitations s' = invitations s"
  "update_workspace_member env a pid wid mid r s = Inr (x, s') \<Longrightarrow> users s' = users s \<and> invitations s' = invitations s"
  "revoke_workspace_member env a pid wid mid s = Inr (x, s') \<Longrightarrow> users s' = users s \<and> invitations s' = invitations s"
proof -
  show "users s' = users s \<and> invitations s' = invitations s" if "add_workspace_member env a pid wid mid r s = Inr (m, s')"
  proof (cases m)
    case (Pair x re)
    with that show ?thesis by (auto elim!: add_workspace_member_D dest: member_assigned_side)
  qed
  show "users s' = users s \<and> invitations s' = invitations s" if "update_workspace_member env a pid wid mid r s = Inr (x, s')"
    using that by (rule update_workspace_member_D) (auto split: if_splits dest: member_updated_side)
  show "users s' = users s \<and> invitations s' = invitations s" if "revoke_workspace_member env a pid wid mid s = Inr (x, s')"
    using that by (rule revoke_workspace_member_D) (rule member_updated_side)
qed

fun is_invitation_command :: "command \<Rightarrow> bool" where
  "is_invitation_command (CreateInvitation _ _ _ _) = True"
| "is_invitation_command (RevokeInvitation _ _ _) = True"
| "is_invitation_command (ResendInvitation _ _ _) = True"
| "is_invitation_command (AcceptInvitation _ _) = True"
| "is_invitation_command (DeclineInvitation _ _) = True"
| "is_invitation_command (ClaimDelivery _ _) = True"
| "is_invitation_command (FinishDelivery _ _ _ _) = True"
| "is_invitation_command _ = False"

lemma accounts_and_invitations_frame:
  "exec env c s = Inr s' \<Longrightarrow> \<not> is_invitation_command c \<Longrightarrow> users s' = users s \<and> invitations s' = invitations s"
  by (cases c) (auto dest!: approve_is_review request_changes_is_review
      dest: side_member_services side_unchanged simp: side_tables_def)

lemmas invitations_frame = accounts_and_invitations_frame [THEN conjunct2]

lemma exec_invitation_effect:
  "exec env c s = Inr s' \<Longrightarrow> is_invitation_command c \<Longrightarrow> \<exists>a. invitation_effect a s s'"
  by (cases c) (auto dest: invitation_services_effect)

text \<open>No service of the tenancy, Task and invitation subsystems changes an account.\<close>

lemma accounts_exec:
  assumes "db_ok s" "exec env c s = Inr s'"
  shows "users s' = users s"
proof (cases "is_invitation_command c")
  case True
  with exec_invitation_effect [OF assms(2)] assms(1) show ?thesis
    by (auto dest: effect_core simp: core_tables_def)
next
  case False
  with accounts_and_invitations_frame [OF assms(2)] show ?thesis by blast
qed

lemma invitations_evolve_exec:
  assumes "db_ok s" "exec env c s = Inr s'"
  shows "invitations_evolve (invitations s) (invitations s')"
proof (cases "is_invitation_command c")
  case True
  with exec_invitation_effect [OF assms(2)] assms(1) show ?thesis
    by (auto simp: invitation_effect_def)
next
  case False
  with invitations_frame [OF assms(2)] show ?thesis by simp
qed

subsection \<open>The steps of the story\<close>

lemma story_at:
  assumes "n < 12"
  obtains s s' where "reachable s" "exec (fst (story ! n)) (snd (story ! n)) s = Inr s'" "reachable s'"
proof -
  obtain sf where sf: "run story ex_start = Inr sf" by (rule story_reachable)
  have "n < length story" using assms by (simp add: story_def)
  then have "story = take n story @ story ! n # drop (Suc n) story" by (rule id_take_nth_drop)
  with sf have "run (take n story @ story ! n # drop (Suc n) story) ex_start = Inr sf" by simp
  then obtain s s' where s: "run (take n story) ex_start = Inr s"
    "exec (fst (story ! n)) (snd (story ! n)) s = Inr s'"
    by (auto simp: run_append)
  have "reachable s" by (rule run_reachable [OF ex_start_reachable s(1)])
  with s(2) that show ?thesis using reachable.stepwise step.commit by blast
qed

end
