(* ===== verification/Tenant_Theorems.thy ===== *)
theory Tenant_Theorems
  imports Frames
begin

text \<open>
  Properties of the tenant boundary: what a mutation requires, what archiving freezes, who may
  change whose role, and the invariants of every reachable database that speak of tenants.
\<close>

subsection \<open>The scope of a command\<close>

text \<open>
  The actor, Profile and Workspace of the commands that run behind the common lock. A request for
  changes without a reason is refused before the lock is taken.
\<close>

fun tenant_scope :: "command \<Rightarrow> (uuid \<times> uuid arg \<times> uuid arg) option" where
  "tenant_scope (UpdateWorkspace a p w _ _) = Some (a, p, w)"
| "tenant_scope (SetWorkspaceStatus a p w _) = Some (a, p, w)"
| "tenant_scope (AddMember a p w _ _) = Some (a, p, w)"
| "tenant_scope (UpdateMember a p w _ _) = Some (a, p, w)"
| "tenant_scope (RevokeMember a p w _) = Some (a, p, w)"
| "tenant_scope (CreateTask a p w _ _ _ _ _) = Some (a, p, w)"
| "tenant_scope (UpdateTask a p w _ _ _ _ _ _) = Some (a, p, w)"
| "tenant_scope (AssignTask a p w _ _) = Some (a, p, w)"
| "tenant_scope (StartTask a p w _) = Some (a, p, w)"
| "tenant_scope (SubmitDeliverable a p w _ _) = Some (a, p, w)"
| "tenant_scope (ApproveDeliverable a p w _ _ _) = Some (a, p, w)"
| "tenant_scope (RequestChanges a p w _ _ c) =
     (if strip (text_or_empty c) = [] then None else Some (a, p, w))"
| "tenant_scope (CreateComment a p w _ _) = Some (a, p, w)"
| "tenant_scope (UpdateComment a p w _ _ _) = Some (a, p, w)"
| "tenant_scope (DeleteComment a p w _ _) = Some (a, p, w)"
| "tenant_scope _ = None"

fun is_lifecycle :: "command \<Rightarrow> bool" where
  "is_lifecycle (SetWorkspaceStatus _ _ _ _) = True"
| "is_lifecycle _ = False"

lemma effect_Inl [simp]: "effect (Inl e) = Inl e"
  by (simp add: effect_def)

lemmas service_boundaries = update_workspace_service.boundary set_workspace_status_service.boundary
  add_workspace_member_service.boundary update_workspace_member_service.boundary
  revoke_workspace_member_service.boundary create_task_service.boundary update_task_service.boundary
  assign_task_service.boundary start_task_service.boundary submit_deliverable_service.boundary
  review_deliverable_service.boundary create_comment_service.boundary update_comment_service.boundary
  delete_comment_service.boundary

lemma exec_boundary:
  assumes "tenant_scope c = Some (a, p, w)" "lock_workspace_mutation_context a p w s = Inl e"
  shows "exec env c s = Inl e"
  using assms
  by (cases c) (auto simp: service_boundaries approve_deliverable_def request_deliverable_changes_def
      split: if_splits)

lemma exec_scope:
  assumes "exec env c s = Inr s'" "tenant_scope c = Some (a, p, w)"
  obtains p' w' r where "p = Val p'" "w = Val w'" "profile_active p' s" "has_authority s a p' w' r"
proof (cases "lock_workspace_mutation_context a p w s")
  case (Inl e)
  from exec_boundary [OF assms(2) this] assms(1) show ?thesis by simp
next
  case (Inr x)
  obtain wc ws m where "x = (wc, ws, m)" by (cases x)
  with Inr obtain b where "locked a p w s b ws (wc_profile wc)" using lock_locked by metis
  with that show ?thesis unfolding locked_def by metis
qed

lemma task_service_active:
  "create_task env a pid wid ti de pr dl par s = Inr (t, s') \<Longrightarrow> wid = Val w \<Longrightarrow> ws_active s w"
  "update_task env a pid wid tid ti' de' pr' dl' par' s = Inr (t, s') \<Longrightarrow> wid = Val w \<Longrightarrow> ws_active s w"
  "assign_task env a pid wid tid m s = Inr (x, s') \<Longrightarrow> wid = Val w \<Longrightarrow> ws_active s w"
  "start_task env a pid wid tid s = Inr (t, s') \<Longrightarrow> wid = Val w \<Longrightarrow> ws_active s w"
  "submit_deliverable env a pid wid tid url s = Inr (d, s') \<Longrightarrow> wid = Val w \<Longrightarrow> ws_active s w"
  "review_deliverable env a pid wid tid did rst c s = Inr (r, s') \<Longrightarrow> wid = Val w \<Longrightarrow> ws_active s w"
  "create_comment env a pid wid tid txt s = Inr (c', s') \<Longrightarrow> wid = Val w \<Longrightarrow> ws_active s w"
  "update_comment env a pid wid tid cid txt s = Inr (c', s') \<Longrightarrow> wid = Val w \<Longrightarrow> ws_active s w"
  "delete_comment env a pid wid tid cid s = Inr (c', s') \<Longrightarrow> wid = Val w \<Longrightarrow> ws_active s w"
  by (erule create_task_D update_task_D assign_task_D start_task_D submit_deliverable_D
      review_deliverable_D create_comment_D update_comment_D delete_comment_D;
      simp add: task_locked_def locked_def)+

lemma workspace_service_active:
  "update_workspace env a pid wid name descr s = Inr (x, s') \<Longrightarrow> wid = Val w \<Longrightarrow> ws_active s w"
  "add_workspace_member env a pid wid mid r s = Inr (y, s') \<Longrightarrow> wid = Val w \<Longrightarrow> ws_active s w"
  "update_workspace_member env a pid wid mid r s = Inr (z, s') \<Longrightarrow> wid = Val w \<Longrightarrow> ws_active s w"
  "revoke_workspace_member env a pid wid mid s = Inr (z, s') \<Longrightarrow> wid = Val w \<Longrightarrow> ws_active s w"
  by (erule update_workspace_D update_workspace_member_D revoke_workspace_member_D;
      simp add: locked_def
     | cases y; erule ssubst; erule add_workspace_member_D; simp add: locked_def
     | cases y; auto elim: add_workspace_member_D simp: locked_def)+

lemma exec_active:
  assumes "exec env c s = Inr s'" "tenant_scope c = Some (a, p, Val w)" "\<not> is_lifecycle c"
  shows "ws_active s w"
  using assms
  by (cases c) (auto dest!: approve_is_review request_changes_is_review
      dest: task_service_active workspace_service_active split: if_splits)

subsection \<open>The audit trail\<close>

text \<open>The user a command acts for; the callbacks that deliver e-mail act for nobody.\<close>

fun actor_of :: "command \<Rightarrow> uuid option" where
  "actor_of (CreateProfile _ owner _) = owner"
| "actor_of (SetProfileStatus a _ _) = Some a"
| "actor_of (UpdateProfileMembership a _ _ _ _) = Some a"
| "actor_of (CreateWorkspace a _ _ _ _) = Some a"
| "actor_of (UpdateWorkspace a _ _ _ _) = Some a"
| "actor_of (SetWorkspaceStatus a _ _ _) = Some a"
| "actor_of (AddMember a _ _ _ _) = Some a"
| "actor_of (UpdateMember a _ _ _ _) = Some a"
| "actor_of (RevokeMember a _ _ _) = Some a"
| "actor_of (CreateTask a _ _ _ _ _ _ _) = Some a"
| "actor_of (UpdateTask a _ _ _ _ _ _ _ _) = Some a"
| "actor_of (AssignTask a _ _ _ _) = Some a"
| "actor_of (StartTask a _ _ _) = Some a"
| "actor_of (SubmitDeliverable a _ _ _ _) = Some a"
| "actor_of (ApproveDeliverable a _ _ _ _ _) = Some a"
| "actor_of (RequestChanges a _ _ _ _ _) = Some a"
| "actor_of (CreateComment a _ _ _ _) = Some a"
| "actor_of (UpdateComment a _ _ _ _ _) = Some a"
| "actor_of (DeleteComment a _ _ _ _) = Some a"
| "actor_of (MarkNotificationRead a _) = Some a"
| "actor_of (CreateInvitation a _ _ _) = Some a"
| "actor_of (RevokeInvitation a _ _) = Some a"
| "actor_of (ResendInvitation a _ _) = Some a"
| "actor_of (AcceptInvitation a _) = Some a"
| "actor_of (DeclineInvitation a _) = Some a"
| "actor_of (ClaimDelivery _ _) = None"
| "actor_of (FinishDelivery _ _ _ _) = None"

fun is_unaudited :: "command \<Rightarrow> bool" where
  "is_unaudited (MarkNotificationRead _ _) = True"
| "is_unaudited (ClaimDelivery _ _) = True"
| "is_unaudited (FinishDelivery _ _ _ _) = True"
| "is_unaudited _ = False"

definition audited :: "uuid option \<Rightarrow> db \<Rightarrow> db \<Rightarrow> bool" where
  "audited a s s' \<longleftrightarrow> s' = s \<or> (\<exists>ls. ls \<noteq> [] \<and> audit_logs s' = audit_logs s @ ls
     \<and> (\<forall>l\<in>set ls. al_user l = a))"

lemma audited_one:
  "s' = s \<or> (\<exists>l. audit_logs s' = audit_logs s @ [l] \<and> al_user l = Some a) \<Longrightarrow> audited (Some a) s s'"
  unfolding audited_def by (metis (no_types, lifting) empty_iff insert_iff list.distinct(1) list.set(1) list.simps(15))

lemmas service_audits = update_workspace_service.audited set_workspace_status_service.audited
  add_workspace_member_service.audited update_workspace_member_service.audited
  revoke_workspace_member_service.audited create_task_service.audited update_task_service.audited
  assign_task_service.audited start_task_service.audited submit_deliverable_service.audited
  review_deliverable_service.audited create_comment_service.audited update_comment_service.audited
  delete_comment_service.audited

lemma profile_services_audited:
  "create_profile_with_owner env name owner act s = Inr (p, s') \<Longrightarrow> audited owner s s'"
  "set_profile_status env a pid st s = Inr (p, s') \<Longrightarrow> audited (Some a) s s'"
  "update_profile_membership env a pid mid r b s = Inr (m, s') \<Longrightarrow> audited (Some a) s s'"
  "create_workspace env a pid name' d descr s = Inr (w, s') \<Longrightarrow> audited (Some a) s s'"
proof -
  show "audited owner s s'" if "create_profile_with_owner env name owner act s = Inr (p, s')"
    using create_profile_D [OF that] by (auto intro!: audited_one logged_audited)
  show "audited (Some a) s s'" if "set_profile_status env a pid st s = Inr (p, s')"
    using set_profile_status_D [OF that]
    by (auto simp: Let_def intro!: audited_one dest: logged_audited split: if_splits)
  show "audited (Some a) s s'" if "update_profile_membership env a pid mid r b s = Inr (m, s')"
    using that
  proof (rule update_profile_membership_E)
    fix x r b
    assume "membership_saved env a x r b m s s'"
    then have "s' = s \<or> (\<exists>l. audit_logs s' = audit_logs s @ [l] \<and> al_user l = Some a)"
      unfolding membership_saved_def Let_def by (auto dest: logged_audited split: if_splits)
    then show ?thesis by (rule audited_one)
  qed
  show "audited (Some a) s s'" if "create_workspace env a pid name' d descr s = Inr (w, s')"
    using create_workspace_D [OF that] by (auto intro!: audited_one dest: logged_audited)
qed

text \<open>An invitation service ends with a record of its own.\<close>

lemma audited_effect:
  assumes "invitation_effect (Some a) s s'" "db_ok s" "length (audit_logs s) < length (audit_logs s')"
  shows "audited (Some a) s s'"
  using assms unfolding invitation_effect_def audits_by_def audited_def by auto

lemma issued_length: "issued env k p m e r u rep i s s' \<Longrightarrow> length (audit_logs s') = Suc (length (audit_logs s))"
  by (auto simp: issued_def dest!: logged_length)

lemma invitation_services_audited:
  assumes ok: "db_ok s"
  shows "create_profile_invitation env a pid email role s = Inr (i, s') \<Longrightarrow> audited (Some a) s s'"
    "revoke_profile_invitation env a pid iid s = Inr (r, s') \<Longrightarrow> audited (Some a) s s'"
    "resend_profile_invitation env a pid iid s = Inr (i, s') \<Longrightarrow> audited (Some a) s s'"
    "accept_profile_invitation env a token s = Inr (x, s') \<Longrightarrow> audited (Some a) s s'"
    "decline_profile_invitation env a token s = Inr (r, s') \<Longrightarrow> audited (Some a) s s'"
proof -
  show "audited (Some a) s s'" if "create_profile_invitation env a pid email role s = Inr (i, s')"
  proof (rule audited_effect [OF invitation_services_effect(1) [OF that] ok])
    show "length (audit_logs s) < length (audit_logs s')"
      using that
    proof (rule create_invitation_D)
      fix p m r s1 s2 k u
      assume e: "invitation_effect (Some a) s s1" "invitation_effect (Some a) s1 s2"
        and i: "issued env k p m (normalize_invitation_email env email) r u None i s2 s'"
      show ?thesis using effect_audit_length [OF effect_trans [OF e] ok] issued_length [OF i] by simp
    qed
  qed
  show "audited (Some a) s s'" if "revoke_profile_invitation env a pid iid s = Inr (r, s')"
    by (rule audited_effect [OF invitation_services_effect(2) [OF that] ok], rule revoke_invitation_D [OF that])
      (auto dest!: logged_length saved_length split: if_splits)
  show "audited (Some a) s s'" if "resend_profile_invitation env a pid iid s = Inr (i, s')"
  proof (rule audited_effect [OF invitation_services_effect(3) [OF that] ok])
    show "length (audit_logs s) < length (audit_logs s')"
      using that
    proof (rule resend_D)
      fix p m i0 s1 s2 s3 u k
      assume e: "invitation_effect (Some a) s s1" "invitation_effect (Some a) s1 s2"
        and i: "issued env k p m (pi_email i0) (pi_requested_role i0) u (Some (pi_id i0)) i s2 s3"
        and l: "logged a (pi_id i) ''profile.invitation.resent'' s3 s'"
      show ?thesis
        using effect_audit_length [OF effect_trans [OF e] ok] issued_length [OF i] logged_length [OF l] by simp
    qed
  qed
  show "audited (Some a) s s'" if "accept_profile_invitation env a token s = Inr (x, s')"
    by (rule audited_effect [OF invitation_services_effect(4) [OF that] ok], rule accept_D [OF that]) (simp add: ok)
  show "audited (Some a) s s'" if "decline_profile_invitation env a token s = Inr (r, s')"
    by (rule audited_effect [OF invitation_services_effect(5) [OF that] ok], rule decline_D [OF that])
qed

lemma exec_audited:
  "db_ok s \<Longrightarrow> exec env c s = Inr s' \<Longrightarrow> \<not> is_unaudited c \<Longrightarrow> audited (actor_of c) s s'"
  by (cases c) (auto dest!: approve_is_review request_changes_is_review
      dest: service_audits [THEN audited_one] profile_services_audited invitation_services_audited)

lemma exec_unaudited:
  assumes "db_ok s" "exec env c s = Inr s'" "is_unaudited c"
  shows "audit_logs s' = audit_logs s"
proof (cases c)
  case (MarkNotificationRead a n)
  with assms(2) obtain x where "mark_notification_read env a n s = Inr (x, s')" by auto
  then show ?thesis by (rule mark_notification_read_D) (auto simp: Let_def split: if_splits)
next
  case (ClaimDelivery i d)
  with assms(1,2) invitation_services_effect(6) show ?thesis
    by (fastforce simp: invitation_effect_def audits_by_def)
next
  case (FinishDelivery t n i d)
  with assms(1,2) invitation_services_effect(7) show ?thesis
    by (fastforce simp: invitation_effect_def audits_by_def)
qed (use assms(3) in simp_all)

subsection \<open>Properties of the boundary\<close>

text \<open>
  C4. The lock never broadens an authority. The Profile context, the Workspace context and the row
  locks of a mutation read the database at three moments, between which other transactions may
  commit; when the lock is obtained, the actor has, at the last of them, exactly the authority the
  context claims, over a Workspace of an active Profile, and the membership row returned carries it.
\<close>

theorem mutation_lock_never_broadens:
  assumes "lock_workspace_mutation_context_at s0 s1 s2 actor pid wid = Inr (wc, w, m)"
  shows "\<exists>a. context_authority wc = Some a \<and> pid = Val (pm_profile m) \<and> wid = Val (w_id w)
    \<and> w \<in> set (workspaces s2) \<and> m \<in> set (memberships s2) \<and> pm_user m = actor \<and> pm_is_active m
    \<and> pm_role m = authority_profile_role a \<and> profile_active (pm_profile m) s2
    \<and> has_authority s2 actor (pm_profile m) (w_id w) a"
proof -
  note L = lock_at_D [OF assms]
  obtain a where a: "context_authority wc = Some a"
    "has_authority s2 (wc_user wc) (wc_profile wc) (wc_workspace wc) a"
    using is_current_D(2) [OF L(14)] by blast
  moreover have "pm_role m = authority_profile_role a"
    using a(1) L(13) by (cases rule: context_authority_cases) auto
  ultimately show ?thesis using L by (intro exI [of _ a]) simp
qed

text \<open>The member's assignment is lowered between resolution and locking: the lock refuses.\<close>

definition ex_lowered :: db where
  "ex_lowered = ex_db\<lparr>members := [mk_member 203 20 3 WR_MEMBER True, mk_member 204 20 4 WR_VIEWER True]\<rparr>"

lemma mutation_lock_never_broadens_witness:
  "has_authority ex_lowered 3 10 20 (Assigned WR_MEMBER)
   \<and> lock_workspace_mutation_context_at ex_db ex_db ex_lowered 4 (Val 10) (Val 20) = Inl TenantAccessNotFound"
proof
  obtain x where x: "lock_workspace_mutation_context_at ex_db ex_db ex_lowered 3 (Val 10) (Val 20) = Inr x"
    "context_authority (fst x) = Some (Assigned WR_MEMBER)" "w_id (fst (snd x)) = 20" "pm_profile (snd (snd x)) = 10"
    by (simp add: evals ex_lowered_def ex_db_def context_authority_def)
  obtain wc w m where "x = (wc, w, m)" by (cases x)
  with x mutation_lock_never_broadens [of ex_db ex_db ex_lowered 3 "Val 10" "Val 20" wc w m]
  show "has_authority ex_lowered 3 10 20 (Assigned WR_MEMBER)" by auto
  show "lock_workspace_mutation_context_at ex_db ex_db ex_lowered 4 (Val 10) (Val 20) = Inl TenantAccessNotFound"
    by (simp add: evals ex_lowered_def ex_db_def)
qed

text \<open>
  C5. Tenant isolation. A command on a Workspace by a user without authority over it, whether the
  identifiers are malformed, unknown, of another tenant, or the user lost their role, is refused
  as if the Workspace did not exist, whatever the command would do.
\<close>

theorem tenant_isolation:
  assumes "tenant_scope c = Some (a, p, w)"
    and "\<And>p' w' r. p = Val p' \<Longrightarrow> w = Val w' \<Longrightarrow> \<not> has_authority s a p' w' r"
  shows "exec env c s = Inl TenantAccessNotFound"
  using exec_boundary [OF assms(1) lock_denied [of p w s a, OF assms(2)]] by blast

lemma tenant_isolation_witness:
  "exec ex_env (StartTask 5 (Val 10) (Val 20) (Val 31)) ex_db = Inl TenantAccessNotFound"
proof (rule tenant_isolation)
  show "tenant_scope (StartTask 5 (Val 10) (Val 20) (Val 31)) = Some (5, Val 10, Val 20)" by simp
  show "\<not> has_authority ex_db 5 p' w' r" if "Val 10 = Val p'" "Val 20 = Val w'" for p' w' r
    using that by (cases r) (auto simp: ex_db_def evals holds_profile_role_def)
qed

text \<open>
  C6. Only live scopes change. A command on a Workspace that commits was issued by a user with
  authority over it, in an active Profile, and, but for the lifecycle commands that archive and
  restore it, the Workspace was active.
\<close>

theorem only_active_scopes_change:
  assumes "exec env c s = Inr s'" "tenant_scope c = Some (a, p, w)"
  shows "\<exists>p' w' r. p = Val p' \<and> w = Val w' \<and> profile_active p' s \<and> has_authority s a p' w' r
    \<and> (is_lifecycle c \<or> ws_active s w')"
proof -
  obtain p' w' r where "p = Val p'" "w = Val w'" "profile_active p' s" "has_authority s a p' w' r"
    using exec_scope [OF assms] by metis
  with exec_active [OF assms(1)] assms(2) show ?thesis by auto
qed

lemma only_active_scopes_change_witness: "ws_active ex_db 20"
proof -
  obtain s' where "exec ex_env (StartTask 3 (Val 10) (Val 20) (Val 31)) ex_db = Inr s'"
    by (simp add: evals ex_db_def)
  from only_active_scopes_change [OF this] show ?thesis by simp
qed

text \<open>
  C7. The audit trail. Every committed command either changes nothing or appends audit records of
  the user it acts for; only the read mark of a notification and the mail callbacks write none.
\<close>

theorem audit_trail:
  assumes "db_ok s" "exec env c s = Inr s'"
  shows "if is_unaudited c then audit_logs s' = audit_logs s
    else s' = s \<or> (\<exists>ls. ls \<noteq> [] \<and> audit_logs s' = audit_logs s @ ls
      \<and> (\<forall>l\<in>set ls. al_user l = actor_of c))"
  using exec_audited [OF assms] exec_unaudited [OF assms] by (simp add: audited_def)

lemma audit_trail_witness:
  "\<exists>s'. exec ex_env (StartTask 3 (Val 10) (Val 20) (Val 31)) ex_db = Inr s' \<and> audit_logs s' \<noteq> []
     \<and> (\<forall>l\<in>set (audit_logs s'). al_user l = Some 3)"
proof -
  obtain s' where s': "exec ex_env (StartTask 3 (Val 10) (Val 20) (Val 31)) ex_db = Inr s'"
    "tasks s' \<noteq> tasks ex_db"
    by (simp add: evals ex_db_def)
  have "audit_logs ex_db = []" by (simp add: ex_db_def)
  with audit_trail [OF ex_db_ok s'(1)] s' show ?thesis by auto
qed

end
