(* ===== verification/Governance_Theorems.thy ===== *)
theory Governance_Theorems
  imports Tenant_Theorems
begin

text \<open>
  Properties of roles and lifecycles: who may grant which role, what a membership change may do,
  archiving and restoring, and that what a user creates is theirs to use.
\<close>

subsection \<open>Granting Workspace roles\<close>

text \<open>An active assignment that was there before, as it is now.\<close>

definition assignment_kept :: "db \<Rightarrow> workspace_member \<Rightarrow> bool" where
  "assignment_kept s m' \<longleftrightarrow> (\<exists>m\<in>set (members s). wm_id m = wm_id m' \<and> wm_workspace m = wm_workspace m'
     \<and> wm_user m = wm_user m' \<and> wm_role m = wm_role m' \<and> wm_is_active m)"

definition granted :: "uuid option \<Rightarrow> db \<Rightarrow> workspace_member \<Rightarrow> bool" where
  "granted actor s m' \<longleftrightarrow> (\<exists>a p r. actor = Some a \<and> profile_active p s \<and> ws_active s (wm_workspace m')
     \<and> has_authority s a p (wm_workspace m') r \<and> manages r \<and> within_ceiling r (wm_role m')
     \<and> active_member s p (wm_user m'))"

lemma kept_refl: "m' \<in> set (members s) \<Longrightarrow> wm_is_active m' \<Longrightarrow> assignment_kept s m'"
  by (auto simp: assignment_kept_def)

lemma updated_rows:
  assumes "member_updated a act m f s s'" "m' \<in> set (members s')" "members_ok (members s)" "m \<in> set (members s)"
  shows "m' \<in> set (members s) \<or> m' = f m"
proof -
  have rows: "members s' = update_where (\<lambda>x. wm_id x = wm_id m) f (members s)"
    using assms(1) by (auto simp: member_updated_def Let_def dest: logged_tables(5))
  then obtain x where x: "x \<in> set (members s)" "m' = (if wm_id x = wm_id m then f x else x)"
    using assms(2) unfolding in_update_where rows by blast
  show ?thesis
  proof (cases "wm_id x = wm_id m")
    case True
    then have "x = m" using assms(3,4) x(1) by (auto simp: members_ok_def intro: distinct_map_eq [of wm_id])
    with x(2) True show ?thesis by simp
  qed (use x in simp)
qed

lemma grants_member_services:
  assumes ok: "db_ok s" and m': "m' \<in> set (members s')" "wm_is_active m'"
  shows "add_workspace_member env a pid wid tid role s = Inr ((x, re), s') \<Longrightarrow>
      assignment_kept s m' \<or> granted (Some a) s m'"
    "update_workspace_member env a pid wid mid role s = Inr (y, s') \<Longrightarrow>
      assignment_kept s m' \<or> granted (Some a) s m'"
    "revoke_workspace_member env a pid wid mid s = Inr (y, s') \<Longrightarrow>
      assignment_kept s m' \<or> granted (Some a) s m'"
proof -
  note mok = db_okD(4) [OF ok]
  show "assignment_kept s m' \<or> granted (Some a) s m'"
    if "add_workspace_member env a pid wid tid role s = Inr ((x, re), s')"
    using that
  proof (rule add_workspace_member_D)
    fix au w p r tm
    assume l: "locked a pid wid s au w p" "manages au" "ws_active s (w_id w)" "within_ceiling au r"
      "tm \<in> set (memberships s)" "pm_profile tm = p" "pm_is_active tm" "user_active s (pm_user tm)"
      and g: "member_assigned env a (w_id w) r (pm_user tm) x re s s'"
    have act: "active_member s p (pm_user tm)" using l by (auto simp: active_member_def)
    have x: "wm_workspace x = w_id w \<and> wm_user x = pm_user tm \<and> wm_role x = r"
      using g by (auto simp: member_assigned_def new_member_def split: if_splits)
    have "m' \<in> set (members s) \<or> m' = x"
    proof (cases re)
      case True
      with g show ?thesis by (auto simp: member_assigned_def dest: updated_rows [OF _ m'(1) mok])
    next
      case False
      with g m'(1) show ?thesis by (auto simp: member_assigned_def dest: logged_tables(5))
    qed
    then show ?thesis using kept_refl m'(2) l(1-4) act x by (auto simp: granted_def locked_def)
  qed
  show "assignment_kept s m' \<or> granted (Some a) s m'"
    if "update_workspace_member env a pid wid mid role s = Inr (y, s')"
    using that
  proof (rule update_workspace_member_D)
    fix au w p r m
    assume l: "locked a pid wid s au w p" "manages au" "ws_active s (w_id w)" "within_ceiling au r"
      "wm_workspace m = w_id w" "active_member s p (wm_user m)" "m \<in> set (members s)"
      and u: "if wm_role m = r then y = m \<and> s' = s else y = m\<lparr>wm_role := r, wm_updated_at := e_now env\<rparr>
        \<and> member_updated a ''workspace.membership.updated'' m
           (\<lambda>x. x\<lparr>wm_role := r, wm_updated_at := e_now env\<rparr>) s s'"
    have "m' \<in> set (members s) \<or> m' = m\<lparr>wm_role := r, wm_updated_at := e_now env\<rparr>"
      using u updated_rows [OF _ m'(1) mok l(7)] m'(1) by (cases "wm_role m = r") auto
    then show ?thesis using kept_refl m'(2) l(1-6) by (auto simp: granted_def locked_def)
  qed
  show "assignment_kept s m' \<or> granted (Some a) s m'"
    if "revoke_workspace_member env a pid wid mid s = Inr (y, s')"
    using that
  proof (rule revoke_workspace_member_D)
    fix au w p m
    assume "m \<in> set (members s)" "member_updated a ''workspace.membership.revoked'' m
       (\<lambda>x. x\<lparr>wm_is_active := False, wm_updated_at := e_now env\<rparr>) s s'"
    then have "m' \<in> set (members s)" using updated_rows [OF _ m'(1) mok] m'(2) by fastforce
    then show ?thesis using kept_refl m'(2) by simp
  qed
qed

lemma grants_unchanged: "side_tables s' = side_tables s \<Longrightarrow> m' \<in> set (members s') \<Longrightarrow> wm_is_active m' \<Longrightarrow>
    assignment_kept s m'"
  by (simp add: side_tables_def kept_refl)

lemma grants_invitation:
  assumes "db_ok s" "m' \<in> set (members s')" "wm_is_active m'" "invitation_effect a s s'"
  shows "assignment_kept s m'"
  using assms by (fastforce simp: invitation_effect_def members_shrink_def member_withdrawn_def assignment_kept_def)

text \<open>
  C10. Roles are granted downwards only. Every active assignment after a command either was there
  before with the same role, or was granted by the command's actor: a manager of the active
  Workspace, at that moment, for whose authority the role is below the ceiling (Profile Owners and
  Admins up to Workspace Admin, a Workspace Admin only Editor and Viewer), to a user with an active
  membership of the Profile.
\<close>

theorem grants_within_ceiling:
  assumes "db_ok s" "exec env c s = Inr s'" "m' \<in> set (members s')" "wm_is_active m'"
  shows "assignment_kept s m' \<or> granted (actor_of c) s m'"
proof (cases "is_invitation_command c")
  case True
  then show ?thesis using exec_invitation_effect [OF assms(2)] grants_invitation [OF assms(1,3,4)] by blast
next
  case False
  with assms(2) show ?thesis
    by (cases c) (auto dest!: approve_is_review request_changes_is_review
        dest: grants_member_services [OF assms(1,3,4)]
          side_unchanged [THEN grants_unchanged [OF _ assms(3,4)]])
qed

lemma grants_within_ceiling_witness:
  "granted (Some 2) ex_db ((mk_member 206 20 6 WR_ADMIN True)\<lparr>wm_updated_at := 1000\<rparr>)"
proof -
  let ?m = "(mk_member 206 20 6 WR_ADMIN True)\<lparr>wm_updated_at := 1000\<rparr>"
  obtain s' where s': "exec ex_env (UpdateMember 2 (Val 10) (Val 20) (Val 206) (Val WR_ADMIN)) ex_db = Inr s'"
    "?m \<in> set (members s')"
    by (simp add: evals ex_db_def)
  have "\<not> assignment_kept ex_db ?m" "wm_is_active ?m"
    by (auto simp: assignment_kept_def ex_db_def mk_member_def)
  with grants_within_ceiling [OF ex_db_ok s'] show ?thesis by simp
qed

subsection \<open>Profile memberships\<close>

lemma membership_row_replaced:
  assumes "membership_saved env a m r b m' s s'" "m \<in> set (memberships s)" "db_ok s"
  shows "memberships s' = map (\<lambda>x. if x = m then m' else x) (memberships s)" "m' \<in> set (memberships s')"
    "if m' = m then s' = s
     else \<exists>l. al_user l = Some a \<and> s' = s\<lparr>memberships := memberships s', audit_logs := audit_logs s @ [l]\<rparr>"
proof -
  have only: "pm_id x = pm_id m \<longleftrightarrow> x = m" if "x \<in> set (memberships s)" for x
    using membership_pk_unique [OF db_okD(2) [OF assms(3)] that assms(2)] by auto
  have rows: "memberships s' = map (\<lambda>x. if x = m then m' else x) (memberships s)"
  proof (cases "pm_role m = r \<and> pm_is_active m = b")
    case True
    with assms(1) have "m' = m" "s' = s" by (simp_all add: membership_saved_def)
    then show ?thesis by (simp add: map_idI)
  next
    case False
    with assms(1) have t: "m' = m\<lparr>pm_role := r, pm_is_active := b, pm_updated_at := e_now env\<rparr>"
      "memberships s' = update_where (\<lambda>x. pm_id x = pm_id m)
         (\<lambda>x. x\<lparr>pm_role := r, pm_is_active := b, pm_updated_at := e_now env\<rparr>) (memberships s)"
      by (auto simp: membership_saved_def Let_def dest: logged_tables(3))
    show ?thesis unfolding t(2) update_where_def by (rule map_cong) (auto simp: only t(1))
  qed
  then show "memberships s' = map (\<lambda>x. if x = m then m' else x) (memberships s)" "m' \<in> set (memberships s')"
    using assms(2) by auto
  show "if m' = m then s' = s
     else \<exists>l. al_user l = Some a \<and> s' = s\<lparr>memberships := memberships s', audit_logs := audit_logs s @ [l]\<rparr>"
  proof (cases "pm_role m = r \<and> pm_is_active m = b")
    case False
    with assms(1) have "pm_role m' = r \<and> pm_is_active m' = b" "\<exists>l. al_user l = Some a
        \<and> s' = s\<lparr>memberships := memberships s', audit_logs := audit_logs s @ [l]\<rparr>"
      by (auto simp: membership_saved_def Let_def logged_def)
    moreover from this(1) False have "m' \<noteq> m" by auto
    ultimately show ?thesis by simp
  qed (use assms(1) in \<open>simp add: membership_saved_def\<close>)
qed

text \<open>
  C11. What a Profile membership change may do, and that it does what was asked. It is made by an
  Owner or Admin of the active Profile; an Admin touches ordinary members only and promotes nobody;
  nobody is reactivated; an active Owner has an active account; the last usable Owner keeps the
  role, and so does a manager who owns a Workspace of the Profile. The stored row has the role and
  the activity that were asked for, its other fields and all other rows are the old ones, and but
  for one audit record by the actor when something changed, so is the rest of the database.
\<close>

theorem membership_change_limits:
  assumes "db_ok s" "update_profile_membership env a pid mid role act s = Inr (m', s')"
  shows "\<exists>m\<in>set (memberships s). \<exists>r. pid = Val (pm_profile m) \<and> mid = Val (pm_id m)
    \<and> is_manager r \<and> holds_profile_role s a (pm_profile m) r \<and> profile_active (pm_profile m) s
    \<and> (r = PR_ADMIN \<longrightarrow> pm_role m = PR_MEMBER \<and> pm_role m' = PR_MEMBER)
    \<and> (pm_is_active m' \<longrightarrow> pm_is_active m)
    \<and> (pm_role m' = PR_OWNER \<and> pm_is_active m' \<longrightarrow> user_active s (pm_user m))
    \<and> (pm_role m = PR_OWNER \<and> pm_is_active m \<and> user_active s (pm_user m)
        \<and> \<not> (pm_role m' = PR_OWNER \<and> pm_is_active m') \<longrightarrow> other_active_owner m s)
    \<and> (pm_is_active m \<and> is_manager (pm_role m) \<and> \<not> (pm_is_active m' \<and> is_manager (pm_role m'))
        \<longrightarrow> \<not> owns_workspace (pm_profile m) (pm_user m) s)
    \<and> (role = None \<and> pm_role m' = pm_role m \<or> role = Some (Val (pm_role m')))
    \<and> (act = None \<and> pm_is_active m' = pm_is_active m \<or> act = Some (Val (pm_is_active m')))
    \<and> m' = m\<lparr>pm_role := pm_role m', pm_is_active := pm_is_active m', pm_updated_at := pm_updated_at m'\<rparr>
    \<and> m' \<in> set (memberships s') \<and> memberships s' = map (\<lambda>x. if x = m then m' else x) (memberships s)
    \<and> (if m' = m then s' = s
       else \<exists>l. al_user l = Some a \<and> s' = s\<lparr>memberships := memberships s', audit_logs := audit_logs s @ [l]\<rparr>)"
  using assms(2)
proof (rule update_profile_membership_E)
  fix m am r b
  assume g: "pid = Val (pm_profile m)" "mid = Val (pm_id m)" "m \<in> set (memberships s)"
    "profile_active (pm_profile m) s" "is_manager am" "holds_profile_role s a (pm_profile m) am"
    "am = PR_ADMIN \<longrightarrow> pm_role m = PR_MEMBER \<and> r = PR_MEMBER"
    "role = None \<and> r = pm_role m \<or> role = Some (Val r)"
    "act = None \<and> b = pm_is_active m \<or> act = Some (Val b)" "b \<longrightarrow> pm_is_active m"
    "r = PR_OWNER \<and> b \<longrightarrow> user_active s (pm_user m)"
    "pm_role m = PR_OWNER \<and> pm_is_active m \<and> user_active s (pm_user m) \<and> (r \<noteq> PR_OWNER \<or> \<not> b)
       \<longrightarrow> other_active_owner m s"
    "pm_is_active m \<and> is_manager (pm_role m) \<and> (\<not> b \<or> \<not> is_manager r)
       \<longrightarrow> \<not> owns_workspace (pm_profile m) (pm_user m) s"
    and v: "membership_saved env a m r b m' s s'"
  have f: "pm_role m' = r" "pm_is_active m' = b"
    "m' = m\<lparr>pm_role := pm_role m', pm_is_active := pm_is_active m', pm_updated_at := pm_updated_at m'\<rparr>"
    using v by (auto simp: membership_saved_def split: if_splits)
  note row = membership_row_replaced [OF v g(3) assms(1)]
  show ?thesis
    using g f row by (intro bexI [of _ m] exI [of _ am] conjI) auto
qed

lemma membership_change_limits_witness:
  "\<exists>m' s'. update_profile_membership ex_env 1 (Val 10) (Val 103) (Some (Val PR_ADMIN)) None ex_db = Inr (m', s')
     \<and> m' \<in> set (memberships s') \<and> pm_role m' = PR_ADMIN \<and> tasks s' = tasks ex_db
   \<and> update_profile_membership ex_env 2 (Val 10) (Val 103) (Some (Val PR_ADMIN)) None ex_db = Inl PermissionDenied"
proof -
  obtain m' s' where c: "update_profile_membership ex_env 1 (Val 10) (Val 103) (Some (Val PR_ADMIN)) None ex_db = Inr (m', s')"
    by (simp add: evals ex_db_def)
  have "tasks s' = tasks ex_db \<and> m' \<in> set (memberships s') \<and> pm_role m' = PR_ADMIN"
    using membership_change_limits [OF ex_db_ok c] by (force split: if_splits)
  moreover have "update_profile_membership ex_env 2 (Val 10) (Val 103) (Some (Val PR_ADMIN)) None ex_db = Inl PermissionDenied"
    by (simp add: evals ex_db_def)
  ultimately show ?thesis using c by blast
qed

subsection \<open>Lifecycle\<close>

lemma set_workspace_status_I:
  assumes ok: "db_ok s" and a: "has_authority s u p (w_id w) (Manager r)" "profile_active p s"
    and w: "w \<in> set (workspaces s)"
  shows "set_workspace_status env u (Val p) (Val (w_id w)) (Val st) s =
    (if w_status w = st then Inr (w, s)
     else let f = (\<lambda>x. x\<lparr>w_status := st, w_updated_at := e_now env\<rparr>) in
       bindE (workspace_save (update_where (\<lambda>x. w_id x = w_id w) f (workspaces s)) (f w) s) (\<lambda>s1.
       bindE (write_workspace_audit env 0 u (f w)
         (if st = WS_ARCHIVED then ''workspace.archived'' else ''workspace.restored'')
         (JObj [(''status'', JStr (ws_status_str (w_status w)))])
         (JObj [(''status'', JStr (ws_status_str (w_status (f w))))]) s1) (\<lambda>s2. Inr (f w, s2))))"
proof -
  obtain wc x m where l: "lock_workspace_mutation_context u (Val p) (Val (w_id w)) s = Inr (wc, x, m)"
    and c: "context_authority wc = Some (Manager r)" by (rule lock_I [OF ok a])
  note L = lock_D [OF l]
  have "x = w" using workspace_pk_unique [OF db_okD(3) [OF ok] L(4) w] L(3,5) by simp
  moreover have "can_manage_workspace_lifecycle wc s"
    using c L(7,14) by (auto simp: can_manage_workspace_lifecycle_def context_authority_Manager wc_profile_def)
  ultimately show ?thesis using l by (simp add: set_workspace_status_def Let_def)
qed

lemma workspaces_ok_update:
  assumes "\<And>x. w_id (f x) = w_id x \<and> w_period (f x) = w_period x \<and> w_profile (f x) = w_profile x"
  shows "workspaces_ok (update_where P f ws) = workspaces_ok ws"
proof -
  let ?h = "\<lambda>x. if P x then f x else x"
  have "w_id \<circ> ?h = w_id" "(\<lambda>w. (w_profile w, w_period w)) \<circ> ?h = (\<lambda>w. (w_profile w, w_period w))"
    "(\<lambda>w. w_profile w \<noteq> None \<and> w_period w \<noteq> None) \<circ> ?h = (\<lambda>w. w_profile w \<noteq> None \<and> w_period w \<noteq> None)"
    using assms by (auto simp: fun_eq_iff)
  moreover have "w_period (?h w) = w_period w" for w using assms by simp
  then have "(\<forall>w\<in>set (map ?h ws). Q (w_period w)) = (\<forall>w\<in>set ws. Q (w_period w))" for Q
    by (simp only: set_map ball_simps)
  ultimately show ?thesis
    unfolding workspaces_ok_def update_where_def filter_map map_map by (simp only:)
qed

lemma has_authority_workspaces:
  assumes "has_authority s u p i a" "users s' = users s" "memberships s' = memberships s"
    "members s' = members s"
    and "workspaces s' = update_where P f (workspaces s)"
    "\<And>x. w_id (f x) = w_id x \<and> w_profile (f x) = w_profile x"
  shows "has_authority s' u p i a"
proof -
  have "in_tenant s' i p" if t: "in_tenant s i p"
  proof -
    obtain x where "x \<in> set (workspaces s)" "w_id x = i" "w_profile x = Some p"
      using t by (auto simp: in_tenant_def)
    then have "(if P x then f x else x) \<in> set (workspaces s')"
      "w_id (if P x then f x else x) = i" "w_profile (if P x then f x else x) = Some p"
      unfolding assms(5) set_update_where using assms(6) by auto
    then show ?thesis unfolding in_tenant_def by blast
  qed
  with assms show ?thesis by (cases a) (auto simp: holds_profile_role_def holds_ws_role_def user_active_def)
qed

text \<open>What a lifecycle change that wrote something has left.\<close>

lemma set_workspace_status_changed:
  assumes "set_workspace_status env u pid wid next s = Inr (w', s')" "db_ok s"
  obtains r w p st where "locked u pid wid s (Manager r) w p" "next = Val st" "db_ok s'"
    "has_authority s' u p (w_id w) (Manager r)" "profile_active p s'" "w' \<in> set (workspaces s')"
    "w_id w' = w_id w" "w_status w' = st" "s' = s \<or> (\<exists>l. s' = s\<lparr>workspaces := update_where (\<lambda>x. w_id x = w_id w)
       (\<lambda>x. x\<lparr>w_status := st, w_updated_at := e_now env\<rparr>) (workspaces s), audit_logs := audit_logs s @ [l]\<rparr>)"
  using assms(1)
proof (rule set_workspace_status_D)
  fix r w p st
  let ?f = "\<lambda>x. x\<lparr>w_status := st, w_updated_at := e_now env\<rparr>"
  assume l: "locked u pid wid s (Manager r) w p" "next = Val st"
    and c: "if w_status w = st then w' = w \<and> s' = s
     else w' = w\<lparr>w_status := st, w_updated_at := e_now env\<rparr> \<and> active_manager s p (w_owner w)
       \<and> (let rows = update_where (\<lambda>x. w_id x = w_id w) ?f (workspaces s) in
          workspaces_ok rows
          \<and> logged u (w_id w) (if st = WS_ARCHIVED then ''workspace.archived'' else ''workspace.restored'')
              (s\<lparr>workspaces := rows\<rparr>) s')"
  have ok': "db_ok s'" using db_ok_workspace_services(2) [OF assms(2,1)] .
  note L = l(1) [unfolded locked_def]
  show ?thesis
  proof (cases "w_status w = st")
    case True
    with c have "w' = w" "s' = s" by simp_all
    with True L that [OF l ok'] show ?thesis by simp
  next
    case False
    let ?rows = "update_where (\<lambda>x. w_id x = w_id w) ?f (workspaces s)"
    from False c obtain e where s': "s' = s\<lparr>workspaces := ?rows, audit_logs := audit_logs s @ [e]\<rparr>"
      and w': "w' = ?f w" by (auto simp: logged_def Let_def)
    have "has_authority s' u p (w_id w) (Manager r)"
    proof (rule has_authority_workspaces [of s u p "w_id w" "Manager r" s' "\<lambda>x. w_id x = w_id w" ?f])
      show "has_authority s u p (w_id w) (Manager r)" using L by blast
    qed (simp_all add: s')
    moreover have "profile_active p s'" using L s' by (simp add: profile_active_def)
    moreover have "w' \<in> set (workspaces s')" using L w' by (force simp: s' in_update_where)
    moreover have "w_id w' = w_id w" "w_status w' = st" by (simp_all add: w')
    ultimately show ?thesis using that [OF l ok'] s' by blast
  qed
qed

text \<open>
  Lifecycle requests are idempotent. After a Workspace has been archived (or restored), the
  same request by the same manager returns the same row and changes nothing, audit trail included,
  at whatever time it is repeated.
\<close>

theorem workspace_status_idempotent:
  assumes "db_ok s" "set_workspace_status env u pid wid next s = Inr (w', s')"
  shows "set_workspace_status env' u pid wid next s' = Inr (w', s')"
  using assms(2,1)
proof (rule set_workspace_status_changed)
  fix r w p st
  assume l: "locked u pid wid s (Manager r) w p" "next = Val st" "db_ok s'"
    "has_authority s' u p (w_id w) (Manager r)" "profile_active p s'" "w' \<in> set (workspaces s')"
    "w_id w' = w_id w" "w_status w' = st"
  have "set_workspace_status env' u (Val p) (Val (w_id w')) (Val st) s' = Inr (w', s')"
    using l by (subst set_workspace_status_I [of s' u p w' r]) simp_all
  with l show ?thesis by (simp add: locked_def)
qed

lemma workspace_status_idempotent_witness:
  "\<exists>w' s'. set_workspace_status ex_env 1 (Val 10) (Val 20) (Val WS_ARCHIVED) ex_db = Inr (w', s')
     \<and> w_status w' = WS_ARCHIVED
     \<and> set_workspace_status ex_env 1 (Val 10) (Val 20) (Val WS_ARCHIVED) s' = Inr (w', s')"
proof -
  obtain w' s' where "set_workspace_status ex_env 1 (Val 10) (Val 20) (Val WS_ARCHIVED) ex_db = Inr (w', s')"
    "w_status w' = WS_ARCHIVED"
    by (simp add: evals ex_db_def)
  with workspace_status_idempotent [OF ex_db_ok, of ex_env 1 "Val 10" "Val 20" "Val WS_ARCHIVED" w' s' ex_env]
  show ?thesis by blast
qed

text \<open>A Workspace up to the time of its last update.\<close>

definition untimed :: "workspace \<Rightarrow> workspace" where
  "untimed w = w\<lparr>w_updated_at := 0\<rparr>"

lemma workspace_save_status:
  assumes s1: "workspace_save rows w s = Inr s1" and w: "w \<in> set rows"
    and f: "\<And>x. f x = x\<lparr>w_status := st, w_updated_at := t\<rparr>"
    and per: "users s2 = users s1" "memberships s2 = memberships s1" "profiles s2 = profiles s1"
      "workspaces s2 = rows"
  shows "workspace_save (update_where P f rows) (f w) s2 = Inr (s2\<lparr>workspaces := update_where P f rows\<rparr>)"
proof -
  note D = workspace_save_D [OF s1]
  have x: "lookup_pk w_id (w_id w) (workspaces s2) = Some w"
    using w D(2) per(4) by (simp add: lookup_pk_eq workspaces_ok_def)
  have ok: "workspaces_ok (update_where P f rows)"
    using D(2) by (subst workspaces_ok_update) (simp_all add: f)
  have e: "profile_exists p s2 = profile_exists p s" "user_exists u s2 = user_exists u s"
    "active_manager s2 p u = active_manager s p u" for p u
    using per D(1) by (simp_all add: profile_exists_def user_exists_def active_manager_def user_active_def)
  have day: "case w_period w of None \<Rightarrow> True | Some d \<Rightarrow> date_day d = 1"
    using D(2) w by (auto simp: workspaces_ok_def)
  have "workspace_clean (f w) s2 = Inr ()"
    using s1 D(4) x day e
    by (auto simp: workspace_save_def workspace_full_clean_def workspace_clean_def Let_def f split: option.splits)
  moreover obtain p where "w_profile w = Some p" using D(4) by blast
  ultimately show ?thesis
    using s1 ok e
    by (simp add: workspace_save_def workspace_full_clean_def f unique_checks_def write_workspaces_def)
qed

lemma untimed_restored:
  assumes "workspaces_ok ws" "w \<in> set ws" "w_status w = WS_ACTIVE"
  shows "map untimed (update_where (\<lambda>x. w_id x = w_id w)
      (\<lambda>x. x\<lparr>w_status := WS_ACTIVE, w_updated_at := t2\<rparr>)
      (update_where (\<lambda>x. w_id x = w_id w) (\<lambda>x. x\<lparr>w_status := WS_ARCHIVED, w_updated_at := t1\<rparr>) ws))
    = map untimed ws"
proof -
  have "x = w" if "x \<in> set ws" "w_id x = w_id w" for x
    using workspace_pk_unique [OF assms(1) that(1) assms(2) that(2)] .
  then have "w_status x = WS_ACTIVE" if "x \<in> set ws" "w_id x = w_id w" for x
    using assms(3) that by blast
  moreover have "x\<lparr>w_status := WS_ACTIVE, w_updated_at := 0\<rparr> = x\<lparr>w_updated_at := 0\<rparr>"
    if "w_status x = WS_ACTIVE" for x :: workspace
    using that by (cases x) simp
  ultimately show ?thesis by (auto simp: update_where_def untimed_def)
qed

text \<open>
  Archiving and restoring is a round trip. A manager who archives an active Workspace can
  restore it (given a fresh identifier for the record), and afterwards the database is the one
  before the archive: every table but the audit trail is the same, and the Workspaces up to the
  time of their last update; the trail has gained exactly the two records.
\<close>

theorem workspace_archive_restore:
  assumes ok: "db_ok s" and ar: "archive_workspace env u pid (Val i) s = Inr (w1, s1)"
    and act: "ws_active s i" and fresh: "e_uuid env' 0 \<notin> al_id ` set (audit_logs s1)"
  shows "\<exists>w2 s2 l1 l2. restore_workspace env' u pid (Val i) s1 = Inr (w2, s2)
    \<and> w_status w1 = WS_ARCHIVED \<and> w_status w2 = WS_ACTIVE
    \<and> map untimed (workspaces s2) = map untimed (workspaces s)
    \<and> audit_logs s2 = audit_logs s @ [l1, l2]
    \<and> s2\<lparr>workspaces := workspaces s, audit_logs := audit_logs s\<rparr> = s"
  using ar [unfolded archive_workspace_def] ok
proof (rule set_workspace_status_changed)
  fix r :: profile_role and w :: workspace and p st
  let ?f = "\<lambda>x :: workspace. x\<lparr>w_status := WS_ARCHIVED, w_updated_at := e_now env\<rparr>"
  let ?g = "\<lambda>x :: workspace. x\<lparr>w_status := WS_ACTIVE, w_updated_at := e_now env'\<rparr>"
  let ?P = "\<lambda>x :: workspace. w_id x = w_id w"
  assume l: "locked u pid (Val i) s (Manager r) w p" "Val WS_ARCHIVED = Val st" "db_ok s1"
    and a1: "has_authority s1 u p (w_id w) (Manager r)" "profile_active p s1" "w1 \<in> set (workspaces s1)"
    and w1: "w_id w1 = w_id w" "w_status w1 = st"
  have L: "pid = Val p" "i = w_id w" "w \<in> set (workspaces s)" "profile_active p s"
    "has_authority s u p (w_id w) (Manager r)"
    using l(1) unfolding locked_def by simp_all
  obtain x where "x \<in> set (workspaces s)" "w_id x = w_id w" "w_status x = WS_ACTIVE"
    using act L(2) by (auto simp: ws_active_def)
  then have w: "w_status w = WS_ACTIVE" using workspace_pk_unique [OF db_okD(3) [OF ok]] L(3) by blast
  define rows where "rows = update_where ?P ?f (workspaces s)"
  have "set_workspace_status env u (Val p) (Val (w_id w)) (Val WS_ARCHIVED) s = Inr (w1, s1)"
    using ar L by (simp add: archive_workspace_def)
  then obtain s0 l1 where s0: "workspace_save rows (?f w) s = Inr s0" and w1': "w1 = ?f w"
    and s1: "s1 = s0\<lparr>audit_logs := audit_logs s0 @ [l1]\<rparr>"
    unfolding set_workspace_status_I [OF ok L(5,4,3)] using w
    by (auto simp: Let_def rows_def logged_def write_workspace_audit_def dest!: write_audit_logged)
  note S0 = workspace_save_D(1) [OF s0]
  have fw: "?f w \<in> set rows" using L(3) by (force simp: rows_def in_update_where)
  have sv: "workspace_save (update_where ?P ?g rows) (?g (?f w)) s1
      = Inr (s1\<lparr>workspaces := update_where ?P ?g rows\<rparr>)"
    by (rule workspace_save_status [OF s0 fw]) (simp_all add: s1 S0)
  have "audit_logs_ok (audit_logs s1)" using db_okD(11) [OF l(3)] by simp
  then obtain l2 where wr: "write_workspace_audit env' 0 u (?g (?f w)) ''workspace.restored''
      (JObj [(''status'', JStr (ws_status_str (w_status (?f w))))])
      (JObj [(''status'', JStr (ws_status_str (w_status (?g (?f w)))))])
      (s1\<lparr>workspaces := update_where ?P ?g rows\<rparr>)
    = Inr (s1\<lparr>workspaces := update_where ?P ?g rows, audit_logs := audit_logs s1 @ [l2]\<rparr>)"
    using fresh by (auto simp: write_workspace_audit_def write_audit_def write_audit_logs_def audit_logs_ok_def)
  have re: "restore_workspace env' u (Val p) (Val (w_id w1)) s1 = Inr (?g w1,
      s1\<lparr>workspaces := update_where ?P ?g rows, audit_logs := audit_logs s1 @ [l2]\<rparr>)"
    unfolding restore_workspace_def
    using a1 w1 l(3) sv wr by (subst set_workspace_status_I [of s1 u p w1 r]) (auto simp: Let_def w1' s1 S0)
  have "map untimed (update_where ?P ?g rows) = map untimed (workspaces s)"
    unfolding rows_def using untimed_restored [OF db_okD(3) [OF ok] L(3) w] .
  with re L w1 l(2) show ?thesis by (auto simp: s1 S0)
qed

lemma workspace_archive_restore_witness:
  "\<exists>w1 s1 w2 s2. archive_workspace ex_env 1 (Val 10) (Val 20) ex_db = Inr (w1, s1)
     \<and> restore_workspace (ex_env\<lparr>e_uuid := \<lambda>k. 950 + k\<rparr>) 1 (Val 10) (Val 20) s1 = Inr (w2, s2)
     \<and> map untimed (workspaces s2) = map untimed (workspaces ex_db)"
proof -
  obtain w1 s1 where a: "archive_workspace ex_env 1 (Val 10) (Val 20) ex_db = Inr (w1, s1)"
    "950 \<notin> al_id ` set (audit_logs s1)"
    by (simp add: evals ex_db_def)
  moreover have "ws_active ex_db 20" by (simp add: ws_active_def ex_db_def mk_workspace_def)
  ultimately show ?thesis
    using workspace_archive_restore [OF ex_db_ok a(1), of "ex_env\<lparr>e_uuid := \<lambda>k. 950 + k\<rparr>"] by fastforce
qed

subsection \<open>Creation\<close>

lemma manager_row:
  assumes "db_ok s" "holds_profile_role s u p r"
  obtains m where "m \<in> set (memberships s)" "pm_profile m = p" "pm_user m = u" "pm_role m = r"
    "pm_is_active m" "user_active s u"
    "resolve_profile_access_context (Some u) (Val p) s = Inr (build_profile_access_context m)"
    "first_by pm_id (\<lambda>x. pm_id x = pm_id m \<and> pm_profile x = p \<and> pm_user x = u
       \<and> user_active s (pm_user x) \<and> pm_is_active x) (memberships s) = Some m"
proof -
  obtain m where m: "m \<in> set (memberships s)" "pm_profile m = p" "pm_user m = u" "pm_role m = r"
    "pm_is_active m" "user_active s u"
    using assms(2) by (auto simp: holds_profile_role_def)
  have "resolve_profile_access_context (Some u) (Val p) s = Inr (build_profile_access_context m)"
    using resolve_profile_I [OF db_okD(2) [OF assms(1)] m(1,5)] m by simp
  moreover have "first_by pm_id (\<lambda>x. pm_id x = pm_id m \<and> pm_profile x = p \<and> pm_user x = u
       \<and> user_active s (pm_user x) \<and> pm_is_active x) (memberships s) = Some m"
    using m membership_pk_unique [OF db_okD(2) [OF assms(1)]] by (intro first_by_unique) auto
  ultimately show ?thesis using that m by blast
qed

lemma user_active_exists: "user_active s u \<Longrightarrow> user_exists u s"
  by (auto simp: user_active_def user_exists_def intro: rev_image_eqI)

lemma workspaces_ok_insert:
  assumes "workspaces_ok ws" "w_id w \<notin> w_id ` set ws" "w_profile w = Some p" "w_period w = Some d"
    "date_day d = 1" "\<not> (\<exists>x\<in>set ws. w_profile x = Some p \<and> w_period x = Some d)"
  shows "workspaces_ok (ws @ [w])"
  using assms by (auto simp: workspaces_ok_def)

text \<open>
  C14. Creating a Workspace, on every branch. An active manager of an active Profile who asks for a
  period is refused when the period is missing, when the Profile already has a Workspace for it,
  when the stripped name is empty or longer than 255 characters, or when the period is not the
  first day of a month, in this order and with these errors; otherwise (fresh identifiers) the
  Workspace is created, active and owned by them, with one audit record.
\<close>

theorem create_workspace_outcome:
  assumes ok: "db_ok s" and m: "holds_profile_role s u p r" "is_manager r" "profile_active p s"
    and fresh: "e_uuid env 0 \<notin> w_id ` set (workspaces s)" "e_uuid env 1 \<notin> al_id ` set (audit_logs s)"
  shows "create_workspace env u (Val p) name period descr s =
    (case period of
       None \<Rightarrow> Inl (ValidationError ''period'')
     | Some d \<Rightarrow>
       if period_taken p d s then Inl WorkspacePeriodConflict
       else if \<not> char_field_ok 255 (strip (text_or_empty name)) then Inl (ValidationError ''name'')
       else if date_day d \<noteq> 1 then Inl (ValidationError ''period'')
       else
         let w = new_workspace env p u name d descr in
         Inr (w, s\<lparr>workspaces := workspaces s @ [w],
           audit_logs := audit_logs s @ [\<lparr>al_id = e_uuid env 1, al_user = Some u,
             al_action = ''workspace.created'', al_entity_name = ''Workspace'', al_entity_id = Some (w_id w),
             al_metadata = [(''profile_id'', JUuid p), (''before'', JNull),
               (''after'', JObj [(''name'', JText (w_name w)), (''description'', jtext_opt descr),
                 (''period'', jdate_opt (Some d)), (''status'', JStr ''ACTIVE'')])],
             al_created_at = e_now env\<rparr>]\<rparr>))"
proof -
  obtain x where x: "x \<in> set (memberships s)" "pm_profile x = p" "pm_user x = u" "pm_role x = r"
    "pm_is_active x" "user_active s u"
    and pc: "resolve_profile_access_context (Some u) (Val p) s = Inr (build_profile_access_context x)"
    and row: "first_by pm_id (\<lambda>y. pm_id y = pm_id x \<and> pm_profile y = p \<and> pm_user y = u
       \<and> user_active s (pm_user y) \<and> pm_is_active y) (memberships s) = Some x"
    by (rule manager_row [OF ok m(1)])
  obtain pr where pr: "pr \<in> set (profiles s)" "p_id pr = p" "p_status pr = PS_ACTIVE"
    using m(3) by (auto simp: profile_active_def)
  then have lk: "lookup_pk p_id p (profiles s) = Some pr"
    using db_okD(1) [OF ok] by (simp add: lookup_pk_eq profiles_ok_def)
  have ex: "profile_exists p s" "user_exists u s" "active_manager s p u"
    using pr user_active_exists [OF x(6)] m(1,2) by (auto simp: profile_exists_def active_manager_iff)
  have new: "lookup_pk w_id (e_uuid env 0) (workspaces s) = None" using fresh(1) by simp
  have ins: "workspaces_ok (workspaces s @ [new_workspace env p u name d descr])"
    if "\<not> period_taken p d s" "date_day d = 1" for d
    using that fresh(1) db_okD(3) [OF ok]
    by (intro workspaces_ok_insert [where p = p and d = d]) (auto simp: new_workspace_def period_taken_def)
  have au: "audit_logs_ok (audit_logs s @ [l])" if "al_id l = e_uuid env 1" for l
    using db_okD(11) [OF ok] fresh(2) that by (simp add: audit_logs_ok_def)
  have sv: "workspace_save (workspaces s @ [new_workspace env p u name d descr])
      (new_workspace env p u name d descr) s =
    (if \<not> char_field_ok 255 (strip (text_or_empty name)) then Inl (ValidationError ''name'')
     else if date_day d \<noteq> 1 then Inl (ValidationError ''period'')
     else Inr (s\<lparr>workspaces := workspaces s @ [new_workspace env p u name d descr]\<rparr>))"
    if "\<not> period_taken p d s" for d
    using ins [OF that] new ex
    by (simp add: workspace_save_def workspace_full_clean_def workspace_clean_def write_workspaces_def
        unique_checks_def new_workspace_def del: lookup_pk_None)
  show ?thesis
    using pc row lk pr x(2-5) m(2) sv au
    by (simp add: create_workspace_def build_profile_access_context_def Let_def on_integrity_error_def
        write_workspace_audit_def write_audit_def write_audit_logs_def str_uuid_def new_workspace_def
        split: option.split)
qed

lemma create_workspace_outcome_witness:
  "create_workspace ex_env 2 (Val 10) (Some [32, 87]) (Some (Date 2026 10 1)) None ex_db = Inl WorkspacePeriodConflict
   \<and> (\<exists>w s'. create_workspace ex_env 2 (Val 10) (Some [32, 87]) (Some (Date 2026 11 1)) None ex_db = Inr (w, s')
        \<and> w_name w = [87] \<and> w_owner w = 2)"
proof -
  have "holds_profile_role ex_db 2 10 PR_ADMIN" "is_manager PR_ADMIN" "profile_active 10 ex_db"
    "e_uuid ex_env 0 \<notin> w_id ` set (workspaces ex_db)" "e_uuid ex_env 1 \<notin> al_id ` set (audit_logs ex_db)"
    by (simp_all add: evals ex_db_def holds_profile_role_def)
  note o = create_workspace_outcome [OF ex_db_ok this]
  show ?thesis
    by (simp add: o period_taken_def char_field_ok_def Let_def)
      (simp add: ex_db_def mk_workspace_def new_workspace_def strip_def py_isspace_def text_or_empty_def)
qed

end
