(* ===== verification/Invitation_Theorems.thy ===== *)
theory Invitation_Theorems
  imports Frames
begin

text \<open>
  Properties of the invitations: what an acceptance requires and gives, that a settled invitation
  stays settled whatever happens next, that a token works once, and the limits of issuing.
\<close>

text \<open>A delivered invitation of user 5 to Profile 10, one that is past its expiry, and a revoked one.\<close>

definition mk_invitation :: "uuid \<Rightarrow> ptext \<Rightarrow> ptext \<Rightarrow> inv_status \<Rightarrow> time \<Rightarrow> invitation" where
  "mk_invitation i email token st expires = \<lparr>pi_id = i, pi_profile = 10, pi_email = email,
     pi_recipient_user = None, pi_requested_role = IR_MEMBER, pi_invited_by = 101,
     pi_token_digest = e_sha256 ex_env token, pi_status = st, pi_expires_at = expires,
     pi_delivery_status = DL_SENT, pi_delivery_attempted_at = Some 0, pi_delivered_at = Some 0,
     pi_accepted_at = None, pi_accepted_by = None, pi_declined_at = None, pi_declined_by = None,
     pi_revoked_at = (if st = IS_REVOKED then Some 1 else None),
     pi_revoked_by = (if st = IS_REVOKED then Some 1 else None),
     pi_expired_at = None, pi_replaces = None, pi_created_at = 0, pi_updated_at = 0\<rparr>"

definition ex_invited :: db where
  "ex_invited = ex_db\<lparr>invitations := [mk_invitation 71 [97, 5] [116] IS_PENDING 2000,
     mk_invitation 72 [97, 9] [117] IS_REVOKED 2000]\<rparr>"

definition ex_late :: db where
  "ex_late = ex_db\<lparr>invitations := [mk_invitation 71 [97, 5] [116] IS_PENDING 900]\<rparr>"

lemma ex_invited_ok: "db_ok ex_invited" "db_ok ex_late"
  by code_simp+

subsection \<open>Accepting\<close>

lemma accepted_row:
  assumes "accepted env actor p i m s s'" "i \<in> set (invitations s)"
  shows "accept_row env actor i \<in> set (invitations s')"
  using assms by (force simp: accepted_def in_update_where)

text \<open>
  C15. Joining by invitation. An acceptance that returns a membership used a token whose digest is
  that of a pending, unexpired, delivered invitation of an active Profile; the user's active
  account is the one the invited address resolves to; the inviter could still invite for that
  role; and the user had no active membership. Afterwards the user has an active membership with
  exactly the invited role, never an Owner's, holds no active Workspace role of the Profile, the
  invitation is accepted, and nobody else's membership has changed hands or been deactivated.
\<close>

theorem acceptance_joins_invited_user:
  assumes "db_ok s" "accept_profile_invitation env actor token s = Inr (Inr m, s')"
  shows "\<exists>t p i u x. token = Val t \<and> t \<noteq> [] \<and> i \<in> set (invitations s) \<and> pi_token_digest i = e_sha256 env t
    \<and> pi_status i = IS_PENDING \<and> pi_delivery_status i = DL_SENT \<and> e_now env < pi_expires_at i
    \<and> p \<in> set (profiles s) \<and> p_id p = pi_profile i \<and> p_status p = PS_ACTIVE
    \<and> u \<in> set (users s) \<and> u_id u = actor \<and> u_is_active u
    \<and> normalize_invitation_email env (Some (u_email u)) = pi_email i
    \<and> x \<in> set (memberships s) \<and> pm_id x = pi_invited_by i \<and> pm_profile x = pi_profile i \<and> pm_is_active x
    \<and> user_active s (pm_user x) \<and> can_issue_role (pm_role x) (pi_requested_role i)
    \<and> (\<forall>y\<in>set (memberships s). pm_profile y = pi_profile i \<longrightarrow> pm_user y = actor \<longrightarrow> \<not> pm_is_active y)
    \<and> m \<in> set (memberships s') \<and> pm_profile m = pi_profile i \<and> pm_user m = actor \<and> pm_is_active m
    \<and> pm_role m = member_role_of (pi_requested_role i) \<and> pm_role m \<noteq> PR_OWNER
    \<and> (\<forall>y\<in>set (members s'). wm_user y = actor \<longrightarrow>
         workspace_profile (wm_workspace y) s = Some (pi_profile i) \<longrightarrow> \<not> wm_is_active y)
    \<and> accept_row env actor i \<in> set (invitations s')
    \<and> memberships_grow (memberships s) (memberships s')"
  using assms(2)
proof (rule accept_D)
  fix t p i
  assume t: "token = Val t" "t \<noteq> []" and b: "token_bound env actor t s p i"
    and e: "invitation_effect (Some actor) s s'"
    and c: "case (Inr m :: error + profile_membership) of Inl e \<Rightarrow> e = InvitationConflict \<and> expired_on_use env actor i s s'
      | Inr m \<Rightarrow> accepted env actor p i m s s'"
  have acc: "accepted env actor p i m s s'" using c by simp
  have i: "i \<in> set (invitations s)" using b by (simp add: token_bound_def)
  obtain x where x: "x \<in> set (memberships s)" "pm_id x = pi_invited_by i" "pm_profile x = pi_profile i"
    "pm_is_active x" "user_active s (pm_user x)" "can_issue_role (pm_role x) (pi_requested_role i)"
    using acc by (auto simp: accepted_def)
  obtain u where u: "u \<in> set (users s)" "u_id u = actor" "u_is_active u"
    "normalize_invitation_email env (Some (u_email u)) = pi_email i"
    using b by (auto simp: token_bound_def)
  have "memberships_grow (memberships s) (memberships s')" using e assms(1) by (simp add: invitation_effect_def)
  with t b acc x u accepted_row [OF acc i] show ?thesis
    by (intro exI [of _ t] exI [of _ p] exI [of _ i] exI [of _ u] exI [of _ x])
      (simp add: token_bound_def accepted_def)
qed

lemma acceptance_joins_invited_user_witness:
  "\<exists>m s'. accept_profile_invitation ex_env 5 (Val [116]) ex_invited = Inr (Inr m, s')
     \<and> m \<in> set (memberships s') \<and> pm_role m = PR_MEMBER"
proof -
  obtain m s' where a: "accept_profile_invitation ex_env 5 (Val [116]) ex_invited = Inr (Inr m, s')"
    "pm_role m = PR_MEMBER"
    by (simp add: evals ex_invited_def mk_invitation_def ex_db_def)
  from acceptance_joins_invited_user [OF ex_invited_ok(1) a(1)] have "m \<in> set (memberships s')" by blast
  with a show ?thesis by blast
qed

subsection \<open>Settled invitations\<close>

lemma invitations_evolve_steps:
  assumes "step\<^sup>*\<^sup>* s s'" "db_ok s"
  shows "db_ok s' \<and> invitations_evolve (invitations s) (invitations s')"
  using assms
proof (induction rule: rtranclp_induct)
  case (step y z)
  then have y: "db_ok y" "invitations_evolve (invitations s) (invitations y)" by simp_all
  from step(2) show ?case
  proof (cases rule: step.cases)
    case (commit env c)
    with y show ?thesis
      using constraints.inv_exec invitations_evolve_exec invitations_evolve_trans by blast
  next
    case rollback
    with y show ?thesis by simp
  qed
qed simp

text \<open>
  C16. A decision about an invitation is final. Whatever the system does next, an invitation that
  was accepted, declined, revoked or expired is still there, unchanged, and one that is pending
  keeps its Profile, address, role, inviter, token and expiry.
\<close>

theorem settled_invitations_final:
  assumes "db_ok s" "step\<^sup>*\<^sup>* s s'" "i \<in> set (invitations s)"
  shows "\<exists>j\<in>set (invitations s'). same_invitation i j \<and> (pi_status i \<noteq> IS_PENDING \<longrightarrow> j = i)"
  using invitations_evolve_steps [OF assms(2,1)] assms(3)
  by (auto simp: invitations_evolve_def invitation_evolved_def)

lemma settled_invitations_final_witness:
  "\<exists>s'. exec ex_env (AcceptInvitation 5 (Val [116])) ex_invited = Inr s'
     \<and> mk_invitation 72 [97, 9] [117] IS_REVOKED 2000 \<in> set (invitations s')"
proof -
  obtain s' where s': "exec ex_env (AcceptInvitation 5 (Val [116])) ex_invited = Inr s'"
    by (simp add: evals ex_invited_def mk_invitation_def ex_db_def)
  then have "step\<^sup>*\<^sup>* ex_invited s'" by (blast intro: step.commit)
  from settled_invitations_final [OF ex_invited_ok(1) this, of "mk_invitation 72 [97, 9] [117] IS_REVOKED 2000"]
  have "mk_invitation 72 [97, 9] [117] IS_REVOKED 2000 \<in> set (invitations s')"
    by (auto simp: ex_invited_def mk_invitation_def)
  with s' show ?thesis by blast
qed

subsection \<open>Tokens\<close>

lemma spent_token:
  assumes "db_ok s" "i \<in> set (invitations s)" "pi_status i \<noteq> IS_PENDING" "pi_token_digest i = e_sha256 env t"
  shows "t \<noteq> [] \<Longrightarrow> utf8_encodable t \<Longrightarrow> accept_profile_invitation env a (Val t) s = Inl InvitationConflict"
    "t \<noteq> [] \<Longrightarrow> utf8_encodable t \<Longrightarrow> decline_profile_invitation env a (Val t) s = Inl InvitationConflict"
proof -
  have f: "first_by pi_id (\<lambda>x. pi_token_digest x = e_sha256 env t) (invitations s) = Some i"
    using assms invitation_digest_unique [OF db_okD(12) [OF assms(1)]] by (intro first_by_unique) auto
  have l: "lock_usable_token env a i (e_sha256 env t) s = Inl InvitationConflict"
  proof (cases "lookup_pk p_id (pi_profile i) (profiles s)")
    case (Some p)
    then have "first_by pi_id (\<lambda>x. pi_id x = pi_id i \<and> pi_profile x = p_id p
        \<and> pi_token_digest x = e_sha256 env t) (invitations s) = Some i"
      using assms lookup_pk_Some [OF Some] invitation_digest_unique [OF db_okD(12) [OF assms(1)]]
      by (intro first_by_unique) auto
    with Some assms(3) show ?thesis by (simp add: lock_usable_token_def)
  qed (simp add: lock_usable_token_def del: lookup_pk_None)
  show "t \<noteq> [] \<Longrightarrow> utf8_encodable t \<Longrightarrow> accept_profile_invitation env a (Val t) s = Inl InvitationConflict"
    "t \<noteq> [] \<Longrightarrow> utf8_encodable t \<Longrightarrow> decline_profile_invitation env a (Val t) s = Inl InvitationConflict"
    using f l by (simp_all add: accept_profile_invitation_def decline_profile_invitation_def
        lookup_token_candidate_def Let_def)
qed

lemma token_encodable: "accept_profile_invitation env a (Val t) s = Inr x \<Longrightarrow> utf8_encodable t"
  by (auto simp: accept_profile_invitation_def lookup_token_candidate_def)

text \<open>
  C17. A token works once. After it has been accepted, and whatever happens in between, presenting
  it again, to accept or to decline, by anyone and at any time, is refused as a conflict.
\<close>

theorem token_single_use:
  assumes ok: "db_ok s" and acc: "accept_profile_invitation env a (Val t) s = Inr (Inr m, s1)"
    and run: "step\<^sup>*\<^sup>* s1 s2" and sha: "e_sha256 env' = e_sha256 env"
  shows "accept_profile_invitation env' b (Val t) s2 = Inl InvitationConflict
    \<and> decline_profile_invitation env' b (Val t) s2 = Inl InvitationConflict"
proof -
  obtain p i where i: "t \<noteq> []" "token_bound env a t s p i" "accepted env a p i m s s1"
    and e: "invitation_effect (Some a) s s1"
    using acc by (rule accept_D) auto
  let ?j = "accept_row env a i"
  have j: "?j \<in> set (invitations s1)" using accepted_row [OF i(3)] i(2) by (simp add: token_bound_def)
  have ok1: "db_ok s1" using effect_db_ok [OF e ok] .
  obtain k where k: "k \<in> set (invitations s2)" "invitation_evolved ?j k"
    using invitations_evolve_steps [OF run ok1] j by (auto simp: invitations_evolve_def)
  then have "k = ?j" by (simp add: invitation_evolved_def)
  with k have "?j \<in> set (invitations s2)" "pi_token_digest ?j = e_sha256 env' t"
    using i(2) sha by (simp_all add: token_bound_def accept_row_def)
  moreover have "db_ok s2" using invitations_evolve_steps [OF run ok1] by simp
  ultimately show ?thesis using spent_token [of s2 ?j env' t b] i(1) token_encodable [OF acc] by simp
qed

lemma token_single_use_witness:
  "\<exists>m s'. accept_profile_invitation ex_env 5 (Val [116]) ex_invited = Inr (Inr m, s')
     \<and> accept_profile_invitation ex_env 5 (Val [116]) s' = Inl InvitationConflict"
proof -
  obtain m s' where a: "accept_profile_invitation ex_env 5 (Val [116]) ex_invited = Inr (Inr m, s')"
    by (simp add: evals ex_invited_def mk_invitation_def ex_db_def)
  with token_single_use [OF ex_invited_ok(1) a rtranclp.rtrancl_refl refl] show ?thesis by blast
qed

lemma expired_state:
  assumes "invitation_saved (expire_row env) i s s1" "logged a (pi_id i) ''profile.invitation.expired'' s1 s'"
  shows "\<exists>l. s' = s\<lparr>invitations := update_where (\<lambda>x. pi_id x = pi_id i) (expire_row env) (invitations s),
    audit_logs := audit_logs s @ [l]\<rparr> \<and> al_user l = Some a \<and> al_action l = ''profile.invitation.expired''"
  using assms by (auto simp: invitation_saved_def logged_def)

text \<open>
  C18. Using an invitation too late. When accepting, declining or revoking reports an error and
  still commits, the error is a conflict, the invitation was pending and past its expiry, and the
  commit is exactly its expiry: that row becomes expired, one audit record of the caller is
  appended, and nothing else changes.
\<close>

theorem late_use_expires:
  assumes "accept_profile_invitation env a token s = Inr (Inl e, s')
    \<or> decline_profile_invitation env a token s = Inr (Inl e, s')
    \<or> revoke_profile_invitation env a pid iid s = Inr (Inl e, s')"
  shows "e = InvitationConflict \<and> (\<exists>i\<in>set (invitations s). pi_status i = IS_PENDING \<and> pi_expires_at i \<le> e_now env
    \<and> (\<exists>l. s' = s\<lparr>invitations := update_where (\<lambda>x. pi_id x = pi_id i) (expire_row env) (invitations s),
          audit_logs := audit_logs s @ [l]\<rparr>
        \<and> al_user l = Some a \<and> al_action l = ''profile.invitation.expired''))"
proof -
  have use: "\<exists>i\<in>set (invitations s). pi_status i = IS_PENDING \<and> pi_expires_at i \<le> e_now env
    \<and> (\<exists>l. s' = s\<lparr>invitations := update_where (\<lambda>x. pi_id x = pi_id i) (expire_row env) (invitations s),
          audit_logs := audit_logs s @ [l]\<rparr>
        \<and> al_user l = Some a \<and> al_action l = ''profile.invitation.expired'')"
    if "token_bound env a t s p i" "expired_on_use env a i s s'" for t p i
    using that expired_state by (fastforce simp: token_bound_def expired_on_use_def)
  consider "accept_profile_invitation env a token s = Inr (Inl e, s')"
    | "decline_profile_invitation env a token s = Inr (Inl e, s')"
    | "revoke_profile_invitation env a pid iid s = Inr (Inl e, s')"
    using assms by blast
  then show ?thesis
  proof cases
    case 1
    then show ?thesis by (rule accept_D) (use use in auto)
  next
    case 2
    then show ?thesis by (rule decline_D) (use use in auto)
  next
    case 3
    then show ?thesis
    proof (rule revoke_invitation_D)
      fix p m i
      assume i: "i \<in> set (invitations s)" "pi_status i = IS_PENDING"
        and c: "if pi_expires_at i \<le> e_now env
     then (Inl e :: error + invitation) = Inl InvitationConflict \<and> (\<exists>s1. invitation_saved (expire_row env) i s s1
       \<and> logged a (pi_id i) ''profile.invitation.expired'' s1 s')
     else Inl e = Inr (revoke_row env a i) \<and> (\<exists>s1. invitation_saved (revoke_row env a) i s s1
       \<and> logged a (pi_id i) ''profile.invitation.revoked'' s1 s')"
      have "pi_expires_at i \<le> e_now env" "e = InvitationConflict" using c by (simp_all split: if_splits)
      with c i expired_state show ?thesis by auto
    qed
  qed
qed

lemma late_use_expires_witness:
  "\<exists>s'. accept_profile_invitation ex_env 5 (Val [116]) ex_late = Inr (Inl InvitationConflict, s')
     \<and> memberships s' = memberships ex_late"
proof -
  obtain s' where a: "accept_profile_invitation ex_env 5 (Val [116]) ex_late = Inr (Inl InvitationConflict, s')"
    by (simp add: evals ex_late_def mk_invitation_def ex_db_def)
  from late_use_expires [OF disjI1 [OF a]] have "memberships s' = memberships ex_late" by auto
  with a show ?thesis by blast
qed

subsection \<open>Issuing\<close>

definition issue_key :: "invitation \<Rightarrow> ptext \<times> time \<times> uuid" where
  "issue_key i = (pi_email i, pi_created_at i, pi_invited_by i)"

definition same_issues :: "db \<Rightarrow> db \<Rightarrow> bool" where
  "same_issues s s' \<longleftrightarrow> map issue_key (invitations s') = map issue_key (invitations s)
     \<and> memberships s' = memberships s"

lemma same_issues_refl [simp]: "same_issues s s"
  by (simp add: same_issues_def)

lemma same_issues_trans: "same_issues s s1 \<Longrightarrow> same_issues s1 s2 \<Longrightarrow> same_issues s s2"
  by (simp add: same_issues_def)

lemma counts_by_key:
  "received_since e t s = length (filter (\<lambda>(m, c, _). m = e \<and> t \<le> c) (map issue_key (invitations s)))"
  "issued_since a t s = length (filter (\<lambda>(_, c, b). (\<exists>m\<in>set (memberships s). pm_id m = b \<and> pm_user m = a) \<and> t \<le> c)
     (map issue_key (invitations s)))"
  by (simp_all add: received_since_def issued_since_def issue_key_def filter_map o_def)

lemma same_issues_counts:
  "same_issues s s' \<Longrightarrow> received_since e t s' = received_since e t s \<and> issued_since a t s' = issued_since a t s"
  by (simp add: same_issues_def counts_by_key)

lemma same_issues_saved:
  assumes "invitation_saved f i s s1" "\<And>x. same_invitation x (f x)"
  shows "same_issues s s1"
proof -
  have "map issue_key (update_where P f is) = map issue_key is" for P "is"
    using assms(2) by (intro map_update_where) (simp add: same_invitation_def issue_key_def)
  with assms(1) show ?thesis by (auto simp: invitation_saved_def same_issues_def)
qed

lemma same_issues_logged: "logged a i act s s' \<Longrightarrow> same_issues s s'"
  using logged_tables(3,6) by (simp add: same_issues_def)

lemma same_issues_write:
  "invitation_saved f i s s1 \<Longrightarrow> logged a j act s1 s' \<Longrightarrow> (\<And>x. same_invitation x (f x)) \<Longrightarrow> same_issues s s'"
  by (rule same_issues_trans [OF same_issues_saved same_issues_logged])

lemma same_issues_materialize:
  assumes "materialize_expiration env k a i s = Inr (ex, i', s', k')"
  shows "same_issues s s'"
  using materialize_D [OF assms] same_issues_write [OF _ _ row_same(1)] by (auto split: if_splits)

lemma same_issues_expire:
  "expire_or_conflict env k a P s = Inr (s', k') \<Longrightarrow> same_issues s s'"
  by (auto simp: expire_or_conflict_def intro: same_issues_materialize split: option.splits)

lemma same_issues_revoked: "mark_revoked env k a i act s = Inr s' \<Longrightarrow> same_issues s s'"
  using mark_revoked_D same_issues_write [where f = "revoke_row env a", OF _ _ row_same(2)] by blast

lemma limits_D:
  "enforce_issuance_limits env a e s = Inr () \<Longrightarrow>
     issued_since a (e_now env - invitation_rate_window) s < max_invitations_per_inviter
     \<and> received_since e (e_now env - invitation_rate_window) s < max_invitations_per_recipient"
  by (simp add: enforce_issuance_limits_def Let_def)

lemma counts_append:
  assumes "invitations s' = invitations s @ [i]" "memberships s' = memberships s"
  shows "received_since e t s' \<le> Suc (received_since e t s)" "issued_since a t s' \<le> Suc (issued_since a t s)"
  using assms by (simp_all add: received_since_def issued_since_def)

text \<open>Issuing adds one row, after the limits were checked over the same issues.\<close>

definition issued_within_limits :: "env \<Rightarrow> uuid \<Rightarrow> invitation \<Rightarrow> db \<Rightarrow> db \<Rightarrow> bool" where
  "issued_within_limits env a i s s' \<longleftrightarrow> (\<exists>s1. same_issues s s1
     \<and> enforce_issuance_limits env a (pi_email i) s1 = Inr ()
     \<and> map issue_key (invitations s') = map issue_key (invitations s @ [i]) \<and> memberships s' = memberships s)"

lemma issued_keys:
  assumes "same_issues s s2" "issued env k p m e r u rep i s2 s3"
  shows "map issue_key (invitations s3) = map issue_key (invitations s @ [i]) \<and> memberships s3 = memberships s"
  using assms logged_tables(3,6) by (fastforce simp: issued_def same_issues_def)

lemma issued_email: "issued env k p m e r u rep i s s' \<Longrightarrow> pi_email i = e"
  by (simp add: issued_def new_invitation_def)

lemma create_within_limits:
  assumes "create_profile_invitation env a pid email role s = Inr (i, s')"
  shows "issued_within_limits env a i s s'"
proof -
  let ?e = "normalize_invitation_email env email"
  from assms obtain p m r s1 k1 s2 k2 u k3 where
    lim: "enforce_issuance_limits env a ?e s = Inr ()"
    and s1: "expire_or_conflict env 0 a (\<lambda>i. pi_profile i = p_id p \<and> pi_email i = ?e
        \<and> pi_status i = IS_PENDING) s = Inr (s1, k1)"
    and s2: "(case u of None \<Rightarrow> Inr (s1, k1) | Some u \<Rightarrow>
         expire_or_conflict env k1 a (\<lambda>i. pi_profile i = p_id p
           \<and> pi_recipient_user i = Some (u_id u) \<and> pi_status i = IS_PENDING) s1) = Inr (s2, k2)"
    and i: "issue_invitation_locked env k2 p m ?e r u None s2 = Inr (i, s', k3)"
    unfolding create_profile_invitation_def Let_def
    by (auto simp del: split_paired_Ex option.case_distrib split: prod.splits)
  have "same_issues s1 s2" using s2 by (cases u) (auto intro: same_issues_expire)
  with same_issues_expire [OF s1] have "same_issues s s2" by (rule same_issues_trans)
  from issued_keys [OF this issue_D [OF i]] lim issued_email [OF issue_D [OF i]] show ?thesis
    unfolding issued_within_limits_def by (intro exI [of _ s]) simp
qed

lemma resend_within_limits:
  assumes "resend_profile_invitation env a pid iid s = Inr (i, s')"
  shows "issued_within_limits env a i s s'"
proof -
  from assms obtain p m i0 ex j s1 k1 s2 k2 u s3 k3 where
    ex: "materialize_expiration env 0 a i0 s = Inr (ex, j, s1, k1)"
    and lim: "enforce_issuance_limits env a (pi_email j) s1 = Inr ()"
    and s2: "(if pi_status j = IS_PENDING
         then bindE (mark_revoked env k1 a j ''profile.invitation.rotated'' s1) (\<lambda>s2. Inr (s2, k1 + 1))
         else Inr (s1, k1)) = Inr (s2, k2)"
    and i: "issue_invitation_locked env k2 p m (pi_email j) (pi_requested_role j) u (Some (pi_id j)) s2
      = Inr (i, s3, k3)"
    and lg: "logged a (pi_id i) ''profile.invitation.resent'' s3 s'"
    by (auto simp: resend_profile_invitation_def dest!: invitation_audit_logged)
  have a1: "same_issues s s1" by (rule same_issues_materialize [OF ex])
  have "same_issues s1 s2" using s2 by (auto split: if_splits intro: same_issues_revoked)
  with a1 have "same_issues s s2" by (rule same_issues_trans)
  from issued_keys [OF this issue_D [OF i]] same_issues_logged [OF lg]
  have "map issue_key (invitations s') = map issue_key (invitations s @ [i]) \<and> memberships s' = memberships s"
    by (simp add: same_issues_def)
  with a1 lim issued_email [OF issue_D [OF i]] show ?thesis
    unfolding issued_within_limits_def by auto
qed

text \<open>
  C19. The rate limits bind. After an invitation has been issued, anew or by resending, the
  caller's invitations of the last 24 hours number at most 30 and those for that address at most 5,
  over all Profiles, the new one included; whatever the calls that issued them were.
\<close>

theorem issuance_limits:
  assumes "create_profile_invitation env a pid email role s = Inr (i, s')
    \<or> resend_profile_invitation env a pid iid s = Inr (i, s')"
  shows "issued_since a (e_now env - invitation_rate_window) s' \<le> 30
    \<and> received_since (pi_email i) (e_now env - invitation_rate_window) s' \<le> 5"
proof -
  let ?t = "e_now env - invitation_rate_window"
  have "issued_within_limits env a i s s'"
    using assms create_within_limits resend_within_limits by blast
  then obtain s1 where s1: "same_issues s s1" "enforce_issuance_limits env a (pi_email i) s1 = Inr ()"
    and s': "map issue_key (invitations s') = map issue_key (invitations s @ [i])" "memberships s' = memberships s"
    unfolding issued_within_limits_def by blast
  have "same_issues (s\<lparr>invitations := invitations s @ [i]\<rparr>) s'" using s' by (simp add: same_issues_def)
  note n = same_issues_counts [OF this]
  note le = counts_append [of "s\<lparr>invitations := invitations s @ [i]\<rparr>" s i]
  show ?thesis
    using limits_D [OF s1(2)] same_issues_counts [OF s1(1)] le(1) [of "pi_email i" ?t] le(2) [of a ?t]
    by (simp add: n max_invitations_per_inviter_def max_invitations_per_recipient_def)
qed

lemma issuance_limits_witness:
  "\<exists>i s'. create_profile_invitation ex_env 1 (Val 10) (Some [97, 5]) (Val IR_ADMIN) ex_db = Inr (i, s')
     \<and> received_since [97, 5] (1000 - invitation_rate_window) s' \<le> 5"
proof -
  obtain i s' where a: "create_profile_invitation ex_env 1 (Val 10) (Some [97, 5]) (Val IR_ADMIN) ex_db = Inr (i, s')"
    "pi_email i = [97, 5]"
    by (simp add: evals ex_db_def)
  moreover have "e_now ex_env = 1000" by (simp add: ex_env_def)
  ultimately show ?thesis using issuance_limits [OF disjI1 [OF a(1)]] by auto
qed

lemma pending_unique:
  assumes "invitations_ok is" "i \<in> set is" "j \<in> set is" "pi_status i = IS_PENDING" "pi_status j = IS_PENDING"
    "pi_profile i = pi_profile j" "pi_email i = pi_email j"
  shows "i = j"
  using assms by (auto simp: invitations_ok_def intro: distinct_map_filter_eq [of "\<lambda>i. (pi_profile i, pi_email i)"])

lemma replaces_unique:
  assumes "invitations_ok is" "i \<in> set is" "j \<in> set is" "pi_replaces i = Some r" "pi_replaces j = Some r"
  shows "i = j"
  using assms by (auto simp: invitations_ok_def intro: distinct_map_filter_eq [of pi_replaces "\<lambda>i. pi_replaces i \<noteq> None"])

lemma issued_row:
  assumes "issued env k p m e r u rep i s s'"
  shows "i \<in> set (invitations s')" "pi_profile i = p_id p" "pi_email i = e" "pi_requested_role i = r"
    "pi_invited_by i = pm_id m" "pi_token_digest i = e_sha256 env (e_token env)" "pi_status i = IS_PENDING"
    "pi_delivery_status i = DL_QUEUED" "pi_expires_at i = e_now env + invitation_ttl" "pi_replaces i = rep"
    "pi_id i \<notin> pi_id ` set (invitations s)" "invitations s' = invitations s @ [i]"
  using assms logged_tables(6) by (fastforce simp: issued_def new_invitation_def invitations_ok_def)+

text \<open>
  C20. What issuing requires and produces. The caller is an active Owner of the active Profile, or
  an Admin inviting an ordinary member; the account the address resolves to is not an active
  member. The new invitation is pending, undelivered, for the normalised address and that role,
  expires in seven days, stores the digest of the token, and is the only pending invitation of the
  Profile for the address.
\<close>

theorem invitation_issued:
  assumes ok: "db_ok s" and c: "create_profile_invitation env a pid email role s = Inr (i, s')"
  shows "\<exists>p m r. p \<in> set (profiles s) \<and> pid = Val (p_id p) \<and> p_status p = PS_ACTIVE
    \<and> m \<in> set (memberships s) \<and> pm_profile m = p_id p \<and> pm_user m = a \<and> pm_is_active m \<and> user_active s a
    \<and> role = Val r \<and> (pm_role m = PR_OWNER \<or> pm_role m = PR_ADMIN \<and> r = IR_MEMBER)
    \<and> (\<exists>u. resolve_recipient_account env (pi_email i) s = Inr u \<and> \<not> already_member p u s)
    \<and> pi_profile i = p_id p \<and> pi_email i = normalize_invitation_email env email \<and> pi_email i \<noteq> []
    \<and> pi_requested_role i = r \<and> pi_invited_by i = pm_id m \<and> pi_status i = IS_PENDING
    \<and> pi_delivery_status i = DL_QUEUED \<and> pi_expires_at i = e_now env + 7 * 24 * 3600 * 1000000
    \<and> pi_token_digest i = e_sha256 env (e_token env)
    \<and> (\<forall>j\<in>set (invitations s'). pi_profile j = p_id p \<and> pi_email j = pi_email i
          \<and> pi_status j = IS_PENDING \<longleftrightarrow> j = i) \<and> i \<in> set (invitations s')"
  using c
proof (rule create_invitation_D)
  fix p m r s1 s2 k u
  let ?e = "normalize_invitation_email env email"
  assume l: "lock_manager_context a pid (Some r) s = Inr (p, m)" "role = Val r" "?e \<noteq> []"
    and e: "invitation_effect (Some a) s s1" "invitation_effect (Some a) s1 s2"
    and u: "resolve_recipient_account env ?e s1 = Inr u" "\<not> already_member p u s1"
    and i: "issued env k p m ?e r u None i s2 s'"
  note L = lock_manager_D [OF l(1)] and I = issued_row [OF i]
  have "users s1 = users s" using effect_core [OF e(1) ok] by (simp add: core_tables_def)
  then have u': "resolve_recipient_account env ?e s = Inr u"
    using u(1) by (simp add: resolve_recipient_account_def resolve_unique_user_for_invitation_email_def
        resolve_unique_user_for_email_def)
  have "\<not> already_member p u s"
  proof
    assume "already_member p u s"
    then obtain v x where x: "u = Some v" "x \<in> set (memberships s)" "pm_profile x = p_id p"
      "pm_user x = u_id v" "pm_is_active x"
      by (auto simp: already_member_def split: option.splits)
    then obtain y where "y \<in> set (memberships s1)" "membership_kept x y"
      using e(1) ok by (auto simp: invitation_effect_def memberships_grow_def)
    with x u(2) show False by (auto simp: already_member_def membership_kept_def)
  qed
  moreover have "db_ok s'" using effect_db_ok [OF create_invitation_effect [OF c] ok] .
  then have "invitations_ok (invitations s')" by (rule db_okD(12))
  then have "\<forall>j\<in>set (invitations s'). pi_profile j = p_id p \<and> pi_email j = pi_email i
      \<and> pi_status j = IS_PENDING \<longleftrightarrow> j = i"
    using pending_unique I by auto
  moreover have "pm_role m = PR_OWNER \<or> pm_role m = PR_ADMIN \<and> r = IR_MEMBER"
    using L(10) by (cases "pm_role m") (auto simp: can_issue_role_def)
  ultimately show ?thesis
    using L(1-8) l(2,3) u' I by (intro exI [of _ p] exI [of _ m] exI [of _ r]) (simp add: invitation_ttl_def)
qed

lemma invitation_issued_witness:
  "\<exists>i s'. create_profile_invitation ex_env 2 (Val 10) (Some [97, 5]) (Val IR_MEMBER) ex_db = Inr (i, s')
     \<and> pi_expires_at i = 1000 + 7 * 24 * 3600 * 1000000
   \<and> create_profile_invitation ex_env 2 (Val 10) (Some [97, 5]) (Val IR_ADMIN) ex_db = Inl PermissionDenied"
proof -
  obtain i s' where a: "create_profile_invitation ex_env 2 (Val 10) (Some [97, 5]) (Val IR_MEMBER) ex_db = Inr (i, s')"
    by (simp add: evals ex_db_def)
  moreover have "e_now ex_env = 1000" by (simp add: ex_env_def)
  moreover have "create_profile_invitation ex_env 2 (Val 10) (Some [97, 5]) (Val IR_ADMIN) ex_db = Inl PermissionDenied"
    by (simp add: evals ex_db_def)
  ultimately show ?thesis using invitation_issued [OF ex_db_ok a] by auto
qed

text \<open>
  Resending rotates the token. The invitation resent is pending or expired before, and
  afterwards it is still there but no longer pending; the new one, for the same Profile, address
  and role, is the only pending one for them and the only one that ever replaces it.
\<close>

theorem resending_rotates:
  assumes ok: "db_ok s" and c: "resend_profile_invitation env a pid iid s = Inr (j, s')"
  shows "\<exists>i\<in>set (invitations s). iid = Val (pi_id i) \<and> pi_status i \<in> {IS_PENDING, IS_EXPIRED}
    \<and> pi_replaces j = Some (pi_id i) \<and> pi_profile j = pi_profile i \<and> pi_email j = pi_email i
    \<and> pi_requested_role j = pi_requested_role i \<and> pi_status j = IS_PENDING \<and> j \<in> set (invitations s')
    \<and> (\<exists>i'\<in>set (invitations s'). same_invitation i i' \<and> pi_status i' \<noteq> IS_PENDING)
    \<and> (\<forall>x\<in>set (invitations s'). x \<noteq> j \<longrightarrow> pi_replaces x \<noteq> Some (pi_id i)
         \<and> \<not> (pi_profile x = pi_profile i \<and> pi_email x = pi_email i \<and> pi_status x = IS_PENDING))"
  using c
proof (rule resend_D)
  fix p m i s1 s2 s3 u k
  assume i: "i \<in> set (invitations s)" "iid = Val (pi_id i)" "pi_profile i = p_id p"
      "effective_status (e_now env) i \<in> {IS_PENDING, IS_EXPIRED}"
    and e: "invitation_effect (Some a) s s1" "invitation_effect (Some a) s1 s2"
    and j: "issued env k p m (pi_email i) (pi_requested_role i) u (Some (pi_id i)) j s2 s3"
    and l: "logged a (pi_id j) ''profile.invitation.resent'' s3 s'"
  note J = issued_row [OF j]
  have s': "invitations s' = invitations s2 @ [j]" using J(12) logged_tables(6) [OF l] by simp
  have oks: "db_ok s2" "db_ok s'"
    using effect_db_ok [OF effect_trans [OF e] ok] effect_db_ok [OF resend_effect [OF c] ok] .
  note iok = db_okD(12) [OF oks(2)]
  obtain i' where i': "i' \<in> set (invitations s2)" "invitation_evolved i i'"
    using effect_trans [OF e] ok i(1) by (auto simp: invitation_effect_def invitations_evolve_def)
  have ne: "x \<noteq> j" if "x \<in> set (invitations s2)" for x using J(11) that by auto
  have pend: "x = j" if "x \<in> set (invitations s')" "pi_profile x = pi_profile i" "pi_email x = pi_email i"
    "pi_status x = IS_PENDING" for x
    using pending_unique [OF iok that(1) _ that(4) J(7)] that(2,3) J(2,3) i(3) s' by simp
  have rep: "x = j" if "x \<in> set (invitations s')" "pi_replaces x = Some (pi_id i)" for x
    using replaces_unique [OF iok that(1) _ that(2) J(10)] s' by simp
  have si: "same_invitation i i'" using i'(2) by (simp add: invitation_evolved_def)
  then have "pi_status i' \<noteq> IS_PENDING"
    using pend [of i'] ne [OF i'(1)] i'(1) s' by (auto simp: same_invitation_def)
  with si i'(1) s' have old: "\<exists>i'\<in>set (invitations s'). same_invitation i i' \<and> pi_status i' \<noteq> IS_PENDING"
    by auto
  have st: "pi_status i \<in> {IS_PENDING, IS_EXPIRED}"
    using i(4) by (auto simp: effective_status_def split: if_splits)
  have new: "\<forall>x\<in>set (invitations s'). x \<noteq> j \<longrightarrow> pi_replaces x \<noteq> Some (pi_id i)
      \<and> \<not> (pi_profile x = pi_profile i \<and> pi_email x = pi_email i \<and> pi_status x = IS_PENDING)"
    using pend rep by blast
  show ?thesis
    by (rule bexI [OF _ i(1)], intro conjI)
      (use i(2,3) st J(2,3,4,7,10) s' old new in \<open>simp_all\<close>)
qed

definition ex_fresh :: env where
  "ex_fresh = ex_env\<lparr>e_token := [118]\<rparr>"

lemma resending_rotates_witness:
  "\<exists>j s'. resend_profile_invitation ex_fresh 1 (Val 10) (Val 71) ex_late = Inr (j, s')
     \<and> pi_replaces j = Some 71"
proof -
  obtain j s' where a: "resend_profile_invitation ex_fresh 1 (Val 10) (Val 71) ex_late = Inr (j, s')"
    by (simp add: evals ex_late_def ex_fresh_def mk_invitation_def ex_db_def)
  with resending_rotates [OF ex_invited_ok(2) a] show ?thesis by auto
qed

end
