(* ===== verification/Task_Theorems.thy ===== *)
theory Task_Theorems
  imports Frames
begin

text \<open>
  Properties of the Task component: the hierarchy, the workflow as a refinement of an abstract
  status machine, its invariants on reachable databases, and the functional behaviour of the
  workflow services.
\<close>

subsection \<open>The parent walk\<close>

text \<open>
  The reference of the loop of \<open>Task.clean\<close>: the ancestors of a row with parent \<open>pid\<close>, nearest
  first.
\<close>

inductive ancestor_path :: "task list \<Rightarrow> uuid option \<Rightarrow> task list \<Rightarrow> bool" for rows where
  top: "ancestor_path rows None []"
| up: "p \<in> set rows \<Longrightarrow> ancestor_path rows (t_parent p) ps \<Longrightarrow> ancestor_path rows (Some (t_id p)) (p # ps)"

inductive_cases path_NoneE: "ancestor_path rows None ps"
inductive_cases path_SomeE: "ancestor_path rows (Some i) ps"

lemma walk_path:
  "parent_walk rows w seen d pid = Inr n \<Longrightarrow> d \<le> max_hierarchy_depth \<Longrightarrow>
     \<exists>ps. ancestor_path rows pid ps \<and> n = d + length ps \<and> n \<le> max_hierarchy_depth
       \<and> distinct (map t_id ps) \<and> (\<forall>p\<in>set ps. t_workspace p = w \<and> t_id p \<notin> set seen)"
proof (induction rows w seen d pid rule: parent_walk.induct)
  case (1 rows w seen d)
  then show ?case by (auto intro!: exI [of _ "[]"] ancestor_path.top)
next
  case (2 rows w seen d i)
  from "2.prems"(1) obtain p where p: "i \<notin> set seen" "lookup_pk t_id i rows = Some p" "t_workspace p = w"
    "d + 1 \<le> max_hierarchy_depth" "parent_walk rows w (i # seen) (d + 1) (t_parent p) = Inr n"
    by (auto split: if_splits option.splits)
  from "2.IH" [OF p(1,2)] p(3-5) obtain ps where ps: "ancestor_path rows (t_parent p) ps"
    "n = d + 1 + length ps" "n \<le> max_hierarchy_depth" "distinct (map t_id ps)"
    "\<forall>q\<in>set ps. t_workspace q = w \<and> t_id q \<notin> set (i # seen)"
    by auto
  have "p \<in> set rows" "t_id p = i" using lookup_pk_Some [OF p(2)] by simp_all
  then have "ancestor_path rows (Some i) (p # ps)" using ancestor_path.up [OF _ ps(1)] by blast
  with ps p \<open>t_id p = i\<close> show ?case by (intro exI [of _ "p # ps"]) auto
qed

lemma path_walk:
  assumes "ancestor_path rows pid ps" "distinct (map t_id rows)"
  shows "d + length ps \<le> max_hierarchy_depth \<Longrightarrow> distinct (map t_id ps) \<Longrightarrow>
    (\<forall>p\<in>set ps. t_workspace p = w \<and> t_id p \<notin> set seen) \<Longrightarrow>
    parent_walk rows w seen d pid = Inr (d + length ps)"
  using assms
proof (induction arbitrary: d seen rule: ancestor_path.induct)
  case (up p ps)
  then have "lookup_pk t_id (t_id p) rows = Some p" by (simp add: lookup_pk_eq)
  moreover have "t_id q \<noteq> t_id p" if "q \<in> set ps" for q
  proof
    assume "t_id q = t_id p"
    moreover have "t_id q \<in> t_id ` set ps" using that by (rule imageI)
    ultimately show False using up.prems(2) by simp
  qed
  then have "parent_walk rows w (t_id p # seen) (d + 1) (t_parent p) = Inr (d + 1 + length ps)"
    using up.prems by (intro up.IH) auto
  ultimately show ?case using up.prems by simp
qed simp

text \<open>
  C25. The depth check against its reference. On every table with unique keys, cyclic ones
  included, the loop of \<open>Task.clean\<close> returns the number \<open>n\<close> exactly when the stored row's ancestors
  form a repetition-free path of \<open>n \<le> 3\<close> Tasks of the same Workspace that does not meet the row
  itself, and it reports an error on the parent field otherwise.
\<close>

theorem parent_walk_iff:
  assumes "distinct (map t_id rows)"
  shows "case parent_walk rows w [i] 0 pid of
      Inr n \<Rightarrow> n \<le> 3 \<and> (\<exists>ps. ancestor_path rows pid ps \<and> length ps = n \<and> distinct (map t_id ps)
        \<and> (\<forall>p\<in>set ps. t_workspace p = w \<and> t_id p \<noteq> i))
    | Inl e \<Rightarrow> e = ValidationError ''parent'' \<and> (\<forall>ps. ancestor_path rows pid ps \<longrightarrow>
        \<not> (length ps \<le> 3 \<and> distinct (map t_id ps) \<and> (\<forall>p\<in>set ps. t_workspace p = w \<and> t_id p \<noteq> i)))"
proof (cases "parent_walk rows w [i] 0 pid")
  case (Inl e)
  have err: "parent_walk rows w seen d q = Inl x \<Longrightarrow> x = ValidationError ''parent''" for rows w seen d q x
    by (induction rows w seen d q rule: parent_walk.induct) (auto split: if_splits option.splits)
  have "False" if ps: "ancestor_path rows pid ps" "length ps \<le> 3" "distinct (map t_id ps)"
    "\<forall>p\<in>set ps. t_workspace p = w \<and> t_id p \<noteq> i" for ps
    using path_walk [OF ps(1) assms, of 0 w "[i]"] ps(2-4) Inl by (simp add: max_hierarchy_depth_def)
  with err [OF Inl] Inl show ?thesis by auto
next
  case (Inr n)
  with walk_path [OF Inr] show ?thesis by (auto simp: max_hierarchy_depth_def)
qed

lemma parent_walk_iff_witness:
  "parent_walk (tasks ex_db) 20 [99] 0 (Some 33) = Inr 3
   \<and> (\<exists>ps. ancestor_path (tasks ex_db) (Some 33) ps \<and> length ps = 3)
   \<and> parent_walk [mk_task 1 20 (Some 2) TS_PENDING, mk_task 2 20 (Some 1) TS_PENDING] 20 [99] 0 (Some 1)
       = Inl (ValidationError ''parent'')"
proof -
  have w: "parent_walk (tasks ex_db) 20 [99] 0 (Some 33) = Inr 3"
    by (simp add: ex_db_def mk_task_def lookup_pk_def max_hierarchy_depth_def)
  have "distinct (map t_id (tasks ex_db))" by (simp add: ex_db_def mk_task_def)
  from parent_walk_iff [OF this, where w = 20 and i = 99 and pid = "Some 33"] w
  have "\<exists>ps. ancestor_path (tasks ex_db) (Some 33) ps \<and> length ps = 3" by auto
  moreover have "parent_walk [mk_task 1 20 (Some 2) TS_PENDING, mk_task 2 20 (Some 1) TS_PENDING] 20 [99] 0 (Some 1)
       = Inl (ValidationError ''parent'')"
    by (simp add: mk_task_def lookup_pk_def max_hierarchy_depth_def)
  ultimately show ?thesis using w by blast
qed

text \<open>
  C26. The hierarchy of every reachable database. Each Task is at most three parent edges below a
  root, every edge inside its Workspace; in particular no Task is its own ancestor, whatever
  moves were made.
\<close>

theorem reachable_hierarchy:
  assumes "reachable s" "t \<in> set (tasks s)"
  shows "\<exists>n\<le>3. chain (tasks s) t n"
  using hierarchy.both.always [OF assms(1)] assms(2)
  by (auto simp: hierarchy_ok_def max_hierarchy_depth_def)

lemma reachable_hierarchy_witness: "\<exists>s t. story_end s \<and> t \<in> set (tasks s) \<and> (\<exists>n\<le>3. chain (tasks s) t n)"
proof -
  obtain s where s: "reachable s" "story_end s" by (rule story_reachable)
  then obtain t where "t \<in> set (tasks s)" by (auto simp: story_end_def map_eq_Cons_conv)
  with reachable_hierarchy [OF s(1) this] s(2) show ?thesis by blast
qed

subsection \<open>The workflow refines a status board\<close>

text \<open>
  The abstract machine: a board from Task identifiers to statuses, and for each command the Task it
  moves, the statuses it may move from and the one it moves to.
\<close>

definition board :: "db \<Rightarrow> uuid \<Rightarrow> task_status option" where
  "board s i = map_option t_status (lookup_pk t_id i (tasks s))"

fun board_move :: "command \<Rightarrow> (uuid \<times> task_status set \<times> task_status) option" where
  "board_move (AssignTask _ _ _ (Val t) _) = Some (t, {TS_PENDING, TS_ASSIGNED, TS_WORKING}, TS_ASSIGNED)"
| "board_move (StartTask _ _ _ (Val t)) = Some (t, {TS_ASSIGNED}, TS_WORKING)"
| "board_move (SubmitDeliverable _ _ _ (Val t) _) = Some (t, {TS_WORKING}, TS_REVIEW)"
| "board_move (ApproveDeliverable _ _ _ (Val t) _ _) = Some (t, {TS_REVIEW}, TS_COMPLETED)"
| "board_move (RequestChanges _ _ _ (Val t) _ _) = Some (t, {TS_REVIEW}, TS_WORKING)"
| "board_move _ = None"

fun creates_task :: "command \<Rightarrow> bool" where
  "creates_task (CreateTask _ _ _ _ _ _ _ _) = True"
| "creates_task _ = False"

lemma board_status:
  assumes "db_ok s" "t \<in> set (tasks s)" "tasks s' = status_rows env t st (tasks s)" "tasks_ok (tasks s')"
  shows "board s' = (board s)(t_id t \<mapsto> st)" "board s (t_id t) = Some (t_status t)"
proof -
  have d: "distinct (map t_id (tasks s))" using db_okD(5) [OF assms(1)] by (simp add: tasks_ok_def)
  have lt: "lookup_pk t_id (t_id t) (tasks s) = Some t" using d assms(2) by (simp add: lookup_pk_eq)
  have w: "write_tasks (update_where (\<lambda>x. t_id x = t_id t) (set_status env st) (tasks s)) s
      = Inr (s\<lparr>tasks := tasks s'\<rparr>)"
    using assms(3,4) by (simp add: write_tasks_def status_rows_def)
  have "lookup_pk t_id j (tasks s') = (if j = t_id t then map_option (set_status env st) (lookup_pk t_id j (tasks s))
      else lookup_pk t_id j (tasks s))" for j
    using task_table.lookup_update [OF w _ d] by simp
  with lt show "board s' = (board s)(t_id t \<mapsto> st)" "board s (t_id t) = Some (t_status t)"
    by (auto simp: board_def fun_eq_iff)
qed

lemma board_same: "tasks s' = tasks s \<Longrightarrow> board s' = board s"
  by (simp add: board_def fun_eq_iff)

lemma board_create:
  assumes "db_ok s" "create_task env a pid wid ti de pr dl par s = Inr (t, s')"
  shows "board s (t_id t) = None \<and> board s' = (board s)(t_id t \<mapsto> TS_PENDING)"
  using assms(2)
proof (rule create_task_D)
  fix w q x d
  assume t: "t = new_task env w q ti de x d a"
    and c: "task_full_clean True (tasks s @ [t]) t s = Inr ()"
    and l: "logged a (t_id t) ''task.created'' (s\<lparr>tasks := tasks s @ [t]\<rparr>) s'"
  have ok: "tasks_ok (tasks s @ [t])" using c by (rule task_full_clean_tasks_ok)
  have "write_tasks (tasks s @ [t]) s = Inr (s\<lparr>tasks := tasks s @ [t]\<rparr>)" using ok by (simp add: write_tasks_def)
  from task_table.lookup_insert [OF this]
  have "lookup_pk t_id i (tasks s @ [t]) = (if i = t_id t then Some t else lookup_pk t_id i (tasks s))" for i
    by simp
  moreover have "t_status t = TS_PENDING" by (simp add: t new_task_def)
  moreover have "lookup_pk t_id (t_id t) (tasks s) = None" using ok by (simp add: tasks_ok_def)
  ultimately show ?thesis using logged_tables(7) [OF l] by (auto simp: board_def fun_eq_iff)
qed

lemma board_update:
  assumes "db_ok s" "update_task env a pid wid tid ti de pr dl par s = Inr (t', s')"
  shows "board s' = board s"
  using assms(2)
proof (rule update_task_D)
  fix au w p t q ti de pr dl
  assume e: "task_edited a t (edit_task env q ti de pr dl) t' s s'"
  show ?thesis
  proof (cases "s' = s")
    case False
    let ?f = "edit_task env q ti de pr dl"
    from e False have c: "task_full_clean False (update_where (\<lambda>x. t_id x = t_id t) ?f (tasks s)) t' s = Inr ()"
      and l: "logged a (t_id t) ''task.updated'' (s\<lparr>tasks := update_where (\<lambda>x. t_id x = t_id t) ?f (tasks s)\<rparr>) s'"
      by (auto simp: task_edited_def Let_def split: if_splits)
    have d: "distinct (map t_id (tasks s))" using db_okD(5) [OF assms(1)] by (simp add: tasks_ok_def)
    have "write_tasks (update_where (\<lambda>x. t_id x = t_id t) ?f (tasks s)) s = Inr (s\<lparr>tasks := tasks s'\<rparr>)"
      using task_full_clean_tasks_ok [OF c] logged_tables(7) [OF l] by (simp add: write_tasks_def)
    from task_table.lookup_update [OF this _ d]
    have "lookup_pk t_id j (tasks s') = (if j = t_id t then map_option ?f (lookup_pk t_id j (tasks s))
      else lookup_pk t_id j (tasks s))" for j
      by (simp add: edit_task_def)
    then show ?thesis by (auto simp: board_def fun_eq_iff option.map_comp o_def edit_task_def)
  qed simp
qed

lemma board_services:
  assumes ok: "db_ok s"
  shows "assign_task env a pid wid tid m s = Inr (x, s') \<Longrightarrow> \<exists>t st. tid = Val t
      \<and> st \<in> {TS_PENDING, TS_ASSIGNED, TS_WORKING} \<and> board s t = Some st \<and> board s' = (board s)(t \<mapsto> TS_ASSIGNED)"
    "start_task env a pid wid tid s = Inr (y, s') \<Longrightarrow> \<exists>t. tid = Val t \<and> board s t = Some TS_ASSIGNED
      \<and> board s' = (board s)(t \<mapsto> TS_WORKING)"
    "submit_deliverable env a pid wid tid url s = Inr (d, s') \<Longrightarrow> \<exists>t. tid = Val t \<and> board s t = Some TS_WORKING
      \<and> board s' = (board s)(t \<mapsto> TS_REVIEW)"
    "review_deliverable env a pid wid tid did rst c s = Inr (r, s') \<Longrightarrow> \<exists>t. tid = Val t
      \<and> board s t = Some TS_REVIEW \<and> board s' = (board s)(t \<mapsto> fst (snd (review_outcome rst)))"
proof -
  note b = board_status [OF ok]
  show "\<exists>t st. tid = Val t \<and> st \<in> {TS_PENDING, TS_ASSIGNED, TS_WORKING} \<and> board s t = Some st
      \<and> board s' = (board s)(t \<mapsto> TS_ASSIGNED)" if "assign_task env a pid wid tid m s = Inr (x, s')"
    using that
  proof (rule assign_task_D)
    fix au w p t m active s3 s4 k
    assume t: "task_locked a pid wid tid s au w p t" "t_status t \<in> {TS_PENDING, TS_ASSIGNED, TS_WORKING}"
      and s3: "s3 = s\<lparr>assignments := taken_rows env (t_id t) (pm_user m) (released_rows env active (assignments s)),
       tasks := status_rows env t TS_ASSIGNED (tasks s)\<rparr>" "tasks_ok (tasks s3)"
      and l: "logged a (ta_id x) (if active = None then ''task.assigned'' else ''task.reassigned'') s3 s4"
      and n: "notified (e_uuid env k) TASK_ASSIGNED (t_id t) (event_users a (w_id w) s) s4 s'"
    have "tasks s' = status_rows env t TS_ASSIGNED (tasks s)" "tasks_ok (tasks s')"
      using logged_tables(7) [OF l] notified_tables(7) [OF n] s3 by simp_all
    with b [of t s' env TS_ASSIGNED] t show ?thesis by (auto simp: task_locked_def)
  qed
  show "\<exists>t. tid = Val t \<and> board s t = Some TS_ASSIGNED \<and> board s' = (board s)(t \<mapsto> TS_WORKING)"
    if "start_task env a pid wid tid s = Inr (y, s')"
    using that
  proof (rule start_task_D)
    fix w p t z
    assume t: "task_locked a pid wid tid s (Assigned WR_MEMBER) w p t" "t_status t = TS_ASSIGNED"
      and ok': "tasks_ok (status_rows env t TS_WORKING (tasks s))"
      and l: "logged a (t_id t) ''task.started'' (s\<lparr>tasks := status_rows env t TS_WORKING (tasks s)\<rparr>) s'"
    from b [of t s' env TS_WORKING] t ok' logged_tables(7) [OF l] show ?thesis by (auto simp: task_locked_def)
  qed
  show "\<exists>t. tid = Val t \<and> board s t = Some TS_WORKING \<and> board s' = (board s)(t \<mapsto> TS_REVIEW)"
    if "submit_deliverable env a pid wid tid url s = Inr (d, s')"
    using that
  proof (rule submit_deliverable_D)
    fix w p t z s2 s3
    assume t: "task_locked a pid wid tid s (Assigned WR_MEMBER) w p t" "t_status t = TS_WORKING"
      and ok': "tasks_ok (status_rows env t TS_REVIEW (tasks s))"
      and s2: "s2 = s\<lparr>deliverables := deliverables s @ [d], tasks := status_rows env t TS_REVIEW (tasks s)\<rparr>"
      and l: "logged a (d_id d) ''task.deliverable.submitted'' s2 s3"
      and n: "notified (e_uuid env 1) REVIEW_SUBMITTED (t_id t) (event_users a (w_id w) s) s3 s'"
    from b [of t s' env TS_REVIEW] t ok' s2 logged_tables(7) [OF l] notified_tables(7) [OF n]
    show ?thesis by (auto simp: task_locked_def)
  qed
  show "\<exists>t. tid = Val t \<and> board s t = Some TS_REVIEW \<and> board s' = (board s)(t \<mapsto> fst (snd (review_outcome rst)))"
    if "review_deliverable env a pid wid tid did rst c s = Inr (r, s')"
    using that
  proof (rule review_deliverable_D)
    fix au w p t y dst tst action et s3 s4
    assume t: "task_locked a pid wid tid s au w p t" "t_status t = TS_REVIEW"
      and o: "(dst, tst, action, et) = review_outcome rst" "tasks_ok (status_rows env t tst (tasks s))"
      and s3: "s3 = s\<lparr>reviews := reviews s @ [r],
         deliverables := update_where (\<lambda>x. d_id x = d_id y) (decide_deliverable env dst) (deliverables s),
         tasks := status_rows env t tst (tasks s)\<rparr>"
      and l: "logged a (r_id r) action s3 s4"
      and n: "notified (e_uuid env 1) et (t_id t) (event_users a (w_id w) s) s4 s'"
    have "fst (snd (review_outcome rst)) = tst" using o(1) [symmetric] by simp
    with b [of t s' env tst] t o(2) s3 logged_tables(7) [OF l] notified_tables(7) [OF n]
    show ?thesis by (auto simp: task_locked_def)
  qed
qed

lemma board_unchanged:
  "task_tables s' = task_tables s \<Longrightarrow> board s' = board s"
  by (rule board_same) (simp add: task_tables_def)

text \<open>
  C27. The services refine the status board. Every committed command acts on the board as the
  abstract machine says: it moves the one Task it names from an allowed status to the next, or
  posts a new Task as pending, or leaves the board alone.
\<close>

theorem commands_refine_board:
  assumes "db_ok s" "exec env c s = Inr s'"
  shows "case board_move c of
      Some (t, allowed, next) \<Rightarrow> \<exists>st\<in>allowed. board s t = Some st \<and> board s' = (board s)(t \<mapsto> next)
    | None \<Rightarrow> if creates_task c then \<exists>i. board s i = None \<and> board s' = (board s)(i \<mapsto> TS_PENDING)
              else board s' = board s"
  using assms(2)
proof (cases c)
  case (AssignTask a p w t m)
  with assms(2) board_services(1) [OF assms(1)] show ?thesis by fastforce
next
  case (StartTask a p w t)
  with assms(2) board_services(2) [OF assms(1)] show ?thesis by fastforce
next
  case (SubmitDeliverable a p w t u)
  with assms(2) board_services(3) [OF assms(1)] show ?thesis by fastforce
next
  case (ApproveDeliverable a p w t d x)
  with assms(2) show ?thesis
    using board_services(4) [OF assms(1)] approve_is_review by (fastforce simp: review_outcome_def)
next
  case (RequestChanges a p w t d x)
  with assms(2) show ?thesis
    using board_services(4) [OF assms(1)] request_changes_is_review by (fastforce simp: review_outcome_def)
next
  case (CreateTask a p w ti de pr dl par)
  with assms(2) board_create [OF assms(1)] show ?thesis by fastforce
qed (auto dest: board_update [OF assms(1)] task_tables_unchanged [THEN board_unchanged]
    invitation_services_effect [THEN task_tables_invitations [OF _ assms(1)], THEN board_unchanged])

lemma commands_refine_board_witness:
  "\<exists>s'. exec ex_env (StartTask 3 (Val 10) (Val 20) (Val 31)) ex_db = Inr s'
     \<and> board s' = (board ex_db)(31 \<mapsto> TS_WORKING)"
proof -
  obtain s' where a: "exec ex_env (StartTask 3 (Val 10) (Val 20) (Val 31)) ex_db = Inr s'"
    by (simp add: evals ex_db_def)
  from commands_refine_board [OF ex_db_ok a] have "board s' = (board ex_db)(31 \<mapsto> TS_WORKING)" by simp
  with a show ?thesis by blast
qed

subsection \<open>Reachable workflows\<close>

lemma tasks_evolve_steps:
  assumes "step\<^sup>*\<^sup>* s s'" "db_ok s" "t \<in> set (tasks s)"
  shows "db_ok s' \<and> (\<exists>t'\<in>set (tasks s'). t_id t' = t_id t \<and> t_workspace t' = t_workspace t
    \<and> t_created_by t' = t_created_by t \<and> legal\<^sup>*\<^sup>* (t_status t) (t_status t'))"
  using assms
proof (induction rule: rtranclp_induct)
  case (step y z)
  then obtain u where y: "db_ok y" "u \<in> set (tasks y)" "t_id u = t_id t" "t_workspace u = t_workspace t"
    "t_created_by u = t_created_by t" "legal\<^sup>*\<^sup>* (t_status t) (t_status u)" by blast
  from step(2) show ?case
  proof (cases rule: step.cases)
    case (commit env c)
    obtain v where "v \<in> set (tasks z)" "evolved u v"
      using evolve_exec [OF y(1) commit] y(2) by (auto simp: tasks_evolve_def)
    with y constraints.inv_exec [OF y(1) commit] show ?thesis
      by (intro conjI bexI [of _ v]) (auto simp: evolved_def intro: rtranclp.rtrancl_into_rtrancl)
  next
    case rollback
    with y show ?thesis by blast
  qed
qed auto

lemma completed_stuck: "legal\<^sup>*\<^sup>* st st' \<Longrightarrow> st = TS_COMPLETED \<Longrightarrow> st' = TS_COMPLETED"
  by (induction rule: rtranclp_induct) (auto elim: legal_completedE)

text \<open>
  Tasks live on. Whatever the system does next, a Task is still there, in its Workspace and
  with its creator, its status reached through legal changes only; a completed Task stays
  completed for ever.
\<close>

theorem tasks_live_on:
  assumes "db_ok s" "step\<^sup>*\<^sup>* s s'" "t \<in> set (tasks s)"
  shows "\<exists>t'\<in>set (tasks s'). t_id t' = t_id t \<and> t_workspace t' = t_workspace t
    \<and> t_created_by t' = t_created_by t \<and> legal\<^sup>*\<^sup>* (t_status t) (t_status t')
    \<and> (t_status t = TS_COMPLETED \<longrightarrow> t_status t' = TS_COMPLETED)"
  using tasks_evolve_steps [OF assms(2,1,3)] completed_stuck by blast

lemma tasks_live_on_witness:
  "\<exists>s'. run [(ex_env, ApproveDeliverable 1 (Val 10) (Val 20) (Val 33) (Val 51) None)] ex_db = Inr s'
     \<and> (\<exists>t'\<in>set (tasks s'). t_id t' = 33 \<and> legal\<^sup>*\<^sup>* TS_REVIEW (t_status t'))"
proof -
  obtain s' where a: "run [(ex_env, ApproveDeliverable 1 (Val 10) (Val 20) (Val 33) (Val 51) None)] ex_db = Inr s'"
    by (simp add: evals ex_db_def)
  from tasks_live_on [OF ex_db_ok run_steps [OF a], of "mk_task 33 20 (Some 32) TS_REVIEW"]
  have "\<exists>t'\<in>set (tasks s'). t_id t' = 33 \<and> legal\<^sup>*\<^sup>* TS_REVIEW (t_status t')"
    by (auto simp: ex_db_def mk_task_def)
  with a show ?thesis by blast
qed

text \<open>
  C28. A Task's status says what is true of it. In every reachable database a Task is pending
  exactly when nobody is assigned, in review exactly when a Deliverable of it is undecided,
  completed exactly when one is approved, and never cancelled; at most one user is actively
  assigned to it and at most one Deliverable of it is undecided.
\<close>

theorem status_means_what_it_says:
  assumes "reachable s" "t \<in> set (tasks s)"
  shows "(t_status t = TS_PENDING \<longleftrightarrow> \<not> (\<exists>a\<in>set (assignments s). ta_task a = t_id t \<and> ta_is_active a))
    \<and> (t_status t = TS_REVIEW \<longleftrightarrow> (\<exists>d\<in>set (deliverables s). d_task d = t_id t \<and> unresolved d))
    \<and> (t_status t = TS_COMPLETED \<longleftrightarrow> (\<exists>d\<in>set (deliverables s). d_task d = t_id t \<and> d_status d = DS_APPROVED))
    \<and> t_status t \<noteq> TS_CANCELLED
    \<and> (\<forall>a\<in>set (assignments s). \<forall>b\<in>set (assignments s). ta_task a = t_id t \<and> ta_is_active a
         \<and> ta_task b = t_id t \<and> ta_is_active b \<longrightarrow> a = b)
    \<and> (\<forall>d\<in>set (deliverables s). \<forall>e\<in>set (deliverables s). d_task d = t_id t \<and> unresolved d
         \<and> d_task e = t_id t \<and> unresolved e \<longrightarrow> d = e)"
proof -
  have inv: "workflow_inv s" "db_ok s" using workflow.both.always [OF assms(1)] by simp_all
  note W = workflow_listsD [OF inv(1) [unfolded workflow_inv_def]]
  have "a = b" if "a \<in> set (assignments s)" "b \<in> set (assignments s)" "ta_task a = ta_task b"
    "ta_is_active a" "ta_is_active b" for a b
    using db_okD(6) [OF inv(2)] that
    by (auto simp: assignments_ok_def intro: distinct_map_filter_eq [of ta_task ta_is_active])
  moreover have "task_consistent (assignments s) (deliverables s) t" using W(1) assms(2) by blast
  ultimately show ?thesis using W(3)
    unfolding task_consistent_def has_assignee_def [symmetric] awaiting_review_def [symmetric]
      has_approved_def [symmetric] one_unresolved_def
    by (cases "t_status t") auto
qed

lemma status_means_what_it_says_witness:
  "\<exists>s. story_end s \<and> (\<exists>d\<in>set (deliverables s). d_task d = 8000 \<and> d_status d = DS_APPROVED)"
proof -
  obtain s where s: "reachable s" "story_end s" by (rule story_reachable)
  then obtain t where t: "t \<in> set (tasks s)" "t_status t = TS_COMPLETED" "t_id t = 8000"
    by (auto simp: story_end_def map_eq_Cons_conv)
  with status_means_what_it_says [OF s(1) t(1)] have "\<exists>d\<in>set (deliverables s). d_task d = 8000 \<and> d_status d = DS_APPROVED"
    by simp
  with s(2) show ?thesis by blast
qed

text \<open>
  C29. Four eyes. In every reachable database the Deliverables decided are exactly the reviewed
  ones: an approved (rejected) Deliverable has a Review with that outcome by somebody other than
  who submitted it, a submitted one has none, no Deliverable has two Reviews; so a completed Task
  was approved by somebody other than who did the work.
\<close>

theorem four_eyes:
  assumes "reachable s"
  shows "(\<forall>d\<in>set (deliverables s). case d_status d of
        DS_SUBMITTED \<Rightarrow> \<not> (\<exists>r\<in>set (reviews s). r_deliverable r = d_id d)
      | DS_APPROVED \<Rightarrow> \<exists>!r. r \<in> set (reviews s) \<and> r_deliverable r = d_id d
      | DS_REJECTED \<Rightarrow> \<exists>!r. r \<in> set (reviews s) \<and> r_deliverable r = d_id d
      | DS_PENDING \<Rightarrow> False)
    \<and> (\<forall>d\<in>set (deliverables s). \<forall>r\<in>set (reviews s). r_deliverable r = d_id d \<longrightarrow> r_reviewer r \<noteq> d_uploaded_by d
        \<and> r_status r = (if d_status d = DS_APPROVED then RS_APPROVED else RS_REQUEST_CHANGE))
    \<and> (\<forall>t\<in>set (tasks s). t_status t = TS_COMPLETED \<longrightarrow> (\<exists>d\<in>set (deliverables s). \<exists>r\<in>set (reviews s).
        d_task d = t_id t \<and> r_deliverable r = d_id d \<and> r_status r = RS_APPROVED \<and> r_reviewer r \<noteq> d_uploaded_by d))"
proof -
  have inv: "workflow_inv s" "db_ok s" using workflow.both.always [OF assms] by simp_all
  note W = workflow_listsD [OF inv(1) [unfolded workflow_inv_def]]
  have one: "r = r'" if "r \<in> set (reviews s)" "r' \<in> set (reviews s)" "r_deliverable r = r_deliverable r'" for r r'
    using db_okD(9) [OF inv(2)] that by (auto simp: reviews_ok_def intro: distinct_map_eq [of r_deliverable])
  have only: "(\<exists>!x. x \<in> set (reviews s) \<and> r_deliverable x = d_id d)
      \<and> (\<forall>x\<in>set (reviews s). r_deliverable x = d_id d \<longrightarrow> r_reviewer x \<noteq> d_uploaded_by d \<and> r_status x = st)"
    if "r \<in> set (reviews s)" "r_deliverable r = d_id d" "r_status r = st" "r_reviewer r \<noteq> d_uploaded_by d" for d r st
    using that one by metis
  have decided: "(case d_status d of
        DS_SUBMITTED \<Rightarrow> \<not> (\<exists>r\<in>set (reviews s). r_deliverable r = d_id d)
      | DS_APPROVED \<Rightarrow> \<exists>!r. r \<in> set (reviews s) \<and> r_deliverable r = d_id d
      | DS_REJECTED \<Rightarrow> \<exists>!r. r \<in> set (reviews s) \<and> r_deliverable r = d_id d
      | DS_PENDING \<Rightarrow> False)
    \<and> (\<forall>r\<in>set (reviews s). r_deliverable r = d_id d \<longrightarrow> r_reviewer r \<noteq> d_uploaded_by d
        \<and> r_status r = (if d_status d = DS_APPROVED then RS_APPROVED else RS_REQUEST_CHANGE))"
    if "d \<in> set (deliverables s)" for d
  proof (cases "d_status d")
    case DS_APPROVED
    with W(2) [OF that] obtain r where "r \<in> set (reviews s)" "r_deliverable r = d_id d"
      "r_status r = RS_APPROVED" "r_reviewer r \<noteq> d_uploaded_by d" by (auto simp: decided_def)
    from only [OF this] DS_APPROVED show ?thesis by simp
  next
    case DS_REJECTED
    with W(2) [OF that] obtain r where "r \<in> set (reviews s)" "r_deliverable r = d_id d"
      "r_status r = RS_REQUEST_CHANGE" "r_reviewer r \<noteq> d_uploaded_by d" by (auto simp: decided_def)
    from only [OF this] DS_REJECTED show ?thesis by simp
  qed (use W(2) [OF that] in \<open>auto simp: decided_def\<close>)
  have "\<exists>d\<in>set (deliverables s). \<exists>r\<in>set (reviews s). d_task d = t_id t \<and> r_deliverable r = d_id d
      \<and> r_status r = RS_APPROVED \<and> r_reviewer r \<noteq> d_uploaded_by d"
    if t: "t \<in> set (tasks s)" "t_status t = TS_COMPLETED" for t
  proof -
    obtain d where d: "d \<in> set (deliverables s)" "d_task d = t_id t" "d_status d = DS_APPROVED"
      using W(1) [OF t(1)] t(2) by (auto simp: task_consistent_def has_approved_def)
    with W(2) [OF d(1)] show ?thesis by (auto simp: decided_def)
  qed
  with decided show ?thesis by blast
qed

lemma four_eyes_witness:
  "\<exists>s. story_end s \<and> (\<exists>d\<in>set (deliverables s). \<exists>r\<in>set (reviews s). d_task d = 8000 \<and> r_reviewer r \<noteq> d_uploaded_by d)"
proof -
  obtain s where s: "reachable s" "story_end s" by (rule story_reachable)
  then obtain t where t: "t \<in> set (tasks s)" "t_status t = TS_COMPLETED" "t_id t = 8000"
    by (auto simp: story_end_def map_eq_Cons_conv)
  with four_eyes [OF s(1)] have "\<exists>d\<in>set (deliverables s). \<exists>r\<in>set (reviews s). d_task d = t_id t
    \<and> r_reviewer r \<noteq> d_uploaded_by d" by blast
  with t(3) s(2) show ?thesis by auto
qed

subsection \<open>Stored rows stay valid\<close>

text \<open>
  Every save validates the whole row again, so an operation on an old Task succeeds only if the
  row still passes: its Workspace and creator still exist and its title is within bounds. This is an
  invariant, over the growth of the tables it refers to.
\<close>

definition references_grow :: "db \<Rightarrow> db \<Rightarrow> bool" where
  "references_grow s s' \<longleftrightarrow> users s' = users s \<and> w_id ` set (workspaces s) \<subseteq> w_id ` set (workspaces s')"

lemma grow_tenancy: "tenancy_tables s' = tenancy_tables s \<Longrightarrow> references_grow s s'"
  by (simp add: tenancy_tables_def references_grow_def)

lemma grow_effect: "invitation_effect a s s' \<Longrightarrow> db_ok s \<Longrightarrow> references_grow s s'"
  using effect_core [of a s s'] by (simp add: core_tables_def references_grow_def)

lemma ids_update_where: "(\<And>x. w_id (f x) = w_id x) \<Longrightarrow> w_id ` set (update_where P f ws) = w_id ` set ws"
  by (metis (mono_tags, lifting) map_update_where set_map)

lemma grow_membership_saved: "membership_saved env a m r b m' s s' \<Longrightarrow> references_grow s s'"
  by (auto simp: membership_saved_def references_grow_def logged_def Let_def split: if_splits)

lemma grow_profile_services:
  "create_profile_with_owner env name owner act s = Inr (p, s') \<Longrightarrow> references_grow s s'"
  "set_profile_status env a pid st s = Inr (p, s') \<Longrightarrow> references_grow s s'"
  "update_profile_membership env a pid mid r b s = Inr (m, s') \<Longrightarrow> references_grow s s'"
  "create_workspace env a pid name' d descr s = Inr (w, s') \<Longrightarrow> references_grow s s'"
  "update_workspace env a pid wid name'' descr' s = Inr (w, s') \<Longrightarrow> references_grow s s'"
  "set_workspace_status env a pid wid ws s = Inr (w, s') \<Longrightarrow> references_grow s s'"
proof -
  show "references_grow s s'" if "create_profile_with_owner env name owner act s = Inr (p, s')"
    using create_profile_D [OF that] by (auto simp: references_grow_def logged_def)
  show "references_grow s s'" if "set_profile_status env a pid st s = Inr (p, s')"
    using set_profile_status_D [OF that] by (auto simp: references_grow_def logged_def Let_def split: if_splits)
  show "references_grow s s'" if "update_profile_membership env a pid mid r b s = Inr (m, s')"
    using that by (rule update_profile_membership_E) (rule grow_membership_saved)
  show "references_grow s s'" if "create_workspace env a pid name' d descr s = Inr (w, s')"
    using create_workspace_D [OF that] by (auto simp: references_grow_def logged_def)
  show "references_grow s s'" if "update_workspace env a pid wid name'' descr' s = Inr (w, s')"
    using that by (rule update_workspace_D)
      (auto simp: references_grow_def logged_def Let_def ids_update_where split: if_splits)
  show "references_grow s s'" if "set_workspace_status env a pid wid ws s = Inr (w, s')"
    using that by (rule set_workspace_status_D)
      (auto simp: references_grow_def logged_def Let_def ids_update_where split: if_splits)
qed

lemma references_exec: "db_ok s \<Longrightarrow> exec env c s = Inr s' \<Longrightarrow> references_grow s s'"
  by (cases c) (auto dest!: approve_is_review request_changes_is_review
      dest: grow_profile_services tenancy_unchanged [THEN grow_tenancy]
        invitation_services_effect [THEN grow_effect])

definition row_valid :: "db \<Rightarrow> task \<Rightarrow> bool" where
  "row_valid s t \<longleftrightarrow> workspace_exists (t_workspace t) s \<and> char_field_ok 255 (t_title t)
     \<and> user_exists (t_created_by t) s"

definition rows_valid :: "db \<Rightarrow> bool" where
  "rows_valid s \<longleftrightarrow> (\<forall>t\<in>set (tasks s). row_valid s t)"

lemma row_valid_grow: "references_grow s s' \<Longrightarrow> row_valid s t \<Longrightarrow> row_valid s' t"
  by (auto simp: references_grow_def row_valid_def workspace_exists_def user_exists_def)

lemma rows_valid_grow:
  assumes "rows_valid s" "references_grow s s'"
    and "\<And>t'. t' \<in> set (tasks s') \<Longrightarrow> row_valid s t' \<or> (\<exists>t\<in>set (tasks s). t_workspace t' = t_workspace t
      \<and> t_title t' = t_title t \<and> t_created_by t' = t_created_by t)"
  shows "rows_valid s'"
proof -
  have "row_valid s t'" if "t' \<in> set (tasks s')" for t'
    using assms(3) [OF that] assms(1) unfolding rows_valid_def row_valid_def by auto
  then show ?thesis using row_valid_grow [OF assms(2)] by (simp add: rows_valid_def)
qed

lemma rows_status:
  assumes "t' \<in> set (status_rows env t st ts)"
  shows "\<exists>t\<in>set ts. t_workspace t' = t_workspace t \<and> t_title t' = t_title t \<and> t_created_by t' = t_created_by t"
  using assms by (auto simp: status_rows_def in_update_where split: if_splits)

definition restatused :: "env \<Rightarrow> db \<Rightarrow> db \<Rightarrow> bool" where
  "restatused env s s' \<longleftrightarrow> (\<exists>y st. tasks s' = status_rows env y st (tasks s))"

lemma restatusedI: "tasks s' = status_rows env y st (tasks s) \<Longrightarrow> restatused env s s'"
  unfolding restatused_def by blast

lemma rows_task_services:
  "create_task env a pid wid ti de pr dl par s = Inr (t, s') \<Longrightarrow> t' \<in> set (tasks s') \<Longrightarrow> row_valid s t' \<or> t' \<in> set (tasks s)"
  "update_task env a pid wid tid ti' de' pr' dl' par' s = Inr (t, s') \<Longrightarrow> t' \<in> set (tasks s') \<Longrightarrow> db_ok s \<Longrightarrow>
     row_valid s t' \<or> t' \<in> set (tasks s)"
  "assign_task env a pid wid tid m s = Inr (x, s') \<Longrightarrow> restatused env s s'"
  "start_task env a pid wid tid s = Inr (t, s') \<Longrightarrow> restatused env s s'"
  "submit_deliverable env a pid wid tid url s = Inr (d, s') \<Longrightarrow> restatused env s s'"
  "review_deliverable env a pid wid tid did rst c s = Inr (r, s') \<Longrightarrow> restatused env s s'"
proof -
  show "row_valid s t' \<or> t' \<in> set (tasks s)"
    if "create_task env a pid wid ti de pr dl par s = Inr (t, s')" "t' \<in> set (tasks s')"
    using that(1)
  proof (rule create_task_D)
    assume c: "task_full_clean True (tasks s @ [t]) t s = Inr ()"
      and l: "logged a (t_id t) ''task.created'' (s\<lparr>tasks := tasks s @ [t]\<rparr>) s'"
    from that(2) logged_tables(7) [OF l] task_full_clean_D [OF c] show ?thesis by (auto simp: row_valid_def)
  qed
  show "row_valid s t' \<or> t' \<in> set (tasks s)"
    if c: "update_task env a pid wid tid ti' de' pr' dl' par' s = Inr (t, s')" "t' \<in> set (tasks s')" and ok: "db_ok s"
    using c(1)
  proof (rule update_task_D)
    fix au w p y q ti de pr dl
    assume y: "task_locked a pid wid tid s au w p y" and e: "task_edited a y (edit_task env q ti de pr dl) t s s'"
    show ?thesis
    proof (cases "s' = s")
      case False
      let ?f = "edit_task env q ti de pr dl"
      from e False have f: "t = ?f y" "task_full_clean False (update_where (\<lambda>x. t_id x = t_id y) ?f (tasks s)) t s = Inr ()"
        and l: "logged a (t_id y) ''task.updated'' (s\<lparr>tasks := update_where (\<lambda>x. t_id x = t_id y) ?f (tasks s)\<rparr>) s'"
        by (auto simp: task_edited_def Let_def split: if_splits)
      obtain z where z: "z \<in> set (tasks s)" "t' = (if t_id z = t_id y then ?f z else z)"
        using c(2) logged_tables(7) [OF l] by (auto simp: in_update_where)
      have "z = y" if "t_id z = t_id y"
        using db_okD(5) [OF ok] z(1) y that by (auto simp: tasks_ok_def task_locked_def intro: distinct_map_eq [of t_id])
      with z f task_full_clean_D [OF f(2)] show ?thesis by (auto simp: row_valid_def)
    qed (use c(2) in simp)
  qed
  show "restatused env s s'" if "assign_task env a pid wid tid m s = Inr (x, s')"
    using that by (rule assign_task_D) (auto dest!: logged_tables(7) notified_tables(7) intro!: restatusedI)
  show "restatused env s s'" if "start_task env a pid wid tid s = Inr (t, s')"
    using that by (rule start_task_D) (drule logged_tables(7), rule restatusedI, simp)
  show "restatused env s s'" if "submit_deliverable env a pid wid tid url s = Inr (d, s')"
    using that by (rule submit_deliverable_D) (auto dest!: logged_tables(7) notified_tables(7) intro!: restatusedI)
  show "restatused env s s'" if "review_deliverable env a pid wid tid did rst c s = Inr (r, s')"
    using that by (rule review_deliverable_D) (auto dest!: logged_tables(7) notified_tables(7) intro!: restatusedI)
qed

lemma rows_unchanged: "task_tables s' = task_tables s \<Longrightarrow> t' \<in> set (tasks s') \<Longrightarrow> t' \<in> set (tasks s)"
  by (simp add: task_tables_def)

lemma rows_after:
  assumes "db_ok s" "exec env c s = Inr s'" "t' \<in> set (tasks s')"
  shows "row_valid s t' \<or> (\<exists>t\<in>set (tasks s). t_workspace t' = t_workspace t
    \<and> t_title t' = t_title t \<and> t_created_by t' = t_created_by t)"
proof -
  consider "row_valid s t' \<or> t' \<in> set (tasks s)" | "restatused env s s'"
    using assms(2)
    by (cases c) (auto dest!: approve_is_review request_changes_is_review
        dest: rows_task_services(1,2) [OF _ assms(3)] rows_task_services(3-6) task_tables_unchanged [THEN rows_unchanged, OF _ assms(3)]
          invitation_services_effect [THEN task_tables_invitations [OF _ assms(1)], THEN rows_unchanged, OF _ assms(3)]
        intro: assms(1))
  then show ?thesis using assms(3) rows_status by cases (auto simp: restatused_def)
qed

lemma rows_valid_exec:
  assumes "db_ok s" "rows_valid s" "exec env c s = Inr s'"
  shows "rows_valid s'"
  using rows_valid_grow [OF assms(2) references_exec [OF assms(1,3)]] rows_after [OF assms(1,3)] by blast

interpretation rows: dependent_invariant db_ok rows_valid
  by unfold_locales (use rows_valid_exec in \<open>auto simp: initial_def rows_valid_def\<close>)

subsection \<open>Single services\<close>

definition startable :: "db \<Rightarrow> uuid \<Rightarrow> uuid \<Rightarrow> uuid \<Rightarrow> bool" where
  "startable s u i k \<longleftrightarrow> ws_active s i
     \<and> (\<exists>t\<in>set (tasks s). t_id t = k \<and> t_workspace t = i \<and> t_status t = TS_ASSIGNED)
     \<and> (\<exists>x\<in>set (assignments s). ta_task x = k \<and> ta_user x = u \<and> ta_is_active x)"

lemma started_authority:
  assumes "start_task env u (Val p) (Val i) tid s = Inr (t', s')"
  shows "has_authority s u p i (Assigned WR_MEMBER) \<and> profile_active p s"
  using assms
proof (rule start_task_D)
  fix w q t
  assume "task_locked u (Val p) (Val i) tid s (Assigned WR_MEMBER) w q t"
  then have "locked u (Val p) (Val i) s (Assigned WR_MEMBER) w q" unfolding task_locked_def by blast
  then show ?thesis unfolding locked_def by blast
qed

lemma started_D:
  assumes ok: "db_ok s" and a: "has_authority s u p i a"
    and c: "start_task env u (Val p) (Val i) (Val k) s = Inr (t', s')"
  shows "a = Assigned WR_MEMBER \<and> startable s u i k \<and> e_uuid env 0 \<notin> al_id ` set (audit_logs s)"
proof -
  have "a = Assigned WR_MEMBER \<and> startable s u i k"
    using c
  proof (rule start_task_D)
    fix w q t x
    assume t: "task_locked u (Val p) (Val i) (Val k) s (Assigned WR_MEMBER) w q t" "t_status t = TS_ASSIGNED"
      and x: "x \<in> set (assignments s)" "ta_task x = t_id t" "ta_user x = u" "ta_is_active x"
    have l: "locked u (Val p) (Val i) s (Assigned WR_MEMBER) w q" "ws_active s (w_id w)" "t \<in> set (tasks s)"
      "k = t_id t" "t_workspace t = w_id w"
      using t(1) unfolding task_locked_def by simp_all
    then have i: "has_authority s u p i (Assigned WR_MEMBER)" "i = w_id w" unfolding locked_def by simp_all
    then have "a = Assigned WR_MEMBER" using has_authority_unique [OF ok a] by blast
    with l t(2) x i(2) show ?thesis by (auto simp: startable_def)
  qed
  moreover have "e_uuid env 0 \<notin> al_id ` set (audit_logs s)"
    using c by (auto simp: start_task_def save_task_status_def write_tasks_def write_task_audit_def
        write_audit_def write_audit_logs_def audit_logs_ok_def Let_def split: if_splits)
  ultimately show ?thesis by simp
qed

lemma status_save_ok:
  assumes re: "reachable s" and t: "t \<in> set (tasks s)"
  shows "save_task_status env t st s = Inr (s\<lparr>tasks := status_rows env t st (tasks s)\<rparr>)"
proof -
  have ok: "db_ok s" "hierarchy_ok (tasks s)" "row_valid s t"
    using hierarchy.both.always [OF re] rows.both.always [OF re] t by (simp_all add: rows_valid_def)
  have d: "distinct (map t_id (tasks s))" and np: "\<forall>x\<in>set (tasks s). t_parent x \<noteq> Some (t_id x)"
    using db_okD(5) [OF ok(1)] by (simp_all add: tasks_ok_def)
  have "tasks_ok (status_rows env t st (tasks s))"
    using d np unfolding tasks_ok_def status_rows_def
    by (auto simp: map_update_where in_update_where split: if_splits) metis
  moreover have "task_clean False (set_status env st t) s = Inr ()"
    using stored_task_clean [OF d ok(2) t] by simp
  moreover have "case t_parent t of None \<Rightarrow> True | Some p \<Rightarrow> task_exists p s"
  proof (cases "t_parent t")
    case (Some p)
    obtain n where "chain (tasks s) t n" using ok(2) t by (auto simp: hierarchy_ok_def)
    then show ?thesis using Some by (cases rule: chain.cases) (auto simp: task_exists_def dest: chain_in)
  qed simp
  ultimately show ?thesis using ok(3)
    by (simp add: save_task_status_def task_full_clean_def row_valid_def unique_checks_def write_tasks_def
        status_rows_def Let_def)
qed

lemma start_succeeds:
  assumes re: "reachable s" and a: "has_authority s u p i (Assigned WR_MEMBER)" "profile_active p s"
    and st: "startable s u i k" and fresh: "e_uuid env 0 \<notin> al_id ` set (audit_logs s)"
  shows "\<exists>t' s'. start_task env u (Val p) (Val i) (Val k) s = Inr (t', s')"
proof -
  have ok: "db_ok s" using constraints.always [OF re] .
  obtain t x where t: "t \<in> set (tasks s)" "t_id t = k" "t_workspace t = i" "t_status t = TS_ASSIGNED"
    and x: "x \<in> set (assignments s)" "ta_task x = k" "ta_user x = u" "ta_is_active x"
    using st by (auto simp: startable_def)
  obtain wc w m where l: "lock_workspace_mutation_context u (Val p) (Val i) s = Inr (wc, w, m)"
    and c: "context_authority wc = Some (Assigned WR_MEMBER)" by (rule lock_I [OF ok a])
  note L = lock_D [OF l]
  have "has_active_workspace_state wc s"
    using L(2,3,7,14) st by (simp add: active_state_iff [OF ok] startable_def)
  then have ex: "can_execute_workspace_tasks wc s"
    using c by (simp add: can_execute_workspace_tasks_def context_authority_Assigned)
  have d: "distinct (map t_id (tasks s))" using db_okD(5) [OF ok] by (simp add: tasks_ok_def)
  have "first_by t_id (\<lambda>y. t_id y = k \<and> t_workspace y = w_id w) (tasks s) = Some t"
    using t L(3,5) distinct_map_eq [OF d] by (intro first_by_unique) auto
  then have lt: "lock_task w (Val k) s = Inr t" by (simp add: lock_task_def)
  obtain z where "first_by ta_id (\<lambda>a. ta_task a = t_id t \<and> ta_user a = u \<and> ta_is_active a) (assignments s) = Some z"
    using first_by_ex [of x "assignments s" "\<lambda>a. ta_task a = t_id t \<and> ta_user a = u \<and> ta_is_active a" ta_id] x t
    by auto
  then have la: "lock_current_editor_assignment t u s = Inr z" by (simp add: lock_current_editor_assignment_def)
  have au: "audit_logs_ok (audit_logs s @ [e])" if "al_id e = e_uuid env 0" for e
    using db_okD(11) [OF ok] fresh that by (simp add: audit_logs_ok_def)
  show ?thesis
    using l ex lt la t(4) au
    by (simp add: start_task_def status_save_ok [OF re t(1)] write_task_audit_def write_audit_def
        write_audit_logs_def Let_def)
qed

text \<open>
  C30. Who can start a Task, and that they can. For a user with authority over the Workspace of an
  active Profile in a reachable database, starting succeeds exactly when the user is an Editor of
  the active Workspace, the Task is one of it, assigned, the user is its active assignee, and the
  identifier drawn for the record is fresh: no other check of the save can fail.
\<close>

theorem start_task_iff:
  assumes "reachable s" "has_authority s u p i a" "profile_active p s"
  shows "(\<exists>t' s'. start_task env u (Val p) (Val i) (Val k) s = Inr (t', s'))
    \<longleftrightarrow> a = Assigned WR_MEMBER \<and> ws_active s i
      \<and> (\<exists>t\<in>set (tasks s). t_id t = k \<and> t_workspace t = i \<and> t_status t = TS_ASSIGNED)
      \<and> (\<exists>x\<in>set (assignments s). ta_task x = k \<and> ta_user x = u \<and> ta_is_active x)
      \<and> e_uuid env 0 \<notin> al_id ` set (audit_logs s)"
  using started_D [OF constraints.always [OF assms(1)] assms(2)] start_succeeds [OF assms(1) _ assms(3)] assms(2)
  unfolding startable_def by blast

lemma start_task_iff_witness:
  "\<exists>s t. reachable s \<and> t \<in> set (tasks s) \<and> t_id t = 8000 \<and> t_status t = TS_ASSIGNED
     \<and> (\<exists>x\<in>set (assignments s). ta_task x = 8000 \<and> ta_user x = 3 \<and> ta_is_active x)"
proof -
  obtain s s' where re: "reachable s" and ex: "exec (fst (story ! 9)) (snd (story ! 9)) s = Inr s'"
    by (rule story_at [of 9]) simp_all
  from ex obtain t' where st: "start_task (env_at 10) 3 (Val 1000) (Val 2000) (Val 8000) s = Inr (t', s')"
    by (auto simp: story_def)
  have "has_authority s 3 1000 2000 (Assigned WR_MEMBER)" "profile_active 1000 s"
    using started_authority [OF st] by blast+
  from start_task_iff [OF re this, of "env_at 10" 8000] st re show ?thesis by blast
qed

lemma latest_revision_bounds:
  assumes "deliverables_ok (deliverables s)"
  shows "0 \<le> latest_revision t s"
    "x \<in> set (deliverables s) \<Longrightarrow> d_task x = t \<Longrightarrow> d_revision x = Some r \<Longrightarrow> r \<le> latest_revision t s"
    "latest_revision t s = 0 \<or> (\<exists>x\<in>set (deliverables s). d_task x = t \<and> d_revision x = Some (latest_revision t s))"
proof -
  have pos: "1 \<le> r" if "x \<in> set (deliverables s)" "d_revision x = Some r" for x r
    using assms that by (fastforce simp: deliverables_ok_def)
  let ?f = "first_by (\<lambda>d. - the (d_revision d)) (\<lambda>d. d_task d = t \<and> d_revision d \<noteq> None) (deliverables s)"
  show "0 \<le> latest_revision t s"
    using pos first_by_Some_in by (fastforce simp: latest_revision_def split: option.split)
  show "latest_revision t s = 0 \<or> (\<exists>x\<in>set (deliverables s). d_task x = t \<and> d_revision x = Some (latest_revision t s))"
    using first_by_Some_in by (fastforce simp: latest_revision_def split: option.split)
  show "r \<le> latest_revision t s" if x: "x \<in> set (deliverables s)" "d_task x = t" "d_revision x = Some r"
  proof (cases ?f)
    case None
    with x show ?thesis by simp
  next
    case (Some y)
    from first_by_Some_least [OF Some x(1)] x have "- the (d_revision y) \<le> - r" by simp
    with Some show ?thesis by (simp add: latest_revision_def)
  qed
qed

text \<open>
  Deliverables are numbered without gaps. A submission gets the number after the largest one
  of its Task, starting at one and within the range of a positive database integer; all earlier
  Deliverables of the Task are decided by then, and the new one is the submitter's.
\<close>

theorem submission_numbered:
  assumes "db_ok s" "submit_deliverable env a pid wid tid url s = Inr (d, s')"
  shows "\<exists>n. d_revision d = Some n \<and> 1 \<le> n \<and> n \<le> 2147483647
    \<and> (\<forall>x\<in>set (deliverables s). d_task x = d_task d \<longrightarrow> \<not> unresolved x
         \<and> (\<forall>r. d_revision x = Some r \<longrightarrow> r < n))
    \<and> (n = 1 \<or> (\<exists>x\<in>set (deliverables s). d_task x = d_task d \<and> d_revision x = Some (n - 1)))
    \<and> d \<in> set (deliverables s') \<and> d_status d = DS_SUBMITTED \<and> d_uploaded_by d = a \<and> tid = Val (d_task d)"
  using assms(2)
proof (rule submit_deliverable_D)
  fix w p t x s2 s3
  assume t: "task_locked a pid wid tid s (Assigned WR_MEMBER) w p t"
    and un: "\<And>x. x \<in> set (deliverables s) \<Longrightarrow> d_task x = t_id t \<Longrightarrow> d_status x \<in> {DS_APPROVED, DS_REJECTED}"
    and d: "d = new_deliverable env (t_id t) url a (latest_revision (t_id t) s + 1)"
    and s2: "s2 = s\<lparr>deliverables := deliverables s @ [d], tasks := status_rows env t TS_REVIEW (tasks s)\<rparr>"
    and l: "logged a (d_id d) ''task.deliverable.submitted'' s2 s3"
    and n: "notified (e_uuid env 1) REVIEW_SUBMITTED (t_id t) (event_users a (w_id w) s) s3 s'"
  note R = latest_revision_bounds [OF db_okD(8) [OF assms(1)], where t = "t_id t"]
  have f: "d_task d = t_id t" "d_revision d = Some (latest_revision (t_id t) s + 1)"
    "d_status d = DS_SUBMITTED" "d_uploaded_by d = a"
    by (simp_all add: d new_deliverable_def)
  obtain rows where "deliverable_full_clean rows d s = Inr ()"
    using assms(2) by (auto simp: submit_deliverable_def Let_def)
  then have "latest_revision (t_id t) s + 1 \<le> 2147483647"
    using f(2) by (simp add: deliverable_full_clean_def max_integer_def)
  moreover have "d \<in> set (deliverables s')"
    using logged_tables(10) [OF l] notified_tables(10) [OF n] s2 by simp
  moreover have "\<not> unresolved x" if "x \<in> set (deliverables s)" "d_task x = t_id t" for x
    using un [OF that] by (auto simp: unresolved_def)
  moreover have "tid = Val (t_id t)" using t by (simp add: task_locked_def)
  ultimately show ?thesis
    using R f by (intro exI [of _ "latest_revision (t_id t) s + 1"]) fastforce
qed

lemma submission_numbered_witness:
  "\<exists>s d s'. reachable s \<and> submit_deliverable (env_at 11) 3 (Val 1000) (Val 2000) (Val 8000)
       (Some [104, 116, 116, 112, 58, 47, 47, 120, 46, 121]) s = Inr (d, s')
     \<and> (\<exists>n. d_revision d = Some n \<and> 1 \<le> n) \<and> d \<in> set (deliverables s')"
proof -
  obtain s s' where s: "reachable s" "exec (fst (story ! 10)) (snd (story ! 10)) s = Inr s'"
    by (rule story_at [of 10]) simp_all
  then obtain d where d: "submit_deliverable (env_at 11) 3 (Val 1000) (Val 2000) (Val 8000)
      (Some [104, 116, 116, 112, 58, 47, 47, 120, 46, 121]) s = Inr (d, s')"
    by (auto simp: story_def)
  from submission_numbered [OF constraints.always [OF s(1)] d] s(1) d show ?thesis by blast
qed

end
