(* ===== verification/Record_Theorems.thy ===== *)
theory Record_Theorems
  imports Tenant_Theorems
begin

text \<open>
  Properties of comments and notifications: who is notified and what they can still see, who may
  change a comment and what a stored comment looks like.
\<close>

subsection \<open>Frames\<close>

definition note_tables where
  "note_tables s = (comments s, notifications s)"

lemma note_logged: "logged a i act s s' \<Longrightarrow> note_tables s' = note_tables s"
  using logged_tables [of a i act s s'] by (simp add: note_tables_def)

lemma note_updates [simp]:
  "note_tables (s\<lparr>profiles := ps\<rparr>) = note_tables s"
  "note_tables (s\<lparr>memberships := pms\<rparr>) = note_tables s"
  "note_tables (s\<lparr>workspaces := ws\<rparr>) = note_tables s"
  "note_tables (s\<lparr>members := wms\<rparr>) = note_tables s"
  "note_tables (s\<lparr>tasks := ts\<rparr>) = note_tables s"
  by (simp_all add: note_tables_def)

lemma note_task_edited: "task_edited a t edit t' s s' \<Longrightarrow> note_tables s' = note_tables s"
  by (auto simp: task_edited_def Let_def dest: note_logged split: if_splits)

lemma note_membership_saved: "membership_saved env a m r b m' s s' \<Longrightarrow> note_tables s' = note_tables s"
  by (auto simp: membership_saved_def Let_def dest: note_logged split: if_splits)

lemma note_member_updated: "member_updated a act y f s s' \<Longrightarrow> note_tables s' = note_tables s"
  by (auto simp: member_updated_def Let_def dest: note_logged)

lemma note_member_assigned: "member_assigned env a w r u x re s s' \<Longrightarrow> note_tables s' = note_tables s"
  by (auto simp: member_assigned_def dest: note_member_updated note_logged split: if_splits)

lemma note_profile_services:
  "create_profile_with_owner env name owner act s = Inr (p, s') \<Longrightarrow> note_tables s' = note_tables s"
  "set_profile_status env a pid st s = Inr (p, s') \<Longrightarrow> note_tables s' = note_tables s"
  "update_profile_membership env a pid mid r b s = Inr (m, s') \<Longrightarrow> note_tables s' = note_tables s"
  "create_workspace env a pid name' d descr s = Inr (w, s') \<Longrightarrow> note_tables s' = note_tables s"
  "update_workspace env a pid wid name'' descr' s = Inr (w, s') \<Longrightarrow> note_tables s' = note_tables s"
  "set_workspace_status env a pid wid ws s = Inr (w, s') \<Longrightarrow> note_tables s' = note_tables s"
proof -
  show "note_tables s' = note_tables s" if "create_profile_with_owner env name owner act s = Inr (p, s')"
    using create_profile_D [OF that] by (auto dest: note_logged)
  show "note_tables s' = note_tables s" if "set_profile_status env a pid st s = Inr (p, s')"
    using set_profile_status_D [OF that] by (auto simp: Let_def dest: note_logged split: if_splits)
  show "note_tables s' = note_tables s" if "update_profile_membership env a pid mid r b s = Inr (m, s')"
    using that by (rule update_profile_membership_E) (rule note_membership_saved)
  show "note_tables s' = note_tables s" if "create_workspace env a pid name' d descr s = Inr (w, s')"
    using create_workspace_D [OF that] by (auto dest: note_logged)
  show "note_tables s' = note_tables s" if "update_workspace env a pid wid name'' descr' s = Inr (w, s')"
    using that by (rule update_workspace_D) (auto simp: Let_def dest: note_logged split: if_splits)
  show "note_tables s' = note_tables s" if "set_workspace_status env a pid wid ws s = Inr (w, s')"
    using that by (rule set_workspace_status_D) (auto simp: Let_def dest: note_logged split: if_splits)
qed

lemma note_member_services:
  "add_workspace_member env a pid wid mid r s = Inr (m, s') \<Longrightarrow> note_tables s' = note_tables s"
  "update_workspace_member env a pid wid mid r s = Inr (x, s') \<Longrightarrow> note_tables s' = note_tables s"
  "revoke_workspace_member env a pid wid mid s = Inr (x, s') \<Longrightarrow> note_tables s' = note_tables s"
proof -
  show "note_tables s' = note_tables s" if "add_workspace_member env a pid wid mid r s = Inr (m, s')"
  proof (cases m)
    case (Pair x re)
    with that show ?thesis by (auto elim!: add_workspace_member_D dest: note_member_assigned)
  qed
  show "note_tables s' = note_tables s" if "update_workspace_member env a pid wid mid r s = Inr (x, s')"
    using that by (rule update_workspace_member_D) (auto split: if_splits dest: note_member_updated)
  show "note_tables s' = note_tables s" if "revoke_workspace_member env a pid wid mid s = Inr (x, s')"
    using that by (rule revoke_workspace_member_D) (rule note_member_updated)
qed

lemma note_quiet_tasks:
  "create_task env a pid wid ti de pr dl par s = Inr (t, s') \<Longrightarrow> note_tables s' = note_tables s"
  "update_task env a pid wid tid ti' de' pr' dl' par' s = Inr (t, s') \<Longrightarrow> note_tables s' = note_tables s"
  "start_task env a pid wid tid s = Inr (t, s') \<Longrightarrow> note_tables s' = note_tables s"
proof -
  show "note_tables s' = note_tables s" if "create_task env a pid wid ti de pr dl par s = Inr (t, s')"
    using that by (rule create_task_D) (auto dest: note_logged)
  show "note_tables s' = note_tables s" if "update_task env a pid wid tid ti' de' pr' dl' par' s = Inr (t, s')"
    using that by (rule update_task_D) (rule note_task_edited)
  show "note_tables s' = note_tables s" if "start_task env a pid wid tid s = Inr (t, s')"
    using that by (rule start_task_D) (auto dest: note_logged)
qed

lemma note_invitations: "invitation_effect a s s' \<Longrightarrow> db_ok s \<Longrightarrow> note_tables s' = note_tables s"
  using effect_core [of a s s'] by (simp add: core_tables_def note_tables_def)

lemmas note_unchanged = note_profile_services note_member_services note_quiet_tasks

subsection \<open>Notifications\<close>

text \<open>A new notification about Task \<open>t\<close>: unread, for another user who can read its Workspace.\<close>

definition rightly_notified :: "uuid \<Rightarrow> db \<Rightarrow> notification \<Rightarrow> bool" where
  "rightly_notified a s n \<longleftrightarrow> \<not> n_is_read n \<and> n_user n \<noteq> a
     \<and> (\<exists>t\<in>set (tasks s). \<exists>p r. n_task n = Some (t_id t) \<and> workspace_profile (t_workspace t) s = Some p
          \<and> has_authority s (n_user n) p (t_workspace t) r)"

definition notification_kept :: "uuid option \<Rightarrow> db \<Rightarrow> notification \<Rightarrow> bool" where
  "notification_kept actor s n' \<longleftrightarrow> (\<exists>n\<in>set (notifications s). n' = n
     \<or> (actor = Some (n_user n) \<and> (\<exists>now. n' = n\<lparr>n_is_read := True, n_updated_at := now\<rparr>)))"

lemma notified_rightly:
  assumes n: "notified e et (t_id t) (event_users a w s) s4 s'" and t: "t \<in> set (tasks s)" "t_workspace t = w"
    and s4: "notifications s4 = notifications s" and x: "x \<in> set (notifications s')"
  shows "x \<in> set (notifications s) \<or> rightly_notified a s x"
proof -
  obtain new where "notifications s' = notifications s @ new"
    "\<forall>n\<in>set new. n_user n \<in> event_users a w s \<and> n_task n = Some (t_id t) \<and> \<not> n_is_read n"
    using n s4 by (auto simp: notified_def)
  with x t show ?thesis by (auto simp: rightly_notified_def event_users_def)
qed

lemma notifying_services:
  assumes x: "x \<in> set (notifications s')"
  shows "assign_task env a pid wid tid m s = Inr (y, s') \<Longrightarrow> x \<in> set (notifications s) \<or> rightly_notified a s x"
    "submit_deliverable env a pid wid tid url s = Inr (d, s') \<Longrightarrow> x \<in> set (notifications s) \<or> rightly_notified a s x"
    "review_deliverable env a pid wid tid did rst c s = Inr (r, s') \<Longrightarrow> x \<in> set (notifications s) \<or> rightly_notified a s x"
    "create_comment env a pid wid tid txt s = Inr (z, s') \<Longrightarrow> db_ok s \<Longrightarrow> x \<in> set (notifications s) \<or> rightly_notified a s x"
proof -
  show "x \<in> set (notifications s) \<or> rightly_notified a s x" if "assign_task env a pid wid tid m s = Inr (y, s')"
    using that
  proof (rule assign_task_D)
    fix au w p t mm active s3 s4 k
    assume t: "task_locked a pid wid tid s au w p t"
      and s3: "s3 = s\<lparr>assignments := taken_rows env (t_id t) (pm_user mm) (released_rows env active (assignments s)),
       tasks := status_rows env t TS_ASSIGNED (tasks s)\<rparr>"
      and l: "logged a (ta_id y) (if active = None then ''task.assigned'' else ''task.reassigned'') s3 s4"
      and n: "notified (e_uuid env k) TASK_ASSIGNED (t_id t) (event_users a (w_id w) s) s4 s'"
    have "t \<in> set (tasks s)" "t_workspace t = w_id w" using t by (simp_all add: task_locked_def)
    moreover have "notifications s4 = notifications s" using logged_tables(12) [OF l] s3 by simp
    ultimately show ?thesis using notified_rightly [OF n _ _ _ x] by blast
  qed
  show "x \<in> set (notifications s) \<or> rightly_notified a s x" if "submit_deliverable env a pid wid tid url s = Inr (d, s')"
    using that
  proof (rule submit_deliverable_D)
    fix w p t q s2 s3
    assume t: "task_locked a pid wid tid s (Assigned WR_MEMBER) w p t"
      and s2: "s2 = s\<lparr>deliverables := deliverables s @ [d], tasks := status_rows env t TS_REVIEW (tasks s)\<rparr>"
      and l: "logged a (d_id d) ''task.deliverable.submitted'' s2 s3"
      and n: "notified (e_uuid env 1) REVIEW_SUBMITTED (t_id t) (event_users a (w_id w) s) s3 s'"
    have "t \<in> set (tasks s)" "t_workspace t = w_id w" using t by (simp_all add: task_locked_def)
    moreover have "notifications s3 = notifications s" using logged_tables(12) [OF l] s2 by simp
    ultimately show ?thesis using notified_rightly [OF n _ _ _ x] by blast
  qed
  show "x \<in> set (notifications s) \<or> rightly_notified a s x"
    if "review_deliverable env a pid wid tid did rst c s = Inr (r, s')"
    using that
  proof (rule review_deliverable_D)
    fix au w p t y dst tst action et s3 s4
    assume t: "task_locked a pid wid tid s au w p t"
      and s3: "s3 = s\<lparr>reviews := reviews s @ [r],
         deliverables := update_where (\<lambda>x. d_id x = d_id y) (decide_deliverable env dst) (deliverables s),
         tasks := status_rows env t tst (tasks s)\<rparr>"
      and l: "logged a (r_id r) action s3 s4"
      and n: "notified (e_uuid env 1) et (t_id t) (event_users a (w_id w) s) s4 s'"
    have "t \<in> set (tasks s)" "t_workspace t = w_id w" using t by (simp_all add: task_locked_def)
    moreover have "notifications s4 = notifications s" using logged_tables(12) [OF l] s3 by simp
    ultimately show ?thesis using notified_rightly [OF n _ _ _ x] by blast
  qed
  show "x \<in> set (notifications s) \<or> rightly_notified a s x"
    if "create_comment env a pid wid tid txt s = Inr (z, s')" "db_ok s"
    using that(1)
  proof (rule create_comment_D)
    fix au w p t body s1 s2
    assume s1: "s1 = s\<lparr>comments := comments s @ [z]\<rparr>"
      and l: "logged a (tc_id z) ''task.comment.created'' s1 s2"
      and n: "\<exists>t'\<in>set (tasks s). t_id t' = t_id t
       \<and> notified (e_uuid env 1) TASK_COMMENTED (t_id t) (event_users a (t_workspace t') s) s2 s'"
    from n obtain t' where "t' \<in> set (tasks s)"
      "notified (e_uuid env 1) TASK_COMMENTED (t_id t') (event_users a (t_workspace t') s) s2 s'" by metis
    moreover have "notifications s2 = notifications s" using logged_tables(12) [OF l] s1 by simp
    ultimately show ?thesis using notified_rightly [OF _ _ refl _ x] by blast
  qed
qed

lemma marked_kept:
  assumes c: "mark_notification_read env a nid s = Inr (y, s')" and x: "x \<in> set (notifications s')" and ok: "db_ok s"
  shows "notification_kept (Some a) s x"
  using c
proof (rule mark_notification_read_D)
  fix n
  let ?f = "\<lambda>x. x\<lparr>n_is_read := True, n_updated_at := e_now env\<rparr>"
  assume n: "n \<in> set (notifications s)" "n_user n = a"
    and r: "if n_is_read n then y = n \<and> s' = s
     else y = n\<lparr>n_is_read := True, n_updated_at := e_now env\<rparr>
       \<and> (let rows = update_where (\<lambda>x. n_id x = n_id n) ?f (notifications s) in
          notifications_ok rows \<and> s' = s\<lparr>notifications := rows\<rparr>)"
  show ?thesis
  proof (cases "n_is_read n")
    case True
    with r x show ?thesis by (auto simp: notification_kept_def)
  next
    case False
    with r x obtain z where z: "z \<in> set (notifications s)" "x = (if n_id z = n_id n then ?f z else z)"
      by (auto simp: Let_def in_update_where)
    have "z = n" if "n_id z = n_id n"
      using db_okD(10) [OF ok] z(1) n(1) that by (auto simp: notifications_ok_def intro: distinct_map_eq [of n_id])
    with z n show ?thesis unfolding notification_kept_def by auto
  qed
qed

lemma replaced_notifications: "comment_replaced a act c f s s' \<Longrightarrow> notifications s' = notifications s"
  by (auto simp: comment_replaced_def Let_def dest: logged_tables(12))

lemma comment_services_notifications:
  "update_comment env a pid wid tid cid txt s = Inr (c, s') \<Longrightarrow> notifications s' = notifications s"
  "delete_comment env a pid wid tid cid s = Inr (c, s') \<Longrightarrow> notifications s' = notifications s"
proof -
  show "notifications s' = notifications s" if "update_comment env a pid wid tid cid txt s = Inr (c, s')"
    using that by (rule update_comment_D) (auto split: if_splits dest: replaced_notifications)
  show "notifications s' = notifications s" if "delete_comment env a pid wid tid cid s = Inr (c, s')"
    using that by (rule delete_comment_D) (auto split: if_splits dest: replaced_notifications)
qed

lemma kept_same: "x \<in> set (notifications s) \<Longrightarrow> notification_kept a s x"
  by (auto simp: notification_kept_def)

lemma kept_equal: "notifications s' = notifications s \<Longrightarrow> x \<in> set (notifications s') \<Longrightarrow> notification_kept a s x"
  by (simp add: kept_same)

lemma kept_unchanged: "note_tables s' = note_tables s \<Longrightarrow> x \<in> set (notifications s') \<Longrightarrow> notification_kept a s x"
  by (simp add: note_tables_def kept_same)

text \<open>
  C34. Notifications reach other readers only. After any command, a notification was there before,
  unchanged but for a read mark its own recipient set, or it is new, unread, about a Task, and for
  a user other than the command's actor who, at that moment, has authority over the Task's
  Workspace: no event leaks to somebody who cannot read its subject.
\<close>

theorem notifications_reach_readers:
  assumes "db_ok s" "exec env c s = Inr s'" "n \<in> set (notifications s')"
  shows "notification_kept (actor_of c) s n \<or> (\<exists>a. actor_of c = Some a \<and> rightly_notified a s n)"
  using assms(2)
  by (cases c) (auto dest!: approve_is_review request_changes_is_review
      dest: notifying_services [OF assms(3)] marked_kept [OF _ assms(3,1)] comment_services_notifications [THEN kept_equal, OF _ assms(3)]
        note_unchanged [THEN kept_unchanged [OF _ assms(3)]]
        invitation_services_effect [THEN note_invitations [OF _ assms(1)], THEN kept_unchanged [OF _ assms(3)]]
      intro: kept_same assms(1,3))

lemma ex_assigned: "case assign_task ex_env 1 (Val 10) (Val 20) (Val 30) (Val 103) ex_db of
    Inl e \<Rightarrow> False | Inr x \<Rightarrow> map n_user (notifications (snd x)) = [3]"
  by (simp add: evals ex_db_def holds_ws_role_def)

lemma notifications_reach_readers_witness:
  "\<exists>s' n. exec ex_env (AssignTask 1 (Val 10) (Val 20) (Val 30) (Val 103)) ex_db = Inr s'
     \<and> n \<in> set (notifications s') \<and> n_user n = 3 \<and> rightly_notified 1 ex_db n"
proof -
  obtain s' where s': "exec ex_env (AssignTask 1 (Val 10) (Val 20) (Val 30) (Val 103)) ex_db = Inr s'"
    "map n_user (notifications s') = [3]"
    using ex_assigned by (cases "assign_task ex_env 1 (Val 10) (Val 20) (Val 30) (Val 103) ex_db") auto
  then obtain n where n: "n \<in> set (notifications s')" "n_user n = 3" by (auto simp: map_eq_Cons_conv)
  have "notifications ex_db = []" by (simp add: ex_db_def)
  then have "\<not> notification_kept (Some 1) ex_db n" by (simp add: notification_kept_def)
  with notifications_reach_readers [OF ex_db_ok s'(1) n(1)] have "rightly_notified 1 ex_db n" by simp
  with s'(1) n show ?thesis by blast
qed

text \<open>
  The notification list follows current authority. What \<open>notifications_visible_to\<close> returns to a
  user is exactly their own Task notifications whose Task still is in the Workspace and Profile
  recorded and whose Workspace they can read at the moment of the query, by a role of now.
\<close>

theorem visible_notifications_iff:
  "n \<in> set (notifications_visible_to (Some u) s) \<longleftrightarrow> n \<in> set (notifications s) \<and> n_user n = u
     \<and> n_event_type n \<noteq> None \<and> n_event n \<noteq> None
     \<and> (\<exists>t\<in>set (tasks s). \<exists>p r. n_task n = Some (t_id t) \<and> n_workspace n = Some (t_workspace t)
          \<and> n_profile n = Some p \<and> has_authority s u p (t_workspace t) r)"
proof
  assume v: "n \<in> set (notifications_visible_to (Some u) s)"
  then obtain t w m where n: "n \<in> set (notifications s)" "n_user n = u" "n_event_type n \<noteq> None" "n_event n \<noteq> None"
    and t: "t \<in> set (tasks s)" "n_task n = Some (t_id t)" "n_workspace n = Some (t_workspace t)"
    and w: "w \<in> set (workspaces s)" "n_workspace n = Some (w_id w)" "w_profile w = n_profile n"
    and m: "m \<in> set (memberships s)" "Some (pm_profile m) = n_profile n" "pm_user m = u" "user_active s u"
      "pm_is_active m" "is_manager (pm_role m) \<or> pm_role m = PR_MEMBER
        \<and> (\<exists>wm\<in>set (members s). Some (wm_workspace wm) = n_workspace n \<and> wm_user wm = u
             \<and> wm_is_active wm \<and> is_assignable_role (wm_role wm))"
    unfolding notifications_visible_to_def option.case set_filter mem_Collect_eq by blast
  let ?p = "pm_profile m"
  have tn: "in_tenant s (t_workspace t) ?p" using w t(3) m(2) by (auto simp: in_tenant_def)
  have r: "m \<in> set (readable_memberships ?p (t_workspace t) s)"
    using m t(3) by (auto simp: readable_memberships_iff workspace_reader_def)
  obtain r where "has_authority s u ?p (t_workspace t) r" using reader_has_authority [OF r tn] m(3) by auto
  with n t m(2) show "n \<in> set (notifications s) \<and> n_user n = u \<and> n_event_type n \<noteq> None \<and> n_event n \<noteq> None
     \<and> (\<exists>t\<in>set (tasks s). \<exists>p r. n_task n = Some (t_id t) \<and> n_workspace n = Some (t_workspace t)
          \<and> n_profile n = Some p \<and> has_authority s u p (t_workspace t) r)" by metis
next
  assume "n \<in> set (notifications s) \<and> n_user n = u \<and> n_event_type n \<noteq> None \<and> n_event n \<noteq> None
     \<and> (\<exists>t\<in>set (tasks s). \<exists>p r. n_task n = Some (t_id t) \<and> n_workspace n = Some (t_workspace t)
          \<and> n_profile n = Some p \<and> has_authority s u p (t_workspace t) r)"
  then obtain t p r where n: "n \<in> set (notifications s)" "n_user n = u" "n_event_type n \<noteq> None" "n_event n \<noteq> None"
    and t: "t \<in> set (tasks s)" "n_task n = Some (t_id t)" "n_workspace n = Some (t_workspace t)" "n_profile n = Some p"
    and a: "has_authority s u p (t_workspace t) r" by blast
  obtain m where m: "m \<in> set (readable_memberships p (t_workspace t) s)" "pm_user m = u"
    using authority_reader [OF a] by blast
  obtain w where w: "w \<in> set (workspaces s)" "w_id w = t_workspace t" "w_profile w = Some p"
    using has_authority_in_tenant [OF a] by (auto simp: in_tenant_def)
  have tn: "\<exists>w\<in>set (workspaces s). n_workspace n = Some (w_id w) \<and> w_profile w = n_profile n"
    using w t by (intro bexI [of _ w]) auto
  have tt: "\<exists>t\<in>set (tasks s). n_task n = Some (t_id t) \<and> n_workspace n = Some (t_workspace t)"
    using t by (intro bexI [of _ t]) auto
  show "n \<in> set (notifications_visible_to (Some u) s)"
    unfolding notifications_visible_to_def option.case set_filter mem_Collect_eq
    using n(1) n(2) n(3) n(4) tn tt t(3) t(4) m
    by (auto simp: readable_memberships_iff workspace_reader_def)
qed

text \<open>What a call marking notification \<open>i\<close> for user \<open>a\<close> checks before it looks at the read flag.\<close>

definition read_gate :: "uuid \<Rightarrow> uuid \<Rightarrow> db \<Rightarrow> notification \<Rightarrow> bool" where
  "read_gate a i s n \<longleftrightarrow> first_by n_id (\<lambda>n. n_id n = i) (notifications_visible_to (Some a) s) = Some n
     \<and> (\<exists>p w pc wc. n_profile n = Some p \<and> n_workspace n = Some w \<and> profile_exists p s
          \<and> (\<exists>x\<in>set (workspaces s). w_id x = w \<and> w_profile x = Some p)
          \<and> resolve_profile_access_context (Some a) (Val p) s = Inr pc
          \<and> resolve_workspace_access_context pc (Val w) s = Inr wc)"

lemma mark_read_eq:
  "read_gate a i s n \<Longrightarrow> mark_notification_read env a (Val i) s =
     (if n_is_read n then Inr (n, s)
      else bindE (write_notifications (update_where (\<lambda>x. n_id x = n_id n)
          (\<lambda>x. x\<lparr>n_is_read := True, n_updated_at := e_now env\<rparr>) (notifications s)) s)
        (\<lambda>s1. Inr (n\<lparr>n_is_read := True, n_updated_at := e_now env\<rparr>, s1)))"
  unfolding read_gate_def by (elim conjE exE) (simp add: mark_notification_read_def)

lemma mark_read_gate:
  assumes "mark_notification_read env a nid s = Inr r"
  obtains i n where "nid = Val i" "read_gate a i s n"
  using assms unfolding mark_notification_read_def read_gate_def case_arg_eq_Inr require_some_eq_Inr
    require_eq_Inr bindE_eq_Inr by blast

lemma access_ignores_notifications [simp]:
  fixes s :: db and ns :: "notification list"
  defines "s1 \<equiv> s\<lparr>notifications := ns\<rparr>"
  shows "profile_exists p s1 = profile_exists p s"
    "resolve_profile_access_context u v s1 = resolve_profile_access_context u v s"
    "resolve_workspace_access_context pc w s1 = resolve_workspace_access_context pc w s"
proof -
  have rows: "user_active s1 x = user_active s x" "member_row_visible c y s1 = member_row_visible c y s"
    "member_role_row c y s1 = member_role_row c y s"
    "membership_join c r s1 = membership_join c r s" for x y c r
    by (simp_all add: evals s1_def)
  have tabs: "memberships s1 = memberships s" "workspaces s1 = workspaces s" by (simp_all add: s1_def)
  show "profile_exists p s1 = profile_exists p s" by (simp add: s1_def profile_exists_def)
  show "resolve_profile_access_context u v s1 = resolve_profile_access_context u v s"
    unfolding resolve_profile_access_context_def profiles_visible_to_def rows tabs ..
  have ws: "workspaces_visible_to_valid_context c s1 = workspaces_visible_to_valid_context c s" for c
    unfolding workspaces_visible_to_valid_context_def rows tabs ..
  show "resolve_workspace_access_context pc w s1 = resolve_workspace_access_context pc w s"
    unfolding resolve_workspace_access_context_def refresh_profile_access_context_def rows ws tabs ..
qed

abbreviation read_at :: "time \<Rightarrow> notification \<Rightarrow> notification" where
  "read_at now x \<equiv> x\<lparr>n_is_read := True, n_updated_at := now\<rparr>"

lemma gate_after_read:
  assumes ok: "notifications_ok (notifications s)" and g: "read_gate a i s n"
  shows "read_gate a i (s\<lparr>notifications := update_where (\<lambda>x. n_id x = n_id n) (read_at now) (notifications s)\<rparr>)
    (read_at now n)"
proof -
  let ?ns = "update_where (\<lambda>x. n_id x = n_id n) (read_at now) (notifications s)"
  let ?s = "s\<lparr>notifications := ?ns\<rparr>"
  have "first_by n_id (\<lambda>n. n_id n = i) (notifications_visible_to (Some a) s) = Some n"
    using g by (simp add: read_gate_def)
  from first_by_Some_in [OF this] have n: "n \<in> set (notifications_visible_to (Some a) s)" "n_id n = i" by auto
  have t: "same_tenancy s ?s" by (simp add: same_tenancy_def)
  have "read_at now n \<in> set ?ns"
    using n(1) unfolding visible_notifications_iff by (auto simp: in_update_where)
  with n(1) have fn: "read_at now n \<in> set (notifications_visible_to (Some a) ?s)"
    unfolding visible_notifications_iff has_authority_frame [OF t] by simp
  have u: "y = read_at now n" if y: "y \<in> set (notifications_visible_to (Some a) ?s)" "n_id y = i" for y
  proof -
    have "y \<in> set ?ns" using y(1) unfolding visible_notifications_iff by simp
    then obtain z where z: "z \<in> set (notifications s)" "y = (if n_id z = n_id n then read_at now z else z)"
      by (auto simp: in_update_where)
    moreover have "n \<in> set (notifications s)" using n(1) unfolding visible_notifications_iff by simp
    ultimately have "z = n" using y(2) n(2) ok
      by (intro distinct_map_eq [of n_id "notifications s"]) (auto simp: notifications_ok_def split: if_splits)
    with z show ?thesis by simp
  qed
  have "first_by n_id (\<lambda>n. n_id n = i) (notifications_visible_to (Some a) ?s) = Some (read_at now n)"
    by (rule first_by_unique [OF fn _ u]) (simp_all add: n(2))
  moreover note g [unfolded read_gate_def, THEN conjunct2]
  ultimately show ?thesis unfolding read_gate_def by (intro conjI) simp_all
qed

text \<open>
  Marking as read is the recipient's own act and idempotent. A successful call returns a read
  row of the caller, who has authority over its Workspace; the database then holds that row, and
  repeating the call, at whatever later time, changes nothing and returns it again.
\<close>

theorem mark_read_idempotent:
  assumes "db_ok s" "mark_notification_read env a nid s = Inr (n, s')"
  shows "n_user n = a \<and> n_is_read n \<and> n \<in> set (notifications s')
    \<and> (\<exists>p w r. n_profile n = Some p \<and> n_workspace n = Some w \<and> has_authority s a p w r)
    \<and> mark_notification_read env' a nid s' = Inr (n, s')"
proof -
  obtain i m where i: "nid = Val i" and g: "read_gate a i s m" using assms(2) by (rule mark_read_gate)
  note r = assms(2) [unfolded i mark_read_eq [OF g]]
  have "first_by n_id (\<lambda>n. n_id n = i) (notifications_visible_to (Some a) s) = Some m"
    using g by (simp add: read_gate_def)
  then have m: "m \<in> set (notifications_visible_to (Some a) s)" by (auto dest: first_by_Some_in)
  have ok: "notifications_ok (notifications s)" using db_okD(10) [OF assms(1)] .
  have s': "read_gate a i s' n \<and> n_is_read n \<and> n \<in> set (notifications s')
    \<and> n_user n = n_user m \<and> n_profile n = n_profile m \<and> n_workspace n = n_workspace m"
  proof (cases "n_is_read m")
    case True
    with r g m show ?thesis by (auto simp: visible_notifications_iff)
  next
    case False
    with r have "n = read_at (e_now env) m"
      "s' = s\<lparr>notifications := update_where (\<lambda>x. n_id x = n_id m) (read_at (e_now env)) (notifications s)\<rparr>"
      by (auto simp: write_notifications_def split: if_splits)
    with gate_after_read [OF ok g] m show ?thesis by (auto simp: visible_notifications_iff in_update_where)
  qed
  then have "mark_notification_read env' a nid s' = Inr (n, s')" unfolding i
    by (simp add: mark_read_eq [of a i s' n])
  with s' m show ?thesis unfolding visible_notifications_iff by auto
qed

definition ex_notified :: db where
  "ex_notified = ex_db\<lparr>notifications := [new_notification ex_env 4 1 3 10 20 30 TASK_ASSIGNED]\<rparr>"

lemma ex_notified_ok: "db_ok ex_notified"
  unfolding ex_notified_def by (rule db_ok_updates [OF ex_db_ok]) (simp add: evals)

lemma ex_marks: "case mark_notification_read ex_env 3 (Val 904) ex_notified of
    Inl e \<Rightarrow> False | Inr x \<Rightarrow> n_id (fst x) = 904"
  by (simp add: evals ex_notified_def ex_db_def holds_ws_role_def)

lemma mark_read_idempotent_witness:
  "\<exists>n s'. mark_notification_read ex_env 3 (Val 904) ex_notified = Inr (n, s') \<and> n_is_read n \<and> n_user n = 3
     \<and> mark_notification_read (env_at 7) 3 (Val 904) s' = Inr (n, s')"
proof -
  obtain n s' where "mark_notification_read ex_env 3 (Val 904) ex_notified = Inr (n, s')"
    using ex_marks by (cases "mark_notification_read ex_env 3 (Val 904) ex_notified") auto
  with mark_read_idempotent [OF ex_notified_ok this, of "env_at 7"] show ?thesis by blast
qed

end
