(* ===== verification/Comment_Theorems.thy ===== *)
theory Comment_Theorems
  imports Record_Theorems
begin

text \<open>
  Properties of the comment table: who may change a comment and how, and the form every stored
  comment has.
\<close>

text \<open>
  What may happen to comment \<open>c\<close> in one command of \<open>actor\<close>: nothing; an edit of its text by its
  author while it is not deleted; or its deletion, which keeps the text, by its author or by someone
  who manages the Tasks of its Workspace.
\<close>

definition has_comment_form :: "ptext \<Rightarrow> bool" where
  "has_comment_form t \<longleftrightarrow> t \<noteq> [] \<and> strip t = t \<and> length t \<le> content_max_length \<and> utf8_encodable t \<and> 0 \<notin> set t"

definition moderates :: "db \<Rightarrow> uuid \<Rightarrow> task_comment \<Rightarrow> bool" where
  "moderates s u c \<longleftrightarrow> (\<exists>t\<in>set (tasks s). \<exists>p r. t_id t = tc_task c
     \<and> has_authority s u p (t_workspace t) r \<and> manages r)"

definition comment_step :: "uuid option \<Rightarrow> db \<Rightarrow> task_comment \<Rightarrow> task_comment \<Rightarrow> bool" where
  "comment_step actor s c c' \<longleftrightarrow> c' = c
     \<or> (tc_deleted_at c = None \<and> actor = Some (tc_user c)
        \<and> (\<exists>now body. has_comment_form body
             \<and> c' = c\<lparr>tc_content := body, tc_edited_at := Some now, tc_updated_at := now\<rparr>))
     \<or> (tc_deleted_at c = None \<and> (\<exists>u. actor = Some u \<and> (u = tc_user c \<or> moderates s u c))
        \<and> (\<exists>now. c' = c\<lparr>tc_deleted_at := Some now, tc_updated_at := now\<rparr>))"

definition comment_posted :: "uuid option \<Rightarrow> db \<Rightarrow> task_comment \<Rightarrow> bool" where
  "comment_posted actor s c \<longleftrightarrow> actor = Some (tc_user c) \<and> tc_edited_at c = None \<and> tc_deleted_at c = None
     \<and> has_comment_form (tc_content c)
     \<and> (\<exists>t\<in>set (tasks s). \<exists>p r. t_id t = tc_task c
          \<and> has_authority s (tc_user c) p (t_workspace t) r \<and> comments_allowed r)"

definition comments_follow :: "uuid option \<Rightarrow> db \<Rightarrow> db \<Rightarrow> bool" where
  "comments_follow actor s s' \<longleftrightarrow>
     (\<forall>c\<in>set (comments s). \<exists>c'\<in>set (comments s'). comment_step actor s c c')
     \<and> (\<forall>c'\<in>set (comments s'). (\<exists>c\<in>set (comments s). comment_step actor s c c') \<or> comment_posted actor s c')"

lemma comments_follow_same: "comments s' = comments s \<Longrightarrow> comments_follow a s s'"
  by (auto simp: comments_follow_def comment_step_def)

lemma comments_follow_append:
  "comments s' = comments s @ [c] \<Longrightarrow> comment_posted a s c \<Longrightarrow> comments_follow a s s'"
  by (auto simp: comments_follow_def comment_step_def)

lemma comments_follow_replaced:
  assumes r: "comment_replaced u action c f s s'" and ok: "db_ok s" and c: "c \<in> set (comments s)"
    and f: "comment_step a s c (f c)"
  shows "comments_follow a s s'"
proof -
  have s': "comments s' = update_where (\<lambda>x. tc_id x = tc_id c) f (comments s)"
    using r logged_tables(9) by (fastforce simp: comment_replaced_def Let_def)
  have st: "comment_step a s x (if tc_id x = tc_id c then f x else x)" if "x \<in> set (comments s)" for x
  proof (cases "tc_id x = tc_id c")
    case True
    with db_okD(7) [OF ok] that c have "x = c" by (auto simp: comments_ok_def intro: distinct_map_eq [of tc_id])
    with f show ?thesis by simp
  qed (simp add: comment_step_def)
  show ?thesis unfolding comments_follow_def s' set_update_where using st by blast
qed

lemma content_has_form: "comment_content v = Inr body \<Longrightarrow> has_comment_form body"
  by (auto simp: has_comment_form_def dest!: comment_content_D)

lemma comment_services_follow:
  assumes ok: "db_ok s"
  shows "create_comment env a pid wid tid txt s = Inr (c, s') \<Longrightarrow> comments_follow (Some a) s s'"
    "update_comment env a pid wid tid cid txt s = Inr (c, s') \<Longrightarrow> comments_follow (Some a) s s'"
    "delete_comment env a pid wid tid cid s = Inr (c, s') \<Longrightarrow> comments_follow (Some a) s s'"
proof -
  show "comments_follow (Some a) s s'" if "create_comment env a pid wid tid txt s = Inr (c, s')"
    using that
  proof (rule create_comment_D)
    fix au w p t body s1 s2
    assume t: "task_locked a pid wid tid s au w p t" "comments_allowed au"
      and c: "comment_content txt = Inr body" "c = new_comment env (t_id t) a body"
      and s1: "s1 = s\<lparr>comments := comments s @ [c]\<rparr>"
      and l: "logged a (tc_id c) ''task.comment.created'' s1 s2"
      and n: "\<exists>t'\<in>set (tasks s). t_id t' = t_id t
       \<and> notified (e_uuid env 1) TASK_COMMENTED (t_id t) (event_users a (t_workspace t') s) s2 s'"
    have "comments s' = comments s @ [c]" using n logged_tables(9) [OF l] s1 by (auto dest: notified_tables(9))
    moreover have "\<exists>t\<in>set (tasks s). \<exists>p r. t_id t = tc_task c
        \<and> has_authority s a p (t_workspace t) r \<and> comments_allowed r"
      using t c(2) unfolding task_locked_def locked_def new_comment_def by (intro bexI [of _ t]) auto
    then have "comment_posted (Some a) s c"
      using c content_has_form [OF c(1)] by (simp add: comment_posted_def new_comment_def)
    ultimately show ?thesis by (intro comments_follow_append)
  qed
  show "comments_follow (Some a) s s'" if "update_comment env a pid wid tid cid txt s = Inr (c, s')"
    using that
  proof (rule update_comment_D)
    fix au w p t x body
    assume x: "x \<in> set (comments s)" "tc_user x = a" "tc_deleted_at x = None" "comment_content txt = Inr body"
      and r: "if tc_content x = body then c = x \<and> s' = s
        else c = edit_comment env body x
          \<and> comment_replaced a ''task.comment.updated'' x (edit_comment env body) s s'"
    have "comment_step (Some a) s x (edit_comment env body x)"
      using x content_has_form [OF x(4)] by (auto simp: comment_step_def edit_comment_def)
    with r x(1) comments_follow_replaced [OF _ ok x(1)] show ?thesis
      by (auto intro: comments_follow_same split: if_splits)
  qed
  show "comments_follow (Some a) s s'" if "delete_comment env a pid wid tid cid s = Inr (c, s')"
    using that
  proof (rule delete_comment_D)
    fix au w p t x
    assume t: "task_locked a pid wid tid s au w p t" and x: "x \<in> set (comments s)" "tc_task x = t_id t" "tc_user x = a \<or> manages au"
      and r: "if tc_deleted_at x \<noteq> None then c = x \<and> s' = s
        else c = tombstone env x
          \<and> comment_replaced a ''task.comment.deleted'' x (tombstone env) s s'"
    have "comment_step (Some a) s x (tombstone env x)" if "tc_deleted_at x = None"
      using x that t by (auto simp: comment_step_def moderates_def tombstone_def task_locked_def locked_def)
    with r comments_follow_replaced [OF _ ok x(1)] show ?thesis
      by (auto intro: comments_follow_same split: if_splits)
  qed
qed

lemma note_comments: "note_tables s' = note_tables s \<Longrightarrow> comments_follow a s s'"
  by (auto simp: note_tables_def intro: comments_follow_same)

lemma comments_of_emitting_services:
  "assign_task env a pid wid tid m s = Inr (y, s') \<Longrightarrow> comments s' = comments s"
  "submit_deliverable env a pid wid tid url s = Inr (d, s') \<Longrightarrow> comments s' = comments s"
  "review_deliverable env a pid wid tid did rst c s = Inr (r, s') \<Longrightarrow> comments s' = comments s"
  "mark_notification_read env a nid s = Inr (n, s') \<Longrightarrow> comments s' = comments s"
proof -
  show "comments s' = comments s" if "assign_task env a pid wid tid m s = Inr (y, s')"
    using that by (rule assign_task_D) (auto dest!: logged_tables(9) notified_tables(9))
  show "comments s' = comments s" if "submit_deliverable env a pid wid tid url s = Inr (d, s')"
    using that by (rule submit_deliverable_D) (auto dest!: logged_tables(9) notified_tables(9))
  show "comments s' = comments s" if "review_deliverable env a pid wid tid did rst c s = Inr (r, s')"
    using that by (rule review_deliverable_D) (auto dest!: logged_tables(9) notified_tables(9))
  show "comments s' = comments s" if "mark_notification_read env a nid s = Inr (n, s')"
    using that by (rule mark_notification_read_D) (auto simp: Let_def split: if_splits)
qed

lemma comments_follow_exec:
  assumes "db_ok s" "exec env c s = Inr s'"
  shows "comments_follow (actor_of c) s s'"
  using assms(2)
  by (cases c) (auto dest!: approve_is_review request_changes_is_review
      dest: comment_services_follow [OF assms(1)] comments_of_emitting_services [THEN comments_follow_same]
        note_unchanged [THEN note_comments] invitation_services_effect [THEN note_invitations [OF _ assms(1)], THEN note_comments]
      intro: comments_follow_same)

text \<open>
  C35. A comment belongs to its author. Whatever command runs, every comment stays in the table
  with its identity, Task and author; a deleted one never changes again; its text is edited by its
  author alone; it is deleted, keeping its text, by its author or by someone managing the Tasks of
  its Workspace; and a new comment is the actor's own, on a Task of a Workspace where the actor may
  comment.
\<close>

theorem comments_belong_to_authors:
  assumes "db_ok s" "exec env c s = Inr s'"
  shows "(\<forall>x\<in>set (comments s). \<exists>x'\<in>set (comments s'). comment_step (actor_of c) s x x')
    \<and> (\<forall>x'\<in>set (comments s'). (\<exists>x\<in>set (comments s). comment_step (actor_of c) s x x')
         \<or> comment_posted (actor_of c) s x')"
  using comments_follow_exec [OF assms] by (simp add: comments_follow_def)

lemma ex_edited: "case update_comment ex_env 3 (Val 10) (Val 20) (Val 31) (Val 61) (Val [32, 120]) ex_db of
    Inl e \<Rightarrow> False | Inr x \<Rightarrow> map tc_content (comments (snd x)) = [[120]]"
  by (simp add: evals ex_db_def holds_ws_role_def)

lemma comments_belong_to_authors_witness:
  "\<exists>s'. exec ex_env (UpdateComment 3 (Val 10) (Val 20) (Val 31) (Val 61) (Val [32, 120])) ex_db = Inr s'
     \<and> (\<exists>x\<in>set (comments ex_db). \<exists>x'\<in>set (comments s'). tc_content x' = [120]
          \<and> comment_step (Some 3) ex_db x x' \<and> x' \<noteq> x)"
proof -
  obtain s' where s': "exec ex_env (UpdateComment 3 (Val 10) (Val 20) (Val 31) (Val 61) (Val [32, 120])) ex_db = Inr s'"
    "map tc_content (comments s') = [[120]]"
    using ex_edited by (cases "update_comment ex_env 3 (Val 10) (Val 20) (Val 31) (Val 61) (Val [32, 120]) ex_db") auto
  define x where "x = mk_comment 61 31 3 [104, 105]"
  have x: "x \<in> set (comments ex_db)" "tc_content x = [104, 105]" by (simp_all add: x_def ex_db_def mk_comment_def)
  with comments_belong_to_authors [OF ex_db_ok s'(1)] obtain x' where
    x': "x' \<in> set (comments s')" "comment_step (Some 3) ex_db x x'" by auto
  have "tc_content x' = [120]" using x'(1) s'(2) by auto
  with x x' s'(1) show ?thesis by fastforce
qed

definition comments_normal :: "db \<Rightarrow> bool" where
  "comments_normal s \<longleftrightarrow> (\<forall>c\<in>set (comments s). has_comment_form (tc_content c))"

interpretation comment_form: dependent_invariant db_ok comments_normal
proof (unfold_locales)
  show "comments_normal s'" if "db_ok s" "comments_normal s" "exec env c s = Inr s'" for s env c s'
  proof -
    note f = comments_follow_exec [OF that(1,3)]
    show ?thesis unfolding comments_normal_def
    proof
      fix x' assume "x' \<in> set (comments s')"
      with f consider x where "x \<in> set (comments s)" "comment_step (actor_of c) s x x'" | "comment_posted (actor_of c) s x'"
        unfolding comments_follow_def by blast
      then show "has_comment_form (tc_content x')"
        using that(2) by cases (auto simp: comment_step_def comment_posted_def comments_normal_def)
    qed
  qed
qed (auto simp: initial_def comments_normal_def)

text \<open>
  C12. Stored comments are clean text. In every reachable database each comment is non-empty, free
  of surrounding white space, at most \<open>content_max_length\<close> code points long, encodable in UTF-8
  and free of NUL characters, whatever was submitted.
\<close>

theorem reachable_comments_normal:
  assumes "reachable s" "c \<in> set (comments s)"
  shows "tc_content c \<noteq> [] \<and> strip (tc_content c) = tc_content c \<and> length (tc_content c) \<le> 4000
    \<and> utf8_encodable (tc_content c) \<and> 0 \<notin> set (tc_content c)"
  using comment_form.both.always [OF assms(1)] assms(2)
  by (simp add: comments_normal_def has_comment_form_def content_max_length_def)

definition chat :: "(env \<times> command) list" where
  "chat =
    [(env_at 1, CreateProfile (Some [80]) (Some 1) True),
     (env_at 2, CreateWorkspace 1 (Val 1000) (Some [87]) (Some (Date 2026 10 1)) None),
     (env_at 3, CreateTask 1 (Val 1000) (Val 2000) (Some [84]) None (Val PRI_HIGH) (Val None) None),
     (env_at 4, CreateComment 1 (Val 1000) (Val 2000) (Val 3000) (Val [32, 120, 10]))]"

lemma chat_runs: "case run chat ex_start of Inl e \<Rightarrow> False | Inr s \<Rightarrow> map tc_content (comments s) = [[120]]"
  by (simp add: evals chat_def env_at_def ex_start_def)

lemma reachable_comments_normal_witness:
  "\<exists>s. reachable s \<and> map tc_content (comments s) = [[120]] \<and> (\<forall>c\<in>set (comments s). 0 \<notin> set (tc_content c))"
proof -
  obtain s where s: "run chat ex_start = Inr s" "map tc_content (comments s) = [[120]]"
    using chat_runs by (cases "run chat ex_start") auto
  have "reachable s" using run_reachable [OF ex_start_reachable s(1)] .
  moreover from this have "\<forall>c\<in>set (comments s). 0 \<notin> set (tc_content c)" using reachable_comments_normal by blast
  ultimately show ?thesis using s(2) by (intro exI [of _ s] conjI)
qed

end
