(* ===== verification/Json_Text.thy ===== *)
theory Json_Text
  imports Prelude "HOL-Library.List_Lexorder"
begin

text \<open>
  The JSON texts of \<open>apps/ai\<close>: the canonical encoding \<open>json.dumps(value, sort_keys=True,
  ensure_ascii=False, allow_nan=False, separators=(",", ":"))\<close> of \<open>_canonical\<close>, and the strict
  decoding of \<open>_strict_json\<close>, which is \<open>json.loads\<close> refusing duplicate keys and the constants
  \<open>NaN\<close>, \<open>Infinity\<close> and \<open>-Infinity\<close>. A text is the list of its code points. A \<open>float\<close> is kept as its
  \<open>repr\<close>, since no contract accepts one. Python's limit on the nesting depth is not modelled: it
  turns values into the error their shape gives anyway.
\<close>

datatype jval =
    VNull
  | VBool bool
  | VInt int
  | VFloat ptext
  | VStr ptext
  | VList "jval list"
  | VObj "(ptext \<times> jval) list"

subsection \<open>Bytes\<close>

definition utf8_width :: "nat \<Rightarrow> nat" where
  "utf8_width c = (if c < 128 then 1 else if c < 2048 then 2 else if c < 65536 then 3 else 4)"

text \<open>\<open>len(t.encode("utf-8"))\<close> of a text without surrogates.\<close>

definition utf8_length :: "ptext \<Rightarrow> nat" where
  "utf8_length t = sum_list (map utf8_width t)"

subsection \<open>Encoding\<close>

fun decimal :: "nat \<Rightarrow> ptext" where
  "decimal n = (if n < 10 then [48 + n] else decimal (n div 10) @ [48 + n mod 10])"

declare decimal.simps [simp del]

definition int_text :: "int \<Rightarrow> ptext" where
  "int_text i = (if i < 0 then 45 # decimal (nat (- i)) else decimal (nat i))"

definition hex_digit :: "nat \<Rightarrow> nat" where
  "hex_digit d = (if d < 10 then 48 + d else 87 + d)"

text \<open>\<open>ESCAPE\<close> and \<open>ESCAPE_DCT\<close> of the encoder.\<close>

definition escape :: "nat \<Rightarrow> ptext" where
  "escape c =
    (if c = 34 then [92, 34] else if c = 92 then [92, 92] else if c = 10 then [92, 110]
     else if c = 13 then [92, 114] else if c = 9 then [92, 116] else if c = 12 then [92, 102]
     else if c = 8 then [92, 98]
     else if c < 32 then [92, 117, 48, 48, hex_digit (c div 16), hex_digit (c mod 16)]
     else [c])"

definition string_text :: "ptext \<Rightarrow> ptext" where
  "string_text t = 34 # concat (map escape t) @ [34]"

definition joined :: "ptext list \<Rightarrow> ptext" where
  "joined ts = (case ts of [] \<Rightarrow> [] | t # ts' \<Rightarrow> t @ concat (map (\<lambda>x. 44 # x) ts'))"

fun dumps :: "jval \<Rightarrow> ptext" where
  "dumps VNull = [110, 117, 108, 108]"
| "dumps (VBool b) = (if b then [116, 114, 117, 101] else [102, 97, 108, 115, 101])"
| "dumps (VInt i) = int_text i"
| "dumps (VFloat t) = t"
| "dumps (VStr t) = string_text t"
| "dumps (VList vs) = 91 # joined (map dumps vs) @ [93]"
| "dumps (VObj kvs) =
     123 # joined (map (\<lambda>(k, t). string_text k @ 58 # t)
       (sort_key fst (map (\<lambda>(k, v). (k, dumps v)) kvs))) @ [125]"

text \<open>\<open>float('inf')\<close> and \<open>float('nan')\<close> have these \<open>repr\<close>s; \<open>allow_nan=False\<close> refuses them.\<close>

definition finite_float :: "ptext \<Rightarrow> bool" where
  "finite_float t \<longleftrightarrow> t \<notin> {[105, 110, 102], [45, 105, 110, 102], [110, 97, 110]}"

text \<open>\<open>sys.get_int_max_str_digits\<close>.\<close>

definition max_int_digits :: nat where
  "max_int_digits = 4300"

fun dumps_ok :: "jval \<Rightarrow> bool" where
  "dumps_ok (VInt i) = (length (decimal (nat \<bar>i\<bar>)) \<le> max_int_digits)"
| "dumps_ok (VFloat t) = finite_float t"
| "dumps_ok (VList vs) = (\<forall>v\<in>set vs. dumps_ok v)"
| "dumps_ok (VObj kvs) = (\<forall>kv\<in>set kvs. dumps_ok (snd kv))"
| "dumps_ok _ = True"

subsection \<open>Decoding\<close>

definition is_digit :: "nat \<Rightarrow> bool" where
  "is_digit c \<longleftrightarrow> 48 \<le> c \<and> c \<le> 57"

definition number_of :: "ptext \<Rightarrow> nat" where
  "number_of ds = foldl (\<lambda>n d. 10 * n + (d - 48)) 0 ds"

definition skip_ws :: "ptext \<Rightarrow> ptext" where
  "skip_ws t = dropWhile (\<lambda>c. c = 32 \<or> c = 9 \<or> c = 10 \<or> c = 13) t"

definition hex_value :: "nat \<Rightarrow> nat option" where
  "hex_value c = (if is_digit c then Some (c - 48)
     else if 97 \<le> c \<and> c \<le> 102 then Some (c - 87)
     else if 65 \<le> c \<and> c \<le> 70 then Some (c - 55) else None)"

text \<open>Four hexadecimal digits after \<open>\u\<close>.\<close>

definition hex4 :: "ptext \<Rightarrow> (nat \<times> ptext) option" where
  "hex4 t = (case t of a # b # c # d # r \<Rightarrow>
       (case (hex_value a, hex_value b, hex_value c, hex_value d) of
          (Some x, Some y, Some z, Some w) \<Rightarrow> Some (((x * 16 + y) * 16 + z) * 16 + w, r)
        | _ \<Rightarrow> None)
     | _ \<Rightarrow> None)"

text \<open>\<open>t.startswith(p)\<close>, with the text after \<open>p\<close>.\<close>

definition after :: "ptext \<Rightarrow> ptext \<Rightarrow> ptext option" where
  "after p t = (if take (length p) t = p then Some (drop (length p) t) else None)"

text \<open>The character of an escape and the rest; two escaped surrogates are one character.\<close>

definition unicode_escape :: "ptext \<Rightarrow> (nat \<times> ptext) option" where
  "unicode_escape t = (case hex4 t of None \<Rightarrow> None | Some (u, r) \<Rightarrow>
     if 55296 \<le> u \<and> u \<le> 56319 then
       (case Option.bind (after [92, 117] r) hex4 of
          Some (l, r') \<Rightarrow> if 56320 \<le> l \<and> l \<le> 57343
            then Some (65536 + (u - 55296) * 1024 + (l - 56320), r') else Some (u, r)
        | None \<Rightarrow> Some (u, r))
     else Some (u, r))"

definition simple_escape :: "nat \<Rightarrow> nat option" where
  "simple_escape c = map_of [(34, 34), (92, 92), (47, 47), (98, 8), (102, 12), (110, 10), (114, 13), (116, 9)] c"

lemma hex4_shorter: "hex4 t = Some (u, r) \<Longrightarrow> length r < length t"
  by (auto simp: hex4_def split: list.splits option.splits)

lemma after_shorter: "after p t = Some r \<Longrightarrow> length r \<le> length t"
  by (auto simp: after_def split: if_splits)

lemma unicode_escape_shorter: "unicode_escape t = Some (u, r) \<Longrightarrow> length r < length t"
  by (auto simp: unicode_escape_def bind_eq_Some_conv split: option.splits if_splits
      dest!: hex4_shorter after_shorter)

text \<open>\<open>scanstring\<close> after the opening quote: the decoded text and what follows the closing quote.\<close>

function scan_string :: "ptext \<Rightarrow> (ptext \<times> ptext) option" where
  "scan_string [] = None"
| "scan_string (c # r) =
     (if c = 34 then Some ([], r)
      else if c = 92 then
        (case r of [] \<Rightarrow> None
         | e # r' \<Rightarrow>
             if e = 117 then
               (case unicode_escape r' of None \<Rightarrow> None
                | Some (u, r'') \<Rightarrow> map_option (\<lambda>(t, rest). (u # t, rest)) (scan_string r''))
             else (case simple_escape e of None \<Rightarrow> None
                | Some d \<Rightarrow> map_option (\<lambda>(t, rest). (d # t, rest)) (scan_string r')))
      else if c < 32 then None
      else map_option (\<lambda>(t, rest). (c # t, rest)) (scan_string r))"
  by pat_completeness auto
termination
  by (relation "measure length") (auto dest: unicode_escape_shorter)

text \<open>The digits after a point or an exponent mark, if there is one.\<close>

definition scan_fraction :: "ptext \<Rightarrow> (ptext \<times> ptext) option" where
  "scan_fraction t = (case t of c # r \<Rightarrow>
       if c = 46 \<and> takeWhile is_digit r \<noteq> [] then Some (46 # takeWhile is_digit r, dropWhile is_digit r) else None
     | [] \<Rightarrow> None)"

definition scan_exponent :: "ptext \<Rightarrow> (ptext \<times> ptext) option" where
  "scan_exponent t = (case t of c # r \<Rightarrow>
       if c = 101 \<or> c = 69 then
         (let (sign, ds) = (case r of s # r' \<Rightarrow> if s = 43 \<or> s = 45 then ([s], r') else ([], r) | [] \<Rightarrow> ([], r)) in
          if takeWhile is_digit ds \<noteq> [] then Some (c # sign @ takeWhile is_digit ds, dropWhile is_digit ds) else None)
       else None
     | [] \<Rightarrow> None)"

text \<open>\<open>(-?(?:0|[1-9]\d*))(\.\d+)?([eE][-+]?\d+)?\<close>\<close>

definition scan_number :: "ptext \<Rightarrow> (jval \<times> ptext) option" where
  "scan_number t =
    (let (sign, t1) = (case t of c # r \<Rightarrow> if c = 45 then ([c], r) else ([], t) | [] \<Rightarrow> ([], t));
         ds = (case t1 of c # r \<Rightarrow> if c = 48 then [c] else takeWhile is_digit t1 | [] \<Rightarrow> []);
         t2 = drop (length ds) t1 in
     if ds = [] then None
     else
       let (frac, t3) = (case scan_fraction t2 of None \<Rightarrow> ([], t2) | Some x \<Rightarrow> x);
           (expo, t4) = (case scan_exponent t3 of None \<Rightarrow> ([], t3) | Some x \<Rightarrow> x) in
       if frac = [] \<and> expo = [] then
         (if length ds \<le> max_int_digits
          then Some (VInt (if sign = [] then int (number_of ds) else - int (number_of ds)), t4) else None)
       else Some (VFloat (sign @ ds @ frac @ expo), t4))"

text \<open>\<open>null\<close>, \<open>true\<close>, \<open>false\<close> or a number.\<close>

definition scan_literal :: "ptext \<Rightarrow> (jval \<times> ptext) option" where
  "scan_literal t =
    (case after [110, 117, 108, 108] t of Some r \<Rightarrow> Some (VNull, r) | None \<Rightarrow>
     case after [116, 114, 117, 101] t of Some r \<Rightarrow> Some (VBool True, r) | None \<Rightarrow>
     case after [102, 97, 108, 115, 101] t of Some r \<Rightarrow> Some (VBool False, r) | None \<Rightarrow>
     scan_number t)"

text \<open>
  \<open>scan_once\<close>, the elements of an array and the members of an object. Every value consumes a
  character, so twice the length of the text (and one) is fuel enough: \<open>loads_fuel\<close> below.
\<close>

fun scan_value :: "nat \<Rightarrow> ptext \<Rightarrow> (jval \<times> ptext) option"
  and scan_elements :: "nat \<Rightarrow> ptext \<Rightarrow> (jval list \<times> ptext) option"
  and scan_members :: "nat \<Rightarrow> ptext \<Rightarrow> ((ptext \<times> jval) list \<times> ptext) option" where
  "scan_value 0 t = None"
| "scan_value (Suc n) t = (case t of [] \<Rightarrow> None | c # r \<Rightarrow>
     if c = 34 then map_option (\<lambda>(s, rest). (VStr s, rest)) (scan_string r)
     else if c = 91 then
       (case skip_ws r of [] \<Rightarrow> None
        | d # r' \<Rightarrow> if d = 93 then Some (VList [], r')
          else map_option (\<lambda>(vs, rest). (VList vs, rest)) (scan_elements n (skip_ws r)))
     else if c = 123 then
       (case skip_ws r of [] \<Rightarrow> None
        | d # r' \<Rightarrow> if d = 125 then Some (VObj [], r')
          else (case scan_members n (skip_ws r) of None \<Rightarrow> None
            | Some (kvs, rest) \<Rightarrow> if distinct (map fst kvs) then Some (VObj kvs, rest) else None))
     else scan_literal t)"
| "scan_elements 0 t = None"
| "scan_elements (Suc n) t = (case scan_value n t of None \<Rightarrow> None | Some (v, r) \<Rightarrow>
     (case skip_ws r of [] \<Rightarrow> None
      | c # r' \<Rightarrow>
          if c = 93 then Some ([v], r')
          else if c = 44 then map_option (\<lambda>(vs, rest). (v # vs, rest)) (scan_elements n (skip_ws r'))
          else None))"
| "scan_members 0 t = None"
| "scan_members (Suc n) t = (case t of [] \<Rightarrow> None | q # r \<Rightarrow>
     if q \<noteq> 34 then None else
     (case scan_string r of None \<Rightarrow> None | Some (k, r1) \<Rightarrow>
      (case skip_ws r1 of [] \<Rightarrow> None | c # r2 \<Rightarrow>
       if c \<noteq> 58 then None else
       (case scan_value n (skip_ws r2) of None \<Rightarrow> None | Some (v, r3) \<Rightarrow>
        (case skip_ws r3 of [] \<Rightarrow> None
         | d # r4 \<Rightarrow>
             if d = 125 then Some ([(k, v)], r4)
             else if d = 44 then map_option (\<lambda>(kvs, rest). ((k, v) # kvs, rest)) (scan_members n (skip_ws r4))
             else None)))))"

definition loads :: "ptext \<Rightarrow> jval option" where
  "loads t = (case scan_value (2 * length t + 1) (skip_ws t) of None \<Rightarrow> None
     | Some (v, rest) \<Rightarrow> if skip_ws rest = [] then Some v else None)"

subsection \<open>Fuel\<close>

lemma skip_ws_length: "length (skip_ws t) \<le> length t"
  by (simp add: skip_ws_def length_dropWhile_le)

lemma scan_string_shorter: "scan_string t = Some (s, r) \<Longrightarrow> length r < length t"
  by (induction t arbitrary: s r rule: scan_string.induct)
    (fastforce split: if_splits list.splits option.splits dest: unicode_escape_shorter)+

lemma dropWhile_shorter: "length (dropWhile P t) \<le> Suc (length t)"
  by (rule le_SucI) (rule length_dropWhile_le)

lemma scan_fraction_length: "scan_fraction t = Some (s, r) \<Longrightarrow> length r \<le> length t"
  by (auto simp: scan_fraction_def dropWhile_shorter split: list.splits if_splits)

lemma scan_exponent_length: "scan_exponent t = Some (s, r) \<Longrightarrow> length r \<le> length t"
  by (auto simp: scan_exponent_def Let_def dropWhile_shorter intro: le_SucI [OF dropWhile_shorter]
      split: list.splits if_splits)

lemma scan_number_shorter:
  assumes "scan_number t = Some (v, r)"
  shows "length r < length t"
proof -
  define t1 where "t1 = (case t of c # r \<Rightarrow> if c = 45 then r else t | [] \<Rightarrow> t)"
  define ds where "ds = (case t1 of c # r \<Rightarrow> if c = 48 then [c] else takeWhile is_digit t1 | [] \<Rightarrow> [])"
  define t2 where "t2 = drop (length ds) t1"
  define t3 where "t3 = snd (case scan_fraction t2 of None \<Rightarrow> ([], t2) | Some x \<Rightarrow> x)"
  define t4 where "t4 = snd (case scan_exponent t3 of None \<Rightarrow> ([], t3) | Some x \<Rightarrow> x)"
  have r: "ds \<noteq> [] \<and> r = t4"
    using assms unfolding scan_number_def t4_def t3_def t2_def ds_def t1_def
    by (auto simp: Let_def split: list.splits if_splits option.splits prod.splits)
  have "length t4 \<le> length t3" "length t3 \<le> length t2"
    using scan_exponent_length [of t3] scan_fraction_length [of t2]
    by (auto simp: t4_def t3_def split: option.splits)
  moreover have "ds \<noteq> [] \<Longrightarrow> length t2 < length t1" by (cases t1) (auto simp: t2_def ds_def split: if_splits)
  moreover have "length t1 \<le> length t" by (auto simp: t1_def split: list.splits)
  ultimately show ?thesis using r by (meson le_less_trans less_le_trans)
qed

lemma after_Cons_shorter: "after (c # p) t = Some r \<Longrightarrow> length r < length t"
  by (cases t) (auto simp: after_def split: if_splits)

lemma scan_literal_shorter: "scan_literal t = Some (v, r) \<Longrightarrow> length r < length t"
  by (auto simp: scan_literal_def split: option.splits dest: scan_number_shorter after_Cons_shorter)

lemma skip_ws_Cons: "skip_ws t = c # r \<Longrightarrow> length r < length t"
  using skip_ws_length [of t] by simp

lemma scan_shorter:
  "scan_value n t = Some (v, r) \<Longrightarrow> length r < length t"
  "scan_elements n t = Some (vs, r) \<Longrightarrow> length r < length t"
  "scan_members n t = Some (kvs, r) \<Longrightarrow> length r < length t"
proof (induction n arbitrary: t v r vs kvs)
  case (Suc n)
  note IH = Suc.IH
  have ws: "length r < length (skip_ws t) \<Longrightarrow> length r < length t" for r t :: ptext
    using skip_ws_length [of t] by simp
  { case 1
    then show ?case
      by (auto split: list.splits if_splits option.splits dest!: IH(2,3) scan_string_shorter
          scan_literal_shorter skip_ws_Cons ws)
  next
    case 2
    then obtain v r1 where v: "scan_value n t = Some (v, r1)" by (auto split: option.splits)
    show ?case using 2 v IH(1) [OF v]
      by (auto split: list.splits if_splits dest!: IH(2) skip_ws_Cons ws)
  next
    case 3
    then obtain q u k r1 r2 v r3 where t: "t = q # u" "scan_string u = Some (k, r1)" "skip_ws r1 = 58 # r2"
      "scan_value n (skip_ws r2) = Some (v, r3)"
      by (auto split: list.splits if_splits option.splits)
    have "length r3 < length t"
      using scan_string_shorter [OF t(2)] skip_ws_Cons [OF t(3)] ws [OF IH(1) [OF t(4)]] t(1) by simp
    then show ?case using 3 t
      by (auto split: list.splits if_splits dest!: IH(3) skip_ws_Cons ws)
  }
qed simp_all

text \<open>More fuel than twice the length of the text changes nothing, so \<open>loads\<close> never runs out.\<close>

lemma scan_fuel:
  "2 * length t + 1 \<le> n \<Longrightarrow> n \<le> m \<Longrightarrow> scan_value m t = scan_value n t"
  "2 * length t + 2 \<le> n \<Longrightarrow> n \<le> m \<Longrightarrow> scan_elements m t = scan_elements n t"
  "2 * length t + 2 \<le> n \<Longrightarrow> n \<le> m \<Longrightarrow> scan_members m t = scan_members n t"
proof (induction n arbitrary: t m)
  case (Suc n)
  { case 1
    then obtain k where m: "m = Suc k" "n \<le> k" by (cases m) auto
    have "scan_elements k (skip_ws u) = scan_elements n (skip_ws u)"
      "scan_members k (skip_ws u) = scan_members n (skip_ws u)" if "t = c # u" for c u
      using Suc.IH(2,3) [of "skip_ws u" k] m 1 that skip_ws_length [of u] by simp_all
    then show ?case by (cases t; cases "skip_ws (tl t)") (simp_all add: m)
  next
    case 2
    then obtain k where m: "m = Suc k" "n \<le> k" by (cases m) auto
    have v: "scan_value k t = scan_value n t" using Suc.IH(1) [of t k] m 2 by simp
    have "scan_elements k (skip_ws r') = scan_elements n (skip_ws r')"
      if "scan_value n t = Some (v, r)" "skip_ws r = c # r'" for v r c r'
      using scan_shorter(1) [OF that(1)] skip_ws_Cons [OF that(2)] skip_ws_length [of r'] m 2
      by (intro Suc.IH(2)) simp_all
    then show ?case by (simp add: m v split: option.split list.split prod.split)
  next
    case 3
    then obtain k where m: "m = Suc k" "n \<le> k" by (cases m) auto
    have v: "scan_value k (skip_ws r2) = scan_value n (skip_ws r2)"
      and w: "scan_value n (skip_ws r2) = Some (v, r3) \<Longrightarrow> skip_ws r3 = d # r4 \<Longrightarrow>
        scan_members k (skip_ws r4) = scan_members n (skip_ws r4)"
      if "t = q # u" "scan_string u = Some (s, r1)" "skip_ws r1 = c # r2" for q u s r1 c r2 v r3 d r4
    proof -
      have l: "length (skip_ws r2) + 2 \<le> length t"
        using that scan_string_shorter [OF that(2)] skip_ws_Cons [OF that(3)] skip_ws_length [of r2] by simp
      then show "scan_value k (skip_ws r2) = scan_value n (skip_ws r2)"
        using m 3 by (intro Suc.IH(1)) simp_all
      assume "scan_value n (skip_ws r2) = Some (v, r3)" "skip_ws r3 = d # r4"
      then show "scan_members k (skip_ws r4) = scan_members n (skip_ws r4)"
        using l m 3 scan_shorter(1) [of n "skip_ws r2" v r3] skip_ws_Cons [of r3 d r4] skip_ws_length [of r4]
        by (intro Suc.IH(3)) simp_all
    qed
    show ?case
      by (cases t) (auto simp: m v w split: option.split list.split)
  }
qed simp_all

end
