(* ===== verification/Json_Roundtrip.thy ===== *)
theory Json_Roundtrip
  imports Json_Text
begin

text \<open>
  Decoding undoes encoding: \<open>loads (dumps v)\<close> is \<open>v\<close> with the members of its objects in key order,
  for every value without floats whose objects have unique keys and whose integers are short enough
  to be read back.
\<close>

fun sorted_members :: "jval \<Rightarrow> jval" where
  "sorted_members (VList vs) = VList (map sorted_members vs)"
| "sorted_members (VObj kvs) = VObj (sort_key fst (map (\<lambda>(k, v). (k, sorted_members v)) kvs))"
| "sorted_members v = v"

fun readable :: "jval \<Rightarrow> bool" where
  "readable (VInt i) \<longleftrightarrow> length (decimal (nat \<bar>i\<bar>)) \<le> max_int_digits"
| "readable (VFloat t) \<longleftrightarrow> False"
| "readable (VList vs) \<longleftrightarrow> (\<forall>v\<in>set vs. readable v)"
| "readable (VObj kvs) \<longleftrightarrow> distinct (map fst kvs) \<and> (\<forall>kv\<in>set kvs. readable (snd kv))"
| "readable _ \<longleftrightarrow> True"

subsection \<open>Strings\<close>

lemma hex_digit_value: "d < 16 \<Longrightarrow> hex_value (hex_digit d) = Some d"
  by (auto simp: hex_value_def hex_digit_def is_digit_def)

lemma unicode_escape_control:
  assumes "c < 32"
  shows "unicode_escape (48 # 48 # hex_digit (c div 16) # hex_digit (c mod 16) # t) = Some (c, t)"
proof -
  have "hex_value (hex_digit (c div 16)) = Some (c div 16)" "hex_value (hex_digit (c mod 16)) = Some (c mod 16)"
    using assms by (simp_all add: hex_digit_value less_mult_imp_div_less)
  moreover have "hex_value 48 = Some 0" by (simp add: hex_value_def is_digit_def)
  ultimately have "hex4 (48 # 48 # hex_digit (c div 16) # hex_digit (c mod 16) # t) = Some (c, t)"
    by (simp add: hex4_def)
  with assms show ?thesis by (simp add: unicode_escape_def)
qed

lemma scan_escape: "scan_string (escape c @ t) = map_option (\<lambda>(s, rest). (c # s, rest)) (scan_string t)"
proof (cases "c < 32 \<and> c \<notin> {10, 13, 9, 12, 8}")
  case True
  then have "escape c = [92, 117, 48, 48, hex_digit (c div 16), hex_digit (c mod 16)]"
    by (simp add: escape_def)
  with True show ?thesis by (simp add: unicode_escape_control)
next
  case False
  then consider "c \<in> {34, 92, 10, 13, 9, 12, 8}" | "c \<ge> 32" "c \<noteq> 34" "c \<noteq> 92" by fastforce
  then show ?thesis
  proof cases
    case 1
    then show ?thesis by (elim insertE) (simp_all add: escape_def simple_escape_def)
  next
    case 2
    then show ?thesis by (simp add: escape_def)
  qed
qed

lemma scan_escaped: "scan_string (concat (map escape t) @ 34 # rest) = Some (t, rest)"
  by (induction t) (simp_all add: scan_escape)

lemma string_text_append: "string_text t @ rest = 34 # concat (map escape t) @ 34 # rest"
  by (simp add: string_text_def)

subsection \<open>Numbers\<close>

lemma decimal_digits: "\<forall>c\<in>set (decimal n). is_digit c"
proof (induction n rule: decimal.induct)
  case (1 n)
  have "is_digit (48 + n mod 10)" by (auto simp: is_digit_def)
  with 1 show ?case by (subst decimal.simps) (auto simp: is_digit_def)
qed

lemma decimal_not_Nil: "decimal n \<noteq> []"
  by (subst decimal.simps) simp

lemma number_of_append: "number_of (ds @ [d]) = 10 * number_of ds + (d - 48)"
  by (simp add: number_of_def)

lemma number_of_decimal: "number_of (decimal n) = n"
proof (induction n rule: decimal.induct)
  case (1 n)
  show ?case
  proof (cases "n < 10")
    case True
    then show ?thesis by (subst decimal.simps) (simp add: number_of_def)
  next
    case False
    with 1 show ?thesis by (subst decimal.simps) (simp add: number_of_append)
  qed
qed

text \<open>No leading zero, except in zero.\<close>

lemma decimal_head: "hd (decimal n) = 48 \<Longrightarrow> n = 0"
proof (induction n rule: decimal.induct)
  case (1 n)
  show ?case
  proof (cases "n < 10")
    case True
    with 1(2) show ?thesis by (subst (asm) decimal.simps) simp
  next
    case False
    then have d: "decimal n = decimal (n div 10) @ [48 + n mod 10]" by (subst decimal.simps) simp
    with 1(2) have "hd (decimal (n div 10)) = 48" by (simp add: decimal_not_Nil)
    with 1(1) False show ?thesis by simp
  qed
qed

text \<open>What may follow a number without changing it.\<close>

definition ends_number :: "ptext \<Rightarrow> bool" where
  "ends_number t \<longleftrightarrow> (case t of [] \<Rightarrow> True | c # _ \<Rightarrow> \<not> is_digit c \<and> c \<notin> {46, 101, 69})"

lemma takeWhile_digits:
  "ends_number rest \<Longrightarrow> takeWhile is_digit (decimal n @ rest) = decimal n"
  using decimal_digits by (cases rest) (auto simp: ends_number_def takeWhile_append)

lemma scan_decimal:
  assumes e: "ends_number rest" and l: "length (decimal n) \<le> max_int_digits"
    and t: "t = sign @ decimal n @ rest" "sign = [] \<or> sign = [45]"
  shows "scan_number t = Some (VInt (if sign = [] then int n else - int n), rest)"
proof -
  obtain c u where d: "decimal n = c # u" using decimal_not_Nil by (cases "decimal n") auto
  have c: "is_digit c" using decimal_digits [of n] d by simp
  have s: "(case t of c # r \<Rightarrow> if c = 45 then ([c], r) else ([], t) | [] \<Rightarrow> ([], t)) = (sign, decimal n @ rest)"
    using t c d by (auto simp: is_digit_def)
  have ds: "(case decimal n @ rest of c # r \<Rightarrow> if c = 48 then [c] else takeWhile is_digit (decimal n @ rest) | [] \<Rightarrow> [])
      = decimal n"
  proof (cases "c = 48")
    case True
    then have "n = 0" using decimal_head [of n] d by simp
    then show ?thesis by (simp add: decimal.simps [of 0])
  next
    case False
    then show ?thesis using takeWhile_digits [OF e, of n] d by simp
  qed
  have "scan_fraction rest = None" "scan_exponent rest = None"
    using e by (auto simp: scan_fraction_def scan_exponent_def ends_number_def split: list.splits)
  then show ?thesis
    using l by (simp add: scan_number_def s ds Let_def decimal_not_Nil number_of_decimal)
qed

lemma scan_int_text:
  assumes "ends_number rest" "length (decimal (nat \<bar>i\<bar>)) \<le> max_int_digits"
  shows "scan_number (int_text i @ rest) = Some (VInt i, rest)"
  using assms scan_decimal [OF assms(1), of "nat \<bar>i\<bar>" "int_text i @ rest" "if i < 0 then [45] else []"]
  by (auto simp: int_text_def split: if_splits)

subsection \<open>Values\<close>

lemma insort_key_map: "insort_key f (g x) (map g xs) = map g (insort_key (\<lambda>x. f (g x)) x xs)"
  by (induction xs) simp_all

lemma sort_key_map: "sort_key f (map g xs) = map g (sort_key (\<lambda>x. f (g x)) xs)"
  by (induction xs) (simp_all add: insort_key_map)

definition member_text :: "ptext \<times> jval \<Rightarrow> ptext" where
  "member_text kv = string_text (fst kv) @ 58 # dumps (snd kv)"

lemma dumps_object: "dumps (VObj kvs) = 123 # joined (map member_text (sort_key fst kvs)) @ [125]"
proof -
  have "(\<lambda>(k, t). string_text k @ 58 # t) \<circ> (\<lambda>(k, v). (k, dumps v)) = member_text"
    by (rule ext) (simp add: case_prod_beta member_text_def)
  then show ?thesis by (simp add: sort_key_map case_prod_beta [of _ "(_, _)"] flip: map_map) (simp add: sort_key_map case_prod_beta)
qed

lemma sorted_object:
  "sorted_members (VObj kvs) = VObj (map (\<lambda>kv. (fst kv, sorted_members (snd kv))) (sort_key fst kvs))"
  by (simp add: sort_key_map case_prod_beta)

declare dumps.simps(7) [simp del] sorted_members.simps(2) [simp del]

lemma joined_Cons: "joined (t # ts) = t @ (if ts = [] then [] else 44 # joined ts)"
  by (cases ts) (simp_all add: joined_def)

definition solid :: "ptext \<Rightarrow> bool" where
  "solid t \<longleftrightarrow> t \<noteq> [] \<and> hd t \<notin> {32, 9, 10, 13, 93, 125}"

lemma solid_skip: "solid t \<Longrightarrow> skip_ws (t @ r) = t @ r"
  by (cases t) (auto simp: solid_def skip_ws_def)

lemma solid_dumps: "readable v \<Longrightarrow> solid (dumps v)"
proof (cases v)
  case (VInt i)
  obtain c u where "decimal (nat \<bar>i\<bar>) = c # u" using decimal_not_Nil by (cases "decimal (nat \<bar>i\<bar>)") auto
  moreover from this have "is_digit c" using decimal_digits [of "nat \<bar>i\<bar>"] by simp
  ultimately show ?thesis using VInt by (auto simp: int_text_def solid_def is_digit_def)
qed (auto simp: solid_def string_text_def dumps_object)

definition scans :: "jval \<Rightarrow> bool" where
  "scans v \<longleftrightarrow> (\<forall>rest n. ends_number rest \<longrightarrow> 2 * length (dumps v) + 1 \<le> n
     \<longrightarrow> scan_value n (dumps v @ rest) = Some (sorted_members v, rest))"

lemma scansI:
  assumes "\<And>k rest. ends_number rest \<Longrightarrow> 2 * length (dumps v) \<le> k
    \<Longrightarrow> scan_value (Suc k) (dumps v @ rest) = Some (sorted_members v, rest)"
  shows "scans v"
  unfolding scans_def
proof (intro allI impI)
  fix rest n
  assume e: "ends_number rest" and n: "2 * length (dumps v) + 1 \<le> n"
  then obtain k where "n = Suc k" "2 * length (dumps v) \<le> k" by (cases n) auto
  with assms [OF e] show "scan_value n (dumps v @ rest) = Some (sorted_members v, rest)" by simp
qed

lemma scan_joined_elements:
  assumes "vs \<noteq> []" "\<forall>v\<in>set vs. scans v \<and> readable v" "2 * length (joined (map dumps vs)) + 2 \<le> n"
  shows "scan_elements n (joined (map dumps vs) @ 93 # rest) = Some (map sorted_members vs, rest)"
  using assms
proof (induction vs arbitrary: n)
  case (Cons v vs)
  from Cons.prems(3) obtain k where n: "n = Suc k" by (cases n) auto
  show ?case
  proof (cases "vs = []")
    case True
    with Cons.prems n have "scan_value k (dumps v @ 93 # rest) = Some (sorted_members v, 93 # rest)"
      by (simp add: scans_def ends_number_def is_digit_def joined_Cons)
    with True n show ?thesis by (simp add: joined_Cons skip_ws_def)
  next
    case False
    let ?r = "joined (map dumps vs) @ 93 # rest"
    from Cons.prems n False have v: "scan_value k (dumps v @ 44 # ?r) = Some (sorted_members v, 44 # ?r)"
      by (simp add: scans_def ends_number_def is_digit_def joined_Cons)
    have "solid (joined (map dumps vs))"
      using False Cons.prems(2) solid_dumps by (cases vs) (auto simp: joined_Cons solid_def)
    then have "skip_ws ?r = ?r" by (rule solid_skip)
    moreover have "scan_elements k ?r = Some (map sorted_members vs, rest)"
      using Cons.IH [of k] Cons.prems n False by (simp add: joined_Cons)
    ultimately show ?thesis using v n False by (simp add: joined_Cons skip_ws_def)
  qed
qed simp

lemma scan_member:
  assumes "scans (snd kv)" "readable (snd kv)" "ends_number (d # r)" "2 * length (member_text kv) + 1 \<le> n"
    and "d \<notin> {32, 9, 10, 13}"
  shows "scan_members (Suc n) (member_text kv @ d # r) =
    (if d = 125 then Some ([(fst kv, sorted_members (snd kv))], r)
     else if d = 44 then map_option (\<lambda>(kvs, rest). ((fst kv, sorted_members (snd kv)) # kvs, rest))
       (scan_members n (skip_ws r))
     else None)"
proof -
  have v: "scan_value n (dumps (snd kv) @ d # r) = Some (sorted_members (snd kv), d # r)"
    using assms by (simp add: scans_def member_text_def string_text_def)
  have "skip_ws (d # r) = d # r" using assms(5) by (simp add: skip_ws_def)
  moreover have "skip_ws (58 # dumps (snd kv) @ d # r) = 58 # dumps (snd kv) @ d # r" by (simp add: skip_ws_def)
  ultimately show ?thesis
    using v solid_skip [OF solid_dumps [OF assms(2)], of "d # r"]
    by (simp add: member_text_def string_text_append scan_escaped)
qed

lemma scan_joined_members:
  assumes "kvs \<noteq> []" "\<forall>kv\<in>set kvs. scans (snd kv) \<and> readable (snd kv)"
    "2 * length (joined (map member_text kvs)) + 2 \<le> n"
  shows "scan_members n (joined (map member_text kvs) @ 125 # rest)
    = Some (map (\<lambda>kv. (fst kv, sorted_members (snd kv))) kvs, rest)"
  using assms
proof (induction kvs arbitrary: n)
  case (Cons kv kvs)
  from Cons.prems(3) obtain k where n: "n = Suc k" by (cases n) auto
  show ?case
  proof (cases "kvs = []")
    case True
    with Cons.prems n show ?thesis
      by (simp add: joined_Cons scan_member ends_number_def is_digit_def del: scan_members.simps)
  next
    case False
    let ?r = "joined (map member_text kvs) @ 125 # rest"
    have "solid (joined (map member_text kvs))"
      using False by (cases kvs) (auto simp: joined_Cons solid_def member_text_def string_text_def)
    then have "skip_ws ?r = ?r" by (rule solid_skip)
    moreover have "scan_members k ?r = Some (map (\<lambda>kv. (fst kv, sorted_members (snd kv))) kvs, rest)"
      using Cons.IH [of k] Cons.prems n False by (simp add: joined_Cons)
    ultimately show ?thesis using Cons.prems n False
      by (simp add: joined_Cons scan_member ends_number_def is_digit_def del: scan_members.simps)
  qed
qed simp

lemma scans_readable: "readable v \<Longrightarrow> scans v"
proof (induction v)
  case (VInt i)
  then have s: "solid (int_text i)" using solid_dumps [of "VInt i"] by simp
  have n: "scan_number (int_text i @ rest) = Some (VInt i, rest)" if "ends_number rest" for rest
    using scan_int_text [OF that] VInt by simp
  obtain c u where "decimal (nat \<bar>i\<bar>) = c # u" using decimal_not_Nil by (cases "decimal (nat \<bar>i\<bar>)") auto
  moreover from this have "is_digit c" using decimal_digits [of "nat \<bar>i\<bar>"] by simp
  ultimately obtain d w where t: "int_text i = d # w" "d = 45 \<or> is_digit d"
    by (cases "i < 0") (auto simp: int_text_def)
  have "scan_value (Suc k) (int_text i @ rest) = Some (VInt i, rest)" if "ends_number rest" for k rest
    using n [OF that] t by (auto simp: scan_literal_def after_def is_digit_def)
  then show ?case by (intro scansI) (simp del: scan_value.simps)
next
  case (VList vs)
  have "scan_value (Suc k) (dumps (VList vs) @ rest) = Some (sorted_members (VList vs), rest)"
    if "2 * length (dumps (VList vs)) \<le> k" for k rest
  proof (cases "vs = []")
    case True
    then show ?thesis by (simp add: joined_def skip_ws_def)
  next
    case False
    have j: "solid (joined (map dumps vs))"
      using False VList.prems solid_dumps by (cases vs) (auto simp: joined_Cons solid_def)
    have "scan_elements k (joined (map dumps vs) @ 93 # rest) = Some (map sorted_members vs, rest)"
      using False VList that by (intro scan_joined_elements) auto
    with j solid_skip [OF j, of "93 # rest"] show ?thesis
      by (cases "joined (map dumps vs)") (auto simp: solid_def)
  qed
  then show ?case by (rule scansI)
next
  case (VObj kvs)
  let ?s = "sort_key fst kvs"
  have s: "set ?s = set kvs" "distinct (map fst ?s)"
    using VObj.prems by (simp_all add: distinct_map distinct_sort) 
  have "scan_value (Suc k) (dumps (VObj kvs) @ rest) = Some (sorted_members (VObj kvs), rest)"
    if "2 * length (dumps (VObj kvs)) \<le> k" for k rest
  proof (cases "kvs = []")
    case True
    then show ?thesis by (simp add: dumps_object sorted_object joined_def skip_ws_def)
  next
    case False
    have j: "solid (joined (map member_text ?s))"
      using False s(1) by (cases ?s) (auto simp: joined_Cons solid_def member_text_def string_text_def)
    have ok: "\<forall>kv\<in>set ?s. scans (snd kv) \<and> readable (snd kv)"
      using VObj s(1) by (auto intro!: VObj.IH) 
    have "?s \<noteq> []" using False s(1) by (metis set_empty)
    then have "scan_members k (joined (map member_text ?s) @ 125 # rest)
        = Some (map (\<lambda>kv. (fst kv, sorted_members (snd kv))) ?s, rest)"
      using ok that by (intro scan_joined_members) (auto simp: dumps_object)
    with j solid_skip [OF j, of "125 # rest"] s(2) show ?thesis
      by (cases "joined (map member_text ?s)") (auto simp: solid_def dumps_object sorted_object comp_def)
  qed
  then show ?case by (rule scansI)
next
  case (VStr t)
  have "scan_value (Suc k) (dumps (VStr t) @ rest) = Some (VStr t, rest)" for k rest
    by (simp add: string_text_append scan_escaped)
  then show ?case by (intro scansI) (simp del: scan_value.simps dumps.simps)
next
  case VNull
  have "scan_value (Suc k) (dumps VNull @ rest) = Some (VNull, rest)" for k rest
    by (simp add: scan_literal_def after_def)
  then show ?case by (intro scansI) (simp del: scan_value.simps dumps.simps)
next
  case (VBool b)
  have "scan_value (Suc k) (dumps (VBool b) @ rest) = Some (VBool b, rest)" for k rest
    by (simp add: scan_literal_def after_def)
  then show ?case by (intro scansI) (simp del: scan_value.simps dumps.simps)
qed simp

theorem loads_dumps:
  assumes "readable v"
  shows "loads (dumps v) = Some (sorted_members v)"
proof -
  have "skip_ws (dumps v) = dumps v" using solid_skip [OF solid_dumps [OF assms], of "[]"] by simp
  moreover have "scan_value (2 * length (dumps v) + 1) (dumps v @ []) = Some (sorted_members v, [])"
    using scans_readable [OF assms, unfolded scans_def, rule_format, of "[]" "2 * length (dumps v) + 1"]
    by (simp add: ends_number_def del: scan_value.simps)
  ultimately show ?thesis by (simp add: loads_def skip_ws_def del: scan_value.simps)
qed

end
