(* ===== verification/Civil_Time.thy ===== *)
theory Civil_Time
  imports Json_Roundtrip "HOL-Library.Monad_Syntax"
begin

text \<open>
  The instants of \<open>apps/ai\<close>: \<open>_deadline\<close> reads an ISO 8601 date and time with an offset and returns
  the instant in UTC; \<open>isoformat().replace("+00:00", "Z")\<close> of \<open>_plan_json\<close> writes it. An instant is
  the number of microseconds since 0001-01-01T00:00:00Z; the calendar is the proleptic Gregorian
  one of \<open>datetime\<close>.
\<close>

subsection \<open>The calendar\<close>

definition leap_year :: "nat \<Rightarrow> bool" where
  "leap_year y \<longleftrightarrow> y mod 4 = 0 \<and> (y mod 100 \<noteq> 0 \<or> y mod 400 = 0)"

definition days_before_year :: "nat \<Rightarrow> nat" where
  "days_before_year y = (let p = y - 1 in p * 365 + p div 4 - p div 100 + p div 400)"

definition month_lengths :: "bool \<Rightarrow> nat list" where
  "month_lengths leap = [31, if leap then 29 else 28, 31, 30, 31, 30, 31, 31, 30, 31, 30, 31]"

definition days_in_month :: "nat \<Rightarrow> nat \<Rightarrow> nat" where
  "days_in_month y m = month_lengths (leap_year y) ! (m - 1)"

definition days_before_month :: "nat \<Rightarrow> nat \<Rightarrow> nat" where
  "days_before_month y m = sum_list (take (m - 1) (month_lengths (leap_year y)))"

definition ordinal :: "nat \<Rightarrow> nat \<Rightarrow> nat \<Rightarrow> nat" where
  "ordinal y m d = days_before_year y + days_before_month y m + d"

definition valid_date :: "nat \<Rightarrow> nat \<Rightarrow> nat \<Rightarrow> bool" where
  "valid_date y m d \<longleftrightarrow> 1 \<le> y \<and> y \<le> 9999 \<and> 1 \<le> m \<and> m \<le> 12 \<and> 1 \<le> d \<and> d \<le> days_in_month y m"

text \<open>The date of an ordinal: its year is sought upwards from a year that is not too late.\<close>

lemma days_before_Suc:
  assumes "1 \<le> y"
  shows "days_before_year (Suc y) = days_before_year y + (if leap_year y then 366 else 365)"
proof -
  define p a b c where "p = y - 1" and "a = p div 4" and "b = p div 100" and "c = p div 400"
  have y: "y = Suc p" using assms by (simp add: p_def)
  have q: "y div 4 = (if y mod 4 = 0 then Suc a else a)" "y div 100 = (if y mod 100 = 0 then Suc b else b)"
    "y div 400 = (if y mod 400 = 0 then Suc c else c)"
    unfolding y a_def b_def c_def by (rule div_Suc)+
  have "b \<le> a" "y div 100 \<le> y div 4" unfolding a_def b_def by (rule div_le_mono2; simp)+
  then have e: "days_before_year y + b = p * 365 + a + c"
    "days_before_year (Suc y) + y div 100 = Suc p * 365 + y div 4 + y div 400"
    unfolding y by (simp_all add: days_before_year_def Let_def a_def b_def c_def)
  have m: "y mod 400 = 0 \<Longrightarrow> y mod 100 = 0" "y mod 100 = 0 \<Longrightarrow> y mod 4 = 0"
    by presburger+
  consider "y mod 400 = 0" "y mod 100 = 0" "y mod 4 = 0" | "y mod 400 \<noteq> 0" "y mod 100 = 0" "y mod 4 = 0"
    | "y mod 400 \<noteq> 0" "y mod 100 \<noteq> 0" "y mod 4 = 0" | "y mod 400 \<noteq> 0" "y mod 100 \<noteq> 0" "y mod 4 \<noteq> 0"
    by (metis m)
  then show ?thesis using e unfolding leap_year_def q by cases simp_all
qed

lemma days_before_less: "1 \<le> y \<Longrightarrow> days_before_year y < days_before_year (Suc y)"
  by (simp add: days_before_Suc)

function year_from :: "nat \<Rightarrow> nat \<Rightarrow> nat" where
  "year_from y n = (if 1 \<le> y \<and> days_before_year (Suc y) < n then year_from (Suc y) n else y)"
  by pat_completeness auto
termination
  by (relation "measure (\<lambda>(y, n). n - days_before_year y)") (auto intro!: diff_less_mono2 days_before_less intro: less_trans [OF days_before_less])

declare year_from.simps [simp del]

definition year_of :: "nat \<Rightarrow> nat" where
  "year_of n = year_from ((n - 1) div 366 + 1) n"

text \<open>The month and the day of the \<open>d\<close>-th day of a year with these month lengths.\<close>

fun month_day :: "nat list \<Rightarrow> nat \<Rightarrow> nat \<times> nat" where
  "month_day [] d = (1, d)"
| "month_day (l # ls) d = (if d \<le> l then (1, d) else (let (m, e) = month_day ls (d - l) in (Suc m, e)))"

definition date_of :: "nat \<Rightarrow> nat \<times> nat \<times> nat" where
  "date_of n = (let y = year_of n; (m, d) = month_day (month_lengths (leap_year y)) (n - days_before_year y) in (y, m, d))"

lemma year_from_bounds:
  "1 \<le> y \<Longrightarrow> days_before_year y < n \<Longrightarrow>
    y \<le> year_from y n \<and> days_before_year (year_from y n) < n \<and> n \<le> days_before_year (Suc (year_from y n))"
proof (induction y n rule: year_from.induct)
  case (1 y n)
  then show ?case by (subst (1 2 3) year_from.simps) auto
qed

lemma days_before_bound: "days_before_year (Suc k) \<le> 366 * k"
proof (induction k)
  case (Suc k)
  then show ?case using days_before_Suc [of "Suc k"] by simp
qed (simp add: days_before_year_def)

lemma year_of_bounds:
  assumes "1 \<le> n"
  shows "1 \<le> year_of n \<and> days_before_year (year_of n) < n \<and> n \<le> days_before_year (Suc (year_of n))"
proof -
  let ?k = "(n - 1) div 366"
  have "days_before_year (Suc ?k) \<le> 366 * ?k" by (rule days_before_bound)
  also have "\<dots> \<le> n - 1" by simp
  finally have "days_before_year (Suc ?k) < n" using assms by simp
  from year_from_bounds [OF _ this] show ?thesis by (auto simp: year_of_def)
qed

lemma days_before_mono: "1 \<le> y \<Longrightarrow> y \<le> y' \<Longrightarrow> days_before_year y \<le> days_before_year y'"
proof (induction y' rule: nat_induct)
  case (Suc y')
  then show ?case using days_before_less [of y'] by (cases "y = Suc y'") auto
qed simp

lemma month_day_correct:
  "1 \<le> d \<Longrightarrow> d \<le> sum_list ls \<Longrightarrow> month_day ls d = (m, e) \<Longrightarrow>
    1 \<le> m \<and> m \<le> length ls \<and> 1 \<le> e \<and> e \<le> ls ! (m - 1) \<and> sum_list (take (m - 1) ls) + e = d"
proof (induction ls arbitrary: d m e)
  case (Cons l ls)
  show ?case
  proof (cases "d \<le> l")
    case False
    with Cons.prems obtain m' where m: "m = Suc m'" "month_day ls (d - l) = (m', e)"
      by (auto split: prod.splits)
    with Cons.IH [of "d - l" m' e] Cons.prems False have
      "1 \<le> m' \<and> m' \<le> length ls \<and> 1 \<le> e \<and> e \<le> ls ! (m' - 1) \<and> sum_list (take (m' - 1) ls) + e = d - l" by simp
    with m False show ?thesis by (cases m') auto
  qed (use Cons.prems in auto)
qed simp

text \<open>\<open>datetime.date.fromordinal\<close> inverts \<open>toordinal\<close>.\<close>

lemma date_of_ordinal:
  assumes "1 \<le> n" "n \<le> days_before_year 10000" "date_of n = (y, m, d)"
  shows "valid_date y m d \<and> ordinal y m d = n"
proof -
  have y: "y = year_of n" and md: "month_day (month_lengths (leap_year y)) (n - days_before_year y) = (m, d)"
    using assms(3) by (auto simp: date_of_def Let_def split: prod.splits)
  note b = year_of_bounds [OF assms(1), folded y]
  have "y \<le> 9999"
  proof (rule ccontr)
    assume "\<not> y \<le> 9999"
    then have "days_before_year 10000 \<le> days_before_year y" by (intro days_before_mono) auto
    with b assms(2) show False by simp
  qed
  moreover have g: "1 \<le> n - days_before_year y" using b by linarith
  moreover have l: "n - days_before_year y \<le> sum_list (month_lengths (leap_year y))"
    using b days_before_Suc [of y] by (auto simp: month_lengths_def)
  moreover have "length (month_lengths (leap_year y)) = 12" by (simp add: month_lengths_def)
  ultimately show ?thesis
    using month_day_correct [OF g l md] b
    by (auto simp: valid_date_def ordinal_def days_in_month_def days_before_month_def)
qed

lemma take_nth_le:
  assumes "i < length ls"
  shows "sum_list (take i ls) + ls ! i \<le> sum_list (ls :: nat list)"
proof -
  have "sum_list (take (Suc i) ls) \<le> sum_list (take (Suc i) ls) + sum_list (drop (Suc i) ls)" by simp
  also have "\<dots> = sum_list ls" by (metis append_take_drop_id sum_list_append)
  finally show ?thesis using assms by (simp add: take_Suc_conv_app_nth)
qed

lemma ordinal_bounds:
  assumes "valid_date y m d"
  shows "1 \<le> ordinal y m d \<and> ordinal y m d \<le> days_before_year 10000"
proof -
  have v: "1 \<le> y" "y \<le> 9999" "1 \<le> m" "m - 1 < length (month_lengths (leap_year y))" "1 \<le> d" "d \<le> days_in_month y m"
    using assms by (auto simp: valid_date_def month_lengths_def)
  have "days_before_month y m + d \<le> sum_list (month_lengths (leap_year y))"
    using take_nth_le [OF v(4)] v(6) by (simp add: days_before_month_def days_in_month_def)
  also have "\<dots> = (if leap_year y then 366 else 365)" by (simp add: month_lengths_def)
  finally have "ordinal y m d \<le> days_before_year (Suc y)" using days_before_Suc [OF v(1)] by (simp add: ordinal_def)
  also have "\<dots> \<le> days_before_year 10000" using v by (intro days_before_mono) auto
  finally show ?thesis using v(5) by (simp add: ordinal_def)
qed

subsection \<open>Texts\<close>

definition take_number :: "nat \<Rightarrow> ptext \<Rightarrow> (nat \<times> ptext) option" where
  "take_number n t =
     (if n \<le> length t \<and> list_all is_digit (take n t) then Some (number_of (take n t), drop n t) else None)"

definition take_char :: "nat \<Rightarrow> ptext \<Rightarrow> ptext option" where
  "take_char x t = (case t of [] \<Rightarrow> None | c # r \<Rightarrow> if c = x then Some r else None)"

text \<open>\<open>(?:\.[0-9]{1,6})?\<close>, in microseconds.\<close>

definition take_fraction :: "ptext \<Rightarrow> (nat \<times> ptext) option" where
  "take_fraction t = (case take_char 46 t of None \<Rightarrow> Some (0, t) | Some r \<Rightarrow>
     let ds = takeWhile is_digit r in
     if 1 \<le> length ds \<and> length ds \<le> 6
     then Some (number_of ds * 10 ^ (6 - length ds), drop (length ds) r) else None)"

text \<open>\<open>(?:Z|[+-][0-9]{2}:[0-9]{2})\Z\<close> and the range check of the offset, in minutes.\<close>

definition take_offset :: "ptext \<Rightarrow> int option" where
  "take_offset t = (case t of [] \<Rightarrow> None | c # r \<Rightarrow>
     if c = 90 then (if r = [] then Some 0 else None)
     else if c = 43 \<or> c = 45 then do {
       (h, r) \<leftarrow> take_number 2 r;
       r \<leftarrow> take_char 58 r;
       (m, r) \<leftarrow> take_number 2 r;
       if r = [] \<and> h \<le> 23 \<and> m \<le> 59 then Some ((if c = 43 then 1 else -1) * int (h * 60 + m)) else None
     } else None)"

definition day_micros :: nat where
  "day_micros = 86400 * 10 ^ 6"

definition max_instant :: int where
  "max_instant = int (days_before_year 10000 * day_micros)"

definition instant_of :: "nat \<Rightarrow> nat \<Rightarrow> nat \<Rightarrow> nat \<Rightarrow> nat \<Rightarrow> nat \<Rightarrow> nat \<Rightarrow> int" where
  "instant_of y mo d h mi s us = int ((ordinal y mo d - 1) * day_micros + ((h * 60 + mi) * 60 + s) * 10 ^ 6 + us)"

text \<open>\<open>astimezone(timezone.utc)\<close>, which overflows outside the years 1 to 9999.\<close>

definition to_utc :: "int \<Rightarrow> int \<Rightarrow> time option" where
  "to_utc i offset =
     (let u = i - offset * 60 * 10 ^ 6 in if 0 \<le> u \<and> u < max_instant then Some u else None)"

definition parse_instant :: "ptext \<Rightarrow> time option" where
  "parse_instant t = do {
     (y, t) \<leftarrow> take_number 4 t; t \<leftarrow> take_char 45 t;
     (mo, t) \<leftarrow> take_number 2 t; t \<leftarrow> take_char 45 t;
     (d, t) \<leftarrow> take_number 2 t; t \<leftarrow> take_char 84 t;
     (h, t) \<leftarrow> take_number 2 t; t \<leftarrow> take_char 58 t;
     (mi, t) \<leftarrow> take_number 2 t; t \<leftarrow> take_char 58 t;
     (s, t) \<leftarrow> take_number 2 t;
     (us, t) \<leftarrow> take_fraction t;
     offset \<leftarrow> take_offset t;
     if valid_date y mo d \<and> h \<le> 23 \<and> mi \<le> 59 \<and> s \<le> 59
     then to_utc (instant_of y mo d h mi s us) offset else None }"

fun padded :: "nat \<Rightarrow> nat \<Rightarrow> ptext" where
  "padded 0 n = []"
| "padded (Suc k) n = padded k (n div 10) @ [48 + n mod 10]"

definition format_instant :: "time \<Rightarrow> ptext" where
  "format_instant i =
    (let u = nat i; (y, m, d) = date_of (u div day_micros + 1); r = u mod day_micros;
         us = r mod 10 ^ 6; s = r div 10 ^ 6 in
     padded 4 y @ 45 # padded 2 m @ 45 # padded 2 d @ 84 # padded 2 (s div 3600) @ 58
       # padded 2 (s div 60 mod 60) @ 58 # padded 2 (s mod 60)
       @ (if us = 0 then [] else 46 # padded 6 us) @ [90])"

lemma padded_length [simp]: "length (padded k n) = k"
  by (induction k arbitrary: n) simp_all

lemma padded_digits: "list_all is_digit (padded k n)"
  by (induction k arbitrary: n) (auto simp: is_digit_def)

lemma number_of_padded: "n < 10 ^ k \<Longrightarrow> number_of (padded k n) = n"
proof (induction k arbitrary: n)
  case (Suc k)
  then show ?case by (simp add: number_of_append less_mult_imp_div_less mult.commute)
qed (simp add: number_of_def)

lemma take_number_padded: "n < 10 ^ k \<Longrightarrow> take_number k (padded k n @ rest) = Some (n, rest)"
  by (simp add: take_number_def padded_digits number_of_padded)

lemma take_fraction_padded:
  assumes "0 < us" "us < 10 ^ 6"
  shows "take_fraction (46 # padded 6 us @ [90]) = Some (us, [90])"
proof -
  have "takeWhile is_digit (padded 6 us @ [90]) = padded 6 us"
    using padded_digits [of 6 us] by (auto simp: takeWhile_append is_digit_def list_all_iff)
  with assms(2) show ?thesis
    by (simp add: take_fraction_def take_char_def number_of_padded del: padded.simps)
qed

lemma parse_format:
  assumes "0 \<le> i" "i < max_instant"
  shows "parse_instant (format_instant i) = Some i"
proof -
  define u r us s where "u = nat i" and "r = u mod day_micros" and "us = r mod 10 ^ 6" and "s = r div 10 ^ 6"
  obtain y m d where dt: "date_of (u div day_micros + 1) = (y, m, d)" by (cases "date_of (u div day_micros + 1)")
  have "u < days_before_year 10000 * day_micros" using assms by (simp add: u_def max_instant_def nat_less_iff)
  then have "u div day_micros < days_before_year 10000" by (rule less_mult_imp_div_less)
  then have v: "valid_date y m d" "ordinal y m d = u div day_micros + 1"
    using date_of_ordinal [OF _ _ dt] by auto
  have "days_in_month y m \<le> 31" using v(1)
    by (auto simp: valid_date_def days_in_month_def month_lengths_def nth_Cons' )
  then have b: "y < 10 ^ 4" "m < 10 ^ 2" "d < 10 ^ 2" using v(1) by (auto simp: valid_date_def)
  have "r < 86400 * 10 ^ 6" by (simp add: r_def day_micros_def)
  then have "s < 86400" unfolding s_def by (rule less_mult_imp_div_less)
  define h mi sec where "h = s div 60 div 60" and "mi = s div 60 mod 60" and "sec = s mod 60"
  have e: "s div 3600 = h" by (simp add: h_def div_mult2_eq [symmetric])
  have s: "(h * 60 + mi) * 60 + sec = s" by (simp add: h_def mi_def sec_def)
  then have t: "h \<le> 23" "mi \<le> 59" "sec \<le> 59" "us < 10 ^ 6"
    using \<open>s < 86400\<close> by (simp_all add: mi_def sec_def us_def less_Suc_eq_le [symmetric])
  then have t2: "h < 10 ^ 2" "mi < 10 ^ 2" "sec < 10 ^ 2" by simp_all
  have i: "instant_of y m d h mi sec us = i"
  proof -
    have "u div day_micros * day_micros + s * 10 ^ 6 + us = u div day_micros * day_micros + r"
      unfolding s_def us_def add.assoc div_mult_mod_eq ..
    also have "\<dots> = u" by (simp add: r_def)
    finally show ?thesis using assms(1) unfolding instant_of_def s v(2) by (simp add: u_def)
  qed
  define frac where "frac = (if us = 0 then [] else 46 # padded 6 us) @ [90]"
  have f: "take_fraction frac = Some (us, [90])"
    using take_fraction_padded [OF _ t(4)] by (auto simp: frac_def take_fraction_def take_char_def)
  have c: "take_char k (k # r) = Some r" for k r by (simp add: take_char_def)
  note n = take_number_padded [OF b(1)] take_number_padded [OF b(2)] take_number_padded [OF b(3)]
    take_number_padded [OF t2(1)] take_number_padded [OF t2(2)] take_number_padded [OF t2(3)]
  have o: "take_offset [90] = Some 0" by (simp add: take_offset_def)
  show ?thesis
    unfolding parse_instant_def format_instant_def u_def [symmetric] r_def [symmetric] Let_def dt prod.case
      us_def [symmetric] s_def [symmetric] e mi_def [symmetric] sec_def [symmetric] frac_def [symmetric]
    using v(1) t assms by (simp only: n c f o bind.bind_lunit prod.case append_Cons) (simp add: i to_utc_def)
qed

end
