(* ===== verification/Plan_Contract.thy ===== *)
theory Plan_Contract
  imports Schema Civil_Time "HOL-Library.Char_ord"
begin

text \<open>
  \<open>apps/ai/errors.py\<close>, \<open>contracts.py\<close> and \<open>validation.py\<close>: the strict parsing of generator requests,
  of the task plans and feedback analyses a provider returns, and of the plans users edit. Nothing
  is coerced; every rejection is an \<open>AIError\<close> that names at most one field of the contract.
\<close>

subsection \<open>Errors\<close>

datatype ai_code =
    AI_DISABLED | VALIDATION_ERROR | PROVIDER_UNAVAILABLE | PROVIDER_TIMEOUT
  | INVALID_PROVIDER_RESPONSE | RATE_LIMITED | BUDGET_EXCEEDED | PERMISSION_DENIED | STALE_CONTEXT
  | CANCELLED | AI_REFUSED | IDEMPOTENCY_CONFLICT | ALREADY_CONFIRMED | STALE_PROPOSAL | EXPIRED
  | RECOVERY_EXPIRED

text \<open>What the AI services raise: an \<open>AIError\<close>, an exception of another component, or a \<open>RuntimeError\<close>.\<close>

datatype ai_error = AIError ai_code "string list" | Raised error | RuntimeError

definition error_field_names :: "string list" where
  "error_field_names =
    [''brief'', ''target_deadline'', ''reference_time'', ''timezone'', ''source_refs'',
     ''focus'', ''sources'', ''scope'', ''task_id'', ''contract_version'', ''tasks'',
     ''local_ref'', ''parent_ref'', ''title'', ''description'', ''priority'',
     ''proposed_deadline'', ''notes'', ''assumptions'', ''warnings'', ''summary'',
     ''issues'', ''suggested_actions'', ''uncertainty'', ''category'', ''action'',
     ''rationale'', ''limits'', ''control'', ''scenario_id'', ''payload'',
     ''proposal_revision'', ''confirmed'', ''idempotency_key'']"

text \<open>\<open>AIError(code, fields=fields)\<close> keeps the fields of its vocabulary, sorted.\<close>

definition ai_error :: "ai_code \<Rightarrow> string list \<Rightarrow> ai_error" where
  "ai_error code names = AIError code (sort (remdups (filter (\<lambda>f. f \<in> set error_field_names) names)))"

definition fail_field :: "ai_code \<Rightarrow> string \<Rightarrow> ai_error + 'a" where
  "fail_field code field = Inl (ai_error code [field])"

subsection \<open>Contracts\<close>

record limits =
  max_brief_chars :: nat
  max_source_chars :: nat
  max_tasks :: nat
  max_sources :: nat
  max_response_bytes :: nat
  max_request_bytes :: nat
  max_depth :: nat

definition default_limits :: limits where
  "default_limits = \<lparr>max_brief_chars = 6000, max_source_chars = 12000, max_tasks = 20,
     max_sources = 20, max_response_bytes = 65536, max_request_bytes = 32768, max_depth = 3\<rparr>"

text \<open>\<open>__post_init__\<close>.\<close>

definition limits_ok :: "limits \<Rightarrow> bool" where
  "limits_ok l \<longleftrightarrow> 1 \<le> max_brief_chars l \<and> max_brief_chars l \<le> 6000
     \<and> 1 \<le> max_source_chars l \<and> max_source_chars l \<le> 12000
     \<and> 1 \<le> max_tasks l \<and> max_tasks l \<le> 20 \<and> 1 \<le> max_sources l \<and> max_sources l \<le> 20
     \<and> 1 \<le> max_response_bytes l \<and> max_response_bytes l \<le> 65536
     \<and> 1 \<le> max_request_bytes l \<and> max_request_bytes l \<le> 32768 \<and> max_depth l \<le> 3"

definition task_plan_version :: ptext where
  "task_plan_version = ascii ''ai.task-plan.v1''"

definition feedback_version :: ptext where
  "feedback_version = ascii ''ai.feedback.v1''"

definition priority_names :: "(ptext \<times> priority) list" where
  "priority_names = [(ascii ''LOW'', PRI_LOW), (ascii ''MEDIUM'', PRI_MEDIUM), (ascii ''HIGH'', PRI_HIGH),
     (ascii ''URGENT'', PRI_URGENT)]"

datatype issue_category = CAT_CLARITY | CAT_TECHNICAL | CAT_CONTENT | CAT_PROCESS | CAT_OTHER

definition category_names :: "(ptext \<times> issue_category) list" where
  "category_names = [(ascii ''CLARITY'', CAT_CLARITY), (ascii ''TECHNICAL'', CAT_TECHNICAL),
     (ascii ''CONTENT'', CAT_CONTENT), (ascii ''PROCESS'', CAT_PROCESS), (ascii ''OTHER'', CAT_OTHER)]"

record generator_input =
  gi_brief :: ptext
  gi_target_deadline :: "time option"
  gi_reference_time :: "time option"
  gi_timezone :: "ptext option"

record feedback_source =
  fs_ref :: ptext
  fs_text :: ptext
  fs_profile :: uuid
  fs_workspace :: uuid
  fs_task :: uuid
  fs_deleted :: bool

record feedback_input =
  fi_sources :: "feedback_source list"
  fi_focus :: ptext

record task_node =
  tn_ref :: ptext
  tn_parent :: "ptext option"
  tn_title :: ptext
  tn_description :: ptext
  tn_priority :: priority
  tn_deadline :: "time option"
  tn_notes :: ptext

record task_plan =
  tp_version :: ptext
  tp_tasks :: "task_node list"
  tp_assumptions :: "ptext list"
  tp_warnings :: "ptext list"

record feedback_issue =
  is_category :: issue_category
  is_description :: ptext
  is_sources :: "ptext list"

record suggested_action =
  sa_action :: ptext
  sa_priority :: priority
  sa_rationale :: ptext
  sa_sources :: "ptext list"

record feedback_analysis =
  fa_version :: ptext
  fa_summary :: ptext
  fa_issues :: "feedback_issue list"
  fa_actions :: "suggested_action list"
  fa_uncertainty :: ptext
  fa_warnings :: "ptext list"

subsection \<open>Checks of one value\<close>

definition text_ok :: "nat \<Rightarrow> bool \<Rightarrow> ptext \<Rightarrow> bool" where
  "text_ok maximum mandatory t \<longleftrightarrow> length t \<le> maximum \<and> utf8_encodable t \<and> 0 \<notin> set t
     \<and> \<not> (mandatory \<and> strip t = [])"

definition check_text :: "jval \<Rightarrow> string \<Rightarrow> nat \<Rightarrow> ai_code \<Rightarrow> bool \<Rightarrow> ai_error + ptext" where
  "check_text v field maximum code mandatory = (case v of
     VStr t \<Rightarrow> if text_ok maximum mandatory t then Inr t else fail_field code field
   | _ \<Rightarrow> fail_field code field)"

definition check_object ::
  "jval \<Rightarrow> string list \<Rightarrow> string list \<Rightarrow> ai_code \<Rightarrow> string \<Rightarrow> ai_error + (ptext \<times> jval) list" where
  "check_object v names mandatory code path = (case v of
     VObj kvs \<Rightarrow>
       if (\<forall>k\<in>set (map fst kvs). k \<in> set (map ascii names))
         \<and> (\<forall>f\<in>set mandatory. ascii f \<in> set (map fst kvs))
       then Inr kvs else fail_field code path
   | _ \<Rightarrow> fail_field code path)"

text \<open>\<open>data.get(name)\<close>, and \<open>data[name]\<close> once the name is known to be present.\<close>

definition member :: "(ptext \<times> jval) list \<Rightarrow> string \<Rightarrow> jval" where
  "member kvs name = (case map_of kvs (ascii name) of None \<Rightarrow> VNull | Some v \<Rightarrow> v)"

definition check_array :: "jval \<Rightarrow> string \<Rightarrow> nat \<Rightarrow> nat \<Rightarrow> ai_code \<Rightarrow> ai_error + jval list" where
  "check_array v field minimum maximum code = (case v of
     VList vs \<Rightarrow> if minimum \<le> length vs \<and> length vs \<le> maximum then Inr vs else fail_field code field
   | _ \<Rightarrow> fail_field code field)"

definition check_enum :: "jval \<Rightarrow> (ptext \<times> 'a) list \<Rightarrow> string \<Rightarrow> ai_code \<Rightarrow> ai_error + 'a" where
  "check_enum v allowed field code = (case v of
     VStr t \<Rightarrow> (case map_of allowed t of None \<Rightarrow> fail_field code field | Some x \<Rightarrow> Inr x)
   | _ \<Rightarrow> fail_field code field)"

definition check_deadline :: "jval \<Rightarrow> string \<Rightarrow> ai_code \<Rightarrow> ai_error + time option" where
  "check_deadline v field code = (case v of
     VNull \<Rightarrow> Inr None
   | VStr t \<Rightarrow> (case parse_instant t of None \<Rightarrow> fail_field code field | Some i \<Rightarrow> Inr (Some i))
   | _ \<Rightarrow> fail_field code field)"

fun map_raise :: "('a \<Rightarrow> ai_error + 'b) \<Rightarrow> 'a list \<Rightarrow> ai_error + 'b list" where
  "map_raise f [] = Inr []"
| "map_raise f (x # xs) = bindE (f x) (\<lambda>y. bindE (map_raise f xs) (\<lambda>ys. Inr (y # ys)))"

definition check_strings :: "jval \<Rightarrow> string \<Rightarrow> ai_code \<Rightarrow> ai_error + ptext list" where
  "check_strings v field code =
     bindE (check_array v field 0 10 code) (map_raise (\<lambda>x. check_text x field 300 code False))"

text \<open>\<open>_LOCAL_REF\<close> and \<open>_SOURCE_REF\<close>.\<close>

definition digits_after :: "ptext \<Rightarrow> nat \<Rightarrow> ptext \<Rightarrow> bool" where
  "digits_after p maximum t \<longleftrightarrow> (case after p t of None \<Rightarrow> False
     | Some ds \<Rightarrow> ds \<noteq> [] \<and> length ds \<le> maximum \<and> list_all is_digit ds \<and> hd ds \<noteq> 48)"

definition is_local_ref :: "ptext \<Rightarrow> bool" where
  "is_local_ref t \<longleftrightarrow> digits_after (ascii ''item_'') 3 t"

definition is_source_ref :: "ptext \<Rightarrow> bool" where
  "is_source_ref t \<longleftrightarrow> digits_after (ascii ''S'') 2 t"

subsection \<open>Requests\<close>

text \<open>\<open>json.dumps\<close> with the default separators and the members in their order.\<close>

definition spaced :: "ptext list \<Rightarrow> ptext" where
  "spaced ts = (case ts of [] \<Rightarrow> [] | t # ts' \<Rightarrow> t @ concat (map (\<lambda>x. 44 # 32 # x) ts'))"

fun dumps_spaced :: "jval \<Rightarrow> ptext" where
  "dumps_spaced (VList vs) = 91 # spaced (map dumps_spaced vs) @ [93]"
| "dumps_spaced (VObj kvs) =
     123 # spaced (map (\<lambda>(k, v). string_text k @ 58 # 32 # dumps_spaced v) kvs) @ [125]"
| "dumps_spaced v = dumps v"

definition check_request_size :: "jval \<Rightarrow> limits \<Rightarrow> ai_error + unit" where
  "check_request_size v l =
     (if dumps_ok v \<and> utf8_encodable (dumps_spaced v) \<and> utf8_length (dumps_spaced v) \<le> max_request_bytes l
      then Inr () else fail_field VALIDATION_ERROR ''request'')"

text \<open>\<open>zone_known\<close>: the time zone database has the name (\<open>ZoneInfo(name)\<close> returns).\<close>

definition validate_generator_input ::
  "(ptext \<Rightarrow> bool) \<Rightarrow> jval \<Rightarrow> limits \<Rightarrow> ai_error + generator_input" where
  "validate_generator_input zone_known v l =
     bindE (check_object v [''brief'', ''target_deadline'', ''reference_time'', ''timezone''] [''brief'']
       VALIDATION_ERROR ''request'') (\<lambda>d.
     bindE (check_text (member d ''brief'') ''brief'' (max_brief_chars l) VALIDATION_ERROR True) (\<lambda>brief.
     bindE (check_deadline (member d ''target_deadline'') ''target_deadline'' VALIDATION_ERROR) (\<lambda>deadline.
     bindE (check_deadline (member d ''reference_time'') ''reference_time'' VALIDATION_ERROR) (\<lambda>reference.
     bindE (if member d ''timezone'' = VNull then Inr None
       else bindE (check_text (member d ''timezone'') ''timezone'' 128 VALIDATION_ERROR True) (\<lambda>name.
         if zone_known name then Inr (Some name) else fail_field VALIDATION_ERROR ''timezone'')) (\<lambda>zone.
     bindE (check_request_size v l) (\<lambda>_.
     Inr \<lparr>gi_brief = brief, gi_target_deadline = deadline, gi_reference_time = reference,
          gi_timezone = zone\<rparr>))))))"

text \<open>\<open>_strict_json\<close>.\<close>

definition strict_json :: "ptext \<Rightarrow> limits \<Rightarrow> ai_error + jval" where
  "strict_json raw l =
     (if length raw \<le> max_response_bytes l \<and> utf8_encodable raw \<and> utf8_length raw \<le> max_response_bytes l
      then (case loads raw of None \<Rightarrow> fail_field INVALID_PROVIDER_RESPONSE ''response'' | Some v \<Rightarrow> Inr v)
      else fail_field INVALID_PROVIDER_RESPONSE ''response'')"

subsection \<open>Feedback sources\<close>

record scope =
  sc_actor :: uuid
  sc_profile :: uuid
  sc_workspace :: uuid

text \<open>The loop of \<open>_sources\<close>, with the sources accepted so far by their reference and their total length.\<close>

fun take_sources ::
  "scope \<Rightarrow> uuid \<Rightarrow> limits \<Rightarrow> ai_code \<Rightarrow> (ptext \<times> feedback_source) list \<Rightarrow> nat \<Rightarrow> feedback_source list
   \<Rightarrow> ai_error + (ptext \<times> feedback_source) list" where
  "take_sources scope task l code acc used [] = Inr acc"
| "take_sources scope task l code acc used (s # ss) =
     (if \<not> is_source_ref (fs_ref s) \<or> fs_ref s \<in> set (map fst acc) \<or> fs_deleted s
        \<or> fs_profile s \<noteq> sc_profile scope \<or> fs_workspace s \<noteq> sc_workspace scope \<or> fs_task s \<noteq> task
      then fail_field code ''sources''
      else bindE (check_text (VStr (fs_text s)) ''sources'' (max_source_chars l) code True) (\<lambda>t.
        if max_source_chars l < used + length t then fail_field code ''sources''
        else take_sources scope task l code (acc @ [(fs_ref s, s)]) (used + length t) ss))"

definition check_sources ::
  "feedback_source list \<Rightarrow> scope \<Rightarrow> uuid \<Rightarrow> limits \<Rightarrow> ai_code \<Rightarrow> ai_error + (ptext \<times> feedback_source) list" where
  "check_sources ss scope task l code =
     (if 1 \<le> length ss \<and> length ss \<le> max_sources l then take_sources scope task l code [] 0 ss
      else fail_field code ''sources'')"

definition check_citations ::
  "jval \<Rightarrow> (ptext \<times> feedback_source) list \<Rightarrow> nat \<Rightarrow> ai_code \<Rightarrow> ai_error + ptext list" where
  "check_citations v available maximum code =
     bindE (check_array v ''source_refs'' 1 maximum code) (\<lambda>vs.
     bindE (map_raise (\<lambda>r. case r of
         VStr t \<Rightarrow> if t \<in> set (map fst available) then Inr t else fail_field code ''source_refs''
       | _ \<Rightarrow> fail_field code ''source_refs'') vs) (\<lambda>refs.
     if distinct refs then Inr refs else fail_field code ''source_refs''))"

text \<open>\<open>data.get("focus", "")\<close>; the citations are among the keys of \<open>available\<close>.\<close>

definition validate_feedback_input ::
  "jval \<Rightarrow> feedback_source list \<Rightarrow> scope \<Rightarrow> uuid \<Rightarrow> limits \<Rightarrow> ai_error + feedback_input" where
  "validate_feedback_input v sources scope task l =
     bindE (check_object v [''source_refs'', ''focus''] [''source_refs''] VALIDATION_ERROR ''request'') (\<lambda>d.
     bindE (check_sources sources scope task l VALIDATION_ERROR) (\<lambda>available.
     bindE (check_citations (member d ''source_refs'') available (max_sources l) VALIDATION_ERROR) (\<lambda>refs.
     bindE (case map_of d (ascii ''focus'') of None \<Rightarrow> Inr []
       | Some f \<Rightarrow> check_text f ''focus'' 1000 VALIDATION_ERROR False) (\<lambda>focus.
     bindE (check_request_size v l) (\<lambda>_.
     Inr \<lparr>fi_sources = map (\<lambda>r. the (map_of available r)) refs, fi_focus = focus\<rparr>)))))"

subsection \<open>Task plans\<close>

text \<open>\<open>None\<close> or a text that is a local reference.\<close>

definition check_parent :: "jval \<Rightarrow> ai_code \<Rightarrow> ai_error + ptext option" where
  "check_parent v code = (case v of
     VNull \<Rightarrow> Inr None
   | VStr t \<Rightarrow> if is_local_ref t then Inr (Some t) else fail_field code ''parent_ref''
   | _ \<Rightarrow> fail_field code ''parent_ref'')"

text \<open>A local reference that no node before has.\<close>

definition check_ref :: "ptext list \<Rightarrow> jval \<Rightarrow> ai_code \<Rightarrow> ai_error + ptext" where
  "check_ref refs v code = (case v of
     VStr t \<Rightarrow> if is_local_ref t \<and> t \<notin> set refs then Inr t else fail_field code ''local_ref''
   | _ \<Rightarrow> fail_field code ''local_ref'')"

definition node_fields :: "string list" where
  "node_fields = [''local_ref'', ''parent_ref'', ''title'', ''description'', ''priority'',
     ''proposed_deadline'', ''notes'']"

text \<open>One turn of the loop over \<open>data["tasks"]\<close>; \<open>refs\<close> are the references of the nodes before.\<close>

definition parse_node :: "ptext list \<Rightarrow> jval \<Rightarrow> ai_code \<Rightarrow> ai_error + task_node" where
  "parse_node refs v code =
     bindE (check_object v node_fields node_fields code ''tasks'') (\<lambda>d.
     bindE (check_ref refs (member d ''local_ref'') code) (\<lambda>ref.
     bindE (check_parent (member d ''parent_ref'') code) (\<lambda>parent.
     bindE (check_text (member d ''title'') ''title'' 255 code True) (\<lambda>title.
     bindE (check_text (member d ''description'') ''description'' 2000 code False) (\<lambda>description.
     bindE (check_enum (member d ''priority'') priority_names ''priority'' code) (\<lambda>priority.
     bindE (check_deadline (member d ''proposed_deadline'') ''proposed_deadline'' code) (\<lambda>deadline.
     bindE (check_text (member d ''notes'') ''notes'' 500 code False) (\<lambda>notes.
     Inr \<lparr>tn_ref = ref, tn_parent = parent, tn_title = title, tn_description = description,
          tn_priority = priority, tn_deadline = deadline, tn_notes = notes\<rparr>))))))))"

fun parse_nodes :: "ptext list \<Rightarrow> jval list \<Rightarrow> ai_code \<Rightarrow> ai_error + task_node list" where
  "parse_nodes refs [] code = Inr []"
| "parse_nodes refs (v # vs) code =
     bindE (parse_node refs v code) (\<lambda>n.
     bindE (parse_nodes (refs @ [tn_ref n]) vs code) (\<lambda>ns. Inr (n # ns)))"

text \<open>The dictionary \<open>refs\<close> of the nodes of a plan.\<close>

definition node_of :: "task_node list \<Rightarrow> ptext \<Rightarrow> task_node option" where
  "node_of ns r = map_of (map (\<lambda>n. (tn_ref n, n)) ns) r"

text \<open>The \<open>while current.parent_ref is not None\<close> loop that follows the parents of one node.\<close>

function walk_parents ::
  "nat \<Rightarrow> task_node list \<Rightarrow> ai_code \<Rightarrow> ptext list \<Rightarrow> nat \<Rightarrow> task_node \<Rightarrow> ai_error + unit" where
  "walk_parents limit ns code visited depth current =
     (case tn_parent current of None \<Rightarrow> Inr ()
      | Some p \<Rightarrow>
          if tn_ref current \<in> set visited then fail_field code ''parent_ref''
          else (case node_of ns p of None \<Rightarrow> fail_field code ''parent_ref''
            | Some parent \<Rightarrow>
                if limit < depth + 1 then fail_field code ''parent_ref''
                else walk_parents limit ns code (tn_ref current # visited) (depth + 1) parent))"
  by pat_completeness auto
termination
  by (relation "measure (\<lambda>(limit, ns, code, visited, depth, current). limit - depth)") auto

declare walk_parents.simps [simp del]

definition plan_fields :: "string list" where
  "plan_fields = [''contract_version'', ''tasks'', ''assumptions'', ''warnings'']"

definition plan_of :: "jval \<Rightarrow> limits \<Rightarrow> ai_code \<Rightarrow> ai_error + task_plan" where
  "plan_of v l code =
     bindE (check_object v plan_fields plan_fields code ''response'') (\<lambda>d.
     bindE (check_enum (member d ''contract_version'') [(task_plan_version, ())] ''contract_version'' code) (\<lambda>_.
     bindE (check_array (member d ''tasks'') ''tasks'' 1 (max_tasks l) code) (\<lambda>items.
     bindE (parse_nodes [] items code) (\<lambda>ns.
     bindE (map_raise (walk_parents (max_depth l) ns code [] 0) ns) (\<lambda>_.
     bindE (check_strings (member d ''assumptions'') ''assumptions'' code) (\<lambda>assumptions.
     bindE (check_strings (member d ''warnings'') ''warnings'' code) (\<lambda>warnings.
     Inr \<lparr>tp_version = task_plan_version, tp_tasks = ns, tp_assumptions = assumptions,
          tp_warnings = warnings\<rparr>)))))))"

definition parse_task_plan :: "ptext \<Rightarrow> limits \<Rightarrow> ai_error + task_plan" where
  "parse_task_plan raw l = bindE (strict_json raw l) (\<lambda>v. plan_of v l INVALID_PROVIDER_RESPONSE)"

subsection \<open>Feedback analyses\<close>

definition parse_issue :: "(ptext \<times> feedback_source) list \<Rightarrow> ai_code \<Rightarrow> jval \<Rightarrow> ai_error + feedback_issue" where
  "parse_issue available code v =
     bindE (check_object v [''category'', ''description'', ''source_refs'']
       [''category'', ''description'', ''source_refs''] code ''issues'') (\<lambda>d.
     bindE (check_enum (member d ''category'') category_names ''category'' code) (\<lambda>category.
     bindE (check_text (member d ''description'') ''description'' 500 code True) (\<lambda>description.
     bindE (check_citations (member d ''source_refs'') available 5 code) (\<lambda>refs.
     Inr \<lparr>is_category = category, is_description = description, is_sources = refs\<rparr>))))"

definition parse_action :: "(ptext \<times> feedback_source) list \<Rightarrow> ai_code \<Rightarrow> jval \<Rightarrow> ai_error + suggested_action" where
  "parse_action available code v =
     bindE (check_object v [''action'', ''priority'', ''rationale'', ''source_refs'']
       [''action'', ''priority'', ''rationale'', ''source_refs''] code ''suggested_actions'') (\<lambda>d.
     bindE (check_text (member d ''action'') ''action'' 500 code True) (\<lambda>act.
     bindE (check_enum (member d ''priority'') priority_names ''priority'' code) (\<lambda>priority.
     bindE (check_text (member d ''rationale'') ''rationale'' 300 code False) (\<lambda>rationale.
     bindE (check_citations (member d ''source_refs'') available 5 code) (\<lambda>refs.
     Inr \<lparr>sa_action = act, sa_priority = priority, sa_rationale = rationale, sa_sources = refs\<rparr>)))))"

definition analysis_fields :: "string list" where
  "analysis_fields = [''contract_version'', ''summary'', ''issues'', ''suggested_actions'',
     ''uncertainty'', ''warnings'']"

definition parse_feedback_analysis ::
  "ptext \<Rightarrow> feedback_source list \<Rightarrow> scope \<Rightarrow> uuid \<Rightarrow> limits \<Rightarrow> ai_error + feedback_analysis" where
  "parse_feedback_analysis raw sources scope task l =
    (let code = INVALID_PROVIDER_RESPONSE in
     bindE (check_sources sources scope task l code) (\<lambda>available.
     bindE (strict_json raw l) (\<lambda>v.
     bindE (check_object v analysis_fields analysis_fields code ''response'') (\<lambda>d.
     bindE (check_enum (member d ''contract_version'') [(feedback_version, ())] ''contract_version'' code) (\<lambda>_.
     bindE (check_text (member d ''summary'') ''summary'' 1600 code True) (\<lambda>summary.
     bindE (bindE (check_array (member d ''issues'') ''issues'' 0 10 code) (map_raise (parse_issue available code)))
       (\<lambda>issues.
     bindE (bindE (check_array (member d ''suggested_actions'') ''suggested_actions'' 0 10 code)
       (map_raise (parse_action available code))) (\<lambda>actions.
     bindE (check_text (member d ''uncertainty'') ''uncertainty'' 600 code False) (\<lambda>uncertainty.
     bindE (check_strings (member d ''warnings'') ''warnings'' code) (\<lambda>warnings.
     Inr \<lparr>fa_version = feedback_version, fa_summary = summary, fa_issues = issues, fa_actions = actions,
          fa_uncertainty = uncertainty, fa_warnings = warnings\<rparr>))))))))))"

subsection \<open>Plans as JSON\<close>

text \<open>\<open>_canonical\<close> and \<open>_plan_json\<close> of \<open>durable_services.py\<close>.\<close>

definition canonical :: "jval \<Rightarrow> ai_error + ptext" where
  "canonical v =
     (if dumps_ok v \<and> utf8_encodable (dumps v) \<and> utf8_length (dumps v) \<le> max_request_bytes default_limits
      then Inr (dumps v) else fail_field VALIDATION_ERROR ''payload'')"

fun priority_text :: "priority \<Rightarrow> ptext" where
  "priority_text PRI_LOW = ascii ''LOW''"
| "priority_text PRI_MEDIUM = ascii ''MEDIUM''"
| "priority_text PRI_HIGH = ascii ''HIGH''"
| "priority_text PRI_URGENT = ascii ''URGENT''"

definition deadline_json :: "time option \<Rightarrow> jval" where
  "deadline_json d = (case d of None \<Rightarrow> VNull | Some i \<Rightarrow> VStr (format_instant i))"

definition parent_json :: "ptext option \<Rightarrow> jval" where
  "parent_json p = (case p of None \<Rightarrow> VNull | Some t \<Rightarrow> VStr t)"

definition node_json :: "task_node \<Rightarrow> jval" where
  "node_json n = VObj
    [(ascii ''local_ref'', VStr (tn_ref n)), (ascii ''parent_ref'', parent_json (tn_parent n)),
     (ascii ''title'', VStr (tn_title n)), (ascii ''description'', VStr (tn_description n)),
     (ascii ''priority'', VStr (priority_text (tn_priority n))),
     (ascii ''proposed_deadline'', deadline_json (tn_deadline n)), (ascii ''notes'', VStr (tn_notes n))]"

definition plan_json :: "task_plan \<Rightarrow> jval" where
  "plan_json p = VObj
    [(ascii ''contract_version'', VStr (tp_version p)), (ascii ''tasks'', VList (map node_json (tp_tasks p))),
     (ascii ''assumptions'', VList (map VStr (tp_assumptions p))),
     (ascii ''warnings'', VList (map VStr (tp_warnings p)))]"

text \<open>\<open>_edited_plan\<close>: an \<open>AIError\<close> of the canonical encoding or of the parser names the payload.\<close>

definition edited_plan :: "jval \<Rightarrow> ai_error + task_plan \<times> jval" where
  "edited_plan payload = (case payload of
     VObj kvs \<Rightarrow>
       (case bindE (canonical payload) (\<lambda>t. parse_task_plan t default_limits) of
          Inl e \<Rightarrow> fail_field VALIDATION_ERROR ''payload''
        | Inr plan \<Rightarrow> Inr (plan, plan_json plan))
   | _ \<Rightarrow> fail_field VALIDATION_ERROR ''payload'')"

end
