(* ===== verification/Fixture_Service.thy ===== *)
theory Fixture_Service
  imports Plan_Contract
begin

text \<open>
  \<open>apps/ai/providers.py\<close> and \<open>services.py\<close>: the port of a provider, its one deterministic adapter,
  and the application service that authorizes, validates, calls the adapter, parses its answer and
  authorizes again. The access port is an argument, as in the code; \<open>deny_access\<close> is its default.
\<close>

subsection \<open>Control of a request\<close>

text \<open>
  \<open>rc_cancelled k\<close> and \<open>rc_clock k\<close> are the answers of \<open>is_cancelled()\<close> and \<open>clock()\<close> at the \<open>k\<close>-th
  \<open>check()\<close> of the request; \<open>None\<close> is an answer that is not a \<open>bool\<close>, not a finite number. Times are in
  the clock's resolution.
\<close>

record request_control =
  rc_deadline :: "int option"
  rc_cancelled :: "nat \<Rightarrow> bool option"
  rc_clock :: "nat \<Rightarrow> int option"

definition finite_time :: "int option \<Rightarrow> ai_error + int" where
  "finite_time v = (case v of None \<Rightarrow> fail_field VALIDATION_ERROR ''control''
     | Some t \<Rightarrow> if 0 \<le> t then Inr t else fail_field VALIDATION_ERROR ''control'')"

definition check_control :: "request_control \<Rightarrow> nat \<Rightarrow> ai_error + unit" where
  "check_control c k = (case rc_cancelled c k of
     None \<Rightarrow> fail_field VALIDATION_ERROR ''control''
   | Some True \<Rightarrow> Inl (ai_error CANCELLED [])
   | Some False \<Rightarrow> (case rc_deadline c of None \<Rightarrow> Inr ()
       | Some d \<Rightarrow> bindE (finite_time (rc_clock c k)) (\<lambda>now.
           if d \<le> now then Inl (ai_error PROVIDER_TIMEOUT []) else Inr ())))"

definition default_control :: request_control where
  "default_control = \<lparr>rc_deadline = None, rc_cancelled = (\<lambda>_. Some False), rc_clock = (\<lambda>_. None)\<rparr>"

subsection \<open>The fixture adapter\<close>

datatype feature = TASK_PLAN | FEEDBACK_ANALYSIS

datatype fixture_scenario =
    SC_VALID | SC_TASK_TREE | SC_UNAVAILABLE | SC_TIMEOUT | SC_MALFORMED | SC_INVALID | SC_EMPTY
  | SC_REFUSAL | SC_UNEXPECTED

datatype provider_input = Generator generator_input | Feedback feedback_input

definition new_adapter :: "string \<Rightarrow> fixture_scenario \<Rightarrow> ai_error + fixture_scenario" where
  "new_adapter environment scenario =
     (if environment \<in> {''test'', ''development''} then Inr scenario else Inl (ai_error AI_DISABLED []))"

definition fixture_title :: ptext where
  "fixture_title =
     ascii ''Ki'' @ [7875] @ ascii ''m tra ph'' @ [7909] @ ascii '' '' @ [273, 7873]
     @ ascii '' '' @ [8212] @ ascii '' v'' @ [237] @ ascii '' d'' @ [7909]
     @ ascii '' synthetic''"

definition fixture_description :: ptext where
  "fixture_description =
     ascii ''Ki'' @ [7875] @ ascii ''m tra kh'' @ [7843] @ ascii '' n'' @ [259]
     @ ascii ''ng '' @ [273, 7885] @ ascii ''c ph'' @ [7909] @ ascii '' '' @ [273, 7873]
     @ ascii '' c'' @ [7911] @ ascii ''a video gi'' @ [7843] @ ascii '' l'' @ [7853]
     @ ascii ''p.''"

definition fixture_warning :: ptext where
  "fixture_warning =
     ascii ''Demo fixture c'' @ [7889] @ ascii '' '' @ [273, 7883] @ ascii ''nh, kh''
     @ [244] @ ascii ''ng c'' @ [243] @ ascii '' model AI x'' @ [7917] @ ascii '' l''
     @ [253] @ ascii '' brief.''"

definition fixture_subtitle :: ptext where
  "fixture_subtitle =
     ascii ''Ki'' @ [7875] @ ascii ''m tra t'' @ [432, 417] @ ascii ''ng ph'' @ [7843]
     @ ascii ''n '' @ [8212] @ ascii '' subtask synthetic''"

definition fixture_subdescription :: ptext where
  "fixture_subdescription =
     ascii ''Ki'' @ [7875] @ ascii ''m tra tr'' @ [234] @ ascii ''n n'' @ [7873]
     @ ascii ''n s'' @ [225] @ ascii ''ng trong v'' @ [237] @ ascii '' d'' @ [7909]
     @ ascii '' m'' @ [244] @ ascii '' ph'' @ [7887] @ ascii ''ng.''"

definition fixture_summary :: ptext where
  "fixture_summary =
     ascii ''V'' @ [237] @ ascii '' d'' @ [7909] @ ascii '' synthetic: ki'' @ [7875]
     @ ascii ''m tra '' @ [273, 7897] @ ascii '' t'' @ [432, 417] @ ascii ''ng ph''
     @ [7843] @ ascii ''n ph'' @ [7909] @ ascii '' '' @ [273, 7873] @ ascii ''.''"

definition fixture_issue :: ptext where
  "fixture_issue =
     ascii ''V'' @ [237] @ ascii '' d'' @ [7909] @ ascii '' v'' @ [7873] @ ascii '' kh''
     @ [7843] @ ascii '' n'' @ [259] @ ascii ''ng '' @ [273, 7885] @ ascii ''c.''"

definition fixture_action :: ptext where
  "fixture_action =
     ascii ''Ki'' @ [7875] @ ascii ''m tra t'' @ [432, 417] @ ascii ''ng ph'' @ [7843]
     @ ascii ''n ph'' @ [7909] @ ascii '' '' @ [273, 7873] @ ascii ''.''"

definition fixture_rationale :: ptext where
  "fixture_rationale =
     ascii ''G'' @ [7907] @ ascii ''i '' @ [253] @ ascii '' synthetic c'' @ [7889]
     @ ascii '' '' @ [273, 7883] @ ascii ''nh.''"

definition fixture_uncertainty :: ptext where
  "fixture_uncertainty =
     ascii ''Kh'' @ [244] @ ascii ''ng ph'' @ [226] @ ascii ''n t'' @ [237]
     @ ascii ''ch n'' @ [7897] @ ascii ''i dung ngu'' @ [7891] @ ascii ''n b'' @ [7857]
     @ ascii ''ng model; ch'' @ [7881] @ ascii '' fixture synthetic.''"

definition fixture_notice :: ptext where
  "fixture_notice =
     ascii ''Demo fixture '' @ [8212] @ ascii '' kh'' @ [244] @ ascii ''ng g'' @ [7885]
     @ ascii ''i AI.''"

definition fixture_task :: "string \<Rightarrow> jval \<Rightarrow> ptext \<Rightarrow> ptext \<Rightarrow> jval" where
  "fixture_task ref parent title description = VObj
    [(ascii ''local_ref'', VStr (ascii ref)), (ascii ''parent_ref'', parent), (ascii ''title'', VStr title),
     (ascii ''description'', VStr description), (ascii ''priority'', VStr (ascii ''MEDIUM'')),
     (ascii ''proposed_deadline'', VNull), (ascii ''notes'', VStr [])]"

definition fixture_plan :: ptext where
  "fixture_plan = dumps_spaced (VObj
    [(ascii ''contract_version'', VStr (ascii ''ai.task-plan.v1'')),
     (ascii ''tasks'', VList [fixture_task ''item_1'' VNull fixture_title fixture_description]),
     (ascii ''assumptions'', VList []), (ascii ''warnings'', VList [VStr fixture_warning])])"

definition fixture_analysis :: "ptext \<Rightarrow> ptext" where
  "fixture_analysis source_ref = dumps_spaced (VObj
    [(ascii ''contract_version'', VStr (ascii ''ai.feedback.v1'')), (ascii ''summary'', VStr fixture_summary),
     (ascii ''issues'', VList [VObj
       [(ascii ''category'', VStr (ascii ''TECHNICAL'')), (ascii ''description'', VStr fixture_issue),
        (ascii ''source_refs'', VList [VStr source_ref])]]),
     (ascii ''suggested_actions'', VList [VObj
       [(ascii ''action'', VStr fixture_action), (ascii ''priority'', VStr (ascii ''MEDIUM'')),
        (ascii ''rationale'', VStr fixture_rationale), (ascii ''source_refs'', VList [VStr source_ref])]]),
     (ascii ''uncertainty'', VStr fixture_uncertainty), (ascii ''warnings'', VList [VStr fixture_notice])])"

text \<open>\<open>tree["tasks"].append(...)\<close> on the decoded text.\<close>

definition append_member :: "ptext \<Rightarrow> jval \<Rightarrow> ptext \<times> jval \<Rightarrow> ptext \<times> jval" where
  "append_member k v kv = (case kv of (k', VList vs) \<Rightarrow> if k' = k then (k', VList (vs @ [v])) else kv | _ \<Rightarrow> kv)"

definition fixture_tree :: "ptext \<Rightarrow> ai_error + ptext" where
  "fixture_tree raw = (case loads raw of
     Some (VObj kvs) \<Rightarrow> Inr (dumps_spaced (VObj (map (append_member (ascii ''tasks'')
       (fixture_task ''item_2'' (VStr (ascii ''item_1'')) fixture_subtitle fixture_subdescription)) kvs)))
   | _ \<Rightarrow> Inl RuntimeError)"

definition fixture_text :: "fixture_scenario \<Rightarrow> feature \<Rightarrow> provider_input \<Rightarrow> ai_error + ptext" where
  "fixture_text scenario feat inp = (case scenario of
     SC_UNAVAILABLE \<Rightarrow> Inl (ai_error PROVIDER_UNAVAILABLE [])
   | SC_TIMEOUT \<Rightarrow> Inl (ai_error PROVIDER_TIMEOUT [])
   | SC_REFUSAL \<Rightarrow> Inl (ai_error AI_REFUSED [])
   | SC_UNEXPECTED \<Rightarrow> Inl RuntimeError
   | SC_MALFORMED \<Rightarrow> Inr (123 # string_text (ascii ''contract_version'') @ [58])
   | SC_EMPTY \<Rightarrow> Inr []
   | SC_INVALID \<Rightarrow> Inr (dumps (VObj [(ascii ''contract_version'', VStr (ascii ''unsupported''))]))
   | _ \<Rightarrow> (case (feat, inp) of
       (TASK_PLAN, _) \<Rightarrow> if scenario = SC_TASK_TREE then fixture_tree fixture_plan else Inr fixture_plan
     | (FEEDBACK_ANALYSIS, Feedback f) \<Rightarrow> (case fi_sources f of
           [] \<Rightarrow> fail_field VALIDATION_ERROR ''source_refs''
         | s # _ \<Rightarrow> Inr (fixture_analysis (fs_ref s)))
     | _ \<Rightarrow> Inl (ai_error VALIDATION_ERROR [])))"

text \<open>\<open>FixtureAdapter.generate\<close>, whose two checks of the control are the \<open>k\<close>-th and the next.\<close>

definition adapter_generate ::
  "fixture_scenario \<Rightarrow> feature \<Rightarrow> provider_input \<Rightarrow> request_control \<Rightarrow> nat \<Rightarrow> ai_error + ptext" where
  "adapter_generate scenario feat inp c k =
     bindE (check_control c k) (\<lambda>_.
     bindE (case (feat, inp) of
         (TASK_PLAN, Generator _) \<Rightarrow> Inr () | (FEEDBACK_ANALYSIS, Feedback _) \<Rightarrow> Inr ()
       | _ \<Rightarrow> Inl (ai_error VALIDATION_ERROR [])) (\<lambda>_.
     bindE (fixture_text scenario feat inp) (\<lambda>raw.
     bindE (check_control c (k + 1)) (\<lambda>_. Inr raw))))"

subsection \<open>The application service\<close>

text \<open>
  \<open>AccessPort\<close>: the answers of \<open>authorize\<close> and \<open>feedback_sources\<close> at the \<open>k\<close>-th call of the request;
  \<open>Inr False\<close> is an answer other than \<open>None\<close>.
\<close>

record access_port =
  port_authorize :: "nat \<Rightarrow> scope \<Rightarrow> feature \<Rightarrow> ai_error + bool"
  port_sources :: "nat \<Rightarrow> scope \<Rightarrow> uuid \<Rightarrow> ai_error + feedback_source list"

definition deny_access :: access_port where
  "deny_access = \<lparr>port_authorize = (\<lambda>_ _ _. Inl (ai_error PERMISSION_DENIED [])),
     port_sources = (\<lambda>_ _ _. Inl (ai_error PERMISSION_DENIED []))\<rparr>"

record fixture_service =
  sv_enabled :: bool
  sv_scenario :: fixture_scenario
  sv_access :: access_port
  sv_limits :: limits

definition new_service ::
  "string \<Rightarrow> bool \<Rightarrow> access_port option \<Rightarrow> fixture_scenario option \<Rightarrow> limits option \<Rightarrow> ai_error + fixture_service" where
  "new_service environment enabled access adapter l =
     bindE (case adapter of None \<Rightarrow> new_adapter environment SC_VALID | Some a \<Rightarrow> Inr a) (\<lambda>a.
     if environment \<in> {''test'', ''development''}
     then Inr \<lparr>sv_enabled = enabled, sv_scenario = a,
       sv_access = (case access of None \<Rightarrow> deny_access | Some p \<Rightarrow> p),
       sv_limits = (case l of None \<Rightarrow> default_limits | Some l \<Rightarrow> l)\<rparr>
     else Inl (ai_error AI_DISABLED []))"

text \<open>\<open>_authorize\<close>, the \<open>j\<close>-th of the request, whose checks of the control are the \<open>k\<close>-th and the next.\<close>

definition authorize_request ::
  "fixture_service \<Rightarrow> scope \<Rightarrow> feature \<Rightarrow> request_control \<Rightarrow> nat \<Rightarrow> nat \<Rightarrow> ai_error + unit" where
  "authorize_request sv scope feat c j k =
     bindE (check_control c k) (\<lambda>_.
     if \<not> sv_enabled sv then Inl (ai_error AI_DISABLED [])
     else bindE (port_authorize (sv_access sv) j scope feat) (\<lambda>granted.
       if \<not> granted then Inl (ai_error PERMISSION_DENIED []) else check_control c (k + 1)))"

text \<open>\<open>except AIError: raise\<close>, \<open>except Exception: raise AIError(PROVIDER_UNAVAILABLE)\<close>.\<close>

fun shielded :: "ai_error + 'a \<Rightarrow> ai_error + 'a" where
  "shielded (Inr x) = Inr x"
| "shielded (Inl (AIError code names)) = Inl (AIError code names)"
| "shielded (Inl _) = Inl (ai_error PROVIDER_UNAVAILABLE [])"

definition service_generate ::
  "fixture_service \<Rightarrow> (ptext \<Rightarrow> bool) \<Rightarrow> scope \<Rightarrow> jval \<Rightarrow> request_control \<Rightarrow> ai_error + task_plan" where
  "service_generate sv zone_known scope payload c = shielded (
     bindE (authorize_request sv scope TASK_PLAN c 0 0) (\<lambda>_.
     bindE (validate_generator_input zone_known payload (sv_limits sv)) (\<lambda>inp.
     bindE (adapter_generate (sv_scenario sv) TASK_PLAN (Generator inp) c 2) (\<lambda>raw.
     bindE (parse_task_plan raw (sv_limits sv)) (\<lambda>plan.
     bindE (authorize_request sv scope TASK_PLAN c 1 4) (\<lambda>_. Inr plan))))))"

definition service_analyze ::
  "fixture_service \<Rightarrow> scope \<Rightarrow> uuid \<Rightarrow> jval \<Rightarrow> request_control \<Rightarrow> ai_error + feedback_analysis" where
  "service_analyze sv scope task payload c = shielded (
     bindE (authorize_request sv scope FEEDBACK_ANALYSIS c 0 0) (\<lambda>_.
     bindE (port_sources (sv_access sv) 0 scope task) (\<lambda>sources.
     bindE (validate_feedback_input payload sources scope task (sv_limits sv)) (\<lambda>validated.
     bindE (adapter_generate (sv_scenario sv) FEEDBACK_ANALYSIS (Feedback validated) c 2) (\<lambda>raw.
     bindE (parse_feedback_analysis raw (fi_sources validated) scope task (sv_limits sv)) (\<lambda>analysis.
     bindE (authorize_request sv scope FEEDBACK_ANALYSIS c 1 4) (\<lambda>_.
     bindE (port_sources (sv_access sv) 1 scope task) (\<lambda>current_sources.
     case validate_feedback_input payload current_sources scope task (sv_limits sv) of
       Inl _ \<Rightarrow> Inl (ai_error STALE_CONTEXT [])
     | Inr current \<Rightarrow>
         if fi_sources current \<noteq> fi_sources validated then Inl (ai_error STALE_CONTEXT [])
         else Inr analysis))))))))"

end
