(* ===== verification/Proposal_Services.thy ===== *)
theory Proposal_Services
  imports Fixture_Service Task_Services "HOL-Library.AList"
begin

text \<open>
  \<open>apps/ai/models.py\<close> and \<open>durable_services.py\<close>: proposals and operations as rows beside the
  database of the other components, and the lifecycle of a proposal: generate, retrieve, confirm.
  A service returns the state after its transaction; one that raises leaves the state as it was.
\<close>

subsection \<open>Rows\<close>

datatype proposal_status = AP_AVAILABLE | AP_CONFIRMED
datatype ai_operation_kind = OP_GENERATE | OP_CONFIRM

text \<open>\<open>created_tasks\<close> maps a local reference to \<open>str(task.pk)\<close>, kept as the identifier.\<close>

record ai_proposal =
  ap_id :: uuid
  ap_actor :: uuid
  ap_profile :: uuid
  ap_workspace :: uuid
  ap_status :: proposal_status
  ap_contract_version :: ptext
  ap_revision :: int
  ap_scenario_id :: ptext
  ap_payload :: "jval option"
  ap_created_tasks :: "(ptext \<times> uuid) list option"
  ap_created_at :: time
  ap_expires_at :: time
  ap_payload_expires_at :: time
  ap_confirmed_at :: "time option"
  ap_recovery_expires_at :: "time option"

record ai_operation =
  ao_id :: uuid
  ao_actor :: uuid
  ao_profile :: uuid
  ao_workspace :: uuid
  ao_operation :: ai_operation_kind
  ao_key_digest :: string
  ao_body_digest :: string
  ao_proposal :: uuid
  ao_created_at :: time

record ai_state =
  ai_db :: db
  ai_proposals :: "ai_proposal list"
  ai_operations :: "ai_operation list"

text \<open>The check constraints \<open>ai_prop_*\<close>; a comparison with NULL does not fail a check.\<close>

definition proposal_ok :: "ai_proposal \<Rightarrow> bool" where
  "proposal_ok p \<longleftrightarrow> 1 \<le> ap_revision p \<and> ap_created_at p < ap_expires_at p
     \<and> ap_expires_at p \<le> ap_payload_expires_at p
     \<and> (case ap_status p of
          AP_AVAILABLE \<Rightarrow> ap_confirmed_at p = None \<and> ap_recovery_expires_at p = None \<and> ap_created_tasks p = None
        | AP_CONFIRMED \<Rightarrow> ap_confirmed_at p \<noteq> None \<and> ap_recovery_expires_at p \<noteq> None \<and> ap_payload p = None)
     \<and> (case ap_confirmed_at p of None \<Rightarrow> True | Some c \<Rightarrow> ap_created_at p \<le> c
          \<and> (case ap_recovery_expires_at p of None \<Rightarrow> True | Some r \<Rightarrow> c < r))"

definition proposals_ok :: "ai_proposal list \<Rightarrow> bool" where
  "proposals_ok ps \<longleftrightarrow> distinct (map ap_id ps) \<and> (\<forall>p\<in>set ps. proposal_ok p)"

definition operation_key :: "ai_operation \<Rightarrow> uuid \<times> uuid \<times> uuid \<times> ai_operation_kind \<times> string" where
  "operation_key x = (ao_actor x, ao_profile x, ao_workspace x, ao_operation x, ao_key_digest x)"

definition operations_ok :: "ai_operation list \<Rightarrow> bool" where
  "operations_ok xs \<longleftrightarrow> distinct (map ao_id xs) \<and> distinct (map operation_key xs)
     \<and> distinct (map ao_proposal (filter (\<lambda>x. ao_operation x = OP_CONFIRM) xs))"

definition write_proposals :: "ai_proposal list \<Rightarrow> ai_state \<Rightarrow> ai_error + ai_state" where
  "write_proposals ps s =
     (if proposals_ok ps then Inr (s\<lparr>ai_proposals := ps\<rparr>) else Inl (Raised IntegrityError))"

definition write_operations :: "ai_operation list \<Rightarrow> ai_state \<Rightarrow> ai_error + ai_state" where
  "write_operations xs s =
     (if operations_ok xs then Inr (s\<lparr>ai_operations := xs\<rparr>) else Inl (Raised IntegrityError))"

text \<open>\<open>AiProposal.clean\<close> and \<open>AiOperation.clean\<close>, which forms run and the services do not.\<close>

definition proposal_clean :: "ai_proposal \<Rightarrow> db \<Rightarrow> error + unit" where
  "proposal_clean p s = (case lookup_pk w_id (ap_workspace p) (workspaces s) of
     None \<Rightarrow> Inl DoesNotExist
   | Some w \<Rightarrow> if w_profile w \<noteq> Some (ap_profile p) then Inl (ValidationError ''workspace'') else Inr ())"

definition operation_clean :: "ai_operation \<Rightarrow> ai_state \<Rightarrow> error + unit" where
  "operation_clean x s = (case lookup_pk ap_id (ao_proposal x) (ai_proposals s) of
     None \<Rightarrow> Inl DoesNotExist
   | Some p \<Rightarrow>
       if ao_actor x \<noteq> ap_actor p \<or> ao_profile x \<noteq> ap_profile p \<or> ao_workspace x \<noteq> ap_workspace p
       then Inl (ValidationError ''__all__'') else Inr ())"

subsection \<open>Settings, keys and digests\<close>

text \<open>
  \<open>ai_base\<close> is the environment of the other components (clock, identifiers, SHA-256); \<open>ai_hmac key t\<close>
  is \<open>salted_hmac(_HMAC_PURPOSE, t, secret=key, algorithm="sha256").hexdigest()\<close>; \<open>ai_in_atomic\<close> says
  that the caller has already opened a transaction. The rest are the settings.
\<close>

record ai_env =
  ai_base :: env
  ai_hmac :: "ptext \<Rightarrow> ptext \<Rightarrow> string"
  ai_secret_key :: ptext
  ai_fallback_keys :: "ptext list"
  ai_fixture_enabled :: bool
  ai_environment :: string
  ai_is_production :: bool
  ai_in_atomic :: bool
  ai_zone_known :: "ptext \<Rightarrow> bool"

definition raising :: "error + 'a \<Rightarrow> ai_error + 'a" where
  "raising r = (case r of Inl e \<Rightarrow> Inl (Raised e) | Inr x \<Rightarrow> Inr x)"

definition ai_enabled :: "ai_env \<Rightarrow> ai_error + unit" where
  "ai_enabled env =
     (if \<not> ai_fixture_enabled env \<or> ai_environment env \<noteq> ''development'' \<or> ai_is_production env
      then Inl (ai_error AI_DISABLED []) else Inr ())"

text \<open>\<open>str(uuid)\<close>.\<close>

fun hex_padded :: "nat \<Rightarrow> nat \<Rightarrow> ptext" where
  "hex_padded 0 n = []"
| "hex_padded (Suc k) n = hex_padded k (n div 16) @ [hex_digit (n mod 16)]"

definition uuid_text :: "uuid \<Rightarrow> ptext" where
  "uuid_text u = hex_padded 8 (u div 2 ^ 96) @ 45 # hex_padded 4 (u div 2 ^ 80) @ 45 # hex_padded 4 (u div 2 ^ 64)
     @ 45 # hex_padded 4 (u div 2 ^ 48) @ 45 # hex_padded 12 u"

definition key_digest :: "ai_env \<Rightarrow> uuid arg \<Rightarrow> ai_error + string" where
  "key_digest env key = (case key of
     Malformed \<Rightarrow> fail_field VALIDATION_ERROR ''idempotency_key''
   | Val u \<Rightarrow> Inr (e_sha256 (ai_base env) (uuid_text u)))"

definition body_digest :: "ai_env \<Rightarrow> ptext \<Rightarrow> string" where
  "body_digest env t = ai_hmac env (ai_secret_key env) t"

definition same_body :: "ai_env \<Rightarrow> ai_operation \<Rightarrow> ptext \<Rightarrow> bool" where
  "same_body env x t \<longleftrightarrow>
     (\<exists>key\<in>set (ai_secret_key env # ai_fallback_keys env). ao_body_digest x = ai_hmac env key t)"

subsection \<open>Access to the rows\<close>

text \<open>\<open>_manager\<close>; \<open>None\<close> is an actor that is not authenticated.\<close>

definition ai_manager :: "uuid option \<Rightarrow> uuid arg \<Rightarrow> uuid arg \<Rightarrow> db \<Rightarrow> ai_error + (uuid \<times> workspace)" where
  "ai_manager actor profile_id workspace_id s = raising (
     require_some actor PermissionDenied (\<lambda>a.
     bindE (lock_workspace_mutation_context a profile_id workspace_id s) (\<lambda>(wc, w, _).
     require (can_manage_workspace_tasks wc s) PermissionDenied (Inr (a, w)))))"

definition find_operation ::
  "uuid \<Rightarrow> workspace \<Rightarrow> ai_operation_kind \<Rightarrow> string \<Rightarrow> ai_state \<Rightarrow> ai_operation option" where
  "find_operation actor w kind key s = first_by ao_id (\<lambda>x. ao_actor x = actor
     \<and> Some (ao_profile x) = w_profile w \<and> ao_workspace x = w_id w \<and> ao_operation x = kind
     \<and> ao_key_digest x = key) (ai_operations s)"

definition find_proposal :: "uuid \<Rightarrow> workspace \<Rightarrow> uuid arg \<Rightarrow> ai_state \<Rightarrow> ai_error + ai_proposal" where
  "find_proposal actor w proposal_id s = (case proposal_id of
     Malformed \<Rightarrow> Inl (Raised TenantAccessNotFound)
   | Val i \<Rightarrow> require_some (first_by ap_id (\<lambda>p. ap_id p = i \<and> ap_actor p = actor
         \<and> Some (ap_profile p) = w_profile w \<and> ap_workspace p = w_id w) (ai_proposals s))
       (Raised TenantAccessNotFound) Inr)"

text \<open>\<open>_operation\<close>: the operation of the key, which must be of this proposal and this body.\<close>

definition replayed_operation :: "ai_env \<Rightarrow> uuid \<Rightarrow> workspace \<Rightarrow> ai_operation_kind \<Rightarrow> string \<Rightarrow> ptext
    \<Rightarrow> ai_proposal \<Rightarrow> ai_state \<Rightarrow> ai_error + ai_operation option" where
  "replayed_operation env actor w kind key canon p s = (case find_operation actor w kind key s of
     None \<Rightarrow> Inr None
   | Some x \<Rightarrow> if ao_proposal x \<noteq> ap_id p \<or> \<not> same_body env x canon
       then Inl (ai_error IDEMPOTENCY_CONFLICT []) else Inr (Some x))"

definition recoverable :: "ai_proposal \<Rightarrow> time \<Rightarrow> ai_error + unit" where
  "recoverable p now =
     (if ap_status p = AP_CONFIRMED
        \<and> ((case ap_recovery_expires_at p of None \<Rightarrow> True | Some r \<Rightarrow> r \<le> now) \<or> ap_created_tasks p = None)
      then Inl (ai_error RECOVERY_EXPIRED []) else Inr ())"

definition visible :: "ai_proposal \<Rightarrow> time \<Rightarrow> ai_error + ai_proposal" where
  "visible p now = bindE (recoverable p now) (\<lambda>_.
     Inr (if ap_status p \<noteq> AP_AVAILABLE \<or> ap_expires_at p \<le> now \<or> ap_payload_expires_at p \<le> now
       then p\<lparr>ap_payload := None\<rparr> else p))"

definition write_proposal_audit ::
  "ai_env \<Rightarrow> nat \<Rightarrow> uuid \<Rightarrow> ai_proposal \<Rightarrow> string \<Rightarrow> nat \<Rightarrow> ai_state \<Rightarrow> ai_error + ai_state" where
  "write_proposal_audit env k actor p act node_count s =
     bindE (raising (write_audit (ai_base env) k (Some actor) act ''AiProposal'' (Some (ap_id p))
       [(''profile_id'', JUuid (ap_profile p)), (''workspace_id'', JUuid (ap_workspace p)),
        (''mode'', JStr ''fixture_demo''), (''node_count'', JInt (int node_count))] (ai_db s)))
     (\<lambda>d. Inr (s\<lparr>ai_db := d\<rparr>))"

definition new_operation ::
  "ai_env \<Rightarrow> nat \<Rightarrow> uuid \<Rightarrow> ai_operation_kind \<Rightarrow> string \<Rightarrow> ptext \<Rightarrow> ai_proposal \<Rightarrow> ai_operation" where
  "new_operation env k actor kind key canon p =
     \<lparr>ao_id = e_uuid (ai_base env) k, ao_actor = actor, ao_profile = ap_profile p,
      ao_workspace = ap_workspace p, ao_operation = kind, ao_key_digest = key,
      ao_body_digest = body_digest env canon, ao_proposal = ap_id p, ao_created_at = e_now (ai_base env)\<rparr>"

definition add_operation :: "ai_env \<Rightarrow> nat \<Rightarrow> uuid \<Rightarrow> ai_operation_kind \<Rightarrow> string \<Rightarrow> ptext \<Rightarrow> ai_proposal
    \<Rightarrow> ai_state \<Rightarrow> ai_error + ai_state" where
  "add_operation env k actor kind key canon p s =
     write_operations (ai_operations s @ [new_operation env k actor kind key canon p]) s"

subsection \<open>Generating and reading\<close>

definition scenarios :: "(ptext \<times> fixture_scenario \<times> ptext) list" where
  "scenarios =
    [(ascii ''subtitle-check-v1'', SC_VALID,
       ascii ''V'' @ [237] @ ascii '' d'' @ [7909] @ ascii '' synthetic ki'' @ [7875] @ ascii ''m tra ph''
         @ [7909] @ [32, 273, 7873, 46]),
     (ascii ''task-tree-v1'', SC_TASK_TREE,
       ascii ''V'' @ [237] @ ascii '' d'' @ [7909] @ ascii '' synthetic Task v'' @ [224] @ ascii '' Subtask.'')]"

text \<open>
  The transaction both halves of \<open>generate_proposal\<close> begin with: \<open>Inr (Inl p)\<close> replays the proposal of
  the key, \<open>Inr (Inr (a, w))\<close> goes on.
\<close>

definition replay_generation :: "ai_env \<Rightarrow> uuid option \<Rightarrow> uuid arg \<Rightarrow> uuid arg \<Rightarrow> string \<Rightarrow> ptext
    \<Rightarrow> ai_state \<Rightarrow> ai_error + (ai_proposal + (uuid \<times> workspace))" where
  "replay_generation env actor profile_id workspace_id key canon s =
     bindE (ai_manager actor profile_id workspace_id (ai_db s)) (\<lambda>(a, w).
     case find_operation a w OP_GENERATE key s of
       None \<Rightarrow> Inr (Inr (a, w))
     | Some x \<Rightarrow>
         bindE (find_proposal a w (Val (ao_proposal x)) s) (\<lambda>p.
         bindE (replayed_operation env a w OP_GENERATE key canon p s) (\<lambda>_.
         if ap_status p = AP_AVAILABLE \<and> ap_expires_at p \<le> e_now (ai_base env)
         then Inl (ai_error EXPIRED [])
         else bindE (visible p (e_now (ai_base env))) (\<lambda>v. Inr (Inl v)))))"

text \<open>What the adapter proposes for a scenario, parsed and normalized.\<close>

definition fixture_payload :: "ai_env \<Rightarrow> fixture_scenario \<Rightarrow> ptext \<Rightarrow> ai_error + jval" where
  "fixture_payload env scenario brief =
     bindE (validate_generator_input (ai_zone_known env) (VObj [(ascii ''brief'', VStr brief)]) default_limits) (\<lambda>inp.
     bindE (new_adapter ''development'' scenario) (\<lambda>adapter.
     bindE (adapter_generate adapter TASK_PLAN (Generator inp) default_control 0) (\<lambda>raw.
     bindE (parse_task_plan raw default_limits) (\<lambda>plan. Inr (plan_json plan)))))"

definition minutes :: "int \<Rightarrow> int" where
  "minutes n = n * 60 * 10 ^ 6"

definition days :: "int \<Rightarrow> int" where
  "days n = n * 24 * 60 * 60 * 10 ^ 6"

definition new_proposal :: "ai_env \<Rightarrow> uuid \<Rightarrow> uuid \<Rightarrow> workspace \<Rightarrow> ptext \<Rightarrow> jval \<Rightarrow> ai_proposal" where
  "new_proposal env actor profile w scenario_id payload =
    (let now = e_now (ai_base env) in
     \<lparr>ap_id = e_uuid (ai_base env) 0, ap_actor = actor, ap_profile = profile, ap_workspace = w_id w,
      ap_status = AP_AVAILABLE, ap_contract_version = task_plan_version, ap_revision = 1,
      ap_scenario_id = scenario_id, ap_payload = Some payload, ap_created_tasks = None,
      ap_created_at = now, ap_expires_at = now + minutes 30, ap_payload_expires_at = now + days 7,
      ap_confirmed_at = None, ap_recovery_expires_at = None\<rparr>)"

text \<open>
  The second transaction of \<open>generate_proposal\<close>, after the adapter. A workspace without a profile
  cannot have passed \<open>_manager\<close>; its proposal would violate a NOT NULL constraint.
\<close>

definition store_generation :: "ai_env \<Rightarrow> uuid option \<Rightarrow> uuid arg \<Rightarrow> uuid arg \<Rightarrow> string \<Rightarrow> ptext \<Rightarrow> ptext \<Rightarrow> jval
    \<Rightarrow> ai_state \<Rightarrow> ai_error + ((ai_proposal \<times> bool) \<times> ai_state)" where
  "store_generation env actor profile_id workspace_id key canon scenario_id payload s =
     bindE (replay_generation env actor profile_id workspace_id key canon s) (\<lambda>r. case r of
       Inl p \<Rightarrow> Inr ((p, True), s)
     | Inr (a, w) \<Rightarrow>
         require_some (w_profile w) (Raised IntegrityError) (\<lambda>profile.
         let p = new_proposal env a profile w scenario_id payload in
         bindE (write_proposals (ai_proposals s @ [p]) s) (\<lambda>s1.
         bindE (add_operation env 1 a OP_GENERATE key canon p s1) (\<lambda>s2. Inr ((p, False), s2)))))"

text \<open>
  \<open>generate_proposal\<close> between its transactions, which may see different states: \<open>s0\<close> is the state the
  first one reads, \<open>env'\<close> and \<open>s\<close> are what the second one, after the adapter, draws and works on.
\<close>

definition generate_proposal_at :: "ai_env \<Rightarrow> ai_env \<Rightarrow> ai_state \<Rightarrow> uuid option \<Rightarrow> uuid arg \<Rightarrow> uuid arg
    \<Rightarrow> ptext arg \<Rightarrow> uuid arg \<Rightarrow> ai_state \<Rightarrow> ai_error + ((ai_proposal \<times> bool) \<times> ai_state)" where
  "generate_proposal_at env env' s0 actor profile_id workspace_id scenario_id idempotency_key s =
     bindE (ai_enabled env) (\<lambda>_.
     case scenario_id of Malformed \<Rightarrow> fail_field VALIDATION_ERROR ''scenario_id'' | Val sid \<Rightarrow>
     (case map_of scenarios sid of None \<Rightarrow> fail_field VALIDATION_ERROR ''scenario_id'' | Some (scenario, brief) \<Rightarrow>
     bindE (key_digest env idempotency_key) (\<lambda>key.
     bindE (canonical (VObj [(ascii ''scenario_id'', VStr sid),
       (ascii ''contract_version'', VStr task_plan_version)])) (\<lambda>canon.
     bindE (replay_generation env actor profile_id workspace_id key canon s0) (\<lambda>r. case r of
       Inl p \<Rightarrow> Inr ((p, True), s)
     | Inr _ \<Rightarrow>
         if ai_in_atomic env then Inl (ai_error VALIDATION_ERROR [])
         else bindE (fixture_payload env scenario brief) (\<lambda>payload.
           store_generation env' actor profile_id workspace_id key canon sid payload s))))))"

definition generate_proposal where
  "generate_proposal env actor profile_id workspace_id scenario_id idempotency_key s =
     generate_proposal_at env env s actor profile_id workspace_id scenario_id idempotency_key s"

definition retrieve_proposal ::
  "ai_env \<Rightarrow> uuid option \<Rightarrow> uuid arg \<Rightarrow> uuid arg \<Rightarrow> uuid arg \<Rightarrow> ai_state \<Rightarrow> ai_error + ai_proposal" where
  "retrieve_proposal env actor profile_id workspace_id proposal_id s =
     bindE (ai_enabled env) (\<lambda>_.
     bindE (ai_manager actor profile_id workspace_id (ai_db s)) (\<lambda>(a, w).
     bindE (find_proposal a w proposal_id s) (\<lambda>p. visible p (e_now (ai_base env)))))"

subsection \<open>Confirming\<close>

text \<open>
  The state of the loop of \<open>confirm_proposal\<close>: the dictionary \<open>created\<close>, the list \<open>pending\<close>, the
  database and the number of identifiers drawn so far (\<open>create_task\<close> draws two).
\<close>

record progress =
  pg_created :: "(ptext \<times> uuid) list"
  pg_pending :: "task_node list"
  pg_db :: db
  pg_drawn :: nat

definition later_env :: "env \<Rightarrow> nat \<Rightarrow> env" where
  "later_env env k = env\<lparr>e_uuid := (\<lambda>i. e_uuid env (k + i))\<rparr>"

text \<open>The node waits for its parent.\<close>

definition blocked :: "task_node \<Rightarrow> progress \<Rightarrow> bool" where
  "blocked n g = (case tn_parent n of None \<Rightarrow> False | Some p \<Rightarrow> p \<notin> set (map fst (pg_created g)))"

definition create_node :: "env \<Rightarrow> uuid \<Rightarrow> workspace \<Rightarrow> task_node \<Rightarrow> progress \<Rightarrow> error + progress" where
  "create_node env actor w n g =
     (case w_profile w of None \<Rightarrow> Inl TenantAccessNotFound | Some profile \<Rightarrow>
     bindE (create_task (later_env env (pg_drawn g)) actor (Val profile) (Val (w_id w)) (Some (tn_title n))
       (Some (tn_description n)) (Val (tn_priority n)) (Val (tn_deadline n))
       (map_option Val (Option.bind (tn_parent n) (map_of (pg_created g)))) (pg_db g)) (\<lambda>(t, s).
     Inr \<lparr>pg_created = AList.update (tn_ref n) (t_id t) (pg_created g), pg_pending = remove1 n (pg_pending g),
          pg_db = s, pg_drawn = pg_drawn g + 2\<rparr>))"

text \<open>\<open>for node in list(pending)\<close>\<close>

fun create_pass :: "env \<Rightarrow> uuid \<Rightarrow> workspace \<Rightarrow> task_node list \<Rightarrow> progress \<Rightarrow> error + progress" where
  "create_pass env actor w [] g = Inr g"
| "create_pass env actor w (n # ns) g =
     (if blocked n g then create_pass env actor w ns g
      else bindE (create_node env actor w n g) (create_pass env actor w ns))"

text \<open>\<open>while pending\<close>; \<open>None\<close> is a loop that does not end.\<close>

partial_function (option) create_all :: "env \<Rightarrow> uuid \<Rightarrow> workspace \<Rightarrow> progress \<Rightarrow> (error + progress) option" where
  "create_all env actor w g =
     (if pg_pending g = [] then Some (Inr g)
      else (case create_pass env actor w (pg_pending g) g of
          Inl e \<Rightarrow> Some (Inl e) | Inr g' \<Rightarrow> create_all env actor w g'))"

declare create_all.simps [code]

definition confirmed_row :: "ai_env \<Rightarrow> (ptext \<times> uuid) list \<Rightarrow> ai_proposal \<Rightarrow> ai_proposal" where
  "confirmed_row env created p = p\<lparr>ap_status := AP_CONFIRMED, ap_confirmed_at := Some (e_now (ai_base env)),
     ap_recovery_expires_at := Some (e_now (ai_base env) + days 30), ap_created_tasks := Some created,
     ap_payload := None\<rparr>"

text \<open>The end of the transaction, once the Tasks exist.\<close>

definition finish_confirmation :: "ai_env \<Rightarrow> uuid \<Rightarrow> string \<Rightarrow> ptext \<Rightarrow> ai_proposal \<Rightarrow> progress \<Rightarrow> ai_state
    \<Rightarrow> ai_error + ((ai_proposal \<times> bool) \<times> ai_state)" where
  "finish_confirmation env actor key canon p g s =
    (let p' = confirmed_row env (pg_created g) p in
     bindE (write_proposals (update_where (\<lambda>x. ap_id x = ap_id p) (\<lambda>_. p') (ai_proposals s))
       (s\<lparr>ai_db := pg_db g\<rparr>)) (\<lambda>s1.
     bindE (add_operation env (pg_drawn g) actor OP_CONFIRM key canon p' s1) (\<lambda>s2.
     bindE (write_proposal_audit env (pg_drawn g + 1) actor p' ''ai.proposal.confirmed''
       (length (pg_created g)) s2) (\<lambda>s3. Inr ((p', False), s3)))))"

definition confirm_canonical :: "ai_proposal \<Rightarrow> int \<Rightarrow> jval \<Rightarrow> ai_error + ptext" where
  "confirm_canonical p revision normalized = canonical (VObj
    [(ascii ''proposal_id'', VStr (uuid_text (ap_id p))), (ascii ''proposal_revision'', VInt revision),
     (ascii ''confirmed'', VBool True), (ascii ''payload'', normalized),
     (ascii ''scenario_id'', VStr (ap_scenario_id p))])"

text \<open>What the transaction decides before it creates anything: a replay, or the proposal to confirm.\<close>

definition open_confirmation :: "ai_env \<Rightarrow> uuid option \<Rightarrow> uuid arg \<Rightarrow> uuid arg \<Rightarrow> uuid arg \<Rightarrow> string \<Rightarrow> int
    \<Rightarrow> jval \<Rightarrow> ai_state \<Rightarrow> ai_error + (ai_proposal + (uuid \<times> workspace \<times> ai_proposal \<times> ptext))" where
  "open_confirmation env actor profile_id workspace_id proposal_id key revision normalized s =
     bindE (ai_manager actor profile_id workspace_id (ai_db s)) (\<lambda>(a, w).
     bindE (find_proposal a w proposal_id s) (\<lambda>p.
     bindE (confirm_canonical p revision normalized) (\<lambda>canon.
     bindE (replayed_operation env a w OP_CONFIRM key canon p s) (\<lambda>previous.
     let now = e_now (ai_base env) in
     if previous \<noteq> None then
       bindE (recoverable p now) (\<lambda>_.
         if ap_status p \<noteq> AP_CONFIRMED then Inl (ai_error STALE_PROPOSAL [])
         else bindE (visible p now) (\<lambda>v. Inr (Inl v)))
     else if ap_status p = AP_CONFIRMED then Inl (ai_error ALREADY_CONFIRMED [])
     else if revision \<noteq> ap_revision p \<or> ap_contract_version p \<noteq> task_plan_version
       then Inl (ai_error STALE_PROPOSAL [])
     else if ap_expires_at p \<le> now \<or> ap_payload_expires_at p \<le> now \<or> ap_payload p = None
       then Inl (ai_error EXPIRED [])
     else Inr (Inr (a, w, p, canon))))))"

definition start_progress :: "task_plan \<Rightarrow> db \<Rightarrow> progress" where
  "start_progress plan s = \<lparr>pg_created = [], pg_pending = tp_tasks plan, pg_db = s, pg_drawn = 0\<rparr>"

text \<open>\<open>confirmed is not True or type(proposal_revision) is not int or proposal_revision < 1\<close>.\<close>

definition confirm_arguments :: "jval \<Rightarrow> jval \<Rightarrow> ai_error + int" where
  "confirm_arguments confirmed revision = (case (confirmed, revision) of
     (VBool True, VInt n) \<Rightarrow> if n < 1 then Inl (ai_error VALIDATION_ERROR []) else Inr n
   | _ \<Rightarrow> Inl (ai_error VALIDATION_ERROR []))"

definition confirm_proposal :: "ai_env \<Rightarrow> uuid option \<Rightarrow> uuid arg \<Rightarrow> uuid arg \<Rightarrow> uuid arg \<Rightarrow> uuid arg \<Rightarrow> jval
    \<Rightarrow> jval \<Rightarrow> jval \<Rightarrow> ai_state \<Rightarrow> (ai_error + ((ai_proposal \<times> bool) \<times> ai_state)) option" where
  "confirm_proposal env actor profile_id workspace_id proposal_id idempotency_key revision payload confirmed s =
    (case bindE (ai_enabled env) (\<lambda>_.
        bindE (confirm_arguments confirmed revision) (\<lambda>rev_no.
        bindE (key_digest env idempotency_key) (\<lambda>key.
        bindE (edited_plan payload) (\<lambda>(plan, normalized).
        bindE (open_confirmation env actor profile_id workspace_id proposal_id key rev_no normalized s)
          (\<lambda>r. Inr (key, plan, r)))))) of
      Inl e \<Rightarrow> Some (Inl e)
    | Inr (_, _, Inl p) \<Rightarrow> Some (Inr ((p, True), s))
    | Inr (key, plan, Inr (a, w, p, canon)) \<Rightarrow>
        map_option (\<lambda>r. bindE (raising r) (\<lambda>g. finish_confirmation env a key canon p g s))
          (create_all (ai_base env) a w (start_progress plan (ai_db s))))"

subsection \<open>The public projection\<close>

record proposal_view =
  pv_proposal_id :: ptext
  pv_revision :: int
  pv_scenario_id :: ptext
  pv_status :: ptext
  pv_created_at :: time
  pv_expires_at :: time
  pv_payload_expires_at :: time
  pv_confirmed_at :: "time option"
  pv_recovery_expires_at :: "time option"
  pv_payload :: "jval option"
  pv_created_tasks :: "(ptext \<times> uuid) list option"

definition status_text :: "proposal_status \<Rightarrow> ptext" where
  "status_text st = (case st of AP_AVAILABLE \<Rightarrow> ascii ''AVAILABLE'' | AP_CONFIRMED \<Rightarrow> ascii ''CONFIRMED'')"

definition serialize_proposal :: "ai_env \<Rightarrow> ai_proposal \<Rightarrow> ai_error + proposal_view" where
  "serialize_proposal env p =
    (let now = e_now (ai_base env) in
     bindE (visible p now) (\<lambda>v. Inr
       \<lparr>pv_proposal_id = uuid_text (ap_id v), pv_revision = ap_revision v, pv_scenario_id = ap_scenario_id v,
        pv_status = (if ap_status v = AP_AVAILABLE \<and> ap_expires_at v \<le> now then ascii ''EXPIRED''
          else status_text (ap_status v)),
        pv_created_at = ap_created_at v, pv_expires_at = ap_expires_at v,
        pv_payload_expires_at = ap_payload_expires_at v, pv_confirmed_at = ap_confirmed_at v,
        pv_recovery_expires_at = ap_recovery_expires_at v, pv_payload = ap_payload v,
        pv_created_tasks = ap_created_tasks v\<rparr>))"

end
