(* ===== verification/Plan_Theorems.thy ===== *)
theory Plan_Theorems
  imports Plan_Contract "HOL-Library.Multiset"
begin

text \<open>
  What the contract of a task plan promises: an accepted plan is a well-formed forest within the
  limits, and the JSON the services write for it is read back as the same plan.
\<close>

subsection \<open>Well-formed plans\<close>

text \<open>\<open>rooted ns k n\<close>: following the parents of \<open>n\<close> in the plan \<open>ns\<close> reaches a root after \<open>k\<close> steps.\<close>

inductive rooted :: "task_node list \<Rightarrow> nat \<Rightarrow> task_node \<Rightarrow> bool" for ns where
  root: "tn_parent n = None \<Longrightarrow> rooted ns 0 n"
| child: "tn_parent n = Some p \<Longrightarrow> node_of ns p = Some q \<Longrightarrow> rooted ns k q \<Longrightarrow> rooted ns (Suc k) n"

inductive_cases rooted_0E: "rooted ns 0 n"
inductive_cases rooted_SucE: "rooted ns (Suc k) n"

definition node_conforms :: "task_node \<Rightarrow> bool" where
  "node_conforms n \<longleftrightarrow> is_local_ref (tn_ref n) \<and> (\<forall>p. tn_parent n = Some p \<longrightarrow> is_local_ref p)
     \<and> text_ok 255 True (tn_title n) \<and> text_ok 2000 False (tn_description n) \<and> text_ok 500 False (tn_notes n)
     \<and> (\<forall>i. tn_deadline n = Some i \<longrightarrow> 0 \<le> i \<and> i < max_instant)"

definition forest :: "nat \<Rightarrow> task_node list \<Rightarrow> bool" where
  "forest depth ns \<longleftrightarrow> distinct (map tn_ref ns) \<and> (\<forall>n\<in>set ns. \<exists>k\<le>depth. rooted ns k n)"

definition remarks_conform :: "ptext list \<Rightarrow> bool" where
  "remarks_conform ts \<longleftrightarrow> length ts \<le> 10 \<and> (\<forall>t\<in>set ts. text_ok 300 False t)"

definition plan_conforms :: "limits \<Rightarrow> task_plan \<Rightarrow> bool" where
  "plan_conforms l p \<longleftrightarrow> tp_version p = task_plan_version
     \<and> 1 \<le> length (tp_tasks p) \<and> length (tp_tasks p) \<le> max_tasks l
     \<and> (\<forall>n\<in>set (tp_tasks p). node_conforms n) \<and> forest (max_depth l) (tp_tasks p)
     \<and> remarks_conform (tp_assumptions p) \<and> remarks_conform (tp_warnings p)"

subsection \<open>Acceptance\<close>

lemma fail_field_neq [simp]: "fail_field code f \<noteq> Inr x"
  by (simp add: fail_field_def)

lemma check_text_eq_Inr [simp]: "check_text v f m code r = Inr t \<longleftrightarrow> v = VStr t \<and> text_ok m r t"
  by (auto simp: check_text_def split: jval.splits)

lemma check_array_eq_Inr [simp]:
  "check_array v f lo hi code = Inr vs \<longleftrightarrow> v = VList vs \<and> lo \<le> length vs \<and> length vs \<le> hi"
  by (auto simp: check_array_def split: jval.splits)

lemma check_ref_eq_Inr [simp]:
  "check_ref refs v code = Inr t \<longleftrightarrow> v = VStr t \<and> is_local_ref t \<and> t \<notin> set refs"
  by (auto simp: check_ref_def split: jval.splits)

lemma check_parent_eq_Inr [simp]:
  "check_parent v code = Inr p \<longleftrightarrow> v = parent_json p \<and> (\<forall>t. p = Some t \<longrightarrow> is_local_ref t)"
  by (auto simp: check_parent_def parent_json_def split: jval.splits option.splits)

lemma check_object_eq_Inr:
  "check_object v fs ms code f = Inr kvs \<longleftrightarrow> v = VObj kvs \<and> (\<forall>k\<in>set (map fst kvs). k \<in> set (map ascii fs))
     \<and> (\<forall>f\<in>set ms. ascii f \<in> set (map fst kvs))"
  by (auto simp: check_object_def split: jval.splits)

lemma parse_instant_range: "parse_instant t = Some i \<Longrightarrow> 0 \<le> i \<and> i < max_instant"
  by (auto simp: parse_instant_def to_utc_def Let_def bind_eq_Some_conv split: if_splits)

lemma check_deadline_range: "check_deadline v f code = Inr (Some i) \<Longrightarrow> 0 \<le> i \<and> i < max_instant"
  by (auto simp: check_deadline_def dest: parse_instant_range split: jval.splits option.splits)

lemma map_raise_eq_Inr: "map_raise f xs = Inr ys \<longleftrightarrow> list_all2 (\<lambda>x y. f x = Inr y) xs ys"
  by (induction xs arbitrary: ys) (auto simp: list_all2_Cons1)

lemma check_strings_conform: "check_strings v f code = Inr ts \<Longrightarrow> remarks_conform ts"
  by (auto simp: check_strings_def remarks_conform_def map_raise_eq_Inr list_all2_conv_all_nth in_set_conv_nth)

lemma parse_node_conforms:
  assumes "parse_node refs v code = Inr n"
  shows "node_conforms n \<and> tn_ref n \<notin> set refs"
  using assms
  by (auto simp: parse_node_def node_conforms_def dest: check_deadline_range)

lemma parse_nodes_conform:
  "parse_nodes refs vs code = Inr ns \<Longrightarrow> length ns = length vs \<and> (\<forall>n\<in>set ns. node_conforms n)
     \<and> distinct (map tn_ref ns) \<and> set (map tn_ref ns) \<inter> set refs = {}"
proof (induction vs arbitrary: refs ns)
  case (Cons v vs)
  then obtain n ns' where n: "parse_node refs v code = Inr n"
    and ns': "parse_nodes (refs @ [tn_ref n]) vs code = Inr ns'" "ns = n # ns'" by auto
  show ?case using parse_node_conforms [OF n] Cons.IH [OF ns'(1)] ns'(2) by auto
qed simp

lemma walk_parents_rooted:
  "walk_parents limit ns code visited depth n = Inr u \<Longrightarrow> depth \<le> limit \<Longrightarrow> \<exists>k. depth + k \<le> limit \<and> rooted ns k n"
proof (induction limit ns code visited depth n rule: walk_parents.induct)
  case (1 limit ns code visited depth n)
  show ?case
  proof (cases "tn_parent n")
    case None
    then show ?thesis using 1(3) by (intro exI [of _ 0]) (auto intro: rooted.root)
  next
    case (Some p)
    with 1(2) obtain q where q: "node_of ns p = Some q" "tn_ref n \<notin> set visited" "depth + 1 \<le> limit"
      "walk_parents limit ns code (tn_ref n # visited) (depth + 1) q = Inr u"
      by (subst (asm) walk_parents.simps) (auto split: if_splits option.splits)
    then obtain k where "depth + 1 + k \<le> limit" "rooted ns k q" using 1(1) [OF Some] by fastforce
    with Some q(1) show ?thesis by (intro exI [of _ "Suc k"]) (auto intro: rooted.child)
  qed
qed

lemma plan_of_conforms:
  assumes "plan_of v l code = Inr p"
  shows "plan_conforms l p"
proof -
  from assms obtain d items ns us a w where *: "parse_nodes [] items code = Inr ns"
    "1 \<le> length items" "length items \<le> max_tasks l"
    "map_raise (walk_parents (max_depth l) ns code [] 0) ns = Inr us"
    "check_strings (member d ''assumptions'') ''assumptions'' code = Inr a"
    "check_strings (member d ''warnings'') ''warnings'' code = Inr w"
    "p = \<lparr>tp_version = task_plan_version, tp_tasks = ns, tp_assumptions = a, tp_warnings = w\<rparr>"
    by (auto simp: plan_of_def)
  have "\<exists>k\<le>max_depth l. rooted ns k n" if "n \<in> set ns" for n
    using that *(4) walk_parents_rooted [of "max_depth l" ns code "[]" 0 n]
    by (fastforce simp: map_raise_eq_Inr list_all2_conv_all_nth in_set_conv_nth)
  then show ?thesis
    using * parse_nodes_conform [OF *(1)] check_strings_conform by (auto simp: plan_conforms_def forest_def)
qed

subsection \<open>Reading back\<close>

lemma map_of_sort_key: "distinct (map fst kvs) \<Longrightarrow> map_of (sort_key fst kvs) = map_of kvs"
  by (rule map_of_inject_set [THEN iffD2]) (auto simp: distinct_map)

lemma sorted_object_map:
  "\<exists>kvs'. sorted_members (VObj kvs) = VObj kvs' \<and> set (map fst kvs') = set (map fst kvs)
     \<and> (distinct (map fst kvs) \<longrightarrow> map_of kvs' = (\<lambda>k. map_option sorted_members (map_of kvs k)))"
proof -
  let ?m = "map (\<lambda>(k, v). (k, sorted_members v)) kvs"
  have d: "map fst ?m = map fst kvs" by (simp add: case_prod_beta comp_def)
  have "distinct (map fst kvs) \<Longrightarrow> map_of (sort_key fst ?m) = map_of ?m"
    by (rule map_of_sort_key) (simp only: d)
  moreover have "set (map fst (sort_key fst ?m)) = set (map fst kvs)"
    by (simp only: set_map set_sort) (simp only: set_map [symmetric] d)
  ultimately show ?thesis by (intro exI [of _ "sort_key fst ?m"]) (simp add: sorted_members.simps(2) map_of_map comp_def)
qed

lemma check_sorted:
  assumes "map fst kvs = map ascii names" "distinct names"
  obtains kvs' where "check_object (sorted_members (VObj kvs)) names names code f = Inr kvs'"
    "\<And>k v. (ascii k, v) \<in> set kvs \<Longrightarrow> member kvs' k = sorted_members v"
proof -
  have d: "distinct (map fst kvs)" unfolding assms(1) using assms(2) by (simp add: distinct_map inj_on_def)
  obtain kvs' where kvs': "sorted_members (VObj kvs) = VObj kvs'" "set (map fst kvs') = set (map fst kvs)"
    "map_of kvs' = (\<lambda>k. map_option sorted_members (map_of kvs k))"
    using sorted_object_map [of kvs] d by blast
  show thesis
  proof (rule that)
    show "check_object (sorted_members (VObj kvs)) names names code f = Inr kvs'"
      using kvs'(1,2) assms(1) by (simp add: check_object_def)
    show "member kvs' k = sorted_members v" if "(ascii k, v) \<in> set kvs" for k v
      using that d kvs'(3) by (simp add: member_def)
  qed
qed

lemma check_enum_priority: "check_enum (VStr (priority_text p)) priority_names f code = Inr p"
  by (cases p) (simp_all add: check_enum_def priority_names_def)

lemma check_deadline_json:
  "(\<And>i. d = Some i \<Longrightarrow> 0 \<le> i \<and> i < max_instant) \<Longrightarrow> check_deadline (deadline_json d) f code = Inr d"
  by (cases d) (simp_all add: deadline_json_def check_deadline_def parse_format)

lemma sorted_leaves [simp]: "sorted_members (deadline_json d) = deadline_json d"
  "sorted_members (parent_json p) = parent_json p"
  by (simp_all add: deadline_json_def parent_json_def split: option.splits)

lemma parent_json_eq [simp]: "parent_json p = parent_json q \<longleftrightarrow> p = q"
  by (auto simp: parent_json_def split: option.splits)

lemma parse_node_json:
  assumes "node_conforms n" "tn_ref n \<notin> set refs"
  shows "parse_node refs (sorted_members (node_json n)) code = Inr n"
proof -
  obtain kvs where kvs: "node_json n = VObj kvs" "map fst kvs = map ascii node_fields"
    by (simp add: node_json_def node_fields_def)
  moreover have "distinct node_fields" by (simp add: node_fields_def)
  ultimately obtain d where
    d: "check_object (sorted_members (node_json n)) node_fields node_fields code ''tasks'' = Inr d"
      "\<And>k v. (ascii k, v) \<in> set kvs \<Longrightarrow> member d k = sorted_members v"
    using check_sorted [of kvs node_fields code "''tasks''"] by metis
  have m: "member d ''local_ref'' = VStr (tn_ref n)" "member d ''parent_ref'' = parent_json (tn_parent n)"
    "member d ''title'' = VStr (tn_title n)" "member d ''description'' = VStr (tn_description n)"
    "member d ''priority'' = VStr (priority_text (tn_priority n))"
    "member d ''proposed_deadline'' = deadline_json (tn_deadline n)" "member d ''notes'' = VStr (tn_notes n)"
    using kvs(1) by (auto simp: node_json_def d(2))
  have "check_deadline (deadline_json (tn_deadline n)) f code = Inr (tn_deadline n)" for f
    using assms(1) by (intro check_deadline_json) (auto simp: node_conforms_def)
  with d(1) m assms show ?thesis
    by (simp add: parse_node_def check_enum_priority node_conforms_def)
qed

lemma parse_nodes_json:
  "\<forall>n\<in>set ns. node_conforms n \<Longrightarrow> distinct (map tn_ref ns) \<Longrightarrow> set (map tn_ref ns) \<inter> set refs = {} \<Longrightarrow>
   parse_nodes refs (map (\<lambda>n. sorted_members (node_json n)) ns) code = Inr ns"
  by (induction ns arbitrary: refs) (auto simp: parse_node_json)

lemma node_of_ref: "node_of ns p = Some q \<Longrightarrow> tn_ref q = p \<and> q \<in> set ns"
  by (auto simp: node_of_def dest!: map_of_SomeD)

text \<open>The level of a node is unique, so the walk from it never meets a node twice.\<close>

lemma rooted_unique: "rooted ns k n \<Longrightarrow> rooted ns j n \<Longrightarrow> j = k"
proof (induction k n arbitrary: j rule: rooted.induct)
  case (root n)
  then show ?case by (cases j) (auto elim: rooted_SucE)
next
  case (child n p q k)
  from child.prems child.hyps(1,2) obtain i where "j = Suc i" "rooted ns i q"
    by (cases j) (auto elim!: rooted_0E rooted_SucE)
  then show ?case using child.IH by simp
qed

lemma rooted_walk:
  assumes "distinct (map tn_ref ns)"
  shows "rooted ns k n \<Longrightarrow> n \<in> set ns \<Longrightarrow> depth + k \<le> limit \<Longrightarrow>
    (\<forall>v\<in>set visited. \<forall>m\<in>set ns. tn_ref m = v \<longrightarrow> (\<exists>j>k. rooted ns j m)) \<Longrightarrow>
    walk_parents limit ns code visited depth n = Inr ()"
proof (induction k n arbitrary: depth visited rule: rooted.induct)
  case (root n)
  then show ?case by (simp add: walk_parents.simps)
next
  case (child n p q k)
  have n: "rooted ns (Suc k) n" using child.hyps by (rule rooted.child)
  have new: "tn_ref n \<notin> set visited"
    using child.prems(1,3) rooted_unique [OF n] by (metis less_irrefl)
  have "walk_parents limit ns code (tn_ref n # visited) (Suc depth) q = Inr ()"
  proof (rule child.IH)
    show "q \<in> set ns" using node_of_ref [OF child.hyps(2)] by simp
    show "Suc depth + k \<le> limit" using child.prems by simp
    show "\<forall>v\<in>set (tn_ref n # visited). \<forall>m\<in>set ns. tn_ref m = v \<longrightarrow> (\<exists>j>k. rooted ns j m)"
    proof (intro ballI impI)
      fix v m assume vm: "v \<in> set (tn_ref n # visited)" "m \<in> set ns" "tn_ref m = v"
      show "\<exists>j>k. rooted ns j m"
      proof (cases "v = tn_ref n")
        case True
        then have "m = n" using distinct_map_eq [OF assms vm(2) child.prems(1)] vm(3) by simp
        then show ?thesis using n by blast
      next
        case False
        then show ?thesis using vm child.prems(3) by (metis Suc_lessD set_ConsD)
      qed
    qed
  qed
  then show ?case using child.hyps child.prems(2) new by (subst walk_parents.simps) simp
qed

lemma forest_walks:
  "forest depth ns \<Longrightarrow> map_raise (walk_parents depth ns code [] 0) ns = Inr (map (\<lambda>_. ()) ns)"
  by (auto simp: map_raise_eq_Inr list_all2_conv_all_nth forest_def dest!: nth_mem)
    (metis add_0 empty_iff empty_set rooted_walk)

lemma check_strings_json: "remarks_conform ts \<Longrightarrow> check_strings (VList (map VStr ts)) f code = Inr ts"
  by (auto simp: check_strings_def remarks_conform_def map_raise_eq_Inr list_all2_conv_all_nth)

lemma plan_of_json:
  assumes "plan_conforms l p"
  shows "plan_of (sorted_members (plan_json p)) l code = Inr p"
proof -
  obtain kvs where kvs: "plan_json p = VObj kvs" "map fst kvs = map ascii plan_fields"
    by (simp add: plan_json_def plan_fields_def)
  moreover have "distinct plan_fields" by (simp add: plan_fields_def)
  ultimately obtain d where
    d: "check_object (sorted_members (plan_json p)) plan_fields plan_fields code ''response'' = Inr d"
      "\<And>k v. (ascii k, v) \<in> set kvs \<Longrightarrow> member d k = sorted_members v"
    using check_sorted [of kvs plan_fields code "''response''"] by metis
  have m: "member d ''contract_version'' = VStr (tp_version p)"
    "member d ''tasks'' = VList (map (\<lambda>n. sorted_members (node_json n)) (tp_tasks p))"
    "member d ''assumptions'' = VList (map VStr (tp_assumptions p))"
    "member d ''warnings'' = VList (map VStr (tp_warnings p))"
    using kvs(1) by (auto simp: plan_json_def d(2) comp_def)
  have "parse_nodes [] (map (\<lambda>n. sorted_members (node_json n)) (tp_tasks p)) code = Inr (tp_tasks p)"
    using assms by (intro parse_nodes_json) (auto simp: plan_conforms_def forest_def)
  moreover have "map_raise (walk_parents (max_depth l) (tp_tasks p) code [] 0) (tp_tasks p)
      = Inr (map (\<lambda>_. ()) (tp_tasks p))"
    using assms by (intro forest_walks) (simp add: plan_conforms_def)
  ultimately show ?thesis
    using assms d(1) m unfolding plan_of_def
    by (simp add: plan_conforms_def check_enum_def check_strings_json)
qed

subsection \<open>Encodable values\<close>

fun encodable :: "jval \<Rightarrow> bool" where
  "encodable (VStr t) \<longleftrightarrow> utf8_encodable t"
| "encodable (VFloat t) \<longleftrightarrow> utf8_encodable t"
| "encodable (VList vs) \<longleftrightarrow> (\<forall>v\<in>set vs. encodable v)"
| "encodable (VObj kvs) \<longleftrightarrow> (\<forall>kv\<in>set kvs. utf8_encodable (fst kv) \<and> encodable (snd kv))"
| "encodable _ \<longleftrightarrow> True"

lemma utf8_encodable_simps [simp]:
  "utf8_encodable []" "utf8_encodable (c # t) \<longleftrightarrow> \<not> (55296 \<le> c \<and> c \<le> 57343) \<and> utf8_encodable t"
  "utf8_encodable (t @ t') \<longleftrightarrow> utf8_encodable t \<and> utf8_encodable t'"
  "utf8_encodable (concat ts) \<longleftrightarrow> (\<forall>t\<in>set ts. utf8_encodable t)"
  by (auto simp: utf8_encodable_def)

lemma decimal_encodable: "utf8_encodable (decimal n)"
proof (induction n rule: decimal.induct)
  case (1 n)
  have "\<not> 55296 \<le> 48 + n mod 10" by (simp add: not_le trans_less_add1)
  with 1 show ?case by (cases "n < 10") (subst decimal.simps, simp)+
qed

lemma hex_digit_encodable: "d < 16 \<Longrightarrow> \<not> 55296 \<le> hex_digit d"
  by (simp add: hex_digit_def)

lemma escape_encodable: "\<not> (55296 \<le> c \<and> c \<le> 57343) \<Longrightarrow> utf8_encodable (escape c)"
  by (simp add: escape_def hex_digit_encodable)

lemma is_local_ref_encodable: "is_local_ref t \<Longrightarrow> utf8_encodable t"
proof -
  assume "is_local_ref t"
  then obtain ds where ds: "t = ascii ''item_'' @ ds" "list_all is_digit ds"
    by (auto simp: is_local_ref_def digits_after_def after_def split: option.splits if_splits)
      (metis append_take_drop_id)
  then have "utf8_encodable ds" by (fastforce simp: utf8_encodable_def list_all_iff is_digit_def)
  with ds show ?thesis by simp
qed

lemma string_text_encodable: "utf8_encodable t \<Longrightarrow> utf8_encodable (string_text t)"
  using escape_encodable by (simp add: string_text_def) (auto simp: utf8_encodable_def)

lemma joined_encodable: "\<forall>t\<in>set ts. utf8_encodable t \<Longrightarrow> utf8_encodable (joined ts)"
  by (auto simp: joined_def split: list.split)

lemma dumps_encodable: "encodable v \<Longrightarrow> utf8_encodable (dumps v)"
proof (induction v rule: dumps.induct)
  case (7 kvs)
  have "utf8_encodable (member_text kv)" if "kv \<in> set kvs" for kv
    using 7 that by (cases kv) (auto simp: member_text_def string_text_encodable)
  then show ?case by (simp add: dumps_object joined_encodable)
qed (auto simp: int_text_def decimal_encodable string_text_encodable joined_encodable)

lemma padded_encodable: "utf8_encodable (padded k n)"
  using padded_digits [of k n] by (auto simp: utf8_encodable_def list_all_iff is_digit_def)

lemma format_instant_encodable: "utf8_encodable (format_instant i)"
  by (simp add: format_instant_def Let_def padded_encodable split: prod.split)

lemma node_json_encodable: "node_conforms n \<Longrightarrow> encodable (node_json n)"
  by (cases "tn_priority n")
    (auto simp: node_json_def node_conforms_def text_ok_def parent_json_def deadline_json_def
      format_instant_encodable is_local_ref_encodable split: option.split)

lemma plan_json_encodable: "plan_conforms l p \<Longrightarrow> encodable (plan_json p)"
  by (auto simp: plan_json_def plan_conforms_def remarks_conform_def text_ok_def node_json_encodable
      task_plan_version_def)

lemma node_json_readable: "readable (node_json n)"
  by (simp add: node_json_def parent_json_def deadline_json_def split: option.split)

lemma plan_json_readable: "readable (plan_json p)"
  by (simp add: plan_json_def node_json_readable)

lemma readable_dumps_ok: "readable v \<Longrightarrow> dumps_ok v"
  by (induction v rule: readable.induct) auto

lemma length_utf8: "length t \<le> utf8_length t"
proof -
  have "0 < utf8_width c" for c by (simp add: utf8_width_def)
  then have "Suc (length t) \<le> utf8_width c + n" if "length t \<le> n" for c n and t :: ptext
    using that by (metis Suc_leI add_mono plus_1_eq_Suc One_nat_def)
  then show ?thesis unfolding utf8_length_def by (induction t) simp_all
qed

text \<open>An upper bound of the size of an encoded value that needs no encoding.\<close>

fun weight :: "jval \<Rightarrow> nat" where
  "weight (VStr t) = 6 * length t + 2"
| "weight (VInt i) = 4 * length (int_text i)"
| "weight (VFloat t) = 4 * length t"
| "weight (VList vs) = sum_list (map (\<lambda>v. weight v + 1) vs) + 2"
| "weight (VObj kvs) = sum_list (map (\<lambda>kv. 6 * length (fst kv) + weight (snd kv) + 4) kvs) + 2"
| "weight _ = 5"

lemma utf8_length_simps [simp]:
  "utf8_length [] = 0" "utf8_length (c # t) = utf8_width c + utf8_length t"
  "utf8_length (t @ t') = utf8_length t + utf8_length t'"
  by (simp_all add: utf8_length_def)

lemma utf8_width_le: "utf8_width c \<le> 4"
  by (simp add: utf8_width_def)

lemma utf8_length_le: "utf8_length t \<le> 4 * length t"
proof (induction t)
  case (Cons c t)
  with utf8_width_le [of c] show ?case by simp
qed simp

lemma escape_length: "utf8_length (escape c) \<le> 6"
proof -
  have "utf8_width (hex_digit d) = 1" if "d < 16" for d using that by (simp add: hex_digit_def utf8_width_def)
  then show ?thesis using utf8_width_le [of c]
    by (simp add: escape_def less_mult_imp_div_less) (simp add: utf8_width_def)
qed

lemma string_text_length: "utf8_length (string_text t) \<le> 6 * length t + 2"
proof -
  have "utf8_length (concat (map escape t)) \<le> 6 * length t"
  proof (induction t)
    case (Cons c t)
    with escape_length [of c] show ?case by simp
  qed simp
  then show ?thesis by (simp add: string_text_def utf8_width_def)
qed

lemma joined_length: "utf8_length (joined ts) \<le> sum_list (map (\<lambda>t. utf8_length t + 1) ts)"
proof (induction ts)
  case (Cons t ts)
  then show ?case by (cases "ts = []") (simp_all add: joined_Cons utf8_width_def)
qed (simp add: joined_def)

lemma dumps_length: "utf8_length (dumps v) \<le> weight v"
proof (induction v rule: dumps.induct)
  case (6 vs)
  have "sum_list (map (\<lambda>t. utf8_length t + 1) (map dumps vs)) \<le> sum_list (map (\<lambda>v. weight v + 1) vs)"
    unfolding map_map comp_def by (rule sum_list_mono) (use 6 in simp)
  then show ?case using joined_length [of "map dumps vs"] by (simp add: utf8_width_def)
next
  case (7 kvs)
  let ?w = "\<lambda>kv. 6 * length (fst kv) + weight (snd kv) + 4"
  have m: "utf8_length (member_text kv) + 1 \<le> ?w kv" if kv: "kv \<in> set (sort_key fst kvs)" for kv
  proof -
    have "(fst kv, snd kv) \<in> set kvs" using kv by simp
    then have "utf8_length (dumps (snd kv)) \<le> weight (snd kv)" by (rule 7 [OF _ refl])
    then show ?thesis using string_text_length [of "fst kv"] by (simp add: member_text_def utf8_width_def)
  qed
  have "sum_list (map (\<lambda>t. utf8_length t + 1) (map member_text (sort_key fst kvs)))
      \<le> sum_list (map ?w (sort_key fst kvs))"
    unfolding map_map comp_def by (rule sum_list_mono) (rule m)
  also have "\<dots> = sum_list (map ?w kvs)"
    by (simp only: sum_mset_sum_list [symmetric] mset_map mset_sort)
  finally show ?case
    using joined_length [of "map member_text (sort_key fst kvs)"] by (simp add: dumps_object utf8_width_def)
qed (use utf8_length_le string_text_length in \<open>auto simp: utf8_width_def\<close>)

lemma canonical_small:
  assumes "readable v" "encodable v" "weight v \<le> max_request_bytes default_limits"
  shows "canonical v = Inr (dumps v)"
  using assms readable_dumps_ok dumps_encodable dumps_length [of v] by (simp add: canonical_def)

subsection \<open>The normal form\<close>

lemma read_back_plan:
  assumes "plan_conforms default_limits p" "utf8_length (dumps (plan_json p)) \<le> max_request_bytes default_limits"
  shows "edited_plan (plan_json p) = Inr (p, plan_json p)"
proof -
  have e: "utf8_encodable (dumps (plan_json p))"
    by (rule dumps_encodable) (rule plan_json_encodable [OF assms(1)])
  then have "canonical (plan_json p) = Inr (dumps (plan_json p))"
    using assms(2) readable_dumps_ok [OF plan_json_readable] by (simp add: canonical_def)
  moreover have "strict_json (dumps (plan_json p)) default_limits = Inr (sorted_members (plan_json p))"
    using assms(2) e length_utf8 [of "dumps (plan_json p)"] loads_dumps [OF plan_json_readable]
    by (simp add: strict_json_def default_limits_def)
  ultimately have "bindE (canonical (plan_json p)) (\<lambda>t. parse_task_plan t default_limits) = Inr p"
    using plan_of_json [OF assms(1)] by (simp add: parse_task_plan_def)
  moreover obtain kvs where "plan_json p = VObj kvs" by (simp add: plan_json_def)
  ultimately show ?thesis by (simp del: bindE_eq_Inr add: edited_plan_def)
qed

lemma edited_plan_conforms: "edited_plan v = Inr (p, norm) \<Longrightarrow> plan_conforms default_limits p \<and> norm = plan_json p"
  by (auto simp: edited_plan_def parse_task_plan_def dest: plan_of_conforms split: jval.splits sum.splits)

end
