(* ===== verification/Proposal_Theorems.thy ===== *)
theory Proposal_Theorems
  imports Proposal_Services Plan_Theorems Task_Evolution "HOL-Library.Multiset"
begin

text \<open>
  The loop of \<open>confirm_proposal\<close>: it ends for every plan the contract accepts, and when no Task is
  refused it has created exactly the plan, parents first.
\<close>

subsection \<open>One pass\<close>

lemma update_fresh: "k \<notin> set (map fst al) \<Longrightarrow> AList.update k v al = al @ [(k, v)]"
  by (induction al) auto

definition waiting :: "task_node list \<Rightarrow> progress \<Rightarrow> bool" where
  "waiting ns g \<longleftrightarrow> pg_pending g = filter (\<lambda>n. tn_ref n \<notin> set (map fst (pg_created g))) ns"

lemma waiting_start: "waiting (tp_tasks plan) (start_progress plan s)"
  by (simp add: waiting_def start_progress_def)

text \<open>What one turn of the loop does, and what it leaves.\<close>

lemma create_node_D:
  assumes "create_node env a w n g = Inr g'" "waiting ns g" "distinct (map tn_ref ns)" "n \<in> set (pg_pending g)"
  obtains t where "pg_created g' = pg_created g @ [(tn_ref n, t_id t)]" "waiting ns g'"
    "pg_pending g' = remove1 n (pg_pending g)"
    "create_task (later_env env (pg_drawn g)) a (Val (the (w_profile w))) (Val (w_id w)) (Some (tn_title n))
       (Some (tn_description n)) (Val (tn_priority n)) (Val (tn_deadline n))
       (map_option Val (Option.bind (tn_parent n) (map_of (pg_created g)))) (pg_db g) = Inr (t, pg_db g')"
proof -
  from assms(1) obtain t where
    t: "create_task (later_env env (pg_drawn g)) a (Val (the (w_profile w))) (Val (w_id w)) (Some (tn_title n))
       (Some (tn_description n)) (Val (tn_priority n)) (Val (tn_deadline n))
       (map_option Val (Option.bind (tn_parent n) (map_of (pg_created g)))) (pg_db g) = Inr (t, pg_db g')"
    and g': "pg_created g' = AList.update (tn_ref n) (t_id t) (pg_created g)" "pg_pending g' = remove1 n (pg_pending g)"
    by (auto simp: create_node_def split: option.splits)
  have n: "tn_ref n \<notin> set (map fst (pg_created g))" using assms(2,4) by (simp add: waiting_def)
  have c: "pg_created g' = pg_created g @ [(tn_ref n, t_id t)]" using g'(1) update_fresh [OF n] by simp
  have "distinct (pg_pending g)" using assms(2,3) by (simp add: waiting_def distinct_of_map)
  then have "pg_pending g' = filter ((\<noteq>) n) (pg_pending g)" using g'(2) by (simp add: distinct_remove1_removeAll removeAll_filter_not_eq)
  also have "\<dots> = filter (\<lambda>m. tn_ref m \<notin> set (map fst (pg_created g'))) ns"
    using assms(2) distinct_map_eq [OF assms(3)] assms(4) by (auto simp: waiting_def c intro!: filter_cong)
  finally have "waiting ns g'" by (simp add: waiting_def)
  from that [OF c this g'(2) t] show thesis .
qed

lemma blocked_mono: "set (map fst (pg_created g)) \<subseteq> set (map fst (pg_created g')) \<Longrightarrow> blocked n g' \<Longrightarrow> blocked n g"
  by (auto simp: blocked_def split: option.splits)

lemma remaining_pending:
  assumes "pending' = remove1 n pending" "distinct (n # ms)" "set (n # ms) \<subseteq> set pending"
  shows "set ms \<subseteq> set pending'"
proof
  fix x assume "x \<in> set ms"
  with assms(2,3) have "x \<noteq> n" "x \<in> set pending" by auto
  then show "x \<in> set pending'" using assms(1) by (simp add: in_set_remove1)
qed

lemma create_pass_shrinks:
  assumes "distinct (map tn_ref ns)"
  shows "create_pass env a w ms g = Inr g' \<Longrightarrow> waiting ns g \<Longrightarrow> distinct ms \<Longrightarrow> set ms \<subseteq> set (pg_pending g) \<Longrightarrow>
    waiting ns g' \<and> length (pg_pending g') \<le> length (pg_pending g)
    \<and> ((\<exists>m\<in>set ms. \<not> blocked m g) \<longrightarrow> length (pg_pending g') < length (pg_pending g))"
proof (induction ms arbitrary: g)
  case (Cons n ms)
  show ?case
  proof (cases "blocked n g")
    case True
    with Cons.prems Cons.IH [of g] show ?thesis by auto
  next
    case False
    with Cons.prems(1) obtain g1 where g1: "create_node env a w n g = Inr g1" "create_pass env a w ms g1 = Inr g'"
      by auto
    have n: "n \<in> set (pg_pending g)" using Cons.prems(4) by simp
    obtain t :: task where t: "pg_created g1 = pg_created g @ [(tn_ref n, t_id t)]" "waiting ns g1"
      "pg_pending g1 = remove1 n (pg_pending g)"
      by (rule create_node_D [OF g1(1) Cons.prems(2) assms n]) blast
    have "set ms \<subseteq> set (pg_pending g1)" by (rule remaining_pending [OF t(3) Cons.prems(3,4)])
    with Cons.IH [OF g1(2) t(2)] Cons.prems(3) have "waiting ns g' \<and> length (pg_pending g') \<le> length (pg_pending g1)"
      by auto
    moreover have "length (pg_pending g1) < length (pg_pending g)"
      using t(3) n length_pos_if_in_set [OF n] by (simp add: length_remove1)
    ultimately show ?thesis by simp
  qed
qed simp

subsection \<open>The loop ends\<close>

text \<open>Among the nodes left, one closest to its root has its parent created.\<close>

lemma some_unblocked:
  assumes "forest depth ns" "waiting ns g" "pg_pending g \<noteq> []"
  shows "\<exists>n\<in>set (pg_pending g). \<not> blocked n g"
proof -
  have "\<exists>k. \<exists>n\<in>set (pg_pending g). rooted ns k n"
  proof -
    obtain n where "n \<in> set (pg_pending g)" using assms(3) by (meson ex_in_conv set_empty)
    moreover from this have "n \<in> set ns" using assms(2) by (simp add: waiting_def)
    ultimately show ?thesis using assms(1) unfolding forest_def by blast
  qed
  then obtain k n where n: "n \<in> set (pg_pending g)" "rooted ns k n"
    and least: "\<And>j m. m \<in> set (pg_pending g) \<Longrightarrow> rooted ns j m \<Longrightarrow> k \<le> j"
    using exists_least_iff [of "\<lambda>k. \<exists>n\<in>set (pg_pending g). rooted ns k n"] by (metis not_le)
  have "\<not> blocked n g"
  proof
    assume "blocked n g"
    then obtain p where p: "tn_parent n = Some p" "p \<notin> set (map fst (pg_created g))"
      by (auto simp: blocked_def split: option.splits)
    with n(2) obtain j q where q: "k = Suc j" "node_of ns p = Some q" "rooted ns j q"
      by (auto elim: rooted.cases)
    then have "q \<in> set (pg_pending g)" using assms(2) p(2) node_of_ref [OF q(2)] by (simp add: waiting_def)
    then show False using least [OF _ q(3)] q(1) by simp
  qed
  with n(1) show ?thesis by blast
qed

lemma create_all_returns:
  assumes "forest depth ns"
  shows "waiting ns g \<Longrightarrow> \<exists>r. create_all env a w g = Some r"
proof (induction "length (pg_pending g)" arbitrary: g rule: less_induct)
  case less
  show ?case
  proof (cases "pg_pending g = []")
    case True
    then show ?thesis by (subst create_all.simps) simp
  next
    case False
    have d: "distinct (map tn_ref ns)" using assms by (simp add: forest_def)
    then have dp: "distinct (pg_pending g)" using less.prems by (simp add: waiting_def distinct_of_map)
    show ?thesis
    proof (cases "create_pass env a w (pg_pending g) g")
      case (Inl e)
      then show ?thesis using False by (subst create_all.simps) simp
    next
      case (Inr g')
      from create_pass_shrinks [OF d Inr less.prems dp] some_unblocked [OF assms less.prems False]
      have "waiting ns g'" "length (pg_pending g') < length (pg_pending g)" by auto
      with less.hyps Inr False show ?thesis by (subst create_all.simps) simp
    qed
  qed
qed

lemma edited_forest: "edited_plan v = Inr (plan, norm) \<Longrightarrow> forest (max_depth default_limits) (tp_tasks plan)"
  using edited_plan_conforms [of v plan norm] by (simp add: plan_conforms_def)

subsection \<open>What the loop creates\<close>

text \<open>A property that every creation keeps holds when the loop ends.\<close>

lemma create_pass_induct:
  assumes d: "distinct (map tn_ref ns)"
    and keep: "\<And>n g g1. waiting ns g \<Longrightarrow> n \<in> set (pg_pending g) \<Longrightarrow> \<not> blocked n g \<Longrightarrow>
      create_node env a w n g = Inr g1 \<Longrightarrow> P g \<Longrightarrow> P g1"
  shows "create_pass env a w ms g = Inr g' \<Longrightarrow> waiting ns g \<Longrightarrow> distinct ms \<Longrightarrow> set ms \<subseteq> set (pg_pending g) \<Longrightarrow>
    P g \<Longrightarrow> waiting ns g' \<and> P g'"
proof (induction ms arbitrary: g)
  case (Cons n ms)
  show ?case
  proof (cases "blocked n g")
    case True
    with Cons.prems show ?thesis by (intro Cons.IH) auto
  next
    case False
    with Cons.prems(1) obtain g1 where g1: "create_node env a w n g = Inr g1" "create_pass env a w ms g1 = Inr g'"
      by auto
    have n: "n \<in> set (pg_pending g)" using Cons.prems(4) by simp
    obtain t :: task where t: "waiting ns g1" "pg_pending g1 = remove1 n (pg_pending g)"
      by (rule create_node_D [OF g1(1) Cons.prems(2) d n]) blast
    show ?thesis
      using Cons.IH [OF g1(2) t(1) _ remaining_pending [OF t(2) Cons.prems(3,4)]] Cons.prems(3)
        keep [OF Cons.prems(2) n False g1(1) Cons.prems(5)] by simp
  qed
qed simp

lemma create_all_induct:
  assumes f: "forest depth ns"
    and keep: "\<And>n g g1. waiting ns g \<Longrightarrow> n \<in> set (pg_pending g) \<Longrightarrow> \<not> blocked n g \<Longrightarrow>
      create_node env a w n g = Inr g1 \<Longrightarrow> P g \<Longrightarrow> P g1"
  shows "create_all env a w g = Some (Inr g') \<Longrightarrow> waiting ns g \<Longrightarrow> P g \<Longrightarrow> waiting ns g' \<and> pg_pending g' = [] \<and> P g'"
proof (induction "length (pg_pending g)" arbitrary: g rule: less_induct)
  case less
  show ?case
  proof (cases "pg_pending g = []")
    case True
    with less.prems show ?thesis by (subst (asm) create_all.simps) simp
  next
    case False
    with less.prems(1) obtain g1 where g1: "create_pass env a w (pg_pending g) g = Inr g1"
      "create_all env a w g1 = Some (Inr g')"
      by (subst (asm) create_all.simps) (auto split: sum.splits)
    have d: "distinct (map tn_ref ns)" using f by (simp add: forest_def)
    then have dp: "distinct (pg_pending g)" using less.prems by (simp add: waiting_def distinct_of_map)
    from create_pass_shrinks [OF d g1(1) less.prems(2) dp] some_unblocked [OF f less.prems(2) False]
    have "length (pg_pending g1) < length (pg_pending g)" by auto
    moreover have "waiting ns g1 \<and> P g1"
      by (rule create_pass_induct [where P = P, OF d keep g1(1) less.prems(2) dp _ less.prems(3)]) auto
    ultimately show ?thesis using less.hyps g1(2) by blast
  qed
qed

text \<open>
  The contract of the loop: the Tasks \<open>made\<close>, one for each node, with the node's content and the Task
  of the node's parent as parent, are added in that order, each with its audit record; nothing else
  changes.
\<close>

definition node_task :: "uuid \<Rightarrow> workspace \<Rightarrow> (task_node \<times> task) list \<Rightarrow> task_node \<Rightarrow> task \<Rightarrow> bool" where
  "node_task a w made n t \<longleftrightarrow> t_workspace t = w_id w \<and> t_title t = strip (tn_title n)
     \<and> t_description t = Some (tn_description n) \<and> t_status t = TS_PENDING \<and> t_priority t = tn_priority n
     \<and> t_deadline t = tn_deadline n \<and> t_created_by t = a
     \<and> (case tn_parent n of None \<Rightarrow> t_parent t = None
        | Some p \<Rightarrow> \<exists>(m, u)\<in>set made. tn_ref m = p \<and> t_parent t = Some (t_id u))"

definition creation_log :: "uuid \<Rightarrow> task_node \<times> task \<Rightarrow> audit_log \<Rightarrow> bool" where
  "creation_log a nt l \<longleftrightarrow>
     al_user l = Some a \<and> al_entity_id l = Some (t_id (snd nt)) \<and> al_action l = ''task.created''"

definition plan_created :: "uuid \<Rightarrow> workspace \<Rightarrow> (task_node \<times> task) list \<Rightarrow> db \<Rightarrow> db \<Rightarrow> bool" where
  "plan_created a w made s s' \<longleftrightarrow>
     (\<exists>logs. list_all2 (creation_log a) made logs
        \<and> s' = s\<lparr>tasks := tasks s @ map snd made, audit_logs := audit_logs s @ logs\<rparr>)
     \<and> (\<forall>(n, t)\<in>set made. node_task a w made n t)"

definition built :: "uuid \<Rightarrow> workspace \<Rightarrow> task_node list \<Rightarrow> db \<Rightarrow> (task_node \<times> task) list \<Rightarrow> progress \<Rightarrow> bool" where
  "built a w ns s made g \<longleftrightarrow> pg_created g = map (\<lambda>(n, t). (tn_ref n, t_id t)) made
     \<and> set (map fst made) \<subseteq> set ns \<and> distinct (map fst made) \<and> plan_created a w made s (pg_db g)"

lemma node_task_more: "node_task a w made n t \<Longrightarrow> set made \<subseteq> set made' \<Longrightarrow> node_task a w made' n t"
  by (auto simp: node_task_def split: option.splits)

lemma fst_created: "fst ` set (map (\<lambda>(n, t). (tn_ref n, t_id t)) made) = tn_ref ` fst ` set made"
  by force

lemma built_step:
  assumes g: "waiting ns g" "distinct (map tn_ref ns)" "n \<in> set (pg_pending g)" "\<not> blocked n g"
    and c: "create_node env a w n g = Inr g1" and b: "built a w ns s made g"
  shows "\<exists>made'. built a w ns s made' g1"
proof (rule create_node_D [OF c g(1,2,3)])
  fix t
  assume cr: "pg_created g1 = pg_created g @ [(tn_ref n, t_id t)]"
    and t: "create_task (later_env env (pg_drawn g)) a (Val (the (w_profile w))) (Val (w_id w)) (Some (tn_title n))
       (Some (tn_description n)) (Val (tn_priority n)) (Val (tn_deadline n))
       (map_option Val (Option.bind (tn_parent n) (map_of (pg_created g)))) (pg_db g) = Inr (t, pg_db g1)"
  let ?made = "made @ [(n, t)]"
  from t obtain au w' p par where l: "locked a (Val (the (w_profile w))) (Val (w_id w)) (pg_db g) au w' p"
    and par: "lock_parent w' (map_option Val (Option.bind (tn_parent n) (map_of (pg_created g)))) (pg_db g) = Inr par"
    and nt: "t = new_task (later_env env (pg_drawn g)) w' par (Some (tn_title n)) (Some (tn_description n))
      (tn_priority n) (tn_deadline n) a"
    and lg: "logged a (t_id t) ''task.created'' ((pg_db g)\<lparr>tasks := tasks (pg_db g) @ [t]\<rparr>) (pg_db g1)"
    by (rule create_task_D) auto
  have "map_option t_id par = Option.bind (tn_parent n) (map_of (pg_created g))"
    using lock_parent_D [OF par] by (auto split: option.splits)
  moreover have "Option.bind (tn_parent n) (map_of (pg_created g)) = Some i \<Longrightarrow>
      \<exists>p. tn_parent n = Some p \<and> (\<exists>(m, u)\<in>set made. tn_ref m = p \<and> i = t_id u)" for i
    using b by (force simp: built_def bind_eq_Some_conv dest!: map_of_SomeD)
  moreover have "Option.bind (tn_parent n) (map_of (pg_created g)) = None \<Longrightarrow> tn_parent n = None"
    using g(4) by (auto simp: blocked_def bind_eq_None_conv map_of_eq_None_iff split: option.splits)
  ultimately have "node_task a w made n t"
    using l nt by (cases par) (fastforce simp: node_task_def new_task_def locked_def text_or_empty_def)+
  then have nodes: "\<forall>(m, u)\<in>set ?made. node_task a w ?made m u"
    using b by (auto simp: built_def plan_created_def intro: node_task_more)
  from b obtain logs where logs: "list_all2 (creation_log a) made logs"
    "pg_db g = s\<lparr>tasks := tasks s @ map snd made, audit_logs := audit_logs s @ logs\<rparr>"
    by (auto simp: built_def plan_created_def)
  from lg obtain l where "creation_log a (n, t) l"
    "pg_db g1 = (pg_db g)\<lparr>tasks := tasks (pg_db g) @ [t], audit_logs := audit_logs (pg_db g) @ [l]\<rparr>"
    by (auto simp: logged_def creation_log_def)
  with logs have "list_all2 (creation_log a) ?made (logs @ [l])"
    "pg_db g1 = s\<lparr>tasks := tasks s @ map snd ?made, audit_logs := audit_logs s @ (logs @ [l])\<rparr>"
    by (simp_all add: list_all2_appendI)
  with nodes have "plan_created a w ?made s (pg_db g1)" unfolding plan_created_def by blast
  moreover have "n \<in> set ns" "tn_ref n \<notin> tn_ref ` fst ` set made"
    using g(1,3) b fst_created [of made] by (auto simp only: built_def waiting_def set_filter set_map)
  then have "n \<in> set ns" "n \<notin> set (map fst made)" by auto
  ultimately have "built a w ns s ?made g1" using b cr by (simp add: built_def)
  then show ?thesis ..
qed

lemma create_all_builds:
  assumes f: "forest depth (tp_tasks plan)"
    and c: "create_all env a w (start_progress plan s) = Some (Inr g)"
  obtains made where "mset (map fst made) = mset (tp_tasks plan)" "plan_created a w made s (pg_db g)"
    "pg_created g = map (\<lambda>(n, t). (tn_ref n, t_id t)) made"
proof -
  let ?ns = "tp_tasks plan"
  have d: "distinct (map tn_ref ?ns)" using f by (simp add: forest_def)
  have "built a w ?ns s [] (start_progress plan s)"
    by (simp add: built_def plan_created_def start_progress_def)
  then have "waiting ?ns g \<and> pg_pending g = [] \<and> (\<exists>made. built a w ?ns s made g)"
    by (intro create_all_induct [OF f _ c waiting_start]) (auto intro: built_step [OF _ d])
  then obtain made where m: "built a w ?ns s made g" and w: "waiting ?ns g" "pg_pending g = []" by auto
  have "n \<in> set (map fst made)" if "n \<in> set ?ns" for n
  proof -
    have "tn_ref n \<in> fst ` set (pg_created g)" using w that by (auto simp: waiting_def filter_empty_conv dest!: sym [of "[]"])
    then obtain m where "m \<in> set (map fst made)" "tn_ref m = tn_ref n"
      using m by (force simp: built_def fst_created)
    moreover from this m that have "m = n"
      using distinct_map_eq [OF d] by (auto simp: built_def)
    ultimately show ?thesis by simp
  qed
  with m have "set (map fst made) = set ?ns" by (auto simp: built_def)
  then have "mset (map fst made) = mset ?ns"
    using m distinct_of_map [OF d] by (simp only: set_eq_iff_mset_eq_distinct [symmetric] built_def)
  with m that show thesis by (auto simp: built_def)
qed

subsection \<open>The transaction\<close>

lemma raising_eq_Inr [simp]: "raising r = Inr x \<longleftrightarrow> r = Inr x"
  by (auto simp: raising_def split: sum.splits)

lemma ai_manager_D:
  assumes "ai_manager actor pid wid s = Inr (a, w)"
  obtains au profile where "actor = Some a" "locked a pid wid s au w profile" "manages au" "ws_active s (w_id w)"
proof -
  from assms obtain wc m where l: "actor = Some a" "lock_workspace_mutation_context a pid wid s = Inr (wc, w, m)"
    "can_manage_workspace_tasks wc s"
    by (auto simp: ai_manager_def)
  obtain au where au: "locked a pid wid s au w (wc_profile wc)" "context_authority wc = Some au"
    "wc_workspace wc = w_id w"
    using lock_locked [OF l(2)] by metis
  with l edit_manages(2) [OF au(2) l(3)] that show thesis by simp
qed

definition owns :: "uuid \<Rightarrow> workspace \<Rightarrow> ai_proposal \<Rightarrow> bool" where
  "owns a w p \<longleftrightarrow> ap_actor p = a \<and> w_profile w = Some (ap_profile p) \<and> ap_workspace p = w_id w"

lemma find_proposal_D:
  "find_proposal a w prop s = Inr p \<Longrightarrow> prop = Val (ap_id p) \<and> p \<in> set (ai_proposals s) \<and> owns a w p"
  by (auto simp: find_proposal_def owns_def dest!: first_by_Some_in split: arg.splits)

lemma open_confirmation_D:
  assumes "open_confirmation env actor pid wid prop key revision norm s = Inr (Inr (a, w, p, canon))"
  shows "ai_manager actor pid wid (ai_db s) = Inr (a, w)" "prop = Val (ap_id p)" "p \<in> set (ai_proposals s)"
    "owns a w p" "ap_status p = AP_AVAILABLE" "ap_revision p = revision" "ap_payload p \<noteq> None"
    "e_now (ai_base env) < ap_expires_at p" "confirm_canonical p revision norm = Inr canon"
proof -
  from assms have m: "ai_manager actor pid wid (ai_db s) = Inr (a, w)" "find_proposal a w prop s = Inr p"
    and *: "ap_status p \<noteq> AP_CONFIRMED" "ap_revision p = revision" "ap_payload p \<noteq> None"
      "e_now (ai_base env) < ap_expires_at p" and c: "confirm_canonical p revision norm = Inr canon"
    by (auto simp: open_confirmation_def Let_def split: if_splits)
  from c show "confirm_canonical p revision norm = Inr canon" .
  from m(1) show "ai_manager actor pid wid (ai_db s) = Inr (a, w)" .
  from find_proposal_D [OF m(2)] show "prop = Val (ap_id p)" "p \<in> set (ai_proposals s)" "owns a w p" by simp_all
  from * show "ap_status p = AP_AVAILABLE" "ap_revision p = revision" "ap_payload p \<noteq> None"
    "e_now (ai_base env) < ap_expires_at p" by (cases "ap_status p"; simp)+
qed

text \<open>A request that returns either replayed a confirmation or ran the loop to its end.\<close>

lemma confirm_proposal_cases:
  assumes "confirm_proposal env actor pid wid prop key revision payload confirmed s = Some (Inr ((q, replayed), s'))"
  obtains (replay) "replayed" "s' = s"
  | (fresh) plan n k a w p canon g where "\<not> replayed" "edited_plan payload = Inr (plan, plan_json plan)"
      "forest (max_depth default_limits) (tp_tasks plan)"
      "open_confirmation env actor pid wid prop k n (plan_json plan) s = Inr (Inr (a, w, p, canon))"
      "create_all (ai_base env) a w (start_progress plan (ai_db s)) = Some (Inr g)"
      "finish_confirmation env a k canon p g s = Inr ((q, False), s')"
      "confirm_arguments confirmed revision = Inr n" "key_digest env key = Inr k"
proof -
  let ?pre = "bindE (ai_enabled env) (\<lambda>_.
        bindE (confirm_arguments confirmed revision) (\<lambda>rev_no.
        bindE (key_digest env key) (\<lambda>key.
        bindE (edited_plan payload) (\<lambda>(plan, normalized).
        bindE (open_confirmation env actor pid wid prop key rev_no normalized s)
          (\<lambda>r. Inr (key, plan, r))))))"
  from assms obtain x where x: "?pre = Inr x" unfolding confirm_proposal_def by (cases ?pre) auto
  then obtain n k plan norm r where *: "edited_plan payload = Inr (plan, norm)"
    "open_confirmation env actor pid wid prop k n norm s = Inr r" "x = (k, plan, r)"
    "confirm_arguments confirmed revision = Inr n" "key_digest env key = Inr k"
    by auto
  have norm: "norm = plan_json plan" "forest (max_depth default_limits) (tp_tasks plan)"
    using edited_plan_conforms [OF *(1)] by (simp_all add: plan_conforms_def)
  have v: "confirm_proposal env actor pid wid prop key revision payload confirmed s = (case r of
      Inl p \<Rightarrow> Some (Inr ((p, True), s))
    | Inr (a, w, p, canon) \<Rightarrow>
        map_option (\<lambda>r. bindE (raising r) (\<lambda>g. finish_confirmation env a k canon p g s))
          (create_all (ai_base env) a w (start_progress plan (ai_db s))))"
    unfolding confirm_proposal_def x *(3) by (simp split: sum.split prod.split)
  show thesis
  proof (cases r)
    case (Inl p)
    with v assms show thesis by (intro replay) auto
  next
    case (Inr y)
    obtain a w p canon where y: "y = (a, w, p, canon)" by (cases y)
    have "map_option (\<lambda>r. bindE (raising r) (\<lambda>g. finish_confirmation env a k canon p g s))
        (create_all (ai_base env) a w (start_progress plan (ai_db s))) = Some (Inr ((q, replayed), s'))"
      using v Inr assms y by simp
    then obtain g where g: "create_all (ai_base env) a w (start_progress plan (ai_db s)) = Some (Inr g)"
      "finish_confirmation env a k canon p g s = Inr ((q, replayed), s')"
      by auto
    then have "\<not> replayed" by (auto simp: finish_confirmation_def Let_def)
    with g *(1,2,4,5) norm Inr y show thesis by (intro fresh) auto
  qed
qed

lemma finish_confirmation_D:
  assumes "finish_confirmation env a k canon p g s = Inr ((q, r), s')"
  shows "q = confirmed_row env (pg_created g) p"
    "ai_proposals s' = update_where (\<lambda>x. ap_id x = ap_id p) (\<lambda>_. q) (ai_proposals s)"
    "proposals_ok (ai_proposals s')" "operations_ok (ai_operations s')"
    "logged a (ap_id p) ''ai.proposal.confirmed'' (pg_db g) (ai_db s')"
    "\<exists>x. ai_operations s' = ai_operations s @ [x] \<and> ao_operation x = OP_CONFIRM \<and> ao_proposal x = ap_id p
       \<and> ao_actor x = a \<and> ao_profile x = ap_profile p \<and> ao_workspace x = ap_workspace p
       \<and> ao_key_digest x = k \<and> ao_body_digest x = body_digest env canon"
  using assms
  by (auto simp: finish_confirmation_def Let_def write_proposals_def write_operations_def add_operation_def
      new_operation_def write_proposal_audit_def confirmed_row_def split: if_splits dest!: write_audit_logged)

end
