(* ===== verification/Proposal_System.thy ===== *)
theory Proposal_System
  imports Proposal_Theorems
begin

text \<open>
  The whole system with the AI services: the transitions of the database, the generation of
  proposals and their confirmation, in any order. Whatever the other services keep invariant the
  confirmations keep as well, because they only create Tasks and audit records; the interface
  \<open>audited_invariant\<close> states what an invariant of the database needs for that.
\<close>

inductive ai_step :: "ai_state \<Rightarrow> ai_state \<Rightarrow> bool" where
  ai_base_step: "step (ai_db s) d \<Longrightarrow> ai_step s (s\<lparr>ai_db := d\<rparr>)"
| ai_generate_step:
    "generate_proposal_at env env' s0 actor pid wid sid key s = Inr (r, s') \<Longrightarrow> ai_step s s'"
| ai_confirm_step:
    "confirm_proposal env actor pid wid prop key revision payload confirmed s = Some (Inr (r, s')) \<Longrightarrow> ai_step s s'"

inductive ai_reachable :: "ai_state \<Rightarrow> bool" where
  ai_initially: "initial (ai_db s) \<Longrightarrow> ai_proposals s = [] \<Longrightarrow> ai_operations s = [] \<Longrightarrow> ai_reachable s"
| ai_stepwise: "ai_reachable s \<Longrightarrow> ai_step s s' \<Longrightarrow> ai_reachable s'"

lemma ai_reachable_db: "reachable d \<Longrightarrow> ai_reachable \<lparr>ai_db = d, ai_proposals = [], ai_operations = []\<rparr>"
proof (induction rule: reachable.induct)
  case (initially d)
  then show ?case by (intro ai_initially) simp_all
next
  case (stepwise d d')
  from ai_stepwise [OF stepwise.IH ai_base_step, of d'] stepwise.hyps(2) show ?case by simp
qed

inductive_cases ai_stepE: "ai_step s s'"

subsection \<open>What the services change\<close>

lemma ai_manager_profile: "ai_manager actor pid wid s = Inr (a, w) \<Longrightarrow> \<exists>p. w_profile w = Some p"
  by (erule ai_manager_D) (auto simp: locked_def)

lemma replay_generation_D:
  "replay_generation env actor pid wid key canon s = Inr (Inr (a, w)) \<Longrightarrow> ai_manager actor pid wid (ai_db s) = Inr (a, w)"
  by (auto simp: replay_generation_def split: option.splits if_splits)

lemma generate_proposal_cases:
  assumes "generate_proposal_at env env' s0 actor pid wid sid key s = Inr ((q, replayed), s')"
  obtains (replay) "replayed" "s' = s"
  | (fresh) a w profile sid' payload x where "\<not> replayed" "ai_manager actor pid wid (ai_db s) = Inr (a, w)"
      "w_profile w = Some profile" "q = new_proposal env' a profile w sid' payload"
      "s' = s\<lparr>ai_proposals := ai_proposals s @ [q], ai_operations := ai_operations s @ [x]\<rparr>"
      "proposals_ok (ai_proposals s')" "operations_ok (ai_operations s')"
      "ao_operation x = OP_GENERATE" "ao_proposal x = ap_id q" "ao_actor x = a" "ao_profile x = profile"
      "ao_workspace x = w_id w"
proof -
  from assms obtain scenario sid' brief k canon r where r: "replay_generation env actor pid wid k canon s0 = Inr r"
    "(case r of Inl p \<Rightarrow> Inr ((p, True), s)
      | Inr _ \<Rightarrow> if ai_in_atomic env then Inl (ai_error VALIDATION_ERROR [])
          else bindE (fixture_payload env scenario brief) (\<lambda>payload.
            store_generation env' actor pid wid k canon sid' payload s)) = Inr ((q, replayed), s')"
    by (auto simp: generate_proposal_at_def split: arg.splits option.splits)
  show thesis
  proof (cases r)
    case (Inl p)
    with r(2) show thesis by (intro replay) auto
  next
    case (Inr y)
    with r(2) obtain payload where "store_generation env' actor pid wid k canon sid' payload s = Inr ((q, replayed), s')"
      by (auto split: if_splits)
    then obtain z where z: "replay_generation env' actor pid wid k canon s = Inr z"
      "(case z of Inl p \<Rightarrow> Inr ((p, True), s)
        | Inr (a, w) \<Rightarrow> require_some (w_profile w) (Raised IntegrityError) (\<lambda>profile.
           let p = new_proposal env' a profile w sid' payload in
           bindE (write_proposals (ai_proposals s @ [p]) s) (\<lambda>s1.
           bindE (add_operation env' 1 a OP_GENERATE k canon p s1) (\<lambda>s2. Inr ((p, False), s2)))))
       = Inr ((q, replayed), s')"
      by (auto simp: store_generation_def)
    show thesis
    proof (cases z)
      case (Inl p)
      with z(2) show thesis by (intro replay) auto
    next
      case (Inr aw)
      obtain a w where aw: "aw = (a, w)" by (cases aw)
      with Inr z(1) replay_generation_D [of env' actor pid wid k canon s a w]
      have m: "ai_manager actor pid wid (ai_db s) = Inr (a, w)" by simp
      from Inr aw z(2) obtain profile where pr: "w_profile w = Some profile"
        and q: "\<not> replayed" "q = new_proposal env' a profile w sid' payload"
        and s': "s' = s\<lparr>ai_proposals := ai_proposals s @ [q],
          ai_operations := ai_operations s @ [new_operation env' 1 a OP_GENERATE k canon q]\<rparr>"
          "proposals_ok (ai_proposals s')" "operations_ok (ai_operations s')"
        by (auto simp: Let_def write_proposals_def add_operation_def write_operations_def split: if_splits)
      show thesis
        by (rule fresh [OF q(1) m pr q(2) s']) (simp_all add: q(2) new_operation_def new_proposal_def Let_def)
    qed
  qed
qed

text \<open>The AI services change the database only by creating the Tasks of a plan and logging.\<close>

lemma generate_db: "generate_proposal_at env env' s0 actor pid wid sid key s = Inr (r, s') \<Longrightarrow> ai_db s' = ai_db s"
  by (cases r) (auto elim: generate_proposal_cases)

subsection \<open>Invariants of the database\<close>

locale audited_invariant = invariant inv for inv :: "db \<Rightarrow> bool" +
  assumes inv_logged: "inv s \<Longrightarrow> logged a i act s s' \<Longrightarrow> inv s'"
begin

lemma inv_create_node: "create_node env a w n g = Inr g1 \<Longrightarrow> inv (pg_db g) \<Longrightarrow> inv (pg_db g1)"
proof -
  assume "create_node env a w n g = Inr g1" and i: "inv (pg_db g)"
  then obtain e p ti de pr dl par t where
    "create_task e a p (Val (w_id w)) ti de pr dl par (pg_db g) = Inr (t, pg_db g1)"
    by (auto simp: create_node_def split: option.splits)
  then have "exec e (CreateTask a p (Val (w_id w)) ti de pr dl par) (pg_db g) = Inr (pg_db g1)" by auto
  with i show "inv (pg_db g1)" by (rule inv_exec)
qed

lemma inv_confirm:
  assumes "confirm_proposal env actor pid wid prop key revision payload confirmed s = Some (Inr (r, s'))"
    and i: "inv (ai_db s)"
  shows "inv (ai_db s')"
proof (cases r)
  case (Pair q replayed)
  from assms(1) [unfolded Pair] show ?thesis
  proof (cases rule: confirm_proposal_cases)
    case (fresh plan n k a w p canon g)
    have "inv (pg_db g)"
      using create_all_induct [where P = "\<lambda>g. inv (pg_db g)", OF fresh(3) _ fresh(5) waiting_start] i
        inv_create_node by (auto simp: start_progress_def)
    then show ?thesis by (rule inv_logged) (rule finish_confirmation_D(5) [OF fresh(6)])
  qed (use i in simp)
qed

lemma inv_ai_step: "ai_step s s' \<Longrightarrow> inv (ai_db s) \<Longrightarrow> inv (ai_db s')"
  by (erule ai_stepE) (auto intro: inv_step inv_confirm simp: generate_db)

lemma ai_always: "ai_reachable s \<Longrightarrow> inv (ai_db s)"
  by (induction rule: ai_reachable.induct) (auto intro: inv_initial inv_ai_step)

end

interpretation ai_constraints: audited_invariant db_ok
  by unfold_locales (rule db_ok_logged)

interpretation ai_hierarchy: audited_invariant "\<lambda>s. db_ok s \<and> hierarchy_ok (tasks s)"
  by unfold_locales (auto intro: db_ok_logged dest: logged_tables(7))

interpretation ai_workflow: audited_invariant "\<lambda>s. db_ok s \<and> workflow_inv s"
  by unfold_locales (auto intro: db_ok_logged simp: workflow_frame [OF task_tables_logged])

subsection \<open>Proposals and operations\<close>

definition same_scope :: "ai_operation \<Rightarrow> ai_proposal \<Rightarrow> bool" where
  "same_scope x p \<longleftrightarrow> ao_actor x = ap_actor p \<and> ao_profile x = ap_profile p \<and> ao_workspace x = ap_workspace p"

definition operation_settled :: "ai_state \<Rightarrow> ai_operation \<Rightarrow> bool" where
  "operation_settled s x \<longleftrightarrow> (\<exists>p\<in>set (ai_proposals s). ao_proposal x = ap_id p \<and> same_scope x p
     \<and> (ao_operation x = OP_CONFIRM \<longrightarrow> ap_status p = AP_CONFIRMED))"

definition task_in :: "task list \<Rightarrow> uuid \<Rightarrow> uuid \<Rightarrow> uuid \<Rightarrow> bool" where
  "task_in ts w a i \<longleftrightarrow> (\<exists>t\<in>set ts. t_id t = i \<and> t_workspace t = w \<and> t_created_by t = a)"

definition proposal_settled :: "ai_state \<Rightarrow> ai_proposal \<Rightarrow> bool" where
  "proposal_settled s p \<longleftrightarrow> (ap_status p = AP_CONFIRMED \<longrightarrow>
     (\<exists>x\<in>set (ai_operations s). ao_operation x = OP_CONFIRM \<and> ao_proposal x = ap_id p)
     \<and> (\<exists>created. ap_created_tasks p = Some created
        \<and> (\<forall>i\<in>snd ` set created. task_in (tasks (ai_db s)) (ap_workspace p) (ap_actor p) i)))"

definition ai_inv :: "ai_state \<Rightarrow> bool" where
  "ai_inv s \<longleftrightarrow> proposals_ok (ai_proposals s) \<and> operations_ok (ai_operations s)
     \<and> (\<forall>x\<in>set (ai_operations s). operation_settled s x) \<and> (\<forall>p\<in>set (ai_proposals s). proposal_settled s p)"

lemma proposal_settled_evolve:
  assumes "proposal_settled s p" "tasks_evolve (tasks (ai_db s)) (tasks (ai_db s'))"
    "set (ai_operations s) \<subseteq> set (ai_operations s')"
  shows "proposal_settled s' p"
proof -
  have "task_in (tasks (ai_db s)) w a i \<Longrightarrow> task_in (tasks (ai_db s')) w a i" for w a i
    using assms(2) by (fastforce simp: task_in_def tasks_evolve_def evolved_def)
  with assms(1,3) show ?thesis by (auto simp: proposal_settled_def)
qed

lemma ai_inv_base:
  assumes "db_ok (ai_db s)" "ai_inv s" "step (ai_db s) d"
  shows "ai_inv (s\<lparr>ai_db := d\<rparr>)"
proof -
  from assms(3,1) have "tasks_evolve (tasks (ai_db s)) (tasks d)"
    by (auto simp: step_iff intro: evolve_exec)
  with assms(2) show ?thesis
    by (auto simp: ai_inv_def operation_settled_def intro: proposal_settled_evolve)
qed

lemma ai_inv_generate:
  assumes i: "ai_inv s" and g: "generate_proposal_at env env' s0 actor pid wid sid key s = Inr ((q, r), s')"
  shows "ai_inv s'"
  using g
proof (cases rule: generate_proposal_cases)
  case (fresh a w profile sid' payload x)
  have q: "ap_status q = AP_AVAILABLE" "same_scope x q" using fresh by (simp_all add: new_proposal_def same_scope_def Let_def)
  have "operation_settled s' y" if "y \<in> set (ai_operations s')" for y
    using that i fresh q by (auto simp: ai_inv_def operation_settled_def)
  moreover have "proposal_settled s' p" if "p \<in> set (ai_proposals s')" for p
  proof (cases "p = q")
    case True
    with q show ?thesis by (simp add: proposal_settled_def)
  next
    case False
    with that i fresh show ?thesis by (auto simp: ai_inv_def intro: proposal_settled_evolve)
  qed
  ultimately show ?thesis using fresh by (simp add: ai_inv_def)
qed (use i in simp)

lemma plan_created_pending: "plan_created a w made s s' \<Longrightarrow> t \<in> snd ` set made \<Longrightarrow> t_status t = TS_PENDING"
  by (force simp: plan_created_def node_task_def)

lemma ai_inv_confirm:
  assumes i: "ai_inv s"
    and c: "confirm_proposal env actor pid wid prop key revision payload confirmed s = Some (Inr ((q, r), s'))"
  shows "ai_inv s'"
  using c
proof (cases rule: confirm_proposal_cases)
  case (fresh plan n k a w p canon g)
  note O = open_confirmation_D [OF fresh(4)] and F = finish_confirmation_D [OF fresh(6)]
  obtain made where made: "plan_created a w made (ai_db s) (pg_db g)"
    "pg_created g = map (\<lambda>(n, t). (tn_ref n, t_id t)) made"
    by (rule create_all_builds [OF fresh(3,5)])
  have ts: "tasks (ai_db s') = tasks (ai_db s) @ map snd made"
    using made(1) logged_tables(7) [OF F(5)] by (auto simp: plan_created_def)
  from F(6) obtain x where x: "ai_operations s' = ai_operations s @ [x]" "ao_operation x = OP_CONFIRM"
    "ao_proposal x = ap_id p" "ao_actor x = a" "ao_profile x = ap_profile p" "ao_workspace x = ap_workspace p" by auto
  have q: "ap_id q = ap_id p" "ap_status q = AP_CONFIRMED" "ap_actor q = ap_actor p" "ap_profile q = ap_profile p"
    "ap_workspace q = ap_workspace p" "ap_created_tasks q = Some (pg_created g)"
    by (simp_all add: F(1) confirmed_row_def)
  have P: "y \<in> set (ai_proposals s') \<longleftrightarrow> (\<exists>z\<in>set (ai_proposals s). y = (if ap_id z = ap_id p then q else z))" for y
    by (simp add: F(2) in_update_where)
  have uniq: "z = p" if "z \<in> set (ai_proposals s)" "ap_id z = ap_id p" for z
    using that i O(3) by (auto simp: ai_inv_def proposals_ok_def intro: distinct_map_eq)
  have qin: "q \<in> set (ai_proposals s')" using P O(3) by auto
  have "operation_settled s' y" if "y \<in> set (ai_operations s')" for y
  proof (cases "y \<in> set (ai_operations s)")
    case True
    with i obtain z where z: "z \<in> set (ai_proposals s)" "ao_proposal y = ap_id z" "same_scope y z"
      "ao_operation y = OP_CONFIRM \<longrightarrow> ap_status z = AP_CONFIRMED"
      by (auto simp: ai_inv_def operation_settled_def)
    show ?thesis
    proof (cases "ap_id z = ap_id p")
      case True
      with z uniq [OF z(1)] q show ?thesis
        unfolding operation_settled_def by (intro bexI [OF _ qin]) (simp add: same_scope_def)
    next
      case False
      then have "z \<in> set (ai_proposals s')" using P z(1) by auto
      with z show ?thesis by (auto simp: operation_settled_def)
    qed
  next
    case False
    with that x have "y = x" by simp
    with x q O(4) show ?thesis
      unfolding operation_settled_def by (intro bexI [OF _ qin]) (simp add: same_scope_def owns_def)
  qed
  moreover have "proposal_settled s' y" if "y \<in> set (ai_proposals s')" for y
  proof (cases "y = q")
    case True
    have "task_in (tasks (ai_db s')) (ap_workspace q) (ap_actor q) i" if "i \<in> snd ` set (pg_created g)" for i
      using that made O(4) q unfolding ts plan_created_def node_task_def owns_def task_in_def by force
    with True x q show ?thesis by (auto simp: proposal_settled_def)
  next
    case False
    with that P i have "proposal_settled s y" by (auto simp: ai_inv_def)
    moreover have "tasks_evolve (tasks (ai_db s)) (tasks (ai_db s'))"
      using plan_created_pending [OF made(1)] by (auto simp: ts tasks_evolve_def intro: evolved_refl)
    ultimately show ?thesis using x(1) by (auto intro: proposal_settled_evolve)
  qed
  ultimately show ?thesis using F(3,4) by (simp add: ai_inv_def)
qed (use i in simp)

lemma ai_inv_step: "ai_step s s' \<Longrightarrow> db_ok (ai_db s) \<Longrightarrow> ai_inv s \<Longrightarrow> ai_inv s'"
  by (erule ai_stepE) (auto intro: ai_inv_base dest: ai_inv_generate ai_inv_confirm)

lemma ai_inv_reachable: "ai_reachable s \<Longrightarrow> ai_inv s"
proof (induction rule: ai_reachable.induct)
  case (ai_initially s)
  then show ?case by (simp add: ai_inv_def proposals_ok_def operations_ok_def)
next
  case (ai_stepwise s s')
  from ai_inv_step [OF ai_stepwise(2) ai_constraints.ai_always [OF ai_stepwise(1)] ai_stepwise(3)] show ?case .
qed

end
