(* ===== verification/Proposal_Properties.thy ===== *)
theory Proposal_Properties
  imports Proposal_System Scenario "HOL-Library.Code_Target_Numeral"
begin

text \<open>
  The properties of the AI proposals, each with a run on concrete values: a payload whose nodes are
  in the wrong order with a deadline in another time zone, read, stored and confirmed. Natural
  numbers are evaluated in binary here (\<open>Code_Target_Numeral\<close>), for the instants in microseconds.
\<close>

subsection \<open>A sample\<close>

definition sample_payload :: jval where
  "sample_payload = VObj
    [(ascii ''warnings'', VList []),
     (ascii ''tasks'', VList
       [VObj [(ascii ''local_ref'', VStr (ascii ''item_2'')), (ascii ''parent_ref'', VStr (ascii ''item_1'')),
          (ascii ''title'', VStr (ascii '' B'')), (ascii ''description'', VStr []),
          (ascii ''priority'', VStr (ascii ''HIGH'')),
          (ascii ''proposed_deadline'', VStr (ascii ''2026-03-01T02:30:00.5+07:00'')), (ascii ''notes'', VStr [])],
        VObj [(ascii ''local_ref'', VStr (ascii ''item_1'')), (ascii ''parent_ref'', VNull),
          (ascii ''title'', VStr (ascii ''A'')), (ascii ''description'', VStr [34, 7871]),
          (ascii ''priority'', VStr (ascii ''LOW'')), (ascii ''proposed_deadline'', VNull),
          (ascii ''notes'', VStr [])]]),
     (ascii ''contract_version'', VStr task_plan_version), (ascii ''assumptions'', VList [])]"

definition sample_plan :: task_plan where
  "sample_plan = \<lparr>tp_version = task_plan_version, tp_tasks =
    [\<lparr>tn_ref = ascii ''item_2'', tn_parent = Some (ascii ''item_1''), tn_title = ascii '' B'',
      tn_description = [], tn_priority = PRI_HIGH, tn_deadline = Some 63907903800500000, tn_notes = []\<rparr>,
     \<lparr>tn_ref = ascii ''item_1'', tn_parent = None, tn_title = ascii ''A'',
      tn_description = [34, 7871], tn_priority = PRI_LOW, tn_deadline = None, tn_notes = []\<rparr>],
    tp_assumptions = [], tp_warnings = []\<rparr>"

lemma sample_edited: "edited_plan sample_payload = Inr (sample_plan, plan_json sample_plan)"
  by code_simp

lemma sample_parsed: "parse_task_plan (dumps sample_payload) default_limits = Inr sample_plan"
  by code_simp

lemma sample_conforms: "plan_conforms default_limits sample_plan"
  using edited_plan_conforms [OF sample_edited] ..

lemma format_instant_length: "length (format_instant i) \<le> 27"
  by (simp add: format_instant_def Let_def split: prod.split)

lemma sample_weight: "weight (plan_json sample_plan) \<le> 2000"
  using format_instant_length [of 63907903800500000]
  by (simp add: plan_json_def sample_plan_def node_json_def parent_json_def deadline_json_def ascii_def
      task_plan_version_def)

lemma sample_fits: "utf8_length (dumps (plan_json sample_plan)) \<le> max_request_bytes default_limits"
  using dumps_length [of "plan_json sample_plan"] sample_weight by (simp add: default_limits_def)

definition ai_env_at :: "nat \<Rightarrow> ai_env" where
  "ai_env_at k = \<lparr>ai_base = env_at k, ai_hmac = (\<lambda>key t. replicate (length t) (CHR ''m'')), ai_secret_key = [115],
     ai_fallback_keys = [], ai_fixture_enabled = True, ai_environment = ''development'',
     ai_is_production = False, ai_in_atomic = False, ai_zone_known = (\<lambda>_. True)\<rparr>"

text \<open>A Profile and a Workspace from the empty database, a generated proposal and its confirmation.\<close>

definition sample_db :: db where
  "sample_db = (case run (take 2 story) ex_start of Inr d \<Rightarrow> d | Inl _ \<Rightarrow> ex_start)"

definition sample_start :: ai_state where
  "sample_start = \<lparr>ai_db = sample_db, ai_proposals = [], ai_operations = []\<rparr>"

lemma sample_db_run: "run (take 2 story) ex_start = Inr sample_db"
proof -
  have "case run (take 2 story) ex_start of Inl _ \<Rightarrow> False | Inr _ \<Rightarrow> True" by code_simp
  then show ?thesis by (simp add: sample_db_def split: sum.splits)
qed

definition sample_generation where
  "sample_generation = generate_proposal (ai_env_at 20) (Some 1) (Val 1000) (Val 2000)
     (Val (ascii ''subtitle-check-v1'')) (Val 77) sample_start"

lemma sample_generated:
  "case sample_generation of Inl _ \<Rightarrow> False
   | Inr ((p, replayed), s) \<Rightarrow> \<not> replayed \<and> ai_db s = sample_db \<and> ai_proposals s = [p]
       \<and> map ao_operation (ai_operations s) = [OP_GENERATE] \<and> map ao_id (ai_operations s) = [20001]
       \<and> ap_id p = 20000 \<and> ap_actor p = 1 \<and> ap_profile p = 1000 \<and> ap_workspace p = 2000
       \<and> ap_status p = AP_AVAILABLE \<and> ap_contract_version p = task_plan_version \<and> ap_revision p = 1
       \<and> ap_scenario_id p = ascii ''subtitle-check-v1'' \<and> ap_payload p \<noteq> None \<and> ap_created_at p = 20
       \<and> ap_expires_at p = 1800000020 \<and> ap_payload_expires_at p = 604800000020"
  by code_simp

definition sample_workspace :: workspace where
  "sample_workspace = \<lparr>w_id = 2000, w_name = [87], w_description = None, w_profile = Some 1000, w_owner = 1,
     w_period = Some (Date 2026 10 1), w_status = WS_ACTIVE, w_created_at = 2, w_updated_at = 2\<rparr>"

lemma sample_workspace_fields: "w_id sample_workspace = 2000" "w_profile sample_workspace = Some 1000"
  by code_simp+

lemma sample_manager: "ai_manager (Some 1) (Val 1000) (Val 2000) sample_db = Inr (1, sample_workspace)"
  by code_simp

lemma ascii_length: "length (ascii t) = length t"
  by (simp add: ascii_def)

lemma hex_padded_length [simp]: "length (hex_padded k n) = k"
  by (induction k arbitrary: n) simp_all

lemma hex_padded_encodable [simp]: "utf8_encodable (hex_padded k n)"
  by (induction k arbitrary: n) (simp_all add: hex_digit_encodable)

lemma sample_canonical:
  assumes "ap_id p = 20000" "ap_scenario_id p = ascii ''subtitle-check-v1''"
  obtains c where "confirm_canonical p 1 (plan_json sample_plan) = Inr c"
proof -
  have "utf8_encodable (uuid_text 20000)" "length (uuid_text 20000) = 36" by (simp_all add: uuid_text_def)
  moreover have "length (int_text 1) = 1" "length (decimal 1) = 1"
    by (simp_all add: int_text_def decimal.simps)
  ultimately show thesis
    using that sample_weight plan_json_readable plan_json_encodable [OF sample_conforms] unfolding confirm_canonical_def assms
    by (subst (asm) canonical_small) (simp_all add: ascii_length max_int_digits_def default_limits_def)
qed

definition sample_progress :: progress where
  "sample_progress = (case create_all (env_at 21) 1 sample_workspace (start_progress sample_plan sample_db) of
     Some (Inr g) \<Rightarrow> g | _ \<Rightarrow> start_progress sample_plan sample_db)"

lemma sample_created:
  "create_all (env_at 21) 1 sample_workspace (start_progress sample_plan sample_db) = Some (Inr sample_progress)"
proof -
  have "case create_all (env_at 21) 1 sample_workspace (start_progress sample_plan sample_db) of
      Some (Inr g) \<Rightarrow> length (pg_created g) = 2 | _ \<Rightarrow> False"
    by code_simp
  then show ?thesis unfolding sample_progress_def by (auto split: option.splits sum.splits)
qed

lemma sample_progress_fields:
  "pg_drawn sample_progress = 4 \<and> map t_parent (tasks (pg_db sample_progress)) = [None, Some 21000]
   \<and> map t_title (tasks (pg_db sample_progress)) = [[65], [66]]
   \<and> distinct (map al_id (audit_logs (pg_db sample_progress)) @ [21005])"
  by code_simp

lemma sample_confirmed:
  obtains q p s s' where "sample_generation = Inr ((p, False), s)"
    "confirm_proposal (ai_env_at 21) (Some 1) (Val 1000) (Val 2000) (Val 20000) (Val 78) (VInt 1)
      sample_payload (VBool True) s = Some (Inr ((q, False), s'))"
    "tasks (ai_db s') = tasks (pg_db sample_progress)" "ai_proposals s' = [q]" "ap_status q = AP_CONFIRMED"
proof -
  obtain p s x where g: "sample_generation = Inr ((p, False), s)" "ai_db s = sample_db" "ai_proposals s = [p]"
    "ai_operations s = [x]" "ao_operation x = OP_GENERATE" "ao_id x = 20001"
    and p: "ap_id p = 20000" "ap_actor p = 1" "ap_profile p = 1000" "ap_workspace p = 2000"
    "ap_status p = AP_AVAILABLE" "ap_contract_version p = task_plan_version" "ap_revision p = 1"
    "ap_scenario_id p = ascii ''subtitle-check-v1''" "ap_payload p \<noteq> None" "ap_created_at p = 20"
    "ap_expires_at p = 1800000020" "ap_payload_expires_at p = 604800000020"
    using sample_generated by (auto split: sum.splits)
  obtain c where c: "confirm_canonical p 1 (plan_json sample_plan) = Inr c"
    by (rule sample_canonical [OF p(1,8)])
  have env: "ai_base (ai_env_at 21) = env_at 21" "e_now (env_at 21) = 21" "e_uuid (env_at 21) k = 21000 + k" for k
    by (simp_all add: ai_env_at_def env_at_def)
  have f: "find_proposal 1 sample_workspace (Val 20000) s = Inr p"
    by (simp add: find_proposal_def g p sample_workspace_fields)
  have r: "replayed_operation (ai_env_at 21) 1 sample_workspace OP_CONFIRM k c p s = Inr None" for k
    by (simp add: replayed_operation_def find_operation_def g)
  have o: "open_confirmation (ai_env_at 21) (Some 1) (Val 1000) (Val 2000) (Val 20000) k 1 (plan_json sample_plan) s
      = Inr (Inr (1, sample_workspace, p, c))" for k
    by (simp del: One_nat_def bindE_eq_Inr add: open_confirmation_def Let_def g sample_manager f c r p env)
  let ?q = "confirmed_row (ai_env_at 21) (pg_created sample_progress) p"
  have q: "proposals_ok [?q]"
    by (simp add: proposals_ok_def proposal_ok_def confirmed_row_def p env days_def)
  have x: "operations_ok [x, new_operation (ai_env_at 21) 4 1 OP_CONFIRM k c ?q]" for k
    by (simp add: operations_ok_def operation_key_def new_operation_def g env)
  have l: "audit_logs_ok (audit_logs (pg_db sample_progress) @ [l])" if "al_id l = 21005" for l
    using sample_progress_fields that by (simp add: audit_logs_ok_def)
  have drawn: "pg_drawn sample_progress = 4" using sample_progress_fields by simp
  have fin: "\<exists>s'. finish_confirmation (ai_env_at 21) 1 k c p sample_progress s = Inr ((?q, False), s')
      \<and> ai_proposals s' = [?q] \<and> tasks (ai_db s') = tasks (pg_db sample_progress)" for k
    by (simp del: bindE_eq_Inr One_nat_def add: finish_confirmation_def Let_def write_proposals_def add_operation_def
        write_operations_def write_proposal_audit_def write_audit_def write_audit_logs_def raising_def
        update_where_def g q x l p drawn env)
  obtain k where k: "key_digest (ai_env_at 21) (Val 78) = Inr k" by (simp add: key_digest_def)
  have "confirm_arguments (VBool True) (VInt 1) = Inr 1" "ai_enabled (ai_env_at 21) = Inr ()"
    by (simp_all add: confirm_arguments_def ai_enabled_def ai_env_at_def)
  with fin [of k] obtain s' where
    "confirm_proposal (ai_env_at 21) (Some 1) (Val 1000) (Val 2000) (Val 20000) (Val 78) (VInt 1)
      sample_payload (VBool True) s = Some (Inr ((?q, False), s'))"
    "ai_proposals s' = [?q]" "tasks (ai_db s') = tasks (pg_db sample_progress)"
    by (auto simp del: bindE_eq_Inr One_nat_def simp add: confirm_proposal_def k sample_edited o g sample_created env
        raising_def)
  with that g(1) show thesis by (simp add: confirmed_row_def)
qed

subsection \<open>The properties\<close>

text \<open>
  C36. Whatever text a provider returns, the plan \<open>parse_task_plan\<close> accepts is well formed: the
  contract's version, between one and \<open>max_tasks\<close> nodes with distinct local references, every text
  within its bound, encodable and free of NUL, every deadline an instant of the years 1 to 9999, and
  the parents form a forest of at most \<open>max_depth\<close> levels below a root: no cycle and no dangling parent.
\<close>

theorem accepted_plan_conforms:
  assumes "parse_task_plan raw l = Inr p"
  shows "plan_conforms l p"
  using assms plan_of_conforms by (auto simp: parse_task_plan_def)

theorem accepted_plan_conforms_witness:
  "\<exists>p. parse_task_plan (dumps sample_payload) default_limits = Inr p \<and> length (tp_tasks p) = 2
     \<and> plan_conforms default_limits p"
  using accepted_plan_conforms [OF sample_parsed] sample_parsed by (simp add: sample_plan_def)

text \<open>
  C37. The stored form of a plan is stable: whatever payload a user edits, if \<open>_edited_plan\<close> accepts it
  then the JSON \<open>_plan_json\<close> builds from the result, which the operation digest covers, is accepted
  again and gives the same plan and the same JSON, as long as it fits the request limit. Encoding
  (\<open>_canonical\<close>, with its sorted keys and escapes), decoding, the reading of every text and deadline and
  the checks of the contract are undone exactly.
\<close>

theorem edited_plan_stable:
  assumes "edited_plan payload = Inr (p, norm)"
    and "utf8_length (dumps norm) \<le> max_request_bytes default_limits"
  shows "edited_plan norm = Inr (p, norm)"
  using edited_plan_conforms [OF assms(1)] assms(2) read_back_plan by simp

theorem edited_plan_stable_witness:
  "edited_plan sample_payload = Inr (sample_plan, plan_json sample_plan)
   \<and> edited_plan (plan_json sample_plan) = Inr (sample_plan, plan_json sample_plan)"
  using sample_edited edited_plan_stable [OF sample_edited sample_fits] ..

text \<open>
  C38. \<open>confirm_proposal\<close> always returns: its \<open>while pending\<close> loop, which passes over the nodes left
  until every parent has been created, ends for every payload, every state and every environment,
  with a result or an error.
\<close>

theorem confirm_proposal_returns:
  "\<exists>r. confirm_proposal env actor pid wid prop key revision payload confirmed s = Some r"
  using create_all_returns [OF edited_forest waiting_start]
  by (fastforce simp: confirm_proposal_def split: sum.splits)

text \<open>
  C39. A confirmation that is not a replay creates the plan of the payload: there is one new Task for
  every node (and no other), in the Workspace of the proposal, pending, created by the actor, with
  the node's title less the white space around it, its description, priority and deadline, and the
  Task made for the node's parent as its parent, for any order of the nodes in the payload. Each
  creation and then the confirmation are audited, and the rest of the domain tables stay as they
  are; the proposal becomes CONFIRMED with the identifiers of its Tasks, no other proposal changes;
  and one confirmation is appended to the operations, with the scope of the proposal and the digests
  of the idempotency key and of the body, which are what makes a repetition a replay. The actor is a
  current manager of the active Workspace, owns the available, unexpired proposal, and confirmed its
  current revision.
\<close>

theorem confirm_creates_the_plan:
  assumes "confirm_proposal env actor pid wid prop key revision payload confirmed s = Some (Inr ((q, False), s'))"
  shows "\<exists>plan a w au profile p made d x canon. edited_plan payload = Inr (plan, plan_json plan)
    \<and> actor = Some a \<and> locked a pid wid (ai_db s) au w profile \<and> manages au \<and> ws_active (ai_db s) (w_id w)
    \<and> prop = Val (ap_id p) \<and> p \<in> set (ai_proposals s) \<and> owns a w p \<and> ap_status p = AP_AVAILABLE
    \<and> e_now (ai_base env) < ap_expires_at p \<and> revision = VInt (ap_revision p) \<and> confirmed = VBool True
    \<and> mset (map fst made) = mset (tp_tasks plan) \<and> plan_created a w made (ai_db s) d
    \<and> logged a (ap_id p) ''ai.proposal.confirmed'' d (ai_db s')
    \<and> q = confirmed_row env (map (\<lambda>(n, t). (tn_ref n, t_id t)) made) p
    \<and> ai_proposals s' = update_where (\<lambda>x. ap_id x = ap_id p) (\<lambda>_. q) (ai_proposals s)
    \<and> ai_operations s' = ai_operations s @ [x] \<and> ao_operation x = OP_CONFIRM \<and> ao_proposal x = ap_id p
    \<and> ao_actor x = a \<and> ao_profile x = ap_profile p \<and> ao_workspace x = ap_workspace p
    \<and> key_digest env key = Inr (ao_key_digest x)
    \<and> confirm_canonical p (ap_revision p) (plan_json plan) = Inr canon \<and> ao_body_digest x = body_digest env canon"
  using assms
proof (cases rule: confirm_proposal_cases)
  case (fresh plan n k a w p canon g)
  note O = open_confirmation_D [OF fresh(4)] and F = finish_confirmation_D [OF fresh(6)]
  obtain au profile where m: "actor = Some a" "locked a pid wid (ai_db s) au w profile" "manages au"
    "ws_active (ai_db s) (w_id w)"
    by (rule ai_manager_D [OF O(1)])
  obtain made where b: "mset (map fst made) = mset (tp_tasks plan)" "plan_created a w made (ai_db s) (pg_db g)"
    "pg_created g = map (\<lambda>(n, t). (tn_ref n, t_id t)) made"
    by (rule create_all_builds [OF fresh(3,5)])
  obtain x where x: "ai_operations s' = ai_operations s @ [x]" "ao_operation x = OP_CONFIRM" "ao_proposal x = ap_id p"
    "ao_actor x = a" "ao_profile x = ap_profile p" "ao_workspace x = ap_workspace p" "ao_key_digest x = k"
    "ao_body_digest x = body_digest env canon"
    using F(6) by blast
  have args: "revision = VInt (ap_revision p)" "confirmed = VBool True" "n = ap_revision p"
    using fresh(7) O(6) by (auto simp: confirm_arguments_def split: jval.splits bool.splits if_splits)
  show ?thesis
    by (rule exI [of _ plan], rule exI [of _ a], rule exI [of _ w], rule exI [of _ au], rule exI [of _ profile],
        rule exI [of _ p], rule exI [of _ made], rule exI [of _ "pg_db g"], rule exI [of _ x], rule exI [of _ canon])
      (use m fresh(2,8) O(2-5,8,9) F(1,2,5) b x args in simp)
qed simp

theorem confirm_creates_the_plan_witness:
  "\<exists>p s q s' a w made d. sample_generation = Inr ((p, False), s)
     \<and> confirm_proposal (ai_env_at 21) (Some 1) (Val 1000) (Val 2000) (Val 20000) (Val 78) (VInt 1)
         sample_payload (VBool True) s = Some (Inr ((q, False), s'))
     \<and> mset (map fst made) = mset (tp_tasks sample_plan) \<and> plan_created a w made (ai_db s) d"
proof (rule sample_confirmed)
  fix q p s s'
  assume g: "sample_generation = Inr ((p, False), s)"
    and c: "confirm_proposal (ai_env_at 21) (Some 1) (Val 1000) (Val 2000) (Val 20000) (Val 78) (VInt 1)
      sample_payload (VBool True) s = Some (Inr ((q, False), s'))"
  from confirm_creates_the_plan [OF c] obtain a w made d where
    "mset (map fst made) = mset (tp_tasks sample_plan)" "plan_created a w made (ai_db s) d"
    unfolding sample_edited by auto
  with g c show ?thesis by blast
qed

text \<open>
  C40. However generations, confirmations and the other services interleave, from an empty system on:
  the constraints of every table, the Task hierarchy and the review workflow hold, a proposal is
  CONFIRMED exactly when a confirmation of it is recorded, at most one is, every operation has the
  scope of its proposal, and the Tasks a confirmed proposal names still exist, in its Workspace and
  created by its actor.
\<close>

theorem proposals_stay_consistent:
  assumes "ai_reachable s"
  shows "db_ok (ai_db s) \<and> hierarchy_ok (tasks (ai_db s)) \<and> workflow_inv (ai_db s) \<and> ai_inv s"
  using assms ai_hierarchy.ai_always ai_workflow.ai_always ai_inv_reachable by auto

theorem proposals_stay_consistent_witness:
  "\<exists>s. ai_reachable s \<and> map ap_status (ai_proposals s) = [AP_CONFIRMED] \<and> map t_parent (tasks (ai_db s)) = [None, Some 21000]
     \<and> db_ok (ai_db s) \<and> hierarchy_ok (tasks (ai_db s)) \<and> workflow_inv (ai_db s) \<and> ai_inv s"
proof (rule sample_confirmed)
  fix q p s s'
  assume g: "sample_generation = Inr ((p, False), s)"
    and c: "confirm_proposal (ai_env_at 21) (Some 1) (Val 1000) (Val 2000) (Val 20000) (Val 78) (VInt 1)
      sample_payload (VBool True) s = Some (Inr ((q, False), s'))"
    and s': "tasks (ai_db s') = tasks (pg_db sample_progress)" "ai_proposals s' = [q]" "ap_status q = AP_CONFIRMED"
  have "ai_reachable sample_start"
    using ai_reachable_db [OF run_reachable [OF ex_start_reachable sample_db_run]] by (simp add: sample_start_def)
  then have "ai_reachable s"
    by (rule ai_stepwise) (rule ai_generate_step [OF g [unfolded sample_generation_def generate_proposal_def]])
  then have "ai_reachable s'" by (rule ai_stepwise) (rule ai_confirm_step [OF c])
  with proposals_stay_consistent [OF this] s' sample_progress_fields show ?thesis by (intro exI [of _ s']) simp
qed

end
