(* ===== verification/Account_Security.thy ===== *)
theory Account_Security
  imports Invitations
begin

text \<open>
  \<open>apps/accounts/models.py\<close>, \<open>security_services.py\<close> and \<open>email_delivery.py\<close>: accounts whose e-mail
  address is proved, and passwords reset, with hashed single use tokens that are sent by mail.
  Saving an account revokes the pending tokens whose bound address or password it changes. The
  state is the database with the token table; the password hasher and the configured password
  validators are Django's and stand as parameters.
\<close>

subsection \<open>Rows\<close>

datatype purpose = EMAIL_VERIFICATION | PASSWORD_RESET
datatype token_status = TK_PENDING | TK_CONSUMED | TK_REVOKED | TK_EXPIRED

record account_token =
  at_id :: uuid
  at_user :: uuid
  at_purpose :: purpose
  at_email :: ptext
  at_digest :: string
  at_fingerprint :: "string option"
  at_status :: token_status
  at_expires_at :: time
  at_delivery_status :: delivery_status
  at_delivery_attempted_at :: "time option"
  at_delivered_at :: "time option"
  at_consumed_at :: "time option"
  at_revoked_at :: "time option"
  at_expired_at :: "time option"
  at_replaces :: "uuid option"
  at_created_at :: time
  at_updated_at :: time

record account_state =
  ac_db :: db
  ac_tokens :: "account_token list"

record hasher =
  pw_usable :: "ptext \<Rightarrow> bool"
  pw_encode :: "ptext \<Rightarrow> ptext"
  pw_accepts :: "user \<Rightarrow> ptext \<Rightarrow> bool"

definition user_row_ok :: "user \<Rightarrow> bool" where
  "user_row_ok u \<longleftrightarrow> (u_email_verified_at u = None) = (u_verified_email u = None)"

definition users_ok :: "user list \<Rightarrow> bool" where
  "users_ok us \<longleftrightarrow> distinct (map u_id us) \<and> distinct (map u_email us) \<and> (\<forall>u\<in>set us. user_row_ok u)
     \<and> distinct (map u_verified_email (filter (\<lambda>u. u_verified_email u \<noteq> None) us))"

definition token_terminal_state_valid :: "account_token \<Rightarrow> bool" where
  "token_terminal_state_valid t \<longleftrightarrow>
     (at_consumed_at t \<noteq> None) = (at_status t = TK_CONSUMED) \<and>
     (at_revoked_at t \<noteq> None) = (at_status t = TK_REVOKED) \<and>
     (at_expired_at t \<noteq> None) = (at_status t = TK_EXPIRED)"

definition token_delivery_state_valid :: "account_token \<Rightarrow> bool" where
  "token_delivery_state_valid t \<longleftrightarrow> (case at_delivery_status t of
     DL_QUEUED \<Rightarrow> at_delivered_at t = None
   | DL_FAILED \<Rightarrow> at_delivery_attempted_at t \<noteq> None \<and> at_delivered_at t = None
   | DL_SENT \<Rightarrow> at_delivery_attempted_at t \<noteq> None \<and> at_delivered_at t \<noteq> None)"

definition token_row_ok :: "account_token \<Rightarrow> bool" where
  "token_row_ok t \<longleftrightarrow> (at_fingerprint t = None) = (at_purpose t = EMAIL_VERIFICATION)
     \<and> token_terminal_state_valid t
     \<and> (at_status t = TK_CONSUMED \<longrightarrow> at_delivery_status t = DL_SENT)
     \<and> at_created_at t < at_expires_at t \<and> token_delivery_state_valid t
     \<and> at_replaces t \<noteq> Some (at_id t)"

definition tokens_ok :: "account_token list \<Rightarrow> bool" where
  "tokens_ok ts \<longleftrightarrow> distinct (map at_id ts) \<and> distinct (map at_digest ts)
     \<and> distinct (map at_replaces (filter (\<lambda>t. at_replaces t \<noteq> None) ts))
     \<and> (\<forall>t\<in>set ts. token_row_ok t)
     \<and> distinct (map (\<lambda>t. (at_user t, at_purpose t)) (filter (\<lambda>t. at_status t = TK_PENDING) ts))"

definition write_users :: "user list \<Rightarrow> account_state \<Rightarrow> error + account_state" where
  "write_users us s = (if users_ok us then Inr (s\<lparr>ac_db := (ac_db s)\<lparr>users := us\<rparr>\<rparr>) else Inl IntegrityError)"

definition write_tokens :: "account_token list \<Rightarrow> account_state \<Rightarrow> error + account_state" where
  "write_tokens ts s = (if tokens_ok ts then Inr (s\<lparr>ac_tokens := ts\<rparr>) else Inl IntegrityError)"

lemma write_account_eq_Inr [simp]:
  "write_users us s = Inr s' \<longleftrightarrow> users_ok us \<and> s' = s\<lparr>ac_db := (ac_db s)\<lparr>users := us\<rparr>\<rparr>"
  "write_tokens ts s = Inr s' \<longleftrightarrow> tokens_ok ts \<and> s' = s\<lparr>ac_tokens := ts\<rparr>"
  by (auto simp: write_users_def write_tokens_def)

interpretation user_table: table "\<lambda>s. users (ac_db s)" "\<lambda>us s. s\<lparr>ac_db := (ac_db s)\<lparr>users := us\<rparr>\<rparr>" u_id
  users_ok write_users
  by unfold_locales (simp_all add: write_users_def users_ok_def)

interpretation token_table: table ac_tokens "\<lambda>ts s. s\<lparr>ac_tokens := ts\<rparr>" at_id tokens_ok write_tokens
  by unfold_locales (simp_all add: write_tokens_def tokens_ok_def)

text \<open>A filtered \<open>update\<close>: the number of rows it matched.\<close>

definition update_tokens :: "(account_token \<Rightarrow> bool) \<Rightarrow> (account_token \<Rightarrow> account_token) \<Rightarrow> account_state
    \<Rightarrow> error + (nat \<times> account_state)" where
  "update_tokens P f s = bindE (write_tokens (update_where P f (ac_tokens s)) s)
     (\<lambda>s'. Inr (length (filter P (ac_tokens s)), s'))"

subsection \<open>Accounts\<close>

definition is_email_verified :: "env \<Rightarrow> user \<Rightarrow> bool" where
  "is_email_verified env u \<longleftrightarrow> u_email_verified_at u \<noteq> None
     \<and> u_verified_email u = Some (normalize_account_email env (Some (u_email u)))"

datatype user_field =
  UF_EMAIL | UF_PASSWORD | UF_IS_ACTIVE | UF_EMAIL_VERIFIED_AT | UF_VERIFIED_EMAIL | UF_UPDATED_AT

definition all_user_fields :: "user_field list" where
  "all_user_fields =
     [UF_EMAIL, UF_PASSWORD, UF_IS_ACTIVE, UF_EMAIL_VERIFIED_AT, UF_VERIFIED_EMAIL, UF_UPDATED_AT]"

fun copy_field :: "user \<Rightarrow> user_field \<Rightarrow> user \<Rightarrow> user" where
  "copy_field src UF_EMAIL row = row\<lparr>u_email := u_email src\<rparr>"
| "copy_field src UF_PASSWORD row = row\<lparr>u_password := u_password src\<rparr>"
| "copy_field src UF_IS_ACTIVE row = row\<lparr>u_is_active := u_is_active src\<rparr>"
| "copy_field src UF_EMAIL_VERIFIED_AT row = row\<lparr>u_email_verified_at := u_email_verified_at src\<rparr>"
| "copy_field src UF_VERIFIED_EMAIL row = row\<lparr>u_verified_email := u_verified_email src\<rparr>"
| "copy_field src UF_UPDATED_AT row = row\<lparr>u_updated_at := u_updated_at src\<rparr>"

text \<open>
  \<open>Model.save\<close> of Django: \<open>auto_now\<close> sets \<open>updated_at\<close> when that field is written, a new object is
  inserted, and so is one without a row unless the call names the fields to update.
\<close>

definition stamped :: "env \<Rightarrow> user_field list \<Rightarrow> user \<Rightarrow> user" where
  "stamped env cols u = (if UF_UPDATED_AT \<in> set cols then u\<lparr>u_updated_at := e_now env\<rparr> else u)"

definition base_save :: "env \<Rightarrow> bool \<Rightarrow> bool \<Rightarrow> user_field list \<Rightarrow> user \<Rightarrow> account_state
    \<Rightarrow> error + (user \<times> account_state)" where
  "base_save env adding named cols self s =
    (let u = stamped env cols self; us = users (ac_db s) in
     if named \<and> cols = [] then Inr (self, s)
     else if \<not> adding \<and> u_id self \<in> u_id ` set us
     then bindE (write_users (update_where (\<lambda>x. u_id x = u_id self) (fold (copy_field u) cols) us) s)
       (\<lambda>s1. Inr (u, s1))
     else require (adding \<or> \<not> named) NotUpdated
       (let v = self\<lparr>u_updated_at := e_now env\<rparr> in bindE (write_users (us @ [v]) s) (\<lambda>s1. Inr (v, s1))))"

definition revoke_pending :: "env \<Rightarrow> (account_token \<Rightarrow> bool) \<Rightarrow> account_state \<Rightarrow> error + account_state" where
  "revoke_pending env P s = bindE (update_tokens (\<lambda>t. P t \<and> at_status t = TK_PENDING)
       (\<lambda>t. t\<lparr>at_status := TK_REVOKED, at_revoked_at := Some (e_now env), at_updated_at := e_now env\<rparr>) s)
     (\<lambda>(_, s1). Inr s1)"

text \<open>\<open>User.save\<close>; \<open>None\<close> is a call without \<open>update_fields\<close>.\<close>

definition user_save :: "env \<Rightarrow> bool \<Rightarrow> user_field list option \<Rightarrow> user \<Rightarrow> account_state
    \<Rightarrow> error + (user \<times> account_state)" where
  "user_save env adding update_fields self s =
    (if adding then base_save env True (update_fields \<noteq> None)
       (case update_fields of None \<Rightarrow> all_user_fields | Some fs \<Rightarrow> fs) self s
     else
     let previous = lookup_pk u_id (u_id self) (users (ac_db s));
         cols = (case update_fields of None \<Rightarrow> all_user_fields | Some fs \<Rightarrow> fs);
         email_changed = (case previous of None \<Rightarrow> False | Some p \<Rightarrow> UF_EMAIL \<in> set cols
           \<and> normalize_account_email env (Some (u_email p)) \<noteq> normalize_account_email env (Some (u_email self)));
         password_changed = (case previous of None \<Rightarrow> False | Some p \<Rightarrow> UF_PASSWORD \<in> set cols
           \<and> u_password p \<noteq> u_password self);
         self1 = (if email_changed then self\<lparr>u_email_verified_at := None, u_verified_email := None\<rparr> else self);
         cols1 = (if email_changed then cols @ [UF_EMAIL_VERIFIED_AT, UF_VERIFIED_EMAIL] else cols) in
     bindE (base_save env False (update_fields \<noteq> None) cols1 self1 s) (\<lambda>(self2, s1).
     bindE (if email_changed then revoke_pending env (\<lambda>t. at_user t = u_id self
         \<and> at_purpose t \<in> {EMAIL_VERIFICATION, PASSWORD_RESET}) s1 else Inr s1) (\<lambda>s2.
     bindE (if password_changed then revoke_pending env (\<lambda>t. at_user t = u_id self
         \<and> at_purpose t = PASSWORD_RESET) s2 else Inr s2) (\<lambda>s3.
     Inr (self2, s3)))))"

subsection \<open>Tokens\<close>

definition email_verification_ttl :: time where
  "email_verification_ttl = 24 * 3600 * 1000000"

definition password_reset_ttl :: time where
  "password_reset_ttl = 3600 * 1000000"

fun purpose_str :: "purpose \<Rightarrow> string" where
  "purpose_str EMAIL_VERIFICATION = ''EMAIL_VERIFICATION''"
| "purpose_str PASSWORD_RESET = ''PASSWORD_RESET''"

fun token_status_str :: "token_status \<Rightarrow> string" where
  "token_status_str TK_PENDING = ''PENDING''"
| "token_status_str TK_CONSUMED = ''CONSUMED''"
| "token_status_str TK_REVOKED = ''REVOKED''"
| "token_status_str TK_EXPIRED = ''EXPIRED''"

definition hex_digest :: "string \<Rightarrow> bool" where
  "hex_digest d \<longleftrightarrow> \<not> (length d \<noteq> 64 \<or> (\<exists>ch\<in>set d. ch \<notin> set ''0123456789abcdef''))"

definition token_clean :: "env \<Rightarrow> account_token \<Rightarrow> account_state \<Rightarrow> error + unit" where
  "token_clean env t s =
     require (at_email t = normalize_account_email env (Some (at_email t))) (ValidationError ''email_normalized'')
     (require (hex_digest (at_digest t)) (ValidationError ''token_digest'')
     (let fingerprint = (case at_fingerprint t of None \<Rightarrow> [] | Some f \<Rightarrow> f) in
      require (at_purpose t = PASSWORD_RESET \<longrightarrow> hex_digest fingerprint) (ValidationError ''password_fingerprint'')
     (require (at_purpose t = EMAIL_VERIFICATION \<longrightarrow> at_fingerprint t = None)
       (ValidationError ''password_fingerprint'')
     (require (case at_replaces t of None \<Rightarrow> True | Some r \<Rightarrow>
         (case lookup_pk at_id r (ac_tokens s) of None \<Rightarrow> True
          | Some x \<Rightarrow> at_user x = at_user t \<and> at_purpose x = at_purpose t)) (ValidationError ''replaces'')
     (require (\<not> at_expires_at t \<le> at_created_at t) (ValidationError ''expires_at'')
     (Inr ()))))))"

definition token_full_clean :: "env \<Rightarrow> account_token list \<Rightarrow> account_token \<Rightarrow> account_state \<Rightarrow> error + unit" where
  "token_full_clean env rows t s =
     require (user_exists (at_user t) (ac_db s)) (ValidationError ''user'')
     (require (char_field_ok 254 (at_email t) \<and> e_valid_email env (at_email t)) (ValidationError ''email_normalized'')
     (require (at_digest t \<noteq> [] \<and> length (at_digest t) \<le> 64) (ValidationError ''token_digest'')
     (require (case at_fingerprint t of None \<Rightarrow> True | Some f \<Rightarrow> length f \<le> 64)
       (ValidationError ''password_fingerprint'')
     (require (case at_replaces t of None \<Rightarrow> True | Some r \<Rightarrow> r \<in> at_id ` set (ac_tokens s))
       (ValidationError ''replaces'')
     (bindE (token_clean env t s) (\<lambda>_. unique_checks (tokens_ok rows)))))))"

definition digest_account_security_token :: "env \<Rightarrow> ptext arg \<Rightarrow> purpose \<Rightarrow> error + string" where
  "digest_account_security_token env raw_token p = (case raw_token of
     Malformed \<Rightarrow> Inl AccountSecurityConflict
   | Val t \<Rightarrow>
     require (t \<noteq> []) AccountSecurityConflict
     (require (utf8_encodable t) AccountSecurityConflict
     (Inr (e_sha256 env (ascii ''hustlytasker:'' @ ascii (purpose_str p) @ ascii '':'' @ t)))))"

definition password_fingerprint :: "env \<Rightarrow> user \<Rightarrow> error + string" where
  "password_fingerprint env u =
     require (utf8_encodable (u_password u)) UnicodeEncodeError (Inr (e_sha256 env (u_password u)))"

definition token_state :: "token_status \<Rightarrow> json" where
  "token_state st = JObj [(''status'', JStr (token_status_str st))]"

definition write_security_audit :: "env \<Rightarrow> nat \<Rightarrow> uuid \<Rightarrow> account_token \<Rightarrow> string \<Rightarrow> json \<Rightarrow> json
    \<Rightarrow> account_state \<Rightarrow> error + account_state" where
  "write_security_audit env k u t action prior after s =
     bindE (write_audit env k (Some u) action ''AccountSecurityToken'' (Some (at_id t))
       [(''purpose'', JStr (purpose_str (at_purpose t))), (''before'', prior), (''after'', after)] (ac_db s))
       (\<lambda>d. Inr (s\<lparr>ac_db := d\<rparr>))"

definition save_token :: "(account_token \<Rightarrow> account_token) \<Rightarrow> account_token \<Rightarrow> account_state
    \<Rightarrow> error + account_state" where
  "save_token f t s = write_tokens (update_where (\<lambda>x. at_id x = at_id t) f (ac_tokens s)) s"

definition expire_token :: "env \<Rightarrow> account_token \<Rightarrow> account_token" where
  "expire_token env t =
     t\<lparr>at_status := TK_EXPIRED, at_expired_at := Some (e_now env), at_updated_at := e_now env\<rparr>"

definition revoke_token :: "env \<Rightarrow> account_token \<Rightarrow> account_token" where
  "revoke_token env t =
     t\<lparr>at_status := TK_REVOKED, at_revoked_at := Some (e_now env), at_updated_at := e_now env\<rparr>"

definition consume_token :: "env \<Rightarrow> account_token \<Rightarrow> account_token" where
  "consume_token env t =
     t\<lparr>at_status := TK_CONSUMED, at_consumed_at := Some (e_now env), at_updated_at := e_now env\<rparr>"

definition materialize_token_expiration :: "env \<Rightarrow> nat \<Rightarrow> account_token \<Rightarrow> account_state
    \<Rightarrow> error + (bool \<times> account_state \<times> nat)" where
  "materialize_token_expiration env k t s =
     (if at_status t = TK_PENDING \<and> at_expires_at t \<le> e_now env then
        bindE (save_token (expire_token env) t s) (\<lambda>s1.
        bindE (write_security_audit env k (at_user t) t ''account.security_token.expired''
          (token_state (at_status t)) (token_state TK_EXPIRED) s1) (\<lambda>s2.
        Inr (True, s2, k + 1)))
      else Inr (False, s, k))"

subsection \<open>Requests\<close>

text \<open>The pending token a new one replaces expires or is revoked.\<close>

definition retire_previous :: "env \<Rightarrow> uuid \<Rightarrow> account_token option \<Rightarrow> account_state
    \<Rightarrow> error + (account_state \<times> nat)" where
  "retire_previous env u previous s = (case previous of
     None \<Rightarrow> Inr (s, 0)
   | Some t \<Rightarrow>
     bindE (materialize_token_expiration env 0 t s) (\<lambda>(expired, s1, k).
     if expired then Inr (s1, k)
     else bindE (save_token (revoke_token env) t s1) (\<lambda>s2.
       bindE (write_security_audit env k u t ''account.security_token.rotated''
         (token_state (at_status t)) (token_state TK_REVOKED) s2) (\<lambda>s3.
       Inr (s3, k + 1)))))"

definition new_token :: "env \<Rightarrow> nat \<Rightarrow> user \<Rightarrow> purpose \<Rightarrow> time \<Rightarrow> string \<Rightarrow> string option \<Rightarrow> uuid option
    \<Rightarrow> account_token" where
  "new_token env k u p ttl digest fingerprint previous =
     \<lparr>at_id = e_uuid env k, at_user = u_id u, at_purpose = p,
      at_email = normalize_account_email env (Some (u_email u)), at_digest = digest,
      at_fingerprint = fingerprint, at_status = TK_PENDING, at_expires_at = e_now env + ttl,
      at_delivery_status = DL_QUEUED, at_delivery_attempted_at = None, at_delivered_at = None,
      at_consumed_at = None, at_revoked_at = None, at_expired_at = None, at_replaces = previous,
      at_created_at = e_now env, at_updated_at = e_now env\<rparr>"

fun requested_action :: "purpose \<Rightarrow> string" where
  "requested_action EMAIL_VERIFICATION = ''account.email_verification.requested''"
| "requested_action PASSWORD_RESET = ''account.password_reset.requested''"

text \<open>The delivery it schedules runs after the commit: \<open>deliver_token\<close> below.\<close>

definition issue_token_locked :: "env \<Rightarrow> user \<Rightarrow> purpose \<Rightarrow> time \<Rightarrow> account_state
    \<Rightarrow> error + (account_token \<times> account_state)" where
  "issue_token_locked env u p ttl s =
    (let previous = first_by at_id (\<lambda>t. at_user t = u_id u \<and> at_purpose t = p \<and> at_status t = TK_PENDING)
           (ac_tokens s) in
     bindE (retire_previous env (u_id u) previous s) (\<lambda>(s1, k).
     bindE (digest_account_security_token env (Val (e_token env)) p) (\<lambda>digest.
     bindE (if p = PASSWORD_RESET then bindE (password_fingerprint env u) (\<lambda>f. Inr (Some f)) else Inr None)
       (\<lambda>fingerprint.
     let t = new_token env k u p ttl digest fingerprint (map_option at_id previous);
         rows = ac_tokens s1 @ [t] in
     bindE (reraise is_validation_error AccountSecurityConflict (token_full_clean env rows t s1)) (\<lambda>_.
     bindE (reraise (\<lambda>e. e = IntegrityError) AccountSecurityConflict (write_tokens rows s1)) (\<lambda>s2.
     bindE (write_security_audit env (k + 1) (u_id u) t (requested_action p) JNull
       (JObj [(''status'', JStr (token_status_str (at_status t))), (''delivery_status'', JStr ''QUEUED'')]) s2)
       (\<lambda>s3. Inr (t, s3))))))))"

definition ensure_account_security_delivery_available :: "env \<Rightarrow> error + unit" where
  "ensure_account_security_delivery_available env =
     reraise (\<lambda>e. e = EmailDeliveryUnavailable) AccountSecurityDeliveryUnavailable
       (ensure_default_email_delivery_available env)"

definition resolve_current_unique_user :: "env \<Rightarrow> ptext \<Rightarrow> account_state \<Rightarrow> error + user option" where
  "resolve_current_unique_user env email s =
     reraise (\<lambda>e. e = AmbiguousAccountIdentity) AccountSecurityConflict
       (resolve_unique_user_for_email env email (ac_db s))"

definition locked_account :: "uuid \<Rightarrow> account_state \<Rightarrow> user option" where
  "locked_account i s = first_by u_id (\<lambda>u. u_id u = i \<and> u_is_active u) (users (ac_db s))"

definition request_email_verification ::
  "env \<Rightarrow> uuid \<Rightarrow> account_state \<Rightarrow> error + (account_token option \<times> account_state)" where
  "request_email_verification env actor s =
     bindE (ensure_account_security_delivery_available env) (\<lambda>_.
     require_some (locked_account actor s) AccountSecurityConflict (\<lambda>u.
     bindE (resolve_current_unique_user env (normalize_account_email env (Some (u_email u))) s) (\<lambda>resolved.
     require (map_option u_id resolved = Some (u_id u)) AccountSecurityConflict
     (if is_email_verified env u then Inr (None, s)
      else bindE (issue_token_locked env u EMAIL_VERIFICATION email_verification_ttl s) (\<lambda>(t, s').
        Inr (Some t, s'))))))"

text \<open>\<open>s0\<close> is the database when the address is looked up, \<open>s\<close> when the account has been locked.\<close>

definition request_password_reset_at ::
  "env \<Rightarrow> hasher \<Rightarrow> ptext option \<Rightarrow> account_state \<Rightarrow> account_state
    \<Rightarrow> error + (account_token option \<times> account_state)" where
  "request_password_reset_at env pw email s0 s =
     bindE (ensure_account_security_delivery_available env) (\<lambda>_.
     let normalized = normalize_account_email env email in
     case resolve_unique_user_for_email env normalized (ac_db s0) of
       Inl _ \<Rightarrow> Inr (None, s)
     | Inr None \<Rightarrow> Inr (None, s)
     | Inr (Some u0) \<Rightarrow>
       if \<not> u_is_active u0 \<or> \<not> pw_usable pw (u_password u0) then Inr (None, s)
       else (case locked_account (u_id u0) s of
         None \<Rightarrow> Inr (None, s)
       | Some u \<Rightarrow>
         if \<not> pw_usable pw (u_password u) \<or> normalize_account_email env (Some (u_email u)) \<noteq> normalized
         then Inr (None, s)
         else (case resolve_unique_user_for_email env normalized (ac_db s) of
           Inl _ \<Rightarrow> Inr (None, s)
         | Inr resolved \<Rightarrow>
           if map_option u_id resolved \<noteq> Some (u_id u) then Inr (None, s)
           else bindE (issue_token_locked env u PASSWORD_RESET password_reset_ttl s) (\<lambda>(t, s').
             Inr (Some t, s')))))"

definition request_password_reset ::
  "env \<Rightarrow> hasher \<Rightarrow> ptext option \<Rightarrow> account_state \<Rightarrow> error + (account_token option \<times> account_state)" where
  "request_password_reset env pw email s = request_password_reset_at env pw email s s"

subsection \<open>Confirmations\<close>

definition lookup_candidate :: "env \<Rightarrow> ptext arg \<Rightarrow> purpose \<Rightarrow> account_state
    \<Rightarrow> error + (account_token \<times> string)" where
  "lookup_candidate env raw_token p s =
     bindE (digest_account_security_token env raw_token p) (\<lambda>digest.
     require_some (first_by at_id (\<lambda>t. at_digest t = digest \<and> at_purpose t = p) (ac_tokens s))
       AccountSecurityConflict (\<lambda>candidate. Inr (candidate, digest)))"

definition lock_candidate :: "account_token \<Rightarrow> string \<Rightarrow> purpose \<Rightarrow> account_state
    \<Rightarrow> error + (user \<times> account_token)" where
  "lock_candidate candidate digest p s =
     require_some (locked_account (at_user candidate) s) AccountSecurityConflict (\<lambda>u.
     require_some (first_by at_id (\<lambda>t. at_id t = at_id candidate \<and> at_user t = u_id u \<and> at_purpose t = p
         \<and> at_digest t = digest) (ac_tokens s)) AccountSecurityConflict (\<lambda>t.
     require (\<not> (at_status t \<noteq> TK_PENDING \<or> at_delivery_status t \<noteq> DL_SENT)) AccountSecurityConflict
     (Inr (u, t))))"

definition validate_locked_identity :: "env \<Rightarrow> user \<Rightarrow> account_token \<Rightarrow> account_state \<Rightarrow> error + ptext" where
  "validate_locked_identity env u t s =
    (let normalized = normalize_account_email env (Some (u_email u)) in
     require (normalized = at_email t) AccountSecurityConflict
     (bindE (resolve_current_unique_user env normalized s) (\<lambda>resolved.
     require (map_option u_id resolved = Some (u_id u)) AccountSecurityConflict (Inr normalized))))"

text \<open>
  An expiry found on use is committed and reported after the commit, so the result is an
  \<open>error + user\<close> beside the committed state.
\<close>

definition confirm_email_verification ::
  "env \<Rightarrow> uuid \<Rightarrow> ptext arg \<Rightarrow> account_state \<Rightarrow> error + ((error + user) \<times> account_state)" where
  "confirm_email_verification env actor raw_token s =
     bindE (lookup_candidate env raw_token EMAIL_VERIFICATION s) (\<lambda>(candidate, digest).
     bindE (lock_candidate candidate digest EMAIL_VERIFICATION s) (\<lambda>(u, t).
     require (u_id u = actor) AccountSecurityConflict
     (bindE (materialize_token_expiration env 0 t s) (\<lambda>(expired, s1, k).
     if expired then Inr (Inl AccountSecurityConflict, s1)
     else
       bindE (validate_locked_identity env u t s1) (\<lambda>normalized.
       bindE (reraise (\<lambda>e. e = IntegrityError) AccountSecurityConflict
         (user_save env False (Some [UF_EMAIL_VERIFIED_AT, UF_VERIFIED_EMAIL, UF_UPDATED_AT])
           (u\<lparr>u_email_verified_at := Some (e_now env), u_verified_email := Some normalized\<rparr>) s1)) (\<lambda>(u1, s2).
       bindE (save_token (consume_token env) t s2) (\<lambda>s3.
       bindE (write_security_audit env k (u_id u1) t ''account.email_verification.confirmed''
         (token_state TK_PENDING) (token_state TK_CONSUMED) s3) (\<lambda>s4.
       Inr (Inr u1, s4)))))))))"

definition confirm_password_reset ::
  "env \<Rightarrow> hasher \<Rightarrow> ptext arg \<Rightarrow> ptext \<Rightarrow> account_state \<Rightarrow> error + ((error + user) \<times> account_state)" where
  "confirm_password_reset env pw raw_token new_password s =
     bindE (lookup_candidate env raw_token PASSWORD_RESET s) (\<lambda>(candidate, digest).
     bindE (lock_candidate candidate digest PASSWORD_RESET s) (\<lambda>(u, t).
     bindE (materialize_token_expiration env 0 t s) (\<lambda>(expired, s1, k).
     if expired then Inr (Inl AccountSecurityConflict, s1)
     else
       bindE (validate_locked_identity env u t s1) (\<lambda>_.
       require (pw_usable pw (u_password u)) AccountSecurityConflict
       (bindE (password_fingerprint env u) (\<lambda>fingerprint.
       require ((case at_fingerprint t of None \<Rightarrow> [] | Some f \<Rightarrow> f) = fingerprint) AccountSecurityConflict
       (require (pw_accepts pw u new_password) (ValidationError ''__all__'')
       (bindE (save_token (consume_token env) t s1) (\<lambda>s2.
       bindE (user_save env False (Some [UF_PASSWORD, UF_UPDATED_AT])
         (u\<lparr>u_password := pw_encode pw new_password\<rparr>) s2) (\<lambda>(u1, s3).
       bindE (write_security_audit env k (u_id u1) t ''account.password_reset.completed''
         (token_state TK_PENDING) (token_state TK_CONSUMED) s3) (\<lambda>s4.
       Inr (Inr u1, s4))))))))))))"

subsection \<open>Delivery\<close>

text \<open>\<open>smtp subject body recipient\<close>: \<open>None\<close> when the mail library raises, else the messages sent.\<close>

fun message_content :: "purpose \<Rightarrow> ptext \<Rightarrow> ptext \<times> ptext" where
  "message_content EMAIL_VERIFICATION raw_token =
     (ascii ''Verify your HustlyTasker email'',
      ascii ''Submit the following single-use token to the authenticated email verification endpoint:''
        @ [10, 10] @ raw_token @ [10, 10]
        @ ascii ''This token expires in 24 hours. If you did not request it, you may ignore this message.'')"
| "message_content PASSWORD_RESET raw_token =
     (ascii ''Reset your HustlyTasker password'',
      ascii ''Submit the following single-use token with your new password to the password reset ''
        @ ascii ''confirmation endpoint:'' @ [10, 10] @ raw_token @ [10, 10]
        @ ascii ''This token expires in one hour. If you did not request it, you may ignore this ''
        @ ascii ''message. Your password has not changed.'')"

text \<open>
  \<open>schedule_account_security_delivery\<close>: the callback runs after the commit, so each of its updates
  is a transaction of its own, and an update that matches no row changes nothing. A verification
  raises when the delivery fails, a password reset stays silent.
\<close>

definition claim_token_delivery :: "env \<Rightarrow> account_token \<Rightarrow> account_state \<Rightarrow> error + (bool \<times> account_state)" where
  "claim_token_delivery env t s =
     bindE (update_tokens (\<lambda>x. at_id x = at_id t \<and> at_purpose x = at_purpose t \<and> at_status x = TK_PENDING
         \<and> at_digest x = at_digest t \<and> e_now env < at_expires_at x)
       (\<lambda>x. x\<lparr>at_delivery_status := DL_QUEUED, at_delivery_attempted_at := Some (e_now env),
          at_updated_at := e_now env\<rparr>) s) (\<lambda>(claimed, s1).
     Inr (claimed = 1, s1))"

definition finish_token_delivery :: "env \<Rightarrow> time \<Rightarrow> (ptext \<Rightarrow> ptext \<Rightarrow> ptext \<Rightarrow> int option) \<Rightarrow> account_token
    \<Rightarrow> ptext \<Rightarrow> account_state \<Rightarrow> error + (bool \<times> account_state)" where
  "finish_token_delivery env attempted_at smtp t raw_token s =
    (let current = (\<lambda>x. at_id x = at_id t \<and> at_purpose x = at_purpose t \<and> at_status x = TK_PENDING
           \<and> at_digest x = at_digest t);
         (subject, body) = message_content (at_purpose t) raw_token in
     case send_default_email env (smtp subject body (at_email t)) of
       Inl _ \<Rightarrow>
         bindE (update_tokens current (\<lambda>x. x\<lparr>at_delivery_status := DL_FAILED,
             at_delivery_attempted_at := Some attempted_at, at_delivered_at := None,
             at_updated_at := e_now env\<rparr>) s) (\<lambda>(_, s1).
         Inr (False, s1))
     | Inr _ \<Rightarrow>
         bindE (update_tokens current (\<lambda>x. x\<lparr>at_delivery_status := DL_SENT,
             at_delivery_attempted_at := Some attempted_at, at_delivered_at := Some (e_now env),
             at_updated_at := e_now env\<rparr>) s) (\<lambda>(updated, s1).
         Inr (updated = 1, s1)))"

text \<open>The committed state and what the callback raises; \<open>env1\<close> and \<open>env2\<close> are its two clock readings.\<close>

definition raise_on_failure :: "purpose \<Rightarrow> bool" where
  "raise_on_failure p \<longleftrightarrow> p = EMAIL_VERIFICATION"

definition delivery_outcome :: "purpose \<Rightarrow> bool \<Rightarrow> error + unit" where
  "delivery_outcome p delivered = require (delivered \<or> \<not> raise_on_failure p) AccountSecurityDeliveryUnavailable (Inr ())"

definition deliver_token :: "env \<Rightarrow> env \<Rightarrow> (ptext \<Rightarrow> ptext \<Rightarrow> ptext \<Rightarrow> int option) \<Rightarrow> account_token \<Rightarrow> ptext
    \<Rightarrow> account_state \<Rightarrow> (error + unit) \<times> account_state" where
  "deliver_token env1 env2 smtp t raw_token s = (case claim_token_delivery env1 t s of
     Inl e \<Rightarrow> (Inl e, s)
   | Inr (False, s1) \<Rightarrow> (delivery_outcome (at_purpose t) False, s1)
   | Inr (True, s1) \<Rightarrow> (case finish_token_delivery env2 (e_now env1) smtp t raw_token s1 of
       Inl e \<Rightarrow> (Inl e, s1)
     | Inr (delivered, s2) \<Rightarrow> (delivery_outcome (at_purpose t) delivered, s2)))"

text \<open>A request as the view runs it: the transaction, then the callback it scheduled.\<close>

definition with_delivery :: "env \<Rightarrow> env \<Rightarrow> env \<Rightarrow> (ptext \<Rightarrow> ptext \<Rightarrow> ptext \<Rightarrow> int option)
    \<Rightarrow> error + (account_token option \<times> account_state) \<Rightarrow> account_state
    \<Rightarrow> (error + account_token option) \<times> account_state" where
  "with_delivery env env1 env2 smtp request s = (case request of
     Inl e \<Rightarrow> (Inl e, s)
   | Inr (None, s1) \<Rightarrow> (Inr None, s1)
   | Inr (Some t, s1) \<Rightarrow> (case deliver_token env1 env2 smtp t (e_token env) s1 of
       (Inl e, s2) \<Rightarrow> (Inl e, s2)
     | (Inr _, s2) \<Rightarrow> (Inr (Some t), s2)))"

subsection \<open>The endpoints\<close>

text \<open>The status code of each view of \<open>apps/accounts/views.py\<close>; \<open>None\<close> for an exception it does not catch.\<close>

definition email_verification_request_status :: "error + account_token option \<Rightarrow> nat option" where
  "email_verification_request_status r = (case r of
     Inl AccountSecurityDeliveryUnavailable \<Rightarrow> Some 503
   | Inl AccountSecurityConflict \<Rightarrow> Some 409
   | Inl _ \<Rightarrow> None
   | Inr _ \<Rightarrow> Some 202)"

definition email_verification_confirm_status :: "error + user \<Rightarrow> nat option" where
  "email_verification_confirm_status r = (case r of
     Inl AccountSecurityConflict \<Rightarrow> Some 400
   | Inl _ \<Rightarrow> None
   | Inr _ \<Rightarrow> Some 200)"

definition password_reset_request_status :: "error + account_token option \<Rightarrow> nat option" where
  "password_reset_request_status r = (case r of
     Inl AccountSecurityDeliveryUnavailable \<Rightarrow> Some 202
   | Inl AccountSecurityConflict \<Rightarrow> Some 202
   | Inl _ \<Rightarrow> None
   | Inr _ \<Rightarrow> Some 202)"

definition password_reset_confirm_status :: "error + user \<Rightarrow> nat option" where
  "password_reset_confirm_status r = (case r of
     Inl AccountSecurityConflict \<Rightarrow> Some 400
   | Inl (ValidationError _) \<Rightarrow> Some 400
   | Inl _ \<Rightarrow> None
   | Inr _ \<Rightarrow> Some 204)"

text \<open>
  \<open>LoginSerializer.validate\<close>; \<open>authenticate\<close> is Django's. It is asked before the number of matches is
  looked at, so an unknown address costs what a known one does.
\<close>

definition login_account :: "env \<Rightarrow> (ptext \<Rightarrow> ptext \<Rightarrow> user option) \<Rightarrow> ptext \<Rightarrow> ptext \<Rightarrow> account_state
    \<Rightarrow> error + user" where
  "login_account env authenticate email password s =
    (let matching = take 2 (filter (\<lambda>u. e_iexact env (u_email u) (strip email)) (users (ac_db s)));
         authentication_email = (case matching of [u] \<Rightarrow> u_email u | _ \<Rightarrow> strip email);
         user = authenticate authentication_email password in
     require (\<not> (length matching \<noteq> 1 \<or> user = None)) (ValidationError ''detail'')
     (require_some user (ValidationError ''detail'') Inr))"

lemma login_needs_sole_match:
  assumes "login_account env authenticate email password s = Inr u"
  shows "\<exists>v. filter (\<lambda>x. e_iexact env (u_email x) (strip email)) (users (ac_db s)) = [v]
    \<and> authenticate (u_email v) password = Some u"
proof -
  let ?m = "filter (\<lambda>x. e_iexact env (u_email x) (strip email)) (users (ac_db s))"
  have l: "length (take 2 ?m) = 1" and a: "(case take 2 ?m of [v] \<Rightarrow> authenticate (u_email v) password
      | _ \<Rightarrow> authenticate (strip email) password) = Some u"
    using assms by (auto simp: login_account_def Let_def split: list.splits)
  then obtain v where "?m = [v]"
    by (cases ?m) (auto simp: min_def split: if_splits)
  with a show ?thesis by simp
qed

text \<open>The keys of \<open>security_throttles.py\<close>: scope and fingerprint; \<open>ident\<close> is the client's address.\<close>

definition throttle_fingerprint :: "env \<Rightarrow> ptext arg \<Rightarrow> string" where
  "throttle_fingerprint env v = e_sha256 env (case v of Malformed \<Rightarrow> [] | Val t \<Rightarrow> t)"

definition reset_request_email_key :: "env \<Rightarrow> ptext \<Rightarrow> ptext arg \<Rightarrow> string \<times> string" where
  "reset_request_email_key env ident email =
    (let normalized = (case email of Malformed \<Rightarrow> [] | Val e \<Rightarrow> normalize_account_email env (Some e));
         identity = (if normalized \<noteq> [] then normalized else ascii ''invalid:'' @ ident) in
     (''auth_password_reset_request_email'', throttle_fingerprint env (Val identity)))"

definition reset_request_ip_key :: "env \<Rightarrow> ptext \<Rightarrow> string \<times> string" where
  "reset_request_ip_key env ident = (''auth_password_reset_request_ip'', throttle_fingerprint env (Val ident))"

definition reset_confirm_key :: "env \<Rightarrow> ptext \<Rightarrow> ptext arg \<Rightarrow> string \<times> string" where
  "reset_confirm_key env ident token =
    (let safe_token = (case token of Malformed \<Rightarrow> [] | Val t \<Rightarrow> t);
         identity = (if safe_token \<noteq> [] then safe_token else ascii ''invalid:'' @ ident) in
     (''auth_password_reset_confirm'', throttle_fingerprint env (Val identity)))"

definition reset_confirm_ip_key :: "env \<Rightarrow> ptext \<Rightarrow> string \<times> string" where
  "reset_confirm_ip_key env ident = (''auth_password_reset_confirm_ip'', throttle_fingerprint env (Val ident))"

text \<open>
  The whole of \<open>PasswordResetRequestView\<close>. A parsed body is an object of names and values, a value
  that is not a text being \<open>Malformed\<close>, or \<open>None\<close> for anything else. Parameters: the verdict of
  Django's \<open>csrf_protect\<close>, whether the framework's rate cache admits a key, and the framework's
  \<open>EmailField\<close> with its \<open>max_length\<close>, which gives the cleaned text or refuses.
\<close>

type_synonym parsed_body = "(ptext \<times> ptext arg) list option"

definition submitted_email :: "parsed_body \<Rightarrow> ptext arg" where
  "submitted_email body = (case body of
     None \<Rightarrow> Val []
   | Some kvs \<Rightarrow> (case map_of kvs (ascii ''email'') of None \<Rightarrow> Malformed | Some v \<Rightarrow> v))"

definition strict_fields :: "ptext list \<Rightarrow> parsed_body \<Rightarrow> error + (ptext \<times> ptext arg) list" where
  "strict_fields declared body = (case body of
     None \<Rightarrow> Inl (ValidationError ''detail'')
   | Some kvs \<Rightarrow> if set (map fst kvs) - set declared \<noteq> {} then Inl (ValidationError ''unexpected'') else Inr kvs)"

definition reset_request_input :: "env \<Rightarrow> (nat \<Rightarrow> ptext arg option \<Rightarrow> ptext option) \<Rightarrow> parsed_body
    \<Rightarrow> error + ptext" where
  "reset_request_input env email_field body =
     bindE (strict_fields [ascii ''email''] body) (\<lambda>kvs.
     case email_field 254 (map_of kvs (ascii ''email'')) of
       None \<Rightarrow> Inl (ValidationError ''email'')
     | Some v \<Rightarrow> Inr (e_casefold env (strip v)))"

definition password_reset_request_view :: "env \<Rightarrow> env \<Rightarrow> env \<Rightarrow> hasher \<Rightarrow> (ptext \<Rightarrow> ptext \<Rightarrow> ptext \<Rightarrow> int option)
    \<Rightarrow> (nat \<Rightarrow> ptext arg option \<Rightarrow> ptext option) \<Rightarrow> bool \<Rightarrow> (string \<times> string \<Rightarrow> bool) \<Rightarrow> ptext \<Rightarrow> parsed_body
    \<Rightarrow> account_state \<Rightarrow> nat option \<times> account_state" where
  "password_reset_request_view env env1 env2 pw smtp email_field csrf_ok admits ident body s =
    (if \<not> csrf_ok then (Some 403, s)
     else if \<not> (admits (reset_request_email_key env ident (submitted_email body))
       \<and> admits (reset_request_ip_key env ident)) then (Some 429, s)
     else (case reset_request_input env email_field body of
       Inl _ \<Rightarrow> (Some 400, s)
     | Inr email \<Rightarrow>
         (case with_delivery env env1 env2 smtp (request_password_reset env pw (Some email) s) s of
            (outcome, s') \<Rightarrow> (password_reset_request_status outcome, s'))))"

text \<open>All spellings of one address count together, from whatever client.\<close>

lemma reset_requests_share_a_bucket:
  "normalize_account_email env (Some e) = normalize_account_email env (Some f) \<Longrightarrow>
   normalize_account_email env (Some e) \<noteq> [] \<Longrightarrow>
   reset_request_email_key env i (Val e) = reset_request_email_key env j (Val f)"
  by (simp add: reset_request_email_key_def)

end
