(* ===== verification/Account_Effects.thy ===== *)
theory Account_Effects
  imports Account_Security Frames
begin

text \<open>
  What the account services do to the state: how a token may evolve, what saving an account
  writes, and for each service the guards it passed and the rows it left.
\<close>

subsection \<open>Tokens over time\<close>

definition same_token :: "account_token \<Rightarrow> account_token \<Rightarrow> bool" where
  "same_token t x \<longleftrightarrow> at_id x = at_id t \<and> at_user x = at_user t \<and> at_purpose x = at_purpose t
     \<and> at_email x = at_email t \<and> at_digest x = at_digest t \<and> at_fingerprint x = at_fingerprint t
     \<and> at_expires_at x = at_expires_at t \<and> at_replaces x = at_replaces t \<and> at_created_at x = at_created_at t"

definition token_evolved :: "account_token \<Rightarrow> account_token \<Rightarrow> bool" where
  "token_evolved t x \<longleftrightarrow> same_token t x \<and> (at_status t \<noteq> TK_PENDING \<longrightarrow> x = t)"

definition tokens_evolved :: "account_token list \<Rightarrow> account_token list \<Rightarrow> bool" where
  "tokens_evolved ts xs \<longleftrightarrow> tokens_ok xs \<and> (\<forall>t\<in>set ts. \<exists>x\<in>set xs. token_evolved t x)
     \<and> (\<forall>x\<in>set xs. \<exists>t\<in>set ts. token_evolved t x)"

lemma token_evolved_refl [simp]: "token_evolved t t"
  by (simp add: token_evolved_def same_token_def)

lemma token_evolved_trans: "token_evolved t x \<Longrightarrow> token_evolved x y \<Longrightarrow> token_evolved t y"
  by (auto simp: token_evolved_def same_token_def)

lemma token_evolved_pending: "token_evolved t x \<Longrightarrow> at_status x = TK_PENDING \<Longrightarrow> at_status t = TK_PENDING"
  by (auto simp: token_evolved_def)

lemma tokens_evolved_refl: "tokens_ok ts \<Longrightarrow> tokens_evolved ts ts"
  by (auto simp: tokens_evolved_def intro: token_evolved_refl)

lemma tokens_evolved_trans: "tokens_evolved ts xs \<Longrightarrow> tokens_evolved xs ys \<Longrightarrow> tokens_evolved ts ys"
  unfolding tokens_evolved_def by (meson token_evolved_trans)

lemma tokens_evolved_update:
  assumes "tokens_ok (update_where P f ts)"
    and "\<And>t. t \<in> set ts \<Longrightarrow> P t \<Longrightarrow> at_status t = TK_PENDING \<and> same_token t (f t)"
  shows "tokens_evolved ts (update_where P f ts)"
proof -
  have e: "token_evolved t (if P t then f t else t)" if "t \<in> set ts" for t
    using assms(2) [OF that] by (simp add: token_evolved_def same_token_def)
  show ?thesis
    unfolding tokens_evolved_def set_update_where using assms(1) e by blast
qed

lemma token_pk_unique: "tokens_ok ts \<Longrightarrow> t \<in> set ts \<Longrightarrow> x \<in> set ts \<Longrightarrow> at_id t = at_id x \<Longrightarrow> t = x"
  by (rule distinct_map_eq [of at_id]) (simp_all add: tokens_ok_def)

lemma token_digest_unique: "tokens_ok ts \<Longrightarrow> t \<in> set ts \<Longrightarrow> x \<in> set ts \<Longrightarrow> at_digest t = at_digest x \<Longrightarrow> t = x"
  by (rule distinct_map_eq [of at_digest]) (simp_all add: tokens_ok_def)

lemma pending_token_unique:
  assumes "tokens_ok ts" "t \<in> set ts" "x \<in> set ts" "at_status t = TK_PENDING" "at_status x = TK_PENDING"
    "at_user t = at_user x" "at_purpose t = at_purpose x"
  shows "t = x"
  using assms distinct_map_filter_eq [of "\<lambda>t. (at_user t, at_purpose t)" "\<lambda>t. at_status t = TK_PENDING" ts t x]
  by (simp add: tokens_ok_def)

lemma user_pk_unique: "users_ok us \<Longrightarrow> u \<in> set us \<Longrightarrow> v \<in> set us \<Longrightarrow> u_id u = u_id v \<Longrightarrow> u = v"
  by (rule distinct_map_eq [of u_id]) (simp_all add: users_ok_def)

lemma same_token_updates [simp]:
  "same_token t (expire_token env t)" "same_token t (revoke_token env t)" "same_token t (consume_token env t)"
  by (simp_all add: same_token_def expire_token_def revoke_token_def consume_token_def)

lemma save_token_D:
  assumes "save_token f t s = Inr s'" "tokens_ok (ac_tokens s)" "t \<in> set (ac_tokens s)"
    "at_status t = TK_PENDING" "same_token t (f t)"
  shows "tokens_evolved (ac_tokens s) (ac_tokens s')" "ac_db s' = ac_db s" "f t \<in> set (ac_tokens s')"
    "ac_tokens s' = update_where (\<lambda>x. at_id x = at_id t) f (ac_tokens s)"
proof -
  have w: "tokens_ok (update_where (\<lambda>x. at_id x = at_id t) f (ac_tokens s))"
    "s' = s\<lparr>ac_tokens := update_where (\<lambda>x. at_id x = at_id t) f (ac_tokens s)\<rparr>"
    using assms(1) by (simp_all add: save_token_def)
  have "x = t" if "x \<in> set (ac_tokens s)" "at_id x = at_id t" for x
    using token_pk_unique [OF assms(2) that(1) assms(3) that(2)] .
  then show "tokens_evolved (ac_tokens s) (ac_tokens s')"
    using w assms(4,5) by (auto intro!: tokens_evolved_update)
  show "ac_db s' = ac_db s" "f t \<in> set (ac_tokens s')"
    "ac_tokens s' = update_where (\<lambda>x. at_id x = at_id t) f (ac_tokens s)"
    using w assms(3) by (auto simp: in_update_where)
qed

subsection \<open>The database\<close>

text \<open>The account services append audit records and replace account rows, nothing else.\<close>

inductive account_effect :: "db \<Rightarrow> db \<Rightarrow> bool" where
  untouched: "account_effect d d"
| recorded: "account_effect d d1 \<Longrightarrow> logged a i act d1 d2 \<Longrightarrow> account_effect d d2"
| accounts_saved: "account_effect d d1 \<Longrightarrow> account_effect d (d1\<lparr>users := us\<rparr>)"

lemma account_effect_trans: "account_effect d1 d2 \<Longrightarrow> account_effect d d1 \<Longrightarrow> account_effect d d2"
  by (induction rule: account_effect.induct) (auto intro: account_effect.intros)

lemma write_security_audit_D:
  assumes "write_security_audit env k u t action prior after s = Inr s'"
  shows "logged u (at_id t) action (ac_db s) (ac_db s')" "ac_tokens s' = ac_tokens s"
    "users (ac_db s') = users (ac_db s)" "account_effect (ac_db s) (ac_db s')"
proof -
  obtain d where d: "write_audit env k (Some u) action ''AccountSecurityToken'' (Some (at_id t))
       [(''purpose'', JStr (purpose_str (at_purpose t))), (''before'', prior), (''after'', after)] (ac_db s) = Inr d"
    "s' = s\<lparr>ac_db := d\<rparr>"
    using assms by (auto simp: write_security_audit_def)
  have "logged u (at_id t) action (ac_db s) d" by (rule write_audit_logged [OF d(1)])
  with d(2) show "logged u (at_id t) action (ac_db s) (ac_db s')" "ac_tokens s' = ac_tokens s"
    "users (ac_db s') = users (ac_db s)" "account_effect (ac_db s) (ac_db s')"
    by (auto dest: logged_tables(1) intro: account_effect.intros)
qed

text \<open>A phase of a service that leaves the accounts alone.\<close>

definition token_phase :: "account_state \<Rightarrow> account_state \<Rightarrow> bool" where
  "token_phase s s' \<longleftrightarrow> users (ac_db s') = users (ac_db s) \<and> account_effect (ac_db s) (ac_db s')
     \<and> tokens_evolved (ac_tokens s) (ac_tokens s')"

lemma token_phase_refl: "tokens_ok (ac_tokens s) \<Longrightarrow> token_phase s s"
  by (simp add: token_phase_def tokens_evolved_refl account_effect.untouched)

lemma token_phase_trans: "token_phase s s1 \<Longrightarrow> token_phase s1 s2 \<Longrightarrow> token_phase s s2"
  by (auto simp: token_phase_def intro: tokens_evolved_trans account_effect_trans)

lemma token_phase_ok: "token_phase s s' \<Longrightarrow> tokens_ok (ac_tokens s')"
  by (simp add: token_phase_def tokens_evolved_def)

lemma saved_and_audited:
  assumes "save_token f t s = Inr s1" "write_security_audit env k u x action prior after s1 = Inr s2"
    "tokens_ok (ac_tokens s)" "t \<in> set (ac_tokens s)" "at_status t = TK_PENDING" "same_token t (f t)"
  shows "token_phase s s2" "f t \<in> set (ac_tokens s2)"
    "ac_tokens s2 = update_where (\<lambda>x. at_id x = at_id t) f (ac_tokens s)"
  using save_token_D [OF assms(1,3-6)] write_security_audit_D [OF assms(2)] by (simp_all add: token_phase_def)

lemma materialize_token_D:
  assumes "materialize_token_expiration env k t s = Inr (expired, s', k')"
    and "tokens_ok (ac_tokens s)" "t \<in> set (ac_tokens s)"
  shows "token_phase s s'" "expired \<longleftrightarrow> at_status t = TK_PENDING \<and> at_expires_at t \<le> e_now env"
    "expired \<Longrightarrow> expire_token env t \<in> set (ac_tokens s')" "\<not> expired \<Longrightarrow> s' = s \<and> k' = k"
  using assms token_phase_refl [OF assms(2)]
  by (auto simp: materialize_token_expiration_def dest: saved_and_audited split: if_splits)

lemma update_tokens_D:
  assumes "update_tokens P f s = Inr (n, s')"
    and "\<And>t. t \<in> set (ac_tokens s) \<Longrightarrow> P t \<Longrightarrow> at_status t = TK_PENDING \<and> same_token t (f t)"
  shows "token_phase s s'" "ac_tokens s' = update_where P f (ac_tokens s)" "ac_db s' = ac_db s"
    "n = length (filter P (ac_tokens s))"
  using assms by (auto simp: update_tokens_def token_phase_def account_effect.untouched intro!: tokens_evolved_update)

subsection \<open>Saving an account\<close>

lemma copy_fields:
  "u_id (fold (copy_field src) fs row) = u_id row"
  "u_email (fold (copy_field src) fs row) = (if UF_EMAIL \<in> set fs then u_email src else u_email row)"
  "u_password (fold (copy_field src) fs row) = (if UF_PASSWORD \<in> set fs then u_password src else u_password row)"
  "u_is_active (fold (copy_field src) fs row) = (if UF_IS_ACTIVE \<in> set fs then u_is_active src else u_is_active row)"
  "u_email_verified_at (fold (copy_field src) fs row)
     = (if UF_EMAIL_VERIFIED_AT \<in> set fs then u_email_verified_at src else u_email_verified_at row)"
  "u_verified_email (fold (copy_field src) fs row)
     = (if UF_VERIFIED_EMAIL \<in> set fs then u_verified_email src else u_verified_email row)"
proof (induction fs arbitrary: row)
  case (Cons f fs)
  { case 1 with Cons show ?case by (cases f) simp_all next
    case 2 with Cons show ?case by (cases f) simp_all next
    case 3 with Cons show ?case by (cases f) simp_all next
    case 4 with Cons show ?case by (cases f) simp_all next
    case 5 with Cons show ?case by (cases f) simp_all next
    case 6 with Cons show ?case by (cases f) simp_all }
qed simp_all

lemma stamped_simps [simp]:
  "u_id (stamped env fs u) = u_id u" "u_email (stamped env fs u) = u_email u"
  "u_password (stamped env fs u) = u_password u" "u_is_active (stamped env fs u) = u_is_active u"
  "u_email_verified_at (stamped env fs u) = u_email_verified_at u"
  "u_verified_email (stamped env fs u) = u_verified_email u"
  by (simp_all add: stamped_def)

lemma revoke_pending_D:
  assumes "revoke_pending env P s = Inr s'"
  shows "ac_db s' = ac_db s" "tokens_evolved (ac_tokens s) (ac_tokens s')"
    "ac_tokens s' = update_where (\<lambda>t. P t \<and> at_status t = TK_PENDING) (revoke_token env) (ac_tokens s)"
proof -
  let ?P = "\<lambda>t. P t \<and> at_status t = TK_PENDING"
  obtain n where n: "update_tokens ?P (revoke_token env) s = Inr (n, s')"
    using assms by (auto simp: revoke_pending_def revoke_token_def [abs_def])
  have "at_status t = TK_PENDING \<and> same_token t (revoke_token env t)" if "?P t" for t
    using that by simp
  from update_tokens_D [OF n this] show "ac_db s' = ac_db s" "tokens_evolved (ac_tokens s) (ac_tokens s')"
    "ac_tokens s' = update_where ?P (revoke_token env) (ac_tokens s)"
    by (simp_all add: token_phase_def)
qed

lemma revoke_if_D:
  assumes "(if c then revoke_pending env P s else Inr s) = Inr s'" "tokens_ok (ac_tokens s)"
  shows "ac_db s' = ac_db s" "tokens_evolved (ac_tokens s) (ac_tokens s')"
    "ac_tokens s' = update_where (\<lambda>t. (c \<and> P t) \<and> at_status t = TK_PENDING) (revoke_token env) (ac_tokens s)"
proof -
  have r: "revoke_pending env P s = Inr s'" if c
    using assms(1) that by simp
  have "s' = s" if "\<not> c"
    using assms(1) that by simp
  then show "ac_db s' = ac_db s" "tokens_evolved (ac_tokens s) (ac_tokens s')"
    "ac_tokens s' = update_where (\<lambda>t. (c \<and> P t) \<and> at_status t = TK_PENDING) (revoke_token env) (ac_tokens s)"
    using r revoke_pending_D [of env P s s'] tokens_evolved_refl [OF assms(2)] by (cases c; simp)+
qed

definition revoked_by_change :: "uuid \<Rightarrow> bool \<Rightarrow> bool \<Rightarrow> account_token \<Rightarrow> bool" where
  "revoked_by_change u email_changed password_changed t \<longleftrightarrow> at_user t = u \<and> at_status t = TK_PENDING
     \<and> (email_changed \<or> password_changed \<and> at_purpose t = PASSWORD_RESET)"

lemma revoke_twice:
  "update_where (\<lambda>t. Q t \<and> at_status t = TK_PENDING) (revoke_token env)
     (update_where (\<lambda>t. P t \<and> at_status t = TK_PENDING) (revoke_token env) ts)
   = update_where (\<lambda>t. (P t \<or> Q t) \<and> at_status t = TK_PENDING) (revoke_token env) ts"
  by (auto simp: update_where_def revoke_token_def)

lemma not_revoked:
  assumes "x \<in> set (update_where (revoked_by_change i ec pc) (revoke_token env) ts)" "at_user x = i"
    "at_status x = TK_PENDING"
  shows "\<not> ec \<and> (at_purpose x = PASSWORD_RESET \<longrightarrow> \<not> pc)"
proof -
  obtain t where t: "x = (if revoked_by_change i ec pc t then revoke_token env t else t)"
    using assms(1) by (auto simp: in_update_where)
  show ?thesis
  proof (cases "revoked_by_change i ec pc t")
    case True
    with t assms(3) show ?thesis by (simp add: revoke_token_def)
  next
    case False
    with t assms show ?thesis by (auto simp: revoked_by_change_def)
  qed
qed

text \<open>An update of an existing row: what changed, the new row, the tokens it revoked.\<close>

lemma user_save_D:
  assumes "user_save env False update_fields self s = Inr (self', s')"
    and "users_ok (users (ac_db s))" "tokens_ok (ac_tokens s)" "p \<in> set (users (ac_db s))" "u_id p = u_id self"
    and fs: "fs = (case update_fields of None \<Rightarrow> all_user_fields | Some fs \<Rightarrow> fs)"
    and ec: "ec \<longleftrightarrow> UF_EMAIL \<in> set fs
      \<and> normalize_account_email env (Some (u_email p)) \<noteq> normalize_account_email env (Some (u_email self))"
    and pc: "pc \<longleftrightarrow> UF_PASSWORD \<in> set fs \<and> u_password p \<noteq> u_password self"
  obtains r where "ac_db s' = (ac_db s)\<lparr>users := update_where (\<lambda>x. u_id x = u_id self) (\<lambda>_. r) (users (ac_db s))\<rparr>"
    "users_ok (users (ac_db s'))" "tokens_evolved (ac_tokens s) (ac_tokens s')"
    "ac_tokens s' = update_where (revoked_by_change (u_id self) ec pc) (revoke_token env) (ac_tokens s)"
    "u_id r = u_id self" "u_email r = (if UF_EMAIL \<in> set fs then u_email self else u_email p)"
    "u_password r = (if UF_PASSWORD \<in> set fs then u_password self else u_password p)"
    "u_is_active r = (if UF_IS_ACTIVE \<in> set fs then u_is_active self else u_is_active p)"
    "u_email_verified_at r = (if ec then None
       else if UF_EMAIL_VERIFIED_AT \<in> set fs then u_email_verified_at self else u_email_verified_at p)"
    "u_verified_email r = (if ec then None
       else if UF_VERIFIED_EMAIL \<in> set fs then u_verified_email self else u_verified_email p)"
    "u_id self' = u_id self" "u_email self' = u_email self"
proof -
  define self1 where "self1 = (if ec then self\<lparr>u_email_verified_at := None, u_verified_email := None\<rparr> else self)"
  define fs1 where "fs1 = (if ec then fs @ [UF_EMAIL_VERIFIED_AT, UF_VERIFIED_EMAIL] else fs)"
  define r where "r = fold (copy_field (stamped env fs1 self1)) fs1 p"
  have pk: "lookup_pk u_id (u_id self) (users (ac_db s)) = Some p"
    using assms(2,4,5) by (simp add: lookup_pk_eq users_ok_def)
  obtain s1 s2 where b: "base_save env False (update_fields \<noteq> None) fs1 self1 s = Inr (self', s1)"
    and e: "(if ec then revoke_pending env (\<lambda>t. at_user t = u_id self
         \<and> at_purpose t \<in> {EMAIL_VERIFICATION, PASSWORD_RESET}) s1 else Inr s1) = Inr s2"
    and q: "(if pc then revoke_pending env (\<lambda>t. at_user t = u_id self \<and> at_purpose t = PASSWORD_RESET) s2
         else Inr s2) = Inr s'"
    using assms(1) unfolding user_save_def Let_def pk fs [symmetric]
    by (auto simp: ec [symmetric] pc [symmetric] self1_def fs1_def)
  have upd: "update_where (\<lambda>x. u_id x = u_id self) (fold (copy_field (stamped env fs1 self1)) fs1) (users (ac_db s))
      = update_where (\<lambda>x. u_id x = u_id self) (\<lambda>_. r) (users (ac_db s))"
    using user_pk_unique [OF assms(2) _ assms(4)] assms(5) by (auto simp: update_where_def r_def)
  have noop: "update_where (\<lambda>x. u_id x = u_id self) (\<lambda>_. r) (users (ac_db s)) = users (ac_db s)" if "fs1 = []"
    using that user_pk_unique [OF assms(2) _ assms(4)] assms(5)
    by (auto simp: update_where_def r_def intro: map_idI)
  have "u_id self1 = u_id self" "u_id self \<in> u_id ` set (users (ac_db s))"
    using assms(4,5) by (auto simp: self1_def intro: rev_image_eqI)
  then have b': "users_ok (update_where (\<lambda>x. u_id x = u_id self) (\<lambda>_. r) (users (ac_db s)))"
    "s1 = s\<lparr>ac_db := (ac_db s)\<lparr>users := update_where (\<lambda>x. u_id x = u_id self) (\<lambda>_. r) (users (ac_db s))\<rparr>\<rparr>"
    "u_id self' = u_id self" "u_email self' = u_email self"
    using b assms(2) upd noop unfolding base_save_def Let_def
    by (auto simp: self1_def split: if_splits)
  have any: "(\<lambda>t. at_user t = u_id self \<and> at_purpose t \<in> {EMAIL_VERIFICATION, PASSWORD_RESET})
      = (\<lambda>t. at_user t = u_id self)"
    using purpose.exhaust by blast
  have s1: "ac_tokens s1 = ac_tokens s" using b'(2) by simp
  note t2 = revoke_if_D [OF e [unfolded any], unfolded s1, OF assms(3)]
  then have "tokens_ok (ac_tokens s2)" by (simp add: tokens_evolved_def)
  note t3 = revoke_if_D [OF q this]
  have t: "ac_tokens s' = update_where (revoked_by_change (u_id self) ec pc) (revoke_token env) (ac_tokens s)"
    unfolding t3(3) t2(3) revoke_twice by (rule arg_cong [of _ _ "\<lambda>P. update_where P _ _"])
      (auto simp: revoked_by_change_def fun_eq_iff)
  show thesis
  proof (rule that [of r])
    show "ac_db s' = (ac_db s)\<lparr>users := update_where (\<lambda>x. u_id x = u_id self) (\<lambda>_. r) (users (ac_db s))\<rparr>"
      "users_ok (users (ac_db s'))" "tokens_evolved (ac_tokens s) (ac_tokens s')"
      using t2(1,2) t3(1,2) b' tokens_evolved_trans by auto
    show "ac_tokens s' = update_where (revoked_by_change (u_id self) ec pc) (revoke_token env) (ac_tokens s)" by (rule t)
  qed (use assms(5) b'(3,4) in \<open>auto simp: r_def copy_fields fs1_def self1_def ec\<close>)
qed

text \<open>An object without a row, as \<open>create_user\<close> saves one, is inserted.\<close>

lemma user_insert_D:
  assumes "user_save env adding update_fields self s = Inr (self', s')"
    and "adding \<or> u_id self \<notin> u_id ` set (users (ac_db s))"
  shows "ac_tokens s' = ac_tokens s \<and> (s' = s \<or> ac_db s' = (ac_db s)\<lparr>users := users (ac_db s) @ [self']\<rparr>
    \<and> users_ok (users (ac_db s')) \<and> self' = self\<lparr>u_updated_at := e_now env\<rparr>)"
proof (cases adding)
  case True
  with assms(1) show ?thesis
    by (simp add: user_save_def base_save_def Let_def split: if_splits option.splits) auto
next
  case False
  with assms(2) have "lookup_pk u_id (u_id self) (users (ac_db s)) = None" by simp
  with False assms show ?thesis
    by (simp add: user_save_def base_save_def Let_def split: if_splits option.splits) auto
qed

subsection \<open>Requests\<close>

lemma retire_previous_D:
  assumes "retire_previous env u prev s = Inr (s', k)" "tokens_ok (ac_tokens s)"
    and "\<And>t. prev = Some t \<Longrightarrow> t \<in> set (ac_tokens s) \<and> at_status t = TK_PENDING"
  shows "token_phase s s'"
    "\<And>x. prev = Some t \<Longrightarrow> x \<in> set (ac_tokens s') \<Longrightarrow> at_id x = at_id t \<Longrightarrow> at_status x \<noteq> TK_PENDING"
proof -
  have "token_phase s s' \<and> (\<forall>t x. prev = Some t \<longrightarrow> x \<in> set (ac_tokens s') \<longrightarrow> at_id x = at_id t
    \<longrightarrow> at_status x \<noteq> TK_PENDING)"
  proof (cases prev)
    case None
    with assms(1) have "s' = s" by (simp add: retire_previous_def)
    with None token_phase_refl [OF assms(2)] show ?thesis by simp
  next
    case (Some t)
    with assms(3) have t: "t \<in> set (ac_tokens s)" "at_status t = TK_PENDING" by auto
    from assms(1) Some obtain expired s1 k1 where m: "materialize_token_expiration env 0 t s = Inr (expired, s1, k1)"
      and r: "if expired then s' = s1 else (\<exists>s2. save_token (revoke_token env) t s1 = Inr s2
         \<and> write_security_audit env k1 u t ''account.security_token.rotated''
           (token_state (at_status t)) (token_state TK_REVOKED) s2 = Inr s')"
      by (auto simp: retire_previous_def split: if_splits)
    note M = materialize_token_D [OF m assms(2) t(1)]
    show ?thesis
    proof (cases expired)
      case True
      have e: "expire_token env t \<in> set (ac_tokens s')" and p: "token_phase s s'"
        using M(1,3) r True by simp_all
      have "at_status x \<noteq> TK_PENDING" if "x \<in> set (ac_tokens s')" "at_id x = at_id t" for x
        using token_pk_unique [OF token_phase_ok [OF p] that(1) e] that(2) by (auto simp: expire_token_def)
      with p Some show ?thesis by blast
    next
      case False
      with M(4) have s1: "s1 = s" by simp
      from r False s1 obtain s2 where w: "save_token (revoke_token env) t s = Inr s2"
        "write_security_audit env k1 u t ''account.security_token.rotated''
           (token_state (at_status t)) (token_state TK_REVOKED) s2 = Inr s'" by auto
      note W = saved_and_audited [OF w assms(2) t same_token_updates(2)]
      have "at_status x \<noteq> TK_PENDING" if "x \<in> set (ac_tokens s')" "at_id x = at_id t" for x
        using token_pk_unique [OF token_phase_ok [OF W(1)] that(1) W(2)] that(2) by (auto simp: revoke_token_def)
      with W(1) Some show ?thesis by blast
    qed
  qed
  then show "token_phase s s'"
    "\<And>x. prev = Some t \<Longrightarrow> x \<in> set (ac_tokens s') \<Longrightarrow> at_id x = at_id t \<Longrightarrow> at_status x \<noteq> TK_PENDING"
    by blast+
qed

text \<open>What a request issues: a token bound to the account's address and, for a reset, its password.\<close>

definition token_bound_to :: "env \<Rightarrow> account_token \<Rightarrow> user \<Rightarrow> bool" where
  "token_bound_to env t u \<longleftrightarrow> at_email t = normalize_account_email env (Some (u_email u))
     \<and> at_fingerprint t = (if at_purpose t = PASSWORD_RESET then Some (e_sha256 env (u_password u)) else None)"

fun ttl_of :: "purpose \<Rightarrow> time" where
  "ttl_of EMAIL_VERIFICATION = email_verification_ttl"
| "ttl_of PASSWORD_RESET = password_reset_ttl"

definition fresh_token :: "env \<Rightarrow> user \<Rightarrow> purpose \<Rightarrow> account_token \<Rightarrow> bool" where
  "fresh_token env u p t \<longleftrightarrow> at_user t = u_id u \<and> at_purpose t = p \<and> token_bound_to env t u
     \<and> at_status t = TK_PENDING \<and> at_delivery_status t = DL_QUEUED
     \<and> at_created_at t = e_now env \<and> at_expires_at t = e_now env + ttl_of p
     \<and> at_digest t = e_sha256 env (ascii ''hustlytasker:'' @ ascii (purpose_str p) @ ascii '':'' @ e_token env)"

lemma issue_token_D:
  assumes "issue_token_locked env u p (ttl_of p) s = Inr (t, s')" "tokens_ok (ac_tokens s)"
  obtains s1 where "token_phase s s1" "account_effect (ac_db s) (ac_db s')"
    "users (ac_db s') = users (ac_db s)" "ac_tokens s' = ac_tokens s1 @ [t]" "tokens_ok (ac_tokens s')"
    "fresh_token env u p t"
proof -
  let ?P = "\<lambda>t. at_user t = u_id u \<and> at_purpose t = p \<and> at_status t = TK_PENDING"
  let ?prev = "first_by at_id ?P (ac_tokens s)"
  from assms(1) obtain s1 k s2 fp where r: "retire_previous env (u_id u) ?prev s = Inr (s1, k)"
    and fp: "fp = (if p = PASSWORD_RESET then Some (e_sha256 env (u_password u)) else None)"
    and t: "t = new_token env k u p (ttl_of p)
        (e_sha256 env (ascii ''hustlytasker:'' @ ascii (purpose_str p) @ ascii '':'' @ e_token env)) fp
        (map_option at_id ?prev)"
    and w: "write_tokens (ac_tokens s1 @ [t]) s1 = Inr s2"
    and a: "write_security_audit env (k + 1) (u_id u) t (requested_action p) JNull
       (JObj [(''status'', JStr (token_status_str (at_status t))), (''delivery_status'', JStr ''QUEUED'')]) s2 = Inr s'"
    by (auto simp: issue_token_locked_def digest_account_security_token_def password_fingerprint_def Let_def
        split: if_splits)
  have "x \<in> set (ac_tokens s) \<and> at_status x = TK_PENDING" if "?prev = Some x" for x
    using first_by_Some_in [OF that] by simp
  note R = retire_previous_D(1) [OF r assms(2) this]
  note A = write_security_audit_D [OF a]
  have f: "fresh_token env u p t"
    by (simp add: t fresh_token_def new_token_def token_bound_to_def fp)
  show thesis
  proof (rule that [OF R _ _ _ _ f])
    show "account_effect (ac_db s) (ac_db s')" "users (ac_db s') = users (ac_db s)"
      "ac_tokens s' = ac_tokens s1 @ [t]" "tokens_ok (ac_tokens s')"
      using R A w by (auto simp: token_phase_def intro: account_effect_trans)
  qed
qed

definition token_issued :: "env \<Rightarrow> user \<Rightarrow> purpose \<Rightarrow> account_token \<Rightarrow> account_state \<Rightarrow> account_state \<Rightarrow> bool" where
  "token_issued env u p t s s' \<longleftrightarrow> u \<in> set (users (ac_db s)) \<and> u_is_active u \<and> fresh_token env u p t
     \<and> users (ac_db s') = users (ac_db s) \<and> account_effect (ac_db s) (ac_db s')
     \<and> (\<exists>ts. tokens_evolved (ac_tokens s) ts \<and> ac_tokens s' = ts @ [t]) \<and> tokens_ok (ac_tokens s')"

lemma locked_account_D: "locked_account i s = Some u \<Longrightarrow> u \<in> set (users (ac_db s)) \<and> u_id u = i \<and> u_is_active u"
  unfolding locked_account_def by (drule first_by_Some_in) simp

lemma issued_for_locked:
  assumes "issue_token_locked env u p (ttl_of p) s = Inr (t, s')" "locked_account i s = Some u"
    "tokens_ok (ac_tokens s)"
  shows "token_issued env u p t s s'"
  using assms(1,3) locked_account_D [OF assms(2)]
  by (elim issue_token_D) (auto simp: token_issued_def token_phase_def)

text \<open>The account one address leads to.\<close>

definition sole_account :: "env \<Rightarrow> user \<Rightarrow> account_state \<Rightarrow> bool" where
  "sole_account env u s \<longleftrightarrow> (\<exists>v. resolve_unique_user_for_email env
     (normalize_account_email env (Some (u_email u))) (ac_db s) = Inr (Some v) \<and> u_id v = u_id u)"

lemma request_email_verification_D:
  assumes "request_email_verification env actor s = Inr (r, s')" "tokens_ok (ac_tokens s)"
  obtains u where "locked_account actor s = Some u" "sole_account env u s"
    "case r of None \<Rightarrow> is_email_verified env u \<and> s' = s
      | Some t \<Rightarrow> \<not> is_email_verified env u \<and> token_issued env u EMAIL_VERIFICATION t s s'"
proof -
  from assms(1) obtain u v where u: "locked_account actor s = Some u"
    and v: "resolve_unique_user_for_email env (normalize_account_email env (Some (u_email u))) (ac_db s) = Inr (Some v)"
      "u_id v = u_id u"
    and r: "if is_email_verified env u then r = None \<and> s' = s
      else \<exists>t. issue_token_locked env u EMAIL_VERIFICATION (ttl_of EMAIL_VERIFICATION) s = Inr (t, s') \<and> r = Some t"
    by (auto simp: request_email_verification_def resolve_current_unique_user_def split: if_splits)
  show thesis
    by (rule that [OF u]) (use v r issued_for_locked [OF _ u assms(2)] in \<open>auto simp: sole_account_def split: if_splits\<close>)
qed

lemma request_password_reset_D:
  assumes "request_password_reset_at env pw email s0 s = Inr (r, s')" "tokens_ok (ac_tokens s)"
  obtains (ignored) "r = None" "s' = s"
  | (issued) t u where "r = Some t" "token_issued env u PASSWORD_RESET t s s'" "sole_account env u s"
      "normalize_account_email env (Some (u_email u)) = normalize_account_email env email"
      "pw_usable pw (u_password u)"
proof (cases r)
  case None
  have "s' = s"
    using assms(1) unfolding request_password_reset_at_def None Let_def
    by (auto split: sum.splits option.splits if_splits)
  with None show thesis by (rule ignored)
next
  case (Some t)
  obtain u0 :: user and u v where u: "locked_account (u_id u0) s = Some u" and p: "pw_usable pw (u_password u)"
    and n: "normalize_account_email env (Some (u_email u)) = normalize_account_email env email"
    and v: "resolve_unique_user_for_email env (normalize_account_email env email) (ac_db s) = Inr (Some v)"
      "u_id v = u_id u"
    and t: "issue_token_locked env u PASSWORD_RESET (ttl_of PASSWORD_RESET) s = Inr (t, s')"
    using assms(1) unfolding request_password_reset_at_def Some Let_def
    by (auto split: sum.splits option.splits if_splits)
  from issued [OF Some issued_for_locked [OF t u assms(2)] _ n p] v n show thesis
    by (auto simp: sole_account_def)
qed

subsection \<open>Confirmations\<close>

definition token_digest_of :: "env \<Rightarrow> purpose \<Rightarrow> ptext \<Rightarrow> string" where
  "token_digest_of env p raw = e_sha256 env (ascii ''hustlytasker:'' @ ascii (purpose_str p) @ ascii '':'' @ raw)"

definition presented :: "env \<Rightarrow> ptext arg \<Rightarrow> purpose \<Rightarrow> user \<Rightarrow> account_token \<Rightarrow> account_state \<Rightarrow> bool" where
  "presented env raw_token p u t s \<longleftrightarrow> (\<exists>raw. raw_token = Val raw \<and> raw \<noteq> [] \<and> utf8_encodable raw
     \<and> at_digest t = token_digest_of env p raw) \<and> t \<in> set (ac_tokens s) \<and> at_purpose t = p
     \<and> at_status t = TK_PENDING \<and> at_delivery_status t = DL_SENT \<and> u \<in> set (users (ac_db s))
     \<and> u_id u = at_user t \<and> u_is_active u"

lemma candidate_presented:
  assumes "lookup_candidate env raw_token p s = Inr (c, d)" "lock_candidate c d p s = Inr (u, t)"
  shows "presented env raw_token p u t s"
proof -
  obtain raw where raw: "raw_token = Val raw" "raw \<noteq> []" "utf8_encodable raw" "d = token_digest_of env p raw"
    using assms(1) by (auto simp: lookup_candidate_def digest_account_security_token_def token_digest_of_def)
  have u: "u \<in> set (users (ac_db s))" "u_is_active u"
    and f: "first_by at_id (\<lambda>t. at_id t = at_id c \<and> at_user t = u_id u \<and> at_purpose t = p \<and> at_digest t = d)
       (ac_tokens s) = Some t"
    and t: "at_status t = TK_PENDING" "at_delivery_status t = DL_SENT"
    using assms(2) by (auto simp: lock_candidate_def dest: locked_account_D)
  with raw first_by_Some_in [OF f] show ?thesis by (auto simp: presented_def)
qed

definition expired_on_presentation :: "env \<Rightarrow> account_token \<Rightarrow> account_state \<Rightarrow> account_state \<Rightarrow> bool" where
  "expired_on_presentation env t s s' \<longleftrightarrow> at_expires_at t \<le> e_now env \<and> token_phase s s'
     \<and> expire_token env t \<in> set (ac_tokens s')"

lemma validate_locked_identity_D:
  "validate_locked_identity env u t s = Inr n \<Longrightarrow>
     at_email t = normalize_account_email env (Some (u_email u)) \<and> n = at_email t \<and> sole_account env u s"
  by (auto simp: validate_locked_identity_def resolve_current_unique_user_def sole_account_def Let_def)

lemma consumed_D:
  assumes "save_token (consume_token env) t s = Inr s1" "tokens_ok (ac_tokens s)" "t \<in> set (ac_tokens s)"
    "at_status t = TK_PENDING"
  shows "tokens_evolved (ac_tokens s) (ac_tokens s1)" "ac_db s1 = ac_db s"
    "consume_token env t \<in> set (ac_tokens s1)"
    "ac_tokens s1 = update_where (\<lambda>x. at_id x = at_id t) (consume_token env) (ac_tokens s)"
  using save_token_D [OF assms same_token_updates(3)] by blast+

definition email_confirmed :: "env \<Rightarrow> user \<Rightarrow> account_token \<Rightarrow> account_state \<Rightarrow> account_state \<Rightarrow> bool" where
  "email_confirmed env u t s s' \<longleftrightarrow> e_now env < at_expires_at t \<and> sole_account env u s
     \<and> at_email t = normalize_account_email env (Some (u_email u))
     \<and> account_effect (ac_db s) (ac_db s') \<and> users_ok (users (ac_db s'))
     \<and> (\<exists>r. users (ac_db s') = update_where (\<lambda>x. u_id x = u_id u) (\<lambda>_. r) (users (ac_db s))
          \<and> u_id r = u_id u \<and> u_email r = u_email u \<and> u_password r = u_password u \<and> u_is_active r = u_is_active u
          \<and> u_email_verified_at r = Some (e_now env) \<and> u_verified_email r = Some (at_email t))
     \<and> ac_tokens s' = update_where (\<lambda>x. at_id x = at_id t) (consume_token env) (ac_tokens s)
     \<and> tokens_evolved (ac_tokens s) (ac_tokens s') \<and> consume_token env t \<in> set (ac_tokens s')"

definition password_replaced ::
  "env \<Rightarrow> hasher \<Rightarrow> user \<Rightarrow> account_token \<Rightarrow> ptext \<Rightarrow> account_state \<Rightarrow> account_state \<Rightarrow> bool" where
  "password_replaced env pw u t new_password s s' \<longleftrightarrow> e_now env < at_expires_at t \<and> sole_account env u s
     \<and> token_bound_to env t u \<and> pw_usable pw (u_password u) \<and> pw_accepts pw u new_password
     \<and> account_effect (ac_db s) (ac_db s') \<and> users_ok (users (ac_db s'))
     \<and> (\<exists>r. users (ac_db s') = update_where (\<lambda>x. u_id x = u_id u) (\<lambda>_. r) (users (ac_db s))
          \<and> u_id r = u_id u \<and> u_email r = u_email u \<and> u_password r = pw_encode pw new_password
          \<and> u_is_active r = u_is_active u
          \<and> u_email_verified_at r = u_email_verified_at u \<and> u_verified_email r = u_verified_email u)
     \<and> ac_tokens s' = update_where (revoked_by_change (u_id u) False (u_password u \<noteq> pw_encode pw new_password))
         (revoke_token env) (update_where (\<lambda>x. at_id x = at_id t) (consume_token env) (ac_tokens s))
     \<and> tokens_evolved (ac_tokens s) (ac_tokens s') \<and> consume_token env t \<in> set (ac_tokens s')"

lemma confirm_email_verification_D:
  assumes c: "confirm_email_verification env actor raw_token s = Inr (res, s')"
    and ok: "users_ok (users (ac_db s))" "tokens_ok (ac_tokens s)"
  obtains u t where "presented env raw_token EMAIL_VERIFICATION u t s" "u_id u = actor"
    "case res of Inl e \<Rightarrow> e = AccountSecurityConflict \<and> expired_on_presentation env t s s'
      | Inr _ \<Rightarrow> email_confirmed env u t s s'"
proof -
  from c obtain cd d u t expired s1 k where l: "lookup_candidate env raw_token EMAIL_VERIFICATION s = Inr (cd, d)"
    "lock_candidate cd d EMAIL_VERIFICATION s = Inr (u, t)" and u: "u_id u = actor"
    and m: "materialize_token_expiration env 0 t s = Inr (expired, s1, k)"
    and r: "if expired then res = Inl AccountSecurityConflict \<and> s' = s1
      else \<exists>n u1 s2 s3. validate_locked_identity env u t s1 = Inr n
        \<and> user_save env False (Some [UF_EMAIL_VERIFIED_AT, UF_VERIFIED_EMAIL, UF_UPDATED_AT])
           (u\<lparr>u_email_verified_at := Some (e_now env), u_verified_email := Some n\<rparr>) s1 = Inr (u1, s2)
        \<and> save_token (consume_token env) t s2 = Inr s3
        \<and> write_security_audit env k (u_id u1) t ''account.email_verification.confirmed''
           (token_state TK_PENDING) (token_state TK_CONSUMED) s3 = Inr s' \<and> res = Inr u1"
    by (auto simp: confirm_email_verification_def split: if_splits)
  have p: "presented env raw_token EMAIL_VERIFICATION u t s" by (rule candidate_presented [OF l])
  then have t: "t \<in> set (ac_tokens s)" "at_status t = TK_PENDING" and uin: "u \<in> set (users (ac_db s))"
    by (simp_all add: presented_def)
  note M = materialize_token_D [OF m ok(2) t(1)]
  show thesis
  proof (rule that [OF p u])
    show "case res of Inl e \<Rightarrow> e = AccountSecurityConflict \<and> expired_on_presentation env t s s'
      | Inr _ \<Rightarrow> email_confirmed env u t s s'"
    proof (cases expired)
      case True
      with r M show ?thesis by (simp add: expired_on_presentation_def)
    next
      case False
      with M(4) have s1: "s1 = s" by simp
      from r False s1 obtain n u1 s2 s3 where v: "validate_locked_identity env u t s = Inr n"
        and sv: "user_save env False (Some [UF_EMAIL_VERIFIED_AT, UF_VERIFIED_EMAIL, UF_UPDATED_AT])
           (u\<lparr>u_email_verified_at := Some (e_now env), u_verified_email := Some n\<rparr>) s = Inr (u1, s2)"
        and ct: "save_token (consume_token env) t s2 = Inr s3"
        and a: "write_security_audit env k (u_id u1) t ''account.email_verification.confirmed''
           (token_state TK_PENDING) (token_state TK_CONSUMED) s3 = Inr s'" and res: "res = Inr u1"
        by auto
      have "u_id u = u_id (u\<lparr>u_email_verified_at := Some (e_now env), u_verified_email := Some n\<rparr>)" by simp
      from user_save_D [OF sv ok uin this refl refl refl] obtain r where
        r: "ac_db s2 = (ac_db s)\<lparr>users := update_where (\<lambda>x. u_id x = u_id u) (\<lambda>_. r) (users (ac_db s))\<rparr>"
          "users_ok (users (ac_db s2))" "u_id r = u_id u" "u_email r = u_email u" "u_password r = u_password u"
          "u_is_active r = u_is_active u" "u_email_verified_at r = Some (e_now env)" "u_verified_email r = Some n"
        and tk: "ac_tokens s2 = update_where (revoked_by_change (u_id u) False False) (revoke_token env) (ac_tokens s)"
        by auto
      have tk2: "ac_tokens s2 = ac_tokens s" using tk by (simp add: revoked_by_change_def)
      note C = consumed_D [OF ct, unfolded tk2, OF ok(2) t]
      note A = write_security_audit_D [OF a]
      have e: "account_effect (ac_db s) (ac_db s')"
        using A(4) C(2) r(1) account_effect_trans [of "ac_db s3" "ac_db s'" "ac_db s"]
          accounts_saved [OF untouched, of "ac_db s"] by simp
      show ?thesis
        unfolding res sum.case email_confirmed_def
        using validate_locked_identity_D [OF v] M(2) False t(2) e r A(2,3) C
        by (intro conjI exI [of _ r]) simp_all
    qed
  qed
qed

lemma confirm_password_reset_D:
  assumes c: "confirm_password_reset env pw raw_token new_password s = Inr (res, s')"
    and ok: "users_ok (users (ac_db s))" "tokens_ok (ac_tokens s)"
  obtains u t where "presented env raw_token PASSWORD_RESET u t s"
    "case res of Inl e \<Rightarrow> e = AccountSecurityConflict \<and> expired_on_presentation env t s s'
      | Inr _ \<Rightarrow> password_replaced env pw u t new_password s s'"
proof -
  from c obtain cd d u t expired s1 k where l: "lookup_candidate env raw_token PASSWORD_RESET s = Inr (cd, d)"
    "lock_candidate cd d PASSWORD_RESET s = Inr (u, t)"
    and m: "materialize_token_expiration env 0 t s = Inr (expired, s1, k)"
    and r: "if expired then res = Inl AccountSecurityConflict \<and> s' = s1
      else \<exists>n u1 s2 s3. validate_locked_identity env u t s1 = Inr n \<and> pw_usable pw (u_password u)
        \<and> (case at_fingerprint t of None \<Rightarrow> [] | Some f \<Rightarrow> f) = e_sha256 env (u_password u)
        \<and> pw_accepts pw u new_password \<and> save_token (consume_token env) t s1 = Inr s2
        \<and> user_save env False (Some [UF_PASSWORD, UF_UPDATED_AT]) (u\<lparr>u_password := pw_encode pw new_password\<rparr>) s2
           = Inr (u1, s3)
        \<and> write_security_audit env k (u_id u1) t ''account.password_reset.completed''
           (token_state TK_PENDING) (token_state TK_CONSUMED) s3 = Inr s' \<and> res = Inr u1"
    by (auto simp: confirm_password_reset_def password_fingerprint_def split: if_splits)
  have p: "presented env raw_token PASSWORD_RESET u t s" by (rule candidate_presented [OF l])
  then have t: "t \<in> set (ac_tokens s)" "at_status t = TK_PENDING" and uin: "u \<in> set (users (ac_db s))"
    and pr: "at_purpose t = PASSWORD_RESET" by (simp_all add: presented_def)
  note M = materialize_token_D [OF m ok(2) t(1)]
  show thesis
  proof (rule that [OF p])
    show "case res of Inl e \<Rightarrow> e = AccountSecurityConflict \<and> expired_on_presentation env t s s'
      | Inr _ \<Rightarrow> password_replaced env pw u t new_password s s'"
    proof (cases expired)
      case True
      with r M show ?thesis by (simp add: expired_on_presentation_def)
    next
      case False
      with M(4) have s1: "s1 = s" by simp
      from r False s1 obtain n u1 s2 s3 where v: "validate_locked_identity env u t s = Inr n"
        and us: "pw_usable pw (u_password u)" "pw_accepts pw u new_password"
        and fp: "(case at_fingerprint t of None \<Rightarrow> [] | Some f \<Rightarrow> f) = e_sha256 env (u_password u)"
        and ct: "save_token (consume_token env) t s = Inr s2"
        and sv: "user_save env False (Some [UF_PASSWORD, UF_UPDATED_AT])
           (u\<lparr>u_password := pw_encode pw new_password\<rparr>) s2 = Inr (u1, s3)"
        and a: "write_security_audit env k (u_id u1) t ''account.password_reset.completed''
           (token_state TK_PENDING) (token_state TK_CONSUMED) s3 = Inr s'" and res: "res = Inr u1"
        by auto
      note C = consumed_D [OF ct ok(2) t]
      have ok2: "users_ok (users (ac_db s2))" "tokens_ok (ac_tokens s2)" "u \<in> set (users (ac_db s2))"
        using C ok uin by (simp_all add: tokens_evolved_def)
      have "u_id u = u_id (u\<lparr>u_password := pw_encode pw new_password\<rparr>)" by simp
      from user_save_D [OF sv ok2 this refl refl refl] obtain r where
        r: "ac_db s3 = (ac_db s)\<lparr>users := update_where (\<lambda>x. u_id x = u_id u) (\<lambda>_. r) (users (ac_db s))\<rparr>"
          "users_ok (users (ac_db s3))" "u_id r = u_id u" "u_email r = u_email u"
          "u_password r = pw_encode pw new_password" "u_is_active r = u_is_active u"
          "u_email_verified_at r = u_email_verified_at u" "u_verified_email r = u_verified_email u"
        and tk: "tokens_evolved (ac_tokens s2) (ac_tokens s3)"
          "ac_tokens s3 = update_where (revoked_by_change (u_id u) False (u_password u \<noteq> pw_encode pw new_password))
             (revoke_token env) (ac_tokens s2)"
        using C(2) by auto
      note A = write_security_audit_D [OF a]
      have e: "account_effect (ac_db s) (ac_db s')"
        using A(4) r(1) account_effect_trans [of "ac_db s3" "ac_db s'" "ac_db s"]
          accounts_saved [OF untouched, of "ac_db s"] by simp
      have b: "token_bound_to env t u"
      proof -
        have "token_row_ok t" using ok(2) t(1) by (simp add: tokens_ok_def)
        then show ?thesis using fp pr validate_locked_identity_D [OF v]
          by (auto simp: token_bound_to_def token_row_ok_def split: option.splits)
      qed
      have c: "consume_token env t \<in> set (ac_tokens s3)"
        using C(3) unfolding tk(2) in_update_where
        by (intro bexI [of _ "consume_token env t"]) (simp_all add: revoked_by_change_def consume_token_def)
      show ?thesis
        unfolding res sum.case password_replaced_def
        using validate_locked_identity_D [OF v] M(2) False t(2) e r A(2,3) us b c
          tokens_evolved_trans [OF C(1) tk(1)] tk(2) C(4)
        by (intro conjI exI [of _ r]) simp_all
    qed
  qed
qed

subsection \<open>Delivery\<close>

lemma update_tokens_eq_Inr: "update_tokens P f s = Inr (n, s') \<longleftrightarrow> tokens_ok (update_where P f (ac_tokens s))
    \<and> s' = s\<lparr>ac_tokens := update_where P f (ac_tokens s)\<rparr> \<and> n = length (filter P (ac_tokens s))"
  by (auto simp: update_tokens_def)

lemma update_phase:
  assumes "tokens_ok (update_where P f (ac_tokens s))" "\<And>t. P t \<Longrightarrow> at_status t = TK_PENDING \<and> same_token t (f t)"
  shows "token_phase s (s\<lparr>ac_tokens := update_where P f (ac_tokens s)\<rparr>)"
  using tokens_evolved_update [OF assms(1)] assms(2) by (simp add: token_phase_def account_effect.untouched)

lemma claim_token_delivery_D: "claim_token_delivery env t s = Inr (b, s') \<Longrightarrow> token_phase s s' \<and> ac_db s' = ac_db s"
  by (auto simp: claim_token_delivery_def update_tokens_eq_Inr same_token_def intro!: update_phase)

lemma finish_token_delivery_D:
  "finish_token_delivery env at smtp t raw s = Inr (b, s') \<Longrightarrow> token_phase s s' \<and> ac_db s' = ac_db s"
  by (auto simp: finish_token_delivery_def update_tokens_eq_Inr same_token_def Let_def
      intro!: update_phase split: sum.splits prod.splits)

end
