(* ===== verification/Account_System.thy ===== *)
theory Account_System
  imports Account_Effects Proposal_System
begin

text \<open>
  The system with its accounts: every other service, account requests, confirmations, deliveries
  and saves in any order. An address counts as verified only with a consumed token to show for it,
  a pending token always matches the address and password its account has now, and what the other
  subsystems keep invariant survives the account services (interface \<open>account_invariant\<close>).
\<close>

subsection \<open>Transitions\<close>

text \<open>
  All calls use the same \<open>str.casefold\<close> and SHA-256. A saved account object carries the
  verification fields of its row: they are not editable, only a confirmation writes them.
\<close>

definition same_library :: "env \<Rightarrow> env \<Rightarrow> bool" where
  "same_library lib env \<longleftrightarrow> e_casefold env = e_casefold lib \<and> e_sha256 env = e_sha256 lib"

definition keeps_verification :: "user \<Rightarrow> account_state \<Rightarrow> bool" where
  "keeps_verification u s \<longleftrightarrow> (case lookup_pk u_id (u_id u) (users (ac_db s)) of
     None \<Rightarrow> u_email_verified_at u = None \<and> u_verified_email u = None
   | Some p \<Rightarrow> u_email_verified_at u = u_email_verified_at p \<and> u_verified_email u = u_verified_email p)"

inductive account_step :: "env \<Rightarrow> account_state \<Rightarrow> account_state \<Rightarrow> bool" for lib where
  system_step: "step (ac_db s) d \<Longrightarrow> account_step lib s (s\<lparr>ac_db := d\<rparr>)"
| verification_requested: "same_library lib env \<Longrightarrow>
    request_email_verification env actor s = Inr (r, s') \<Longrightarrow> account_step lib s s'"
| reset_requested: "same_library lib env \<Longrightarrow>
    request_password_reset_at env pw email s0 s = Inr (r, s') \<Longrightarrow> account_step lib s s'"
| verification_confirmed: "same_library lib env \<Longrightarrow>
    confirm_email_verification env actor token s = Inr (x, s') \<Longrightarrow> account_step lib s s'"
| reset_confirmed: "same_library lib env \<Longrightarrow>
    confirm_password_reset env pw token password s = Inr (x, s') \<Longrightarrow> account_step lib s s'"
| delivery_claimed: "claim_token_delivery env t s = Inr (b, s') \<Longrightarrow> account_step lib s s'"
| delivery_finished: "finish_token_delivery env at smtp t raw s = Inr (b, s') \<Longrightarrow> account_step lib s s'"
| account_saved: "same_library lib env \<Longrightarrow> keeps_verification u s \<Longrightarrow>
    user_save env adding cols u s = Inr (u', s') \<Longrightarrow> account_step lib s s'"

inductive_cases account_stepE: "account_step lib s s'"

definition account_start :: "account_state \<Rightarrow> bool" where
  "account_start s \<longleftrightarrow> initial (ac_db s) \<and> users_ok (users (ac_db s)) \<and> ac_tokens s = []
     \<and> (\<forall>u\<in>set (users (ac_db s)). u_verified_email u = None)"

inductive account_reachable :: "env \<Rightarrow> account_state \<Rightarrow> bool" for lib where
  account_initially: "account_start s \<Longrightarrow> account_reachable lib s"
| account_stepwise: "account_reachable lib s \<Longrightarrow> account_step lib s s' \<Longrightarrow> account_reachable lib s'"

subsection \<open>Invariants of the database\<close>

locale account_invariant = audited_invariant inv for inv :: "db \<Rightarrow> bool" +
  assumes inv_users: "inv s \<Longrightarrow> inv (s\<lparr>users := us\<rparr>)"
begin

lemma inv_account_effect: "account_effect d d' \<Longrightarrow> inv d \<Longrightarrow> inv d'"
  by (induction rule: account_effect.induct) (auto intro: inv_logged inv_users)

end

interpretation account_constraints: account_invariant db_ok
  by unfold_locales (simp add: db_ok_def)

interpretation account_hierarchy: account_invariant "\<lambda>s. db_ok s \<and> hierarchy_ok (tasks s)"
  by unfold_locales (simp add: db_ok_def)

interpretation account_workflow: account_invariant "\<lambda>s. db_ok s \<and> workflow_inv s"
proof unfold_locales
  fix s us
  assume "db_ok s \<and> workflow_inv s"
  then show "db_ok (s\<lparr>users := us\<rparr>) \<and> workflow_inv (s\<lparr>users := us\<rparr>)"
    using workflow_frame [of "s\<lparr>users := us\<rparr>" s] by (simp add: db_ok_def task_tables_def)
qed

interpretation account_ownership: account_invariant "\<lambda>s. db_ok s \<and> ownership_rows s"
proof unfold_locales
  fix s us
  assume "db_ok s \<and> ownership_rows s"
  then show "db_ok (s\<lparr>users := us\<rparr>) \<and> ownership_rows (s\<lparr>users := us\<rparr>)"
    by (simp add: db_ok_def ownership_rows_def)
next
  fix s s' a i act
  assume "db_ok s \<and> ownership_rows s" "logged a i act s s'"
  then show "db_ok s' \<and> ownership_rows s'"
    using ownership_rows_frame [of s' s] logged_tables [of a i act s s'] by (simp add: db_ok_logged)
qed

subsection \<open>The invariant of the accounts\<close>

definition verification_proof :: "user \<Rightarrow> account_token \<Rightarrow> bool" where
  "verification_proof u t \<longleftrightarrow> at_user t = u_id u \<and> at_purpose t = EMAIL_VERIFICATION
     \<and> at_status t = TK_CONSUMED \<and> u_verified_email u = Some (at_email t)
     \<and> at_consumed_at t = u_email_verified_at u"

definition account_proved :: "env \<Rightarrow> account_token list \<Rightarrow> user \<Rightarrow> bool" where
  "account_proved lib ts u \<longleftrightarrow> (u_verified_email u \<noteq> None \<longrightarrow>
     u_verified_email u = Some (normalize_account_email lib (Some (u_email u)))
     \<and> (\<exists>t\<in>set ts. verification_proof u t))"

definition token_current :: "env \<Rightarrow> user list \<Rightarrow> account_token \<Rightarrow> bool" where
  "token_current lib us t \<longleftrightarrow> (\<exists>u\<in>set us. u_id u = at_user t \<and> (at_status t = TK_PENDING \<longrightarrow> token_bound_to lib t u))"

definition account_inv :: "env \<Rightarrow> account_state \<Rightarrow> bool" where
  "account_inv lib s \<longleftrightarrow> db_ok (ac_db s) \<and> users_ok (users (ac_db s)) \<and> tokens_ok (ac_tokens s)
     \<and> (\<forall>t\<in>set (ac_tokens s). token_current lib (users (ac_db s)) t)
     \<and> (\<forall>u\<in>set (users (ac_db s)). account_proved lib (ac_tokens s) u)"

lemma account_invI:
  assumes "account_effect (ac_db s) (ac_db s')" "account_inv lib s"
    "users_ok (users (ac_db s'))" "tokens_ok (ac_tokens s')"
    "\<And>t. t \<in> set (ac_tokens s') \<Longrightarrow> token_current lib (users (ac_db s')) t"
    "\<And>u. u \<in> set (users (ac_db s')) \<Longrightarrow> account_proved lib (ac_tokens s') u"
  shows "account_inv lib s'"
  using assms account_constraints.inv_account_effect [OF assms(1)] by (simp add: account_inv_def)

lemma same_library_simps:
  assumes "same_library lib env"
  shows "normalize_account_email env = normalize_account_email lib" "token_bound_to env = token_bound_to lib"
  using assms by (simp_all add: same_library_def normalize_account_email_def token_bound_to_def fun_eq_iff)

lemma token_bound_same: "same_token t x \<Longrightarrow> token_bound_to lib x u = token_bound_to lib t u"
  by (simp add: same_token_def token_bound_to_def)

lemma token_current_evolved:
  "token_evolved t x \<Longrightarrow> token_current lib us t \<Longrightarrow> token_current lib us x"
proof -
  assume e: "token_evolved t x" and c: "token_current lib us t"
  obtain u where u: "u \<in> set us" "u_id u = at_user t" "at_status t = TK_PENDING \<longrightarrow> token_bound_to lib t u"
    using c by (auto simp: token_current_def)
  have same: "same_token t x" using e by (simp add: token_evolved_def)
  have "at_status x = TK_PENDING \<longrightarrow> token_bound_to lib x u"
    using u(3) token_evolved_pending [OF e] token_bound_same [OF same] by simp
  with u(1,2) same show "token_current lib us x" by (auto simp: token_current_def same_token_def)
qed

lemma tokens_current_evolved:
  assumes "tokens_evolved ts xs" "\<And>t. t \<in> set ts \<Longrightarrow> token_current lib us t" "x \<in> set xs"
  shows "token_current lib us x"
  using assms token_current_evolved unfolding tokens_evolved_def by blast

lemma account_proved_evolved:
  assumes "tokens_evolved ts xs" "account_proved lib ts u" "set xs \<subseteq> set ys"
  shows "account_proved lib ys u"
proof -
  have "\<exists>x\<in>set ys. verification_proof u x" if t: "t \<in> set ts" "verification_proof u t" for t
  proof -
    obtain x where "x \<in> set xs" "token_evolved t x" using assms(1) t(1) by (auto simp: tokens_evolved_def)
    with t(2) have "t \<in> set xs" by (auto simp: token_evolved_def verification_proof_def)
    with t(2) assms(3) show ?thesis by blast
  qed
  with assms(2) show ?thesis by (auto simp: account_proved_def)
qed

lemma account_inv_phase:
  assumes "token_phase s s'" "account_inv lib s"
  shows "account_inv lib s'"
proof -
  have p: "users (ac_db s') = users (ac_db s)" "account_effect (ac_db s) (ac_db s')"
    "tokens_evolved (ac_tokens s) (ac_tokens s')"
    using assms(1) by (simp_all add: token_phase_def)
  have i: "users_ok (users (ac_db s))" "\<And>t. t \<in> set (ac_tokens s) \<Longrightarrow> token_current lib (users (ac_db s)) t"
    "\<And>u. u \<in> set (users (ac_db s)) \<Longrightarrow> account_proved lib (ac_tokens s) u"
    using assms(2) by (simp_all add: account_inv_def)
  show ?thesis
  proof (rule account_invI [OF p(2) assms(2)])
    show "token_current lib (users (ac_db s')) t" if "t \<in> set (ac_tokens s')" for t
      unfolding p(1) using tokens_current_evolved [OF p(3) i(2) that] .
    show "account_proved lib (ac_tokens s') u" if "u \<in> set (users (ac_db s'))" for u
      using account_proved_evolved [OF p(3) i(3) subset_refl] that unfolding p(1) .
  qed (use i(1) p(1) token_phase_ok [OF assms(1)] in simp_all)
qed

lemma account_inv_issued:
  assumes "token_issued env u p t s s'" "same_library lib env" "account_inv lib s"
  shows "account_inv lib s'"
proof -
  obtain ts where ts: "tokens_evolved (ac_tokens s) ts" "ac_tokens s' = ts @ [t]"
    using assms(1) by (auto simp: token_issued_def)
  have i: "u \<in> set (users (ac_db s))" "u_id u = at_user t" "token_bound_to lib t u"
    "users (ac_db s') = users (ac_db s)" "account_effect (ac_db s) (ac_db s')" "tokens_ok (ac_tokens s')"
    using assms(1) same_library_simps [OF assms(2)] by (auto simp: token_issued_def fresh_token_def)
  show ?thesis
  proof (rule account_invI [OF i(5) assms(3)])
    show "token_current lib (users (ac_db s')) x" if "x \<in> set (ac_tokens s')" for x
      using that tokens_current_evolved [OF ts(1), of lib "users (ac_db s)" x] assms(3) i(1-4) ts(2)
      by (auto simp: account_inv_def token_current_def)
    show "account_proved lib (ac_tokens s') v" if "v \<in> set (users (ac_db s'))" for v
      using account_proved_evolved [OF ts(1), of lib v "ac_tokens s'"] that assms(3) i(4) ts(2)
      by (auto simp: account_inv_def)
  qed (use assms(3) i in \<open>simp_all add: account_inv_def\<close>)
qed

text \<open>One account row is replaced: its pending tokens must still match it.\<close>

lemma account_inv_row:
  assumes inv: "account_inv lib s" and e: "account_effect (ac_db s) (ac_db s')"
    and us: "users (ac_db s') = update_where (\<lambda>x. u_id x = i) (\<lambda>_. r) (users (ac_db s))" "u_id r = i"
    and ok: "users_ok (users (ac_db s'))" "tokens_evolved (ac_tokens s) (ac_tokens s')"
    and bound: "\<And>t u. t \<in> set (ac_tokens s') \<Longrightarrow> at_user t = i \<Longrightarrow> at_status t = TK_PENDING \<Longrightarrow>
      u \<in> set (users (ac_db s)) \<Longrightarrow> u_id u = i \<Longrightarrow> token_bound_to lib t u \<Longrightarrow> token_bound_to lib t r"
    and proved: "\<And>u. u \<in> set (users (ac_db s)) \<Longrightarrow> u_id u = i \<Longrightarrow> account_proved lib (ac_tokens s') u \<Longrightarrow>
      account_proved lib (ac_tokens s') r"
  shows "account_inv lib s'"
proof (rule account_invI [OF e inv ok(1)])
  show "tokens_ok (ac_tokens s')" using ok(2) by (simp add: tokens_evolved_def)
  have cur: "token_current lib (users (ac_db s)) t" if "t \<in> set (ac_tokens s')" for t
    using tokens_current_evolved [OF ok(2) _ that] inv by (simp add: account_inv_def)
  show "token_current lib (users (ac_db s')) t" if t: "t \<in> set (ac_tokens s')" for t
  proof -
    obtain u where u: "u \<in> set (users (ac_db s))" "u_id u = at_user t"
      "at_status t = TK_PENDING \<longrightarrow> token_bound_to lib t u"
      using cur [OF t] by (auto simp: token_current_def)
    show ?thesis
    proof (cases "at_user t = i")
      case True
      have "r \<in> set (users (ac_db s'))" using u True us by (force simp: in_update_where)
      with True u bound [OF t True _ u(1)] us(2) show ?thesis by (auto simp: token_current_def)
    next
      case False
      then have "u \<in> set (users (ac_db s'))" using u us(1) by (force simp: in_update_where)
      with u show ?thesis by (auto simp: token_current_def)
    qed
  qed
  have pr: "account_proved lib (ac_tokens s') u" if "u \<in> set (users (ac_db s))" for u
    using account_proved_evolved [OF ok(2)] inv that by (auto simp: account_inv_def)
  show "account_proved lib (ac_tokens s') u" if "u \<in> set (users (ac_db s'))" for u
    using that pr proved unfolding us(1) in_update_where by (metis)
qed

subsection \<open>Every step keeps it\<close>

lemma account_inv_email_confirmed:
  assumes p: "presented env token EMAIL_VERIFICATION u t s" and c: "email_confirmed env u t s s'"
    and l: "same_library lib env" and inv: "account_inv lib s"
  shows "account_inv lib s'"
proof -
  obtain r where r: "users (ac_db s') = update_where (\<lambda>x. u_id x = u_id u) (\<lambda>_. r) (users (ac_db s))"
    "u_id r = u_id u" "u_email r = u_email u" "u_password r = u_password u"
    "u_email_verified_at r = Some (e_now env)" "u_verified_email r = Some (at_email t)"
    using c by (auto simp: email_confirmed_def)
  have C: "account_effect (ac_db s) (ac_db s')" "users_ok (users (ac_db s'))"
    "tokens_evolved (ac_tokens s) (ac_tokens s')" "consume_token env t \<in> set (ac_tokens s')"
    "at_email t = normalize_account_email lib (Some (u_email u))"
    using c unfolding email_confirmed_def same_library_simps [OF l] by blast+
  have one: "v = u" if "v \<in> set (users (ac_db s))" "u_id v = u_id u" for v
    using that p inv user_pk_unique [of "users (ac_db s)" v u] by (simp add: presented_def account_inv_def)
  have "verification_proof r (consume_token env t)"
    using p r by (simp add: verification_proof_def consume_token_def presented_def)
  then have "account_proved lib (ac_tokens s') r"
    using C(4,5) r by (auto simp: account_proved_def)
  then show ?thesis
    using one r by (intro account_inv_row [OF inv C(1) r(1,2) C(2,3)]) (auto simp: token_bound_to_def)
qed

lemma account_inv_password_replaced:
  assumes p: "presented env token PASSWORD_RESET u t s" and c: "password_replaced env pw u t new s s'"
    and inv: "account_inv lib s"
  shows "account_inv lib s'"
proof -
  obtain r where r: "users (ac_db s') = update_where (\<lambda>x. u_id x = u_id u) (\<lambda>_. r) (users (ac_db s))"
    "u_id r = u_id u" "u_email r = u_email u" "u_password r = pw_encode pw new"
    "u_email_verified_at r = u_email_verified_at u" "u_verified_email r = u_verified_email u"
    using c by (auto simp: password_replaced_def)
  have C: "account_effect (ac_db s) (ac_db s')" "users_ok (users (ac_db s'))"
    "tokens_evolved (ac_tokens s) (ac_tokens s')"
    "ac_tokens s' = update_where (revoked_by_change (u_id u) False (u_password u \<noteq> pw_encode pw new))
         (revoke_token env) (update_where (\<lambda>x. at_id x = at_id t) (consume_token env) (ac_tokens s))"
    using c unfolding password_replaced_def by blast+
  have one: "v = u" if "v \<in> set (users (ac_db s))" "u_id v = u_id u" for v
    using that p inv user_pk_unique [of "users (ac_db s)" v u] by (simp add: presented_def account_inv_def)
  have b: "at_purpose x = PASSWORD_RESET \<Longrightarrow> u_password u = pw_encode pw new"
    if "x \<in> set (ac_tokens s')" "at_user x = u_id u" "at_status x = TK_PENDING" for x
    using not_revoked [of x "u_id u" False "u_password u \<noteq> pw_encode pw new"] that unfolding C(4) by blast
  show ?thesis
  proof (rule account_inv_row [OF inv C(1) r(1,2) C(2,3)])
    show "token_bound_to lib x r" if "x \<in> set (ac_tokens s')" "at_user x = u_id u" "at_status x = TK_PENDING"
      "v \<in> set (users (ac_db s))" "u_id v = u_id u" "token_bound_to lib x v" for x v
      using b [OF that(1-3)] one [OF that(4,5)] that(6) r by (auto simp: token_bound_to_def)
    show "account_proved lib (ac_tokens s') r" if "v \<in> set (users (ac_db s))" "u_id v = u_id u"
      "account_proved lib (ac_tokens s') v" for v
      using one [OF that(1,2)] that(3) r by (auto simp: account_proved_def verification_proof_def)
  qed
qed

lemma account_inv_inserted:
  assumes inv: "account_inv lib s" and tk: "ac_tokens s' = ac_tokens s"
    and d: "ac_db s' = (ac_db s)\<lparr>users := users (ac_db s) @ [v]\<rparr>" "users_ok (users (ac_db s'))"
    and v: "u_verified_email v = None"
  shows "account_inv lib s'"
proof (rule account_invI [OF _ inv d(2)])
  show "account_effect (ac_db s) (ac_db s')" unfolding d(1) by (intro accounts_saved untouched)
  show "token_current lib (users (ac_db s')) t" if "t \<in> set (ac_tokens s')" for t
    using that inv tk d(1) by (auto simp: account_inv_def token_current_def)
  show "account_proved lib (ac_tokens s') u" if "u \<in> set (users (ac_db s'))" for u
    using that inv tk d(1) v by (auto simp: account_inv_def account_proved_def)
qed (use inv tk in \<open>simp add: account_inv_def\<close>)

lemma account_inv_saved:
  assumes l: "same_library lib env" and k: "keeps_verification u s" and inv: "account_inv lib s"
    and sv: "user_save env adding cols u s = Inr (u', s')"
  shows "account_inv lib s'"
proof (cases "adding \<or> u_id u \<notin> u_id ` set (users (ac_db s))")
  case True
  note I = user_insert_D [OF sv True]
  show ?thesis
  proof (cases "s' = s")
    case False
    with I have d: "ac_db s' = (ac_db s)\<lparr>users := users (ac_db s) @ [u']\<rparr>" "users_ok (users (ac_db s'))"
      "u' = u\<lparr>u_updated_at := e_now env\<rparr>" "ac_tokens s' = ac_tokens s" by auto
    have "u_id u \<notin> u_id ` set (users (ac_db s))"
      using d(1-3) by (auto simp: users_ok_def)
    then have "lookup_pk u_id (u_id u) (users (ac_db s)) = None" by simp
    with k have "u_verified_email u' = None" by (simp add: keeps_verification_def d(3))
    then show ?thesis by (rule account_inv_inserted [OF inv d(4) d(1,2)])
  qed (use inv in simp)
next
  case False
  then obtain p where p: "p \<in> set (users (ac_db s))" "u_id p = u_id u" and na: "\<not> adding" by auto
  have ok: "users_ok (users (ac_db s))" "tokens_ok (ac_tokens s)" using inv by (simp_all add: account_inv_def)
  have kp: "u_email_verified_at u = u_email_verified_at p" "u_verified_email u = u_verified_email p"
    using k p ok(1) lookup_pk_eq [of u_id "users (ac_db s)" "u_id u" p]
    by (simp_all add: keeps_verification_def users_ok_def)
  from na have sv': "user_save env False cols u s = Inr (u', s')" using sv by simp
  define fs where "fs = (case cols of None \<Rightarrow> all_user_fields | Some fs \<Rightarrow> fs)"
  define ec where "ec \<longleftrightarrow> UF_EMAIL \<in> set fs
      \<and> normalize_account_email env (Some (u_email p)) \<noteq> normalize_account_email env (Some (u_email u))"
  define pc where "pc \<longleftrightarrow> UF_PASSWORD \<in> set fs \<and> u_password p \<noteq> u_password u"
  obtain r where
    r: "ac_db s' = (ac_db s)\<lparr>users := update_where (\<lambda>x. u_id x = u_id u) (\<lambda>_. r) (users (ac_db s))\<rparr>"
      "users_ok (users (ac_db s'))" "tokens_evolved (ac_tokens s) (ac_tokens s')"
      "ac_tokens s' = update_where (revoked_by_change (u_id u) ec pc) (revoke_token env) (ac_tokens s)"
      "u_id r = u_id u" "u_email r = (if UF_EMAIL \<in> set fs then u_email u else u_email p)"
      "u_password r = (if UF_PASSWORD \<in> set fs then u_password u else u_password p)"
      "u_email_verified_at r = (if ec then None else u_email_verified_at p)"
      "u_verified_email r = (if ec then None else u_verified_email p)"
    by (rule user_save_D [OF sv' ok p fs_def ec_def pc_def]) (rule that; (assumption | simp only: kp if_cancel))
  have one: "v = p" if "v \<in> set (users (ac_db s))" "u_id v = u_id u" for v
    using user_pk_unique [OF ok(1) that(1) p(1)] that(2) p(2) by simp
  have n: "\<not> ec \<Longrightarrow> normalize_account_email lib (Some (u_email r)) = normalize_account_email lib (Some (u_email p))"
    using r(6) same_library_simps(1) [OF l] by (auto simp: ec_def)
  have b: "\<not> ec \<and> (at_purpose x = PASSWORD_RESET \<longrightarrow> u_password r = u_password p)"
    if "x \<in> set (ac_tokens s')" "at_user x = u_id u" "at_status x = TK_PENDING" for x
    using not_revoked [OF that(1) [unfolded r(4)] that(2,3)] r(7)
    by (cases "UF_PASSWORD \<in> set fs") (simp_all add: pc_def)
  show ?thesis
  proof (rule account_inv_row [OF inv _ _ r(5) r(2,3)])
    show "account_effect (ac_db s) (ac_db s')" unfolding r(1) by (intro accounts_saved untouched)
    show "token_bound_to lib x r" if "x \<in> set (ac_tokens s')" "at_user x = u_id u" "at_status x = TK_PENDING"
      "v \<in> set (users (ac_db s))" "u_id v = u_id u" "token_bound_to lib x v" for x v
      using b [OF that(1-3)] one [OF that(4,5)] that(6) n by (auto simp: token_bound_to_def)
    show "account_proved lib (ac_tokens s') r" if "v \<in> set (users (ac_db s))" "u_id v = u_id u"
      "account_proved lib (ac_tokens s') v" for v
      using one [OF that(1,2)] that(3) r(5,8,9) p(2) n by (auto simp: account_proved_def verification_proof_def)
  qed (simp add: r(1))
qed

definition account_changes :: "env \<Rightarrow> account_state \<Rightarrow> account_state \<Rightarrow> bool" where
  "account_changes lib s s' \<longleftrightarrow> account_inv lib s'
     \<and> (step (ac_db s) (ac_db s') \<or> account_effect (ac_db s) (ac_db s'))
     \<and> (\<forall>t\<in>set (ac_tokens s). \<exists>x\<in>set (ac_tokens s'). token_evolved t x)"

lemma tokens_evolved_survive:
  "tokens_evolved ts xs \<Longrightarrow> set xs \<subseteq> set ys \<Longrightarrow> \<forall>t\<in>set ts. \<exists>x\<in>set ys. token_evolved t x"
  unfolding tokens_evolved_def by blast

lemma account_changes_phase: "token_phase s s' \<Longrightarrow> account_inv lib s \<Longrightarrow> account_changes lib s s'"
  using account_inv_phase [of s s' lib] tokens_evolved_survive [of "ac_tokens s" "ac_tokens s'" "ac_tokens s'"]
  by (simp add: account_changes_def token_phase_def)

lemma account_changes_issued:
  assumes "token_issued env u p t s s'" "same_library lib env" "account_inv lib s"
  shows "account_changes lib s s'"
proof -
  obtain ts where ts: "tokens_evolved (ac_tokens s) ts" "ac_tokens s' = ts @ [t]" "account_effect (ac_db s) (ac_db s')"
    using assms(1) by (auto simp: token_issued_def)
  then have "set ts \<subseteq> set (ac_tokens s')" by auto
  with ts(3) account_inv_issued [OF assms] tokens_evolved_survive [OF ts(1)] show ?thesis
    by (simp add: account_changes_def)
qed

lemma account_changes_refl: "account_inv lib s \<Longrightarrow> account_changes lib s s"
  by (auto simp: account_changes_def intro: untouched token_evolved_refl)

lemma account_changes_saved:
  assumes "same_library lib env" "keeps_verification u s" "user_save env adding cols u s = Inr (u', s')"
    and inv: "account_inv lib s"
  shows "account_changes lib s s'"
proof -
  have i: "account_inv lib s'" by (rule account_inv_saved [OF assms(1,2,4,3)])
  have ok: "users_ok (users (ac_db s))" "tokens_ok (ac_tokens s)" using inv by (simp_all add: account_inv_def)
  have "account_effect (ac_db s) (ac_db s') \<and> tokens_evolved (ac_tokens s) (ac_tokens s')"
  proof (cases "adding \<or> u_id u \<notin> u_id ` set (users (ac_db s))")
    case True
    from user_insert_D [OF assms(3) True] tokens_evolved_refl [OF ok(2)] show ?thesis
      by (auto intro: untouched accounts_saved [OF untouched])
  next
    case False
    then obtain p where p: "p \<in> set (users (ac_db s))" "u_id p = u_id u" and sv: "user_save env False cols u s = Inr (u', s')"
      using assms(3) by auto
    show ?thesis
      by (rule user_save_D [OF sv ok p refl refl refl]) (simp add: accounts_saved [OF untouched])
  qed
  with i tokens_evolved_survive [of "ac_tokens s" "ac_tokens s'" "ac_tokens s'"] show ?thesis
    by (simp add: account_changes_def)
qed

lemma account_changes_confirmed:
  assumes "account_inv lib s" "same_library lib env"
  shows "confirm_email_verification env actor token s = Inr (x, s') \<Longrightarrow> account_changes lib s s'"
    "confirm_password_reset env pw token password s = Inr (x, s') \<Longrightarrow> account_changes lib s s'"
proof -
  have ok: "users_ok (users (ac_db s))" "tokens_ok (ac_tokens s)" using assms(1) by (simp_all add: account_inv_def)
  note sv = tokens_evolved_survive [of "ac_tokens s" "ac_tokens s'" "ac_tokens s'"]
  show "account_changes lib s s'" if "confirm_email_verification env actor token s = Inr (x, s')"
  proof (rule confirm_email_verification_D [OF that ok])
    fix u t
    assume p: "presented env token EMAIL_VERIFICATION u t s"
      and c: "case x of Inl e \<Rightarrow> e = AccountSecurityConflict \<and> expired_on_presentation env t s s'
        | Inr _ \<Rightarrow> email_confirmed env u t s s'"
    show ?thesis
    proof (cases x)
      case (Inl e)
      with c account_changes_phase [OF _ assms(1)] show ?thesis by (simp add: expired_on_presentation_def)
    next
      case (Inr v)
      with c have e: "email_confirmed env u t s s'" by simp
      then have "account_effect (ac_db s) (ac_db s')" "tokens_evolved (ac_tokens s) (ac_tokens s')"
        unfolding email_confirmed_def by blast+
      with account_inv_email_confirmed [OF p e assms(2,1)] sv show ?thesis by (simp add: account_changes_def)
    qed
  qed
  show "account_changes lib s s'" if "confirm_password_reset env pw token password s = Inr (x, s')"
  proof (rule confirm_password_reset_D [OF that ok])
    fix u t
    assume p: "presented env token PASSWORD_RESET u t s"
      and c: "case x of Inl e \<Rightarrow> e = AccountSecurityConflict \<and> expired_on_presentation env t s s'
        | Inr _ \<Rightarrow> password_replaced env pw u t password s s'"
    show ?thesis
    proof (cases x)
      case (Inl e)
      with c account_changes_phase [OF _ assms(1)] show ?thesis by (simp add: expired_on_presentation_def)
    next
      case (Inr v)
      with c have e: "password_replaced env pw u t password s s'" by simp
      then have "account_effect (ac_db s) (ac_db s')" "tokens_evolved (ac_tokens s) (ac_tokens s')"
        unfolding password_replaced_def by blast+
      with account_inv_password_replaced [OF p e assms(1)] sv show ?thesis by (simp add: account_changes_def)
    qed
  qed
qed

lemma account_changes_requested:
  assumes "account_inv lib s" "same_library lib env"
  shows "request_email_verification env actor s = Inr (r, s') \<Longrightarrow> account_changes lib s s'"
    "request_password_reset_at env pw email s0 s = Inr (r, s') \<Longrightarrow> account_changes lib s s'"
proof -
  have ok: "tokens_ok (ac_tokens s)" using assms(1) by (simp add: account_inv_def)
  show "account_changes lib s s'" if "request_email_verification env actor s = Inr (r, s')"
    using that ok by (rule request_email_verification_D)
      (auto intro: account_changes_refl [OF assms(1)] account_changes_issued [OF _ assms(2,1)] split: option.splits)
  show "account_changes lib s s'" if "request_password_reset_at env pw email s0 s = Inr (r, s')"
    using that ok by (rule request_password_reset_D)
      (auto intro: account_changes_refl [OF assms(1)] account_changes_issued [OF _ assms(2,1)])
qed

lemma account_changes_system:
  assumes "account_inv lib s" "step (ac_db s) d"
  shows "account_changes lib s (s\<lparr>ac_db := d\<rparr>)"
proof -
  have db: "db_ok (ac_db s)" using assms(1) by (simp add: account_inv_def)
  have "users d = users (ac_db s)"
    using assms(2) accounts_exec [OF db] by (auto simp: step_iff)
  with assms constraints.inv_step [OF db assms(2)] show ?thesis
    by (auto simp: account_changes_def account_inv_def intro: token_evolved_refl)
qed

lemma account_step_changes:
  assumes "account_step lib s s'" "account_inv lib s"
  shows "account_changes lib s s'"
  using assms(1)
proof (rule account_stepE)
qed (use assms(2) in \<open>auto intro: account_changes_system account_changes_requested account_changes_confirmed
    account_changes_phase account_changes_saved dest: claim_token_delivery_D finish_token_delivery_D\<close>)

lemma account_always: "account_reachable lib s \<Longrightarrow> account_inv lib s"
proof (induction rule: account_reachable.induct)
  case (account_initially s)
  then show ?case
    using constraints.inv_initial [of "ac_db s"]
    by (simp add: account_start_def account_inv_def account_proved_def tokens_ok_def)
next
  case (account_stepwise s s')
  then show ?case using account_step_changes by (simp add: account_changes_def)
qed

context account_invariant
begin

lemma inv_account_always: "account_reachable lib s \<Longrightarrow> inv (ac_db s)"
proof (induction rule: account_reachable.induct)
  case (account_initially s)
  then show ?case using inv_initial by (simp add: account_start_def)
next
  case (account_stepwise s s')
  then have "account_changes lib s s'" using account_step_changes account_always by blast
  with account_stepwise.IH inv_step inv_account_effect show ?case unfolding account_changes_def by blast
qed

end

text \<open>So reachable databases with accounts keep their constraints, Task trees and workflow.\<close>

lemma accounts_keep_the_system:
  assumes "account_reachable lib s"
  shows "db_ok (ac_db s)" "hierarchy_ok (tasks (ac_db s))" "workflow_inv (ac_db s)"
  using account_hierarchy.inv_account_always [OF assms] account_workflow.inv_account_always [OF assms] by simp_all

subsection \<open>Settled tokens\<close>

lemma settled_token_stays:
  assumes "(account_step lib)\<^sup>*\<^sup>* s s'" "account_inv lib s" "t \<in> set (ac_tokens s)" "at_status t \<noteq> TK_PENDING"
  shows "account_inv lib s' \<and> t \<in> set (ac_tokens s')"
  using assms(1)
proof (induction rule: rtranclp_induct)
  case (step y z)
  then have "account_changes lib y z" using account_step_changes by blast
  with step.IH assms(4) show ?case by (auto simp: account_changes_def token_evolved_def)
qed (use assms in simp)

lemma settled_token_refused:
  assumes "tokens_ok (ac_tokens s)" "t \<in> set (ac_tokens s)" "at_status t \<noteq> TK_PENDING"
    "at_digest t = token_digest_of env (at_purpose t) raw" "raw \<noteq> []" "utf8_encodable raw"
  shows "at_purpose t = EMAIL_VERIFICATION \<Longrightarrow> confirm_email_verification env actor (Val raw) s = Inl AccountSecurityConflict"
    "at_purpose t = PASSWORD_RESET \<Longrightarrow> confirm_password_reset env pw (Val raw) new s = Inl AccountSecurityConflict"
proof -
  have l: "lookup_candidate env (Val raw) (at_purpose t) s = Inr (t, at_digest t)"
  proof -
    have "first_by at_id (\<lambda>x. at_digest x = at_digest t \<and> at_purpose x = at_purpose t) (ac_tokens s) = Some t"
      using assms(2) token_digest_unique [OF assms(1)] by (intro first_by_unique) auto
    with assms(4-6) show ?thesis
      by (simp add: lookup_candidate_def digest_account_security_token_def token_digest_of_def)
  qed
  have "lock_candidate t (at_digest t) (at_purpose t) s = Inl AccountSecurityConflict"
  proof (cases "lock_candidate t (at_digest t) (at_purpose t) s")
    case (Inr x)
    then obtain u y where "lock_candidate t (at_digest t) (at_purpose t) s = Inr (u, y)" by (cases x) auto
    then have f: "first_by at_id (\<lambda>x. at_id x = at_id t \<and> at_user x = u_id u \<and> at_purpose x = at_purpose t
        \<and> at_digest x = at_digest t) (ac_tokens s) = Some y" and y: "at_status y = TK_PENDING"
      by (auto simp: lock_candidate_def)
    from first_by_Some_in [OF f] y assms(1-3) token_pk_unique show ?thesis by blast
  next
    case (Inl e)
    then show ?thesis by (simp add: lock_candidate_def require_some_def require_def split: option.splits if_splits)
  qed
  with l show "at_purpose t = EMAIL_VERIFICATION \<Longrightarrow> confirm_email_verification env actor (Val raw) s = Inl AccountSecurityConflict"
    "at_purpose t = PASSWORD_RESET \<Longrightarrow> confirm_password_reset env pw (Val raw) new s = Inl AccountSecurityConflict"
    by (simp_all add: confirm_email_verification_def confirm_password_reset_def)
qed

end
