(* ===== verification/Account_Properties.thy ===== *)
theory Account_Properties
  imports Account_System
begin

text \<open>
  The properties of the accounts: verified addresses are proved, pending tokens are current, what
  a password reset requires and does, and the silence of reset requests.
\<close>

text \<open>Two accounts, a digest that tells passwords and the two purposes apart, a hasher without a salt.\<close>

definition ac_env :: "nat \<Rightarrow> env" where
  "ac_env n = \<lparr>e_now = int n, e_uuid = (\<lambda>k. 1000 * n + k), e_token = [116], e_casefold = (\<lambda>t. t), e_iexact = (=),
     e_sha256 = (\<lambda>t. replicate 63 (CHR ''0'') @ [if hd t = 36 then CHR ''1'' else if length t = 29 then CHR ''2'' else CHR ''3'']),
     e_valid_email = (\<lambda>t. t \<noteq> []), e_mail_backend = Some ''smtp''\<rparr>"

definition ac_hasher :: hasher where
  "ac_hasher = \<lparr>pw_usable = (\<lambda>p. p \<noteq> []), pw_encode = (\<lambda>p. 36 # p), pw_accepts = (\<lambda>u p. 2 \<le> length p)\<rparr>"

definition ac_user :: "uuid \<Rightarrow> user" where
  "ac_user i = (mk_user i True)\<lparr>u_password := [36, 112]\<rparr>"

definition ac_start :: account_state where
  "ac_start = \<lparr>ac_db = ex_start\<lparr>users := [ac_user 1, ac_user 2]\<rparr>, ac_tokens = []\<rparr>"

definition delivered :: "nat \<Rightarrow> account_token option \<times> account_state \<Rightarrow> error + account_state" where
  "delivered n r = (case r of
     (None, s) \<Rightarrow> Inr s
   | (Some t, s) \<Rightarrow> bindE (claim_token_delivery (ac_env n) t s) (\<lambda>(_, s1).
       bindE (finish_token_delivery (ac_env (n + 1)) (int n) (\<lambda>_ _ _. Some 1) t [116] s1) (\<lambda>(_, s2). Inr s2)))"

text \<open>The first account proves its address, and the second requests a password reset.\<close>

definition ac_story :: "error + account_state" where
  "ac_story =
     bindE (request_email_verification (ac_env 1) 1 ac_start) (\<lambda>r1. bindE (delivered 2 r1) (\<lambda>s1.
     bindE (confirm_email_verification (ac_env 4) 1 (Val [116]) s1) (\<lambda>(_, s2).
     bindE (request_password_reset (ac_env 5) ac_hasher (Some [97, 2]) s2) (\<lambda>r2. delivered 6 r2))))"

definition ac_pending :: account_token where
  "ac_pending = \<lparr>at_id = 5000, at_user = 2, at_purpose = PASSWORD_RESET, at_email = [97, 2],
     at_digest = token_digest_of (ac_env 0) PASSWORD_RESET [116],
     at_fingerprint = Some (e_sha256 (ac_env 0) [36, 112]), at_status = TK_PENDING,
     at_expires_at = 5 + password_reset_ttl, at_delivery_status = DL_SENT,
     at_delivery_attempted_at = Some 6, at_delivered_at = Some 7, at_consumed_at = None,
     at_revoked_at = None, at_expired_at = None, at_replaces = None, at_created_at = 5, at_updated_at = 7\<rparr>"

lemmas account_evals = evals user_row_ok_def users_ok_def token_terminal_state_valid_def token_delivery_state_valid_def
  token_row_ok_def tokens_ok_def write_users_def write_tokens_def update_tokens_def is_email_verified_def
  all_user_fields_def stamped_def base_save_def revoke_pending_def user_save_def email_verification_ttl_def
  password_reset_ttl_def hex_digest_def token_clean_def token_full_clean_def digest_account_security_token_def
  password_fingerprint_def token_state_def write_security_audit_def save_token_def expire_token_def
  revoke_token_def consume_token_def materialize_token_expiration_def retire_previous_def new_token_def
  issue_token_locked_def ensure_account_security_delivery_available_def resolve_current_unique_user_def
  locked_account_def request_email_verification_def request_password_reset_at_def request_password_reset_def
  lookup_candidate_def lock_candidate_def validate_locked_identity_def confirm_email_verification_def
  confirm_password_reset_def claim_token_delivery_def finish_token_delivery_def raise_on_failure_def
  delivery_outcome_def deliver_token_def with_delivery_def token_digest_of_def ascii_def
  ac_env_def ac_hasher_def ac_user_def ac_start_def delivered_def ac_story_def ac_pending_def ex_start_def

lemma ac_story_runs: "case ac_story of Inl e \<Rightarrow> False | Inr s \<Rightarrow> ac_pending \<in> set (ac_tokens s)
    \<and> map u_id (users (ac_db s)) = [1, 2] \<and> list_all (\<lambda>u. u_id u = 1 \<longrightarrow> is_email_verified (ac_env 0) u) (users (ac_db s))"
  by (simp add: account_evals)

lemma delivered_reachable:
  assumes "delivered n r = Inr s" "account_reachable lib (snd r)"
  shows "account_reachable lib s"
proof (cases r)
  case (Pair t s0)
  show ?thesis
  proof (cases t)
    case None
    with assms Pair show ?thesis by (simp add: delivered_def)
  next
    case (Some x)
    with assms(1) Pair obtain b b' s1 where "claim_token_delivery (ac_env n) x s0 = Inr (b, s1)"
      "finish_token_delivery (ac_env (n + 1)) (int n) (\<lambda>_ _ _. Some 1) x [116] s1 = Inr (b', s)"
      by (auto simp: delivered_def)
    with assms(2) Pair show ?thesis
      by (auto intro: account_stepwise delivery_claimed delivery_finished)
  qed
qed

lemma ac_same_library: "same_library (ac_env m) (ac_env n)"
  by (simp add: same_library_def ac_env_def)

lemma ac_start_reachable: "account_reachable lib ac_start"
  by (rule account_initially) (simp add: account_start_def ac_start_def initial_def users_ok_def user_row_ok_def
      ac_user_def mk_user_def ex_start_def)

lemma ac_story_reachable:
  assumes "ac_story = Inr s"
  shows "account_reachable (ac_env n) s"
proof -
  from assms obtain r1 s1 x s2 r2 where st: "request_email_verification (ac_env 1) 1 ac_start = Inr r1"
    "delivered 2 r1 = Inr s1" "confirm_email_verification (ac_env 4) 1 (Val [116]) s1 = Inr (x, s2)"
    "request_password_reset (ac_env 5) ac_hasher (Some [97, 2]) s2 = Inr r2" "delivered 6 r2 = Inr s"
    by (auto simp: ac_story_def)
  have "account_reachable (ac_env n) ac_start" by (rule ac_start_reachable)
  then have "account_reachable (ac_env n) (snd r1)"
    using verification_requested [OF ac_same_library, of 1 1 ac_start "fst r1" "snd r1" n] st(1)
    by (auto intro: account_stepwise)
  from delivered_reachable [OF st(2) this] have "account_reachable (ac_env n) s2"
    using verification_confirmed [OF ac_same_library st(3)] by (rule account_stepwise)
  then have "account_reachable (ac_env n) (snd r2)"
    using reset_requested [OF ac_same_library, of 5 ac_hasher "Some [97, 2]" s2 s2 "fst r2" "snd r2" n] st(4)
    by (auto simp: request_password_reset_def intro: account_stepwise)
  from delivered_reachable [OF st(5) this] show ?thesis .
qed

lemma ac_story_obtain:
  obtains s u where "ac_story = Inr s" "\<forall>n. account_reachable (ac_env n) s" "ac_pending \<in> set (ac_tokens s)"
    "u \<in> set (users (ac_db s))" "u_id u = 1" "is_email_verified (ac_env 0) u"
proof (cases ac_story)
  case (Inr s)
  have r: "ac_pending \<in> set (ac_tokens s)" "map u_id (users (ac_db s)) = [1, 2]"
    "list_all (\<lambda>u. u_id u = 1 \<longrightarrow> is_email_verified (ac_env 0) u) (users (ac_db s))"
    using ac_story_runs [unfolded Inr sum.case] by blast+
  then have "1 \<in> set (map u_id (users (ac_db s)))" by simp
  then obtain u where "u \<in> set (users (ac_db s))" "u_id u = 1" by auto
  with r Inr ac_story_reachable [OF Inr] show thesis by (intro that) (auto simp: list_all_iff)
next
  case (Inl e)
  show thesis using ac_story_runs unfolding Inl by simp
qed

subsection \<open>Verified addresses\<close>

text \<open>
  C21. Verification is proof. In every reachable state an account counts as verified exactly when
  it has a verification time, and then there is a verification token of that account, consumed at
  that time, whose message was sent to the address the account has now, up to normalization. No
  two verified accounts share a normalized address.
\<close>

theorem verified_addresses_proved:
  assumes "account_reachable env s" "u \<in> set (users (ac_db s))"
  shows "(is_email_verified env u \<longleftrightarrow> u_email_verified_at u \<noteq> None)
    \<and> (is_email_verified env u \<longrightarrow>
        (\<exists>t\<in>set (ac_tokens s). at_user t = u_id u \<and> at_purpose t = EMAIL_VERIFICATION
           \<and> at_status t = TK_CONSUMED \<and> at_delivery_status t = DL_SENT
           \<and> at_email t = normalize_account_email env (Some (u_email u))
           \<and> at_consumed_at t = u_email_verified_at u)
        \<and> (\<forall>v\<in>set (users (ac_db s)). is_email_verified env v \<longrightarrow>
             normalize_account_email env (Some (u_email v)) = normalize_account_email env (Some (u_email u)) \<longrightarrow> v = u))"
proof -
  have inv: "users_ok (users (ac_db s))" "tokens_ok (ac_tokens s)" "account_proved env (ac_tokens s) u"
    using account_always [OF assms(1)] assms(2) by (simp_all add: account_inv_def)
  have row: "user_row_ok u" using inv(1) assms(2) by (simp add: users_ok_def)
  have iff: "is_email_verified env u \<longleftrightarrow> u_email_verified_at u \<noteq> None"
    using inv(3) row by (auto simp: is_email_verified_def account_proved_def user_row_ok_def)
  have "\<exists>t\<in>set (ac_tokens s). at_user t = u_id u \<and> at_purpose t = EMAIL_VERIFICATION
      \<and> at_status t = TK_CONSUMED \<and> at_delivery_status t = DL_SENT
      \<and> at_email t = normalize_account_email env (Some (u_email u))
      \<and> at_consumed_at t = u_email_verified_at u" if v: "is_email_verified env u"
  proof -
    obtain t where t: "t \<in> set (ac_tokens s)" "verification_proof u t"
      using v inv(3) by (auto simp: is_email_verified_def account_proved_def)
    have "at_delivery_status t = DL_SENT"
      using inv(2) t by (simp add: tokens_ok_def token_row_ok_def verification_proof_def)
    with t v show ?thesis by (auto simp: verification_proof_def is_email_verified_def)
  qed
  moreover have "v = u" if "is_email_verified env u" "v \<in> set (users (ac_db s))" "is_email_verified env v"
    "normalize_account_email env (Some (u_email v)) = normalize_account_email env (Some (u_email u))" for v
    using inv(1) that assms(2)
      distinct_map_filter_eq [of u_verified_email "\<lambda>u. u_verified_email u \<noteq> None" "users (ac_db s)" v u]
    by (simp add: users_ok_def is_email_verified_def)
  ultimately show ?thesis using iff by blast
qed

lemma verified_addresses_proved_witness:
  "\<exists>s u. ac_story = Inr s \<and> is_email_verified (ac_env 0) u \<and> u_email_verified_at u \<noteq> None
     \<and> (\<exists>t\<in>set (ac_tokens s). at_user t = u_id u \<and> at_status t = TK_CONSUMED)"
proof -
  obtain s u where "ac_story = Inr s" "\<forall>n. account_reachable (ac_env n) s" "u \<in> set (users (ac_db s))"
    "is_email_verified (ac_env 0) u" by (rule ac_story_obtain)
  then show ?thesis using verified_addresses_proved [of "ac_env 0" s u] by blast
qed

subsection \<open>Pending tokens\<close>

text \<open>
  C22. Pending tokens are current. In every reachable state a pending token belongs to an account,
  is the only pending one of its purpose, is bound to the address that account has now and, if it
  resets the password, to the password it has now: whatever changes the address or the password
  leaves no token behind that was issued for the old one.
\<close>

theorem pending_tokens_current:
  assumes "account_reachable env s" "t \<in> set (ac_tokens s)" "at_status t = TK_PENDING"
  shows "\<exists>u\<in>set (users (ac_db s)). u_id u = at_user t
    \<and> at_email t = normalize_account_email env (Some (u_email u))
    \<and> at_fingerprint t = (if at_purpose t = PASSWORD_RESET then Some (e_sha256 env (u_password u)) else None)
    \<and> (\<forall>x\<in>set (ac_tokens s). at_user x = u_id u \<longrightarrow> at_purpose x = at_purpose t \<longrightarrow>
         at_status x = TK_PENDING \<longrightarrow> x = t)"
proof -
  have inv: "tokens_ok (ac_tokens s)" "token_current env (users (ac_db s)) t"
    using account_always [OF assms(1)] assms(2) by (simp_all add: account_inv_def)
  then obtain u where "u \<in> set (users (ac_db s))" "u_id u = at_user t" "token_bound_to env t u"
    using assms(3) by (auto simp: token_current_def)
  then show ?thesis
    using pending_token_unique [OF inv(1) _ assms(2) _ assms(3)] by (auto simp: token_bound_to_def)
qed

lemma pending_tokens_current_witness:
  "\<exists>s u. ac_story = Inr s \<and> u \<in> set (users (ac_db s)) \<and> u_id u = 2
     \<and> Some (e_sha256 (ac_env 0) (u_password u)) = at_fingerprint ac_pending"
proof -
  obtain s where s: "ac_story = Inr s" "\<forall>n. account_reachable (ac_env n) s" "ac_pending \<in> set (ac_tokens s)"
    by (rule ac_story_obtain)
  have "at_status ac_pending = TK_PENDING" by (simp add: ac_pending_def)
  from pending_tokens_current [OF spec [OF s(2)] s(3) this] obtain u where
    "u \<in> set (users (ac_db s))" "u_id u = at_user ac_pending"
    "at_fingerprint ac_pending = (if at_purpose ac_pending = PASSWORD_RESET then Some (e_sha256 (ac_env 0) (u_password u)) else None)"
    by blast
  with s(1) show ?thesis by (intro exI [of _ s] exI [of _ u]) (simp add: ac_pending_def)
qed

subsection \<open>Resetting a password\<close>

text \<open>
  C23. Password resets. A reset that returns an account was given a text whose digest is that of a
  pending, unexpired, delivered reset token of that active account, the one its address leads to,
  while address and password were the ones the token was issued for. Afterwards that account, and
  no other, has the new encoded password; unless that is the old one, no reset token of the account
  is pending; and whatever happens next the same text never resets a password again.
\<close>

theorem password_reset_effect:
  assumes "account_reachable env s"
    and "confirm_password_reset env pw raw_token new_password s = Inr (Inr v, s')"
  shows "\<exists>u t raw. raw_token = Val raw \<and> t \<in> set (ac_tokens s) \<and> at_digest t = token_digest_of env PASSWORD_RESET raw
    \<and> at_purpose t = PASSWORD_RESET \<and> at_status t = TK_PENDING \<and> at_delivery_status t = DL_SENT
    \<and> e_now env < at_expires_at t \<and> u \<in> set (users (ac_db s)) \<and> u_id u = at_user t \<and> u_is_active u
    \<and> sole_account env u s \<and> token_bound_to env t u \<and> pw_usable pw (u_password u) \<and> pw_accepts pw u new_password
    \<and> (\<forall>x. x \<in> set (users (ac_db s')) \<longrightarrow>
         (if u_id x = u_id u then u_password x = pw_encode pw new_password \<and> u_email x = u_email u
          else x \<in> set (users (ac_db s))))
    \<and> u_id ` set (users (ac_db s')) = u_id ` set (users (ac_db s))
    \<and> (pw_encode pw new_password \<noteq> u_password u \<longrightarrow> (\<forall>x\<in>set (ac_tokens s'). at_user x = u_id u \<longrightarrow>
         at_purpose x = PASSWORD_RESET \<longrightarrow> at_status x \<noteq> TK_PENDING))
    \<and> (\<forall>s2 env2 pw2 new2. (account_step env)\<^sup>*\<^sup>* s' s2 \<longrightarrow> same_library env env2 \<longrightarrow>
         confirm_password_reset env2 pw2 (Val raw) new2 s2 = Inl AccountSecurityConflict)"
proof -
  have inv: "account_inv env s" by (rule account_always [OF assms(1)])
  then have ok: "users_ok (users (ac_db s))" "tokens_ok (ac_tokens s)" by (simp_all add: account_inv_def)
  have same: "same_library env env" by (simp add: same_library_def)
  obtain u t where p: "presented env raw_token PASSWORD_RESET u t s"
    and c: "password_replaced env pw u t new_password s s'"
    using confirm_password_reset_D [OF assms(2) ok] by auto
  obtain raw where raw: "raw_token = Val raw" "raw \<noteq> []" "utf8_encodable raw"
    "at_digest t = token_digest_of env PASSWORD_RESET raw"
    and t: "t \<in> set (ac_tokens s)" "at_purpose t = PASSWORD_RESET" "at_status t = TK_PENDING"
      "at_delivery_status t = DL_SENT" "u \<in> set (users (ac_db s))" "u_id u = at_user t" "u_is_active u"
    using p by (auto simp: presented_def)
  obtain r where r: "users (ac_db s') = update_where (\<lambda>x. u_id x = u_id u) (\<lambda>_. r) (users (ac_db s))"
    "u_id r = u_id u" "u_email r = u_email u" "u_password r = pw_encode pw new_password"
    using c by (auto simp: password_replaced_def)
  have C: "e_now env < at_expires_at t" "sole_account env u s" "token_bound_to env t u"
    "pw_usable pw (u_password u)" "pw_accepts pw u new_password" "consume_token env t \<in> set (ac_tokens s')"
    "ac_tokens s' = update_where (revoked_by_change (u_id u) False (u_password u \<noteq> pw_encode pw new_password))
         (revoke_token env) (update_where (\<lambda>x. at_id x = at_id t) (consume_token env) (ac_tokens s))"
    using c unfolding password_replaced_def by blast+
  have rows: "if u_id x = u_id u then u_password x = pw_encode pw new_password \<and> u_email x = u_email u
      else x \<in> set (users (ac_db s))" if "x \<in> set (users (ac_db s'))" for x
    using that r(2-4) unfolding r(1) in_update_where by (auto split: if_splits)
  have ids: "u_id ` set (users (ac_db s')) = u_id ` set (users (ac_db s))"
    using r(2) unfolding r(1) set_update_where image_image by (intro image_cong) auto
  have none: "at_status x \<noteq> TK_PENDING" if "pw_encode pw new_password \<noteq> u_password u" "x \<in> set (ac_tokens s')"
    "at_user x = u_id u" "at_purpose x = PASSWORD_RESET" for x
    using not_revoked [OF that(2) [unfolded C(7)] that(3)] that(1,4) by metis
  have never: "confirm_password_reset env2 pw2 (Val raw) new2 s2 = Inl AccountSecurityConflict"
    if "(account_step env)\<^sup>*\<^sup>* s' s2" "same_library env env2" for s2 env2 pw2 new2
  proof -
    have i: "account_inv env s'" by (rule account_inv_password_replaced [OF p c inv])
    from settled_token_stays [OF that(1) i C(6)] have s2: "tokens_ok (ac_tokens s2)" "consume_token env t \<in> set (ac_tokens s2)"
      by (simp_all add: account_inv_def consume_token_def)
    have "at_digest (consume_token env t) = token_digest_of env2 (at_purpose (consume_token env t)) raw"
      using raw(4) t(2) that(2) by (simp add: consume_token_def token_digest_of_def same_library_def)
    from settled_token_refused(2) [OF s2 _ this raw(2,3)] t(2) show ?thesis by (simp add: consume_token_def)
  qed
  show ?thesis
    by (intro exI [of _ u] exI [of _ t] exI [of _ raw] conjI)
      (rule raw t C(1-5) ids | (use rows none never in blast))+
qed

fun reset_to :: "ptext list \<Rightarrow> error + ((error + user) \<times> account_state) \<Rightarrow> bool" where
  "reset_to ps (Inr (Inr v, s)) \<longleftrightarrow> map u_password (users (ac_db s)) = ps"
| "reset_to ps _ \<longleftrightarrow> False"

lemma reset_to_E:
  assumes "reset_to ps r"
  obtains v s where "r = Inr (Inr v, s)" "map u_password (users (ac_db s)) = ps"
  using assms by (cases "(ps, r)" rule: reset_to.cases) auto

lemma ac_reset_runs: "reset_to [[36, 112], [36, 120, 121]]
    (bindE ac_story (confirm_password_reset (ac_env 8) ac_hasher (Val [116]) [120, 121]))"
  by (simp add: account_evals)

lemma password_reset_effect_witness:
  "\<exists>s v s'. ac_story = Inr s \<and> confirm_password_reset (ac_env 8) ac_hasher (Val [116]) [120, 121] s = Inr (Inr v, s')
     \<and> [36, 120, 121] \<in> u_password ` set (users (ac_db s'))
     \<and> confirm_password_reset (ac_env 9) ac_hasher (Val [116]) [122, 122] s' = Inl AccountSecurityConflict"
proof -
  obtain s where s: "ac_story = Inr s" "\<forall>n. account_reachable (ac_env n) s" by (rule ac_story_obtain)
  obtain v s' where v: "confirm_password_reset (ac_env 8) ac_hasher (Val [116]) [120, 121] s = Inr (Inr v, s')"
    "map u_password (users (ac_db s')) = [[36, 112], [36, 120, 121]]"
    using ac_reset_runs [unfolded s(1) bindE_simps] by (rule reset_to_E)
  have "[36, 120, 121] \<in> set (map u_password (users (ac_db s')))" using v(2) by simp
  with s(1) v(1) password_reset_effect [OF spec [OF s(2)] v(1)] ac_same_library [of 8 9] show ?thesis
    by (intro exI [of _ s] exI [of _ v] exI [of _ s']) auto
qed

subsection \<open>Reset requests\<close>

lemma tokens_ok_update:
  assumes ok: "tokens_ok ts"
    and f: "\<And>t. t \<in> set ts \<Longrightarrow> P t \<Longrightarrow> same_token t (f t) \<and> token_row_ok (f t)
      \<and> (at_status (f t) = TK_PENDING \<longrightarrow> at_status t = TK_PENDING)"
  shows "tokens_ok (update_where P f ts)"
proof -
  define g where "g = (\<lambda>t. if P t then f t else t)"
  have g: "same_token t (g t)" "token_row_ok (g t)" "at_status (g t) = TK_PENDING \<Longrightarrow> at_status t = TK_PENDING"
    if "t \<in> set ts" for t
    using f [OF that] ok that by (cases "P t"; simp add: g_def tokens_ok_def same_token_def)+
  have u: "update_where P f ts = map g ts" by (simp add: update_where_def g_def)
  have m: "map at_id (map g ts) = map at_id ts" "map at_digest (map g ts) = map at_digest ts"
    using g(1) by (simp_all add: same_token_def)
  have r: "map at_replaces (filter (\<lambda>t. at_replaces t \<noteq> None) (map g ts))
      = map at_replaces (filter (\<lambda>t. at_replaces t \<noteq> None) ts)"
    using g(1) by (simp add: filter_map same_token_def cong: filter_cong)
  have "distinct (map (\<lambda>t. (at_user t, at_purpose t)) (filter (\<lambda>t. at_status t = TK_PENDING) (map g ts)))"
  proof (rule distinct_map_filterI)
    have "distinct (map at_id (map g ts))" unfolding m(1) using ok by (simp add: tokens_ok_def)
    then show "distinct (map g ts)" by (rule distinct_of_map)
    fix x y
    assume "x \<in> set (map g ts)" "y \<in> set (map g ts)"
    then obtain a b where ab: "a \<in> set ts" "x = g a" "b \<in> set ts" "y = g b" by auto
    assume "at_status x = TK_PENDING" "at_status y = TK_PENDING" "(at_user x, at_purpose x) = (at_user y, at_purpose y)"
    with ab g [OF ab(1)] g [OF ab(3)] pending_token_unique [OF ok ab(1,3)] show "x = y"
      by (simp add: same_token_def)
  qed
  then show ?thesis unfolding u tokens_ok_def m r using g(2) ok by (simp add: tokens_ok_def)
qed

definition audit_ready :: "env \<Rightarrow> nat \<Rightarrow> account_state \<Rightarrow> bool" where
  "audit_ready env k s \<longleftrightarrow> inj (e_uuid env) \<and> audit_logs_ok (audit_logs (ac_db s))
     \<and> (\<forall>j\<ge>k. e_uuid env j \<notin> al_id ` set (audit_logs (ac_db s)))"

lemma audit_succeeds:
  assumes "audit_ready env k s"
  shows "\<exists>s'. write_security_audit env k u t action pr af s = Inr s' \<and> audit_ready env (k + 1) s'"
proof -
  have "e_uuid env k \<notin> al_id ` set (audit_logs (ac_db s))" using assms by (simp add: audit_ready_def)
  moreover have "e_uuid env j \<noteq> e_uuid env k" if "Suc k \<le> j" for j
    using assms that by (auto simp: audit_ready_def dest: injD)
  ultimately show ?thesis
    using assms by (simp add: write_security_audit_def write_audit_def write_audit_logs_def audit_logs_ok_def audit_ready_def)
qed

lemma retire_row_ok:
  "token_row_ok t \<Longrightarrow> at_status t = TK_PENDING \<Longrightarrow> token_row_ok (expire_token env t) \<and> token_row_ok (revoke_token env t)"
  by (auto simp: token_row_ok_def token_terminal_state_valid_def token_delivery_state_valid_def expire_token_def
      revoke_token_def split: delivery_status.splits)

lemma save_succeeds:
  assumes "tokens_ok (ac_tokens s)" "t \<in> set (ac_tokens s)" "at_status t = TK_PENDING" "same_token t (f t)"
    "token_row_ok (f t)"
  shows "\<exists>s'. save_token f t s = Inr s' \<and> ac_db s' = ac_db s"
proof -
  have "x = t" if "x \<in> set (ac_tokens s)" "at_id x = at_id t" for x
    using token_pk_unique [OF assms(1) that(1) assms(2) that(2)] .
  then have "tokens_ok (update_where (\<lambda>x. at_id x = at_id t) f (ac_tokens s))"
    using assms by (intro tokens_ok_update) auto
  then show ?thesis by (simp add: save_token_def)
qed

lemma retire_succeeds:
  assumes "tokens_ok (ac_tokens s)" "audit_ready env 0 s"
    and "\<And>t. prev = Some t \<Longrightarrow> t \<in> set (ac_tokens s) \<and> at_status t = TK_PENDING"
  shows "\<exists>s' k. retire_previous env u prev s = Inr (s', k) \<and> audit_ready env k s'"
proof (cases prev)
  case None
  with assms(2) show ?thesis by (simp add: retire_previous_def)
next
  case (Some t)
  then have t: "t \<in> set (ac_tokens s)" "at_status t = TK_PENDING" using assms(3) by auto
  then have row: "token_row_ok t" using assms(1) by (simp add: tokens_ok_def)
  show ?thesis
  proof (cases "at_expires_at t \<le> e_now env")
    case True
    obtain s1 where s1: "save_token (expire_token env) t s = Inr s1" "ac_db s1 = ac_db s"
      using save_succeeds [OF assms(1) t, of "expire_token env"] retire_row_ok [OF row t(2)] by auto
    then have "audit_ready env 0 s1" using assms(2) by (simp add: audit_ready_def)
    from audit_succeeds [OF this] obtain s2 where "write_security_audit env 0 (at_user t) t ''account.security_token.expired''
          (token_state (at_status t)) (token_state TK_EXPIRED) s1 = Inr s2" "audit_ready env (0 + 1) s2" by blast
    with Some True t(2) s1(1) show ?thesis by (simp add: retire_previous_def materialize_token_expiration_def)
  next
    case False
    obtain s1 where s1: "save_token (revoke_token env) t s = Inr s1" "ac_db s1 = ac_db s"
      using save_succeeds [OF assms(1) t, of "revoke_token env"] retire_row_ok [OF row t(2)] by auto
    then have "audit_ready env 0 s1" using assms(2) by (simp add: audit_ready_def)
    from audit_succeeds [OF this] obtain s2 where "write_security_audit env 0 u t ''account.security_token.rotated''
          (token_state (at_status t)) (token_state TK_REVOKED) s1 = Inr s2" "audit_ready env (0 + 1) s2" by blast
    with Some False t(2) s1(1) show ?thesis by (simp add: retire_previous_def materialize_token_expiration_def)
  qed
qed

lemma token_full_clean_error: "token_full_clean env rows t s = Inl e \<Longrightarrow> is_validation_error e"
  by (auto simp: token_full_clean_def token_clean_def unique_checks_def require_def bindE_def Let_def
      split: if_splits sum.splits)

lemma issue_only_conflict:
  assumes "issue_token_locked env u p ttl s = Inl e" "tokens_ok (ac_tokens s)" "audit_ready env 0 s"
    "utf8_encodable (u_password u)"
  shows "e = AccountSecurityConflict"
proof -
  let ?prev = "first_by at_id (\<lambda>t. at_user t = u_id u \<and> at_purpose t = p \<and> at_status t = TK_PENDING) (ac_tokens s)"
  have prev: "x \<in> set (ac_tokens s) \<and> at_status x = TK_PENDING" if "?prev = Some x" for x
    using first_by_Some_in [OF that] by simp
  have "\<exists>s1 k. retire_previous env (u_id u) ?prev s = Inr (s1, k) \<and> audit_ready env k s1"
    by (rule retire_succeeds [OF assms(2,3)]) (rule prev)
  then obtain s1 k where r: "retire_previous env (u_id u) ?prev s = Inr (s1, k)" and k: "audit_ready env k s1"
    by blast
  have a: "write_security_audit env (Suc k) v t act pr af s2 \<noteq> Inl e'" if "ac_db s2 = ac_db s1" for v t act pr af s2 e'
  proof -
    have "audit_ready env (k + 1) s2" using k that by (simp add: audit_ready_def)
    from audit_succeeds [OF this, of v t act pr af] show ?thesis by auto
  qed
  have w: "write_tokens rows s1 = Inr s2 \<Longrightarrow> ac_db s2 = ac_db s1" for rows s2 by simp
  show ?thesis
    using assms(1) unfolding issue_token_locked_def Let_def r bindE_simps prod.case
    by (auto simp: digest_account_security_token_def password_fingerprint_def assms(4) bindE_def require_def
        reraise_def write_tokens_def a dest: token_full_clean_error split: sum.splits if_splits)
qed

text \<open>The callback of a reset never raises.\<close>

lemma reset_delivery_silent:
  assumes "tokens_ok (ac_tokens s)" "t \<in> set (ac_tokens s)" "at_delivery_status t = DL_QUEUED"
    "at_purpose t = PASSWORD_RESET"
  shows "fst (deliver_token env1 env2 smtp t raw s) = Inr ()"
proof -
  have row: "token_row_ok x" if "x \<in> set (ac_tokens s)" for x
    using assms(1) that by (simp add: tokens_ok_def)
  have one: "x = t" if "x \<in> set (ac_tokens s)" "at_id x = at_id t" for x
    using token_pk_unique [OF assms(1) that(1) assms(2) that(2)] .
  have o: "fst (delivery_outcome (at_purpose t) b, s1) = Inr ()" for b s1
    by (simp add: delivery_outcome_def raise_on_failure_def assms(4))
  show ?thesis
  proof (cases "claim_token_delivery env1 t s")
    case (Inl e)
    have "tokens_ok (update_where (\<lambda>x. at_id x = at_id t \<and> at_purpose x = at_purpose t \<and> at_status x = TK_PENDING
        \<and> at_digest x = at_digest t \<and> e_now env1 < at_expires_at x)
      (\<lambda>x. x\<lparr>at_delivery_status := DL_QUEUED, at_delivery_attempted_at := Some (e_now env1),
         at_updated_at := e_now env1\<rparr>) (ac_tokens s))"
    proof (rule tokens_ok_update [OF assms(1)])
      fix x
      assume x: "x \<in> set (ac_tokens s)" and p: "at_id x = at_id t \<and> at_purpose x = at_purpose t
        \<and> at_status x = TK_PENDING \<and> at_digest x = at_digest t \<and> e_now env1 < at_expires_at x"
      from row [OF x] one [OF x] p assms(3)
      show "same_token x (x\<lparr>at_delivery_status := DL_QUEUED, at_delivery_attempted_at := Some (e_now env1),
           at_updated_at := e_now env1\<rparr>) \<and> token_row_ok (x\<lparr>at_delivery_status := DL_QUEUED,
           at_delivery_attempted_at := Some (e_now env1), at_updated_at := e_now env1\<rparr>)
        \<and> (at_status (x\<lparr>at_delivery_status := DL_QUEUED, at_delivery_attempted_at := Some (e_now env1),
           at_updated_at := e_now env1\<rparr>) = TK_PENDING \<longrightarrow> at_status x = TK_PENDING)"
        by (auto simp: same_token_def token_row_ok_def token_terminal_state_valid_def token_delivery_state_valid_def)
    qed
    with Inl show ?thesis by (simp add: claim_token_delivery_def update_tokens_def write_tokens_def)
  next
    case (Inr y)
    obtain b s1 where y: "y = (b, s1)" by (cases y)
    have ok: "tokens_ok (ac_tokens s1)" using claim_token_delivery_D Inr y token_phase_ok by blast
    have f: "tokens_ok (update_where (\<lambda>x. at_id x = at_id t \<and> at_purpose x = at_purpose t \<and> at_status x = TK_PENDING
        \<and> at_digest x = at_digest t) (\<lambda>x. x\<lparr>at_delivery_status := ds, at_delivery_attempted_at := Some a,
         at_delivered_at := d, at_updated_at := n\<rparr>) (ac_tokens s1))"
      if "ds = DL_FAILED \<and> d = None \<or> ds = DL_SENT \<and> d \<noteq> None" for ds a d n
      using ok that by (intro tokens_ok_update [OF ok]) (auto simp: tokens_ok_def same_token_def token_row_ok_def
          token_terminal_state_valid_def token_delivery_state_valid_def)
    have "finish_token_delivery env2 (e_now env1) smtp t raw s1 \<noteq> Inl e" for e
      by (auto simp: finish_token_delivery_def update_tokens_def write_tokens_def f Let_def split: sum.splits prod.splits)
    then show ?thesis using Inr y o by (auto simp: deliver_token_def split: sum.splits bool.splits)
  qed
qed

lemma reset_service_silent:
  assumes "account_reachable lib s" "inj (e_uuid env)"
    and "\<forall>k. e_uuid env k \<notin> al_id ` set (audit_logs (ac_db s))"
    and "\<forall>u\<in>set (users (ac_db s)). utf8_encodable (u_password u)"
    and o: "with_delivery env env1 env2 smtp (request_password_reset env pw email s) s = (outcome, s')"
  shows "password_reset_request_status outcome = Some 202
    \<and> (s' \<noteq> s \<longrightarrow> (\<exists>u\<in>set (users (ac_db s)). u_is_active u \<and> pw_usable pw (u_password u) \<and> sole_account env u s
         \<and> normalize_account_email env (Some (u_email u)) = normalize_account_email env email))"
proof -
  have inv: "db_ok (ac_db s)" "tokens_ok (ac_tokens s)"
    using account_always [OF assms(1)] by (simp_all add: account_inv_def)
  have ready: "audit_ready env 0 s" using assms(2,3) db_okD(11) [OF inv(1)] by (simp add: audit_ready_def)
  show ?thesis
  proof (cases "request_password_reset env pw email s")
    case (Inl e)
    have "e \<in> {AccountSecurityDeliveryUnavailable, AccountSecurityConflict}"
    proof (cases "ensure_account_security_delivery_available env")
      case (Inl e')
      then have "e' = AccountSecurityDeliveryUnavailable"
        by (auto simp: ensure_account_security_delivery_available_def ensure_default_email_delivery_available_def
            reraise_def split: option.splits if_splits)
      with Inl \<open>request_password_reset env pw email s = Inl e\<close> show ?thesis
        by (simp add: request_password_reset_def request_password_reset_at_def)
    next
      case (Inr x)
      with \<open>request_password_reset env pw email s = Inl e\<close> obtain u0 :: user and u
        where "locked_account (u_id u0) s = Some u" "issue_token_locked env u PASSWORD_RESET password_reset_ttl s = Inl e"
        by (auto simp: request_password_reset_def request_password_reset_at_def Let_def bindE_def
            split: sum.splits option.splits if_splits)
      with issue_only_conflict [OF _ inv(2) ready] assms(4) locked_account_D show ?thesis by blast
    qed
    with o Inl show ?thesis by (auto simp: with_delivery_def password_reset_request_status_def)
  next
    case (Inr x)
    obtain r s1 where x: "x = (r, s1)" by (cases x)
    with Inr have "request_password_reset_at env pw email s s = Inr (r, s1)" by (simp add: request_password_reset_def)
    from this inv(2) show ?thesis
    proof (cases rule: request_password_reset_D)
      case ignored
      with o Inr x show ?thesis by (auto simp: with_delivery_def password_reset_request_status_def)
    next
      case (issued t u)
      have t: "tokens_ok (ac_tokens s1)" "t \<in> set (ac_tokens s1)" "at_delivery_status t = DL_QUEUED"
        "at_purpose t = PASSWORD_RESET" "u \<in> set (users (ac_db s))" "u_is_active u"
        using issued(2) by (auto simp: token_issued_def fresh_token_def)
      obtain s2 where "deliver_token env1 env2 smtp t (e_token env) s1 = (Inr (), s2)"
        using reset_delivery_silent [OF t(1-4), of env1 env2 smtp "e_token env"]
        by (cases "deliver_token env1 env2 smtp t (e_token env) s1") auto
      with o Inr x issued t(5,6) show ?thesis by (auto simp: with_delivery_def password_reset_request_status_def)
    qed
  qed
qed

text \<open>
  C24. Reset requests disclose nothing. The public endpoint answers 403 to a request that fails the
  CSRF check, 429 when the bucket of the submitted address or of the client is exhausted, 400 to a
  body its serializer refuses and 202 to every other one, provided the identifiers it draws are
  fresh and stored passwords encode: the answer is a function of the request, whatever accounts
  there are, whether the mailer is available and whether sending works. The state changes only
  with a 202, and only for the address of an active account with a usable password that no other
  account shares.
\<close>

theorem reset_requests_disclose_nothing:
  assumes "account_reachable lib s" "inj (e_uuid env)"
    and "\<forall>k. e_uuid env k \<notin> al_id ` set (audit_logs (ac_db s))"
    and "\<forall>u\<in>set (users (ac_db s)). utf8_encodable (u_password u)"
    and "password_reset_request_view env env1 env2 pw smtp email_field csrf_ok admits ident body s = (status, s')"
  shows "status = Some (if \<not> csrf_ok then 403
      else if \<not> admits (reset_request_email_key env ident (submitted_email body))
        \<or> \<not> admits (reset_request_ip_key env ident) then 429
      else (case reset_request_input env email_field body of Inl _ \<Rightarrow> 400 | Inr _ \<Rightarrow> 202))
    \<and> (s' \<noteq> s \<longrightarrow> status = Some 202 \<and> (\<exists>email u. reset_request_input env email_field body = Inr email
         \<and> u \<in> set (users (ac_db s)) \<and> u_is_active u \<and> pw_usable pw (u_password u) \<and> sole_account env u s
         \<and> normalize_account_email env (Some (u_email u)) = normalize_account_email env (Some email)))"
proof (cases "csrf_ok \<and> admits (reset_request_email_key env ident (submitted_email body))
    \<and> admits (reset_request_ip_key env ident)")
  case False
  with assms(5) show ?thesis by (auto simp: password_reset_request_view_def split: if_splits)
next
  case admitted: True
  show ?thesis
  proof (cases "reset_request_input env email_field body")
    case (Inl e)
    with assms(5) admitted show ?thesis by (simp add: password_reset_request_view_def)
  next
    case (Inr email)
    obtain outcome where o: "with_delivery env env1 env2 smtp (request_password_reset env pw (Some email) s) s = (outcome, s')"
      "status = password_reset_request_status outcome"
      using assms(5) admitted Inr by (auto simp: password_reset_request_view_def split: prod.splits)
    from reset_service_silent [OF assms(1-4) o(1)] o(2) admitted Inr show ?thesis by auto
  qed
qed

text \<open>The framework's field on the witness: a text within the limit that is not empty.\<close>

definition ac_email_field :: "nat \<Rightarrow> ptext arg option \<Rightarrow> ptext option" where
  "ac_email_field limit v = (case v of Some (Val e) \<Rightarrow> if e \<noteq> [] \<and> length e \<le> limit then Some e else None | _ \<Rightarrow> None)"

lemma reset_requests_disclose_nothing_witness:
  "\<exists>s'. (let view = (\<lambda>admits b. password_reset_request_view (ac_env 5) (ac_env 6) (ac_env 7) ac_hasher (\<lambda>_ _ _. None)
        ac_email_field True admits [49] b ac_start); body = (\<lambda>e. Some [(ascii ''email'', e)]) in
      view (\<lambda>_. True) (body (Val [97, 2])) = (Some 202, s')
      \<and> view (\<lambda>_. True) (body (Val [97, 9])) = (Some 202, ac_start)
      \<and> view (\<lambda>_. True) (body Malformed) = (Some 400, ac_start)
      \<and> view (\<lambda>k. fst k \<noteq> ''auth_password_reset_request_ip'') (body (Val [97, 2])) = (Some 429, ac_start))"
proof -
  have a: "account_reachable (ac_env 5) ac_start" "inj (e_uuid (ac_env 5))"
    "\<forall>k. e_uuid (ac_env 5) k \<notin> al_id ` set (audit_logs (ac_db ac_start))"
    "\<forall>u\<in>set (users (ac_db ac_start)). utf8_encodable (u_password u)"
    by (rule ac_start_reachable) (simp_all add: ac_env_def inj_def ac_start_def ex_start_def ac_user_def utf8_encodable_def)
  let ?view = "\<lambda>admits b. password_reset_request_view (ac_env 5) (ac_env 6) (ac_env 7) ac_hasher (\<lambda>_ _ _. None)
    ac_email_field True admits [49] b ac_start"
  let ?body = "\<lambda>e. Some [(ascii ''email'', e)]"
  have i: "reset_request_input (ac_env 5) ac_email_field (?body (Val e)) = Inr (e_casefold (ac_env 5) (strip e))"
    if "e \<noteq> []" "length e \<le> 254" for e
    using that by (simp add: reset_request_input_def strict_fields_def ac_email_field_def)
  obtain st s' where v: "?view (\<lambda>_. True) (?body (Val [97, 2])) = (st, s')" by fastforce
  from reset_requests_disclose_nothing [OF a v] i [of "[97, 2]"] have "st = Some 202" by simp
  moreover have "?view (\<lambda>_. True) (?body (Val [97, 9])) = (Some 202, ac_start)"
    by (simp add: password_reset_request_view_def reset_request_input_def strict_fields_def ac_email_field_def
        password_reset_request_status_def account_evals)
  moreover have "?view (\<lambda>_. True) (?body Malformed) = (Some 400, ac_start)"
    "?view (\<lambda>k. fst k \<noteq> ''auth_password_reset_request_ip'') (?body (Val [97, 2])) = (Some 429, ac_start)"
    by (simp_all add: password_reset_request_view_def reset_request_input_def strict_fields_def ac_email_field_def
        reset_request_ip_key_def)
  ultimately show ?thesis using v by (intro exI [of _ s']) (simp add: Let_def)
qed

end
