(* ===== verification/Ownership_Theorems.thy ===== *)
theory Ownership_Theorems
  imports Account_Properties
begin

text \<open>
  Every tenant keeps its owners: as rows through everything that happens to the accounts, and with
  accounts that can be used through every command of the system.
\<close>

definition usable_owner :: "db \<Rightarrow> uuid \<Rightarrow> bool" where
  "usable_owner d i \<longleftrightarrow> (\<exists>m\<in>set (memberships d). pm_profile m = i \<and> pm_role m = PR_OWNER
     \<and> pm_is_active m \<and> user_active d (pm_user m))"

lemma usable_owner_iff: "usable_owner d i \<longleftrightarrow> owned (user_active d) (memberships d) i"
  by (simp add: usable_owner_def owned_def)

lemma active_manager_managed: "active_manager d i u \<longleftrightarrow> managed (user_active d) (memberships d) i u"
  by (auto simp: active_manager_iff managed_def holds_profile_role_def)

text \<open>
  C13. No tenant is orphaned. In every state that the services and the saves of accounts,
  deactivations included, lead to, each Profile has an Owner with an active membership, and the
  owner of each Workspace of a Profile has an active membership of that Profile as Owner or Admin. Whether such an account
  is active is up to the account saves, which may deactivate the last one; but no command of the
  system takes a usable Owner away: after it every new Profile, and every Profile that had an Owner
  with an active account before, has one, and the owner of every Workspace is an active manager of
  its Profile unless the owner of such a Workspace was not one before.
\<close>

theorem tenants_have_owners:
  assumes "account_reachable lib s"
  shows "(\<forall>p\<in>set (profiles (ac_db s)). \<exists>m\<in>set (memberships (ac_db s)).
        pm_profile m = p_id p \<and> pm_role m = PR_OWNER \<and> pm_is_active m)
    \<and> (\<forall>w\<in>set (workspaces (ac_db s)). \<forall>p. w_profile w = Some p \<longrightarrow>
        (\<exists>m\<in>set (memberships (ac_db s)). pm_profile m = p \<and> pm_user m = w_owner w
           \<and> is_manager (pm_role m) \<and> pm_is_active m))
    \<and> (\<forall>env c d. exec env c (ac_db s) = Inr d \<longrightarrow>
        (\<forall>p\<in>set (profiles d). p_id p \<notin> p_id ` set (profiles (ac_db s)) \<or> usable_owner (ac_db s) (p_id p)
           \<longrightarrow> usable_owner d (p_id p))
        \<and> (\<forall>w\<in>set (workspaces d). \<forall>p. w_profile w = Some p \<longrightarrow> active_manager d p (w_owner w)
           \<or> (\<exists>x\<in>set (workspaces (ac_db s)). w_profile x = Some p \<and> w_owner x = w_owner w
                \<and> \<not> active_manager (ac_db s) p (w_owner w))))"
proof (intro conjI)
  have inv: "db_ok (ac_db s)" "ownership_rows (ac_db s)"
    using account_ownership.inv_account_always [OF assms] by simp_all
  then show "\<forall>p\<in>set (profiles (ac_db s)). \<exists>m\<in>set (memberships (ac_db s)).
        pm_profile m = p_id p \<and> pm_role m = PR_OWNER \<and> pm_is_active m"
    "\<forall>w\<in>set (workspaces (ac_db s)). \<forall>p. w_profile w = Some p \<longrightarrow>
        (\<exists>m\<in>set (memberships (ac_db s)). pm_profile m = p \<and> pm_user m = w_owner w
           \<and> is_manager (pm_role m) \<and> pm_is_active m)"
    by (simp_all add: ownership_rows_def owned_def managed_def)
  show "\<forall>env c d. exec env c (ac_db s) = Inr d \<longrightarrow>
        (\<forall>p\<in>set (profiles d). p_id p \<notin> p_id ` set (profiles (ac_db s)) \<or> usable_owner (ac_db s) (p_id p)
           \<longrightarrow> usable_owner d (p_id p))
        \<and> (\<forall>w\<in>set (workspaces d). \<forall>p. w_profile w = Some p \<longrightarrow> active_manager d p (w_owner w)
           \<or> (\<exists>x\<in>set (workspaces (ac_db s)). w_profile x = Some p \<and> w_owner x = w_owner w
                \<and> \<not> active_manager (ac_db s) p (w_owner w)))"
  proof (intro allI impI)
    fix env c d
    assume "exec env c (ac_db s) = Inr d"
    from exec_keeps_tenancy [OF this inv(1), of "user_active (ac_db s)"]
    have k: "tenancy_kept (user_active (ac_db s)) (ac_db s) d" by simp
    then have "users d = users (ac_db s)" unfolding tenancy_kept_def by blast
    then have "user_active d = user_active (ac_db s)" by (simp add: fun_eq_iff user_active_def)
    with k show "(\<forall>p\<in>set (profiles d). p_id p \<notin> p_id ` set (profiles (ac_db s)) \<or> usable_owner (ac_db s) (p_id p)
           \<longrightarrow> usable_owner d (p_id p))
        \<and> (\<forall>w\<in>set (workspaces d). \<forall>p. w_profile w = Some p \<longrightarrow> active_manager d p (w_owner w)
           \<or> (\<exists>x\<in>set (workspaces (ac_db s)). w_profile x = Some p \<and> w_owner x = w_owner w
                \<and> \<not> active_manager (ac_db s) p (w_owner w)))"
      unfolding usable_owner_iff active_manager_managed tenancy_kept_def by auto
  qed
qed

text \<open>A Profile whose only Owner is deactivated: the row stays, the usable Owner does not.\<close>

definition own_story :: "error + account_state" where
  "own_story = bindE (exec (ac_env 1) (CreateProfile (Some [80]) (Some 1) True) (ac_db ac_start)) (\<lambda>d.
     bindE (user_save (ac_env 2) False None ((ac_user 1)\<lparr>u_is_active := False\<rparr>) (ac_start\<lparr>ac_db := d\<rparr>)) (\<lambda>(_, s).
     Inr s))"

lemma own_story_runs: "case own_story of Inl e \<Rightarrow> False | Inr s \<Rightarrow>
    map p_id (profiles (ac_db s)) = [1000] \<and> \<not> usable_owner (ac_db s) 1000"
  by (simp add: account_evals own_story_def usable_owner_def)

lemma own_story_reachable:
  assumes "own_story = Inr s"
  shows "account_reachable (ac_env n) s"
proof -
  from assms obtain d v where d: "exec (ac_env 1) (CreateProfile (Some [80]) (Some 1) True) (ac_db ac_start) = Inr d"
    and v: "user_save (ac_env 2) False None ((ac_user 1)\<lparr>u_is_active := False\<rparr>) (ac_start\<lparr>ac_db := d\<rparr>) = Inr (v, s)"
    by (auto simp: own_story_def)
  have "users d = users (ac_db ac_start)"
    using d by (auto simp: logged_def dest!: create_profile_D)
  then have "keeps_verification ((ac_user 1)\<lparr>u_is_active := False\<rparr>) (ac_start\<lparr>ac_db := d\<rparr>)"
    by (simp add: keeps_verification_def evals ac_start_def ac_user_def mk_user_def)
  from account_saved [OF ac_same_library this v]
  have "account_step (ac_env n) (ac_start\<lparr>ac_db := d\<rparr>) s" .
  moreover have "account_step (ac_env n) ac_start (ac_start\<lparr>ac_db := d\<rparr>)"
    using d by (intro system_step commit)
  ultimately show ?thesis using ac_start_reachable by (blast intro: account_stepwise)
qed

lemma tenants_have_owners_witness:
  "\<exists>s. own_story = Inr s \<and> \<not> usable_owner (ac_db s) 1000
     \<and> (\<exists>m\<in>set (memberships (ac_db s)). pm_profile m = 1000 \<and> pm_role m = PR_OWNER \<and> pm_is_active m)"
proof (cases own_story)
  case (Inr s)
  have r: "map p_id (profiles (ac_db s)) = [1000]" "\<not> usable_owner (ac_db s) 1000"
    using own_story_runs [unfolded Inr sum.case] by blast+
  then obtain p where p: "p \<in> set (profiles (ac_db s))" "p_id p = 1000" by (auto simp: map_eq_Cons_conv)
  from bspec [OF conjunct1 [OF tenants_have_owners [OF own_story_reachable [OF Inr, of 0]]] p(1)] p(2) r(2) Inr
  show ?thesis by auto
next
  case (Inl e)
  show ?thesis using own_story_runs unfolding Inl by simp
qed

end
