(* ===== verification/Api_Permissions.thy ===== *)
theory Api_Permissions
  imports Comments
begin

text \<open>
  The transport shared by the tenant endpoints: the exceptions a view raises and
  \<open>TenantApiViewMixin.handle_exception\<close> with the status codes of REST framework, request bodies
  behind \<open>StrictInputSerializer\<close>, and the permission classes of \<open>apps/workspace/permissions.py\<close>,
  \<open>apps/tasks/permissions.py\<close> and \<open>apps/tasks/comment_views.py\<close>. What REST framework makes of the
  declared fields of a body is a component of the body: its coercions are not part of the program.
\<close>

subsection \<open>Exceptions and answers\<close>

text \<open>
  \<open>Service\<close> is an exception that came out of a service or resolver; the others are the
  \<open>APIException\<close>s. A validation error carries the keys of its message dictionary.
\<close>

datatype api_exception =
    Service error
  | NotFound
  | Denied
  | Invalid "ptext set"
  | BadRequest error
  | Conflict "error option"
  | Throttled
  | ServiceUnavailable

text \<open>\<open>TenantApiViewMixin.handle_exception\<close>, up to the call of \<open>super()\<close>.\<close>

fun handle_exception :: "api_exception \<Rightarrow> api_exception" where
  "handle_exception (Service e) =
     (if e = InvitationConflict then Conflict None
      else if e = InvitationRateLimitExceeded then Throttled
      else if e = InvitationDeliveryUnavailable then ServiceUnavailable
      else if e \<in> {WorkspaceMembershipConflict, WorkspacePeriodConflict} then Conflict (Some e)
      else if e = TenantAccessNotFound then NotFound
      else if is_validation_error e then BadRequest e
      else Service e)"
| "handle_exception x = x"

text \<open>\<open>TaskApiViewMixin.handle_exception\<close>.\<close>

fun task_handle_exception :: "api_exception \<Rightarrow> api_exception" where
  "task_handle_exception (Service e) =
     handle_exception (if is_task_workflow_conflict e then Conflict (Some e) else Service e)"
| "task_handle_exception x = handle_exception x"

text \<open>REST framework's status codes; an exception it does not know is an internal server error.\<close>

fun status_code :: "api_exception \<Rightarrow> nat" where
  "status_code NotFound = 404"
| "status_code Denied = 403"
| "status_code (Invalid _) = 400"
| "status_code (BadRequest _) = 400"
| "status_code (Conflict _) = 409"
| "status_code Throttled = 429"
| "status_code ServiceUnavailable = 503"
| "status_code (Service e) = (if e = PermissionDenied then 403 else 500)"

text \<open>What a view leaves behind: an exception, or a status code with a body, and the database.\<close>

type_synonym 'a answer = "(api_exception + nat \<times> 'a) \<times> db"

definition guarded :: "api_exception + 'c \<Rightarrow> ('c \<Rightarrow> db \<Rightarrow> 'a answer) \<Rightarrow> db \<Rightarrow> 'a answer" where
  "guarded m k s = (case m of Inl e \<Rightarrow> (Inl e, s) | Inr c \<Rightarrow> k c s)"

definition called :: "error + ('r \<times> db) \<Rightarrow> ('r \<Rightarrow> db \<Rightarrow> 'a answer) \<Rightarrow> db \<Rightarrow> 'a answer" where
  "called m k s = (case m of Inl e \<Rightarrow> (Inl (Service e), s) | Inr (r, s') \<Rightarrow> k r s')"

definition answered :: "nat \<Rightarrow> 'a \<Rightarrow> db \<Rightarrow> 'a answer" where
  "answered code body s = (Inr (code, body), s)"

definition handled :: "(api_exception \<Rightarrow> api_exception) \<Rightarrow> 'a answer \<Rightarrow> 'a answer" where
  "handled h r = (map_sum h id (fst r), snd r)"

text \<open>An exception of a resolver inside a view or a queryset.\<close>

definition resolved :: "error + 'a \<Rightarrow> api_exception + 'a" where
  "resolved m = (case m of Inl e \<Rightarrow> Inl (Service e) | Inr a \<Rightarrow> Inr a)"

subsection \<open>Request bodies\<close>

text \<open>
  The keys of \<open>request.data\<close> when it is a mapping (\<open>Malformed\<close> for a key that is no string), and
  what the declared fields make of its values: the offending keys, or the validated data.
\<close>

record 'v body =
  b_keys :: "ptext arg list option"
  b_fields :: "ptext set + 'v"

definition field_name_ok :: "ptext arg \<Rightarrow> bool" where
  "field_name_ok k = (case k of Malformed \<Rightarrow> False | Val t \<Rightarrow> 0 \<notin> set t \<and> utf8_encodable t)"

fun arg_text :: "ptext arg \<Rightarrow> ptext" where
  "arg_text (Val t) = t"
| "arg_text Malformed = []"

definition strict_input :: "string list \<Rightarrow> 'v body \<Rightarrow> api_exception + 'v" where
  "strict_input known b =
    (let declared = (case b_fields b of Inl ks \<Rightarrow> Inl (Invalid ks) | Inr v \<Rightarrow> Inr v) in
     case b_keys b of
       None \<Rightarrow> declared
     | Some ks \<Rightarrow>
         if \<not> list_all field_name_ok ks then Inl (Invalid {ascii ''non_field_errors''})
         else let unknown = set (map arg_text ks) - set (map ascii known) in
           if unknown \<noteq> {} then Inl (Invalid unknown) else declared)"

lemma field_name_D: "field_name_ok k \<Longrightarrow> k = Val (arg_text k) \<and> 0 \<notin> set (arg_text k) \<and> utf8_encodable (arg_text k)"
  by (cases k) (simp_all add: field_name_ok_def)

lemma strict_input_accepted:
  assumes "strict_input known b = Inr v"
  shows "b_fields b = Inr v" "b_keys b = Some ks \<Longrightarrow> k \<in> set ks \<Longrightarrow> k \<in> Val ` ascii ` set known"
proof -
  show "b_fields b = Inr v"
    using assms by (auto simp: strict_input_def Let_def split: option.splits if_splits sum.splits)
  assume ks: "b_keys b = Some ks" and k: "k \<in> set ks"
  from assms ks have "list_all field_name_ok ks" "arg_text ` set ks \<subseteq> ascii ` set known"
    by (simp_all add: strict_input_def Let_def split: if_splits)
  with k show "k \<in> Val ` ascii ` set known"
    using field_name_D [of k] by (auto simp: list_all_iff)
qed

text \<open>No key that is not valid text appears in an error.\<close>

lemma strict_input_reflects_text:
  assumes "strict_input known b = Inl (Invalid ks)" "b_fields b = Inr v" "k \<in> ks"
  shows "k = ascii ''non_field_errors'' \<or> utf8_encodable k \<and> 0 \<notin> set k"
proof -
  from assms(1,2) obtain us where us: "b_keys b = Some us"
    by (cases "b_keys b") (simp_all add: strict_input_def)
  show ?thesis
  proof (cases "list_all field_name_ok us")
    case True
    with assms us have "k \<in> arg_text ` set us" by (auto simp: strict_input_def Let_def split: if_splits)
    with True show ?thesis using field_name_D by (auto simp: list_all_iff)
  next
    case False
    with assms us show ?thesis by (auto simp: strict_input_def Let_def)
  qed
qed

subsection \<open>Permission classes\<close>

text \<open>
  \<open>has_permission\<close> either returns \<open>False\<close> (\<open>Denied\<close>), raises, or stores its context on the view,
  which is the value here. \<open>user\<close> is the primary key of the authenticated user.
\<close>

definition has_active_tenant_identity :: "uuid option \<Rightarrow> db \<Rightarrow> api_exception + uuid" where
  "has_active_tenant_identity user s = (case user of
     None \<Rightarrow> Inl Denied | Some u \<Rightarrow> if user_active s u then Inr u else Inl Denied)"

text \<open>\<open>except (KeyError, TenantAccessNotFound): raise NotFound()\<close>\<close>

definition or_not_found :: "error + 'a \<Rightarrow> api_exception + 'a" where
  "or_not_found m = (case m of
     Inl e \<Rightarrow> Inl (if e = TenantAccessNotFound then NotFound else Service e) | Inr a \<Rightarrow> Inr a)"

definition has_profile_access :: "uuid option \<Rightarrow> uuid arg \<Rightarrow> db \<Rightarrow> api_exception + profile_access_context" where
  "has_profile_access user profile_id s =
     bindE (has_active_tenant_identity user s) (\<lambda>_.
       or_not_found (resolve_profile_access_context user profile_id s))"

definition has_workspace_read_access ::
  "uuid option \<Rightarrow> uuid arg \<Rightarrow> uuid arg \<Rightarrow> db \<Rightarrow> api_exception + workspace_access_context" where
  "has_workspace_read_access user profile_id workspace_id s =
     bindE (has_profile_access user profile_id s) (\<lambda>pc.
     bindE (or_not_found (resolve_workspace_access_context pc workspace_id s)) (\<lambda>c.
     require (can_read_workspace c s) NotFound (Inr c)))"

definition can_create_workspace_permission where
  "can_create_workspace_permission user profile_id s =
     bindE (has_profile_access user profile_id s) (\<lambda>pc. require (can_create_workspace pc s) Denied (Inr pc))"

definition can_manage_profile_lifecycle_permission where
  "can_manage_profile_lifecycle_permission user profile_id s =
     bindE (has_profile_access user profile_id s) (\<lambda>pc.
       require (can_manage_profile_lifecycle pc s) Denied (Inr pc))"

definition can_manage_profile_invitations_permission where
  "can_manage_profile_invitations_permission user profile_id s =
     bindE (has_profile_access user profile_id s) (\<lambda>pc.
       require (can_manage_profile_invitations pc s) Denied (Inr pc))"

definition can_edit_workspace_metadata where
  "can_edit_workspace_metadata user profile_id workspace_id s =
     bindE (has_workspace_read_access user profile_id workspace_id s) (\<lambda>c.
       require (can_edit_workspace c s) Denied (Inr c))"

text \<open>\<open>writes\<close>: the method is one of \<open>POST\<close>, \<open>PUT\<close>, \<open>PATCH\<close>, \<open>DELETE\<close>.\<close>

definition can_manage_workspace_members_permission where
  "can_manage_workspace_members_permission writes user profile_id workspace_id s =
     bindE (has_workspace_read_access user profile_id workspace_id s) (\<lambda>c.
       require (if writes then can_mutate_workspace_members c s else can_manage_workspace_members c s)
         Denied (Inr c))"

definition can_manage_workspace_lifecycle_permission where
  "can_manage_workspace_lifecycle_permission user profile_id workspace_id s =
     bindE (has_workspace_read_access user profile_id workspace_id s) (\<lambda>c.
       require (can_manage_workspace_lifecycle c s) Denied (Inr c))"

definition has_task_read_access ::
  "uuid option \<Rightarrow> uuid arg \<Rightarrow> uuid arg \<Rightarrow> uuid arg \<Rightarrow> db \<Rightarrow> api_exception + workspace_access_context \<times> task" where
  "has_task_read_access user profile_id workspace_id task_id s =
     bindE (has_workspace_read_access user profile_id workspace_id s) (\<lambda>c.
     bindE (or_not_found (resolve_task_in_scope c task_id s)) (\<lambda>t. Inr (c, t)))"

text \<open>\<open>task_id\<close> is \<open>view.kwargs.get("task_id")\<close>: routes without a Task have none.\<close>

definition can_manage_workspace_tasks_permission ::
  "uuid option \<Rightarrow> uuid arg \<Rightarrow> uuid arg \<Rightarrow> uuid arg option \<Rightarrow> db
     \<Rightarrow> api_exception + workspace_access_context \<times> task option" where
  "can_manage_workspace_tasks_permission user profile_id workspace_id task_id s =
     bindE (has_workspace_read_access user profile_id workspace_id s) (\<lambda>c.
     bindE (case task_id of None \<Rightarrow> Inr None
         | Some i \<Rightarrow> bindE (or_not_found (resolve_task_in_scope c i s)) (\<lambda>t. Inr (Some t))) (\<lambda>t.
     require (can_manage_workspace_tasks c s) Denied (Inr (c, t))))"

definition can_execute_workspace_tasks_permission where
  "can_execute_workspace_tasks_permission user profile_id workspace_id task_id s =
     bindE (has_task_read_access user profile_id workspace_id task_id s) (\<lambda>(c, t).
       require (can_execute_workspace_tasks c s) Denied (Inr (c, t)))"

definition can_review_workspace_deliverables_permission where
  "can_review_workspace_deliverables_permission user profile_id workspace_id task_id s =
     bindE (has_task_read_access user profile_id workspace_id task_id s) (\<lambda>(c, t).
       require (can_review_workspace_deliverables c s) Denied (Inr (c, t)))"

text \<open>\<open>safe\<close>: the method is one of \<open>GET\<close>, \<open>HEAD\<close>, \<open>OPTIONS\<close>.\<close>

definition has_comment_access where
  "has_comment_access safe user profile_id workspace_id task_id s =
     bindE (has_task_read_access user profile_id workspace_id task_id s) (\<lambda>(c, t).
       require (safe \<or> can_comment_on_task c s) Denied (Inr (c, t)))"

lemmas permission_defs = can_create_workspace_permission_def can_manage_profile_lifecycle_permission_def
  can_manage_profile_invitations_permission_def can_edit_workspace_metadata_def
  can_manage_workspace_members_permission_def can_manage_workspace_lifecycle_permission_def
  has_task_read_access_def can_manage_workspace_tasks_permission_def
  can_execute_workspace_tasks_permission_def can_review_workspace_deliverables_permission_def
  has_comment_access_def

subsection \<open>Who passes\<close>

lemma or_not_found_Inr [simp]: "or_not_found m = Inr a \<longleftrightarrow> m = Inr a"
  by (cases m) (simp_all add: or_not_found_def)

lemma resolved_Inr [simp]: "resolved m = Inr a \<longleftrightarrow> m = Inr a"
  by (cases m) (simp_all add: resolved_def)

lemma or_not_found_missing [simp]: "or_not_found (Inl TenantAccessNotFound) = Inl NotFound"
  by (simp add: or_not_found_def)

text \<open>A resolver raises nothing but \<open>TenantAccessNotFound\<close>.\<close>

lemma resolve_profile_raises: "resolve_profile_access_context u pid s = Inl e \<Longrightarrow> e = TenantAccessNotFound"
  by (auto simp: resolve_profile_access_context_def require_some_def split: option.splits arg.splits)

lemma refresh_raises: "refresh_profile_access_context c s = Inl e \<Longrightarrow> e = TenantAccessNotFound"
  by (auto simp: refresh_profile_access_context_def require_some_def require_def split: option.splits if_splits)

lemma resolve_workspace_raises: "resolve_workspace_access_context pc wid s = Inl e \<Longrightarrow> e = TenantAccessNotFound"
  by (auto simp: resolve_workspace_access_context_def require_some_def bindE_def
      split: option.splits arg.splits sum.splits if_splits dest: refresh_raises)

text \<open>The context a permission stores is current and the requester's own.\<close>

lemma workspace_access_D:
  assumes "has_workspace_read_access user pid wid s = Inr c"
  obtains u a where "user = Some u" "pid = Val (wc_profile c)" "wid = Val (wc_workspace c)" "wc_user c = u"
    "user_active s u" "is_current_workspace_context c s" "context_authority c = Some a"
    "has_authority s u (wc_profile c) (wc_workspace c) a"
proof -
  from assms obtain u pc where u: "user = Some u" "user_active s u"
    and pc: "resolve_profile_access_context user pid s = Inr pc"
    and c: "resolve_workspace_access_context pc wid s = Inr c"
    by (auto simp: has_workspace_read_access_def has_profile_access_def has_active_tenant_identity_def
        split: option.splits if_splits)
  note P = resolve_profile_D [OF pc] and W = resolve_workspace_D [OF c]
  obtain a where "context_authority c = Some a" "has_authority s (wc_user c) (wc_profile c) (wc_workspace c) a"
    using is_current_D(2) [OF W(1)] by blast
  with P W u show ?thesis by (intro that [of u a]) simp_all
qed

lemma current_reads: "is_current_workspace_context c s \<Longrightarrow> can_read_workspace c s"
  using is_current_D(2) [of c s]
  by (auto simp: can_read_workspace_def context_authority_def split: bool.splits option.splits)

lemma workspace_access_I:
  assumes ok: "db_ok s" and a: "has_authority s u p w a"
  obtains c where "has_workspace_read_access (Some u) (Val p) (Val w) s = Inr c"
    "context_authority c = Some a" "wc_profile c = p" "wc_workspace c = w" "wc_user c = u"
    "is_current_workspace_context c s"
proof -
  obtain pc c where pc: "resolve_profile_access_context (Some u) (Val p) s = Inr pc"
    and c: "resolve_workspace_access_context pc (Val w) s = Inr c" "context_authority c = Some a"
    using resolve_workspace_I [OF ok a] by blast
  note P = resolve_profile_D [OF pc] and W = resolve_workspace_D [OF c(1)]
  have "user_active s u" using a by (cases a) (simp_all add: holds_profile_role_def)
  with pc c W(1) have "has_workspace_read_access (Some u) (Val p) (Val w) s = Inr c"
    by (simp add: has_workspace_read_access_def has_profile_access_def has_active_tenant_identity_def
        current_reads)
  with P W c show ?thesis by (intro that) simp_all
qed

text \<open>An active identity without authority is told that there is no such Workspace, whatever there is.\<close>

lemma outsider_not_found:
  assumes u: "user_active s u"
    and no: "\<And>p w a. pid = Val p \<Longrightarrow> wid = Val w \<Longrightarrow> \<not> has_authority s u p w a"
  shows "has_workspace_read_access (Some u) pid wid s = Inl NotFound"
proof (cases "has_workspace_read_access (Some u) pid wid s")
  case (Inr c)
  then show ?thesis using no by (elim workspace_access_D) blast
next
  case (Inl e)
  have "e = NotFound"
    using Inl u
    by (auto simp: has_workspace_read_access_def has_profile_access_def has_active_tenant_identity_def
        or_not_found_def bindE_def require_def split: sum.splits if_splits
        dest: resolve_profile_raises resolve_workspace_raises)
  with Inl show ?thesis by simp
qed

lemma inactive_denied:
  "(\<And>u. user = Some u \<Longrightarrow> \<not> user_active s u) \<Longrightarrow> has_workspace_read_access user pid wid s = Inl Denied"
  by (auto simp: has_workspace_read_access_def has_profile_access_def has_active_tenant_identity_def
      split: option.splits)

end
