(* ===== verification/Api_Serializers.thy ===== *)
theory Api_Serializers
  imports Api_Permissions Invitations Proposal_Services
begin

text \<open>
  The read serializers of \<open>apps/workspace/\<close>, \<open>apps/tasks/\<close> and \<open>apps/notifications/\<close>: one record per
  representation, and the capability hints (\<open>can_start\<close>, \<open>can_submit\<close>, \<open>can_approve\<close>, \<open>can_edit\<close>,
  \<open>can_delete\<close>, \<open>is_assignable\<close>) a client uses to offer an action. A hint is computed from the row
  at hand and the current database; the service behind the action decides again.
\<close>

subsection \<open>Profiles, Workspaces, invitations\<close>

text \<open>All fields of a Profile are public to its members; a Workspace hides its owner.\<close>

record workspace_view =
  wv_id :: uuid
  wv_profile :: "uuid option"
  wv_name :: ptext
  wv_description :: "ptext option"
  wv_period :: "date option"
  wv_status :: ws_status
  wv_created_at :: time
  wv_updated_at :: time

definition read_workspace :: "workspace \<Rightarrow> workspace_view" where
  "read_workspace w = \<lparr>wv_id = w_id w, wv_profile = w_profile w, wv_name = w_name w,
     wv_description = w_description w, wv_period = w_period w, wv_status = w_status w,
     wv_created_at = w_created_at w, wv_updated_at = w_updated_at w\<rparr>"

record invitation_view =
  iv_id :: uuid
  iv_profile :: uuid
  iv_recipient_email :: ptext
  iv_requested_role :: inv_role
  iv_status :: inv_status
  iv_delivery_status :: delivery_status
  iv_expires_at :: time
  iv_delivery_attempted_at :: "time option"
  iv_delivered_at :: "time option"
  iv_accepted_at :: "time option"
  iv_declined_at :: "time option"
  iv_revoked_at :: "time option"
  iv_expired_at :: "time option"
  iv_created_at :: time
  iv_updated_at :: time

definition read_invitation :: "time \<Rightarrow> invitation \<Rightarrow> invitation_view" where
  "read_invitation now i = \<lparr>iv_id = pi_id i, iv_profile = pi_profile i, iv_recipient_email = pi_email i,
     iv_requested_role = pi_requested_role i, iv_status = effective_status now i,
     iv_delivery_status = pi_delivery_status i, iv_expires_at = pi_expires_at i,
     iv_delivery_attempted_at = pi_delivery_attempted_at i, iv_delivered_at = pi_delivered_at i,
     iv_accepted_at = pi_accepted_at i, iv_declined_at = pi_declined_at i, iv_revoked_at = pi_revoked_at i,
     iv_expired_at = pi_expired_at i, iv_created_at = pi_created_at i, iv_updated_at = pi_updated_at i\<rparr>"

subsection \<open>Workspace members\<close>

text \<open>
  The roster annotates a row with its Profile membership and its eligibility; a row returned by a
  mutation has neither, and the eligibility is looked up. \<open>full_name\<close> is \<open>get_full_name\<close> of an
  account, whose name fields the model of accounts leaves out.
\<close>

record member_view =
  mv_id :: uuid
  mv_profile_membership :: uuid
  mv_display_label :: ptext
  mv_is_assignable :: bool
  mv_role :: ws_role
  mv_is_active :: bool
  mv_joined_at :: time
  mv_updated_at :: time

definition display_label :: "(uuid \<Rightarrow> ptext) \<Rightarrow> uuid \<Rightarrow> workspace_member \<Rightarrow> ptext" where
  "display_label full_name membership_id m =
    (let name = strip (full_name (wm_user m)) in
     if name \<noteq> [] then name
     else [84, 104, 224, 110, 104, 32, 118, 105, 234, 110, 32] @ take 8 (uuid_text membership_id))"

definition eligible_profile_membership :: "uuid option \<Rightarrow> uuid \<Rightarrow> db \<Rightarrow> bool" where
  "eligible_profile_membership p u s \<longleftrightarrow> (\<exists>m\<in>set (memberships s). Some (pm_profile m) = p \<and> pm_user m = u
     \<and> user_active s (pm_user m) \<and> pm_is_active m \<and> pm_role m = PR_MEMBER)"

text \<open>\<open>annotated\<close> is the roster's \<open>_has_assignable_profile_membership\<close>, when the row has one.\<close>

definition is_assignable :: "bool option \<Rightarrow> workspace_member \<Rightarrow> db \<Rightarrow> bool" where
  "is_assignable annotated m s \<longleftrightarrow>
     wm_is_active m \<and> wm_role m = WR_MEMBER \<and> user_active s (wm_user m)
     \<and> (\<exists>w\<in>set (workspaces s). w_id w = wm_workspace m \<and> w_status w = WS_ACTIVE
          \<and> (\<exists>p\<in>set (profiles s). w_profile w = Some (p_id p) \<and> p_status p = PS_ACTIVE)
          \<and> (case annotated of Some b \<Rightarrow> b
             | None \<Rightarrow> eligible_profile_membership (w_profile w) (wm_user m) s))"

definition read_member :: "(uuid \<Rightarrow> ptext) \<Rightarrow> bool option \<Rightarrow> uuid \<Rightarrow> workspace_member \<Rightarrow> db \<Rightarrow> member_view" where
  "read_member full_name annotated membership_id m s =
     \<lparr>mv_id = wm_id m, mv_profile_membership = membership_id,
      mv_display_label = display_label full_name membership_id m,
      mv_is_assignable = is_assignable annotated m s, mv_role = wm_role m, mv_is_active = wm_is_active m,
      mv_joined_at = wm_joined_at m, mv_updated_at = wm_updated_at m\<rparr>"

subsection \<open>The context of a serializer\<close>

text \<open>
  The serializer context of a Task view: the Workspace context its permission resolved, if any,
  and the authenticated user with its \<open>is_active\<close> flag.
\<close>

record serializer_context =
  sc_access :: "workspace_access_context option"
  sc_user :: "(uuid \<times> bool) option"

definition context_allows ::
  "(workspace_access_context \<Rightarrow> db \<Rightarrow> bool) \<Rightarrow> serializer_context \<Rightarrow> db \<Rightarrow> bool" where
  "context_allows capability sc s = (case (sc_access sc, sc_user sc) of
     (Some c, Some (u, active)) \<Rightarrow> if \<not> active \<or> wc_user c \<noteq> u then False else capability c s
   | _ \<Rightarrow> False)"

definition execution_allowed :: "serializer_context \<Rightarrow> db \<Rightarrow> bool" where
  "execution_allowed sc s = context_allows can_execute_workspace_tasks sc s"

definition review_allowed :: "serializer_context \<Rightarrow> db \<Rightarrow> bool" where
  "review_allowed sc s = context_allows can_review_workspace_deliverables sc s"

definition comment_allowed :: "serializer_context \<Rightarrow> db \<Rightarrow> bool" where
  "comment_allowed sc s = context_allows can_comment_on_task sc s"

definition moderation_allowed :: "serializer_context \<Rightarrow> db \<Rightarrow> bool" where
  "moderation_allowed sc s = (if comment_allowed sc s
     then (case sc_access sc of None \<Rightarrow> False | Some c \<Rightarrow> can_manage_workspace_tasks c s) else False)"

text \<open>\<open>_profile_membership_id\<close>: the current membership of a user, never a historical one.\<close>

definition profile_membership_id :: "uuid option \<Rightarrow> uuid \<Rightarrow> db \<Rightarrow> uuid option" where
  "profile_membership_id p u s = map_option pm_id (first_by (\<lambda>m. (pm_joined_at m, pm_id m))
     (\<lambda>m. Some (pm_profile m) = p \<and> pm_user m = u \<and> user_active s (pm_user m) \<and> pm_is_active m) (memberships s))"

subsection \<open>Tasks\<close>

record assignment_view =
  av_id :: uuid
  av_profile_membership :: "uuid option"
  av_assigned_at :: time

record task_view =
  tv_id :: uuid
  tv_workspace :: uuid
  tv_parent :: "uuid option"
  tv_title :: ptext
  tv_description :: "ptext option"
  tv_status :: task_status
  tv_priority :: priority
  tv_deadline :: "time option"
  tv_active_assignment :: "assignment_view option"
  tv_can_start :: bool
  tv_can_submit :: bool
  tv_created_at :: time
  tv_updated_at :: time

text \<open>
  \<open>_active_assignments\<close> with the membership of each assignee: prefetched by a list, in the order of
  the table, or loaded for one Task, the latest first.
\<close>

definition prefetched_assignments ::
  "workspace_access_context \<Rightarrow> task \<Rightarrow> db \<Rightarrow> (task_assignment \<times> uuid option) list" where
  "prefetched_assignments c t s =
     map (\<lambda>a. (a, profile_membership_id (Some (wc_profile c)) (ta_user a) s))
       (filter (\<lambda>a. ta_task a = t_id t \<and> ta_is_active a) (assignments s))"

definition loaded_assignments :: "task \<Rightarrow> db \<Rightarrow> (task_assignment \<times> uuid option) list" where
  "loaded_assignments t s =
    (case first_by (\<lambda>a. (- ta_assigned_at a, - int (ta_id a))) (\<lambda>a. ta_task a = t_id t \<and> ta_is_active a)
        (assignments s) of
       None \<Rightarrow> []
     | Some a \<Rightarrow> [(a, profile_membership_id (workspace_profile (t_workspace t) s) (ta_user a) s)])"

definition active_assignment :: "(task_assignment \<times> uuid option) list \<Rightarrow> assignment_view option" where
  "active_assignment xs = (case xs of
     [] \<Rightarrow> None
   | (a, m) # _ \<Rightarrow> Some \<lparr>av_id = ta_id a, av_profile_membership = m, av_assigned_at = ta_assigned_at a\<rparr>)"

definition assigned_to_requester ::
  "(task_assignment \<times> uuid option) list \<Rightarrow> workspace_access_context \<Rightarrow> bool" where
  "assigned_to_requester xs c = (case xs of [] \<Rightarrow> False | (a, _) # _ \<Rightarrow> ta_user a = wc_user c)"

definition has_unresolved_deliverable :: "task \<Rightarrow> db \<Rightarrow> bool" where
  "has_unresolved_deliverable t s \<longleftrightarrow>
     (\<exists>d\<in>set (deliverables s). d_task d = t_id t \<and> d_status d \<in> {DS_PENDING, DS_SUBMITTED})"

definition can_start :: "serializer_context \<Rightarrow> (task_assignment \<times> uuid option) list \<Rightarrow> task \<Rightarrow> db \<Rightarrow> bool" where
  "can_start sc xs t s = (case sc_access sc of
     None \<Rightarrow> False
   | Some c \<Rightarrow>
       if t_workspace t \<noteq> wc_workspace c \<or> t_status t \<noteq> TS_ASSIGNED \<or> \<not> execution_allowed sc s then False
       else assigned_to_requester xs c)"

definition can_submit :: "serializer_context \<Rightarrow> (task_assignment \<times> uuid option) list \<Rightarrow> task \<Rightarrow> db \<Rightarrow> bool" where
  "can_submit sc xs t s = (case sc_access sc of
     None \<Rightarrow> False
   | Some c \<Rightarrow>
       if t_workspace t \<noteq> wc_workspace c \<or> t_status t \<noteq> TS_WORKING \<or> \<not> execution_allowed sc s then False
       else if \<not> assigned_to_requester xs c then False
       else \<not> has_unresolved_deliverable t s)"

definition read_task_with ::
  "serializer_context \<Rightarrow> (task_assignment \<times> uuid option) list \<Rightarrow> task \<Rightarrow> db \<Rightarrow> task_view" where
  "read_task_with sc xs t s =
     \<lparr>tv_id = t_id t, tv_workspace = t_workspace t, tv_parent = t_parent t, tv_title = t_title t,
      tv_description = t_description t, tv_status = t_status t, tv_priority = t_priority t,
      tv_deadline = t_deadline t, tv_active_assignment = active_assignment xs,
      tv_can_start = can_start sc xs t s, tv_can_submit = can_submit sc xs t s,
      tv_created_at = t_created_at t, tv_updated_at = t_updated_at t\<rparr>"

definition read_task :: "serializer_context \<Rightarrow> task \<Rightarrow> db \<Rightarrow> task_view" where
  "read_task sc t s = read_task_with sc (loaded_assignments t s) t s"

subsection \<open>Deliverables\<close>

record review_view =
  rv_id :: uuid
  rv_status :: review_status
  rv_comment :: "ptext option"
  rv_reviewer_membership :: "uuid option"
  rv_created_at :: time
  rv_updated_at :: time

record deliverable_view =
  dv_id :: uuid
  dv_task :: uuid
  dv_revision :: "int option"
  dv_file_url :: ptext
  dv_status :: deliverable_status
  dv_uploaded_by_membership :: "uuid option"
  dv_review :: "review_view option"
  dv_can_approve :: bool
  dv_can_request_changes :: bool
  dv_created_at :: time
  dv_updated_at :: time

text \<open>The Reviews of a Deliverable, oldest first; only the first is shown.\<close>

definition first_review :: "deliverable \<Rightarrow> db \<Rightarrow> review option" where
  "first_review d s = first_by (\<lambda>r. (r_created_at r, r_id r)) (\<lambda>r. r_deliverable r = d_id d) (reviews s)"

definition read_review :: "uuid option \<Rightarrow> review \<Rightarrow> db \<Rightarrow> review_view" where
  "read_review p r s = \<lparr>rv_id = r_id r, rv_status = r_status r, rv_comment = r_comment r,
     rv_reviewer_membership = profile_membership_id p (r_reviewer r) s, rv_created_at = r_created_at r,
     rv_updated_at = r_updated_at r\<rparr>"

text \<open>\<open>t\<close> is \<open>deliverable.task\<close>.\<close>

definition can_review :: "serializer_context \<Rightarrow> task \<Rightarrow> deliverable \<Rightarrow> db \<Rightarrow> bool" where
  "can_review sc t d s = (case sc_access sc of
     None \<Rightarrow> False
   | Some c \<Rightarrow>
       if t_workspace t \<noteq> wc_workspace c \<or> t_status t \<noteq> TS_REVIEW \<or> d_status d \<noteq> DS_SUBMITTED
          \<or> d_uploaded_by d = wc_user c \<or> \<not> review_allowed sc s then False
       else map_option d_id (latest_deliverable (t_id t) s) = Some (d_id d) \<and> first_review d s = None)"

text \<open>\<open>p\<close> is the Profile: the context's in a list, the Workspace's for one row.\<close>

definition read_deliverable :: "serializer_context \<Rightarrow> uuid option \<Rightarrow> task \<Rightarrow> deliverable \<Rightarrow> db \<Rightarrow> deliverable_view" where
  "read_deliverable sc p t d s =
     \<lparr>dv_id = d_id d, dv_task = d_task d, dv_revision = d_revision d, dv_file_url = d_file_url d,
      dv_status = d_status d, dv_uploaded_by_membership = profile_membership_id p (d_uploaded_by d) s,
      dv_review = map_option (\<lambda>r. read_review p r s) (first_review d s),
      dv_can_approve = can_review sc t d s, dv_can_request_changes = can_review sc t d s,
      dv_created_at = d_created_at d, dv_updated_at = d_updated_at d\<rparr>"

subsection \<open>Comments\<close>

record comment_view =
  cv_id :: uuid
  cv_task :: uuid
  cv_author_membership :: "uuid option"
  cv_content :: "ptext option"
  cv_is_deleted :: bool
  cv_can_edit :: bool
  cv_can_delete :: bool
  cv_edited_at :: "time option"
  cv_deleted_at :: "time option"
  cv_created_at :: time
  cv_updated_at :: time

definition can_mutate_comment :: "serializer_context \<Rightarrow> task \<Rightarrow> task_comment \<Rightarrow> db \<Rightarrow> bool" where
  "can_mutate_comment sc t x s = (case sc_access sc of
     None \<Rightarrow> False
   | Some c \<Rightarrow> t_workspace t = wc_workspace c \<and> tc_deleted_at x = None \<and> comment_allowed sc s)"

definition requester_wrote :: "serializer_context \<Rightarrow> task_comment \<Rightarrow> bool" where
  "requester_wrote sc x = (case sc_access sc of None \<Rightarrow> False | Some c \<Rightarrow> tc_user x = wc_user c)"

definition can_edit_comment :: "serializer_context \<Rightarrow> task \<Rightarrow> task_comment \<Rightarrow> db \<Rightarrow> bool" where
  "can_edit_comment sc t x s \<longleftrightarrow> can_mutate_comment sc t x s \<and> requester_wrote sc x"

definition can_delete_comment :: "serializer_context \<Rightarrow> task \<Rightarrow> task_comment \<Rightarrow> db \<Rightarrow> bool" where
  "can_delete_comment sc t x s \<longleftrightarrow>
     can_mutate_comment sc t x s \<and> (requester_wrote sc x \<or> moderation_allowed sc s)"

text \<open>\<open>m\<close> is the author's current membership, annotated or looked up.\<close>

definition read_comment :: "serializer_context \<Rightarrow> uuid option \<Rightarrow> task \<Rightarrow> task_comment \<Rightarrow> db \<Rightarrow> comment_view" where
  "read_comment sc m t x s =
     \<lparr>cv_id = tc_id x, cv_task = tc_task x, cv_author_membership = m,
      cv_content = (if tc_deleted_at x \<noteq> None then None else Some (tc_content x)),
      cv_is_deleted = (tc_deleted_at x \<noteq> None), cv_can_edit = can_edit_comment sc t x s,
      cv_can_delete = can_delete_comment sc t x s, cv_edited_at = tc_edited_at x,
      cv_deleted_at = tc_deleted_at x, cv_created_at = tc_created_at x, cv_updated_at = tc_updated_at x\<rparr>"

subsection \<open>Notifications\<close>

text \<open>The target is the path of the Task, given by the three identifiers of the route.\<close>

record notification_view =
  nv_id :: uuid
  nv_event_type :: "event_type option"
  nv_profile :: "uuid option"
  nv_workspace :: "uuid option"
  nv_task :: "uuid option"
  nv_title :: string
  nv_message :: string
  nv_target :: "uuid option \<times> uuid option \<times> uuid option"
  nv_is_read :: bool
  nv_created_at :: time
  nv_updated_at :: time

text \<open>\<open>EVENT_CONTENT[notification.event_type]\<close> raises for a row without event type.\<close>

definition read_notification :: "notification \<Rightarrow> notification_view option" where
  "read_notification n = map_option (\<lambda>et.
     \<lparr>nv_id = n_id n, nv_event_type = Some et, nv_profile = n_profile n, nv_workspace = n_workspace n,
      nv_task = n_task n, nv_title = fst (event_content et), nv_message = snd (event_content et),
      nv_target = (n_profile n, n_workspace n, n_task n), nv_is_read = n_is_read n,
      nv_created_at = n_created_at n, nv_updated_at = n_updated_at n\<rparr>) (n_event_type n)"

end
