(* ===== verification/Api_Workspace.thy ===== *)
theory Api_Workspace
  imports Api_Serializers
begin

text \<open>
  The views of \<open>apps/workspace/views.py\<close>, one definition per view and method: the permission, the
  throttle, the body, the service, the representation, in the order REST framework and the view
  run them. \<open>user\<close> is the primary key of the authenticated user, \<open>None\<close> for an anonymous request.
  Each list view has its rows, the whole ordered queryset, and the view itself, which answers one
  page of them.
\<close>

text \<open>
  What a request draws from outside: the environments of the service and of the two transactions
  of a delivery callback, the mail library, the verdict of the throttle's cache, the names of
  accounts, and REST framework's \<open>PageNumberPagination\<close>: given its settings, the parameters of the
  query and the number of rows, the offset and the length of the page, or none for a page it refuses.
\<close>

record pagination =
  rp_page_size :: nat
  rp_page_size_query_param :: string
  rp_max_page_size :: nat

type_synonym query_params = "(ptext \<times> ptext) list"

record transport =
  tr_env :: env
  tr_claim_env :: env
  tr_finish_env :: env
  tr_smtp :: "int option"
  tr_throttled :: bool
  tr_full_name :: "uuid \<Rightarrow> ptext"
  tr_paginator :: "pagination \<Rightarrow> query_params \<Rightarrow> nat \<Rightarrow> (nat \<times> nat) option"

definition standard_pagination :: pagination where
  "standard_pagination = \<lparr>rp_page_size = 20, rp_page_size_query_param = ''page_size'', rp_max_page_size = 100\<rparr>"

text \<open>
  What a list view answers of its rows: their number and the rows of the page. The links to the
  neighbouring pages are the framework's.
\<close>

record 'a page =
  page_count :: nat
  page_results :: "'a list"

definition paged :: "transport \<Rightarrow> query_params \<Rightarrow> 'a list answer \<Rightarrow> 'a page answer" where
  "paged tr params rows = (case rows of
     (Inl e, s) \<Rightarrow> (Inl e, s)
   | (Inr (code, xs), s) \<Rightarrow> (case tr_paginator tr standard_pagination params (length xs) of
       None \<Rightarrow> (Inl NotFound, s)
     | Some (k, n) \<Rightarrow> (Inr (code, \<lparr>page_count = length xs, page_results = take n (drop k xs)\<rparr>), s)))"

lemma paged_refused [simp]: "paged tr params (Inl e, s) = (Inl e, s)"
  by (simp add: paged_def)

lemma paged_keeps [simp]: "snd (paged tr params ans) = snd ans"
  by (simp add: paged_def split: prod.split sum.split option.split)

definition not_throttled :: "transport \<Rightarrow> api_exception + unit" where
  "not_throttled tr = (if tr_throttled tr then Inl Throttled else Inr ())"

text \<open>
  \<open>InvitationRecipientThrottle.get_cache_key\<close>: the bucket of a create request by its normalized
  recipient, for every sender; \<open>None\<close> is a request without a usable address, which is not counted.
\<close>

definition invitation_recipient_key :: "env \<Rightarrow> ptext arg option \<Rightarrow> (string \<times> string) option" where
  "invitation_recipient_key env recipient_email = (case recipient_email of
     Some (Val email) \<Rightarrow>
       (let normalized = normalize_invitation_email env (Some email) in
        if normalized = [] then None else Some (''invitation_recipient'', e_sha256 env normalized))
   | _ \<Rightarrow> None)"

text \<open>\<open>ScopedRetrieveMixin.get_object\<close> and the lookups of the same shape.\<close>

definition scoped_get :: "('r \<Rightarrow> uuid) \<Rightarrow> uuid arg \<Rightarrow> 'r list \<Rightarrow> api_exception + 'r" where
  "scoped_get pk i rows = (case i of
     Malformed \<Rightarrow> Inl NotFound
   | Val k \<Rightarrow> (case first_by pk (\<lambda>r. pk r = k) rows of None \<Rightarrow> Inl NotFound | Some r \<Rightarrow> Inr r))"

text \<open>The keyword arguments of a partial update: a field the body leaves out stays \<open>_UNSET\<close>.\<close>

fun some_setting :: "'a setting \<Rightarrow> 'a option setting" where
  "some_setting Unset = Unset"
| "some_setting (Set v) = Set (Some v)"

subsection \<open>Profiles\<close>

definition profile_rows :: "uuid option \<Rightarrow> db \<Rightarrow> profile list answer" where
  "profile_rows user s = handled handle_exception (
     guarded (has_active_tenant_identity user s) (\<lambda>_.
     answered 200 (sort_key (\<lambda>p. (p_created_at p, p_id p)) (profiles_visible_to user s))) s)"

definition profile_list ::
  "transport \<Rightarrow> uuid option \<Rightarrow> query_params \<Rightarrow> db \<Rightarrow> profile page answer" where
  "profile_list tr user params s = paged tr params (profile_rows user s)"

definition profile_detail :: "uuid option \<Rightarrow> uuid arg \<Rightarrow> db \<Rightarrow> profile answer" where
  "profile_detail user profile_id s = handled handle_exception (
     guarded (has_profile_access user profile_id s) (\<lambda>_.
     guarded (scoped_get p_id profile_id (profiles_visible_to user s)) (\<lambda>p. answered 200 p)) s)"

definition profile_lifecycle ::
  "(uuid \<Rightarrow> uuid arg \<Rightarrow> db \<Rightarrow> error + (profile \<times> db)) \<Rightarrow> uuid option \<Rightarrow> uuid arg \<Rightarrow> unit body \<Rightarrow> db
     \<Rightarrow> profile answer" where
  "profile_lifecycle lifecycle_service user profile_id body s = handled handle_exception (
     guarded (can_manage_profile_lifecycle_permission user profile_id s) (\<lambda>pc.
     guarded (strict_input [] body) (\<lambda>_.
     called (lifecycle_service (the user) (Val (pc_profile pc)) s) (\<lambda>p. answered 200 p))) s)"

definition profile_archive :: "transport \<Rightarrow> uuid option \<Rightarrow> uuid arg \<Rightarrow> unit body \<Rightarrow> db \<Rightarrow> profile answer" where
  "profile_archive tr = profile_lifecycle (archive_profile (tr_env tr))"

definition profile_restore :: "transport \<Rightarrow> uuid option \<Rightarrow> uuid arg \<Rightarrow> unit body \<Rightarrow> db \<Rightarrow> profile answer" where
  "profile_restore tr = profile_lifecycle (restore_profile (tr_env tr))"

subsection \<open>Invitations\<close>

definition invitation_rows :: "transport \<Rightarrow> uuid option \<Rightarrow> uuid arg \<Rightarrow> db \<Rightarrow> invitation_view list answer" where
  "invitation_rows tr user profile_id s = handled handle_exception (
     guarded (can_manage_profile_invitations_permission user profile_id s) (\<lambda>pc.
     guarded (resolved (profile_invitations_visible_to_managers pc s)) (\<lambda>rows.
     answered 200 (map (read_invitation (e_now (tr_env tr)))
       (sort_key (\<lambda>i. (- pi_created_at i, - int (pi_id i))) rows)))) s)"

definition invitation_list ::
  "transport \<Rightarrow> uuid option \<Rightarrow> uuid arg \<Rightarrow> query_params \<Rightarrow> db \<Rightarrow> invitation_view page answer" where
  "invitation_list tr user profile_id params s = paged tr params (invitation_rows tr user profile_id s)"

definition invitation_detail ::
  "transport \<Rightarrow> uuid option \<Rightarrow> uuid arg \<Rightarrow> uuid arg \<Rightarrow> db \<Rightarrow> invitation_view answer" where
  "invitation_detail tr user profile_id invitation_id s = handled handle_exception (
     guarded (can_manage_profile_invitations_permission user profile_id s) (\<lambda>pc.
     guarded (resolved (profile_invitations_visible_to_managers pc s)) (\<lambda>rows.
     guarded (scoped_get pi_id invitation_id rows) (\<lambda>i.
     answered 200 (read_invitation (e_now (tr_env tr)) i)))) s)"

text \<open>
  The callback of \<open>transaction.on_commit\<close> runs when the service's transaction has committed, inside
  the request: its exception becomes the answer.
\<close>

definition after_delivery :: "transport \<Rightarrow> invitation \<Rightarrow> (db \<Rightarrow> 'a answer) \<Rightarrow> db \<Rightarrow> 'a answer" where
  "after_delivery tr i k =
     (\<lambda>s. called (claim_delivery (tr_claim_env tr) (pi_id i) (pi_token_digest i) s) (\<lambda>_ s1.
       called (finish_delivery (tr_finish_env tr) (e_now (tr_claim_env tr)) (tr_smtp tr) (pi_id i)
         (pi_token_digest i) s1)
         (\<lambda>r s2. case r of Inl e \<Rightarrow> (Inl (Service e), s2) | Inr _ \<Rightarrow> k s2) s1) s)"

text \<open>\<open>invitation.refresh_from_db()\<close> and the representation of what it reads.\<close>

definition refreshed_invitation :: "nat \<Rightarrow> time \<Rightarrow> invitation \<Rightarrow> db \<Rightarrow> invitation_view answer" where
  "refreshed_invitation code now i s = (case lookup_pk pi_id (pi_id i) (invitations s) of
     None \<Rightarrow> (Inl (Service DoesNotExist), s)
   | Some x \<Rightarrow> answered code (read_invitation now x) s)"

definition invitation_create ::
  "transport \<Rightarrow> uuid option \<Rightarrow> uuid arg \<Rightarrow> (ptext \<times> inv_role) body \<Rightarrow> db \<Rightarrow> invitation_view answer" where
  "invitation_create tr user profile_id body s = handled handle_exception (
     guarded (can_manage_profile_invitations_permission user profile_id s) (\<lambda>pc.
     guarded (not_throttled tr) (\<lambda>_.
     guarded (strict_input [''recipient_email'', ''requested_role''] body) (\<lambda>(email, role).
     called (create_profile_invitation (tr_env tr) (the user) (Val (pc_profile pc)) (Some email) (Val role) s)
       (\<lambda>i. after_delivery tr i (refreshed_invitation 201 (e_now (tr_finish_env tr)) i))))) s)"

definition invitation_revoke ::
  "transport \<Rightarrow> uuid option \<Rightarrow> uuid arg \<Rightarrow> uuid arg \<Rightarrow> unit body \<Rightarrow> db \<Rightarrow> invitation_view answer" where
  "invitation_revoke tr user profile_id invitation_id body s = handled handle_exception (
     guarded (can_manage_profile_invitations_permission user profile_id s) (\<lambda>pc.
     guarded (resolved (profile_invitations_visible_to_managers pc s)) (\<lambda>rows.
     guarded (scoped_get pi_id invitation_id rows) (\<lambda>i.
     guarded (strict_input [] body) (\<lambda>_.
     called (revoke_profile_invitation (tr_env tr) (the user) (Val (pc_profile pc)) (Val (pi_id i)) s)
       (\<lambda>r s'. case r of
          Inl e \<Rightarrow> (Inl (Service e), s')
        | Inr x \<Rightarrow> refreshed_invitation 200 (e_now (tr_env tr)) x s'))))) s)"

definition invitation_resend ::
  "transport \<Rightarrow> uuid option \<Rightarrow> uuid arg \<Rightarrow> uuid arg \<Rightarrow> unit body \<Rightarrow> db \<Rightarrow> invitation_view answer" where
  "invitation_resend tr user profile_id invitation_id body s = handled handle_exception (
     guarded (can_manage_profile_invitations_permission user profile_id s) (\<lambda>pc.
     guarded (not_throttled tr) (\<lambda>_.
     guarded (resolved (profile_invitations_visible_to_managers pc s)) (\<lambda>rows.
     guarded (scoped_get pi_id invitation_id rows) (\<lambda>i.
     guarded (strict_input [] body) (\<lambda>_.
     called (resend_profile_invitation (tr_env tr) (the user) (Val (pc_profile pc)) (Val (pi_id i)) s)
       (\<lambda>x. after_delivery tr x (refreshed_invitation 200 (e_now (tr_finish_env tr)) x))))))) s)"

text \<open>The recipient's actions; a token is compared by its digest, so the body's text is passed on as it is.\<close>

definition recipient_action ::
  "(uuid \<Rightarrow> ptext arg \<Rightarrow> db \<Rightarrow> error + ((error + 'r) \<times> db)) \<Rightarrow> ('r \<Rightarrow> 'a) \<Rightarrow> transport \<Rightarrow> uuid option
     \<Rightarrow> ptext body \<Rightarrow> db \<Rightarrow> 'a answer" where
  "recipient_action invitation_service response_data tr user body s = handled handle_exception (
     guarded (has_active_tenant_identity user s) (\<lambda>u.
     guarded (not_throttled tr) (\<lambda>_.
     guarded (strict_input [''token''] body) (\<lambda>token.
     called (invitation_service u (Val token) s)
       (\<lambda>r s'. case r of Inl e \<Rightarrow> (Inl (Service e), s') | Inr x \<Rightarrow> answered 200 (response_data x) s')))) s)"

definition invitation_accept ::
  "transport \<Rightarrow> uuid option \<Rightarrow> ptext body \<Rightarrow> db \<Rightarrow> (uuid \<times> uuid \<times> profile_role) answer" where
  "invitation_accept tr =
     recipient_action (accept_profile_invitation (tr_env tr)) (\<lambda>m. (pm_profile m, pm_id m, pm_role m)) tr"

definition invitation_decline :: "transport \<Rightarrow> uuid option \<Rightarrow> ptext body \<Rightarrow> db \<Rightarrow> inv_status answer" where
  "invitation_decline tr = recipient_action (decline_profile_invitation (tr_env tr)) pi_status tr"

subsection \<open>Workspaces\<close>

definition workspace_rows :: "uuid option \<Rightarrow> uuid arg \<Rightarrow> db \<Rightarrow> workspace_view list answer" where
  "workspace_rows user profile_id s = handled handle_exception (
     guarded (has_profile_access user profile_id s) (\<lambda>pc.
     guarded (resolved (workspaces_visible_to pc s)) (\<lambda>rows.
     answered 200 (map read_workspace (sort_key (\<lambda>w. (w_created_at w, w_id w)) rows)))) s)"

definition workspace_list ::
  "transport \<Rightarrow> uuid option \<Rightarrow> uuid arg \<Rightarrow> query_params \<Rightarrow> db \<Rightarrow> workspace_view page answer" where
  "workspace_list tr user profile_id params s = paged tr params (workspace_rows user profile_id s)"

text \<open>\<open>WorkspaceCreateSerializer.validate_period\<close>: the first day of a month.\<close>

definition workspace_create_input ::
  "(ptext \<times> ptext option setting \<times> date) body \<Rightarrow> api_exception + ptext \<times> ptext option setting \<times> date" where
  "workspace_create_input body =
     bindE (strict_input [''name'', ''description'', ''period''] body) (\<lambda>(name, description, period).
       require (date_day period = 1) (Invalid {ascii ''period''}) (Inr (name, description, period)))"

definition workspace_create ::
  "transport \<Rightarrow> uuid option \<Rightarrow> uuid arg \<Rightarrow> (ptext \<times> ptext option setting \<times> date) body \<Rightarrow> db
     \<Rightarrow> workspace_view answer" where
  "workspace_create tr user profile_id body s = handled handle_exception (
     guarded (can_create_workspace_permission user profile_id s) (\<lambda>pc.
     guarded (workspace_create_input body) (\<lambda>(name, description, period).
     called (create_workspace (tr_env tr) (the user) (Val (pc_profile pc)) (Some name) (Some period)
         (set_or description None) s)
       (\<lambda>w. answered 201 (read_workspace w)))) s)"

definition workspace_detail :: "uuid option \<Rightarrow> uuid arg \<Rightarrow> uuid arg \<Rightarrow> db \<Rightarrow> workspace_view answer" where
  "workspace_detail user profile_id workspace_id s = handled handle_exception (
     guarded (has_workspace_read_access user profile_id workspace_id s) (\<lambda>c.
     guarded (resolved (workspaces_visible_to (wc_profile_context c) s)) (\<lambda>rows.
     guarded (scoped_get w_id workspace_id rows) (\<lambda>w. answered 200 (read_workspace w)))) s)"

definition workspace_update ::
  "transport \<Rightarrow> uuid option \<Rightarrow> uuid arg \<Rightarrow> uuid arg \<Rightarrow> (ptext setting \<times> ptext option setting) body \<Rightarrow> db
     \<Rightarrow> workspace_view answer" where
  "workspace_update tr user profile_id workspace_id body s = handled handle_exception (
     guarded (can_edit_workspace_metadata user profile_id workspace_id s) (\<lambda>c.
     guarded (strict_input [''name'', ''description''] body) (\<lambda>(name, description).
     called (update_workspace (tr_env tr) (the user) (Val (wc_profile c)) (Val (wc_workspace c))
         (some_setting name) description s)
       (\<lambda>w. answered 200 (read_workspace w)))) s)"

definition workspace_lifecycle ::
  "(uuid \<Rightarrow> uuid arg \<Rightarrow> uuid arg \<Rightarrow> db \<Rightarrow> error + (workspace \<times> db)) \<Rightarrow> uuid option \<Rightarrow> uuid arg \<Rightarrow> uuid arg
     \<Rightarrow> unit body \<Rightarrow> db \<Rightarrow> workspace_view answer" where
  "workspace_lifecycle lifecycle_service user profile_id workspace_id body s = handled handle_exception (
     guarded (can_manage_workspace_lifecycle_permission user profile_id workspace_id s) (\<lambda>c.
     guarded (strict_input [] body) (\<lambda>_.
     called (lifecycle_service (the user) (Val (wc_profile c)) (Val (wc_workspace c)) s)
       (\<lambda>w. answered 200 (read_workspace w)))) s)"

definition workspace_archive where
  "workspace_archive tr = workspace_lifecycle (archive_workspace (tr_env tr))"

definition workspace_restore where
  "workspace_restore tr = workspace_lifecycle (restore_workspace (tr_env tr))"

subsection \<open>Workspace members\<close>

definition member_rows ::
  "transport \<Rightarrow> uuid option \<Rightarrow> uuid arg \<Rightarrow> uuid arg \<Rightarrow> db \<Rightarrow> member_view list answer" where
  "member_rows tr user profile_id workspace_id s = handled handle_exception (
     guarded (can_manage_workspace_members_permission False user profile_id workspace_id s) (\<lambda>c.
     guarded (resolved (workspace_members_visible_to_managers c s)) (\<lambda>rows.
     answered 200 (map (\<lambda>(m, i, eligible). read_member (tr_full_name tr) (Some eligible) i m s)
       (sort_key (\<lambda>(m, _). (wm_joined_at m, wm_id m)) rows)))) s)"

definition member_list ::
  "transport \<Rightarrow> uuid option \<Rightarrow> uuid arg \<Rightarrow> uuid arg \<Rightarrow> query_params \<Rightarrow> db \<Rightarrow> member_view page answer" where
  "member_list tr user profile_id workspace_id params s = paged tr params (member_rows tr user profile_id workspace_id s)"

definition member_create ::
  "transport \<Rightarrow> uuid option \<Rightarrow> uuid arg \<Rightarrow> uuid arg \<Rightarrow> (uuid \<times> ws_role) body \<Rightarrow> db \<Rightarrow> member_view answer" where
  "member_create tr user profile_id workspace_id body s = handled handle_exception (
     guarded (can_manage_workspace_members_permission True user profile_id workspace_id s) (\<lambda>c.
     guarded (strict_input [''target_profile_membership_id'', ''role''] body) (\<lambda>(target, role).
     called (add_workspace_member (tr_env tr) (the user) (Val (wc_profile c)) (Val (wc_workspace c))
         (Val target) (Val role) s)
       (\<lambda>(m, was_reactivated) s'. answered (if was_reactivated then 200 else 201)
          (read_member (tr_full_name tr) None target m s') s'))) s)"

text \<open>\<open>_get_membership\<close>: a roster row and its Profile membership.\<close>

definition get_membership ::
  "workspace_access_context \<Rightarrow> uuid arg \<Rightarrow> db \<Rightarrow> api_exception + workspace_member \<times> uuid \<times> bool" where
  "get_membership c membership_id s =
     bindE (resolved (workspace_members_visible_to_managers c s)) (\<lambda>rows.
       scoped_get (\<lambda>(m, _). wm_id m) membership_id rows)"

definition member_update ::
  "transport \<Rightarrow> uuid option \<Rightarrow> uuid arg \<Rightarrow> uuid arg \<Rightarrow> uuid arg \<Rightarrow> ws_role body \<Rightarrow> db \<Rightarrow> member_view answer" where
  "member_update tr user profile_id workspace_id membership_id body s = handled handle_exception (
     guarded (can_manage_workspace_members_permission True user profile_id workspace_id s) (\<lambda>c.
     guarded (get_membership c membership_id s) (\<lambda>(m, i, _).
     guarded (strict_input [''role''] body) (\<lambda>role.
     called (update_workspace_member (tr_env tr) (the user) (Val (wc_profile c)) (Val (wc_workspace c))
         (Val (wm_id m)) (Val role) s)
       (\<lambda>x s'. answered 200 (read_member (tr_full_name tr) None i x s') s')))) s)"

definition member_delete ::
  "transport \<Rightarrow> uuid option \<Rightarrow> uuid arg \<Rightarrow> uuid arg \<Rightarrow> uuid arg \<Rightarrow> db \<Rightarrow> unit answer" where
  "member_delete tr user profile_id workspace_id membership_id s = handled handle_exception (
     guarded (can_manage_workspace_members_permission True user profile_id workspace_id s) (\<lambda>c.
     guarded (get_membership c membership_id s) (\<lambda>(m, _, _).
     called (revoke_workspace_member (tr_env tr) (the user) (Val (wc_profile c)) (Val (wc_workspace c))
         (Val (wm_id m)) s)
       (\<lambda>_. answered 204 ()))) s)"

end
