(* ===== verification/Api_Tasks.thy ===== *)
theory Api_Tasks
  imports Api_Workspace
begin

text \<open>
  The views of \<open>apps/tasks/views.py\<close>, \<open>apps/tasks/comment_views.py\<close> and
  \<open>apps/notifications/views.py\<close>, in the conventions of \<open>Api_Workspace\<close>.
\<close>

subsection \<open>Filtering and ordering Tasks\<close>

text \<open>\<open>TaskListQuerySerializer\<close>: the validated query; a leading minus is \<open>Descending\<close>.\<close>

datatype order_field = BY_CREATED_AT | BY_DEADLINE | BY_PRIORITY
datatype ordering = Ascending order_field | Descending order_field

record task_query =
  tq_status :: "task_status option"
  tq_priority :: "priority option"
  tq_parent_id :: "uuid option"
  tq_root_only :: bool
  tq_deadline_before :: "time option"
  tq_deadline_after :: "time option"
  tq_ordering :: ordering

definition validate_task_query :: "task_query \<Rightarrow> api_exception + task_query" where
  "validate_task_query q =
     (if tq_root_only q \<and> tq_parent_id q \<noteq> None then Inl (Invalid {ascii ''parent_id''})
      else case (tq_deadline_before q, tq_deadline_after q) of
          (Some upper, Some lower) \<Rightarrow>
            if lower > upper then Inl (Invalid {ascii ''deadline_after''}) else Inr q
        | _ \<Rightarrow> Inr q)"

text \<open>The query string is cut to the known names, so what the fields make of it is all that is left.\<close>

definition task_query_input :: "ptext set + task_query \<Rightarrow> api_exception + task_query" where
  "task_query_input query = (case query of Inl ks \<Rightarrow> Inl (Invalid ks) | Inr q \<Rightarrow> validate_task_query q)"

fun priority_rank :: "priority \<Rightarrow> int" where
  "priority_rank PRI_LOW = 0"
| "priority_rank PRI_MEDIUM = 1"
| "priority_rank PRI_HIGH = 2"
| "priority_rank PRI_URGENT = 3"

text \<open>The sort key of a Task: absent deadlines last in both directions, ties by identifier.\<close>

fun order_value :: "order_field \<Rightarrow> task \<Rightarrow> int option" where
  "order_value BY_CREATED_AT t = Some (t_created_at t)"
| "order_value BY_DEADLINE t = t_deadline t"
| "order_value BY_PRIORITY t = Some (priority_rank (t_priority t))"

fun order_key :: "ordering \<Rightarrow> task \<Rightarrow> bool \<times> int \<times> uuid" where
  "order_key (Ascending f) t = (order_value f t = None, case order_value f t of None \<Rightarrow> 0 | Some v \<Rightarrow> v, t_id t)"
| "order_key (Descending f) t = (order_value f t = None, case order_value f t of None \<Rightarrow> 0 | Some v \<Rightarrow> - v, t_id t)"

text \<open>The conditions the query adds; a comparison with an absent deadline does not hold.\<close>

definition matches_query :: "task_query \<Rightarrow> task \<Rightarrow> bool" where
  "matches_query q t \<longleftrightarrow>
     (case tq_status q of None \<Rightarrow> True | Some st \<Rightarrow> t_status t = st) \<and>
     (case tq_priority q of None \<Rightarrow> True | Some p \<Rightarrow> t_priority t = p) \<and>
     (case tq_parent_id q of Some p \<Rightarrow> t_parent t = Some p
      | None \<Rightarrow> tq_root_only q \<longrightarrow> t_parent t = None) \<and>
     (case tq_deadline_before q of None \<Rightarrow> True
      | Some x \<Rightarrow> (case t_deadline t of None \<Rightarrow> False | Some d \<Rightarrow> d \<le> x)) \<and>
     (case tq_deadline_after q of None \<Rightarrow> True
      | Some x \<Rightarrow> (case t_deadline t of None \<Rightarrow> False | Some d \<Rightarrow> x \<le> d))"

definition filtered_tasks ::
  "workspace_access_context \<Rightarrow> ptext set + task_query \<Rightarrow> task list \<Rightarrow> db \<Rightarrow> api_exception + task list" where
  "filtered_tasks c query queryset s =
     bindE (task_query_input query) (\<lambda>q.
     bindE (case tq_parent_id q of None \<Rightarrow> Inr ()
         | Some p \<Rightarrow> bindE (or_not_found (resolve_task_in_scope c (Val p) s)) (\<lambda>_. Inr ())) (\<lambda>_.
     Inr (sort_key (order_key (tq_ordering q)) (filter (matches_query q) queryset))))"

subsection \<open>Tasks\<close>

text \<open>\<open>get_serializer_context\<close> of a request whose permission passed.\<close>

definition get_serializer_context :: "uuid option \<Rightarrow> workspace_access_context \<Rightarrow> db \<Rightarrow> serializer_context" where
  "get_serializer_context user c s =
     \<lparr>sc_access = Some c, sc_user = map_option (\<lambda>u. (u, user_active s u)) user\<rparr>"

definition listed_tasks :: "uuid option \<Rightarrow> workspace_access_context \<Rightarrow> task list \<Rightarrow> db \<Rightarrow> task_view list" where
  "listed_tasks user c ts s =
     map (\<lambda>t. read_task_with (get_serializer_context user c s) (prefetched_assignments c t s) t s) ts"

definition task_rows ::
  "uuid option \<Rightarrow> uuid arg \<Rightarrow> uuid arg \<Rightarrow> ptext set + task_query \<Rightarrow> db \<Rightarrow> task_view list answer" where
  "task_rows user profile_id workspace_id query s = handled task_handle_exception (
     guarded (has_workspace_read_access user profile_id workspace_id s) (\<lambda>c.
     guarded (resolved (tasks_visible_to c s)) (\<lambda>queryset.
     guarded (filtered_tasks c query queryset s) (\<lambda>ts.
     answered 200 (listed_tasks user c ts s)))) s)"

definition task_list ::
  "transport \<Rightarrow> uuid option \<Rightarrow> uuid arg \<Rightarrow> uuid arg \<Rightarrow> ptext set + task_query \<Rightarrow> query_params \<Rightarrow> db \<Rightarrow> task_view page answer" where
  "task_list tr user profile_id workspace_id query params s = paged tr params (task_rows user profile_id workspace_id query s)"

definition subtask_rows ::
  "uuid option \<Rightarrow> uuid arg \<Rightarrow> uuid arg \<Rightarrow> uuid arg \<Rightarrow> ptext set + task_query \<Rightarrow> db \<Rightarrow> task_view list answer" where
  "subtask_rows user profile_id workspace_id task_id query s = handled task_handle_exception (
     guarded (has_task_read_access user profile_id workspace_id task_id s) (\<lambda>(c, parent).
     guarded (resolved (tasks_visible_to c s)) (\<lambda>queryset.
     guarded (filtered_tasks c query (filter (\<lambda>t. t_parent t = Some (t_id parent)) queryset) s) (\<lambda>ts.
     answered 200 (listed_tasks user c ts s)))) s)"

definition subtask_list ::
  "transport \<Rightarrow> uuid option \<Rightarrow> uuid arg \<Rightarrow> uuid arg \<Rightarrow> uuid arg \<Rightarrow> ptext set + task_query \<Rightarrow> query_params \<Rightarrow> db \<Rightarrow> task_view page answer" where
  "subtask_list tr user profile_id workspace_id task_id query params s = paged tr params (subtask_rows user profile_id workspace_id task_id query s)"

text \<open>The validated data of \<open>TaskCreateSerializer\<close> and \<open>TaskUpdateSerializer\<close>.\<close>

record task_create_data =
  tcd_parent_id :: "uuid option setting"
  tcd_title :: ptext
  tcd_description :: "ptext option setting"
  tcd_priority :: priority
  tcd_deadline :: "time option setting"

record task_update_data =
  tud_parent_id :: "uuid option setting"
  tud_title :: "ptext setting"
  tud_description :: "ptext option setting"
  tud_priority :: "priority setting"
  tud_deadline :: "time option setting"

definition task_fields :: "string list" where
  "task_fields = [''parent_id'', ''title'', ''description'', ''priority'', ''deadline'']"

definition task_create ::
  "transport \<Rightarrow> uuid option \<Rightarrow> uuid arg \<Rightarrow> uuid arg \<Rightarrow> task_create_data body \<Rightarrow> db \<Rightarrow> task_view answer" where
  "task_create tr user profile_id workspace_id body s = handled task_handle_exception (
     guarded (can_manage_workspace_tasks_permission user profile_id workspace_id None s) (\<lambda>(c, _).
     guarded (strict_input task_fields body) (\<lambda>d.
     called (create_task (tr_env tr) (the user) (Val (wc_profile c)) (Val (wc_workspace c))
         (Some (tcd_title d)) (set_or (tcd_description d) None) (Val (tcd_priority d))
         (Val (set_or (tcd_deadline d) None)) (map_option Val (set_or (tcd_parent_id d) None)) s)
       (\<lambda>t s'. answered 201 (read_task (get_serializer_context user c s) t s') s'))) s)"

definition task_detail ::
  "uuid option \<Rightarrow> uuid arg \<Rightarrow> uuid arg \<Rightarrow> uuid arg \<Rightarrow> db \<Rightarrow> task_view answer" where
  "task_detail user profile_id workspace_id task_id s = handled task_handle_exception (
     guarded (has_task_read_access user profile_id workspace_id task_id s) (\<lambda>(c, _).
     guarded (or_not_found (resolve_task_in_scope c task_id s)) (\<lambda>t.
     answered 200 (read_task (get_serializer_context user c s) t s))) s)"

definition task_update ::
  "transport \<Rightarrow> uuid option \<Rightarrow> uuid arg \<Rightarrow> uuid arg \<Rightarrow> uuid arg \<Rightarrow> task_update_data body \<Rightarrow> db
     \<Rightarrow> task_view answer" where
  "task_update tr user profile_id workspace_id task_id body s = handled task_handle_exception (
     guarded (can_manage_workspace_tasks_permission user profile_id workspace_id (Some task_id) s) (\<lambda>(c, _).
     guarded (or_not_found (resolve_task_in_scope c task_id s)) (\<lambda>t.
     guarded (strict_input task_fields body) (\<lambda>d.
     called (update_task (tr_env tr) (the user) (Val (wc_profile c)) (Val (wc_workspace c)) (Val (t_id t))
         (some_setting (tud_title d)) (tud_description d) (map_setting Val (tud_priority d))
         (map_setting Val (tud_deadline d)) (map_setting (map_option Val) (tud_parent_id d)) s)
       (\<lambda>t' s'. answered 200 (read_task (get_serializer_context user c s) t' s') s')))) s)"

text \<open>\<open>assignment.task\<close> of a saved assignment is read from the database.\<close>

definition task_assign ::
  "transport \<Rightarrow> uuid option \<Rightarrow> uuid arg \<Rightarrow> uuid arg \<Rightarrow> uuid arg \<Rightarrow> uuid body \<Rightarrow> db \<Rightarrow> task_view answer" where
  "task_assign tr user profile_id workspace_id task_id body s = handled task_handle_exception (
     guarded (can_manage_workspace_tasks_permission user profile_id workspace_id (Some task_id) s) (\<lambda>(c, view_task).
     guarded (strict_input [''target_profile_membership_id''] body) (\<lambda>target.
     called (assign_task (tr_env tr) (the user) (Val (wc_profile c)) (Val (wc_workspace c))
         (Val (t_id (the view_task))) (Val target) s)
       (\<lambda>a s'. case lookup_pk t_id (ta_task a) (tasks s') of
           None \<Rightarrow> (Inl (Service DoesNotExist), s')
         | Some t \<Rightarrow> answered 200 (read_task (get_serializer_context user c s) t s') s'))) s)"

definition task_start ::
  "transport \<Rightarrow> uuid option \<Rightarrow> uuid arg \<Rightarrow> uuid arg \<Rightarrow> uuid arg \<Rightarrow> unit body \<Rightarrow> db \<Rightarrow> task_view answer" where
  "task_start tr user profile_id workspace_id task_id body s = handled task_handle_exception (
     guarded (can_execute_workspace_tasks_permission user profile_id workspace_id task_id s) (\<lambda>(c, t).
     guarded (strict_input [] body) (\<lambda>_.
     called (start_task (tr_env tr) (the user) (Val (wc_profile c)) (Val (wc_workspace c)) (Val (t_id t)) s)
       (\<lambda>t' s'. answered 200 (read_task (get_serializer_context user c s) t' s') s'))) s)"

subsection \<open>Deliverables\<close>

definition visible_deliverables ::
  "workspace_access_context \<Rightarrow> uuid \<Rightarrow> db \<Rightarrow> error + deliverable list" where
  "visible_deliverables c task_id s =
     bindE (tasks_visible_to c s) (\<lambda>ts.
       Inr (filter (\<lambda>d. d_task d = task_id \<and> task_id \<in> t_id ` set ts) (deliverables s)))"

definition deliverable_rows ::
  "uuid option \<Rightarrow> uuid arg \<Rightarrow> uuid arg \<Rightarrow> uuid arg \<Rightarrow> db \<Rightarrow> deliverable_view list answer" where
  "deliverable_rows user profile_id workspace_id task_id s = handled task_handle_exception (
     guarded (has_task_read_access user profile_id workspace_id task_id s) (\<lambda>(c, t).
     guarded (resolved (visible_deliverables c (t_id t) s)) (\<lambda>rows.
     answered 200 (map (\<lambda>d. read_deliverable (get_serializer_context user c s) (Some (wc_profile c)) t d s)
       (sort_key (\<lambda>d. (d_created_at d, d_id d)) rows)))) s)"

definition deliverable_list ::
  "transport \<Rightarrow> uuid option \<Rightarrow> uuid arg \<Rightarrow> uuid arg \<Rightarrow> uuid arg \<Rightarrow> query_params \<Rightarrow> db \<Rightarrow> deliverable_view page answer" where
  "deliverable_list tr user profile_id workspace_id task_id params s = paged tr params (deliverable_rows user profile_id workspace_id task_id s)"

text \<open>The representation of a Deliverable a service returned, with its Task as the database has it.\<close>

definition answered_deliverable ::
  "nat \<Rightarrow> serializer_context \<Rightarrow> deliverable \<Rightarrow> db \<Rightarrow> deliverable_view answer" where
  "answered_deliverable code sc d s = (case lookup_pk t_id (d_task d) (tasks s) of
     None \<Rightarrow> (Inl (Service DoesNotExist), s)
   | Some t \<Rightarrow> answered code (read_deliverable sc (workspace_profile (t_workspace t) s) t d s) s)"

definition deliverable_submit ::
  "transport \<Rightarrow> uuid option \<Rightarrow> uuid arg \<Rightarrow> uuid arg \<Rightarrow> uuid arg \<Rightarrow> ptext body \<Rightarrow> db \<Rightarrow> deliverable_view answer" where
  "deliverable_submit tr user profile_id workspace_id task_id body s = handled task_handle_exception (
     guarded (can_execute_workspace_tasks_permission user profile_id workspace_id task_id s) (\<lambda>(c, t).
     guarded (strict_input [''file_url''] body) (\<lambda>url.
     called (submit_deliverable (tr_env tr) (the user) (Val (wc_profile c)) (Val (wc_workspace c))
         (Val (t_id t)) (Some url) s)
       (answered_deliverable 201 (get_serializer_context user c s)))) s)"

text \<open>\<open>review.deliverable\<close> is the row the service saved.\<close>

definition answered_review :: "serializer_context \<Rightarrow> review \<Rightarrow> db \<Rightarrow> deliverable_view answer" where
  "answered_review sc r s = (case lookup_pk d_id (r_deliverable r) (deliverables s) of
     None \<Rightarrow> (Inl (Service DoesNotExist), s)
   | Some d \<Rightarrow> answered_deliverable 200 sc d s)"

text \<open>\<open>DeliverableReviewView.post\<close>: the Deliverable is looked up under its Task before the body is read.\<close>

definition deliverable_review ::
  "(uuid \<Rightarrow> uuid arg \<Rightarrow> uuid arg \<Rightarrow> uuid arg \<Rightarrow> uuid arg \<Rightarrow> 'v \<Rightarrow> db \<Rightarrow> error + (review \<times> db)) \<Rightarrow> uuid option
     \<Rightarrow> uuid arg \<Rightarrow> uuid arg \<Rightarrow> uuid arg \<Rightarrow> uuid arg \<Rightarrow> 'v body \<Rightarrow> db \<Rightarrow> deliverable_view answer" where
  "deliverable_review review_service user profile_id workspace_id task_id deliverable_id body s =
    handled task_handle_exception (
     guarded (can_review_workspace_deliverables_permission user profile_id workspace_id task_id s) (\<lambda>(c, t).
     guarded (resolved (visible_deliverables c (t_id t) s)) (\<lambda>rows.
     guarded (scoped_get d_id deliverable_id rows) (\<lambda>d.
     guarded (strict_input [''comment''] body) (\<lambda>v.
     called (review_service (the user) (Val (wc_profile c)) (Val (wc_workspace c)) (Val (t_id t)) (Val (d_id d)) v s)
       (answered_review (get_serializer_context user c s)))))) s)"

definition deliverable_approve ::
  "transport \<Rightarrow> uuid option \<Rightarrow> uuid arg \<Rightarrow> uuid arg \<Rightarrow> uuid arg \<Rightarrow> uuid arg \<Rightarrow> ptext option setting body \<Rightarrow> db
     \<Rightarrow> deliverable_view answer" where
  "deliverable_approve tr = deliverable_review (\<lambda>actor profile_id workspace_id task_id deliverable_id comment.
     approve_deliverable (tr_env tr) actor profile_id workspace_id task_id deliverable_id (set_or comment None))"

definition deliverable_request_changes ::
  "transport \<Rightarrow> uuid option \<Rightarrow> uuid arg \<Rightarrow> uuid arg \<Rightarrow> uuid arg \<Rightarrow> uuid arg \<Rightarrow> ptext body \<Rightarrow> db
     \<Rightarrow> deliverable_view answer" where
  "deliverable_request_changes tr = deliverable_review (\<lambda>actor profile_id workspace_id task_id deliverable_id comment.
     request_deliverable_changes (tr_env tr) actor profile_id workspace_id task_id deliverable_id (Some comment))"

subsection \<open>Comments\<close>

definition comment_rows ::
  "uuid option \<Rightarrow> uuid arg \<Rightarrow> uuid arg \<Rightarrow> uuid arg \<Rightarrow> db \<Rightarrow> comment_view list answer" where
  "comment_rows user profile_id workspace_id task_id s = handled task_handle_exception (
     guarded (has_comment_access True user profile_id workspace_id task_id s) (\<lambda>(c, t).
     guarded (resolved (comments_visible_to c (t_id t) s)) (\<lambda>rows.
     answered 200 (map (\<lambda>(x, m). read_comment (get_serializer_context user c s) m t x s)
       (sort_key (\<lambda>(x, _). (tc_created_at x, tc_id x)) rows)))) s)"

definition comment_list ::
  "transport \<Rightarrow> uuid option \<Rightarrow> uuid arg \<Rightarrow> uuid arg \<Rightarrow> uuid arg \<Rightarrow> query_params \<Rightarrow> db \<Rightarrow> comment_view page answer" where
  "comment_list tr user profile_id workspace_id task_id params s = paged tr params (comment_rows user profile_id workspace_id task_id s)"

text \<open>
  \<open>CommentContentField\<close>: surrogates and null characters are refused before REST framework's text
  field, whose verdict is the second component, sees the value; \<open>Malformed\<close> is a value that is no text.
\<close>

definition comment_content_field :: "ptext arg \<times> (ptext set + ptext) \<Rightarrow> api_exception + ptext" where
  "comment_content_field v = (case fst v of
     Malformed \<Rightarrow> Inl (Invalid {ascii ''content''})
   | Val t \<Rightarrow>
       if \<not> utf8_encodable t then Inl (Invalid {ascii ''content''})
       else if 0 \<in> set t then Inl (Invalid {ascii ''content''})
       else (case snd v of Inl ks \<Rightarrow> Inl (Invalid ks) | Inr txt \<Rightarrow> Inr txt))"

definition comment_write_input :: "(ptext arg \<times> (ptext set + ptext)) body \<Rightarrow> api_exception + ptext" where
  "comment_write_input body = bindE (strict_input [''content''] body) comment_content_field"

text \<open>The representation of a comment a service returned: the author's membership is looked up.\<close>

definition answered_comment ::
  "nat \<Rightarrow> serializer_context \<Rightarrow> task \<Rightarrow> task_comment \<Rightarrow> db \<Rightarrow> comment_view answer" where
  "answered_comment code sc t x s = answered code
     (read_comment sc (profile_membership_id (workspace_profile (t_workspace t) s) (tc_user x) s) t x s) s"

definition comment_create ::
  "transport \<Rightarrow> uuid option \<Rightarrow> uuid arg \<Rightarrow> uuid arg \<Rightarrow> uuid arg \<Rightarrow> (ptext arg \<times> (ptext set + ptext)) body \<Rightarrow> db
     \<Rightarrow> comment_view answer" where
  "comment_create tr user profile_id workspace_id task_id body s = handled task_handle_exception (
     guarded (has_comment_access False user profile_id workspace_id task_id s) (\<lambda>(c, t).
     guarded (comment_write_input body) (\<lambda>content.
     called (create_comment (tr_env tr) (the user) (Val (wc_profile c)) (Val (wc_workspace c)) (Val (t_id t))
         (Val content) s)
       (answered_comment 201 (get_serializer_context user c s) t))) s)"

text \<open>\<open>_get_comment\<close>: a visible comment of the Task with the annotated membership of its author.\<close>

definition get_comment ::
  "workspace_access_context \<Rightarrow> task \<Rightarrow> uuid arg \<Rightarrow> db \<Rightarrow> api_exception + task_comment \<times> uuid option" where
  "get_comment c t comment_id s =
     bindE (or_not_found (comments_visible_to c (t_id t) s)) (\<lambda>rows.
       scoped_get (\<lambda>(x, _). tc_id x) comment_id rows)"

definition comment_detail ::
  "uuid option \<Rightarrow> uuid arg \<Rightarrow> uuid arg \<Rightarrow> uuid arg \<Rightarrow> uuid arg \<Rightarrow> db \<Rightarrow> comment_view answer" where
  "comment_detail user profile_id workspace_id task_id comment_id s = handled task_handle_exception (
     guarded (has_comment_access True user profile_id workspace_id task_id s) (\<lambda>(c, t).
     guarded (get_comment c t comment_id s) (\<lambda>(x, m).
     answered 200 (read_comment (get_serializer_context user c s) m t x s))) s)"

definition comment_update ::
  "transport \<Rightarrow> uuid option \<Rightarrow> uuid arg \<Rightarrow> uuid arg \<Rightarrow> uuid arg \<Rightarrow> uuid arg
     \<Rightarrow> (ptext arg \<times> (ptext set + ptext)) body \<Rightarrow> db \<Rightarrow> comment_view answer" where
  "comment_update tr user profile_id workspace_id task_id comment_id body s = handled task_handle_exception (
     guarded (has_comment_access False user profile_id workspace_id task_id s) (\<lambda>(c, t).
     guarded (get_comment c t comment_id s) (\<lambda>(x, _).
     guarded (require (Some (tc_user x) = user) (Service PermissionDenied) (Inr ())) (\<lambda>_.
     guarded (comment_write_input body) (\<lambda>content.
     called (update_comment (tr_env tr) (the user) (Val (wc_profile c)) (Val (wc_workspace c)) (Val (t_id t))
         (Val (tc_id x)) (Val content) s)
       (answered_comment 200 (get_serializer_context user c s) t))))) s)"

definition comment_delete ::
  "transport \<Rightarrow> uuid option \<Rightarrow> uuid arg \<Rightarrow> uuid arg \<Rightarrow> uuid arg \<Rightarrow> uuid arg \<Rightarrow> unit body \<Rightarrow> db \<Rightarrow> unit answer" where
  "comment_delete tr user profile_id workspace_id task_id comment_id body s = handled task_handle_exception (
     guarded (has_comment_access False user profile_id workspace_id task_id s) (\<lambda>(c, t).
     guarded (get_comment c t comment_id s) (\<lambda>(x, _).
     guarded (strict_input [] body) (\<lambda>_.
     called (delete_comment (tr_env tr) (the user) (Val (wc_profile c)) (Val (wc_workspace c)) (Val (t_id t))
         (Val (tc_id x)) s)
       (\<lambda>_. answered 204 ())))) s)"

subsection \<open>Notifications\<close>

definition notification_rows ::
  "uuid option \<Rightarrow> ptext set + bool option \<Rightarrow> db \<Rightarrow> notification_view option list answer" where
  "notification_rows user query s = handled handle_exception (
     guarded (has_active_tenant_identity user s) (\<lambda>_.
     guarded (case query of Inl ks \<Rightarrow> Inl (Invalid ks) | Inr r \<Rightarrow> Inr r) (\<lambda>is_read.
     answered 200 (map read_notification (sort_key (\<lambda>n. (- n_created_at n, n_id n))
       (filter (\<lambda>n. case is_read of None \<Rightarrow> True | Some b \<Rightarrow> n_is_read n = b)
         (notifications_visible_to user s)))))) s)"

definition notification_list ::
  "transport \<Rightarrow> uuid option \<Rightarrow> ptext set + bool option \<Rightarrow> query_params \<Rightarrow> db \<Rightarrow> notification_view option page answer" where
  "notification_list tr user query params s = paged tr params (notification_rows user query s)"

definition notification_unread_count :: "uuid option \<Rightarrow> db \<Rightarrow> nat answer" where
  "notification_unread_count user s = handled handle_exception (
     guarded (has_active_tenant_identity user s) (\<lambda>_.
     answered 200 (length (filter (\<lambda>n. \<not> n_is_read n) (notifications_visible_to user s)))) s)"

definition notification_mark_read ::
  "transport \<Rightarrow> uuid option \<Rightarrow> uuid arg \<Rightarrow> unit body \<Rightarrow> db \<Rightarrow> notification_view option answer" where
  "notification_mark_read tr user notification_id body s = handled handle_exception (
     guarded (has_active_tenant_identity user s) (\<lambda>_.
     guarded (scoped_get n_id notification_id (notifications_visible_to user s)) (\<lambda>_.
     guarded (strict_input [] body) (\<lambda>_.
     called (mark_notification_read (tr_env tr) (the user) notification_id s)
       (\<lambda>n. answered 200 (read_notification n))))) s)"

end
