(* ===== verification/Api_Routes.thy ===== *)
theory Api_Routes
  imports Api_Tasks System
begin

text \<open>
  The routes of \<open>apps/workspace/urls.py\<close>, \<open>apps/tasks/urls.py\<close> and \<open>apps/notifications/urls.py\<close>: a
  request is a route with a method, its path arguments and its body, and \<open>dispatch\<close> runs the view
  behind it. A calculus of answers follows, and which command of the system a request asks for.
\<close>

subsection \<open>Requests\<close>

datatype workspace_request =
    GetProfiles query_params
  | GetProfile "uuid arg"
  | PostProfileArchive "uuid arg" "unit body"
  | PostProfileRestore "uuid arg" "unit body"
  | GetInvitations "uuid arg" query_params
  | PostInvitation "uuid arg" "(ptext \<times> inv_role) body"
  | GetInvitation "uuid arg" "uuid arg"
  | PostInvitationRevoke "uuid arg" "uuid arg" "unit body"
  | PostInvitationResend "uuid arg" "uuid arg" "unit body"
  | PostInvitationAccept "ptext body"
  | PostInvitationDecline "ptext body"
  | GetWorkspaces "uuid arg" query_params
  | PostWorkspace "uuid arg" "(ptext \<times> ptext option setting \<times> date) body"
  | GetWorkspace "uuid arg" "uuid arg"
  | PatchWorkspace "uuid arg" "uuid arg" "(ptext setting \<times> ptext option setting) body"
  | PostWorkspaceArchive "uuid arg" "uuid arg" "unit body"
  | PostWorkspaceRestore "uuid arg" "uuid arg" "unit body"
  | GetMembers "uuid arg" "uuid arg" query_params
  | PostMember "uuid arg" "uuid arg" "(uuid \<times> ws_role) body"
  | PatchMember "uuid arg" "uuid arg" "uuid arg" "ws_role body"
  | DeleteMember "uuid arg" "uuid arg" "uuid arg"

datatype tasks_request =
    GetTasks "uuid arg" "uuid arg" "ptext set + task_query" query_params
  | PostTask "uuid arg" "uuid arg" "task_create_data body"
  | GetTask "uuid arg" "uuid arg" "uuid arg"
  | PatchTask "uuid arg" "uuid arg" "uuid arg" "task_update_data body"
  | GetSubtasks "uuid arg" "uuid arg" "uuid arg" "ptext set + task_query" query_params
  | PostAssign "uuid arg" "uuid arg" "uuid arg" "uuid body"
  | PostStart "uuid arg" "uuid arg" "uuid arg" "unit body"
  | GetDeliverables "uuid arg" "uuid arg" "uuid arg" query_params
  | PostDeliverable "uuid arg" "uuid arg" "uuid arg" "ptext body"
  | PostApprove "uuid arg" "uuid arg" "uuid arg" "uuid arg" "ptext option setting body"
  | PostRequestChanges "uuid arg" "uuid arg" "uuid arg" "uuid arg" "ptext body"
  | GetComments "uuid arg" "uuid arg" "uuid arg" query_params
  | PostComment "uuid arg" "uuid arg" "uuid arg" "(ptext arg \<times> (ptext set + ptext)) body"
  | GetComment "uuid arg" "uuid arg" "uuid arg" "uuid arg"
  | PatchComment "uuid arg" "uuid arg" "uuid arg" "uuid arg" "(ptext arg \<times> (ptext set + ptext)) body"
  | DeleteTaskComment "uuid arg" "uuid arg" "uuid arg" "uuid arg" "unit body"

datatype notifications_request =
    GetNotifications "ptext set + bool option" query_params
  | GetUnreadCount
  | PostNotificationRead "uuid arg" "unit body"

datatype request =
    Workspace_App workspace_request
  | Tasks_App tasks_request
  | Notifications_App notifications_request

datatype payload =
    P_Nothing
  | P_Profile profile
  | P_Profiles "profile page"
  | P_Invitation invitation_view
  | P_Invitations "invitation_view page"
  | P_Accepted "uuid \<times> uuid \<times> profile_role"
  | P_Declined inv_status
  | P_Workspace workspace_view
  | P_Workspaces "workspace_view page"
  | P_Member member_view
  | P_Members "member_view page"
  | P_Task task_view
  | P_Tasks "task_view page"
  | P_Deliverable deliverable_view
  | P_Deliverables "deliverable_view page"
  | P_Comment comment_view
  | P_Comments "comment_view page"
  | P_Notification "notification_view option"
  | P_Notifications "notification_view option page"
  | P_Count nat

definition sent :: "('a \<Rightarrow> payload) \<Rightarrow> 'a answer \<Rightarrow> payload answer" where
  "sent f r = (map_sum id (map_prod id f) (fst r), snd r)"

fun workspace_urls :: "transport \<Rightarrow> uuid option \<Rightarrow> workspace_request \<Rightarrow> db \<Rightarrow> payload answer" where
  "workspace_urls tr u (GetProfiles ps) s = sent P_Profiles (profile_list tr u ps s)"
| "workspace_urls tr u (GetProfile p) s = sent P_Profile (profile_detail u p s)"
| "workspace_urls tr u (PostProfileArchive p b) s = sent P_Profile (profile_archive tr u p b s)"
| "workspace_urls tr u (PostProfileRestore p b) s = sent P_Profile (profile_restore tr u p b s)"
| "workspace_urls tr u (GetInvitations p ps) s = sent P_Invitations (invitation_list tr u p ps s)"
| "workspace_urls tr u (PostInvitation p b) s = sent P_Invitation (invitation_create tr u p b s)"
| "workspace_urls tr u (GetInvitation p i) s = sent P_Invitation (invitation_detail tr u p i s)"
| "workspace_urls tr u (PostInvitationRevoke p i b) s = sent P_Invitation (invitation_revoke tr u p i b s)"
| "workspace_urls tr u (PostInvitationResend p i b) s = sent P_Invitation (invitation_resend tr u p i b s)"
| "workspace_urls tr u (PostInvitationAccept b) s = sent P_Accepted (invitation_accept tr u b s)"
| "workspace_urls tr u (PostInvitationDecline b) s = sent P_Declined (invitation_decline tr u b s)"
| "workspace_urls tr u (GetWorkspaces p ps) s = sent P_Workspaces (workspace_list tr u p ps s)"
| "workspace_urls tr u (PostWorkspace p b) s = sent P_Workspace (workspace_create tr u p b s)"
| "workspace_urls tr u (GetWorkspace p w) s = sent P_Workspace (workspace_detail u p w s)"
| "workspace_urls tr u (PatchWorkspace p w b) s = sent P_Workspace (workspace_update tr u p w b s)"
| "workspace_urls tr u (PostWorkspaceArchive p w b) s = sent P_Workspace (workspace_archive tr u p w b s)"
| "workspace_urls tr u (PostWorkspaceRestore p w b) s = sent P_Workspace (workspace_restore tr u p w b s)"
| "workspace_urls tr u (GetMembers p w ps) s = sent P_Members (member_list tr u p w ps s)"
| "workspace_urls tr u (PostMember p w b) s = sent P_Member (member_create tr u p w b s)"
| "workspace_urls tr u (PatchMember p w m b) s = sent P_Member (member_update tr u p w m b s)"
| "workspace_urls tr u (DeleteMember p w m) s = sent (\<lambda>_. P_Nothing) (member_delete tr u p w m s)"

fun tasks_urls :: "transport \<Rightarrow> uuid option \<Rightarrow> tasks_request \<Rightarrow> db \<Rightarrow> payload answer" where
  "tasks_urls tr u (GetTasks p w q ps) s = sent P_Tasks (task_list tr u p w q ps s)"
| "tasks_urls tr u (PostTask p w b) s = sent P_Task (task_create tr u p w b s)"
| "tasks_urls tr u (GetTask p w t) s = sent P_Task (task_detail u p w t s)"
| "tasks_urls tr u (PatchTask p w t b) s = sent P_Task (task_update tr u p w t b s)"
| "tasks_urls tr u (GetSubtasks p w t q ps) s = sent P_Tasks (subtask_list tr u p w t q ps s)"
| "tasks_urls tr u (PostAssign p w t b) s = sent P_Task (task_assign tr u p w t b s)"
| "tasks_urls tr u (PostStart p w t b) s = sent P_Task (task_start tr u p w t b s)"
| "tasks_urls tr u (GetDeliverables p w t ps) s = sent P_Deliverables (deliverable_list tr u p w t ps s)"
| "tasks_urls tr u (PostDeliverable p w t b) s = sent P_Deliverable (deliverable_submit tr u p w t b s)"
| "tasks_urls tr u (PostApprove p w t d b) s = sent P_Deliverable (deliverable_approve tr u p w t d b s)"
| "tasks_urls tr u (PostRequestChanges p w t d b) s =
     sent P_Deliverable (deliverable_request_changes tr u p w t d b s)"
| "tasks_urls tr u (GetComments p w t ps) s = sent P_Comments (comment_list tr u p w t ps s)"
| "tasks_urls tr u (PostComment p w t b) s = sent P_Comment (comment_create tr u p w t b s)"
| "tasks_urls tr u (GetComment p w t c) s = sent P_Comment (comment_detail u p w t c s)"
| "tasks_urls tr u (PatchComment p w t c b) s = sent P_Comment (comment_update tr u p w t c b s)"
| "tasks_urls tr u (DeleteTaskComment p w t c b) s = sent (\<lambda>_. P_Nothing) (comment_delete tr u p w t c b s)"

fun notifications_urls :: "transport \<Rightarrow> uuid option \<Rightarrow> notifications_request \<Rightarrow> db \<Rightarrow> payload answer" where
  "notifications_urls tr u (GetNotifications q ps) s = sent P_Notifications (notification_list tr u q ps s)"
| "notifications_urls tr u GetUnreadCount s = sent P_Count (notification_unread_count u s)"
| "notifications_urls tr u (PostNotificationRead n b) s = sent P_Notification (notification_mark_read tr u n b s)"

fun dispatch :: "transport \<Rightarrow> uuid option \<Rightarrow> request \<Rightarrow> db \<Rightarrow> payload answer" where
  "dispatch tr u (Workspace_App q) s = workspace_urls tr u q s"
| "dispatch tr u (Tasks_App q) s = tasks_urls tr u q s"
| "dispatch tr u (Notifications_App q) s = notifications_urls tr u q s"

subsection \<open>The Workspace a request is nested in\<close>

fun workspace_scope :: "workspace_request \<Rightarrow> (uuid arg \<times> uuid arg) option" where
  "workspace_scope (GetWorkspace p w) = Some (p, w)"
| "workspace_scope (PatchWorkspace p w _) = Some (p, w)"
| "workspace_scope (PostWorkspaceArchive p w _) = Some (p, w)"
| "workspace_scope (PostWorkspaceRestore p w _) = Some (p, w)"
| "workspace_scope (GetMembers p w _) = Some (p, w)"
| "workspace_scope (PostMember p w _) = Some (p, w)"
| "workspace_scope (PatchMember p w _ _) = Some (p, w)"
| "workspace_scope (DeleteMember p w _) = Some (p, w)"
| "workspace_scope _ = None"

fun tasks_scope :: "tasks_request \<Rightarrow> uuid arg \<times> uuid arg" where
  "tasks_scope (GetTasks p w _ _) = (p, w)"
| "tasks_scope (PostTask p w _) = (p, w)"
| "tasks_scope (GetTask p w _) = (p, w)"
| "tasks_scope (PatchTask p w _ _) = (p, w)"
| "tasks_scope (GetSubtasks p w _ _ _) = (p, w)"
| "tasks_scope (PostAssign p w _ _) = (p, w)"
| "tasks_scope (PostStart p w _ _) = (p, w)"
| "tasks_scope (GetDeliverables p w _ _) = (p, w)"
| "tasks_scope (PostDeliverable p w _ _) = (p, w)"
| "tasks_scope (PostApprove p w _ _ _) = (p, w)"
| "tasks_scope (PostRequestChanges p w _ _ _) = (p, w)"
| "tasks_scope (GetComments p w _ _) = (p, w)"
| "tasks_scope (PostComment p w _ _) = (p, w)"
| "tasks_scope (GetComment p w _ _) = (p, w)"
| "tasks_scope (PatchComment p w _ _ _) = (p, w)"
| "tasks_scope (DeleteTaskComment p w _ _ _) = (p, w)"

fun request_scope :: "request \<Rightarrow> (uuid arg \<times> uuid arg) option" where
  "request_scope (Workspace_App q) = workspace_scope q"
| "request_scope (Tasks_App q) = Some (tasks_scope q)"
| "request_scope (Notifications_App _) = None"

subsection \<open>The command a request asks for\<close>

definition with_body :: "api_exception + 'v \<Rightarrow> ('v \<Rightarrow> command) \<Rightarrow> command option" where
  "with_body m f = (case m of Inl _ \<Rightarrow> None | Inr v \<Rightarrow> Some (f v))"

text \<open>
  The command behind a request nested in a Workspace, if it is a mutation whose body is accepted.
  \<open>u\<close> is the requester.
\<close>

fun workspace_command :: "uuid \<Rightarrow> workspace_request \<Rightarrow> command option" where
  "workspace_command u (PatchWorkspace p w b) = with_body (strict_input [''name'', ''description''] b)
     (\<lambda>(name, description). UpdateWorkspace u p w (some_setting name) description)"
| "workspace_command u (PostWorkspaceArchive p w b) = with_body (strict_input [] b)
     (\<lambda>_. SetWorkspaceStatus u p w (Val WS_ARCHIVED))"
| "workspace_command u (PostWorkspaceRestore p w b) = with_body (strict_input [] b)
     (\<lambda>_. SetWorkspaceStatus u p w (Val WS_ACTIVE))"
| "workspace_command u (PostMember p w b) = with_body (strict_input [''target_profile_membership_id'', ''role''] b)
     (\<lambda>(target, role). AddMember u p w (Val target) (Val role))"
| "workspace_command u (PatchMember p w m b) = with_body (strict_input [''role''] b)
     (\<lambda>role. UpdateMember u p w m (Val role))"
| "workspace_command u (DeleteMember p w m) = Some (RevokeMember u p w m)"
| "workspace_command u _ = None"

fun tasks_command :: "uuid \<Rightarrow> tasks_request \<Rightarrow> command option" where
  "tasks_command u (PostTask p w b) = with_body (strict_input task_fields b)
     (\<lambda>d. CreateTask u p w (Some (tcd_title d)) (set_or (tcd_description d) None) (Val (tcd_priority d))
        (Val (set_or (tcd_deadline d) None)) (map_option Val (set_or (tcd_parent_id d) None)))"
| "tasks_command u (PatchTask p w t b) = with_body (strict_input task_fields b)
     (\<lambda>d. UpdateTask u p w t (some_setting (tud_title d)) (tud_description d)
        (map_setting Val (tud_priority d)) (map_setting Val (tud_deadline d))
        (map_setting (map_option Val) (tud_parent_id d)))"
| "tasks_command u (PostAssign p w t b) = with_body (strict_input [''target_profile_membership_id''] b)
     (\<lambda>target. AssignTask u p w t (Val target))"
| "tasks_command u (PostStart p w t b) = with_body (strict_input [] b) (\<lambda>_. StartTask u p w t)"
| "tasks_command u (PostDeliverable p w t b) = with_body (strict_input [''file_url''] b)
     (\<lambda>url. SubmitDeliverable u p w t (Some url))"
| "tasks_command u (PostApprove p w t d b) = with_body (strict_input [''comment''] b)
     (\<lambda>c. ApproveDeliverable u p w t d (set_or c None))"
| "tasks_command u (PostRequestChanges p w t d b) = with_body (strict_input [''comment''] b)
     (\<lambda>c. RequestChanges u p w t d (Some c))"
| "tasks_command u (PostComment p w t b) = with_body (comment_write_input b)
     (\<lambda>c. CreateComment u p w t (Val c))"
| "tasks_command u (PatchComment p w t i b) = with_body (comment_write_input b)
     (\<lambda>c. UpdateComment u p w t i (Val c))"
| "tasks_command u (DeleteTaskComment p w t i b) = with_body (strict_input [] b)
     (\<lambda>_. DeleteComment u p w t i)"
| "tasks_command u _ = None"

fun request_command :: "uuid \<Rightarrow> request \<Rightarrow> command option" where
  "request_command u (Workspace_App q) = workspace_command u q"
| "request_command u (Tasks_App q) = tasks_command u q"
| "request_command u (Notifications_App q) = None"

end
