(* ===== verification/Api_Theorems.thy ===== *)
theory Api_Theorems
  imports Api_Routes
begin

text \<open>
  The transport against the services: whoever may run a service passes the gates in front of it, so a
  request nested in a Workspace commits exactly when the command behind it does.
\<close>

subsection \<open>Answers that mirror a service\<close>

definition mirrors :: "'a answer \<Rightarrow> error + ('r \<times> db) \<Rightarrow> db \<Rightarrow> bool" where
  "mirrors ans m s \<longleftrightarrow> (case m of
     Inl _ \<Rightarrow> \<exists>e. ans = (Inl e, s)
   | Inr (_, s') \<Rightarrow> \<exists>code body. ans = (Inr (code, body), s'))"

lemma mirrors_handled [simp]: "mirrors (handled h ans) m s \<longleftrightarrow> mirrors ans m s"
  by (cases ans; cases "fst ans") (auto simp: mirrors_def handled_def split: sum.splits)

lemma mirrors_sent [simp]: "mirrors (sent f ans) m s \<longleftrightarrow> mirrors ans m s"
  by (cases ans; cases "fst ans") (auto simp: mirrors_def sent_def split: sum.splits)

lemma mirrors_guarded:
  assumes "\<And>r s'. m = Inr (r, s') \<Longrightarrow> \<exists>c. g = Inr c" "\<And>c. g = Inr c \<Longrightarrow> mirrors (k c s) m s"
  shows "mirrors (guarded g k s) m s"
proof (cases g)
  case (Inl e)
  with assms(1) show ?thesis by (cases m) (auto simp: mirrors_def guarded_def)
next
  case (Inr c)
  with assms(2) show ?thesis by (simp add: guarded_def)
qed

lemma mirrors_called:
  assumes "\<And>r s'. m = Inr (r, s') \<Longrightarrow> \<exists>code body. k r s' = (Inr (code, body), s')"
  shows "mirrors (called m k s) m s"
  using assms by (auto simp: mirrors_def called_def split: sum.splits)

lemma answered_Inr [simp]: "\<exists>code' body'. answered code body s = (Inr (code', body'), s)"
  by (simp add: answered_def)

subsection \<open>Who passes the gates\<close>

lemma locked_passes:
  assumes "db_ok s" "locked u pid wid s a w p"
  obtains c where "has_workspace_read_access (Some u) pid wid s = Inr c" "context_authority c = Some a"
    "wc_profile c = p" "wc_workspace c = w_id w" "wc_user c = u" "is_current_workspace_context c s"
proof -
  from assms(2) have "pid = Val p" "wid = Val (w_id w)" "has_authority s u p (w_id w) a"
    by (simp_all add: locked_def)
  with workspace_access_I [OF assms(1), of u p "w_id w" a] that show ?thesis by blast
qed

lemma authority_capabilities:
  assumes ok: "db_ok s" and c: "is_current_workspace_context c s" "context_authority c = Some a"
    and p: "profile_active (wc_profile c) s"
  shows "manages a \<Longrightarrow> ws_active s (wc_workspace c) \<Longrightarrow> can_edit_workspace c s"
    "manages a \<Longrightarrow> ws_active s (wc_workspace c) \<Longrightarrow> can_manage_workspace_tasks c s"
    "manages a \<Longrightarrow> ws_active s (wc_workspace c) \<Longrightarrow> can_mutate_workspace_members c s"
    "a = Assigned WR_MEMBER \<Longrightarrow> ws_active s (wc_workspace c) \<Longrightarrow> can_execute_workspace_tasks c s"
    "a = Manager r \<Longrightarrow> can_manage_workspace_lifecycle c s"
  using c(2) c(1) p active_state_iff [OF ok, of c]
  by (cases rule: context_authority_cases; simp add: capability_defs manages_def wc_profile_def)+

lemma current_sees_workspace:
  assumes ok: "db_ok s" and c: "is_current_workspace_context c s"
  obtains ws where "workspaces_visible_to (wc_profile_context c) s = Inr ws" "wc_workspace c \<in> w_id ` set ws"
proof -
  let ?pc = "wc_profile_context c"
  note C = is_current_D [OF c]
  have r: "refresh_profile_access_context ?pc s = Inr ?pc"
    using refresh_current [OF db_okD(2) [OF ok]] C(1,3)
    by (simp add: is_verified_workspace_context_def wc_profile_role_def)
  obtain a where a: "context_authority c = Some a" "has_authority s (wc_user c) (wc_profile c) (wc_workspace c) a"
    using C(2) by blast
  obtain w where w: "w \<in> set (workspaces s)" "w_id w = wc_workspace c" "w_profile w = Some (wc_profile c)"
    using C(4) by (auto simp: in_tenant_def)
  have "is_manager (pc_role ?pc) \<or> member_row_visible ?pc (w_id w) s"
    using a(1)
  proof (cases rule: context_authority_cases)
    case (2 r)
    with a(2) w(2) show ?thesis by (auto simp: member_row_visible_def holds_ws_role_def wc_user_def)
  qed (simp add: wc_profile_role_def)
  with w C(3) have v: "w \<in> set (workspaces_visible_to_valid_context ?pc s)"
    by (simp add: visible_workspace_iff wc_profile_def wc_profile_role_def)
  show ?thesis
  proof (rule that)
    show "workspaces_visible_to ?pc s = Inr (workspaces_visible_to_valid_context ?pc s)"
      using r by (simp add: workspaces_visible_to_def)
    show "wc_workspace c \<in> w_id ` set (workspaces_visible_to_valid_context ?pc s)"
      using v w(2) [symmetric] by simp
  qed
qed

text \<open>What a current context sees: the Tasks of its Workspace, all of them and no others.\<close>

lemma tasks_visible:
  assumes "db_ok s" "is_current_workspace_context c s"
  shows "tasks_visible_to c s = Inr (filter (\<lambda>t. t_workspace t = wc_workspace c) (tasks s))"
proof -
  obtain ws where ws: "workspaces_visible_to (wc_profile_context c) s = Inr ws" "wc_workspace c \<in> w_id ` set ws"
    by (rule current_sees_workspace [OF assms])
  from ws(2) have "w_id ` set (filter (\<lambda>w. w_id w = wc_workspace c) ws) = {wc_workspace c}" by force
  then have "filter (\<lambda>t. t_workspace t \<in> w_id ` set (filter (\<lambda>w. w_id w = wc_workspace c) ws)) (tasks s)
      = filter (\<lambda>t. t_workspace t = wc_workspace c) (tasks s)"
    by simp
  with ws(1) current_reads [OF assms(2)] show ?thesis unfolding tasks_visible_to_def by simp
qed

lemma task_pk_unique: "tasks_ok ts \<Longrightarrow> t \<in> set ts \<Longrightarrow> t' \<in> set ts \<Longrightarrow> t_id t = t_id t' \<Longrightarrow> t = t'"
  by (rule distinct_map_eq [of t_id]) (simp_all add: tasks_ok_def)

lemma resolve_task_iff:
  assumes "db_ok s" "is_current_workspace_context c s"
  shows "resolve_task_in_scope c tid s = Inr t \<longleftrightarrow>
    t \<in> set (tasks s) \<and> t_workspace t = wc_workspace c \<and> tid = Val (t_id t)"
proof -
  have "first_by t_id (\<lambda>x. t_id x = t_id t) (filter (\<lambda>t. t_workspace t = wc_workspace c) (tasks s)) = Some t"
    if "t \<in> set (tasks s)" "t_workspace t = wc_workspace c"
    using that task_pk_unique [OF db_okD(5) [OF assms(1)]] by (intro first_by_unique) auto
  then show ?thesis
    by (auto simp: resolve_task_in_scope_def tasks_visible [OF assms] split: arg.splits dest!: first_by_Some_in)
qed

lemma scoped_get_D: "scoped_get pk i rows = Inr r \<Longrightarrow> r \<in> set rows \<and> i = Val (pk r)"
  by (cases i) (auto simp: scoped_get_def split: option.split_asm dest!: first_by_Some_in)

lemma scoped_get_ex: "r \<in> set rows \<Longrightarrow> \<exists>x. scoped_get pk (Val (pk r)) rows = Inr x"
  using first_by_ex [of r rows "\<lambda>x. pk x = pk r" pk] by (auto simp: scoped_get_def)

lemma scoped_get_I:
  assumes "distinct (map pk rows)" "r \<in> set rows"
  shows "scoped_get pk (Val (pk r)) rows = Inr r"
proof -
  have "first_by pk (\<lambda>x. pk x = pk r) rows = Some r"
    using assms(2) distinct_map_eq [OF assms(1)] by (intro first_by_unique) auto
  then show ?thesis by (simp add: scoped_get_def)
qed

lemma workspace_access_values:
  "has_workspace_read_access user pid wid s = Inr c \<Longrightarrow>
     pid = Val (wc_profile c) \<and> wid = Val (wc_workspace c) \<and> user = Some (wc_user c)
     \<and> is_current_workspace_context c s"
  by (elim workspace_access_D) simp

lemma task_access_values:
  assumes "db_ok s" "has_task_read_access user pid wid tid s = Inr (c, t)"
  shows "has_workspace_read_access user pid wid s = Inr c \<and> pid = Val (wc_profile c) \<and> wid = Val (wc_workspace c)
    \<and> user = Some (wc_user c) \<and> is_current_workspace_context c s \<and> t \<in> set (tasks s)
    \<and> t_workspace t = wc_workspace c \<and> tid = Val (t_id t) \<and> resolve_task_in_scope c tid s = Inr t"
  using assms(2) workspace_access_values [of user pid wid s c] resolve_task_iff [OF assms(1), of c tid t]
  by (auto simp: has_task_read_access_def)

text \<open>A requester the Task lock accepts passes the read permission of the Task.\<close>

lemma task_locked_passes:
  assumes ok: "db_ok s" and l: "task_locked u pid wid tid s a w p t"
  obtains c where "has_task_read_access (Some u) pid wid tid s = Inr (c, t)"
    "has_workspace_read_access (Some u) pid wid s = Inr c" "context_authority c = Some a"
    "is_current_workspace_context c s" "wc_workspace c = w_id w" "profile_active (wc_profile c) s"
    "ws_active s (wc_workspace c)" "resolve_task_in_scope c tid s = Inr t" "wc_user c = u"
proof -
  have lk: "locked u pid wid s a w p" using l by (simp add: task_locked_def)
  obtain c where c: "has_workspace_read_access (Some u) pid wid s = Inr c" "context_authority c = Some a"
    "wc_profile c = p" "wc_workspace c = w_id w" "wc_user c = u" "is_current_workspace_context c s"
    using locked_passes [OF ok lk] by blast
  moreover have "resolve_task_in_scope c tid s = Inr t"
    using l c(4) by (simp add: resolve_task_iff [OF ok c(6)] task_locked_def)
  ultimately show ?thesis using l lk
    by (intro that) (simp_all add: has_task_read_access_def task_locked_def locked_def)
qed

subsection \<open>Gates\<close>

lemma workspace_gates:
  assumes ok: "db_ok s" and l: "locked u pid wid s a w p"
  shows "manages a \<Longrightarrow> ws_active s (w_id w) \<Longrightarrow> \<exists>c. can_edit_workspace_metadata (Some u) pid wid s = Inr c"
    "manages a \<Longrightarrow> ws_active s (w_id w) \<Longrightarrow>
       \<exists>c. can_manage_workspace_members_permission True (Some u) pid wid s = Inr c"
    "manages a \<Longrightarrow> ws_active s (w_id w) \<Longrightarrow>
       \<exists>c. can_manage_workspace_tasks_permission (Some u) pid wid None s = Inr (c, None)"
    "a = Manager r \<Longrightarrow> \<exists>c. can_manage_workspace_lifecycle_permission (Some u) pid wid s = Inr c"
proof -
  obtain c where c: "has_workspace_read_access (Some u) pid wid s = Inr c" "context_authority c = Some a"
    "wc_profile c = p" "wc_workspace c = w_id w" "is_current_workspace_context c s"
    using locked_passes [OF ok l] by blast
  have "profile_active (wc_profile c) s" using l c(3) by (simp add: locked_def)
  note caps = authority_capabilities [OF ok c(5,2) this]
  show "manages a \<Longrightarrow> ws_active s (w_id w) \<Longrightarrow> \<exists>c. can_edit_workspace_metadata (Some u) pid wid s = Inr c"
    and "manages a \<Longrightarrow> ws_active s (w_id w) \<Longrightarrow>
       \<exists>c. can_manage_workspace_members_permission True (Some u) pid wid s = Inr c"
    and "manages a \<Longrightarrow> ws_active s (w_id w) \<Longrightarrow>
       \<exists>c. can_manage_workspace_tasks_permission (Some u) pid wid None s = Inr (c, None)"
    and "a = Manager r \<Longrightarrow> \<exists>c. can_manage_workspace_lifecycle_permission (Some u) pid wid s = Inr c"
    using c caps by (simp_all add: permission_defs)
qed

lemma task_gates:
  assumes ok: "db_ok s" and l: "task_locked u pid wid tid s a w p t"
  shows "manages a \<Longrightarrow> \<exists>c. can_manage_workspace_tasks_permission (Some u) pid wid (Some tid) s = Inr (c, Some t)"
    "a = Assigned WR_MEMBER \<Longrightarrow> \<exists>c. can_execute_workspace_tasks_permission (Some u) pid wid tid s = Inr (c, t)"
    "manages a \<Longrightarrow> \<exists>c. can_review_workspace_deliverables_permission (Some u) pid wid tid s = Inr (c, t)"
    "comments_allowed a \<Longrightarrow> \<exists>c. has_comment_access safe (Some u) pid wid tid s = Inr (c, t)"
proof -
  obtain c where c: "has_task_read_access (Some u) pid wid tid s = Inr (c, t)"
    "has_workspace_read_access (Some u) pid wid s = Inr c" "context_authority c = Some a"
    "is_current_workspace_context c s" "profile_active (wc_profile c) s" "ws_active s (wc_workspace c)"
    "resolve_task_in_scope c tid s = Inr t"
    by (rule task_locked_passes [OF ok l]) blast
  note caps = authority_capabilities(1-4) [OF ok c(4,3,5) _ c(6)]
  have r: "manages a \<Longrightarrow> can_review_workspace_deliverables c s"
    using caps(2) by (simp add: can_review_workspace_deliverables_def)
  have m: "comments_allowed a \<Longrightarrow> can_comment_on_task c s"
    using caps(2,4) by (auto simp: can_comment_on_task_def comments_allowed_def manages_def split: authority.splits)
  show "manages a \<Longrightarrow> \<exists>c. can_manage_workspace_tasks_permission (Some u) pid wid (Some tid) s = Inr (c, Some t)"
    using c(2,7) caps(2) by (simp add: can_manage_workspace_tasks_permission_def)
  show "a = Assigned WR_MEMBER \<Longrightarrow> \<exists>c. can_execute_workspace_tasks_permission (Some u) pid wid tid s = Inr (c, t)"
    and "manages a \<Longrightarrow> \<exists>c. can_review_workspace_deliverables_permission (Some u) pid wid tid s = Inr (c, t)"
    and "comments_allowed a \<Longrightarrow> \<exists>c. has_comment_access safe (Some u) pid wid tid s = Inr (c, t)"
    using c(1) caps(4) r m
    by (simp_all add: can_execute_workspace_tasks_permission_def can_review_workspace_deliverables_permission_def
        has_comment_access_def)
qed

text \<open>What a passed gate says of the arguments of the route.\<close>

lemma workspace_gate_values:
  "can_edit_workspace_metadata user pid wid s = Inr c \<Longrightarrow> has_workspace_read_access user pid wid s = Inr c"
  "can_manage_workspace_members_permission b user pid wid s = Inr c \<Longrightarrow> has_workspace_read_access user pid wid s = Inr c"
  "can_manage_workspace_lifecycle_permission user pid wid s = Inr c \<Longrightarrow> has_workspace_read_access user pid wid s = Inr c"
  "can_manage_workspace_tasks_permission user pid wid None s = Inr (c, x) \<Longrightarrow> has_workspace_read_access user pid wid s = Inr c"
  by (auto simp: permission_defs)

lemma task_gate_values:
  "can_manage_workspace_tasks_permission user pid wid (Some tid) s = Inr (c, x) \<Longrightarrow>
     \<exists>t. x = Some t \<and> has_task_read_access user pid wid tid s = Inr (c, t)"
  "can_execute_workspace_tasks_permission user pid wid tid s = Inr (c, t) \<Longrightarrow> has_task_read_access user pid wid tid s = Inr (c, t)"
  "can_review_workspace_deliverables_permission user pid wid tid s = Inr (c, t) \<Longrightarrow> has_task_read_access user pid wid tid s = Inr (c, t)"
  "has_comment_access safe user pid wid tid s = Inr (c, t) \<Longrightarrow> has_task_read_access user pid wid tid s = Inr (c, t)"
  by (auto simp: permission_defs)

subsection \<open>Each mutation mirrors its service\<close>

lemma guarded_Inr [simp]: "guarded (Inr c) k s = k c s"
  by (simp add: guarded_def)

lemma mirror_workspace_update:
  assumes ok: "db_ok s" and b: "strict_input [''name'', ''description''] body = Inr (n, d)"
  shows "mirrors (workspace_update tr (Some u) pid wid body s)
    (update_workspace (tr_env tr) u pid wid (some_setting n) d s) s"
  unfolding workspace_update_def mirrors_handled
proof (rule mirrors_guarded)
  show "\<exists>c. can_edit_workspace_metadata (Some u) pid wid s = Inr c"
    if "update_workspace (tr_env tr) u pid wid (some_setting n) d s = Inr (r, s')" for r s'
    using that by (rule update_workspace_D) (rule workspace_gates(1) [OF ok])
qed (auto simp: b dest!: workspace_gate_values workspace_access_values intro!: mirrors_called)

lemma mirror_workspace_lifecycle:
  assumes ok: "db_ok s" and b: "strict_input [] body = Inr ()"
  shows "mirrors (workspace_archive tr (Some u) pid wid body s)
      (set_workspace_status (tr_env tr) u pid wid (Val WS_ARCHIVED) s) s"
    "mirrors (workspace_restore tr (Some u) pid wid body s)
      (set_workspace_status (tr_env tr) u pid wid (Val WS_ACTIVE) s) s"
proof -
  have gate: "\<exists>c. can_manage_workspace_lifecycle_permission (Some u) pid wid s = Inr c"
    if "set_workspace_status (tr_env tr) u pid wid (Val st) s = Inr (r, s')" for st r s'
    using that by (rule set_workspace_status_D) (rule workspace_gates(4) [OF ok], auto)
  show "mirrors (workspace_archive tr (Some u) pid wid body s)
      (set_workspace_status (tr_env tr) u pid wid (Val WS_ARCHIVED) s) s"
    "mirrors (workspace_restore tr (Some u) pid wid body s)
      (set_workspace_status (tr_env tr) u pid wid (Val WS_ACTIVE) s) s"
    unfolding workspace_archive_def workspace_restore_def workspace_lifecycle_def mirrors_handled
      archive_workspace_def restore_workspace_def
    by (rule mirrors_guarded, erule gate,
      force simp: b dest!: workspace_gate_values workspace_access_values intro!: mirrors_called)+
qed

lemma mirror_member_create:
  assumes ok: "db_ok s" and b: "strict_input [''target_profile_membership_id'', ''role''] body = Inr (target, role)"
  shows "mirrors (member_create tr (Some u) pid wid body s)
    (add_workspace_member (tr_env tr) u pid wid (Val target) (Val role) s) s"
  unfolding member_create_def mirrors_handled
proof (rule mirrors_guarded)
  show "\<exists>c. can_manage_workspace_members_permission True (Some u) pid wid s = Inr c"
    if "add_workspace_member (tr_env tr) u pid wid (Val target) (Val role) s = Inr (r, s')" for r s'
  proof (cases r)
    case (Pair x re)
    from that [unfolded Pair] show ?thesis by (rule add_workspace_member_D) (rule workspace_gates(2) [OF ok])
  qed
qed (auto simp: b dest!: workspace_gate_values workspace_access_values intro!: mirrors_called)

text \<open>The roster of a manager holds every active row whose user is an active member of the Profile.\<close>

lemma manager_scope:
  assumes "is_current_workspace_context c s" "can_manage_workspace_members c s" "pc_role (wc_profile_context c) = PR_MEMBER"
  shows "holds_ws_role s (wc_user c) (wc_workspace c) WR_ADMIN"
proof -
  obtain a where a: "context_authority c = Some a" "has_authority s (wc_user c) (wc_profile c) (wc_workspace c) a"
    using is_current_D(2) [OF assms(1)] by blast
  from a(1) show ?thesis
  proof (cases rule: context_authority_cases)
    case (1 r)
    with assms(3) show ?thesis by (simp add: wc_profile_role_def)
  next
    case (2 r)
    with assms(2) have "r = WR_ADMIN" by (simp add: can_manage_workspace_members_def split: if_splits)
    with a(2) 2 show ?thesis by simp
  qed
qed

lemma roster_lists:
  assumes c: "is_current_workspace_context c s" "can_manage_workspace_members c s"
    and m: "m \<in> set (members s)" "wm_workspace m = wc_workspace c" "wm_is_active m" "is_assignable_role (wm_role m)"
    and p: "active_member s (wc_profile c) (wm_user m)"
  shows "\<exists>x. get_membership c (Val (wm_id m)) s = Inr x"
proof -
  let ?pc = "wc_profile_context c"
  let ?ms = "active_profile_memberships (pc_profile ?pc) (wm_user m) s"
  note C = is_current_D [OF c(1)]
  have "?ms \<noteq> []"
    using p by (auto simp: active_profile_memberships_def active_member_def wc_profile_def filter_empty_conv)
  then obtain pm where pm: "first_by pm_id (\<lambda>_. True) ?ms = Some pm"
    using first_by_ex [of "hd ?ms" ?ms "\<lambda>_. True" pm_id] by auto
  have scope: "pc_role ?pc = PR_MEMBER \<longrightarrow> (\<exists>wm\<in>set (members s). wm_workspace wm = wc_workspace c
      \<and> wm_user wm = pc_user ?pc \<and> wm_is_active wm \<and> wm_role wm = WR_ADMIN)"
    using manager_scope [OF c] by (auto simp: holds_ws_role_def wc_user_def)
  have join: "membership_join ?pc (pc_role ?pc) s" "\<exists>w\<in>set (workspaces s). w_id w = wc_workspace c
      \<and> w_profile w = Some (pc_profile ?pc)"
    using C(3,4) by (auto simp: wc_profile_role_def in_tenant_def wc_profile_def)
  define row where "row = (m, pm_id pm, \<exists>x\<in>set ?ms. pm_role x = PR_MEMBER)"
  let ?rows = "List.map_filter (\<lambda>wm. if wm_workspace wm = wc_workspace c \<and> wm_is_active wm \<and> is_assignable_role (wm_role wm)
      then let ms = active_profile_memberships (pc_profile ?pc) (wm_user wm) s in
        map_option (\<lambda>m. (wm, pm_id m, \<exists>x\<in>set ms. pm_role x = PR_MEMBER)) (first_by pm_id (\<lambda>_. True) ms)
      else None) (members s)"
  have rows: "workspace_members_visible_to_managers c s = Inr ?rows"
    unfolding workspace_members_visible_to_managers_def Let_def using c(2) scope join by simp
  have "row \<in> set ?rows"
    unfolding List.map_filter_def using m pm
    by (auto simp: row_def Let_def intro!: image_eqI [of _ _ m])
  from scoped_get_ex [OF this, of "\<lambda>(m, _). wm_id m"] rows show ?thesis
    by (simp add: get_membership_def row_def)
qed

lemma member_gate:
  assumes ok: "db_ok s" and l: "locked u pid wid s a w p" "manages a" "ws_active s (w_id w)"
    and m: "m \<in> set (members s)" "wm_workspace m = w_id w" "wm_is_active m" "active_member s p (wm_user m)"
      "within_ceiling a (wm_role m)"
  obtains c x where "can_manage_workspace_members_permission True (Some u) pid wid s = Inr c"
    "get_membership c (Val (wm_id m)) s = Inr x"
proof -
  obtain c where g: "can_manage_workspace_members_permission True (Some u) pid wid s = Inr c"
    using workspace_gates(2) [OF ok l] by blast
  then have c: "has_workspace_read_access (Some u) pid wid s = Inr c" "can_manage_workspace_members c s"
    by (auto simp: can_manage_workspace_members_permission_def can_mutate_workspace_members_def)
  note v = workspace_access_values [OF c(1)]
  have "is_assignable_role (wm_role m)" using m(5) l(2) by (cases a; cases "wm_role m") (auto split: if_splits)
  moreover have "wm_workspace m = wc_workspace c" "active_member s (wc_profile c) (wm_user m)"
    using v m(2,4) l(1) by (simp_all add: locked_def)
  ultimately obtain x where "get_membership c (Val (wm_id m)) s = Inr x"
    using roster_lists [of c s m] v c(2) m(1,3) by blast
  with g show ?thesis by (rule that)
qed

lemma mirror_member_update:
  assumes ok: "db_ok s" and b: "strict_input [''role''] body = Inr role"
  shows "mirrors (member_update tr (Some u) pid wid mid body s)
    (update_workspace_member (tr_env tr) u pid wid mid (Val role) s) s"
  unfolding member_update_def mirrors_handled
proof (rule mirrors_guarded)
  let ?m = "update_workspace_member (tr_env tr) u pid wid mid (Val role) s"
  have gate: "\<exists>c x. can_manage_workspace_members_permission True (Some u) pid wid s = Inr c
      \<and> get_membership c mid s = Inr x" if "?m = Inr (r, s')" for r s'
    using that by (rule update_workspace_member_D) (use member_gate [OF ok] in metis)
  show "\<exists>c. can_manage_workspace_members_permission True (Some u) pid wid s = Inr c" if "?m = Inr (r, s')" for r s'
    using gate [OF that] by blast
  fix c assume c: "can_manage_workspace_members_permission True (Some u) pid wid s = Inr c"
  show "mirrors (guarded (get_membership c mid s) (\<lambda>(m, i, _). guarded (strict_input [''role''] body) (\<lambda>role.
     called (update_workspace_member (tr_env tr) (the (Some u)) (Val (wc_profile c)) (Val (wc_workspace c))
         (Val (wm_id m)) (Val role) s)
       (\<lambda>x s'. answered 200 (read_member (tr_full_name tr) None i x s') s'))) s) ?m s"
  proof (rule mirrors_guarded)
    show "\<exists>x. get_membership c mid s = Inr x" if "?m = Inr (r, s')" for r s'
      using gate [OF that] c by auto
  qed (use c in \<open>auto simp: b get_membership_def dest!: workspace_gate_values workspace_access_values scoped_get_D
      intro!: mirrors_called\<close>)
qed

lemma mirror_member_delete:
  assumes ok: "db_ok s"
  shows "mirrors (member_delete tr (Some u) pid wid mid s) (revoke_workspace_member (tr_env tr) u pid wid mid s) s"
  unfolding member_delete_def mirrors_handled
proof (rule mirrors_guarded)
  let ?m = "revoke_workspace_member (tr_env tr) u pid wid mid s"
  have gate: "\<exists>c x. can_manage_workspace_members_permission True (Some u) pid wid s = Inr c
      \<and> get_membership c mid s = Inr x" if "?m = Inr (r, s')" for r s'
    using that by (rule revoke_workspace_member_D) (use member_gate [OF ok] in metis)
  show "\<exists>c. can_manage_workspace_members_permission True (Some u) pid wid s = Inr c" if "?m = Inr (r, s')" for r s'
    using gate [OF that] by blast
  fix c assume c: "can_manage_workspace_members_permission True (Some u) pid wid s = Inr c"
  show "mirrors (guarded (get_membership c mid s) (\<lambda>(m, _, _).
     called (revoke_workspace_member (tr_env tr) (the (Some u)) (Val (wc_profile c)) (Val (wc_workspace c))
         (Val (wm_id m)) s) (\<lambda>_. answered 204 ())) s) ?m s"
  proof (rule mirrors_guarded)
    show "\<exists>x. get_membership c mid s = Inr x" if "?m = Inr (r, s')" for r s'
      using gate [OF that] c by auto
  qed (use c in \<open>auto simp: get_membership_def answered_def dest!: workspace_gate_values workspace_access_values scoped_get_D
      intro!: mirrors_called\<close>)
qed

subsection \<open>Tasks\<close>

lemma mirror_task_create:
  assumes ok: "db_ok s" and b: "strict_input task_fields body = Inr d"
  shows "mirrors (task_create tr (Some u) pid wid body s)
    (create_task (tr_env tr) u pid wid (Some (tcd_title d)) (set_or (tcd_description d) None) (Val (tcd_priority d))
       (Val (set_or (tcd_deadline d) None)) (map_option Val (set_or (tcd_parent_id d) None)) s) s"
    (is "mirrors _ ?m s")
  unfolding task_create_def mirrors_handled
proof (rule mirrors_guarded)
  show "\<exists>cx. can_manage_workspace_tasks_permission (Some u) pid wid None s = Inr cx" if "?m = Inr (r, s')" for r s'
    using that by (rule create_task_D) (use workspace_gates(3) [OF ok] in blast)
qed (auto simp: b dest!: workspace_gate_values workspace_access_values intro!: mirrors_called)

lemma mirror_task_update:
  assumes ok: "db_ok s" and b: "strict_input task_fields body = Inr d"
  shows "mirrors (task_update tr (Some u) pid wid tid body s)
    (update_task (tr_env tr) u pid wid tid (some_setting (tud_title d)) (tud_description d)
       (map_setting Val (tud_priority d)) (map_setting Val (tud_deadline d))
       (map_setting (map_option Val) (tud_parent_id d)) s) s" (is "mirrors _ ?m s")
  unfolding task_update_def mirrors_handled
proof (rule mirrors_guarded)
  show "\<exists>cx. can_manage_workspace_tasks_permission (Some u) pid wid (Some tid) s = Inr cx" if "?m = Inr (r, s')" for r s'
    using that by (rule update_task_D) (use task_gates(1) [OF ok] in blast)
qed (auto simp: b or_not_found_def dest!: task_gate_values task_access_values [OF ok] intro!: mirrors_called)

lemma status_rows_pk: "lookup_pk t_id i (status_rows env t st ts) = None \<longleftrightarrow> lookup_pk t_id i ts = None"
proof -
  have "map t_id (status_rows env t st ts) = map t_id ts"
    by (simp add: status_rows_def map_update_where)
  then have "t_id ` set (status_rows env t st ts) = t_id ` set ts" by (metis set_map)
  then show ?thesis unfolding lookup_pk_None by blast
qed

text \<open>The Task a service worked on is still there when its answer is written.\<close>

lemma task_survives:
  assumes "task_locked u pid wid tid s au w p t" "tasks s3 = status_rows env t st (tasks s)"
    "logged u i act s3 s4" "notified e et t' us s4 s'"
  shows "\<exists>x. lookup_pk t_id (t_id t) (tasks s') = Some x"
proof -
  have "tasks s' = status_rows env t st (tasks s)"
    using assms(2) logged_tables [OF assms(3)] notified_tables [OF assms(4)] by simp
  moreover have "lookup_pk t_id (t_id t) (tasks s) \<noteq> None"
    using assms(1) by (auto simp: task_locked_def)
  ultimately show ?thesis using status_rows_pk by (metis not_None_eq)
qed

lemma assigned_task_survives:
  assumes "assign_task env u pid wid tid target s = Inr (a, s')"
  shows "\<exists>x. lookup_pk t_id (ta_task a) (tasks s') = Some x"
  using assms
proof (rule assign_task_D)
  fix t s3 s4 k active m w p au
  assume l: "task_locked u pid wid tid s au w p t" and a: "ta_task a = t_id t"
    and s3: "s3 = s\<lparr>assignments := taken_rows env (t_id t) (pm_user m) (released_rows env active (assignments s)),
        tasks := status_rows env t TS_ASSIGNED (tasks s)\<rparr>"
    and lg: "logged u (ta_id a) (if active = None then ''task.assigned'' else ''task.reassigned'') s3 s4"
    and n: "notified (e_uuid env k) TASK_ASSIGNED (t_id t) (event_users u (w_id w) s) s4 s'"
  show ?thesis using task_survives [OF l _ lg n, of env TS_ASSIGNED] s3 a by simp
qed

lemma mirror_task_assign:
  assumes ok: "db_ok s" and b: "strict_input [''target_profile_membership_id''] body = Inr target"
  shows "mirrors (task_assign tr (Some u) pid wid tid body s) (assign_task (tr_env tr) u pid wid tid (Val target) s) s"
    (is "mirrors _ ?m s")
  unfolding task_assign_def mirrors_handled
proof (rule mirrors_guarded)
  show "\<exists>cx. can_manage_workspace_tasks_permission (Some u) pid wid (Some tid) s = Inr cx" if "?m = Inr (r, s')" for r s'
    using that by (rule assign_task_D) (use task_gates(1) [OF ok] in blast)
qed (auto simp: b answered_def dest!: task_gate_values task_access_values [OF ok] assigned_task_survives intro!: mirrors_called)

lemma mirror_task_start:
  assumes ok: "db_ok s" and b: "strict_input [] body = Inr ()"
  shows "mirrors (task_start tr (Some u) pid wid tid body s) (start_task (tr_env tr) u pid wid tid s) s"
    (is "mirrors _ ?m s")
  unfolding task_start_def mirrors_handled
proof (rule mirrors_guarded)
  show "\<exists>cx. can_execute_workspace_tasks_permission (Some u) pid wid tid s = Inr cx" if "?m = Inr (r, s')" for r s'
    using that by (rule start_task_D) (use task_gates(2) [OF ok] in blast)
qed (auto simp: b dest!: task_gate_values task_access_values [OF ok] intro!: mirrors_called)

lemma submitted_answered:
  assumes "submit_deliverable env u pid wid tid url s = Inr (d, s')"
  shows "\<exists>code' body. answered_deliverable code sc d s' = (Inr (code', body), s')"
  using assms
proof (rule submit_deliverable_D)
  fix w p t x s2 s3
  assume l: "task_locked u pid wid tid s (Assigned WR_MEMBER) w p t"
    and d: "d = new_deliverable env (t_id t) url u (latest_revision (t_id t) s + 1)"
    and s2: "s2 = s\<lparr>deliverables := deliverables s @ [d], tasks := status_rows env t TS_REVIEW (tasks s)\<rparr>"
    and lg: "logged u (d_id d) ''task.deliverable.submitted'' s2 s3"
    and n: "notified (e_uuid env 1) REVIEW_SUBMITTED (t_id t) (event_users u (w_id w) s) s3 s'"
  have "d_task d = t_id t" using d by (simp add: new_deliverable_def)
  with task_survives [OF l _ lg n, of env TS_REVIEW] s2 show ?thesis
    by (auto simp: answered_deliverable_def answered_def)
qed

lemma mirror_deliverable_submit:
  assumes ok: "db_ok s" and b: "strict_input [''file_url''] body = Inr url"
  shows "mirrors (deliverable_submit tr (Some u) pid wid tid body s)
    (submit_deliverable (tr_env tr) u pid wid tid (Some url) s) s" (is "mirrors _ ?m s")
  unfolding deliverable_submit_def mirrors_handled
proof (rule mirrors_guarded)
  show "\<exists>cx. can_execute_workspace_tasks_permission (Some u) pid wid tid s = Inr cx" if "?m = Inr (r, s')" for r s'
    using that by (rule submit_deliverable_D) (use task_gates(2) [OF ok] in blast)
qed (auto simp: b dest!: task_gate_values task_access_values [OF ok] intro!: mirrors_called intro: submitted_answered)

lemma visible_deliverables_eq:
  assumes "db_ok s" "has_task_read_access user pid wid tid s = Inr (c, t)"
  shows "visible_deliverables c (t_id t) s = Inr (filter (\<lambda>d. d_task d = t_id t) (deliverables s))"
proof -
  note v = task_access_values [OF assms]
  then have "t_id t \<in> t_id ` {x \<in> set (tasks s). t_workspace x = wc_workspace c}" by blast
  with v show ?thesis by (simp add: visible_deliverables_def tasks_visible [OF assms(1)])
qed

lemma reviewed_answered:
  assumes "review_deliverable env u pid wid tid did rst txt s = Inr (r, s')"
  shows "\<exists>code body. answered_review sc r s' = (Inr (code, body), s')"
  using assms
proof (rule review_deliverable_D)
  fix au w p t and d :: deliverable and dst tst action et s3 s4
  let ?rows = "update_where (\<lambda>x. d_id x = d_id d) (decide_deliverable env dst) (deliverables s)"
  let ?d = "decide_deliverable env dst d"
  assume l: "task_locked u pid wid tid s au w p t" and d: "d \<in> set (deliverables s)" "d_task d = t_id t"
    and r: "r = new_review env (d_id d) u rst txt" and ok: "deliverables_ok ?rows"
    and s3: "s3 = s\<lparr>reviews := reviews s @ [r], deliverables := ?rows, tasks := status_rows env t tst (tasks s)\<rparr>"
    and lg: "logged u (r_id r) action s3 s4"
    and n: "notified (e_uuid env 1) et (t_id t) (event_users u (w_id w) s) s4 s'"
  have "?d \<in> set ?rows" using d(1) by (force simp: in_update_where)
  with ok have "lookup_pk d_id (d_id ?d) ?rows = Some ?d" by (simp add: lookup_pk_eq deliverables_ok_def)
  moreover have "deliverables s' = ?rows" using s3 logged_tables [OF lg] notified_tables [OF n] by simp
  ultimately have "lookup_pk d_id (r_deliverable r) (deliverables s') = Some ?d"
    using r by (simp add: new_review_def decide_deliverable_def)
  moreover have "\<exists>code' body. answered_deliverable 200 sc ?d s' = (Inr (code', body), s')"
    using task_survives [OF l _ lg n, of env tst] s3 d(2)
    by (auto simp: answered_deliverable_def answered_def decide_deliverable_def)
  ultimately show ?thesis by (simp add: answered_review_def)
qed

lemma mirror_review:
  assumes ok: "db_ok s" and b: "strict_input [''comment''] body = Inr v"
    and svc: "\<And>r s'. service u pid wid tid did v s = Inr (r, s') \<Longrightarrow>
      \<exists>rst cm. review_deliverable env u pid wid tid did rst cm s = Inr (r, s')"
  shows "mirrors (deliverable_review service (Some u) pid wid tid did body s) (service u pid wid tid did v s) s"
    (is "mirrors _ ?m s")
  unfolding deliverable_review_def mirrors_handled
proof (rule mirrors_guarded)
  have gate: "\<exists>c t d. can_review_workspace_deliverables_permission (Some u) pid wid tid s = Inr (c, t)
      \<and> d \<in> set (deliverables s) \<and> d_task d = t_id t \<and> did = Val (d_id d)" if m: "?m = Inr (r, s')" for r s'
  proof -
    from svc [OF m] obtain rst cm where "review_deliverable env u pid wid tid did rst cm s = Inr (r, s')" by blast
    then show ?thesis by (rule review_deliverable_D) (use task_gates(3) [OF ok] in blast)
  qed
  show "\<exists>cx. can_review_workspace_deliverables_permission (Some u) pid wid tid s = Inr cx" if "?m = Inr (r, s')" for r s'
    using gate [OF that] by blast
  fix cx assume cx: "can_review_workspace_deliverables_permission (Some u) pid wid tid s = Inr cx"
  obtain c t where ct: "cx = (c, t)" by (cases cx)
  note g = task_gate_values(3) [OF cx [unfolded ct]]
  note v = task_access_values [OF ok g]
  let ?rows = "filter (\<lambda>d. d_task d = t_id t) (deliverables s)"
  have inner: "mirrors (guarded (scoped_get d_id did ?rows) (\<lambda>d. guarded (strict_input [''comment''] body) (\<lambda>v.
      called (service u (Val (wc_profile c)) (Val (wc_workspace c)) (Val (t_id t)) (Val (d_id d)) v s) k)) s) ?m s"
    if k: "\<And>r s'. ?m = Inr (r, s') \<Longrightarrow> \<exists>code body. k r s' = (Inr (code, body), s')" for k :: "review \<Rightarrow> db \<Rightarrow> 'b answer"
  proof (rule mirrors_guarded)
    fix r s' assume "?m = Inr (r, s')"
    from gate [OF this] cx ct obtain d where "d \<in> set ?rows" "did = Val (d_id d)" by auto
    then show "\<exists>d. scoped_get d_id did ?rows = Inr d" using scoped_get_ex [of d ?rows d_id] by simp
  qed (use v b k in \<open>auto dest!: scoped_get_D intro!: mirrors_called\<close>)
  have "\<exists>code body. answered_review (get_serializer_context (Some u) c s) r s' = (Inr (code, body), s')" if "?m = Inr (r, s')" for r s'
    using svc [OF that] reviewed_answered by blast
  from inner [OF this] show "mirrors ((case cx of (c, t) \<Rightarrow> guarded (resolved (visible_deliverables c (t_id t) s)) (\<lambda>rows.
     guarded (scoped_get d_id did rows) (\<lambda>d.
     guarded (strict_input [''comment''] body) (\<lambda>v.
     called (service (the (Some u)) (Val (wc_profile c)) (Val (wc_workspace c)) (Val (t_id t)) (Val (d_id d)) v s)
       (answered_review (get_serializer_context (Some u) c s)))))) s) ?m s"
    by (simp add: ct visible_deliverables_eq [OF ok g] resolved_def)
qed

lemma mirror_approve:
  assumes "db_ok s" "strict_input [''comment''] body = Inr v"
  shows "mirrors (deliverable_approve tr (Some u) pid wid tid did body s)
    (approve_deliverable (tr_env tr) u pid wid tid did (set_or v None) s) s"
  unfolding deliverable_approve_def
  by (rule mirror_review [OF assms, where service = "\<lambda>a p w t d c. approve_deliverable (tr_env tr) a p w t d (set_or c None)"])
    (blast dest: approve_is_review)

lemma mirror_request_changes:
  assumes "db_ok s" "strict_input [''comment''] body = Inr v"
  shows "mirrors (deliverable_request_changes tr (Some u) pid wid tid did body s)
    (request_deliverable_changes (tr_env tr) u pid wid tid did (Some v) s) s"
  unfolding deliverable_request_changes_def
  by (rule mirror_review [OF assms, where service = "\<lambda>a p w t d c. request_deliverable_changes (tr_env tr) a p w t d (Some c)"])
    (blast dest: request_changes_is_review)

subsection \<open>Comments\<close>

lemma mirror_comment_create:
  assumes ok: "db_ok s" and b: "comment_write_input body = Inr content"
  shows "mirrors (comment_create tr (Some u) pid wid tid body s)
    (create_comment (tr_env tr) u pid wid tid (Val content) s) s" (is "mirrors _ ?m s")
  unfolding comment_create_def mirrors_handled
proof (rule mirrors_guarded)
  show "\<exists>cx. has_comment_access False (Some u) pid wid tid s = Inr cx" if "?m = Inr (r, s')" for r s'
    using that by (rule create_comment_D) (use task_gates(4) [OF ok] in blast)
qed (auto simp: b answered_comment_def dest!: task_gate_values task_access_values [OF ok] intro!: mirrors_called)

lemma comment_found:
  assumes ok: "db_ok s" and t: "has_task_read_access user pid wid tid s = Inr (c, t)"
  shows "x \<in> set (comments s) \<Longrightarrow> tc_task x = t_id t \<Longrightarrow> \<exists>m. get_comment c t (Val (tc_id x)) s = Inr (x, m)"
    "get_comment c t i s = Inr (x, m) \<Longrightarrow> i = Val (tc_id x) \<and> x \<in> set (comments s)"
proof -
  note v = task_access_values [OF ok t]
  have vis: "t_id t \<in> t_id ` {x \<in> set (tasks s). t_workspace x = wc_workspace c}" using v by blast
  define f where "f x = map_option pm_id (first_by (\<lambda>m. (pm_joined_at m, pm_id m))
      (\<lambda>m. pm_profile m = wc_profile c \<and> pm_user m = tc_user x \<and> user_active s (pm_user m) \<and> pm_is_active m)
      (memberships s))" for x :: task_comment
  have f: "comments_visible_to c (t_id t) s
      = Inr (map (\<lambda>x. (x, f x)) (filter (\<lambda>x. tc_task x = t_id t) (comments s)))"
    using v vis by (simp add: comments_visible_to_def tasks_visible [OF ok] f_def)
  have d: "distinct (map tc_id (comments s))" using db_okD(7) [OF ok] by (simp add: comments_ok_def)
  show "i = Val (tc_id x) \<and> x \<in> set (comments s)" if "get_comment c t i s = Inr (x, m)"
    using that f by (auto simp: get_comment_def or_not_found_def dest!: scoped_get_D)
  show "\<exists>m. get_comment c t (Val (tc_id x)) s = Inr (x, m)" if x: "x \<in> set (comments s)" "tc_task x = t_id t"
  proof -
    let ?rows = "map (\<lambda>x. (x, f x)) (filter (\<lambda>x. tc_task x = t_id t) (comments s))"
    have "distinct (map (\<lambda>(x, _). tc_id x) ?rows)" using d by (simp add: comp_def distinct_map_filter)
    from scoped_get_I [OF this, of "(x, f x)"] x f show ?thesis by (simp add: get_comment_def or_not_found_def)
  qed
qed

lemma mirror_comment_update:
  assumes ok: "db_ok s" and b: "comment_write_input body = Inr content"
  shows "mirrors (comment_update tr (Some u) pid wid tid i body s)
    (update_comment (tr_env tr) u pid wid tid i (Val content) s) s" (is "mirrors _ ?m s")
  unfolding comment_update_def mirrors_handled
proof (rule mirrors_guarded)
  have gate: "\<exists>c t x m. has_comment_access False (Some u) pid wid tid s = Inr (c, t)
      \<and> get_comment c t i s = Inr (x, m) \<and> tc_user x = u" if "?m = Inr (r, s')" for r s'
    using that
  proof (rule update_comment_D)
    fix a w p t x
    assume l: "task_locked u pid wid tid s a w p t" "comments_allowed a" and x: "x \<in> set (comments s)"
      "i = Val (tc_id x)" "tc_task x = t_id t" "tc_user x = u"
    obtain c where c: "has_comment_access False (Some u) pid wid tid s = Inr (c, t)"
      using task_gates(4) [OF ok l] by blast
    with comment_found(1) [OF ok task_gate_values(4) [OF c] x(1,3)] x(2,4) show ?thesis by blast
  qed
  show "\<exists>cx. has_comment_access False (Some u) pid wid tid s = Inr cx" if "?m = Inr (r, s')" for r s'
    using gate [OF that] by blast
  fix cx assume cx: "has_comment_access False (Some u) pid wid tid s = Inr cx"
  obtain c t where ct: "cx = (c, t)" by (cases cx)
  note g = task_gate_values(4) [OF cx [unfolded ct]]
  show "mirrors ((case cx of (c, t) \<Rightarrow> guarded (get_comment c t i s) (\<lambda>(x, _).
     guarded (require (Some (tc_user x) = Some u) (Service PermissionDenied) (Inr ())) (\<lambda>_.
     guarded (comment_write_input body) (\<lambda>content.
     called (update_comment (tr_env tr) (the (Some u)) (Val (wc_profile c)) (Val (wc_workspace c)) (Val (t_id t))
         (Val (tc_id x)) (Val content) s)
       (answered_comment 200 (get_serializer_context (Some u) c s) t))))) s) ?m s"
    unfolding ct prod.case
  proof (rule mirrors_guarded)
    show "\<exists>xm. get_comment c t i s = Inr xm" if "?m = Inr (r, s')" for r s'
      using gate [OF that] cx ct by auto
    fix xm assume xm: "get_comment c t i s = Inr xm"
    obtain x m where "xm = (x, m)" by (cases xm)
    with xm gate cx ct comment_found(2) [OF ok g, of i x m] task_access_values [OF ok g] b
    show "mirrors ((case xm of (x, _) \<Rightarrow>
       guarded (require (Some (tc_user x) = Some u) (Service PermissionDenied) (Inr ())) (\<lambda>_.
       guarded (comment_write_input body) (\<lambda>content.
       called (update_comment (tr_env tr) (the (Some u)) (Val (wc_profile c)) (Val (wc_workspace c)) (Val (t_id t))
           (Val (tc_id x)) (Val content) s)
         (answered_comment 200 (get_serializer_context (Some u) c s) t)))) s) ?m s"
      by (auto simp: answered_comment_def intro!: mirrors_guarded mirrors_called)
  qed
qed

lemma mirror_comment_delete:
  assumes ok: "db_ok s" and b: "strict_input [] body = Inr ()"
  shows "mirrors (comment_delete tr (Some u) pid wid tid i body s)
    (delete_comment (tr_env tr) u pid wid tid i s) s" (is "mirrors _ ?m s")
  unfolding comment_delete_def mirrors_handled
proof (rule mirrors_guarded)
  have gate: "\<exists>c t xm. has_comment_access False (Some u) pid wid tid s = Inr (c, t)
      \<and> get_comment c t i s = Inr xm" if "?m = Inr (r, s')" for r s'
    using that
  proof (rule delete_comment_D)
    fix a w p t x
    assume l: "task_locked u pid wid tid s a w p t" "comments_allowed a" and x: "x \<in> set (comments s)"
      "i = Val (tc_id x)" "tc_task x = t_id t"
    obtain c where c: "has_comment_access False (Some u) pid wid tid s = Inr (c, t)"
      using task_gates(4) [OF ok l] by blast
    with comment_found(1) [OF ok task_gate_values(4) [OF c] x(1,3)] x(2) show ?thesis by blast
  qed
  show "\<exists>cx. has_comment_access False (Some u) pid wid tid s = Inr cx" if "?m = Inr (r, s')" for r s'
    using gate [OF that] by blast
  fix cx assume cx: "has_comment_access False (Some u) pid wid tid s = Inr cx"
  obtain c t where ct: "cx = (c, t)" by (cases cx)
  note g = task_gate_values(4) [OF cx [unfolded ct]]
  show "mirrors ((case cx of (c, t) \<Rightarrow> guarded (get_comment c t i s) (\<lambda>(x, _).
     guarded (strict_input [] body) (\<lambda>_.
     called (delete_comment (tr_env tr) (the (Some u)) (Val (wc_profile c)) (Val (wc_workspace c)) (Val (t_id t))
         (Val (tc_id x)) s) (\<lambda>_. answered 204 ())))) s) ?m s"
    unfolding ct prod.case
  proof (rule mirrors_guarded)
    show "\<exists>xm. get_comment c t i s = Inr xm" if "?m = Inr (r, s')" for r s'
      using gate [OF that] cx ct by auto
  qed (use b task_access_values [OF ok g] comment_found(2) [OF ok g] in
      \<open>auto simp: answered_def intro!: mirrors_called\<close>)
qed

end
