(* ===== verification/Api_Hints.thy ===== *)
theory Api_Hints
  imports Api_Theorems Task_Theorems
begin

text \<open>
  The capability hints of the read serializers against the requests they announce, and the lists
  against the details: what a prefetching list computes for a row is what its detail shows.
\<close>

subsection \<open>Answers that are no exception\<close>

definition accepted :: "'a answer \<Rightarrow> bool" where
  "accepted ans \<longleftrightarrow> (case fst ans of Inl _ \<Rightarrow> False | Inr _ \<Rightarrow> True)"

lemma accepted_simps [simp]:
  "accepted (handled h ans) \<longleftrightarrow> accepted ans"
  "accepted (guarded g k s) \<longleftrightarrow> (\<exists>c. g = Inr c \<and> accepted (k c s))"
  "accepted (called m k s) \<longleftrightarrow> (\<exists>r s'. m = Inr (r, s') \<and> accepted (k r s'))"
  "accepted (answered code body s)"
  by (auto simp: accepted_def handled_def guarded_def called_def answered_def split: sum.splits)

lemma mirrors_accepted: "mirrors ans m s \<Longrightarrow> accepted ans \<longleftrightarrow> (\<exists>r s'. m = Inr (r, s'))"
  by (auto simp: mirrors_def accepted_def split: sum.splits)

definition empty_body :: "unit body" where
  "empty_body = \<lparr>b_keys = None, b_fields = Inr ()\<rparr>"

lemma empty_body_accepted [simp]: "strict_input [] empty_body = Inr ()"
  by (simp add: empty_body_def strict_input_def)

lemma handled_answered [simp]: "handled h (answered code body s) = answered code body s"
  by (simp add: handled_def answered_def)

subsection \<open>The active assignment\<close>

lemma filter_first_by:
  assumes "distinct xs" "\<And>x y. x \<in> set xs \<Longrightarrow> P x \<Longrightarrow> y \<in> set xs \<Longrightarrow> P y \<Longrightarrow> x = y"
  shows "filter P xs = (case first_by k P xs of None \<Rightarrow> [] | Some x \<Rightarrow> [x])"
proof (cases "first_by k P xs")
  case (Some x)
  note x = first_by_Some_in [OF Some]
  then have "set (filter P xs) = {x}" using assms(2) by auto
  moreover have "distinct (filter P xs)" using assms(1) by simp
  ultimately have "filter P xs = [x]" by (metis distinct_singleton distinct_card card.empty card_insert_disjoint
    finite.emptyI empty_iff length_Suc_conv length_0_conv list.set_intros(1) singletonD)
  with Some show ?thesis by simp
next
  case None
  then have "filter P xs = []" by (simp add: filter_empty_conv)
  with None show ?thesis by (simp del: first_by_None)
qed

lemma one_active_assignment:
  assumes "db_ok s" "x \<in> set (assignments s)" "y \<in> set (assignments s)" "ta_task x = ta_task y"
    "ta_is_active x" "ta_is_active y"
  shows "x = y"
  using db_okD(6) [OF assms(1)] assms(2-)
  by (auto simp: assignments_ok_def intro: distinct_map_filter_eq [of ta_task ta_is_active])

lemma tenant_profile:
  assumes "db_ok s" "in_tenant s w p"
  shows "workspace_profile w s = Some p"
proof -
  obtain x where x: "x \<in> set (workspaces s)" "w_id x = w" "w_profile x = Some p"
    using assms(2) by (auto simp: in_tenant_def)
  have "first_by w_id (\<lambda>y. w_id y = w) (workspaces s) = Some x"
    using x workspace_pk_unique [OF db_okD(3) [OF assms(1)]] by (intro first_by_unique) auto
  with x show ?thesis by (simp add: workspace_profile_def lookup_pk_def)
qed

lemma prefetched_is_loaded:
  assumes ok: "db_ok s" and c: "is_current_workspace_context c s" "t_workspace t = wc_workspace c"
  shows "prefetched_assignments c t s = loaded_assignments t s"
proof -
  have "distinct (map ta_id (assignments s))" using db_okD(6) [OF ok] by (simp add: assignments_ok_def)
  then have "distinct (assignments s)" by (rule distinct_of_map)
  note f = filter_first_by [OF this, of "\<lambda>a. ta_task a = t_id t \<and> ta_is_active a"]
  have "workspace_profile (t_workspace t) s = Some (wc_profile c)"
    using tenant_profile [OF ok is_current_D(4) [OF c(1)]] c(2) by simp
  moreover have "filter (\<lambda>a. ta_task a = t_id t \<and> ta_is_active a) (assignments s) =
      (case first_by (\<lambda>a. (- ta_assigned_at a, - int (ta_id a))) (\<lambda>a. ta_task a = t_id t \<and> ta_is_active a)
        (assignments s) of None \<Rightarrow> [] | Some a \<Rightarrow> [a])"
    using one_active_assignment [OF ok] by (intro f) auto
  ultimately show ?thesis
    by (simp add: prefetched_assignments_def loaded_assignments_def del: first_by_None split: option.split)
qed

lemma assigned_iff:
  assumes ok: "db_ok s"
  shows "assigned_to_requester (loaded_assignments t s) c \<longleftrightarrow>
    (\<exists>x\<in>set (assignments s). ta_task x = t_id t \<and> ta_user x = wc_user c \<and> ta_is_active x)"
proof (cases "first_by (\<lambda>a. (- ta_assigned_at a, - int (ta_id a))) (\<lambda>a. ta_task a = t_id t \<and> ta_is_active a)
    (assignments s)")
  case (Some a)
  with first_by_Some_in [OF Some] one_active_assignment [OF ok, of _ a] show ?thesis
    by (auto simp: assigned_to_requester_def loaded_assignments_def)
next
  case None
  then have "assigned_to_requester (loaded_assignments t s) c \<longleftrightarrow> False"
    by (simp add: assigned_to_requester_def loaded_assignments_def del: first_by_None)
  with None show ?thesis by auto
qed

subsection \<open>Hints of a Task\<close>

lemma own_context_allows:
  "user_active s u \<Longrightarrow> wc_user c = u \<Longrightarrow> context_allows f (get_serializer_context (Some u) c s) s = f c s"
  by (simp add: context_allows_def get_serializer_context_def)

lemma sc_access_own [simp]: "sc_access (get_serializer_context user c s) = Some c"
  by (simp add: get_serializer_context_def)

lemma reader_facts:
  assumes ok: "db_ok s" and c: "has_task_read_access (Some u) pid wid tid s = Inr (c, t)"
  shows "pid = Val (wc_profile c)" "wid = Val (wc_workspace c)" "tid = Val (t_id t)" "wc_user c = u"
    "user_active s u" "is_current_workspace_context c s" "t \<in> set (tasks s)" "t_workspace t = wc_workspace c"
    "resolve_task_in_scope c tid s = Inr t" "has_workspace_read_access (Some u) pid wid s = Inr c"
proof -
  note v = task_access_values [OF ok c]
  then show "wc_user c = u" by simp
  from v show "pid = Val (wc_profile c)" "wid = Val (wc_workspace c)" "tid = Val (t_id t)"
    "is_current_workspace_context c s" "t \<in> set (tasks s)" "t_workspace t = wc_workspace c"
    "resolve_task_in_scope c tid s = Inr t"
    by blast+
  from v show "has_workspace_read_access (Some u) pid wid s = Inr c" by (rule conjunct1)
  then show "user_active s u" by (rule workspace_access_D) simp
qed

lemma executes_iff:
  assumes "db_ok s" "is_current_workspace_context c s"
  shows "can_execute_workspace_tasks c s \<longleftrightarrow> context_authority c = Some (Assigned WR_MEMBER)
    \<and> profile_active (wc_profile c) s \<and> ws_active s (wc_workspace c)"
  using assms(2) by (auto simp: can_execute_workspace_tasks_def context_authority_Assigned active_state_iff [OF assms(1)])

lemma can_start_iff:
  assumes ok: "db_ok s" and c: "has_task_read_access (Some u) pid wid tid s = Inr (c, t)"
  shows "can_start (get_serializer_context (Some u) c s) (loaded_assignments t s) t s \<longleftrightarrow>
    context_authority c = Some (Assigned WR_MEMBER) \<and> profile_active (wc_profile c) s
    \<and> startable s u (wc_workspace c) (t_id t)"
proof -
  note r = reader_facts [OF ok c]
  have "(\<exists>t'\<in>set (tasks s). t_id t' = t_id t \<and> t_workspace t' = wc_workspace c \<and> t_status t' = TS_ASSIGNED)
      \<longleftrightarrow> t_status t = TS_ASSIGNED"
    using r(7,8) task_pk_unique [OF db_okD(5) [OF ok]] by metis
  with r show ?thesis
    by (auto simp: can_start_def execution_allowed_def own_context_allows executes_iff [OF ok] assigned_iff [OF ok]
        startable_def)
qed

lemma task_detail_answer:
  assumes "db_ok s"
  shows "task_detail user pid wid tid s = (Inr (code, v), s') \<longleftrightarrow> code = 200 \<and> s' = s
    \<and> (\<exists>c t. has_task_read_access user pid wid tid s = Inr (c, t)
         \<and> v = read_task (get_serializer_context user c s) t s)"
proof (cases "has_task_read_access user pid wid tid s")
  case (Inr ct)
  obtain c t where "ct = (c, t)" by (cases ct)
  with Inr task_access_values [OF assms, of user pid wid tid c t] show ?thesis
    by (auto simp: task_detail_def answered_def handled_def or_not_found_def)
qed (auto simp: task_detail_def guarded_def handled_def)

text \<open>
  C31. A start button works. In a reachable database, the detail of a Task offers its reader to start
  it exactly when the start request of the same reader on the same route would succeed then, given
  that the identifier drawn for the audit record is fresh.
\<close>

theorem start_hint_exact:
  assumes "reachable s" "task_detail (Some u) pid wid tid s = (Inr (code, v), s')"
    and "e_uuid (tr_env tr) 0 \<notin> al_id ` set (audit_logs s)"
  shows "tv_can_start v \<longleftrightarrow> accepted (task_start tr (Some u) pid wid tid empty_body s)"
proof -
  have ok: "db_ok s" using constraints.always [OF assms(1)] .
  obtain c t where c: "has_task_read_access (Some u) pid wid tid s = Inr (c, t)"
    and v: "v = read_task (get_serializer_context (Some u) c s) t s"
    using assms(2) by (auto simp: task_detail_answer [OF ok])
  note r = reader_facts [OF ok c]
  have hint: "tv_can_start v \<longleftrightarrow> context_authority c = Some (Assigned WR_MEMBER)
      \<and> profile_active (wc_profile c) s \<and> startable s u (wc_workspace c) (t_id t)"
    using can_start_iff [OF ok c] by (simp add: v read_task_def read_task_with_def)
  obtain a where a: "context_authority c = Some a" "has_authority s u (wc_profile c) (wc_workspace c) a"
    using is_current_D(2) [OF r(6)] r(4) by blast
  have "accepted (task_start tr (Some u) pid wid tid empty_body s) \<longleftrightarrow>
      (\<exists>t' s'. start_task (tr_env tr) u (Val (wc_profile c)) (Val (wc_workspace c)) (Val (t_id t)) s = Inr (t', s'))"
    using mirrors_accepted [OF mirror_task_start [OF ok empty_body_accepted]] r(1-3) by simp
  with hint a started_D [OF ok a(2)] started_authority start_succeeds [OF assms(1) _ _ _ assms(3)] show ?thesis
    by (metis option.inject)
qed

lemma start_hint_exact_witness:
  "\<exists>s v. reachable s \<and> task_detail (Some 3) (Val 1000) (Val 2000) (Val 8000) s = (Inr (200, v), s) \<and> tv_can_start v"
proof -
  obtain s s' where re: "reachable s" and ex: "exec (fst (story ! 9)) (snd (story ! 9)) s = Inr s'"
    by (rule story_at [of 9]) simp_all
  have ok: "db_ok s" using constraints.always [OF re] .
  from ex obtain t' where st: "start_task (env_at 10) 3 (Val 1000) (Val 2000) (Val 8000) s = Inr (t', s')"
    by (auto simp: story_def)
  let ?tr = "\<lparr>tr_env = env_at 10, tr_claim_env = env_at 10, tr_finish_env = env_at 10, tr_smtp = None,
    tr_throttled = False, tr_full_name = \<lambda>_. [], tr_paginator = \<lambda>p _ _. Some (0, rp_page_size p)\<rparr>"
  have a: "accepted (task_start ?tr (Some 3) (Val 1000) (Val 2000) (Val 8000) empty_body s)"
    using mirrors_accepted [OF mirror_task_start [OF ok empty_body_accepted]] st by simp
  then obtain c t where "has_task_read_access (Some 3) (Val 1000) (Val 2000) (Val 8000) s = Inr (c, t)"
    by (auto simp: task_start_def dest: task_gate_values)
  then have d: "task_detail (Some 3) (Val 1000) (Val 2000) (Val 8000) s
      = (Inr (200, read_task (get_serializer_context (Some 3) c s) t s), s)"
    using task_detail_answer [OF ok] by blast
  have "e_uuid (tr_env ?tr) 0 \<notin> al_id ` set (audit_logs s)"
    using started_D [OF ok conjunct1 [OF started_authority [OF st]] st] by simp
  from start_hint_exact [OF re d this] a re d show ?thesis by blast
qed

text \<open>A request that succeeds, and what the representation read just before it says.\<close>

lemma submit_offered:
  assumes ok: "db_ok s" and a: "accepted (deliverable_submit tr (Some u) pid wid tid b s)"
  shows "\<exists>v. task_detail (Some u) pid wid tid s = (Inr (200, v), s) \<and> tv_can_submit v"
proof -
  obtain c t url d s' where g: "can_execute_workspace_tasks_permission (Some u) pid wid tid s = Inr (c, t)"
    and m: "submit_deliverable (tr_env tr) u (Val (wc_profile c)) (Val (wc_workspace c)) (Val (t_id t)) (Some url) s
      = Inr (d, s')"
    using a by (auto simp: deliverable_submit_def)
  note c = task_gate_values(2) [OF g] and r = reader_facts [OF ok task_gate_values(2) [OF g]]
  have "can_execute_workspace_tasks c s"
    using g by (auto simp: can_execute_workspace_tasks_permission_def)
  moreover from m have "t_status t = TS_WORKING \<and> \<not> has_unresolved_deliverable t s
      \<and> (\<exists>x\<in>set (assignments s). ta_task x = t_id t \<and> ta_user x = u \<and> ta_is_active x)"
  proof (rule submit_deliverable_D)
    fix w p x y
    assume l: "task_locked u (Val (wc_profile c)) (Val (wc_workspace c)) (Val (t_id t)) s (Assigned WR_MEMBER) w p x"
      and y: "y \<in> set (assignments s)" "ta_task y = t_id x" "ta_user y = u" "ta_is_active y"
      and st: "t_status x = TS_WORKING"
      and un: "\<And>e. e \<in> set (deliverables s) \<Longrightarrow> d_task e = t_id x \<Longrightarrow> d_status e \<in> {DS_APPROVED, DS_REJECTED}"
    have "x = t" using l r(7) task_pk_unique [OF db_okD(5) [OF ok]] by (auto simp: task_locked_def)
    with y st un show ?thesis by (fastforce simp: has_unresolved_deliverable_def)
  qed
  ultimately have "can_submit (get_serializer_context (Some u) c s) (loaded_assignments t s) t s"
    using r by (simp add: can_submit_def execution_allowed_def own_context_allows assigned_iff [OF ok])
  with c show ?thesis
    by (auto simp: task_detail_answer [OF ok] read_task_def read_task_with_def)
qed

lemma review_offered:
  assumes ok: "db_ok s" and a: "accepted (deliverable_review service (Some u) pid wid tid did b s)"
    and svc: "\<And>p w t d v r s'. service u p w t d v s = Inr (r, s') \<Longrightarrow>
      \<exists>rst cm. review_deliverable env u p w t d rst cm s = Inr (r, s')"
  shows "\<exists>vs. deliverable_rows (Some u) pid wid tid s = (Inr (200, vs), s)
    \<and> (\<exists>v\<in>set vs. Val (dv_id v) = did \<and> dv_can_approve v \<and> dv_can_request_changes v)"
proof -
  obtain c t rows d v q s' where g: "can_review_workspace_deliverables_permission (Some u) pid wid tid s = Inr (c, t)"
    and rows: "visible_deliverables c (t_id t) s = Inr rows" and d: "scoped_get d_id did rows = Inr d"
    and m: "service u (Val (wc_profile c)) (Val (wc_workspace c)) (Val (t_id t)) (Val (d_id d)) v s = Inr (q, s')"
    using a by (auto simp: deliverable_review_def)
  note c = task_gate_values(3) [OF g] and r = reader_facts [OF ok task_gate_values(3) [OF g]]
  have can: "can_review_workspace_deliverables c s"
    using g by (auto simp: can_review_workspace_deliverables_permission_def)
  note D = scoped_get_D [OF d]
  have rows': "rows = filter (\<lambda>d. d_task d = t_id t) (deliverables s)"
    using rows visible_deliverables_eq [OF ok c] by simp
  have dd: "distinct (map d_id (deliverables s))" using db_okD(8) [OF ok] by (simp add: deliverables_ok_def)
  obtain rst cm where "review_deliverable env u (Val (wc_profile c)) (Val (wc_workspace c)) (Val (t_id t))
      (Val (d_id d)) rst cm s = Inr (q, s')" using svc [OF m] by blast
  then have "t_status t = TS_REVIEW \<and> d_status d = DS_SUBMITTED \<and> d_uploaded_by d \<noteq> u
      \<and> map_option d_id (latest_deliverable (t_id t) s) = Some (d_id d) \<and> first_review d s = None"
  proof (rule review_deliverable_D)
    fix au w p x and e :: deliverable
    assume l: "task_locked u (Val (wc_profile c)) (Val (wc_workspace c)) (Val (t_id t)) s au w p x"
      and e: "Val (d_id d) = Val (d_id e)" "e \<in> set (deliverables s)" "d_status e = DS_SUBMITTED" "d_uploaded_by e \<noteq> u"
        "case latest_deliverable (t_id x) s of None \<Rightarrow> False | Some l \<Rightarrow> d_id l = d_id e"
        "\<forall>r\<in>set (reviews s). r_deliverable r \<noteq> d_id e"
      and st: "t_status x = TS_REVIEW"
    have "x = t" using l r(7) task_pk_unique [OF db_okD(5) [OF ok]] by (auto simp: task_locked_def)
    moreover have "e = d" using e(1,2) D rows' distinct_map_eq [OF dd] by simp
    ultimately show ?thesis using e st by (auto simp: first_review_def split: option.splits)
  qed
  then have "can_review (get_serializer_context (Some u) c s) t d s"
    using r can by (simp add: can_review_def review_allowed_def own_context_allows)
  then have "dv_can_approve (read_deliverable (get_serializer_context (Some u) c s) (Some (wc_profile c)) t d s)
      \<and> dv_can_request_changes (read_deliverable (get_serializer_context (Some u) c s) (Some (wc_profile c)) t d s)
      \<and> Val (dv_id (read_deliverable (get_serializer_context (Some u) c s) (Some (wc_profile c)) t d s)) = did"
    using D by (simp add: read_deliverable_def)
  moreover have "deliverable_rows (Some u) pid wid tid s = (Inr (200, map (\<lambda>d. read_deliverable
      (get_serializer_context (Some u) c s) (Some (wc_profile c)) t d s) (sort_key (\<lambda>d. (d_created_at d, d_id d)) rows)), s)"
    using c rows by (simp add: deliverable_rows_def resolved_def answered_def handled_def)
  ultimately show ?thesis using D by auto
qed

lemma comment_detail_answer:
  assumes "has_comment_access True user pid wid tid s = Inr (c, t)" "get_comment c t i s = Inr (x, m)"
  shows "comment_detail user pid wid tid i s = (Inr (200, read_comment (get_serializer_context user c s) m t x s), s)"
  using assms by (simp add: comment_detail_def answered_def handled_def)

text \<open>What a passed write permission of a comment says of its hints.\<close>

lemma comment_gate:
  assumes ok: "db_ok s" and g: "has_comment_access False (Some u) pid wid tid s = Inr (c, t)"
    and x: "get_comment c t i s = Inr (x, m)"
  shows "has_comment_access True (Some u) pid wid tid s = Inr (c, t)" "i = Val (tc_id x)" "x \<in> set (comments s)"
    "can_mutate_comment (get_serializer_context (Some u) c s) t x s \<longleftrightarrow> tc_deleted_at x = None"
    "requester_wrote (get_serializer_context (Some u) c s) x \<longleftrightarrow> tc_user x = u"
    "moderation_allowed (get_serializer_context (Some u) c s) s \<longleftrightarrow> can_manage_workspace_tasks c s"
proof -
  note r = reader_facts [OF ok task_gate_values(4) [OF g]]
  have can: "can_comment_on_task c s" using g by (auto simp: has_comment_access_def)
  then have allowed: "comment_allowed (get_serializer_context (Some u) c s) s"
    using r by (simp add: comment_allowed_def own_context_allows)
  show "has_comment_access True (Some u) pid wid tid s = Inr (c, t)"
    using g by (auto simp: has_comment_access_def)
  show "i = Val (tc_id x)" "x \<in> set (comments s)"
    using comment_found(2) [OF ok task_gate_values(4) [OF g] x] by simp_all
  show "can_mutate_comment (get_serializer_context (Some u) c s) t x s \<longleftrightarrow> tc_deleted_at x = None"
    "requester_wrote (get_serializer_context (Some u) c s) x \<longleftrightarrow> tc_user x = u"
    "moderation_allowed (get_serializer_context (Some u) c s) s \<longleftrightarrow> can_manage_workspace_tasks c s"
    using allowed r by (auto simp: can_mutate_comment_def requester_wrote_def moderation_allowed_def)
qed

lemma comment_pk_unique: "db_ok s \<Longrightarrow> x \<in> set (comments s) \<Longrightarrow> y \<in> set (comments s) \<Longrightarrow> tc_id x = tc_id y \<Longrightarrow> x = y"
  using distinct_map_eq [of tc_id "comments s"] db_okD(7) [of s] by (simp add: comments_ok_def)

lemma edit_offered:
  assumes ok: "db_ok s" and a: "accepted (comment_update tr (Some u) pid wid tid i b s)"
  shows "\<exists>v. comment_detail (Some u) pid wid tid i s = (Inr (200, v), s) \<and> cv_can_edit v"
proof -
  obtain c t x m content y s' where g: "has_comment_access False (Some u) pid wid tid s = Inr (c, t)"
    and x: "get_comment c t i s = Inr (x, m)" and own: "tc_user x = u"
    and up: "update_comment (tr_env tr) u (Val (wc_profile c)) (Val (wc_workspace c)) (Val (t_id t))
      (Val (tc_id x)) (Val content) s = Inr (y, s')"
    using a by (auto simp: comment_update_def)
  note C = comment_gate [OF ok g x]
  from up have "tc_deleted_at x = None"
    by (rule update_comment_D) (use C(3) comment_pk_unique [OF ok] in auto)
  then show ?thesis
    using comment_detail_answer [OF C(1) x] C(4,5) own by (auto simp: read_comment_def can_edit_comment_def)
qed

lemma deletion_offered:
  assumes ok: "db_ok s" and a: "accepted (comment_delete tr (Some u) pid wid tid i b s)"
  shows "\<exists>v. comment_detail (Some u) pid wid tid i s = (Inr (200, v), s) \<and> (cv_can_delete v \<or> cv_is_deleted v)"
proof -
  obtain c t x m y s' where g: "has_comment_access False (Some u) pid wid tid s = Inr (c, t)"
    and x: "get_comment c t i s = Inr (x, m)"
    and del: "delete_comment (tr_env tr) u (Val (wc_profile c)) (Val (wc_workspace c)) (Val (t_id t))
      (Val (tc_id x)) s = Inr (y, s')"
    using a by (auto simp: comment_delete_def)
  note C = comment_gate [OF ok g x] and r = reader_facts [OF ok task_gate_values(4) [OF g]]
  from del have "tc_user x = u \<or> can_manage_workspace_tasks c s"
  proof (rule delete_comment_D)
    fix au w p z e
    assume l: "task_locked u (Val (wc_profile c)) (Val (wc_workspace c)) (Val (t_id t)) s au w p z"
      and e: "e \<in> set (comments s)" "Val (tc_id x) = Val (tc_id e)" "tc_user e = u \<or> manages au"
    have "e = x" using e(1,2) C(3) comment_pk_unique [OF ok] by simp
    moreover obtain cx where "can_manage_workspace_tasks_permission (Some u) pid wid (Some tid) s = Inr (cx, Some z)"
      if "manages au" using task_gates(1) [OF ok l] r(1-3) by auto
    then have "manages au \<Longrightarrow> can_manage_workspace_tasks c s"
      using r(10) by (auto simp: can_manage_workspace_tasks_permission_def)
    ultimately show ?thesis using e(3) by blast
  qed
  then show ?thesis
    using comment_detail_answer [OF C(1) x] C(4,5,6) by (auto simp: read_comment_def can_delete_comment_def)
qed

text \<open>
  C32. The interface hides no action that would succeed. In a reachable database, if a submission of a
  Deliverable, an approval or a request for changes, an edit or a deletion of a comment succeeds,
  then the representation the same reader gets just before offers it: \<open>can_submit\<close> of the Task,
  \<open>can_approve\<close> and \<open>can_request_changes\<close> of the Deliverable, among the rows of which the list
  answers pages, \<open>can_edit\<close> or \<open>can_delete\<close> of the comment (deleting a tombstone again is accepted
  and not offered).
\<close>

theorem hints_hide_nothing:
  assumes "reachable s"
  shows "(accepted (deliverable_submit tr (Some u) pid wid tid url s) \<longrightarrow>
      (\<exists>v. task_detail (Some u) pid wid tid s = (Inr (200, v), s) \<and> tv_can_submit v))
    \<and> (accepted (deliverable_approve tr (Some u) pid wid tid did note s)
        \<or> accepted (deliverable_request_changes tr (Some u) pid wid tid did reason s) \<longrightarrow>
      (\<exists>vs. deliverable_rows (Some u) pid wid tid s = (Inr (200, vs), s)
        \<and> (\<exists>v\<in>set vs. Val (dv_id v) = did \<and> dv_can_approve v \<and> dv_can_request_changes v)))
    \<and> (accepted (comment_update tr (Some u) pid wid tid cid text s) \<longrightarrow>
      (\<exists>v. comment_detail (Some u) pid wid tid cid s = (Inr (200, v), s) \<and> cv_can_edit v))
    \<and> (accepted (comment_delete tr (Some u) pid wid tid cid nothing s) \<longrightarrow>
      (\<exists>v. comment_detail (Some u) pid wid tid cid s = (Inr (200, v), s) \<and> (cv_can_delete v \<or> cv_is_deleted v)))"
proof -
  have ok: "db_ok s" using constraints.always [OF assms] .
  have "\<exists>vs. deliverable_rows (Some u) pid wid tid s = (Inr (200, vs), s)
      \<and> (\<exists>v\<in>set vs. Val (dv_id v) = did \<and> dv_can_approve v \<and> dv_can_request_changes v)"
    if "accepted (deliverable_approve tr (Some u) pid wid tid did note s)"
    using that unfolding deliverable_approve_def by (rule review_offered [OF ok]) (blast dest: approve_is_review)
  moreover have "\<exists>vs. deliverable_rows (Some u) pid wid tid s = (Inr (200, vs), s)
      \<and> (\<exists>v\<in>set vs. Val (dv_id v) = did \<and> dv_can_approve v \<and> dv_can_request_changes v)"
    if "accepted (deliverable_request_changes tr (Some u) pid wid tid did reason s)"
    using that unfolding deliverable_request_changes_def
    by (rule review_offered [OF ok]) (blast dest: request_changes_is_review)
  ultimately show ?thesis
    by (intro conjI impI) (erule submit_offered [OF ok] edit_offered [OF ok] deletion_offered [OF ok]
        | erule disjE | assumption | blast)+
qed

lemma hints_hide_nothing_witness:
  "\<exists>s v. reachable s \<and> task_detail (Some 3) (Val 1000) (Val 2000) (Val 8000) s = (Inr (200, v), s) \<and> tv_can_submit v"
proof -
  obtain s s' where re: "reachable s" and ex: "exec (fst (story ! 10)) (snd (story ! 10)) s = Inr s'"
    by (rule story_at [of 10]) simp_all
  let ?url = "[104, 116, 116, 112, 58, 47, 47, 120, 46, 121]"
  let ?tr = "\<lparr>tr_env = env_at 11, tr_claim_env = env_at 11, tr_finish_env = env_at 11, tr_smtp = None,
    tr_throttled = False, tr_full_name = \<lambda>_. [], tr_paginator = \<lambda>p _ _. Some (0, rp_page_size p)\<rparr>"
  let ?b = "\<lparr>b_keys = Some [Val (ascii ''file_url'')], b_fields = Inr ?url\<rparr>"
  from ex obtain d where d: "submit_deliverable (env_at 11) 3 (Val 1000) (Val 2000) (Val 8000) (Some ?url) s = Inr (d, s')"
    by (auto simp: story_def)
  have "strict_input [''file_url''] ?b = Inr ?url"
    by (simp add: strict_input_def field_name_ok_def utf8_encodable_def ascii_def)
  from mirrors_accepted [OF mirror_deliverable_submit [OF constraints.always [OF re] this]] d
  have "accepted (deliverable_submit ?tr (Some 3) (Val 1000) (Val 2000) (Val 8000) ?b s)" by simp
  with hints_hide_nothing [OF re] re show ?thesis by blast
qed

subsection \<open>Lists and details\<close>

text \<open>
  The order a client asked for: by the field, up or down; a Task without a value comes after those
  with one in both directions; the identifier decides ties.
\<close>

fun ordered_field :: "ordering \<Rightarrow> order_field" where
  "ordered_field (Ascending f) = f"
| "ordered_field (Descending f) = f"

fun comes_first :: "ordering \<Rightarrow> int \<Rightarrow> int \<Rightarrow> bool" where
  "comes_first (Ascending f) x y \<longleftrightarrow> x < y"
| "comes_first (Descending f) x y \<longleftrightarrow> y < x"

definition precedes :: "ordering \<Rightarrow> task \<Rightarrow> task \<Rightarrow> bool" where
  "precedes o' a b \<longleftrightarrow> (case (order_value (ordered_field o') a, order_value (ordered_field o') b) of
     (Some x, Some y) \<Rightarrow> comes_first o' x y \<or> x = y \<and> t_id a < t_id b
   | (Some _, None) \<Rightarrow> True
   | (None, Some _) \<Rightarrow> False
   | (None, None) \<Rightarrow> t_id a < t_id b)"

lemma order_key_precedes: "order_key o' a < order_key o' b \<longleftrightarrow> precedes o' a b"
  by (cases o') (auto simp: precedes_def split: option.splits)

lemma order_key_id: "order_key o' a = order_key o' b \<Longrightarrow> t_id a = t_id b"
  by (cases o') simp_all

lemma order_key_strict:
  assumes "distinct (map t_id ts)"
  shows "sorted_wrt (precedes o') (sort_key (order_key o') ts)"
proof -
  let ?xs = "sort_key (order_key o') ts"
  have "distinct ts" using assms by (rule distinct_of_map)
  moreover have "inj_on (order_key o') (set ts)"
    using distinct_map_eq [OF assms] order_key_id by (intro inj_onI) metis
  ultimately have "distinct (map (order_key o') ?xs)" by (simp add: distinct_map)
  then have "sorted_wrt (<) (map (order_key o') ?xs)" by (simp add: strict_sorted_iff)
  then show ?thesis by (simp add: sorted_wrt_map order_key_precedes)
qed

lemma tasks_distinct: "db_ok s \<Longrightarrow> distinct (map t_id (tasks s))"
  using db_okD(5) [of s] by (simp add: tasks_ok_def)

lemma task_rows_exact:
  assumes "db_ok s" "task_rows (Some u) pid wid (Inr q) s = (Inr (code, vs), s')"
  shows "code = 200 \<and> s' = s
    \<and> (\<exists>ts. map tv_id vs = map t_id ts
        \<and> set ts = {t \<in> set (tasks s). wid = Val (t_workspace t) \<and> matches_query q t}
        \<and> sorted_wrt (precedes (tq_ordering q)) ts)
    \<and> (\<forall>v\<in>set vs. task_detail (Some u) pid wid (Val (tv_id v)) s = (Inr (200, v), s))"
proof -
  note ok = assms(1)
  obtain c where c: "has_workspace_read_access (Some u) pid wid s = Inr c"
    using assms(2) by (cases "has_workspace_read_access (Some u) pid wid s")
      (auto simp: task_rows_def guarded_def handled_def)
  note v = workspace_access_values [OF c]
  then have cur: "is_current_workspace_context c s" by simp
  let ?own = "filter (\<lambda>t. t_workspace t = wc_workspace c) (tasks s)"
  define ts where "ts = sort_key (order_key (tq_ordering q)) (filter (matches_query q) ?own)"
  have f: "filtered_tasks c (Inr q) ?own s = Inr ts \<and> code = 200 \<and> s' = s \<and> vs = listed_tasks (Some u) c ts s"
    using assms(2) c
    by (cases "validate_task_query q"; cases "filtered_tasks c (Inr q) ?own s")
      (auto simp: task_rows_def tasks_visible [OF ok cur] resolved_def handled_def answered_def guarded_def
        filtered_tasks_def task_query_input_def ts_def validate_task_query_def split: if_splits option.splits)
  have set: "set ts = {t \<in> set (tasks s). wid = Val (t_workspace t) \<and> matches_query q t}"
    using v by (auto simp: ts_def)
  have "sorted_wrt (precedes (tq_ordering q)) ts"
    unfolding ts_def using tasks_distinct [OF ok] by (intro order_key_strict) (simp add: distinct_map_filter)
  moreover have "map tv_id vs = map t_id ts"
    using f by (simp add: listed_tasks_def read_task_with_def)
  moreover have "task_detail (Some u) pid wid (Val (t_id t)) s =
      (Inr (200, read_task_with (get_serializer_context (Some u) c s) (prefetched_assignments c t s) t s), s)"
    if "t \<in> set ts" for t
  proof -
    have t: "t \<in> set (tasks s)" "t_workspace t = wc_workspace c" using that set v by auto
    then have "has_task_read_access (Some u) pid wid (Val (t_id t)) s = Inr (c, t)"
      using c resolve_task_iff [OF ok cur, of "Val (t_id t)" t] by (simp add: has_task_read_access_def)
    then show ?thesis
      using prefetched_is_loaded [OF ok cur t(2)] by (auto simp: task_detail_answer [OF ok] read_task_def)
  qed
  ultimately show ?thesis using f set
    by (intro conjI exI [of _ ts]) (auto simp: listed_tasks_def read_task_with_def)
qed

text \<open>
  C33. A page of a Task list is a slice of the Workspace's Tasks, and a row of it is the Task's detail.
  In any database that satisfies its constraints, as every reachable one does, the rows behind an
  answered page are exactly the Tasks of the Workspace that satisfy the filters of the query, each
  once, in the strict order of the requested field with absent deadlines last; the answer gives
  their number and those of them that the paginator of the framework, set to 20 rows and at most
  100, cuts out for the page; and each entry, hints included, is what the detail route answers the
  same reader for it.
\<close>

theorem task_list_exact:
  assumes "db_ok s" "task_list tr (Some u) pid wid (Inr q) params s = (Inr (code, pg), s')"
  shows "code = 200 \<and> s' = s
    \<and> (\<exists>ts k n. set ts = {t \<in> set (tasks s). wid = Val (t_workspace t) \<and> matches_query q t}
        \<and> sorted_wrt (precedes (tq_ordering q)) ts
        \<and> tr_paginator tr \<lparr>rp_page_size = 20, rp_page_size_query_param = ''page_size'', rp_max_page_size = 100\<rparr>
            params (length ts) = Some (k, n)
        \<and> page_count pg = length ts \<and> map tv_id (page_results pg) = map t_id (take n (drop k ts)))
    \<and> (\<forall>v\<in>set (page_results pg). task_detail (Some u) pid wid (Val (tv_id v)) s = (Inr (200, v), s))"
proof -
  obtain vs k n where r: "task_rows (Some u) pid wid (Inr q) s = (Inr (code, vs), s')"
    and p: "tr_paginator tr standard_pagination params (length vs) = Some (k, n)"
      "pg = \<lparr>page_count = length vs, page_results = take n (drop k vs)\<rparr>"
    using assms(2) by (auto simp: task_list_def paged_def split: prod.splits sum.splits option.splits)
  note R = task_rows_exact [OF assms(1) r]
  then obtain ts where ts: "map tv_id vs = map t_id ts" "set ts = {t \<in> set (tasks s). wid = Val (t_workspace t) \<and> matches_query q t}"
    "sorted_wrt (precedes (tq_ordering q)) ts"
    by blast
  have "length vs = length ts" using ts(1) by (rule map_eq_imp_length_eq)
  moreover have "map tv_id (take n (drop k vs)) = map t_id (take n (drop k ts))"
    using ts(1) by (simp flip: take_map drop_map)
  moreover have "set (take n (drop k vs)) \<subseteq> set vs" by (meson set_drop_subset set_take_subset subset_trans)
  ultimately show ?thesis using R ts(2,3) p
    by (intro conjI exI [of _ ts] exI [of _ k] exI [of _ n]) (auto simp: standard_pagination_def)
qed

text \<open>A paginator that has everything on one page, for the witness.\<close>

definition one_page :: transport where
  "one_page = \<lparr>tr_env = env_at 0, tr_claim_env = env_at 0, tr_finish_env = env_at 0, tr_smtp = None,
     tr_throttled = False, tr_full_name = \<lambda>_. [], tr_paginator = \<lambda>_ _ total. Some (0, total)\<rparr>"

lemma task_list_exact_witness:
  "\<exists>s vs v. reachable s \<and> v \<in> set vs \<and> tv_id v = 8000
     \<and> task_list one_page (Some 3) (Val 1000) (Val 2000) (Inr \<lparr>tq_status = Some TS_ASSIGNED, tq_priority = None,
         tq_parent_id = None, tq_root_only = False, tq_deadline_before = None, tq_deadline_after = None,
         tq_ordering = Descending BY_PRIORITY\<rparr>) [] s = (Inr (200, \<lparr>page_count = length vs, page_results = vs\<rparr>), s)
     \<and> task_detail (Some 3) (Val 1000) (Val 2000) (Val 8000) s = (Inr (200, v), s)"
proof -
  let ?q = "\<lparr>tq_status = Some TS_ASSIGNED, tq_priority = None, tq_parent_id = None, tq_root_only = False,
    tq_deadline_before = None, tq_deadline_after = None, tq_ordering = Descending BY_PRIORITY\<rparr>"
  obtain s s' where re: "reachable s" and ex: "exec (fst (story ! 9)) (snd (story ! 9)) s = Inr s'"
    by (rule story_at [of 9]) simp_all
  have ok: "db_ok s" using constraints.always [OF re] .
  from ex obtain t' where st: "start_task (env_at 10) 3 (Val 1000) (Val 2000) (Val 8000) s = Inr (t', s')"
    by (auto simp: story_def)
  have a: "has_authority s 3 1000 2000 (Assigned WR_MEMBER)" using started_authority [OF st] by simp
  obtain t where t: "t \<in> set (tasks s)" "t_id t = 8000" "t_workspace t = 2000" "t_status t = TS_ASSIGNED"
    using started_D [OF ok a st] by (auto simp: startable_def)
  obtain c where c: "has_workspace_read_access (Some 3) (Val 1000) (Val 2000) s = Inr c"
    using workspace_access_I [OF ok a] by blast
  then have cur: "is_current_workspace_context c s" using workspace_access_values by blast
  obtain vs where l: "task_list one_page (Some 3) (Val 1000) (Val 2000) (Inr ?q) [] s
      = (Inr (200, \<lparr>page_count = length vs, page_results = vs\<rparr>), s)"
    using c by (simp add: task_list_def task_rows_def paged_def one_page_def tasks_visible [OF ok cur] resolved_def filtered_tasks_def
        task_query_input_def validate_task_query_def answered_def handled_def)
  note L = task_list_exact [OF ok l]
  then obtain ts k n where ts: "map tv_id vs = map t_id (take n (drop k ts))" "length vs = length ts"
    "set ts = {t \<in> set (tasks s). Val 2000 = Val (t_workspace t) \<and> matches_query ?q t}"
    "tr_paginator one_page \<lparr>rp_page_size = 20, rp_page_size_query_param = ''page_size'', rp_max_page_size = 100\<rparr>
       [] (length ts) = Some (k, n)" by auto
  then have "map tv_id vs = map t_id ts" by (simp add: one_page_def)
  moreover have "t \<in> set ts" using t by (simp add: ts(3) matches_query_def)
  ultimately have "8000 \<in> set (map tv_id vs)" using t(2) by force
  then obtain v where v: "v \<in> set vs" "tv_id v = 8000" by auto
  with L have "task_detail (Some 3) (Val 1000) (Val 2000) (Val 8000) s = (Inr (200, v), s)" by auto
  with re v l show ?thesis by blast
qed

end
