(* ===== verification/Api_Proposals.thy ===== *)
theory Api_Proposals
  imports Api_Permissions Proposal_System
begin

text \<open>
  The transport of AI proposals, \<open>apps/ai/api.py\<close>: the bounded strict parser of bodies, the
  serializers that never echo an unknown key, the table of status codes, the idempotency header and
  the three views. What REST framework makes of the declared fields, once the checks of the
  serializer passed, is the argument \<open>declared\<close>.
\<close>

subsection \<open>Failures\<close>

datatype ai_failure =
    Refused api_exception
  | Unparsable
  | Failed ai_code "string list"
  | Crashed

text \<open>\<open>ProposalApiMixin.handle_exception\<close>: an \<open>AIError\<close> is answered, the rest goes to the tenant views.\<close>

fun ai_handle_exception :: "ai_error \<Rightarrow> ai_failure" where
  "ai_handle_exception (AIError code fs) = Failed code fs"
| "ai_handle_exception (Raised e) = Refused (handle_exception (Service e))"
| "ai_handle_exception RuntimeError = Crashed"

fun ai_code_status :: "ai_code \<Rightarrow> nat" where
  "ai_code_status AI_DISABLED = 503"
| "ai_code_status PERMISSION_DENIED = 403"
| "ai_code_status IDEMPOTENCY_CONFLICT = 409"
| "ai_code_status ALREADY_CONFIRMED = 409"
| "ai_code_status STALE_PROPOSAL = 409"
| "ai_code_status STALE_CONTEXT = 409"
| "ai_code_status EXPIRED = 410"
| "ai_code_status RECOVERY_EXPIRED = 410"
| "ai_code_status RATE_LIMITED = 429"
| "ai_code_status BUDGET_EXCEEDED = 429"
| "ai_code_status PROVIDER_UNAVAILABLE = 503"
| "ai_code_status PROVIDER_TIMEOUT = 504"
| "ai_code_status INVALID_PROVIDER_RESPONSE = 502"
| "ai_code_status VALIDATION_ERROR = 400"
| "ai_code_status CANCELLED = 400"
| "ai_code_status AI_REFUSED = 400"

fun ai_failure_status :: "ai_failure \<Rightarrow> nat" where
  "ai_failure_status (Refused e) = status_code e"
| "ai_failure_status Unparsable = 400"
| "ai_failure_status (Failed code _) = ai_code_status code"
| "ai_failure_status Crashed = 500"

subsection \<open>Bodies\<close>

text \<open>
  \<open>BoundedStrictJSONParser.parse\<close>: the body as decoded from UTF-8, \<open>Malformed\<close> when it does not
  decode. A request without a body has no data.
\<close>

definition max_request_body :: nat where
  "max_request_body = 32 * 1024"

definition parse_body :: "ptext arg option \<Rightarrow> ai_failure + jval" where
  "parse_body raw = (case raw of
     None \<Rightarrow> Inr (VObj [])
   | Some Malformed \<Rightarrow> Inl Unparsable
   | Some (Val t) \<Rightarrow>
       if utf8_length t > max_request_body then Inl Unparsable
       else (case loads t of None \<Rightarrow> Inl Unparsable | Some v \<Rightarrow> Inr v))"

definition safe_ai_input ::
  "string list \<Rightarrow> ((ptext \<times> jval) list \<Rightarrow> ptext set + 'v) \<Rightarrow> jval \<Rightarrow> ai_failure + 'v" where
  "safe_ai_input known declared data = (case data of
     VObj kvs \<Rightarrow>
       if list_all (\<lambda>(k, _). k \<in> ascii ` set known) kvs
       then (case declared kvs of Inl ks \<Rightarrow> Inl (Refused (Invalid ks)) | Inr v \<Rightarrow> Inr v)
       else Inl (Refused (Invalid {ascii ''non_field_errors''}))
   | _ \<Rightarrow> Inl (Refused (Invalid {ascii ''non_field_errors''})))"

text \<open>A declared field, when the data is a mapping that has it, must satisfy its type check.\<close>

definition field_typed :: "string \<Rightarrow> (jval \<Rightarrow> bool) \<Rightarrow> jval \<Rightarrow> ai_failure + unit" where
  "field_typed name ok data = (case data of
     VObj kvs \<Rightarrow> (case map_of kvs (ascii name) of
         None \<Rightarrow> Inr ()
       | Some v \<Rightarrow> if ok v then Inr () else Inl (Refused (Invalid {ascii name})))
   | _ \<Rightarrow> Inr ())"

definition generate_proposal_input ::
  "((ptext \<times> jval) list \<Rightarrow> ptext set + ptext) \<Rightarrow> jval \<Rightarrow> ai_failure + ptext" where
  "generate_proposal_input declared data =
     bindE (field_typed ''scenario_id'' (\<lambda>v. case v of VStr _ \<Rightarrow> True | _ \<Rightarrow> False) data) (\<lambda>_.
     safe_ai_input [''scenario_id''] declared data)"

text \<open>The validated revision, payload and confirmation.\<close>

definition confirm_proposal_input ::
  "((ptext \<times> jval) list \<Rightarrow> ptext set + jval \<times> jval \<times> jval) \<Rightarrow> jval \<Rightarrow> ai_failure + jval \<times> jval \<times> jval" where
  "confirm_proposal_input declared data =
     bindE (field_typed ''proposal_revision'' (\<lambda>v. case v of VInt _ \<Rightarrow> True | _ \<Rightarrow> False) data) (\<lambda>_.
     bindE (field_typed ''confirmed'' (\<lambda>v. v = VBool True) data) (\<lambda>_.
     bindE (field_typed ''payload'' (\<lambda>v. case v of VObj _ \<Rightarrow> True | _ \<Rightarrow> False) data) (\<lambda>_.
     safe_ai_input [''proposal_revision'', ''confirmed'', ''payload''] declared data)))"

text \<open>\<open>idempotency_key\<close>: the header, with what \<open>UUID(raw)\<close> makes of it.\<close>

definition idempotency_key_header :: "(ptext \<times> uuid arg) option \<Rightarrow> ai_failure + uuid" where
  "idempotency_key_header header =
    (let invalid = Refused (Invalid {ascii ''idempotency_key''}) in
     case header of
       None \<Rightarrow> Inl invalid
     | Some (raw, parsed) \<Rightarrow>
         if length raw > 64 then Inl invalid
         else (case parsed of Malformed \<Rightarrow> Inl invalid | Val u \<Rightarrow> Inr u))"

subsection \<open>Views\<close>

type_synonym 'a ai_answer = "(ai_failure + nat \<times> 'a) \<times> ai_state"

definition ai_permission :: "uuid option \<Rightarrow> uuid arg \<Rightarrow> uuid arg \<Rightarrow> db \<Rightarrow> ai_failure + unit" where
  "ai_permission user profile_id workspace_id s =
    (case can_manage_workspace_tasks_permission user profile_id workspace_id None s of
       Inl e \<Rightarrow> Inl (Refused (handle_exception e)) | Inr _ \<Rightarrow> Inr ())"

definition serialized :: "ai_env \<Rightarrow> nat \<Rightarrow> ai_proposal \<Rightarrow> ai_state \<Rightarrow> proposal_view ai_answer" where
  "serialized env code p s = (case serialize_proposal env p of
     Inl e \<Rightarrow> (Inl (ai_handle_exception e), s) | Inr v \<Rightarrow> (Inr (code, v), s))"

definition answered_proposal ::
  "ai_env \<Rightarrow> ai_error + ((ai_proposal \<times> bool) \<times> ai_state) \<Rightarrow> ai_state \<Rightarrow> proposal_view ai_answer" where
  "answered_proposal env m s = (case m of
     Inl e \<Rightarrow> (Inl (ai_handle_exception e), s)
   | Inr ((p, replayed), s') \<Rightarrow> serialized env (if replayed then 200 else 201) p s')"

text \<open>
  \<open>s0\<close> is what the permission and the first transaction read, \<open>s\<close> what the second transaction finds;
  \<open>throttled\<close> is the verdict of the two generation throttles.
\<close>

definition proposal_generate ::
  "ai_env \<Rightarrow> ai_env \<Rightarrow> ai_state \<Rightarrow> bool \<Rightarrow> ((ptext \<times> jval) list \<Rightarrow> ptext set + ptext) \<Rightarrow> uuid option \<Rightarrow> uuid arg
     \<Rightarrow> uuid arg \<Rightarrow> ptext arg option \<Rightarrow> (ptext \<times> uuid arg) option \<Rightarrow> ai_state \<Rightarrow> proposal_view ai_answer" where
  "proposal_generate env env' s0 throttled declared user profile_id workspace_id raw header s =
    (case bindE (ai_permission user profile_id workspace_id (ai_db s0)) (\<lambda>_.
       require (\<not> throttled) (Refused Throttled)
       (bindE (parse_body raw) (\<lambda>data.
        bindE (generate_proposal_input declared data) (\<lambda>scenario_id.
        bindE (idempotency_key_header header) (\<lambda>key. Inr (scenario_id, key)))))) of
       Inl e \<Rightarrow> (Inl e, s)
     | Inr (scenario_id, key) \<Rightarrow> answered_proposal env'
         (generate_proposal_at env env' s0 user profile_id workspace_id (Val scenario_id) (Val key) s) s)"

definition proposal_detail ::
  "ai_env \<Rightarrow> uuid option \<Rightarrow> uuid arg \<Rightarrow> uuid arg \<Rightarrow> uuid arg \<Rightarrow> ai_state \<Rightarrow> proposal_view ai_answer" where
  "proposal_detail env user profile_id workspace_id proposal_id s =
    (case ai_permission user profile_id workspace_id (ai_db s) of
       Inl e \<Rightarrow> (Inl e, s)
     | Inr _ \<Rightarrow> (case retrieve_proposal env user profile_id workspace_id proposal_id s of
           Inl e \<Rightarrow> (Inl (ai_handle_exception e), s)
         | Inr p \<Rightarrow> serialized env 200 p s))"

definition proposal_confirm ::
  "ai_env \<Rightarrow> ((ptext \<times> jval) list \<Rightarrow> ptext set + jval \<times> jval \<times> jval) \<Rightarrow> uuid option \<Rightarrow> uuid arg \<Rightarrow> uuid arg
     \<Rightarrow> uuid arg \<Rightarrow> ptext arg option \<Rightarrow> (ptext \<times> uuid arg) option \<Rightarrow> ai_state \<Rightarrow> proposal_view ai_answer option" where
  "proposal_confirm env declared user profile_id workspace_id proposal_id raw header s =
    (case bindE (ai_permission user profile_id workspace_id (ai_db s)) (\<lambda>_.
       bindE (parse_body raw) (\<lambda>data.
       bindE (confirm_proposal_input declared data) (\<lambda>vals.
       bindE (idempotency_key_header header) (\<lambda>key. Inr (vals, key))))) of
       Inl e \<Rightarrow> Some (Inl e, s)
     | Inr ((revision, payload, confirmed), key) \<Rightarrow> map_option (\<lambda>m. answered_proposal env m s)
         (confirm_proposal env user profile_id workspace_id proposal_id (Val key) revision payload confirmed s))"

subsection \<open>Routes\<close>

text \<open>
  The routes of \<open>apps/ai/urls.py\<close> with their methods, path arguments, bodies and idempotency headers.
  What such a request draws from outside: the environment, the verdict of the generation throttles
  and of the declared fields of the two serializers.
\<close>

record proposal_transport =
  pt_env :: ai_env
  pt_throttled :: bool
  pt_generate_fields :: "(ptext \<times> jval) list \<Rightarrow> ptext set + ptext"
  pt_confirm_fields :: "(ptext \<times> jval) list \<Rightarrow> ptext set + jval \<times> jval \<times> jval"

datatype proposal_request =
    PostProposal "uuid arg" "uuid arg" "ptext arg option" "(ptext \<times> uuid arg) option"
  | GetProposal "uuid arg" "uuid arg" "uuid arg"
  | PostProposalConfirm "uuid arg" "uuid arg" "uuid arg" "ptext arg option" "(ptext \<times> uuid arg) option"

text \<open>\<open>None\<close> is a view that does not return. A request that nothing interrupts reads one state and one clock.\<close>

fun proposal_urls ::
  "proposal_transport \<Rightarrow> uuid option \<Rightarrow> proposal_request \<Rightarrow> ai_state \<Rightarrow> proposal_view ai_answer option" where
  "proposal_urls pt u (PostProposal p w raw header) s =
     Some (proposal_generate (pt_env pt) (pt_env pt) s (pt_throttled pt) (pt_generate_fields pt) u p w raw header s)"
| "proposal_urls pt u (GetProposal p w i) s = Some (proposal_detail (pt_env pt) u p w i s)"
| "proposal_urls pt u (PostProposalConfirm p w i raw header) s =
     proposal_confirm (pt_env pt) (pt_confirm_fields pt) u p w i raw header s"

fun proposal_scope :: "proposal_request \<Rightarrow> uuid arg \<times> uuid arg" where
  "proposal_scope (PostProposal p w _ _) = (p, w)"
| "proposal_scope (GetProposal p w _) = (p, w)"
| "proposal_scope (PostProposalConfirm p w _ _ _) = (p, w)"

text \<open>
  The service call a request asks for, if it is a mutation that is not throttled and whose body and
  header are accepted.
\<close>

datatype proposal_command =
    GenerateProposal uuid "uuid arg" "uuid arg" "ptext arg" "uuid arg"
  | ConfirmProposal uuid "uuid arg" "uuid arg" "uuid arg" "uuid arg" jval jval jval

definition exec_proposal_with :: "(ai_error + ('a \<times> ai_state)) option \<Rightarrow> (ai_error + ai_state) option" where
  "exec_proposal_with m = map_option (\<lambda>r. bindE r (\<lambda>(_, s). Inr s)) m"

fun exec_proposal :: "ai_env \<Rightarrow> proposal_command \<Rightarrow> ai_state \<Rightarrow> (ai_error + ai_state) option" where
  "exec_proposal env (GenerateProposal a p w sid key) s = exec_proposal_with (Some (generate_proposal env (Some a) p w sid key s))"
| "exec_proposal env (ConfirmProposal a p w i key revision payload confirmed) s =
     exec_proposal_with (confirm_proposal env (Some a) p w i key revision payload confirmed s)"

fun proposal_command_of :: "proposal_transport \<Rightarrow> uuid \<Rightarrow> proposal_request \<Rightarrow> proposal_command option" where
  "proposal_command_of pt u (PostProposal p w raw header) =
     (case require (\<not> pt_throttled pt) (Refused Throttled)
        (bindE (parse_body raw) (\<lambda>data.
         bindE (generate_proposal_input (pt_generate_fields pt) data) (\<lambda>sid.
         bindE (idempotency_key_header header) (\<lambda>key. Inr (sid, key))))) of
       Inl _ \<Rightarrow> None | Inr (sid, key) \<Rightarrow> Some (GenerateProposal u p w (Val sid) (Val key)))"
| "proposal_command_of pt u (GetProposal p w i) = None"
| "proposal_command_of pt u (PostProposalConfirm p w i raw header) =
     (case bindE (parse_body raw) (\<lambda>data.
        bindE (confirm_proposal_input (pt_confirm_fields pt) data) (\<lambda>vals.
        bindE (idempotency_key_header header) (\<lambda>key. Inr (vals, key)))) of
       Inl _ \<Rightarrow> None
     | Inr ((revision, payload, confirmed), key) \<Rightarrow>
         Some (ConfirmProposal u p w i (Val key) revision payload confirmed))"

subsection \<open>What the answers say\<close>

text \<open>No key and no value of a refused body is echoed: an error names documented fields only.\<close>

lemma safe_ai_input_discreet:
  assumes "safe_ai_input known declared data = Inl (Refused (Invalid ks))" "\<And>kvs xs. declared kvs = Inl xs \<Longrightarrow> xs \<subseteq> ascii ` set known"
  shows "ks \<subseteq> ascii ` set (''non_field_errors'' # known)"
  using assms by (auto simp: safe_ai_input_def split: jval.splits if_splits sum.splits)

lemma serialized_keeps [simp]: "snd (serialized env code p s) = s"
  by (simp add: serialized_def split: sum.split)

text \<open>A new proposal is answered 201, a replay 200 without a trace.\<close>

lemma generate_answer:
  assumes "proposal_generate env env' s0 throttled declared user pid wid raw header s = (Inr (code, v), s')"
  shows "code = 200 \<and> s' = s \<or> code = 201 \<and> ai_step s s'"
proof -
  obtain sid key p replayed s1 where
    g: "generate_proposal_at env env' s0 user pid wid (Val sid) (Val key) s = Inr ((p, replayed), s1)"
    and a: "serialized env' (if replayed then 200 else 201) p s1 = (Inr (code, v), s')"
    using assms by (auto simp: proposal_generate_def answered_proposal_def split: sum.splits)
  from a have "code = (if replayed then 200 else 201)" "s' = s1"
    by (auto simp: serialized_def split: sum.splits)
  moreover from g have "replayed \<Longrightarrow> s1 = s" by (cases rule: generate_proposal_cases) auto
  ultimately show ?thesis using ai_generate_step [OF g] by (cases replayed) auto
qed

text \<open>A confirmation is answered, and a fresh one said so explicitly.\<close>

lemma confirm_answer:
  assumes "proposal_confirm env declared user pid wid prop raw header s = Some (Inr (code, v), s')"
  shows "code = 200 \<and> s' = s \<or> code = 201 \<and> ai_step s s'"
proof -
  obtain rev payload confirmed key p replayed s1 where
    g: "confirm_proposal env user pid wid prop (Val key) rev payload confirmed s = Some (Inr ((p, replayed), s1))"
    and a: "serialized env (if replayed then 200 else 201) p s1 = (Inr (code, v), s')"
    using assms by (auto simp: proposal_confirm_def answered_proposal_def split: sum.splits)
  from a have "code = (if replayed then 200 else 201)" "s' = s1"
    by (auto simp: serialized_def split: sum.splits)
  moreover from g have "replayed \<Longrightarrow> s1 = s" by (cases rule: confirm_proposal_cases) auto
  ultimately show ?thesis using ai_confirm_step [OF g] by (cases replayed) auto
qed

end
