(* ===== verification/Api_Site.thy ===== *)
theory Api_Site
  imports Api_Theorems Api_Proposals
begin

text \<open>
  The whole of \<open>api/urls.py\<close> below \<open>v1/\<close>: the routes of the workspace, tasks and notifications
  applications and those of the AI proposals, over one state, with the command each request asks
  for. The proposal routes mirror their services as the others do.
\<close>

subsection \<open>The site\<close>

datatype api_request =
    Domain_Route request
  | Proposal_Route proposal_request

type_synonym api_answer = "(ai_failure + nat \<times> (payload + proposal_view)) \<times> ai_state"

definition domain_answer :: "payload answer \<Rightarrow> ai_state \<Rightarrow> api_answer" where
  "domain_answer ans s = (map_sum Refused (map_prod id Inl) (fst ans), s\<lparr>ai_db := snd ans\<rparr>)"

definition proposal_answer :: "proposal_view ai_answer \<Rightarrow> api_answer" where
  "proposal_answer ans = (map_sum id (map_prod id Inr) (fst ans), snd ans)"

fun api_v1 :: "transport \<Rightarrow> proposal_transport \<Rightarrow> uuid option \<Rightarrow> api_request \<Rightarrow> ai_state \<Rightarrow> api_answer option" where
  "api_v1 tr pt u (Domain_Route q) s = Some (domain_answer (dispatch tr u q (ai_db s)) s)"
| "api_v1 tr pt u (Proposal_Route q) s = map_option proposal_answer (proposal_urls pt u q s)"

fun api_scope :: "api_request \<Rightarrow> (uuid arg \<times> uuid arg) option" where
  "api_scope (Domain_Route q) = request_scope q"
| "api_scope (Proposal_Route q) = Some (proposal_scope q)"

datatype api_command =
    Domain_Command command
  | Proposal_Command proposal_command

fun api_command_of :: "proposal_transport \<Rightarrow> uuid \<Rightarrow> api_request \<Rightarrow> api_command option" where
  "api_command_of pt u (Domain_Route q) = map_option Domain_Command (request_command u q)"
| "api_command_of pt u (Proposal_Route q) = map_option Proposal_Command (proposal_command_of pt u q)"

text \<open>The transaction of a command: the state it commits, or that it fails; \<open>None\<close> if it never ends.\<close>

fun exec_api :: "transport \<Rightarrow> proposal_transport \<Rightarrow> api_command \<Rightarrow> ai_state \<Rightarrow> ai_state option option" where
  "exec_api tr pt (Domain_Command c) s =
     Some (case exec (tr_env tr) c (ai_db s) of Inl _ \<Rightarrow> None | Inr d \<Rightarrow> Some (s\<lparr>ai_db := d\<rparr>))"
| "exec_api tr pt (Proposal_Command c) s =
     map_option (\<lambda>r. case r of Inl _ \<Rightarrow> None | Inr s' \<Rightarrow> Some s') (exec_proposal (pt_env pt) c s)"

subsection \<open>What the proposal services return can be read\<close>

definition readable :: "ai_env \<Rightarrow> ai_proposal \<Rightarrow> bool" where
  "readable env p \<longleftrightarrow> recoverable p (e_now (ai_base env)) = Inr ()"

lemma serialize_readable: "readable env p \<Longrightarrow> \<exists>v. serialize_proposal env p = Inr v"
  by (simp add: readable_def serialize_proposal_def visible_def Let_def)

lemma visible_readable: "visible p (e_now (ai_base env)) = Inr v \<Longrightarrow> readable env v"
  by (auto simp: visible_def readable_def recoverable_def split: if_splits)

lemma replay_generation_readable:
  assumes "replay_generation env actor pid wid k canon s = Inr r"
  shows "\<exists>a w. ai_manager actor pid wid (ai_db s) = Inr (a, w)" "r = Inl p \<Longrightarrow> readable env p"
  using assms by (auto simp: replay_generation_def split: option.splits if_splits dest: visible_readable)

lemma generated_readable:
  assumes "generate_proposal env actor pid wid sid key s = Inr ((q, replayed), s')"
  shows "(\<exists>a w. ai_manager actor pid wid (ai_db s) = Inr (a, w)) \<and> readable env q"
proof -
  obtain scenario sid' brief k canon r where r: "replay_generation env actor pid wid k canon s = Inr r"
    and c: "(case r of Inl p \<Rightarrow> Inr ((p, True), s)
      | Inr _ \<Rightarrow> if ai_in_atomic env then Inl (ai_error VALIDATION_ERROR [])
          else bindE (fixture_payload env scenario brief) (\<lambda>payload.
            store_generation env actor pid wid k canon sid' payload s)) = Inr ((q, replayed), s')"
    using assms by (auto simp: generate_proposal_def generate_proposal_at_def split: arg.splits option.splits)
  show ?thesis
  proof (cases r)
    case (Inl p)
    with c replay_generation_readable [OF r] show ?thesis by simp
  next
    case (Inr x)
    with c obtain payload where "store_generation env actor pid wid k canon sid' payload s = Inr ((q, replayed), s')"
      by (auto split: if_splits)
    then obtain y where y: "replay_generation env actor pid wid k canon s = Inr y"
      and z: "(case y of Inl p \<Rightarrow> Inr ((p, True), s) | Inr (a, w) \<Rightarrow>
         require_some (w_profile w) (Raised IntegrityError) (\<lambda>profile.
         let p = new_proposal env a profile w sid' payload in
         bindE (write_proposals (ai_proposals s @ [p]) s) (\<lambda>s1.
         bindE (add_operation env 1 a OP_GENERATE k canon p s1) (\<lambda>s2. Inr ((p, False), s2))))) = Inr ((q, replayed), s')"
      by (auto simp: store_generation_def)
    from z have "y = Inl q \<or> ap_status q = AP_AVAILABLE"
      by (cases y) (auto simp: Let_def new_proposal_def)
    then have "readable env q"
    proof
      show "readable env q" if "y = Inl q" by (rule replay_generation_readable(2) [OF y that])
    qed (simp add: readable_def recoverable_def)
    with replay_generation_readable(1) [OF y] show ?thesis by simp
  qed
qed

lemma confirmed_readable:
  assumes "confirm_proposal env actor pid wid prop key revision payload confirmed s = Some (Inr ((q, replayed), s'))"
  shows "(\<exists>a w. ai_manager actor pid wid (ai_db s) = Inr (a, w)) \<and> readable env q"
proof -
  obtain k n plan norm r where r: "open_confirmation env actor pid wid prop k n norm s = Inr r"
    and c: "(case r of Inl p \<Rightarrow> Some (Inr ((p, True), s))
      | Inr (a, w, p, canon) \<Rightarrow> map_option (\<lambda>r. bindE (raising r) (\<lambda>g. finish_confirmation env a k canon p g s))
          (create_all (ai_base env) a w (start_progress plan (ai_db s)))) = Some (Inr ((q, replayed), s'))"
    using assms by (force simp: confirm_proposal_def bindE_def split: sum.splits prod.splits)
  have m: "\<exists>a w. ai_manager actor pid wid (ai_db s) = Inr (a, w)"
    and v: "\<And>p. r = Inl p \<Longrightarrow> readable env p"
    using r by (auto simp: open_confirmation_def Let_def dest: visible_readable split: if_splits)
  show ?thesis
  proof (cases r)
    case (Inl p)
    with c m v show ?thesis by simp
  next
    case (Inr x)
    then obtain a w p canon g where "finish_confirmation env a k canon p g s = Inr ((q, replayed), s')"
      using c by (cases x) auto
    then have "q = confirmed_row env (pg_created g) p" by (auto simp: finish_confirmation_def Let_def)
    then have "readable env q" by (simp add: readable_def recoverable_def confirmed_row_def days_def)
    with m show ?thesis by simp
  qed
qed

lemma confirm_ends: "\<exists>r. confirm_proposal env actor pid wid prop key revision payload confirmed s = Some r"
  using create_all_returns [OF edited_forest waiting_start]
  by (fastforce simp: confirm_proposal_def split: sum.splits)

subsection \<open>The proposal routes mirror their services\<close>

lemma manager_passes:
  assumes "db_ok (ai_db s)" "ai_manager (Some u) pid wid (ai_db s) = Inr (a, w)"
  shows "ai_permission (Some u) pid wid (ai_db s) = Inr ()"
  using assms(2)
  by (rule ai_manager_D) (auto simp: ai_permission_def dest: workspace_gates(3) [OF assms(1)])

lemma answered_readable:
  "m = Inr ((q, replayed), s') \<Longrightarrow> readable env q \<Longrightarrow> \<exists>code v. answered_proposal env m s = (Inr (code, v), s')"
  using serialize_readable [of env q] by (auto simp: answered_proposal_def serialized_def)

lemma proposal_request_keeps:
  assumes "proposal_command_of pt u q = None"
  shows "\<exists>ans. proposal_urls pt (Some u) q s = Some (ans, s)"
proof (cases q)
  case (PostProposal p w raw header)
  with assms show ?thesis
    by (cases "ai_permission (Some u) p w (ai_db s)")
      (auto simp: proposal_generate_def require_def split: sum.splits if_splits)
next
  case (GetProposal p w i)
  then show ?thesis by (auto simp: proposal_detail_def serialized_def split: sum.splits)
next
  case (PostProposalConfirm p w i raw header)
  with assms show ?thesis
    by (cases "ai_permission (Some u) p w (ai_db s)") (auto simp: proposal_confirm_def split: sum.splits)
qed

definition mirrors_proposal :: "proposal_view ai_answer option \<Rightarrow> (ai_error + ai_state) option \<Rightarrow> ai_state \<Rightarrow> bool" where
  "mirrors_proposal ans m s \<longleftrightarrow> (case m of
     None \<Rightarrow> False
   | Some (Inl _) \<Rightarrow> \<exists>e. ans = Some (Inl e, s)
   | Some (Inr s') \<Rightarrow> \<exists>code v. ans = Some (Inr (code, v), s'))"

lemma generate_mirrors:
  assumes ok: "db_ok (ai_db s)" and c: "proposal_command_of pt u (PostProposal p w raw header) = Some c"
  shows "mirrors_proposal (proposal_urls pt (Some u) (PostProposal p w raw header) s) (exec_proposal (pt_env pt) c s) s"
proof -
  obtain sid key data where i: "\<not> pt_throttled pt" "parse_body raw = Inr data"
    "generate_proposal_input (pt_generate_fields pt) data = Inr sid" "idempotency_key_header header = Inr key"
    "c = GenerateProposal u p w (Val sid) (Val key)"
    using c by (auto simp: require_def split: if_splits sum.splits)
  let ?m = "generate_proposal (pt_env pt) (Some u) p w (Val sid) (Val key) s"
  have g: "proposal_urls pt (Some u) (PostProposal p w raw header) s = Some (answered_proposal (pt_env pt) ?m s)"
    if "ai_permission (Some u) p w (ai_db s) = Inr ()"
    using i that by (simp add: proposal_generate_def require_def generate_proposal_def)
  show ?thesis
  proof (cases ?m)
    case (Inl e)
    with i g show ?thesis
      by (cases "ai_permission (Some u) p w (ai_db s)")
        (auto simp: mirrors_proposal_def exec_proposal_with_def answered_proposal_def proposal_generate_def)
  next
    case (Inr x)
    then obtain q replayed s' where m: "?m = Inr ((q, replayed), s')" by (cases x) auto
    note R = generated_readable [OF m]
    have "ai_permission (Some u) p w (ai_db s) = Inr ()" using R manager_passes [OF ok] by blast
    from g [OF this] answered_readable [OF m conjunct2 [OF R], of s] show ?thesis
      by (simp add: mirrors_proposal_def exec_proposal_with_def i(5) m)
  qed
qed

lemma confirm_mirrors:
  assumes ok: "db_ok (ai_db s)" and c: "proposal_command_of pt u (PostProposalConfirm p w i raw header) = Some c"
  shows "mirrors_proposal (proposal_urls pt (Some u) (PostProposalConfirm p w i raw header) s) (exec_proposal (pt_env pt) c s) s"
proof -
  obtain revision payload confirmed key data where i: "parse_body raw = Inr data"
    "confirm_proposal_input (pt_confirm_fields pt) data = Inr (revision, payload, confirmed)"
    "idempotency_key_header header = Inr key" "c = ConfirmProposal u p w i (Val key) revision payload confirmed"
    using c by (auto split: sum.splits)
  let ?m = "confirm_proposal (pt_env pt) (Some u) p w i (Val key) revision payload confirmed s"
  obtain r where r: "?m = Some r" using confirm_ends by blast
  have g: "proposal_urls pt (Some u) (PostProposalConfirm p w i raw header) s = Some (answered_proposal (pt_env pt) r s)"
    if "ai_permission (Some u) p w (ai_db s) = Inr ()"
    using i r that by (simp add: proposal_confirm_def)
  show ?thesis
  proof (cases r)
    case (Inl e)
    with i r g show ?thesis
      by (cases "ai_permission (Some u) p w (ai_db s)")
        (auto simp: mirrors_proposal_def exec_proposal_with_def answered_proposal_def proposal_confirm_def)
  next
    case (Inr x)
    then obtain q replayed s' where m: "?m = Some (Inr ((q, replayed), s'))" "r = Inr ((q, replayed), s')"
      using r by (cases x) auto
    note R = confirmed_readable [OF m(1)]
    have "ai_permission (Some u) p w (ai_db s) = Inr ()" using R manager_passes [OF ok] by blast
    from g [OF this] answered_readable [OF m(2) conjunct2 [OF R], of s] show ?thesis
      by (simp add: mirrors_proposal_def exec_proposal_with_def i(4) m)
  qed
qed

lemma proposal_request_mirrors:
  assumes "db_ok (ai_db s)" "proposal_command_of pt u q = Some c"
  shows "mirrors_proposal (proposal_urls pt (Some u) q s) (exec_proposal (pt_env pt) c s) s"
  using assms generate_mirrors confirm_mirrors by (cases q) (blast | simp)+

end
