(* ===== verification/Api_Properties.thy ===== *)
theory Api_Properties
  imports Api_Hints Api_Site
begin

text \<open>
  The properties of the HTTP interface, with their witnesses: a request commits exactly when its
  command or its proposal service does, outsiders learn nothing, the capability hints offer what succeeds, and a Task list
  is the filtered and ordered Workspace.
\<close>

subsection \<open>Requests and commands\<close>

lemma mirrors_effect:
  assumes "mirrors ans m s"
  shows "case effect m of Inl _ \<Rightarrow> \<exists>e. ans = (Inl e, s) | Inr s' \<Rightarrow> \<exists>code body. ans = (Inr (code, body), s')"
  using assms by (auto simp: mirrors_def effect_def bindE_def split: sum.splits)

lemma with_body_Some [simp]: "with_body m f = Some c \<longleftrightarrow> (\<exists>v. m = Inr v \<and> c = f v)"
  by (cases m) (auto simp: with_body_def)

lemma workspace_request_mirrors:
  assumes ok: "db_ok s" and c: "workspace_command u q = Some c"
  shows "case exec (tr_env tr) c s of
      Inl _ \<Rightarrow> \<exists>e. workspace_urls tr (Some u) q s = (Inl e, s)
    | Inr s' \<Rightarrow> \<exists>code body. workspace_urls tr (Some u) q s = (Inr (code, body), s')"
  using c
  by (cases q) (auto simp del: split_paired_Ex
      intro!: mirrors_effect simp: mirror_workspace_update [OF ok] mirror_workspace_lifecycle [OF ok]
        mirror_member_create [OF ok] mirror_member_update [OF ok] mirror_member_delete [OF ok])

lemma tasks_request_mirrors:
  assumes ok: "db_ok s" and c: "tasks_command u q = Some c"
  shows "case exec (tr_env tr) c s of
      Inl _ \<Rightarrow> \<exists>e. tasks_urls tr (Some u) q s = (Inl e, s)
    | Inr s' \<Rightarrow> \<exists>code body. tasks_urls tr (Some u) q s = (Inr (code, body), s')"
  using c
  by (cases q) (auto intro!: mirrors_effect simp: mirror_task_create [OF ok] mirror_task_update [OF ok]
        mirror_task_assign [OF ok] mirror_task_start [OF ok] mirror_deliverable_submit [OF ok]
        mirror_approve [OF ok] mirror_request_changes [OF ok] mirror_comment_create [OF ok]
        mirror_comment_update [OF ok] mirror_comment_delete [OF ok])

text \<open>A read, or a mutation whose body is refused, leaves the database alone.\<close>

lemma keeps_guarded: "(\<And>c. g = Inr c \<Longrightarrow> snd (k c s) = s) \<Longrightarrow> snd (guarded g k s) = s"
  by (cases g) (simp_all add: guarded_def)

lemma keeps_simps [simp]:
  "snd (handled h ans) = snd ans" "snd (sent f ans) = snd ans" "snd (answered code body s) = s"
  by (simp_all add: handled_def sent_def answered_def)

lemma with_body_None [simp]: "with_body m f = None \<longleftrightarrow> (\<forall>v. m \<noteq> Inr v)"
  by (cases m) (auto simp: with_body_def)

lemma workspace_request_keeps:
  "workspace_command u q = None \<Longrightarrow> workspace_scope q = Some x \<Longrightarrow> snd (workspace_urls tr (Some u) q s) = s"
  by (cases q) (auto simp: workspace_detail_def workspace_update_def workspace_archive_def
      workspace_restore_def workspace_lifecycle_def member_list_def member_rows_def member_create_def member_update_def
      intro!: keeps_guarded)

lemma tasks_request_keeps: "tasks_command u q = None \<Longrightarrow> snd (tasks_urls tr (Some u) q s) = s"
  by (cases q) (auto simp: task_list_def task_rows_def task_create_def task_detail_def task_update_def subtask_list_def subtask_rows_def
      task_assign_def task_start_def deliverable_list_def deliverable_rows_def deliverable_submit_def deliverable_approve_def
      deliverable_request_changes_def deliverable_review_def comment_list_def comment_rows_def comment_create_def
      comment_detail_def comment_update_def comment_delete_def intro!: keeps_guarded)

lemma domain_request_mirrors:
  assumes ok: "db_ok s" and sc: "request_scope q = Some scope"
  shows "case request_command u q of
      None \<Rightarrow> snd (dispatch tr (Some u) q s) = s
    | Some c \<Rightarrow> (case exec (tr_env tr) c s of
        Inl _ \<Rightarrow> \<exists>e. dispatch tr (Some u) q s = (Inl e, s)
      | Inr s' \<Rightarrow> \<exists>code body. dispatch tr (Some u) q s = (Inr (code, body), s'))"
proof (cases q)
  case (Workspace_App r)
  show ?thesis
  proof (cases "workspace_command u r")
    case None
    with Workspace_App sc show ?thesis by (simp add: workspace_request_keeps)
  next
    case (Some c)
    from workspace_request_mirrors [OF ok this, of tr] Some show ?thesis
      unfolding Workspace_App dispatch.simps by simp
  qed
next
  case (Tasks_App r)
  show ?thesis
  proof (cases "tasks_command u r")
    case None
    with Tasks_App show ?thesis by (simp add: tasks_request_keeps)
  next
    case (Some c)
    from tasks_request_mirrors [OF ok this, of tr] Some show ?thesis
      unfolding Tasks_App dispatch.simps by simp
  qed
next
  case (Notifications_App r)
  with sc show ?thesis by simp
qed

text \<open>
  C8. The HTTP interface adds nothing to the services and takes nothing away. In any state whose
  database satisfies its constraints, as every reachable one does, a request of a user that nothing
  interrupts, on a route nested in a Workspace, those of AI proposals included, leaves the state
  unchanged if it is a read, if its body or its idempotency header is refused, or if it would
  generate a proposal and is throttled. Every other one has a command of the system or a proposal
  service behind it, whose transaction always ends; its view succeeds exactly when that transaction
  would commit, and commits the same state: no permission class, queryset or serializer in between
  blocks what the service accepts, and no failed request leaves a trace.
\<close>

theorem requests_commit_as_commands:
  assumes "db_ok (ai_db s)" "api_scope q = Some scope"
  shows "case api_command_of pt u q of
      None \<Rightarrow> \<exists>ans. api_v1 tr pt (Some u) q s = Some (ans, s)
    | Some c \<Rightarrow> (case exec_api tr pt c s of
        None \<Rightarrow> False
      | Some None \<Rightarrow> \<exists>e. api_v1 tr pt (Some u) q s = Some (Inl e, s)
      | Some (Some s') \<Rightarrow> \<exists>code body. api_v1 tr pt (Some u) q s = Some (Inr (code, body), s'))"
proof -
  note ok = assms(1)
  show ?thesis
  proof (cases q)
    case (Domain_Route r)
    with assms(2) domain_request_mirrors [OF ok, of r scope tr u] show ?thesis
      by (cases "request_command u r") (auto simp: domain_answer_def split: sum.splits)
  next
    case (Proposal_Route r)
    show ?thesis
    proof (cases "proposal_command_of pt u r")
      case None
      with proposal_request_keeps [OF this, of s] Proposal_Route show ?thesis by (auto simp: proposal_answer_def)
    next
      case (Some c)
      with proposal_request_mirrors [OF ok this] Proposal_Route show ?thesis
        by (auto simp: mirrors_proposal_def proposal_answer_def split: option.splits sum.splits)
    qed
  qed
qed

lemma requests_commit_as_commands_witness:
  "\<exists>s s' code body tr pt. ai_reachable s
     \<and> exec_api tr pt (Domain_Command (StartTask 3 (Val 1000) (Val 2000) (Val 8000))) s = Some (Some s')
     \<and> api_v1 tr pt (Some 3) (Domain_Route (Tasks_App (PostStart (Val 1000) (Val 2000) (Val 8000) empty_body))) s
         = Some (Inr (code, body), s')"
proof -
  obtain d d' where re: "reachable d" and ex: "exec (fst (story ! 9)) (snd (story ! 9)) d = Inr d'"
    by (rule story_at [of 9]) simp_all
  let ?s = "\<lparr>ai_db = d, ai_proposals = [], ai_operations = []\<rparr>"
  let ?q = "Domain_Route (Tasks_App (PostStart (Val 1000) (Val 2000) (Val 8000) empty_body))"
  let ?c = "StartTask 3 (Val 1000) (Val 2000) (Val 8000)"
  obtain pt :: proposal_transport where True by blast
  have r: "ai_reachable ?s" using ai_reachable_db [OF re] .
  let ?tr = "one_page\<lparr>tr_env := env_at 10\<rparr>"
  have "exec (tr_env ?tr) ?c d = Inr d'" using ex by (simp add: story_def del: exec.simps)
  then have x: "exec_api ?tr pt (Domain_Command ?c) ?s = Some (Some (?s\<lparr>ai_db := d'\<rparr>))" by (simp del: exec.simps)
  have "api_command_of pt 3 ?q = Some (Domain_Command ?c)" "api_scope ?q = Some (Val 1000, Val 2000)"
    by (simp_all add: with_body_def)
  from requests_commit_as_commands [OF ai_constraints.ai_always [OF r] this(2), where u = 3 and tr = ?tr and pt = pt] this(1) x
  have "\<exists>code body. api_v1 ?tr pt (Some 3) ?q ?s = Some (Inr (code, body), ?s\<lparr>ai_db := d'\<rparr>)"
    by (simp add: with_body_def del: exec_api.simps api_v1.simps split_paired_Ex)
  with r x show ?thesis by blast
qed

subsection \<open>Outsiders\<close>

lemma task_permission_fails:
  assumes "has_workspace_read_access user pid wid s = Inl e"
  shows "can_edit_workspace_metadata user pid wid s = Inl e"
    "can_manage_workspace_members_permission b user pid wid s = Inl e"
    "can_manage_workspace_lifecycle_permission user pid wid s = Inl e"
    "has_task_read_access user pid wid tid s = Inl e"
    "can_manage_workspace_tasks_permission user pid wid x s = Inl e"
    "can_execute_workspace_tasks_permission user pid wid tid s = Inl e"
    "can_review_workspace_deliverables_permission user pid wid tid s = Inl e"
    "has_comment_access safe user pid wid tid s = Inl e"
  using assms by (simp_all add: permission_defs)

lemma guarded_Inl [simp]: "guarded (Inl e) k s = (Inl e, s)"
  by (simp add: guarded_def)

lemma refused_everywhere:
  assumes a: "has_workspace_read_access user pid wid s = Inl e" and e: "e \<in> {NotFound, Denied}"
    and q: "request_scope q = Some (pid, wid)"
  shows "dispatch tr user q s = (Inl e, s)"
proof -
  have h: "handle_exception e = e" "task_handle_exception e = e" using e by auto
  note f = task_permission_fails [OF a]
  show ?thesis
  proof (cases q)
    case (Workspace_App r)
    with q a f h show ?thesis
      by (cases r) (simp_all add: workspace_detail_def workspace_update_def workspace_archive_def
          workspace_restore_def workspace_lifecycle_def member_list_def member_rows_def member_create_def member_update_def
          member_delete_def handled_def sent_def)
  next
    case (Tasks_App r)
    with q a f h show ?thesis
      by (cases r) (simp_all add: task_list_def task_rows_def task_create_def task_detail_def task_update_def subtask_list_def subtask_rows_def
          task_assign_def task_start_def deliverable_list_def deliverable_rows_def deliverable_submit_def deliverable_approve_def
          deliverable_request_changes_def deliverable_review_def comment_list_def comment_rows_def comment_create_def
          comment_detail_def comment_update_def comment_delete_def handled_def sent_def)
  next
    case (Notifications_App r)
    with q show ?thesis by simp
  qed
qed

lemma proposal_refused_everywhere:
  assumes a: "has_workspace_read_access user pid wid (ai_db s) = Inl e" and e: "e \<in> {NotFound, Denied}"
    and q: "proposal_scope q = (pid, wid)"
  shows "proposal_urls pt user q s = Some (Inl (Refused e), s)"
proof -
  have "ai_permission user pid wid (ai_db s) = Inl (Refused e)"
    using e by (auto simp: ai_permission_def task_permission_fails(5) [OF a])
  with q show ?thesis by (cases q) (simp_all add: proposal_generate_def proposal_detail_def proposal_confirm_def)
qed

lemma api_refused_everywhere:
  assumes a: "has_workspace_read_access user pid wid (ai_db s) = Inl e" and e: "e \<in> {NotFound, Denied}"
    and q: "api_scope q = Some (pid, wid)"
  shows "api_v1 tr pt user q s = Some (Inl (Refused e), s)"
  using q refused_everywhere [OF a e] proposal_refused_everywhere [OF a e]
  by (cases q) (simp_all add: domain_answer_def proposal_answer_def del: dispatch.simps proposal_urls.simps)

text \<open>
  C9. Outsiders cannot tell what exists. A request on any route nested in a Workspace, those of AI
  proposals included, by somebody without authority over that Workspace of that Profile, is
  answered 404 if the requester is an active user and 403 otherwise, with the state unchanged: the
  answer does not depend on the route, the body, a throttle, or on whether the Profile, the
  Workspace or anything in it exists.
\<close>

theorem outsiders_see_nothing:
  assumes "api_scope q = Some (pid, wid)"
    and "\<forall>u p w a. user = Some u \<and> pid = Val p \<and> wid = Val w \<longrightarrow> \<not> has_authority (ai_db s) u p w a"
  shows "api_v1 tr pt user q s =
    Some (Inl (Refused (if \<exists>u. user = Some u \<and> user_active (ai_db s) u then NotFound else Denied)), s)"
proof (cases "\<exists>u. user = Some u \<and> user_active (ai_db s) u")
  case True
  then obtain u where u: "user = Some u" "user_active (ai_db s) u" by blast
  have "has_workspace_read_access (Some u) pid wid (ai_db s) = Inl NotFound"
    using u assms(2) by (intro outsider_not_found) auto
  with api_refused_everywhere [OF _ _ assms(1)] u show ?thesis by auto
next
  case False
  then have "has_workspace_read_access user pid wid (ai_db s) = Inl Denied" by (intro inactive_denied) blast
  from api_refused_everywhere [OF this _ assms(1)] False show ?thesis by auto
qed

lemma outsiders_see_nothing_witness:
  "\<forall>tr pt. let s = \<lparr>ai_db = ex_db, ai_proposals = [], ai_operations = []\<rparr>;
       start = Domain_Route (Tasks_App (PostStart (Val 10) (Val 20) (Val 31) empty_body));
       proposal = Proposal_Route (GetProposal (Val 10) (Val 20) (Val 7)) in
     api_v1 tr pt (Some 5) start s = Some (Inl (Refused NotFound), s)
     \<and> api_v1 tr pt (Some 5) proposal s = Some (Inl (Refused NotFound), s)
     \<and> api_v1 tr pt None proposal s = Some (Inl (Refused Denied), s)"
proof (intro allI)
  fix tr pt
  let ?s = "\<lparr>ai_db = ex_db, ai_proposals = [], ai_operations = []\<rparr>"
  let ?start = "Domain_Route (Tasks_App (PostStart (Val 10) (Val 20) (Val 31) empty_body))"
  let ?proposal = "Proposal_Route (GetProposal (Val 10) (Val 20) (Val 7))"
  have no: "\<not> has_authority ex_db 5 10 20 a" for a
    by (cases a) (simp_all add: holds_profile_role_def ex_db_def mk_membership_def)
  have "user_active ex_db 5" by (simp add: user_active_def ex_db_def mk_user_def)
  with outsiders_see_nothing [of ?start "Val 10" "Val 20" "Some 5" ?s tr pt]
    outsiders_see_nothing [of ?proposal "Val 10" "Val 20" "Some 5" ?s tr pt]
    outsiders_see_nothing [of ?proposal "Val 10" "Val 20" None ?s tr pt] no
  show "let s = ?s; start = ?start; proposal = ?proposal in
     api_v1 tr pt (Some 5) start s = Some (Inl (Refused NotFound), s)
     \<and> api_v1 tr pt (Some 5) proposal s = Some (Inl (Refused NotFound), s)
     \<and> api_v1 tr pt None proposal s = Some (Inl (Refused Denied), s)"
    by (simp add: Let_def del: api_v1.simps)
qed

end
