(* ===== verification/Spec2Isabelle.thy ===== *)
theory Spec2Isabelle
  imports Access_Theorems Governance_Theorems Invitation_Theorems Task_Theorems Comment_Theorems
    Proposal_Properties Account_Properties Ownership_Theorems Api_Properties
begin

text \<open>
  HustlyTasker is a Django service in which teams (\<open>Profile\<close>) run monthly \<open>Workspace\<close>s of Tasks.
  This development models the Python services under \<open>src/backend/apps\<close> as state transformers over
  the relational database and proves what they promise.

  \<^bold>\<open>How the code is represented.\<close>
  \<^item> The database is the record \<open>db\<close>: one list of rows per table, one record per model class
    (\<open>Schema\<close>). The constraints of each model's \<open>Meta\<close> are a predicate \<open>*_ok\<close>; a write that would
    violate one is \<open>IntegrityError\<close> (\<open>Tables\<close>, which states the interface \<open>table\<close> of a table and
    interprets it for all of them). \<open>full_clean\<close> and \<open>clean\<close> are functions returning the first
    offending field as \<open>ValidationError\<close>, in Django's order: fields, \<open>clean\<close>, unique checks.
  \<^item> A service is a function \<open>... \<Rightarrow> db \<Rightarrow> error + ('a \<times> db)\<close>: \<open>Inl\<close> is the exception raised, which
    rolls \<open>transaction.atomic\<close> back, \<open>Inr\<close> the value returned with the committed database. Three
    invitation services commit and then raise; their value is itself an \<open>error + 'a\<close>.
  \<^item> An argument that a field conversion may reject is an \<open>'a arg\<close>; \<open>Malformed\<close> takes the branch of
    the code's \<open>except (TypeError, ValueError, ValidationError)\<close>.
  \<^item> \<open>env\<close> holds what a call reads from outside the database: one clock reading for the call, the
    identifiers \<open>uuid4\<close> draws (\<open>e_uuid env k\<close> is the \<open>k\<close>-th), the token source, and the library
    functions whose tables or algorithms are not part of the program (\<open>casefold\<close>, the database's
    \<open>iexact\<close>, SHA-256, the e-mail validator, the mail backend). Nothing is assumed of them.
  \<^item> \<open>select_for_update\<close> is not a state change: a call runs between two commits of others, and the
    one service family whose reads are spread over several moments, the shared lock of Workspace
    mutations, is also modelled with one database per moment (\<open>lock_workspace_mutation_context_at\<close>).

  \<^bold>\<open>The parts of the program and their theories.\<close>
  \<^item> \<open>workspace/access.py\<close>: \<open>Workspace_Access\<close> (verified contexts, resolvers, visibility, the
    capability predicates), with the specification \<open>has_authority\<close>; \<open>Access_Theorems\<close>.
  \<^item> \<open>workspace/models.py\<close> and \<open>workspace/services.py\<close>: \<open>Workspace_Models\<close>, \<open>Workspace_Services\<close>
    (Profiles, memberships, Workspaces, Workspace members, the mutation lock, audit records).
  \<^item> \<open>workspace/invitation_*.py\<close>, \<open>accounts/identity.py\<close>, \<open>common/email_delivery.py\<close>: \<open>Invitations\<close>,
    and \<open>Invitation_Effects\<close> with what each service checks and writes.
  \<^item> \<open>tasks/models.py\<close>, \<open>reviews/models.py\<close>: \<open>Task_Models\<close>, \<open>Task_Hierarchy\<close> (the bounded parent walk
    against the chain of ancestors).
  \<^item> \<open>tasks/services.py\<close>, \<open>tasks/comment_services.py\<close>, \<open>tasks/access.py\<close>: \<open>Task_Services\<close>, \<open>Comments\<close>,
    with \<open>Task_Effects\<close>; \<open>notifications/*.py\<close>: \<open>Notifications\<close>.
  \<^item> \<open>ai/contracts.py\<close>, \<open>ai/errors.py\<close>, \<open>ai/validation.py\<close>: \<open>Plan_Contract\<close>, over \<open>Json_Text\<close> (the JSON
    texts, encoded and decoded) and \<open>Civil_Time\<close> (instants as RFC 3339 texts); \<open>ai/providers.py\<close> and
    \<open>ai/services.py\<close>: \<open>Fixture_Service\<close>; \<open>ai/models.py\<close> and \<open>ai/durable_services.py\<close>:
    \<open>Proposal_Services\<close>, whose state \<open>ai_state\<close> is a \<open>db\<close> with the tables of proposals and operations.
    An \<open>AIError\<close> is a code and the sorted contract fields it names; other exceptions are \<open>Raised\<close>.
    \<open>generate_proposal_at\<close> has one state for each of its two transactions.
  \<^item> \<open>accounts/models.py\<close>, \<open>accounts/security_services.py\<close>, \<open>accounts/email_delivery.py\<close>:
    \<open>Account_Security\<close> (saving an account and the tokens that revokes, requests, confirmations and
    deliveries of e-mail verifications and password resets), with the status codes of their views,
    the whole of \<open>PasswordResetRequestView\<close> with its serializer and throttles,
    \<open>LoginSerializer.validate\<close> and the keys of \<open>security_throttles.py\<close>. Its state \<open>account_state\<close> is a
    \<open>db\<close> with the token table; the password hasher, the validators and \<open>authenticate\<close> are parameters.
    \<open>Account_Effects\<close> states what each service checks and writes.
  \<^item> The HTTP interface, \<open>Api_*\<close>. \<open>Api_Permissions\<close>: \<open>workspace/permissions.py\<close>, \<open>tasks/permissions.py\<close>,
    \<open>handle_exception\<close> of the view mixins, \<open>StrictInputSerializer\<close>. \<open>Api_Serializers\<close>: the read
    serializers with their capability hints. \<open>Api_Workspace\<close>, \<open>Api_Tasks\<close>: one definition per view and
    method of \<open>workspace/views.py\<close>, \<open>tasks/views.py\<close>, \<open>tasks/comment_views.py\<close> and
    \<open>notifications/views.py\<close>; a list view \<open>*_list\<close> answers the page of its rows \<open>*_rows\<close> that the
    paginator, set as in \<open>api/pagination.py\<close>, cuts out. \<open>Api_Routes\<close>: the \<open>urls.py\<close> files of these three
    applications as \<open>dispatch\<close>. \<open>Api_Proposals\<close>: \<open>ai/api.py\<close> and \<open>ai/urls.py\<close>. \<open>Api_Site\<close>: \<open>api/urls.py\<close>, all the
    tenant routes over one state, as \<open>api_v1\<close>.
    A request carries what REST framework makes of the declared fields of its body, its answer is an
    \<open>api_exception\<close> or a status code with a representation, with the database left behind.
  \<^item> \<open>System\<close> composes all services into one step relation: a \<open>command\<close> names a service call,
    \<open>exec\<close> runs it, \<open>reachable\<close> closes a freshly migrated database under committed calls. The
    accounts are what they are in these steps: what saves, deactivations and confirmations do to
    them is in the steps of \<open>account_reachable\<close> (\<open>Account_System\<close>), which contain these. The
    locales \<open>invariant\<close> and \<open>dependent_invariant\<close> are the interface of state invariants; they are
    interpreted for the constraints (\<open>System\<close>), ownership (\<open>Ownership\<close>, over the membership rows,
    because an account may be deactivated at any time), the workflow tables
    (\<open>Workflow\<close>), the hierarchy (\<open>Task_Evolution\<close>), rows (\<open>Task_Theorems\<close>) and comments.
    \<open>Proposal_System\<close> adds the AI services as steps of \<open>ai_state\<close>; its locale \<open>audited_invariant\<close> lifts
    invariants of the database to them. \<open>Account_System\<close> does the same for the account services with
    \<open>account_invariant\<close>, for invariants that do not look at the accounts: constraints, hierarchy,
    workflow and ownership.
  \<^item> \<open>Fixtures\<close> and \<open>Scenario\<close> hold a concrete database, a concrete environment and a run of twelve
    commands from an empty database, on which the witnesses evaluate.

  \<^bold>\<open>What the lemmas show.\<close> \<open>Access_Theorems\<close>: resolving a context is the same as having authority,
  and capabilities fail closed. \<open>Tenant_Theorems\<close>: tenant isolation, the lock never broadens an
  authority, only live scopes change, every change leaves an audit record. \<open>Governance_Theorems\<close>:
  role ceilings, what a membership change may do and stores, lifecycle round trips, the outcome of every branch of a
  creation. \<open>Invitation_Theorems\<close>: who joins by which token, single use, expiry, limits.
  \<open>Task_Theorems\<close>: the services refine a board of statuses; the hierarchy; the meaning of each
  status; four eyes. \<open>Record_Theorems\<close>, \<open>Comment_Theorems\<close>: recipients of notifications, what a
  reader sees, ownership and form of comments. \<open>Json_Roundtrip\<close> and \<open>Civil_Time\<close>: decoding undoes
  encoding. \<open>Plan_Theorems\<close>: accepted plans are bounded forests and their stored form is read back as
  the same plan. \<open>Proposal_Theorems\<close>: the creation loop of a confirmation ends and creates the plan.
  \<open>Proposal_System\<close>: what holds in every reachable state of proposals. \<open>Proposal_Properties\<close> states the
  five properties of proposals and evaluates a run: generation, an edited payload, confirmation.
  \<open>Account_System\<close> and \<open>Account_Properties\<close>: a verified address has a consumed token to prove it, a
  pending token matches the address and password its account has now, what a password reset
  requires and does, and that what the reset endpoint answers depends on the request alone.
  \<open>Ownership_Theorems\<close>: every Profile keeps an Owner and every Workspace a managing owner as rows,
  whatever happens to the accounts, and no command takes the last usable Owner away.
  \<open>Api_Theorems\<close>: whoever may run a service passes the gates in front of it, view by view, in the
  calculus \<open>mirrors\<close>, and \<open>Api_Site\<close> the same for proposals. \<open>Api_Properties\<close>: a request commits exactly
  as its command or proposal service does, and outsiders get the same answer on every route.
  \<open>Api_Hints\<close>: a hint offers what would succeed, and a page of a list shows the Workspace's Tasks as
  their details do.

  \<^bold>\<open>Bounds.\<close> The loops of the services are structural recursions, or walks that end by their depth
  bound (\<open>parent_walk\<close>, \<open>walk_parents\<close>) or by the length of the text (\<open>scan_string\<close>). Fuel is used once, in
  the mutually recursive scanner of JSON: twice the length of the text and one is enough, because
  every value consumes a character (\<open>scan_fuel\<close>). The \<open>while pending\<close> loop of a confirmation is a
  \<open>partial_function\<close> whose value \<open>None\<close> is not returning; it is proved to return.

  \<^bold>\<open>Not modelled.\<close> What Django and REST framework do with a request around the views: sessions, the
  CSRF check, the coercion of declared fields, the arithmetic of page numbers and the links between
  pages, the throttle caches (where a view depends on one of these, its verdict is a parameter),
  rendering, \<open>HEAD\<close> and \<open>OPTIONS\<close>; settings; migrations; the forms of the admin (what one saves of an
  account is a step of \<open>account_reachable\<close>, what one saves of other models is not a step); account registration (the model of an account has no user name); the models of \<open>clients\<close> and
  \<open>finance\<close>, which no code uses; the frontend, the scripts and the agent skills. Python's limits on
  recursion depth, the overflow of a \<open>datetime\<close> after the year 9999 when an expiry is computed, and
  the reordering of keys in stored JSON are not modelled.
\<close>

end
